(* ===== verification/Prelude.thy ===== *)
theory Prelude
  imports Main "HOL-Library.Word" "HOL-Library.AList" "HOL-Library.Multiset"
begin

text \<open>
  Shared vocabulary of the development: the outcome of a Go call (a returned value, a
  returned error or a panic), Go maps as association lists, and the key/value store
  interface with the lemmas that every client of a store uses.
\<close>

section \<open>Automation\<close>

named_theorems go_simps \<open>evaluation of the Go building blocks\<close>

section \<open>Outcomes of a Go call\<close>

text \<open>
  A Go function of result type \<open>(T, error)\<close> returns a value, returns an error, or panics
  (an index or slice bound out of range, a write to a nil map, a nil dereference).
\<close>

datatype ('e, 'a) go = Panic | Err 'e | Ret 'a

fun go_bind :: "('e, 'a) go \<Rightarrow> ('a \<Rightarrow> ('e, 'b) go) \<Rightarrow> ('e, 'b) go" where
  "go_bind Panic f = Panic"
| "go_bind (Err e) f = Err e"
| "go_bind (Ret a) f = f a"

lemma go_bind_eq_Ret [simp]:
  "go_bind m f = Ret b \<longleftrightarrow> (\<exists>a. m = Ret a \<and> f a = Ret b)"
  by (cases m) auto

lemma go_bind_eq_Panic [simp]:
  "go_bind m f = Panic \<longleftrightarrow> m = Panic \<or> (\<exists>a. m = Ret a \<and> f a = Panic)"
  by (cases m) auto

text \<open>\<open>for _, x := range xs\<close> with an early return on the first error.\<close>

fun go_map :: "('a \<Rightarrow> ('e, 'b) go) \<Rightarrow> 'a list \<Rightarrow> ('e, 'b list) go" where
  "go_map f [] = Ret []"
| "go_map f (x # xs) = go_bind (f x) (\<lambda>y. go_bind (go_map f xs) (\<lambda>ys. Ret (y # ys)))"

lemma go_map_Ret_iff: "go_map f xs = Ret ys \<longleftrightarrow> list_all2 (\<lambda>x y. f x = Ret y) xs ys"
  by (induction xs arbitrary: ys) (auto simp: list_all2_Cons1)

lemma go_map_all_Ret: "(\<And>x. x \<in> set xs \<Longrightarrow> f x = Ret (g x)) \<Longrightarrow> go_map f xs = Ret (map g xs)"
  by (induction xs) auto

section \<open>Go maps\<close>

text \<open>
  A Go map is an association list: lookup is \<^const>\<open>map_of\<close>, assignment and deletion are
  \<^const>\<open>AList.update\<close> and \<^const>\<open>AList.delete\<close>. The position of an entry is the order in
  which one \<open>range\<close> over the map visits it; Go leaves that order open, so a statement about
  a range loop quantifies over the list.
\<close>

type_synonym ('k, 'v) gomap = "('k \<times> 'v) list"

abbreviation gm_ok :: "('k, 'v) gomap \<Rightarrow> bool" where
  "gm_ok m \<equiv> distinct (map fst m)"

abbreviation gm_dom :: "('k, 'v) gomap \<Rightarrow> 'k set" where
  "gm_dom m \<equiv> fst ` set m"

lemma gm_ok_update [intro, simp]: "gm_ok m \<Longrightarrow> gm_ok (AList.update k v m)"
  by (rule distinct_update)

lemma gm_ok_delete [intro, simp]: "gm_ok m \<Longrightarrow> gm_ok (AList.delete k m)"
  by (rule distinct_delete)

lemma gm_dom_update [simp]: "gm_dom (AList.update k v m) = insert k (gm_dom m)"
  by (simp add: dom_update)

lemma gm_dom_delete [simp]: "gm_dom (AList.delete k m) = gm_dom m - {k}"
  by (force simp: AList.delete_eq)

lemma gm_get_update: "map_of (AList.update k v m) k' = (if k' = k then Some v else map_of m k')"
  by (simp add: update_conv')

lemma gm_get_delete: "map_of (AList.delete k m) k' = (if k' = k then None else map_of m k')"
  by (simp add: delete_conv')

lemma gm_get_in: "gm_ok m \<Longrightarrow> map_of m k = Some v \<longleftrightarrow> (k, v) \<in> set m"
  by simp

lemma gm_get_None: "map_of m k = None \<longleftrightarrow> k \<notin> gm_dom m"
  by (simp add: map_of_eq_None_iff)

lemma gm_ok_map_filter [simp]: "gm_ok m \<Longrightarrow> gm_ok (filter P m)"
  by (induction m) auto

section \<open>The key/value store interface\<close>

text \<open>
  What a client of a keyed container relies on: a read after a write or a deletion. The
  lemmas proved here are used for Go maps and for the \<open>Properties\<close> container alike.
\<close>

locale kv_store =
  fixes lookup :: "'m \<Rightarrow> 'k \<Rightarrow> 'v option"
    and store :: "'k \<Rightarrow> 'v \<Rightarrow> 'm \<Rightarrow> 'm"
    and remove :: "'k \<Rightarrow> 'm \<Rightarrow> 'm"
  assumes lookup_store: "lookup (store k v m) k' = (if k' = k then Some v else lookup m k')"
    and lookup_remove: "lookup (remove k m) k' = (if k' = k then None else lookup m k')"
begin

lemma last_write_wins: "lookup (store k v (store k v' m)) = lookup (store k v m)"
  by (rule ext) (simp add: lookup_store)

lemma stores_commute: "k \<noteq> k' \<Longrightarrow> lookup (store k v (store k' v' m)) = lookup (store k' v' (store k v m))"
  by (rule ext) (simp add: lookup_store)

lemma lookup_store_all:
  "lookup (fold (\<lambda>(k, v). store k v) kvs m) k =
     (case map_of (rev kvs) k of Some v \<Rightarrow> Some v | None \<Rightarrow> lookup m k)"
proof (induction kvs arbitrary: m)
  case Nil
  then show ?case by simp
next
  case (Cons kv kvs)
  then show ?case
    by (cases kv) (auto simp: lookup_store map_add_def split: option.splits)
qed

lemma lookup_store_all_distinct:
  assumes "distinct (map fst kvs)" and "(k, v) \<in> set kvs"
  shows "lookup (fold (\<lambda>(k, v). store k v) kvs m) k = Some v"
proof -
  have "distinct (map fst (rev kvs))" and "(k, v) \<in> set (rev kvs)"
    using assms by (simp_all add: rev_map [symmetric])
  then have "map_of (rev kvs) k = Some v" by simp
  then show ?thesis by (simp add: lookup_store_all)
qed

lemma lookup_remove_all: "lookup (fold remove ks m) k = (if k \<in> set ks then None else lookup m k)"
  by (induction ks arbitrary: m) (auto simp: lookup_remove)

end

interpretation gm: kv_store map_of AList.update AList.delete
  by unfold_locales (simp_all add: gm_get_update gm_get_delete)

section \<open>Lists\<close>

lemma sorted_key_distinct_unique:
  assumes "sorted (map f xs)" "sorted (map f ys)" "distinct (map f xs)"
    and "mset xs = mset ys"
  shows "xs = ys"
proof (rule map_inj_on [where f = f])
  have "mset (map f xs) = mset (map f ys)" using assms(4) by simp
  then show "map f xs = map f ys"
    using assms(1,2) by (metis properties_for_sort sorted_sort_id)
  show "inj_on f (set xs \<union> set ys)"
    using assms(3,4) by (metis Un_absorb distinct_map set_mset_mset)
qed

lemma sort_key_order_irrelevant:
  assumes "mset xs = mset ys" "distinct (map f xs)"
  shows "sort_key f xs = sort_key f ys"
proof (rule sorted_key_distinct_unique [where f = f])
  have "mset (map f (sort_key f xs)) = mset (map f xs)" by simp
  then show "distinct (map f (sort_key f xs))"
    using assms(2) by (metis distinct_sort mset_eq_imp_distinct_iff)
qed (use assms(1) in simp_all)

lemma sort_key_snoc_max:
  assumes "distinct (map f (xs @ [x]))" "\<forall>y \<in> set xs. f y < f x"
  shows "sort_key f (xs @ [x]) = sort_key f xs @ [x]"
proof (rule sorted_key_distinct_unique [where f = f])
  show "sorted (map f (sort_key f xs @ [x]))"
    using assms(2) by (auto simp: sorted_append less_imp_le)
  have "mset (map f (sort_key f (xs @ [x]))) = mset (map f (xs @ [x]))" by simp
  then show "distinct (map f (sort_key f (xs @ [x])))"
    using assms(1) by (metis distinct_sort mset_eq_imp_distinct_iff)
qed simp_all

lemma update_fresh: "k \<notin> gm_dom m \<Longrightarrow> AList.update k v m = m @ [(k, v)]"
  by (induction m) auto

lemma map_fst_update: "map fst (AList.update k v m) = (if k \<in> gm_dom m then map fst m else map fst m @ [k])"
  by (induction m) auto

lemma set_updateD: "x \<in> set (AList.update k v m) \<Longrightarrow> x = (k, v) \<or> x \<in> set m"
  by (induction m) (auto split: if_splits)

lemma set_deleteD: "x \<in> set (AList.delete k m) \<Longrightarrow> x \<in> set m \<and> fst x \<noteq> k"
  by (auto simp: AList.delete_eq)

lemma map_fst_delete: "map fst (AList.delete k m) = filter (\<lambda>k'. k' \<noteq> k) (map fst m)"
  by (induction m) auto

section \<open>Stores that remember the order of first insertion\<close>

text \<open>
  \<open>room m n\<close> says that the store is well formed and takes \<open>n\<close> more insertions. The order of the
  keys is the order of their first insertion; overwriting keeps a key where it is, removing
  and inserting again moves it to the end.
\<close>

locale ordered_store = kv_store lookup store remove
  for lookup :: "'m \<Rightarrow> 'k \<Rightarrow> 'v option" and store :: "'k \<Rightarrow> 'v \<Rightarrow> 'm \<Rightarrow> 'm" and remove :: "'k \<Rightarrow> 'm \<Rightarrow> 'm" +
  fixes order :: "'m \<Rightarrow> 'k list" and room :: "'m \<Rightarrow> nat \<Rightarrow> bool"
  assumes order_store: "room m (Suc n) \<Longrightarrow> order (store k v m) = (if k \<in> set (order m) then order m else order m @ [k])"
    and room_store: "room m (Suc n) \<Longrightarrow> room (store k v m) n"
    and order_remove: "room m n \<Longrightarrow> order (remove k m) = filter (\<lambda>k'. k' \<noteq> k) (order m)"
    and room_remove: "room m n \<Longrightarrow> room (remove k m) n"
    and order_lookup: "room m n \<Longrightarrow> set (order m) = {k. lookup m k \<noteq> None}"
    and order_distinct: "room m n \<Longrightarrow> distinct (order m)"
begin

lemma room_store_all: "room m (length kvs + n) \<Longrightarrow> room (fold (\<lambda>(k, v). store k v) kvs m) n"
proof (induction kvs arbitrary: m)
  case (Cons kv kvs)
  then have "room (store (fst kv) (snd kv) m) (length kvs + n)" by (intro room_store) simp
  then show ?case using Cons.IH by (simp add: case_prod_beta)
qed simp

lemma order_store_fresh:
  "room m (length kvs + n) \<Longrightarrow> distinct (map fst kvs) \<Longrightarrow> set (map fst kvs) \<inter> set (order m) = {} \<Longrightarrow>
     order (fold (\<lambda>(k, v). store k v) kvs m) = order m @ map fst kvs"
proof (induction kvs arbitrary: m)
  case (Cons kv kvs)
  let ?m = "store (fst kv) (snd kv) m"
  have room: "room m (Suc (length kvs + n))" using Cons.prems by simp
  have o: "order ?m = order m @ [fst kv]" using order_store [OF room] Cons.prems by simp
  have "order (fold (\<lambda>(k, v). store k v) kvs ?m) = order ?m @ map fst kvs"
    by (rule Cons.IH [OF room_store [OF room]]) (use Cons.prems o in auto)
  then show ?case using o by (cases kv) simp
qed simp

lemma remove_store_moves_to_end:
  assumes "room m (Suc n)"
  shows "order (store k v (remove k m)) = filter (\<lambda>k'. k' \<noteq> k) (order m) @ [k]"
  using order_store [OF room_remove [OF assms], of k v k] order_remove [OF assms, of k] by simp

end

interpretation gmo: ordered_store map_of AList.update AList.delete "map fst" "\<lambda>m n. gm_ok m"
  by unfold_locales (auto simp: map_fst_update map_fst_delete map_of_eq_None_iff)

end
