(* ===== verification/GoStd.thy ===== *)
theory GoStd
  imports Prelude "HOL-Library.Sublist" "HOL-Library.Char_ord" "HOL-Library.List_Lexorder"
begin

text \<open>
  The parts of Go's standard library the operator uses on strings: a Go string is a
  sequence of bytes (\<open>char list\<close>), \<open>[]rune(s)\<close> decodes UTF-8, \<open>strings\<close> and \<open>strconv\<close>
  functions are total except where they return an error.
\<close>

section \<open>Runes\<close>

type_synonym rune = nat

abbreviation byte :: "char \<Rightarrow> nat" where
  "byte c \<equiv> of_char c"

definition rune_error :: rune where
  "rune_error = 65533"

definition is_cont :: "nat \<Rightarrow> nat \<Rightarrow> nat \<Rightarrow> bool" where
  "is_cont lo hi b \<longleftrightarrow> lo \<le> b \<and> b \<le> hi"

text \<open>The first rune of a byte sequence and its width; ill-formed input decodes to
  U+FFFD of width 1 (\<open>utf8.DecodeRuneInString\<close>).\<close>

definition decode3 :: "nat \<Rightarrow> nat \<Rightarrow> nat \<Rightarrow> nat list \<Rightarrow> rune \<times> nat" where
  "decode3 lo hi b0 bs = (case bs of
     b1 # b2 # _ \<Rightarrow>
       if is_cont lo hi b1 \<and> is_cont 128 191 b2
       then ((b0 - 224) * 4096 + (b1 - 128) * 64 + (b2 - 128), 3) else (rune_error, 1)
   | _ \<Rightarrow> (rune_error, 1))"

definition decode4 :: "nat \<Rightarrow> nat \<Rightarrow> nat \<Rightarrow> nat list \<Rightarrow> rune \<times> nat" where
  "decode4 lo hi b0 bs = (case bs of
     b1 # b2 # b3 # _ \<Rightarrow>
       if is_cont lo hi b1 \<and> is_cont 128 191 b2 \<and> is_cont 128 191 b3
       then ((b0 - 240) * 262144 + (b1 - 128) * 4096 + (b2 - 128) * 64 + (b3 - 128), 4)
       else (rune_error, 1)
   | _ \<Rightarrow> (rune_error, 1))"

definition decode_rune :: "nat \<Rightarrow> nat list \<Rightarrow> rune \<times> nat" where
  "decode_rune b0 bs =
     (if b0 < 128 then (b0, 1)
      else if b0 < 194 then (rune_error, 1)
      else if b0 < 224 then
        (case bs of b1 # _ \<Rightarrow> if is_cont 128 191 b1 then ((b0 - 192) * 64 + (b1 - 128), 2)
                             else (rune_error, 1)
         | [] \<Rightarrow> (rune_error, 1))
      else if b0 = 224 then decode3 160 191 b0 bs
      else if b0 = 237 then decode3 128 159 b0 bs
      else if b0 < 240 then decode3 128 191 b0 bs
      else if b0 = 240 then decode4 144 191 b0 bs
      else if b0 < 244 then decode4 128 191 b0 bs
      else if b0 = 244 then decode4 128 143 b0 bs
      else (rune_error, 1))"

lemma decode_rune_width: "0 < snd (decode_rune b0 bs)"
  by (simp add: decode_rune_def decode3_def decode4_def split: list.splits)

function decode_runes :: "nat list \<Rightarrow> rune list" where
  "decode_runes [] = []"
| "decode_runes (b # bs) =
     (case decode_rune b bs of (r, w) \<Rightarrow> r # decode_runes (drop (w - 1) bs))"
  by pat_completeness auto
termination
  by (relation "measure length") auto

text \<open>\<open>[]rune(s)\<close> and \<open>string(rs)\<close>.\<close>

definition runes :: "string \<Rightarrow> rune list" where
  "runes s = decode_runes (map byte s)"

definition encode_rune :: "rune \<Rightarrow> nat list" where
  "encode_rune r =
     (if r < 128 then [r]
      else if r < 2048 then [192 + r div 64, 128 + r mod 64]
      else if 55296 \<le> r \<and> r \<le> 57343 \<or> 1114111 < r then [239, 191, 189]
      else if r < 65536 then [224 + r div 4096, 128 + r div 64 mod 64, 128 + r mod 64]
      else [240 + r div 262144, 128 + r div 4096 mod 64, 128 + r div 64 mod 64, 128 + r mod 64])"

definition of_runes :: "rune list \<Rightarrow> string" where
  "of_runes rs = map char_of (concat (map encode_rune rs))"

definition ascii :: "string \<Rightarrow> bool" where
  "ascii s \<longleftrightarrow> list_all (\<lambda>c. byte c < (128::nat)) s"

lemma ascii_simps [simp]:
  "ascii []" "ascii (c # s) \<longleftrightarrow> byte c < (128::nat) \<and> ascii s" "ascii (s @ t) \<longleftrightarrow> ascii s \<and> ascii t"
  by (simp_all add: ascii_def)

lemma decode_runes_low: "b < 128 \<Longrightarrow> decode_runes (b # bs) = b # decode_runes bs"
  by (simp add: decode_rune_def)

lemma runes_Nil [simp]: "runes [] = []"
  by (simp add: runes_def)

lemma runes_ascii_append: "ascii s \<Longrightarrow> runes (s @ t) = map byte s @ runes t"
  by (induction s) (simp_all add: runes_def decode_runes_low del: decode_runes.simps(2))

lemma runes_ascii: "ascii s \<Longrightarrow> runes s = map byte s"
  using runes_ascii_append [of s "[]"] by simp

lemma of_runes_ascii: "ascii s \<Longrightarrow> of_runes (map byte s) = s"
  by (induction s) (simp_all add: of_runes_def encode_rune_def)

lemma runes_roundtrip_ascii: "ascii s \<Longrightarrow> of_runes (runes s) = s"
  by (simp add: runes_ascii of_runes_ascii)

text \<open>Decoding inverts encoding on the runes UTF-8 can represent.\<close>

definition valid_rune :: "rune \<Rightarrow> bool" where
  "valid_rune r \<longleftrightarrow> r < 55296 \<or> 57343 < r \<and> r \<le> 1114111"

lemma div_mod_64: "(r::nat) div 64 * 64 + r mod 64 = r"
  by simp

lemma div_64_split: "(r::nat) div 64 = r div 4096 * 64 + r div 64 mod 64"
  using div_mult_mod_eq [of "r div 64" 64] by (simp add: div_mult2_eq [symmetric])

lemma div_4096_split: "(r::nat) div 4096 = r div 262144 * 64 + r div 4096 mod 64"
  using div_mult_mod_eq [of "r div 4096" 64] by (simp add: div_mult2_eq [symmetric])

lemma div_mod_4096: "(r::nat) div 4096 * 4096 + r div 64 mod 64 * 64 + r mod 64 = r"
  using div_mod_64 [of r] div_64_split [of r] by linarith

lemma div_mod_262144:
  "(r::nat) div 262144 * 262144 + r div 4096 mod 64 * 4096 + r div 64 mod 64 * 64 + r mod 64 = r"
  using div_mod_4096 [of r] div_4096_split [of r] by linarith

lemma decode_bytes3:
  assumes "a < 16" "b < 64" "c < 64" "a = 0 \<Longrightarrow> 32 \<le> b" "a = 13 \<Longrightarrow> b < 32"
  shows "decode_rune (224 + a) ((128 + b) # (128 + c) # bs) = (a * 4096 + b * 64 + c, 3)"
  using assms by (auto simp: decode_rune_def decode3_def is_cont_def)

lemma decode_bytes4:
  assumes "a < 5" "b < 64" "c < 64" "d < 64" "a = 0 \<Longrightarrow> 16 \<le> b" "a = 4 \<Longrightarrow> b < 16"
  shows "decode_rune (240 + a) ((128 + b) # (128 + c) # (128 + d) # bs) =
    (a * 262144 + b * 4096 + c * 64 + d, 4)"
  using assms by (cases "a = 4"; auto simp: decode_rune_def decode4_def is_cont_def)

lemma decode_encode3:
  assumes "2048 \<le> r" "r < 65536" "r < 55296 \<or> 57343 < r"
  shows "decode_rune (224 + r div 4096) ((128 + r div 64 mod 64) # (128 + r mod 64) # bs) = (r, 3)"
proof -
  have "r div 4096 < 16" using assms by simp
  moreover have "r div 4096 = 0 \<Longrightarrow> 32 \<le> r div 64 mod 64" using assms by simp
  moreover have "r div 4096 = 13 \<Longrightarrow> r div 64 mod 64 < 32"
    using assms div_64_split [of r] by (cases "r < 55296") simp_all
  moreover have "r div 64 mod 64 < 64" "r mod 64 < 64" by simp_all
  ultimately show ?thesis
    using decode_bytes3 [of "r div 4096" "r div 64 mod 64" "r mod 64" bs]
    by (simp only: div_mod_4096)
qed

lemma decode_encode4:
  assumes "65536 \<le> r" "r \<le> 1114111"
  shows "decode_rune (240 + r div 262144)
    ((128 + r div 4096 mod 64) # (128 + r div 64 mod 64) # (128 + r mod 64) # bs) = (r, 4)"
proof -
  have "r div 262144 < 5" using assms by simp
  moreover have "r div 262144 = 0 \<Longrightarrow> 16 \<le> r div 4096 mod 64" using assms by simp
  moreover have "r div 262144 = 4 \<Longrightarrow> r div 4096 mod 64 < 16"
    using assms div_4096_split [of r] by simp
  moreover have "r div 4096 mod 64 < 64" "r div 64 mod 64 < 64" "r mod 64 < 64" by simp_all
  ultimately show ?thesis
    using decode_bytes4 [of "r div 262144" "r div 4096 mod 64" "r div 64 mod 64" "r mod 64" bs]
    by (simp only: div_mod_262144)
qed

lemma decode_encode2:
  assumes "128 \<le> r" "r < 2048"
  shows "decode_rune (192 + r div 64) ((128 + r mod 64) # bs) = (r, 2)"
proof -
  have "r div 64 < 32" "2 \<le> r div 64" "r mod 64 < 64" using assms by simp_all
  then show ?thesis using div_mod_64 [of r] by (auto simp: decode_rune_def is_cont_def)
qed

lemma decode_encode:
  assumes "valid_rune r"
  shows "decode_runes (encode_rune r @ bs) = r # decode_runes bs"
proof -
  consider "r < 128" | "128 \<le> r" "r < 2048" | "2048 \<le> r" "r < 65536" | "65536 \<le> r" by linarith
  then show ?thesis
  proof cases
    case 1
    then show ?thesis by (simp add: encode_rune_def decode_rune_def)
  next
    case 2
    then show ?thesis by (simp add: encode_rune_def decode_encode2)
  next
    case 3
    then show ?thesis using assms by (auto simp: encode_rune_def valid_rune_def decode_encode3)
  next
    case 4
    then show ?thesis using assms by (simp add: encode_rune_def valid_rune_def decode_encode4)
  qed
qed

lemma encode_rune_byte: "b \<in> set (encode_rune r) \<Longrightarrow> b < 256"
proof -
  have "r div 64 < 32" if "r < 2048" using that by simp
  moreover have "r div 4096 < 16" if "r < 65536" using that by simp
  moreover have "r div 262144 < 16" if "r \<le> 1114111" using that by simp
  moreover have "r mod 64 < 64" "r div 64 mod 64 < 64" "r div 4096 mod 64 < 64" by simp_all
  ultimately show "b \<in> set (encode_rune r) \<Longrightarrow> b < 256"
    by (force simp: encode_rune_def split: if_splits)
qed

lemma byte_of_runes: "map byte (of_runes rs) = concat (map encode_rune rs)"
  unfolding of_runes_def map_map by (rule map_idI) (auto dest: encode_rune_byte)

theorem runes_of_runes: "list_all valid_rune rs \<Longrightarrow> runes (of_runes rs) = rs"
  unfolding runes_def byte_of_runes by (induction rs) (simp_all add: decode_encode)

section \<open>strings\<close>

text \<open>\<open>strings.Split(s, sep)\<close> for a separator of one byte: always at least one element.\<close>

fun split_on :: "char \<Rightarrow> string \<Rightarrow> string list" where
  "split_on c [] = [[]]"
| "split_on c (x # xs) =
     (if x = c then [] # split_on c xs
      else (case split_on c xs of [] \<Rightarrow> [[x]] | y # ys \<Rightarrow> (x # y) # ys))"

text \<open>\<open>strings.SplitN(s, sep, 2)\<close> for a separator of one byte.\<close>

fun split_2 :: "char \<Rightarrow> string \<Rightarrow> string list" where
  "split_2 c [] = [[]]"
| "split_2 c (x # xs) =
     (if x = c then [[], xs]
      else (case split_2 c xs of [] \<Rightarrow> [[x]] | y # ys \<Rightarrow> (x # y) # ys))"

fun join :: "string \<Rightarrow> string list \<Rightarrow> string" where
  "join sep [] = []"
| "join sep [s] = s"
| "join sep (s # t # ss) = s @ sep @ join sep (t # ss)"

lemma split_on_not_Nil [simp]: "split_on c s \<noteq> []"
  by (induction s) (auto split: list.splits)

lemma split_on_no_sep: "c \<notin> set s \<Longrightarrow> split_on c s = [s]"
  by (induction s) auto

lemma split_on_append: "c \<notin> set s \<Longrightarrow> split_on c (s @ c # t) = s # split_on c t"
  by (induction s) auto

lemma join_split_on: "join [c] (split_on c s) = s"
proof (induction s)
  case Nil
  then show ?case by simp
next
  case (Cons x xs)
  then show ?case
    by (cases "split_on c xs"; cases "tl (split_on c xs)") auto
qed

lemma split_on_join: "ss \<noteq> [] \<Longrightarrow> (\<forall>s \<in> set ss. c \<notin> set s) \<Longrightarrow> split_on c (join [c] ss) = ss"
  by (induction "[c]" ss rule: join.induct) (auto simp: split_on_no_sep split_on_append)

lemma split_on_pieces: "\<forall>t \<in> set (split_on c s). c \<notin> set t"
  by (induction s) (auto split: list.splits)

lemma split_2_no_sep: "c \<notin> set s \<Longrightarrow> split_2 c s = [s]"
  by (induction s) auto

lemma split_2_append: "c \<notin> set s \<Longrightarrow> split_2 c (s @ c # t) = [s, t]"
  by (induction s) auto

lemma split_2_length: "length (split_2 c s) = (if c \<in> set s then 2 else 1)"
proof (cases "c \<in> set s")
  case True
  then obtain u v where "s = u @ c # v" "c \<notin> set u" by (metis split_list_first)
  then show ?thesis by (simp add: split_2_append)
qed (simp add: split_2_no_sep)

text \<open>\<open>strings.HasPrefix\<close>, \<open>HasSuffix\<close>, \<open>TrimSuffix\<close>, \<open>ReplaceAll\<close> of one byte by one byte or
  by nothing, and \<open>Contains\<close>.\<close>

abbreviation HasPrefix :: "string \<Rightarrow> string \<Rightarrow> bool" where
  "HasPrefix s p \<equiv> prefix p s"

abbreviation HasSuffix :: "string \<Rightarrow> string \<Rightarrow> bool" where
  "HasSuffix s p \<equiv> suffix p s"

definition TrimSuffix :: "string \<Rightarrow> string \<Rightarrow> string" where
  "TrimSuffix s p = (if suffix p s then take (length s - length p) s else s)"

definition ReplaceAll :: "string \<Rightarrow> char \<Rightarrow> string \<Rightarrow> string" where
  "ReplaceAll s c r = concat (map (\<lambda>x. if x = c then r else [x]) s)"

text \<open>
  \<open>strings.TrimSpace\<close> removes leading and trailing white space as \<open>unicode.IsSpace\<close> defines
  it. The encodings below are those of the white-space runes; none is a prefix or a suffix
  of another one, so stripping them one at a time is the library's rune-wise trim.
\<close>

definition space_encodings :: "string list" where
  "space_encodings =
     [[char_of (9::nat)], [char_of (10::nat)], [char_of (11::nat)], [char_of (12::nat)],
      [char_of (13::nat)], [char_of (32::nat)]] @
     map (\<lambda>r. map char_of (encode_rune r))
       ([133, 160, 5760] @ [8192..<8203] @ [8232, 8233, 8239, 8287, 12288])"

text \<open>\<open>strings.ToUpper\<close> on ASCII strings: the pattern types of access control lists, security protocols and the
  names of listeners.\<close>

definition upper_char :: "char \<Rightarrow> char" where
  "upper_char c = (if 97 \<le> (of_char c :: nat) \<and> (of_char c :: nat) \<le> 122 then char_of ((of_char c :: nat) - 32) else c)"

definition ToUpper :: "string \<Rightarrow> string" where
  "ToUpper s = map upper_char s"

definition strip_space :: "string list \<Rightarrow> string \<Rightarrow> string option" where
  "strip_space es s = map_option (\<lambda>e. drop (length e) s) (find (\<lambda>e. prefix e s) es)"

lemma strip_space_shorter:
  "strip_space es s = Some t \<Longrightarrow> [] \<notin> set es \<Longrightarrow> length t < length s"
  by (auto simp: strip_space_def find_Some_iff prefix_def)
     (metis length_greater_0_conv nth_mem)

function trim_left_with :: "string list \<Rightarrow> string \<Rightarrow> string" where
  "trim_left_with es s =
     (if [] \<in> set es then s
      else case strip_space es s of Some t \<Rightarrow> trim_left_with es t | None \<Rightarrow> s)"
  by pat_completeness auto
termination
  by (relation "measure (\<lambda>(es, s). length s)") (auto dest: strip_space_shorter)

declare trim_left_with.simps [simp del]

definition TrimLeftSpace :: "string \<Rightarrow> string" where
  "TrimLeftSpace s = trim_left_with space_encodings s"

definition TrimRightSpace :: "string \<Rightarrow> string" where
  "TrimRightSpace s = rev (trim_left_with (map rev space_encodings) (rev s))"

definition TrimSpace :: "string \<Rightarrow> string" where
  "TrimSpace s = TrimRightSpace (TrimLeftSpace s)"

text \<open>A string with no white space at either end.\<close>

definition trimmed :: "string \<Rightarrow> bool" where
  "trimmed s \<longleftrightarrow> strip_space space_encodings s = None \<and>
     strip_space (map rev space_encodings) (rev s) = None"

lemma trim_left_with_None: "strip_space es s = None \<Longrightarrow> trim_left_with es s = s"
  by (subst trim_left_with.simps) simp

lemma TrimSpace_trimmed: "trimmed s \<Longrightarrow> TrimSpace s = s"
  by (simp add: trimmed_def TrimSpace_def TrimLeftSpace_def TrimRightSpace_def trim_left_with_None)

lemma trimmed_Nil [simp]: "trimmed []"
  by (simp add: trimmed_def strip_space_def find_None_iff space_encodings_def encode_rune_def)

lemma prefix_before: "c \<notin> set e \<Longrightarrow> prefix e (s @ c # t) \<longleftrightarrow> prefix e s"
proof (induction e arbitrary: s)
  case (Cons x e)
  then show ?case by (cases s) auto
qed simp

lemma strip_space_None_iff: "strip_space es s = None \<longleftrightarrow> (\<forall>e \<in> set es. \<not> prefix e s)"
  by (auto simp: strip_space_def find_None_iff)

lemma trimmed_iff:
  "trimmed s \<longleftrightarrow> (\<forall>e \<in> set space_encodings. \<not> prefix e s \<and> \<not> suffix e s)"
  by (auto simp: trimmed_def strip_space_None_iff suffix_to_prefix)

lemma trimmed_around:
  assumes "\<forall>e \<in> set space_encodings. c \<notin> set e"
  shows "trimmed (s @ c # t) \<longleftrightarrow>
    (\<forall>e \<in> set space_encodings. \<not> prefix e s \<and> \<not> suffix e t)"
proof -
  have pre: "prefix e (s @ c # t) \<longleftrightarrow> prefix e s" if "e \<in> set space_encodings" for e
    using assms that by (simp add: prefix_before)
  have suf: "suffix e (s @ c # t) \<longleftrightarrow> suffix e t" if "e \<in> set space_encodings" for e
    using assms that prefix_before [of c "rev e" "rev t" "rev s"] by (simp add: suffix_to_prefix)
  show ?thesis using pre suf by (auto simp: trimmed_iff)
qed

lemma trim_left_with_strips: "[] \<notin> set es \<Longrightarrow> strip_space es (trim_left_with es s) = None"
proof (induction es s rule: trim_left_with.induct)
  case (1 es s)
  then show ?case
    by (cases "strip_space es s") (simp_all add: trim_left_with.simps [of es s])
qed

lemma trim_left_with_suffix: "suffix (trim_left_with es s) s"
proof (induction es s rule: trim_left_with.induct)
  case (1 es s)
  show ?case
  proof (cases "[] \<in> set es \<or> strip_space es s = None")
    case True
    then show ?thesis by (auto simp: trim_left_with.simps [of es s])
  next
    case False
    then obtain t where t: "strip_space es s = Some t" by auto
    then have "suffix t s" by (auto simp: strip_space_def suffix_drop)
    moreover have "suffix (trim_left_with es t) t" using 1 False t by simp
    ultimately show ?thesis
      using False t by (auto simp: trim_left_with.simps [of es s] intro: suffix_order.trans)
  qed
qed

lemma TrimRightSpace_prefix: "prefix (TrimRightSpace s) s"
  using trim_left_with_suffix [of "map rev space_encodings" "rev s"]
  by (simp add: TrimRightSpace_def suffix_to_prefix)

lemma space_encodings_nonempty [simp]: "[] \<notin> set space_encodings"
  by (auto simp: space_encodings_def encode_rune_def)

theorem trimmed_TrimSpace: "trimmed (TrimSpace s)"
proof -
  have l: "\<not> prefix e (TrimLeftSpace s)" if "e \<in> set space_encodings" for e
    using trim_left_with_strips [of space_encodings s] that
    by (simp add: TrimLeftSpace_def strip_space_None_iff)
  have r: "\<not> prefix (rev e) (rev (TrimSpace s))" if "e \<in> set space_encodings" for e
    using trim_left_with_strips [of "map rev space_encodings" "rev (TrimLeftSpace s)"] that
    by (force simp: TrimSpace_def TrimRightSpace_def strip_space_None_iff)
  have "prefix (TrimSpace s) (TrimLeftSpace s)"
    by (simp add: TrimSpace_def TrimRightSpace_prefix)
  then show ?thesis
    using l r by (auto simp: trimmed_iff suffix_to_prefix intro: prefix_order.trans)
qed

lemma TrimSpace_subset: "set (TrimSpace s) \<subseteq> set s"
proof -
  have "set (TrimLeftSpace s) \<subseteq> set s"
    using trim_left_with_suffix [of space_encodings s]
    by (simp add: TrimLeftSpace_def set_mono_suffix)
  moreover have "set (TrimSpace s) \<subseteq> set (TrimLeftSpace s)"
    using TrimRightSpace_prefix [of "TrimLeftSpace s"]
    by (simp add: TrimSpace_def set_mono_prefix)
  ultimately show ?thesis by blast
qed

section \<open>Slices\<close>

text \<open>Indexing and slicing panic out of range.\<close>

definition go_nth :: "'a list \<Rightarrow> nat \<Rightarrow> ('e, 'a) go" where
  "go_nth xs i = (if i < length xs then Ret (xs ! i) else Panic)"

definition go_slice :: "'a list \<Rightarrow> nat \<Rightarrow> nat \<Rightarrow> ('e, 'a list) go" where
  "go_slice xs i j = (if i \<le> j \<and> j \<le> length xs then Ret (drop i (take j xs)) else Panic)"

abbreviation go_slice_from :: "'a list \<Rightarrow> nat \<Rightarrow> ('e, 'a list) go" where
  "go_slice_from xs i \<equiv> go_slice xs i (length xs)"

lemma go_nth_Ret [go_simps]: "i < length xs \<Longrightarrow> go_nth xs i = Ret (xs ! i)"
  by (simp add: go_nth_def)

lemma go_slice_Ret [go_simps]: "i \<le> j \<Longrightarrow> j \<le> length xs \<Longrightarrow> go_slice xs i j = Ret (drop i (take j xs))"
  by (simp add: go_slice_def)

section \<open>strconv\<close>

fun nat_str :: "nat \<Rightarrow> string" where
  "nat_str n = (if n < 10 then [char_of (48 + n)] else nat_str (n div 10) @ [char_of (48 + n mod 10)])"

declare nat_str.simps [simp del]

definition Itoa :: "int \<Rightarrow> string" where
  "Itoa i = (if i < 0 then CHR ''-'' # nat_str (nat (- i)) else nat_str (nat i))"

definition digit_val :: "char \<Rightarrow> nat option" where
  "digit_val c = (if 48 \<le> byte c \<and> byte c \<le> (57::nat) then Some (byte c - 48) else None)"

fun parse_digits :: "nat \<Rightarrow> string \<Rightarrow> nat option" where
  "parse_digits acc [] = Some acc"
| "parse_digits acc (c # cs) =
     (case digit_val c of Some d \<Rightarrow> parse_digits (acc * 10 + d) cs | None \<Rightarrow> None)"

text \<open>\<open>strconv.ParseInt(s, 10, bits)\<close>: an optional sign, at least one digit, and a value that
  fits; \<open>None\<close> is the error (\<open>ErrSyntax\<close> or \<open>ErrRange\<close>). \<open>Atoi\<close> is the 64-bit case.\<close>

definition parse_unsigned :: "string \<Rightarrow> nat option" where
  "parse_unsigned s = (if s = [] then None else parse_digits 0 s)"

definition in_range :: "nat \<Rightarrow> int \<Rightarrow> bool" where
  "in_range bits i \<longleftrightarrow> - (2 ^ (bits - 1)) \<le> i \<and> i < 2 ^ (bits - 1)"

definition ParseInt :: "nat \<Rightarrow> string \<Rightarrow> int option" where
  "ParseInt bits s =
     (case s of
        [] \<Rightarrow> None
      | c # cs \<Rightarrow>
          let neg = (c = CHR ''-'');
              body = (if c = CHR ''-'' \<or> c = CHR ''+'' then cs else s)
          in (case parse_unsigned body of
                None \<Rightarrow> None
              | Some n \<Rightarrow> let i = (if neg then - int n else int n)
                          in if in_range bits i then Some i else None))"

abbreviation Atoi :: "string \<Rightarrow> int option" where
  "Atoi \<equiv> ParseInt 64"

definition ParseBool :: "string \<Rightarrow> bool option" where
  "ParseBool s =
     (if s \<in> set [''1'', ''t'', ''T'', ''true'', ''TRUE'', ''True''] then Some True
      else if s \<in> set [''0'', ''f'', ''F'', ''false'', ''FALSE'', ''False''] then Some False
      else None)"

lemma parse_digits_append:
  "parse_digits acc (s @ t) = (case parse_digits acc s of Some n \<Rightarrow> parse_digits n t | None \<Rightarrow> None)"
  by (induction acc s rule: parse_digits.induct) (auto split: option.splits)

lemma digit_val_char: "d < 10 \<Longrightarrow> digit_val (char_of (48 + d)) = Some d"
  by (simp add: digit_val_def)

lemma parse_digits_nat_str: "parse_digits 0 (nat_str n) = Some n"
proof (induction n rule: nat_str.induct)
  case (1 n)
  then show ?case
    by (cases "n < 10") (simp_all add: nat_str.simps [of n] digit_val_char parse_digits_append)
qed

lemma nat_str_nonempty [simp]: "nat_str n \<noteq> []"
  by (subst nat_str.simps) simp

lemma nat_str_digits: "c \<in> set (nat_str n) \<Longrightarrow> 48 \<le> byte c \<and> byte c \<le> (57::nat)"
proof (induction n rule: nat_str.induct)
  case (1 n)
  then show ?case
    by (cases "n < 10") (auto simp: nat_str.simps [of n])
qed

lemma nat_str_hd: "nat_str n = c # cs \<Longrightarrow> c \<noteq> CHR ''-'' \<and> c \<noteq> CHR ''+''"
  using nat_str_digits [of c n] by auto

lemma parse_unsigned_nat_str: "parse_unsigned (nat_str n) = Some n"
  by (simp add: parse_unsigned_def parse_digits_nat_str)

theorem ParseInt_Itoa: "in_range bits i \<Longrightarrow> ParseInt bits (Itoa i) = Some i"
proof (cases "i < 0")
  case True
  then show "in_range bits i \<Longrightarrow> ?thesis"
    by (simp add: Itoa_def ParseInt_def parse_unsigned_nat_str)
next
  case False
  obtain c cs where c: "nat_str (nat i) = c # cs" by (cases "nat_str (nat i)") auto
  then have "parse_unsigned (c # cs) = Some (nat i)"
    using parse_unsigned_nat_str [of "nat i"] by simp
  then show "in_range bits i \<Longrightarrow> ?thesis"
    using False nat_str_hd [OF c] by (simp add: Itoa_def ParseInt_def c)
qed

lemma ParseInt_in_range: "ParseInt bits s = Some i \<Longrightarrow> in_range bits i"
  by (auto simp: ParseInt_def Let_def split: list.splits option.splits if_splits)

lemma Itoa_inj: "Itoa i = Itoa j \<Longrightarrow> i = j"
proof -
  assume eq: "Itoa i = Itoa j"
  define b where "b = Suc (nat (\<bar>i\<bar> + \<bar>j\<bar>))"
  have "int (nat (\<bar>i\<bar> + \<bar>j\<bar>)) < int (2 ^ nat (\<bar>i\<bar> + \<bar>j\<bar>))"
    by (simp only: of_nat_less_iff less_exp)
  then have big: "\<bar>i\<bar> + \<bar>j\<bar> < 2 ^ nat (\<bar>i\<bar> + \<bar>j\<bar>)" by simp
  have "in_range b i" "in_range b j" using big by (auto simp: in_range_def b_def)
  then show "i = j" using eq ParseInt_Itoa by (metis option.inject)
qed

end
