(* ===== verification/PropertyText.thy ===== *)
theory PropertyText
  imports GoStd
begin

text \<open>
  The text form of one property (\<open>properties/pkg/property.go\<close> and the scanning functions of
  \<open>properties/pkg/utils.go\<close>): escaping and unescaping of separators, the search for the
  separator, and the two directions \<open>String\<close> and \<open>newPropertyFromString\<close>. The index loops of
  the source are kept as loops over runes whose slices may panic; each is then shown equal
  to a structural reference function, which also shows that no slice is out of range.
\<close>

section \<open>Data\<close>

text \<open>\<open>type Property struct\<close>\<close>

record Property =
  prop_key :: string
  prop_value :: string
  prop_comment :: string

definition empty_Property :: Property where
  "empty_Property = \<lparr>prop_key = [], prop_value = [], prop_comment = []\<rparr>"

datatype prop_error =
    NoSeparatorInEmpty
  | NoSeparator string
  | InvalidProperty string
  | UnsupportedSlice string
  | UnsupportedType string
  | StructTagEmpty
  | StructTagFlagEmpty
  | StructTagFlagUnsupported string
  | ParseError string

definition Separators :: string where
  "Separators = ''=: ''"

definition EscapeChar :: rune where
  "EscapeChar = 92"

definition DefaultSeparator :: string where
  "DefaultSeparator = ''=''"

text \<open>\<open>func Max(x, y int) int\<close>\<close>

definition Max :: "int \<Rightarrow> int \<Rightarrow> int" where
  "Max x y = (if x < y then y else x)"

definition prev_idx :: "nat \<Rightarrow> nat" where
  "prev_idx idx = nat (Max (int idx - 1) 0)"

lemma prev_idx_eq [simp]: "prev_idx n = n - 1"
  by (simp add: prev_idx_def Max_def nat_diff_distrib')

section \<open>Escaping\<close>

text \<open>
  One iteration per rune: \<open>newSlice\<close> is the output so far, \<open>startIdx\<close> the first rune not yet
  copied. The inner loop over the separators acts at most once, for the separator equal to
  the rune.
\<close>

fun unescape_loop ::
  "rune list \<Rightarrow> rune list \<Rightarrow> nat \<Rightarrow> rune list \<Rightarrow> rune list \<Rightarrow> nat \<Rightarrow> (prop_error, rune list \<times> nat) go"
where
  "unescape_loop sep orig idx [] newSlice startIdx = Ret (newSlice, startIdx)"
| "unescape_loop sep orig idx (c # cs) newSlice startIdx =
     (if c \<in> set sep then
        go_bind (go_nth orig (prev_idx idx)) (\<lambda>p.
          if p = EscapeChar then
            go_bind (go_slice orig startIdx (prev_idx idx)) (\<lambda>d.
              unescape_loop sep orig (Suc idx) cs (newSlice @ d @ [c]) (Suc idx))
          else unescape_loop sep orig (Suc idx) cs newSlice startIdx)
      else unescape_loop sep orig (Suc idx) cs newSlice startIdx)"

definition copy_rest :: "string \<Rightarrow> rune list \<Rightarrow> rune list \<times> nat \<Rightarrow> (prop_error, string) go" where
  "copy_rest s orig st = (case st of (newSlice, startIdx) \<Rightarrow>
     if int startIdx \<le> int (length s) - 1
     then go_bind (go_slice_from orig startIdx) (\<lambda>d. Ret (of_runes (newSlice @ d)))
     else Ret (of_runes newSlice))"

definition UnEscapeSeparators :: "string \<Rightarrow> (prop_error, string) go" where
  "UnEscapeSeparators s =
     (if length s = 0 then Ret s
      else let orig = runes s; sep = runes Separators in
        go_bind (unescape_loop sep orig 0 orig [] 0) (copy_rest s orig))"

fun escape_loop ::
  "rune list \<Rightarrow> rune list \<Rightarrow> nat \<Rightarrow> rune list \<Rightarrow> rune list \<Rightarrow> nat \<Rightarrow> (prop_error, rune list \<times> nat) go"
where
  "escape_loop sep orig idx [] newSlice startIdx = Ret (newSlice, startIdx)"
| "escape_loop sep orig idx (c # cs) newSlice startIdx =
     (if c \<in> set sep then
        go_bind (go_nth orig (prev_idx idx)) (\<lambda>p.
          if p \<noteq> EscapeChar then
            go_bind (go_slice orig startIdx idx) (\<lambda>d.
              escape_loop sep orig (Suc idx) cs (newSlice @ d @ [EscapeChar, c]) (Suc idx))
          else escape_loop sep orig (Suc idx) cs newSlice startIdx)
      else escape_loop sep orig (Suc idx) cs newSlice startIdx)"

definition EscapeSeparators :: "string \<Rightarrow> (prop_error, string) go" where
  "EscapeSeparators s =
     (if length s = 0 then Ret s
      else let orig = runes s; sep = runes Separators in
        go_bind (escape_loop sep orig 0 orig [] 0) (copy_rest s orig))"

section \<open>The separator\<close>

text \<open>\<open>GetSeparator\<close> returns the separator and its index among the \<^emph>\<open>runes\<close> of the string.\<close>

fun separator_loop :: "rune list \<Rightarrow> rune list \<Rightarrow> nat \<Rightarrow> rune list \<Rightarrow> (prop_error, string \<times> nat) go" where
  "separator_loop seps r idx [] = Ret ([], 0)"
| "separator_loop seps r idx (c # cs) =
     (if c \<in> set seps then
        go_bind (go_nth r (prev_idx idx)) (\<lambda>p.
          if p \<noteq> EscapeChar then Ret (of_runes [c], idx)
          else separator_loop seps r (Suc idx) cs)
      else separator_loop seps r (Suc idx) cs)"

definition GetSeparator :: "string \<Rightarrow> (prop_error, string \<times> nat) go" where
  "GetSeparator s =
     (if length s = 0 then Err NoSeparatorInEmpty
      else go_bind (separator_loop (runes Separators) (runes s) 0 (runes s)) (\<lambda>(sep, sepIdx).
        if sep = [] \<and> sepIdx = 0 then Err (NoSeparator s) else Ret (sep, sepIdx)))"

text \<open>\<open>newPropertyFromString\<close> slices the \<^emph>\<open>bytes\<close> of the string at that index.\<close>

definition newPropertyFromString :: "string \<Rightarrow> string \<Rightarrow> (prop_error, Property) go" where
  "newPropertyFromString prop comment =
     (case GetSeparator prop of
        Panic \<Rightarrow> Panic
      | Err e \<Rightarrow> Err (InvalidProperty prop)
      | Ret (_, idx) \<Rightarrow>
          if idx = 0 then Err (InvalidProperty prop)
          else go_bind (go_slice prop 0 idx) (\<lambda>k.
            go_bind (UnEscapeSeparators (TrimSpace k)) (\<lambda>key.
              go_bind (go_slice_from prop (Suc idx)) (\<lambda>v.
                Ret \<lparr>prop_key = key, prop_value = TrimSpace v, prop_comment = comment\<rparr>))))"

section \<open>Property operations\<close>

definition Property_IsValid :: "Property \<Rightarrow> bool" where
  "Property_IsValid p \<longleftrightarrow> prop_key p \<noteq> []"

definition Property_IsEmpty :: "Property \<Rightarrow> bool" where
  "Property_IsEmpty p \<longleftrightarrow> prop_key p = [] \<or> prop_value p = []"

definition Property_Equal :: "Property \<Rightarrow> Property \<Rightarrow> bool" where
  "Property_Equal p t = (if prop_key p \<noteq> prop_key t \<or> prop_value p \<noteq> prop_value t then False else True)"

definition Property_String :: "Property \<Rightarrow> (prop_error, string) go" where
  "Property_String p =
     (if Property_IsValid p
      then go_bind (EscapeSeparators (prop_key p)) (\<lambda>k. Ret (k @ DefaultSeparator @ prop_value p))
      else Ret [])"

definition Property_Int :: "Property \<Rightarrow> int option" where
  "Property_Int p = ParseInt 64 (prop_value p)"

definition Property_Bool :: "Property \<Rightarrow> bool option" where
  "Property_Bool p = ParseBool (prop_value p)"

definition Property_List :: "Property \<Rightarrow> string list" where
  "Property_List p = split_on CHR '','' (prop_value p)"

text \<open>The dynamic values \<open>Property.set\<close> distinguishes by kind. Floating-point values carry the
  text \<open>fmt.Sprintf("%v")\<close> gives them; \<open>OtherSlice\<close> and \<open>OtherKind\<close> are the kinds it refuses.
  A \<open>StrSlice\<close> of a named slice type is refused by the type assertion (\<open>NamedStrSlice\<close>).\<close>

datatype go_value =
    NilValue
  | StrVal string
  | IntVal int
  | FloatVal string
  | BoolVal bool
  | StrSlice "string list"
  | NamedStrSlice "string list"
  | OtherSlice
  | OtherKind

fun sprint_value :: "go_value \<Rightarrow> string" where
  "sprint_value (StrVal s) = s"
| "sprint_value (IntVal i) = Itoa i"
| "sprint_value (FloatVal f) = f"
| "sprint_value (BoolVal b) = (if b then ''true'' else ''false'')"
| "sprint_value _ = []"

fun Property_set :: "string \<Rightarrow> go_value \<Rightarrow> string \<Rightarrow> (prop_error, Property) go" where
  "Property_set k NilValue c = Err (InvalidProperty k)"
| "Property_set k (StrSlice ss) c = Ret \<lparr>prop_key = k, prop_value = join '','' ss, prop_comment = c\<rparr>"
| "Property_set k (NamedStrSlice ss) c = Err (UnsupportedSlice k)"
| "Property_set k OtherSlice c = Err (UnsupportedSlice k)"
| "Property_set k OtherKind c = Err (UnsupportedType k)"
| "Property_set k v c = Ret \<lparr>prop_key = k, prop_value = sprint_value v, prop_comment = c\<rparr>"

section \<open>Reference functions\<close>

text \<open>Left to right over runes: \<open>unesc\<close> drops a backslash before a separator, \<open>esc p\<close> puts one
  before every separator whose predecessor (initially \<open>p\<close>) is not a backslash.\<close>

fun unesc :: "rune set \<Rightarrow> rune list \<Rightarrow> rune list" where
  "unesc S (x # y # zs) = (if x = EscapeChar \<and> y \<in> S then y # unesc S zs else x # unesc S (y # zs))"
| "unesc S xs = xs"

fun esc :: "rune set \<Rightarrow> rune \<Rightarrow> rune list \<Rightarrow> rune list" where
  "esc S p [] = []"
| "esc S p (c # cs) = (if c \<in> S \<and> p \<noteq> EscapeChar then [EscapeChar, c] else [c]) @ esc S c cs"

text \<open>No separator is preceded by a backslash.\<close>

fun no_escaped :: "rune set \<Rightarrow> rune list \<Rightarrow> bool" where
  "no_escaped S (x # y # zs) \<longleftrightarrow> \<not> (x = EscapeChar \<and> y \<in> S) \<and> no_escaped S (y # zs)"
| "no_escaped S xs \<longleftrightarrow> True"

definition sep_runes :: "rune set" where
  "sep_runes = set (runes Separators)"

lemma sep_runes_eq: "sep_runes = {61, 58, 32}"
  by (simp add: sep_runes_def Separators_def runes_ascii)

lemma EscapeChar_notin_sep [simp]: "EscapeChar \<notin> sep_runes"
  by (simp add: sep_runes_eq EscapeChar_def)

lemma EscapeChar_nonzero [simp]: "EscapeChar \<noteq> 0" "0 \<noteq> EscapeChar"
  by (simp_all add: EscapeChar_def)

lemma unesc_id: "no_escaped S xs \<Longrightarrow> unesc S xs = xs"
  by (induction S xs rule: no_escaped.induct) auto

lemma unesc_append_pair:
  "no_escaped S (xs @ [EscapeChar]) \<Longrightarrow> y \<in> S \<Longrightarrow> EscapeChar \<notin> S \<Longrightarrow>
     unesc S (xs @ EscapeChar # y # zs) = xs @ y # unesc S zs"
proof (induction xs rule: induct_list012)
  case (3 x1 x2 xs)
  then show ?case by auto
qed auto

lemma no_escaped_snoc:
  "no_escaped S (xs @ [c]) \<longleftrightarrow> no_escaped S xs \<and> \<not> (c \<in> S \<and> xs \<noteq> [] \<and> last xs = EscapeChar)"
  by (induction S xs rule: no_escaped.induct) auto

lemma no_escaped_snoc_escape: "EscapeChar \<notin> S \<Longrightarrow> no_escaped S (xs @ [EscapeChar]) \<longleftrightarrow> no_escaped S xs"
  by (simp add: no_escaped_snoc)

lemma unesc_Cons: "\<not> (x = EscapeChar \<and> ys \<noteq> [] \<and> hd ys \<in> S) \<Longrightarrow> unesc S (x # ys) = x # unesc S ys"
  by (cases ys) auto

lemma unesc_esc_eq:
  "\<not> (p = EscapeChar \<and> xs \<noteq> [] \<and> hd xs \<in> S) \<Longrightarrow> EscapeChar \<notin> S \<Longrightarrow> unesc S (esc S p xs) = unesc S xs"
proof (induction xs arbitrary: p rule: induct_list012)
  case (3 x y zs)
  consider "x \<in> S" | "x \<notin> S" "x = EscapeChar" "y \<in> S" | "x \<notin> S" "\<not> (x = EscapeChar \<and> y \<in> S)" by blast
  then show ?case
  proof cases
    case 1
    then have "unesc S (esc S x (y # zs)) = unesc S (y # zs)" using 3 by (intro "3.IH"(2)) auto
    then show ?thesis using 1 3 by (auto simp: unesc_Cons)
  next
    case 2
    then have "unesc S (esc S y zs) = unesc S zs" using 3 by (intro "3.IH"(1)) auto
    then show ?thesis using 2 by (simp add: unesc_Cons)
  next
    case 3
    then have "unesc S (esc S x (y # zs)) = unesc S (y # zs)" using "3.prems" by (intro "3.IH"(2)) auto
    then show ?thesis using 3 by (auto simp: unesc_Cons)
  qed
qed auto

lemma length_unesc: "length (unesc S xs) \<le> length xs"
  by (induction S xs rule: unesc.induct) auto

lemma unesc_id_iff: "unesc S xs = xs \<longleftrightarrow> no_escaped S xs"
proof (induction S xs rule: unesc.induct)
  case (1 S x y zs)
  have "unesc S zs \<noteq> w # zs" for w using length_unesc [of S zs] by (metis impossible_Cons)
  with 1 show ?case by auto
qed auto

section \<open>The loops compute the reference functions\<close>

lemma unescape_loop_unesc:
  assumes "orig = pre @ seg @ cs" "startIdx = length pre" "idx = length pre + length seg"
    and "no_escaped (set sep) seg" "EscapeChar \<notin> set sep"
    and "pre \<noteq> [] \<Longrightarrow> last pre \<in> set sep"
  shows "\<exists>ns st. unescape_loop sep orig idx cs newSlice startIdx = Ret (ns, st) \<and>
    st \<le> length orig \<and> ns @ drop st orig = newSlice @ unesc (set sep) (seg @ cs)"
  using assms
proof (induction cs arbitrary: pre seg idx newSlice startIdx)
  case Nil
  then show ?case by (simp add: unesc_id)
next
  case (Cons c cs)
  let ?S = "set sep"
  have len: "idx < length orig" using Cons.prems by simp
  show ?case
  proof (cases "c \<in> ?S \<and> seg \<noteq> [] \<and> last seg = EscapeChar")
    case True
    then obtain seg' where seg: "seg = seg' @ [EscapeChar]" by (metis append_butlast_last_id)
    have nth: "orig ! (prev_idx idx) = EscapeChar" "prev_idx idx = length pre + length seg'"
      using Cons.prems seg by (simp_all add: nth_append)
    have sl: "drop startIdx (take (prev_idx idx) orig) = seg'"
      using Cons.prems seg nth(2) by simp
    obtain ns st where "unescape_loop sep orig (Suc idx) cs (newSlice @ seg' @ [c]) (Suc idx) = Ret (ns, st)"
      "st \<le> length orig" "ns @ drop st orig = (newSlice @ seg' @ [c]) @ unesc ?S ([] @ cs)"
      using Cons.IH [of "pre @ seg @ [c]" "[]" "Suc idx" "Suc idx" "newSlice @ seg' @ [c]"]
        Cons.prems True by auto
    moreover have "unesc ?S (seg @ c # cs) = seg' @ c # unesc ?S cs"
      using unesc_append_pair [of ?S seg' c cs] Cons.prems True seg by simp
    ultimately show ?thesis
      using True nth sl len Cons.prems seg by (auto simp: go_nth_def go_slice_def)
  next
    case False
    have "no_escaped ?S (seg @ [c])" using Cons.prems False by (auto simp: no_escaped_snoc)
    then obtain ns st where r: "unescape_loop sep orig (Suc idx) cs newSlice startIdx = Ret (ns, st)"
      "st \<le> length orig" "ns @ drop st orig = newSlice @ unesc ?S ((seg @ [c]) @ cs)"
      using Cons.IH [of pre "seg @ [c]" startIdx "Suc idx" newSlice] Cons.prems by auto
    have "c \<in> ?S \<Longrightarrow> orig ! (prev_idx idx) \<noteq> EscapeChar"
    proof -
      assume c: "c \<in> ?S"
      show "orig ! (prev_idx idx) \<noteq> EscapeChar"
      proof (cases "seg = []")
        case True
        then show ?thesis
          using Cons.prems c by (cases "pre = []") (auto simp: nth_append last_conv_nth)
      next
        case seg: False
        then have "orig ! (prev_idx idx) = last seg"
          using Cons.prems by (cases seg rule: rev_cases) (auto simp: nth_append)
        then show ?thesis using False c seg by simp
      qed
    qed
    moreover have "prev_idx idx < length orig" using len by (cases idx) auto
    ultimately show ?thesis using r by (auto simp: go_nth_def)
  qed
qed

lemma escape_loop_esc:
  assumes "orig = pre @ seg @ cs" "startIdx = length pre" "idx = length pre + length seg"
    and "EscapeChar \<notin> set sep"
    and "p = (if idx = 0 then 0 else orig ! (idx - 1))"
  shows "\<exists>ns st. escape_loop sep orig idx cs newSlice startIdx = Ret (ns, st) \<and>
    st \<le> length orig \<and> ns @ drop st orig = newSlice @ seg @ esc (set sep) p cs"
  using assms
proof (induction cs arbitrary: pre seg idx newSlice startIdx p)
  case Nil
  then show ?case by simp
next
  case (Cons c cs)
  let ?S = "set sep"
  have len: "idx < length orig" "prev_idx idx < length orig" using Cons.prems by (cases idx; simp)+
  have prev: "c \<in> ?S \<Longrightarrow> (orig ! (prev_idx idx) \<noteq> EscapeChar) = (p \<noteq> EscapeChar)"
    using Cons.prems by (cases "idx = 0") (auto simp: EscapeChar_def)
  have c: "orig ! idx = c" using Cons.prems by (simp add: nth_append)
  show ?case
  proof (cases "c \<in> ?S \<and> p \<noteq> EscapeChar")
    case True
    have sl: "drop startIdx (take idx orig) = seg" using Cons.prems by simp
    have "\<exists>ns st. escape_loop sep orig (Suc idx) cs (newSlice @ seg @ [EscapeChar, c]) (Suc idx) = Ret (ns, st) \<and>
      st \<le> length orig \<and> ns @ drop st orig = (newSlice @ seg @ [EscapeChar, c]) @ [] @ esc ?S c cs"
      by (rule Cons.IH [of "pre @ seg @ [c]"]) (use Cons.prems c in simp_all)
    then show ?thesis
      using True prev sl len Cons.prems by (auto simp: go_nth_def go_slice_def)
  next
    case False
    have "\<exists>ns st. escape_loop sep orig (Suc idx) cs newSlice startIdx = Ret (ns, st) \<and>
      st \<le> length orig \<and> ns @ drop st orig = newSlice @ (seg @ [c]) @ esc ?S c cs"
      by (rule Cons.IH [of pre]) (use Cons.prems c in simp_all)
    then show ?thesis using False prev len by (auto simp: go_nth_def)
  qed
qed

lemma copy_rest_Ret:
  assumes "st \<le> length orig" "length orig \<le> length s"
  shows "copy_rest s orig (ns, st) = Ret (of_runes (ns @ drop st orig))"
  using assms by (auto simp: copy_rest_def go_slice_def)

lemma length_decode_runes: "length (decode_runes bs) \<le> length bs"
proof (induction bs rule: decode_runes.induct)
  case (2 b bs)
  then show ?case
    by (cases "decode_rune b bs") (auto intro: le_trans)
qed simp

lemma length_runes: "length (runes s) \<le> length s"
  using length_decode_runes [of "map byte s"] by (simp add: runes_def)

lemma UnEscapeSeparators_eq: "UnEscapeSeparators s = Ret (of_runes (unesc sep_runes (runes s)))" if "s \<noteq> []"
proof -
  obtain ns st where "unescape_loop (runes Separators) (runes s) 0 (runes s) [] 0 = Ret (ns, st)"
    "st \<le> length (runes s)" "ns @ drop st (runes s) = [] @ unesc (set (runes Separators)) ([] @ runes s)"
    using unescape_loop_unesc [of "runes s" "[]" "[]" "runes s" 0 0 "runes Separators" "[]"]
      EscapeChar_notin_sep by (auto simp: sep_runes_def)
  then show ?thesis
    using that by (simp add: UnEscapeSeparators_def copy_rest_Ret length_runes sep_runes_def)
qed

lemma EscapeSeparators_eq: "EscapeSeparators s = Ret (of_runes (esc sep_runes 0 (runes s)))" if "s \<noteq> []"
proof -
  obtain ns st where "escape_loop (runes Separators) (runes s) 0 (runes s) [] 0 = Ret (ns, st)"
    "st \<le> length (runes s)" "ns @ drop st (runes s) = [] @ [] @ esc (set (runes Separators)) 0 (runes s)"
    using escape_loop_esc [of "runes s" "[]" "[]" "runes s" 0 0 "runes Separators" 0 "[]"]
      EscapeChar_notin_sep by (auto simp: sep_runes_def)
  then show ?thesis
    using that by (simp add: EscapeSeparators_def copy_rest_Ret length_runes sep_runes_def)
qed

section \<open>White space at the ends of ASCII text\<close>

definition ascii_space :: "char \<Rightarrow> bool" where
  "ascii_space c \<longleftrightarrow> byte c \<in> {9, 10, 11, 12, 13, 32 :: nat}"

lemma high_encodings:
  "list_all (\<lambda>e. (\<exists>c. e = [c] \<and> ascii_space c) \<or> (2 \<le> length e \<and> list_all (\<lambda>c. 128 \<le> (byte c :: nat)) e)) space_encodings"
  by (simp add: space_encodings_def encode_rune_def ascii_space_def upt_rec [of 8192] upt_rec [of 8193]
      upt_rec [of 8194] upt_rec [of 8195] upt_rec [of 8196] upt_rec [of 8197] upt_rec [of 8198]
      upt_rec [of 8199] upt_rec [of 8200] upt_rec [of 8201] upt_rec [of 8202] upt_rec [of 8203])

lemma single_encoding: "[c] \<in> set space_encodings \<longleftrightarrow> ascii_space c"
proof
  assume "[c] \<in> set space_encodings"
  then show "ascii_space c" using high_encodings by (fastforce simp: list_all_iff)
next
  assume "ascii_space c"
  then have "c \<in> char_of ` {9, 10, 11, 12, 13, 32 :: nat}"
    unfolding ascii_space_def by (intro image_eqI [where x = "byte c"]) auto
  then show "[c] \<in> set space_encodings" by (auto simp: space_encodings_def)
qed

lemma suffix_single: "suffix [c] s \<longleftrightarrow> s \<noteq> [] \<and> last s = c"
  by (cases s rule: rev_cases) auto

lemma prefix_single: "prefix [c] s \<longleftrightarrow> s \<noteq> [] \<and> hd s = c"
  by (cases s) auto

lemma trimmed_ascii:
  assumes "ascii s"
  shows "trimmed s \<longleftrightarrow> (s \<noteq> [] \<longrightarrow> \<not> ascii_space (hd s) \<and> \<not> ascii_space (last s))"
proof -
  have high: "\<not> prefix e s \<and> \<not> suffix e s" if "e \<in> set space_encodings" "\<not> (\<exists>c. e = [c])" for e
  proof -
    have "list_all (\<lambda>c. 128 \<le> (byte c :: nat)) e" "e \<noteq> []"
      using that high_encodings by (auto simp: list_all_iff)
    then show ?thesis using assms by (cases e) (auto simp: prefix_def suffix_def)
  qed
  have "trimmed s \<longleftrightarrow> (\<forall>c. [c] \<in> set space_encodings \<longrightarrow> \<not> prefix [c] s \<and> \<not> suffix [c] s)"
    unfolding trimmed_iff using high by blast
  then show ?thesis by (auto simp: single_encoding prefix_single suffix_single)
qed

lemma separator_not_space: "\<forall>e \<in> set space_encodings. CHR ''='' \<notin> set e"
proof
  fix e assume "e \<in> set space_encodings"
  then have "(\<exists>c. e = [c] \<and> ascii_space c) \<or> list_all (\<lambda>c. 128 \<le> (byte c :: nat)) e"
    using high_encodings by (auto simp: list_all_iff)
  then show "CHR ''='' \<notin> set e" by (auto simp: ascii_space_def list_all_iff)
qed

section \<open>Finding the separator\<close>

fun no_bare :: "rune set \<Rightarrow> rune \<Rightarrow> rune list \<Rightarrow> bool" where
  "no_bare S p [] \<longleftrightarrow> True"
| "no_bare S p (c # cs) \<longleftrightarrow> (c \<in> S \<longrightarrow> p = EscapeChar) \<and> no_bare S c cs"

lemma no_bare_esc: "EscapeChar \<notin> S \<Longrightarrow> no_bare S p (esc S p xs)"
  by (induction xs arbitrary: p) auto

lemma separator_loop_finds:
  assumes "r = pre @ xs @ c # ys" "idx = length pre" "no_bare (set seps) p xs" "c \<in> set seps"
    and "p = (if pre = [] then 0 else last pre)" "last (p # xs) \<noteq> EscapeChar" "EscapeChar \<notin> set seps"
  shows "separator_loop seps r idx (xs @ c # ys) = Ret (of_runes [c], idx + length xs)"
  using assms
proof (induction xs arbitrary: pre idx p)
  case Nil
  then show ?case by (cases pre rule: rev_cases) (auto simp: go_nth_def nth_append)
next
  case (Cons x xs)
  have rest: "separator_loop seps r (Suc idx) (xs @ c # ys) = Ret (of_runes [c], Suc idx + length xs)"
    by (rule Cons.IH [of "pre @ [x]" "Suc idx" x]) (use Cons.prems in auto)
  show ?case
  proof (cases "x \<in> set seps")
    case True
    then have "p = EscapeChar" using Cons.prems by simp
    then have "pre \<noteq> []" using Cons.prems by (auto simp: EscapeChar_def)
    then have "r ! (idx - 1) = EscapeChar" "idx - 1 < length r"
      using Cons.prems \<open>p = EscapeChar\<close> by (auto simp: nth_append last_conv_nth)
    then show ?thesis using True rest by (simp add: go_nth_def)
  next
    case False
    then show ?thesis using rest by simp
  qed
qed

lemma last_esc: "xs \<noteq> [] \<Longrightarrow> last (esc S p xs) = last xs"
proof (induction xs arbitrary: p)
  case (Cons x xs)
  then show ?case by (cases xs) auto
qed simp

lemma esc_nonempty: "xs \<noteq> [] \<Longrightarrow> esc S p xs \<noteq> []"
  by (cases xs) auto

lemma hd_esc: "xs \<noteq> [] \<Longrightarrow> hd (esc S p xs) \<in> {EscapeChar, hd xs}"
  by (cases xs) auto

lemma set_esc: "set (esc S p xs) \<subseteq> insert EscapeChar (set xs)"
  by (induction xs arbitrary: p) auto

lemma backslash_iff: "byte c = (92::nat) \<longleftrightarrow> c = CHR 0x5C"
proof -
  have "byte (CHR 0x5C) = (92::nat)" by simp
  then show ?thesis by (metis of_char_eq_iff)
qed

text \<open>The escaped form of an ASCII key, as a string.\<close>

definition escaped :: "string \<Rightarrow> string" where
  "escaped k = of_runes (esc sep_runes 0 (map byte k))"

lemma byte_of_runes_ascii: "list_all (\<lambda>r. r < 128) rs \<Longrightarrow> map byte (of_runes rs) = rs \<and> ascii (of_runes rs)"
  by (induction rs) (auto simp: of_runes_def encode_rune_def)

lemma escaped_props:
  assumes "ascii k" "k \<noteq> []"
  shows "map byte (escaped k) = esc sep_runes 0 (map byte k)" and "ascii (escaped k)"
    and "escaped k \<noteq> []" and "last (escaped k) = last k"
    and "hd (escaped k) = CHR 0x5C \<or> hd (escaped k) = hd k"
proof -
  have "list_all (\<lambda>r. r < 128) (esc sep_runes 0 (map byte k))"
    using set_esc [of sep_runes 0 "map byte k"] assms(1)
    by (fastforce simp: list_all_iff ascii_def EscapeChar_def)
  then show b: "map byte (escaped k) = esc sep_runes 0 (map byte k)" and "ascii (escaped k)"
    using byte_of_runes_ascii by (auto simp: escaped_def)
  then show ne: "escaped k \<noteq> []" using assms(2) esc_nonempty by (metis list.map_disc_iff)
  have "(byte (last (escaped k)) :: nat) = byte (last k)"
    using b ne assms(2) last_esc [of "map byte k" sep_runes 0] by (metis last_map list.map_disc_iff)
  then show "last (escaped k) = last k" by simp
  have "(byte (hd (escaped k)) :: nat) \<in> {EscapeChar, byte (hd k)}"
    using b ne assms(2) hd_esc [of "map byte k" sep_runes 0] by (metis hd_map list.map_disc_iff)
  then show "hd (escaped k) = CHR 0x5C \<or> hd (escaped k) = hd k"
    by (auto simp: EscapeChar_def backslash_iff)
qed

lemma EscapeSeparators_ascii: "ascii k \<Longrightarrow> k \<noteq> [] \<Longrightarrow> EscapeSeparators k = Ret (escaped k)"
  by (simp add: EscapeSeparators_eq escaped_def runes_ascii)

text \<open>A key whose text form can be read back: ASCII, not empty, no white space at its ends, no
  backslash before a separator or at the end.\<close>

definition plain_key :: "string \<Rightarrow> bool" where
  "plain_key k \<longleftrightarrow> ascii k \<and> k \<noteq> [] \<and> trimmed k \<and> no_escaped sep_runes (map byte k) \<and> last k \<noteq> CHR 0x5C"

lemma trimmed_escaped: "plain_key k \<Longrightarrow> trimmed (escaped k)"
  using escaped_props [of k] by (auto simp: plain_key_def trimmed_ascii ascii_space_def)

lemma UnEscape_escaped: "plain_key k \<Longrightarrow> UnEscapeSeparators (escaped k) = Ret k"
proof -
  assume k: "plain_key k"
  have "unesc sep_runes (esc sep_runes 0 (map byte k)) = map byte k"
    using k by (simp add: unesc_esc_eq unesc_id plain_key_def)
  then show ?thesis
    using k escaped_props [of k]
    by (simp add: plain_key_def UnEscapeSeparators_eq runes_ascii of_runes_ascii)
qed

lemma GetSeparator_line:
  assumes "plain_key k"
  shows "GetSeparator (escaped k @ ''='' @ v) = Ret (''='', length (escaped k))"
proof -
  let ?e = "escaped k" and ?r = "runes (escaped k @ ''='' @ v)"
  have k: "ascii k" "k \<noteq> []" using assms by (simp_all add: plain_key_def)
  have r: "?r = map byte ?e @ 61 # runes v"
    using escaped_props(2) [OF k] runes_ascii_append [of "?e @ ''=''" v] by simp
  have last: "last (map byte ?e) \<noteq> EscapeChar"
    using assms escaped_props(3,4) [OF k]
    by (simp add: plain_key_def last_map EscapeChar_def backslash_iff)
  have bare: "no_bare (set (runes Separators)) 0 (map byte ?e)"
    using no_bare_esc [of sep_runes 0 "map byte k"] EscapeChar_notin_sep escaped_props(1) [OF k]
    by (simp add: sep_runes_def)
  have "separator_loop (runes Separators) ?r 0 (map byte ?e @ 61 # runes v) =
      Ret (of_runes [61], 0 + length (map byte ?e :: rune list))"
    by (rule separator_loop_finds [where pre = "[]" and p = 0])
       (use r bare last escaped_props(3) [OF k] EscapeChar_notin_sep sep_runes_eq in \<open>auto simp: sep_runes_def\<close>)
  moreover have "of_runes [61] = ''=''"
    by (simp add: of_runes_def encode_rune_def char_of_eq_iff)
  ultimately show ?thesis using r by (simp add: GetSeparator_def)
qed

lemma newPropertyFromString_line:
  assumes "plain_key k" "trimmed v"
  shows "newPropertyFromString (escaped k @ ''='' @ v) c = Ret \<lparr>prop_key = k, prop_value = v, prop_comment = c\<rparr>"
proof -
  have "escaped k \<noteq> []" using assms(1) escaped_props(3) by (auto simp: plain_key_def)
  moreover have "GetSeparator (escaped k @ ''='' @ v) = Ret (''='', length (escaped k))"
    by (rule GetSeparator_line [OF assms(1)])
  moreover have "TrimSpace (escaped k) = escaped k" "TrimSpace v = v"
    using assms by (simp_all add: TrimSpace_trimmed trimmed_escaped)
  ultimately show ?thesis
    using UnEscape_escaped [OF assms(1)] by (simp add: newPropertyFromString_def go_slice_def)
qed

lemma Property_String_line: "plain_key (prop_key p) \<Longrightarrow> Property_String p = Ret (escaped (prop_key p) @ ''='' @ prop_value p)"
  by (simp add: Property_String_def Property_IsValid_def plain_key_def EscapeSeparators_ascii DefaultSeparator_def)

lemma valid_esc: "list_all valid_rune rs \<Longrightarrow> list_all valid_rune (esc S p rs)"
  by (induction rs arbitrary: p) (auto simp: EscapeChar_def valid_rune_def)

lemma of_runes_nonempty: "rs \<noteq> [] \<Longrightarrow> of_runes rs \<noteq> []"
  by (cases rs) (simp_all add: of_runes_def encode_rune_def)

lemma of_runes_inj: "list_all valid_rune rs \<Longrightarrow> list_all valid_rune rs' \<Longrightarrow> of_runes rs = of_runes rs' \<longleftrightarrow> rs = rs'"
  using runes_of_runes by metis

lemma valid_unesc: "list_all valid_rune rs \<Longrightarrow> list_all valid_rune (unesc S rs)"
  by (induction S rs rule: unesc.induct) auto

lemma UnEscape_Escape:
  assumes "list_all valid_rune rs"
  shows "go_bind (EscapeSeparators (of_runes rs)) UnEscapeSeparators = Ret (of_runes (unesc sep_runes rs))"
proof (cases "rs = []")
  case True
  then show ?thesis by (simp add: EscapeSeparators_def UnEscapeSeparators_def of_runes_def)
next
  case False
  have "unesc sep_runes (esc sep_runes 0 rs) = unesc sep_runes rs"
    by (rule unesc_esc_eq) simp_all
  then show ?thesis
    using False assms
    by (simp add: EscapeSeparators_eq UnEscapeSeparators_eq of_runes_nonempty esc_nonempty
        runes_of_runes valid_esc)
qed

section \<open>Properties\<close>

text \<open> The index loops of \<open>EscapeSeparators\<close> and \<open>UnEscapeSeparators\<close> never index or slice out
  of range, on any byte string, and compute the reference functions on its runes.\<close>

theorem separators_loops_correct:
  "EscapeSeparators s = Ret (of_runes (esc sep_runes 0 (runes s))) \<and>
   UnEscapeSeparators s = Ret (of_runes (unesc sep_runes (runes s)))"
proof (cases "s = []")
  case True
  then show ?thesis by (simp add: EscapeSeparators_def UnEscapeSeparators_def of_runes_def)
qed (simp add: EscapeSeparators_eq UnEscapeSeparators_eq)



text \<open> Reading back the text form of a property gives the property itself: for an ASCII key with
  no white space at its ends, no backslash before a separator or at its end, and a value with
  no white space at its ends.\<close>

theorem property_text_roundtrip:
  assumes "plain_key (prop_key p)" "trimmed (prop_value p)"
  shows "go_bind (Property_String p) (\<lambda>line. newPropertyFromString line (prop_comment p)) = Ret (p :: Property)"
  using assms by (simp add: Property_String_line newPropertyFromString_line [simplified])

theorem property_text_roundtrip_witness:
  "go_bind (Property_String \<lparr>prop_key = ''a b'', prop_value = ''x=y'', prop_comment = []\<rparr>)
     (\<lambda>line. newPropertyFromString line []) =
   Ret \<lparr>prop_key = ''a b'', prop_value = ''x=y'', prop_comment = []\<rparr>"
proof -
  have k: "plain_key ''a b''"
    by (simp add: plain_key_def trimmed_ascii ascii_space_def sep_runes_eq EscapeChar_def)
  have v: "trimmed ''x=y''" by (simp add: trimmed_ascii ascii_space_def)
  show ?thesis
    using property_text_roundtrip [of "\<lparr>prop_key = ''a b'', prop_value = ''x=y'', prop_comment = []\<rparr>"] k v
    by simp
qed

text \<open>The separator index counts runes and the line is sliced by bytes: a key with a rune outside
  ASCII is cut in the middle of its encoding and the separator ends up in the value.\<close>

theorem non_ascii_key_is_cut:
  "newPropertyFromString [CHR 0xC3, CHR 0xA9, CHR ''='', CHR ''v''] [] =
   Ret \<lparr>prop_key = of_runes [rune_error], prop_value = ''=v'', prop_comment = []\<rparr>"
proof -
  have "runes [CHR 0xC3, CHR 0xA9, CHR ''='', CHR ''v''] = [233, 61, 118]" "runes Separators = [61, 58, 32]"
    by (simp_all add: runes_def decode_rune_def is_cont_def Separators_def)
  then have g: "GetSeparator [CHR 0xC3, CHR 0xA9, CHR ''='', CHR ''v''] = Ret (''='', 1)"
    by (simp add: GetSeparator_def go_nth_def EscapeChar_def of_runes_def encode_rune_def char_of_eq_iff)
  have r: "runes [CHR 0xC3] = [rune_error]" by (simp add: runes_def decode_rune_def)
  have "trimmed [CHR 0xC3]"
    by (auto simp: trimmed_iff prefix_Cons suffix_Cons single_encoding ascii_space_def)
  then have t: "TrimSpace [CHR 0xC3] = [CHR 0xC3]" "TrimSpace ''=v'' = ''=v''"
    by (simp_all add: TrimSpace_trimmed trimmed_ascii ascii_space_def)
  have "UnEscapeSeparators [CHR 0xC3] = Ret (of_runes [rune_error])"
    by (simp add: UnEscapeSeparators_eq r)
  then show ?thesis using g t by (simp add: newPropertyFromString_def go_slice_def)
qed

end
