(* ===== verification/PropertiesStore.thy ===== *)
theory PropertiesStore
  imports PropertyText
begin

text \<open>
  The \<open>Properties\<close> container of \<open>properties/pkg/properties.go\<close>: a map from key to property
  and a second map from key to the index of its first insertion, with a 64-bit counter for
  the next index. The read/write lock of the source serialises the operations; each
  operation is modelled as one atomic step. The container is shown to implement an ordered
  list of properties.
\<close>

section \<open>State\<close>

record keyIndex =
  ki_key :: string
  ki_index :: "64 word"

record Properties =
  properties :: "(string, Property) gomap"
  keys :: "(string, keyIndex) gomap"
  nextKeyIndex :: "64 word"

datatype MergeOption = AllowOverwrite | OnlyDefaults

definition NewProperties :: Properties where
  "NewProperties = \<lparr>properties = [], keys = [], nextKeyIndex = 0\<rparr>"

section \<open>Operations\<close>

definition Get :: "Properties \<Rightarrow> string \<Rightarrow> Property option" where
  "Get p key = map_of (properties p) key"

text \<open>Collect the key indices in map order, sort them by index, keep the keys.\<close>

definition unsafeKeys :: "Properties \<Rightarrow> string list" where
  "unsafeKeys p = map ki_key (sort_key ki_index (map snd (keys p)))"

definition Keys :: "Properties \<Rightarrow> string list" where
  "Keys p = unsafeKeys p"

definition Len :: "Properties \<Rightarrow> nat" where
  "Len p = length (keys p)"

definition put :: "Property \<Rightarrow> Properties \<Rightarrow> Properties" where
  "put prop p =
     (let p' = (case map_of (properties p) (prop_key prop) of
                  None \<Rightarrow> p\<lparr>keys := AList.update (prop_key prop)
                              \<lparr>ki_key = prop_key prop, ki_index = nextKeyIndex p\<rparr> (keys p),
                            nextKeyIndex := nextKeyIndex p + 1\<rparr>
                | Some _ \<Rightarrow> p)
      in p'\<lparr>properties := AList.update (prop_key prop) prop (properties p')\<rparr>)"

definition Put :: "Property \<Rightarrow> Properties \<Rightarrow> Properties" where
  "Put prop p = put prop p"

definition SetWithComment :: "string \<Rightarrow> go_value \<Rightarrow> string \<Rightarrow> Properties \<Rightarrow> (prop_error, Properties) go" where
  "SetWithComment key v comment p = go_bind (Property_set key v comment) (\<lambda>prop. Ret (Put prop p))"

definition Properties_Set :: "string \<Rightarrow> go_value \<Rightarrow> Properties \<Rightarrow> (prop_error, Properties) go" where
  "Properties_Set key v p = SetWithComment key v [] p"

definition Delete :: "string \<Rightarrow> Properties \<Rightarrow> Properties" where
  "Delete key p = p\<lparr>keys := AList.delete key (keys p), properties := AList.delete key (properties p)\<rparr>"

definition merge_key :: "MergeOption \<Rightarrow> Properties \<Rightarrow> string \<Rightarrow> Properties \<Rightarrow> Properties" where
  "merge_key opt m key p =
     (let mProp = (case map_of (properties m) key of Some x \<Rightarrow> x | None \<Rightarrow> empty_Property)
      in case opt of
           OnlyDefaults \<Rightarrow>
             (case map_of (properties p) key of
                Some pProp \<Rightarrow> if \<not> Property_IsEmpty pProp then p else put mProp p
              | None \<Rightarrow> put mProp p)
         | AllowOverwrite \<Rightarrow> put mProp p)"

definition merge :: "MergeOption \<Rightarrow> Properties option \<Rightarrow> Properties \<Rightarrow> Properties" where
  "merge opt m p = (case m of None \<Rightarrow> p | Some m' \<Rightarrow> fold (merge_key opt m') (unsafeKeys m') p)"

definition Merge :: "Properties option \<Rightarrow> Properties \<Rightarrow> Properties" where
  "Merge m p = merge AllowOverwrite m p"

definition MergeDefaults :: "Properties option \<Rightarrow> Properties \<Rightarrow> Properties" where
  "MergeDefaults m p = merge OnlyDefaults m p"

definition Properties_Equal :: "Properties \<Rightarrow> Properties option \<Rightarrow> bool" where
  "Properties_Equal p t = (case t of None \<Rightarrow> False | Some t' \<Rightarrow>
     length (keys p) = length (keys t') \<and>
     list_all (\<lambda>tKey.
       case map_of (properties p) tKey of None \<Rightarrow> False
       | Some pProp \<Rightarrow> (case map_of (properties t') tKey of None \<Rightarrow> False
                        | Some tProp \<Rightarrow> Property_Equal pProp tProp)) (map fst (keys t')))"

definition Sort :: "Properties \<Rightarrow> Properties" where
  "Sort p =
     (let ks = sort (map fst (keys p));
          (keys', next') = fold (\<lambda>key (km, i). (AList.update key \<lparr>ki_key = key, ki_index = i\<rparr> km, i + 1))
                             ks (keys p, 0)
      in p\<lparr>keys := keys', nextKeyIndex := next'\<rparr>)"

definition Properties_String :: "Properties \<Rightarrow> (prop_error, string) go" where
  "Properties_String p =
     go_bind (go_map (\<lambda>key. case Get p key of
                 Some prop \<Rightarrow> go_bind (Property_String prop) (\<lambda>s. Ret (s @ [CHR 0x0A]))
               | None \<Rightarrow> Ret []) (Keys p))
       (\<lambda>lines. Ret (concat lines))"

type_synonym DiffResult = "(string, Property \<times> Property) gomap"

definition diff_key :: "Properties \<Rightarrow> Properties \<Rightarrow> string \<Rightarrow> (Property \<times> Property) option" where
  "diff_key p m key =
     (case (map_of (properties p) key, map_of (properties m) key) of
        (Some pProp, Some mProp) \<Rightarrow> if Property_Equal pProp mProp then None else Some (pProp, mProp)
      | (Some pProp, None) \<Rightarrow> Some (pProp, empty_Property)
      | (None, Some mProp) \<Rightarrow> Some (empty_Property, mProp)
      | (None, None) \<Rightarrow> Some (empty_Property, empty_Property))"

definition Diff :: "Properties \<Rightarrow> Properties option \<Rightarrow> DiffResult" where
  "Diff p m = (case m of None \<Rightarrow> [] | Some m' \<Rightarrow>
     List.map_filter (\<lambda>key. map_option (\<lambda>d. (key, d)) (diff_key p m' key))
       (remdups (map fst (keys p) @ map fst (keys m'))))"

definition DiffResult_Keys :: "DiffResult \<Rightarrow> string list" where
  "DiffResult_Keys d = sort (map fst d)"

section \<open>Invariant\<close>

definition props_inv :: "Properties \<Rightarrow> bool" where
  "props_inv p \<longleftrightarrow>
     gm_ok (properties p) \<and> gm_ok (keys p) \<and> gm_dom (keys p) = gm_dom (properties p) \<and>
     (\<forall>(k, prop) \<in> set (properties p). prop_key prop = k) \<and>
     (\<forall>(k, ki) \<in> set (keys p). ki_key ki = k \<and> ki_index ki < nextKeyIndex p) \<and>
     distinct (map (ki_index \<circ> snd) (keys p))"

text \<open>Room for \<open>n\<close> more insertions before the index counter wraps around.\<close>

definition props_room :: "Properties \<Rightarrow> nat \<Rightarrow> bool" where
  "props_room p n \<longleftrightarrow> props_inv p \<and> unat (nextKeyIndex p) + n < 2 ^ 64"

lemma props_inv_New [simp]: "props_inv NewProperties"
  by (simp add: props_inv_def NewProperties_def)

lemma Get_put: "Get (put prop p) k = (if k = prop_key prop then Some prop else Get p k)"
  by (simp add: Get_def put_def Let_def gm_get_update split: option.splits)

lemma Get_Delete: "Get (Delete k' p) k = (if k = k' then None else Get p k)"
  by (simp add: Get_def Delete_def gm_get_delete)

lemma put_existing:
  "map_of (properties p) (prop_key prop) = Some old \<Longrightarrow>
     put prop p = p\<lparr>properties := AList.update (prop_key prop) prop (properties p)\<rparr>"
  by (simp add: put_def)

lemma put_fresh:
  assumes "props_inv p" "map_of (properties p) (prop_key prop) = None"
  shows "put prop p = p\<lparr>keys := keys p @ [(prop_key prop, \<lparr>ki_key = prop_key prop, ki_index = nextKeyIndex p\<rparr>)],
    nextKeyIndex := nextKeyIndex p + 1, properties := properties p @ [(prop_key prop, prop)]\<rparr>"
proof -
  have "prop_key prop \<notin> gm_dom (properties p)" using assms(2) by (simp add: map_of_eq_None_iff)
  moreover from this have "prop_key prop \<notin> gm_dom (keys p)" using assms(1) by (simp add: props_inv_def)
  ultimately show ?thesis using assms(2) by (simp add: put_def update_fresh)
qed

lemma unat_Suc_word: "unat (n :: 64 word) + 1 < 2 ^ 64 \<Longrightarrow> unat (n + 1) = Suc (unat n)"
  by (simp add: unat_word_ariths)

lemma props_inv_put:
  assumes "props_inv p" "unat (nextKeyIndex p) + 1 < 2 ^ 64"
  shows "props_inv (put prop p)"
proof (cases "map_of (properties p) (prop_key prop)")
  case None
  have nx: "i < nextKeyIndex p \<Longrightarrow> i < nextKeyIndex p + 1" "nextKeyIndex p < nextKeyIndex p + 1" for i
    using unat_Suc_word [OF assms(2)] by (simp_all add: word_less_nat_alt)
  have "prop_key prop \<notin> gm_dom (properties p)" using None by (simp add: map_of_eq_None_iff)
  then show ?thesis
    using assms(1) nx by (auto simp: put_fresh [OF assms(1) None] props_inv_def)
next
  case (Some old)
  then have "prop_key prop \<in> gm_dom (properties p)" by (metis gm_get_None option.distinct(1))
  then show ?thesis
    using assms(1) by (auto simp: put_existing [OF Some] props_inv_def dest!: set_updateD)
qed

lemma props_inv_Delete: "props_inv p \<Longrightarrow> props_inv (Delete k p)"
  unfolding props_inv_def Delete_def
  by (simp add: case_prod_beta) (auto simp: AList.delete_eq distinct_map_filter dest: set_deleteD)

lemma map_snd_delete:
  assumes "props_inv p"
  shows "map snd (AList.delete k (keys p)) = filter (\<lambda>ki. ki_key ki \<noteq> k) (map snd (keys p))"
proof -
  have "\<forall>x \<in> set (keys p). fst x = ki_key (snd x)" using assms by (auto simp: props_inv_def)
  then show ?thesis
    by (auto simp: AList.delete_eq filter_map comp_def intro!: arg_cong [where f = "map snd"] filter_cong)
qed

lemma unsafeKeys_put:
  assumes "props_inv p"
  shows "unsafeKeys (put prop p) =
    (if Get p (prop_key prop) = None then unsafeKeys p @ [prop_key prop] else unsafeKeys p)"
proof (cases "map_of (properties p) (prop_key prop)")
  case None
  let ?ki = "\<lparr>ki_key = prop_key prop, ki_index = nextKeyIndex p\<rparr>"
  have less: "\<forall>ki \<in> set (map snd (keys p)). ki_index ki < ki_index ?ki"
    using assms by (auto simp: props_inv_def)
  moreover have "distinct (map ki_index (map snd (keys p)))" using assms by (simp add: props_inv_def)
  ultimately have "sort_key ki_index (map snd (keys p) @ [?ki]) = sort_key ki_index (map snd (keys p)) @ [?ki]"
    by (intro sort_key_snoc_max) force+
  then show ?thesis using None by (simp add: unsafeKeys_def put_fresh [OF assms] Get_def)
next
  case (Some old)
  then show ?thesis by (simp add: unsafeKeys_def put_existing [OF Some] Get_def)
qed

lemma unsafeKeys_Delete: "props_inv p \<Longrightarrow> unsafeKeys (Delete k p) = filter (\<lambda>k'. k' \<noteq> k) (unsafeKeys p)"
proof -
  assume p: "props_inv p"
  have "sort_key ki_index (map snd (AList.delete k (keys p))) =
      filter (\<lambda>ki. ki_key ki \<noteq> k) (sort_key ki_index (map snd (keys p)))"
    by (simp only: map_snd_delete [OF p] filter_sort)
  then show ?thesis by (simp add: unsafeKeys_def Delete_def filter_map comp_def)
qed

lemma mset_unsafeKeys: "props_inv p \<Longrightarrow> mset (unsafeKeys p) = mset (map fst (keys p))"
proof -
  assume "props_inv p"
  then have "map ki_key (map snd (keys p)) = map fst (keys p)" by (auto simp: props_inv_def)
  then show ?thesis by (metis mset_map mset_sort unsafeKeys_def)
qed

lemma distinct_unsafeKeys: "props_inv p \<Longrightarrow> distinct (unsafeKeys p)"
  using mset_unsafeKeys mset_eq_imp_distinct_iff by (metis props_inv_def)

lemma set_unsafeKeys: "props_inv p \<Longrightarrow> set (unsafeKeys p) = {k. Get p k \<noteq> None}"
proof -
  assume p: "props_inv p"
  then have "set (unsafeKeys p) = gm_dom (keys p)" using mset_unsafeKeys by (metis list.set_map mset_eq_setD)
  also have "\<dots> = dom (map_of (properties p))"
    using p by (simp add: props_inv_def dom_map_of_conv_image_fst)
  finally show ?thesis by (simp add: Get_def dom_def)
qed

lemma room_put: "props_room p (Suc n) \<Longrightarrow> props_room (put prop p) n"
proof -
  assume r: "props_room p (Suc n)"
  then have nx: "unat (nextKeyIndex p + 1) = Suc (unat (nextKeyIndex p))"
    by (intro unat_Suc_word) (simp add: props_room_def)
  have "props_inv (put prop p)" using r by (intro props_inv_put) (simp_all add: props_room_def)
  moreover have "nextKeyIndex (put prop p) \<in> {nextKeyIndex p, nextKeyIndex p + 1}"
    by (simp add: put_def Let_def split: option.splits)
  ultimately show ?thesis using r nx by (auto simp: props_room_def)
qed

text \<open>The container as an ordered store: a key's value is the pair of value and comment.\<close>

definition lookup_kv :: "Properties \<Rightarrow> string \<Rightarrow> (string \<times> string) option" where
  "lookup_kv p k = map_option (\<lambda>prop. (prop_value prop, prop_comment prop)) (Get p k)"

definition put_kv :: "string \<Rightarrow> string \<times> string \<Rightarrow> Properties \<Rightarrow> Properties" where
  "put_kv k vc p = put \<lparr>prop_key = k, prop_value = fst vc, prop_comment = snd vc\<rparr> p"

interpretation ps: ordered_store lookup_kv put_kv Delete unsafeKeys props_room
proof
  fix p :: Properties and k k' v n
  show "lookup_kv (put_kv k v p) k' = (if k' = k then Some v else lookup_kv p k')"
    by (simp add: lookup_kv_def put_kv_def Get_put)
  show "lookup_kv (Delete k p) k' = (if k' = k then None else lookup_kv p k')"
    by (simp add: lookup_kv_def Get_Delete)
  show "unsafeKeys (put_kv k v p) = (if k \<in> set (unsafeKeys p) then unsafeKeys p else unsafeKeys p @ [k])"
    if "props_room p (Suc n)"
    using that by (simp add: put_kv_def unsafeKeys_put set_unsafeKeys props_room_def)
  show "props_room (put_kv k v p) n" if "props_room p (Suc n)"
    using that by (simp add: put_kv_def room_put)
  show "unsafeKeys (Delete k p) = filter (\<lambda>k'. k' \<noteq> k) (unsafeKeys p)" if "props_room p n"
    using that by (simp add: unsafeKeys_Delete props_room_def)
  show "props_room (Delete k p) n" if "props_room p n"
    using that by (simp add: props_room_def props_inv_Delete) (simp add: Delete_def)
  show "set (unsafeKeys p) = {k. lookup_kv p k \<noteq> None}" if "props_room p n"
    using that by (simp add: set_unsafeKeys lookup_kv_def props_room_def)
  show "distinct (unsafeKeys p)" if "props_room p n"
    using that by (simp add: distinct_unsafeKeys props_room_def)
qed

section \<open>Reads after bulk updates\<close>

lemma inv_prop_key: "props_inv m \<Longrightarrow> Get m k = Some prop \<Longrightarrow> prop_key prop = k"
  by (auto simp: props_inv_def Get_def dest: map_of_SomeD)

text \<open>What \<open>merge\<close> stores under a key, from the two properties found there.\<close>

fun merged :: "MergeOption \<Rightarrow> Property option \<Rightarrow> Property option \<Rightarrow> Property option" where
  "merged opt pProp None = pProp"
| "merged AllowOverwrite pProp (Some mProp) = Some mProp"
| "merged OnlyDefaults None (Some mProp) = Some mProp"
| "merged OnlyDefaults (Some pProp) (Some mProp) = (if Property_IsEmpty pProp then Some mProp else Some pProp)"

lemma Get_merge_key:
  assumes "props_inv m" "Get m key = Some mProp"
  shows "Get (merge_key opt m key p) k = (if k = key then merged opt (Get p key) (Some mProp) else Get p k)"
  using inv_prop_key [OF assms] assms(2)
  by (cases opt) (auto simp: merge_key_def Get_put Get_def [symmetric] split: option.splits)

lemma Get_merge_keys:
  assumes "props_inv m" "distinct ks" "\<forall>k \<in> set ks. Get m k \<noteq> None"
  shows "Get (fold (merge_key opt m) ks p) k = (if k \<in> set ks then merged opt (Get p k) (Get m k) else Get p k)"
  using assms(2,3)
proof (induction ks arbitrary: p)
  case (Cons key ks)
  then obtain mProp where "Get m key = Some mProp" by auto
  with Cons show ?case by (auto simp: Get_merge_key [OF assms(1)])
qed simp

lemma Get_merge: "props_inv m \<Longrightarrow> Get (merge opt (Some m) p) k = merged opt (Get p k) (Get m k)"
  using Get_merge_keys [of m "unsafeKeys m" opt p k]
  by (auto simp: merge_def distinct_unsafeKeys set_unsafeKeys)

lemma merge_key_put: "merge_key opt m key p = p \<or> (\<exists>prop. merge_key opt m key p = put prop p)"
  by (auto simp: merge_key_def Let_def split: MergeOption.splits option.splits)

lemma room_mono: "props_room p n \<Longrightarrow> k \<le> n \<Longrightarrow> props_room p k"
  by (auto simp: props_room_def)

lemma room_merge_key: "props_room p (Suc n) \<Longrightarrow> props_room (merge_key opt m key p) n"
  using merge_key_put [of opt m key p] room_put room_mono by (metis le_SucI order_refl)

lemma room_merge_keys: "props_room p (length ks + n) \<Longrightarrow> props_room (fold (merge_key opt m) ks p) n"
  by (induction ks arbitrary: p) (simp_all add: room_merge_key)

lemma length_unsafeKeys [simp]: "length (unsafeKeys p) = Len p"
  by (simp add: unsafeKeys_def Len_def)

lemma room_merge: "props_room p (Len m + n) \<Longrightarrow> props_room (merge opt (Some m) p) n"
  by (simp add: merge_def room_merge_keys)

section \<open>The container implements an ordered list\<close>

definition entries :: "Properties \<Rightarrow> Property list" where
  "entries p = map (\<lambda>k. the (Get p k)) (unsafeKeys p)"

text \<open>Insertion into a list of properties: in place for a known key, at the end for a new one.\<close>

definition put_list :: "Property \<Rightarrow> Property list \<Rightarrow> Property list" where
  "put_list prop xs =
     (if prop_key prop \<in> prop_key ` set xs then map (\<lambda>x. if prop_key x = prop_key prop then prop else x) xs
      else xs @ [prop])"

lemma entries_keys: "props_inv p \<Longrightarrow> map prop_key (entries p) = unsafeKeys p"
  unfolding entries_def map_map
  by (rule map_idI) (auto simp: set_unsafeKeys dest: inv_prop_key)

lemma entries_key_set: "props_inv p \<Longrightarrow> prop_key ` set (entries p) = {k. Get p k \<noteq> None}"
  using entries_keys set_unsafeKeys by (metis list.set_map)

lemma entries_put:
  assumes "props_inv p"
  shows "entries (put prop p) = put_list prop (entries p)"
proof (cases "Get p (prop_key prop) = None")
  case True
  then have "\<forall>k \<in> set (unsafeKeys p). k \<noteq> prop_key prop" by (auto simp: set_unsafeKeys [OF assms])
  then show ?thesis
    using True entries_key_set [OF assms]
    by (auto simp: entries_def put_list_def unsafeKeys_put [OF assms] Get_put)
next
  case False
  have "prop_key (the (Get p k)) = k" if "k \<in> set (unsafeKeys p)" for k
    using that assms by (auto simp: set_unsafeKeys dest: inv_prop_key)
  then show ?thesis
    using False entries_key_set [OF assms]
    by (auto simp: entries_def put_list_def unsafeKeys_put [OF assms] Get_put)
qed

lemma entries_Delete:
  assumes "props_inv p"
  shows "entries (Delete k p) = filter (\<lambda>x. prop_key x \<noteq> k) (entries p)"
proof -
  have "prop_key (the (Get p k)) = k" if "k \<in> set (unsafeKeys p)" for k
    using that assms by (auto simp: set_unsafeKeys dest: inv_prop_key)
  then show ?thesis
    by (auto simp: entries_def unsafeKeys_Delete [OF assms] filter_map comp_def Get_Delete
        intro!: map_cong filter_cong)
qed

lemma entries_New [simp]: "entries NewProperties = []"
  by (simp add: entries_def unsafeKeys_def NewProperties_def)

lemma merge_overwrite_keys:
  assumes "props_inv m" "\<forall>k \<in> set ks. Get m k \<noteq> None" "props_room p (length ks)"
  shows "entries (fold (merge_key AllowOverwrite m) ks p) = fold put_list (map (\<lambda>k. the (Get m k)) ks) (entries p)"
  using assms(2,3)
proof (induction ks arbitrary: p)
  case (Cons key ks)
  then obtain mProp where "Get m key = Some mProp" by auto
  then have mk: "merge_key AllowOverwrite m key p = put mProp p" by (simp add: merge_key_def Get_def)
  have "props_room (put mProp p) (length ks)" using Cons.prems by (simp add: room_put)
  with Cons show ?case
    by (simp add: mk \<open>Get m key = Some mProp\<close> entries_put props_room_def)
qed simp

lemma entries_Merge:
  assumes "props_inv m" "props_room p (Len m)"
  shows "entries (Merge (Some m) p) = fold put_list (entries m) (entries p)"
  using merge_overwrite_keys [OF assms(1), of "unsafeKeys m" p] assms
  by (simp add: Merge_def merge_def entries_def [of m] set_unsafeKeys)

lemma go_map_entries:
  assumes "props_inv p"
  shows "Properties_String p = go_bind (go_map (\<lambda>prop. go_bind (Property_String prop) (\<lambda>s. Ret (s @ [CHR 0x0A]))) (entries p))
    (\<lambda>lines. Ret (concat lines))"
proof -
  have "go_map (\<lambda>key. case Get p key of Some prop \<Rightarrow> f prop | None \<Rightarrow> Ret []) ks = go_map f (map (\<lambda>k. the (Get p k)) ks)"
    if "\<forall>k \<in> set ks. Get p k \<noteq> None" for ks and f :: "Property \<Rightarrow> (prop_error, string) go"
    using that by (induction ks) auto
  then show ?thesis using assms by (simp add: Properties_String_def Keys_def entries_def set_unsafeKeys)
qed

section \<open>Sorting\<close>

abbreviation reindex :: "string \<Rightarrow> (string, keyIndex) gomap \<times> 64 word \<Rightarrow> (string, keyIndex) gomap \<times> 64 word" where
  "reindex key \<equiv> (\<lambda>(km, i). (AList.update key \<lparr>ki_key = key, ki_index = i\<rparr> km, i + 1))"

lemma reindex_all:
  "set ks \<subseteq> gm_dom km \<Longrightarrow> distinct ks \<Longrightarrow> fold reindex ks (km, i) = (km', j) \<Longrightarrow>
     j = i + of_nat (length ks) \<and> map fst km' = map fst km \<and>
     (\<forall>n < length ks. map_of km' (ks ! n) = Some \<lparr>ki_key = ks ! n, ki_index = i + of_nat n\<rparr>) \<and>
     (\<forall>k. k \<notin> set ks \<longrightarrow> map_of km' k = map_of km k)"
proof (induction ks arbitrary: km i)
  case (Cons k ks)
  let ?km = "AList.update k \<lparr>ki_key = k, ki_index = i\<rparr> km"
  have ih: "j = (i + 1) + of_nat (length ks) \<and> map fst km' = map fst ?km \<and>
     (\<forall>n < length ks. map_of km' (ks ! n) = Some \<lparr>ki_key = ks ! n, ki_index = (i + 1) + of_nat n\<rparr>) \<and>
     (\<forall>k'. k' \<notin> set ks \<longrightarrow> map_of km' k' = map_of ?km k')"
    by (rule Cons.IH) (use Cons.prems in auto)
  then show ?case
    using Cons.prems by (auto simp: map_fst_update gm_get_update less_Suc_eq_0_disj add.assoc)
qed simp

lemma Sort_eq:
  assumes "props_inv p"
  obtains km where "Sort p = p\<lparr>keys := km, nextKeyIndex := of_nat (Len p)\<rparr>" "map fst km = map fst (keys p)"
    and "\<And>n. n < Len p \<Longrightarrow> map_of km (sort (map fst (keys p)) ! n) =
      Some \<lparr>ki_key = sort (map fst (keys p)) ! n, ki_index = of_nat n\<rparr>"
proof -
  let ?ks = "sort (map fst (keys p))"
  obtain km j where f: "fold reindex ?ks (keys p, 0) = (km, j)" by fastforce
  have "j = 0 + of_nat (length ?ks) \<and> map fst km = map fst (keys p) \<and>
     (\<forall>n < length ?ks. map_of km (?ks ! n) = Some \<lparr>ki_key = ?ks ! n, ki_index = 0 + of_nat n\<rparr>)"
    using reindex_all [OF _ _ f] assms by (simp add: props_inv_def)
  then show ?thesis using that f by (simp add: Sort_def Len_def)
qed

lemma unat_of_nat_64: "n < 2 ^ 64 \<Longrightarrow> unat (of_nat n :: 64 word) = n"
  by (simp add: unat_of_nat)

lemma indices_ascending:
  assumes "n < 2 ^ 64"
  shows "sorted (map of_nat [0..<n] :: 64 word list)" and "distinct (map of_nat [0..<n] :: 64 word list)"
proof -
  have u: "unat (of_nat i :: 64 word) = i" if "i < n" for i
    using that assms by (intro unat_of_nat_64) simp
  then show "sorted (map of_nat [0..<n] :: 64 word list)"
    by (auto simp: sorted_iff_nth_mono word_le_nat_alt)
  show "distinct (map of_nat [0..<n] :: 64 word list)"
    using u by (auto simp: distinct_map intro!: inj_onI) (metis atLeastLessThan_iff u)
qed

text \<open>The key indices after \<open>Sort\<close>, in map order and in index order.\<close>

abbreviation sorted_index :: "string list \<Rightarrow> nat \<Rightarrow> keyIndex" where
  "sorted_index ks n \<equiv> \<lparr>ki_key = ks ! n, ki_index = of_nat n\<rparr>"

lemma reindexed_set:
  assumes "distinct (map fst km)" "set ks = gm_dom km"
    and "\<And>n. n < length ks \<Longrightarrow> map_of km (ks ! n) = Some (sorted_index ks n)"
  shows "set km = (\<lambda>n. (ks ! n, sorted_index ks n)) ` {..<length ks}"
proof -
  have "(k, ki) \<in> set km \<longleftrightarrow> (\<exists>n < length ks. k = ks ! n \<and> ki = sorted_index ks n)" for k ki
  proof
    assume m: "(k, ki) \<in> set km"
    then have "k \<in> set ks" using assms(2) by force
    then obtain n where n: "n < length ks" "k = ks ! n" by (metis in_set_conv_nth)
    then have "map_of km k = Some (sorted_index ks n)" using assms(3) by simp
    then show "\<exists>n < length ks. k = ks ! n \<and> ki = sorted_index ks n"
      using m n gm_get_in [OF assms(1)] by (metis option.inject)
  next
    assume "\<exists>n < length ks. k = ks ! n \<and> ki = sorted_index ks n"
    then show "(k, ki) \<in> set km" using assms(3) by (auto dest: map_of_SomeD)
  qed
  then show ?thesis by auto
qed

lemma reindexed_order:
  assumes "distinct (map fst km)" "distinct ks" "set ks = gm_dom km" "length ks < 2 ^ 64"
    and "\<And>n. n < length ks \<Longrightarrow> map_of km (ks ! n) = Some (sorted_index ks n)"
  shows "map ki_key (sort_key ki_index (map snd km)) = ks" and "distinct (map (ki_index \<circ> snd) km)"
proof -
  let ?kis = "map (sorted_index ks) [0..<length ks]"
  have km: "set km = (\<lambda>n. (ks ! n, sorted_index ks n)) ` {..<length ks}"
    using assms(1,3,5) by (rule reindexed_set)
  have asc: "sorted (map ki_index ?kis)" "distinct (map ki_index ?kis)"
    using indices_ascending [OF assms(4)] by (simp_all add: comp_def)
  have "mset (map snd km) = mset ?kis"
  proof (rule set_eq_iff_mset_eq_distinct [THEN iffD1])
    show "distinct ?kis" using asc(2) by (metis distinct_map)
    show "set (map snd km) = set ?kis" using km by (auto simp: image_image atLeast0LessThan)
    have "inj_on snd (set km)" using km by (auto simp: inj_on_def)
    then show "distinct (map snd km)" using assms(1) by (simp add: distinct_map)
  qed
  moreover from this have "distinct (map ki_index (map snd km))"
    using asc(2) by (metis mset_eq_imp_distinct_iff mset_map)
  ultimately have "sort_key ki_index (map snd km) = sort_key ki_index ?kis"
    by (intro sort_key_order_irrelevant)
  also have "\<dots> = ?kis" using asc(1) by (rule sort_key_id_if_sorted)
  finally show "map ki_key (sort_key ki_index (map snd km)) = ks" by (simp add: comp_def map_nth)
  show "distinct (map (ki_index \<circ> snd) km)"
    using \<open>distinct (map ki_index (map snd km))\<close> by simp
qed

lemma Sort_keys:
  assumes "props_inv p" "Len p < 2 ^ 64"
  shows "unsafeKeys (Sort p) = sort (map fst (keys p))" and "props_inv (Sort p)"
proof -
  let ?ks = "sort (map fst (keys p))"
  obtain km where S: "Sort p = p\<lparr>keys := km, nextKeyIndex := of_nat (Len p)\<rparr>" and fst: "map fst km = map fst (keys p)"
    and km: "\<And>n. n < Len p \<Longrightarrow> map_of km (?ks ! n) = Some (sorted_index ?ks n)"
    using Sort_eq [OF assms(1)] by blast
  have len: "length ?ks = Len p" by (simp add: Len_def)
  have dom: "gm_dom km = gm_dom (keys p)" using fst by (metis list.set_map)
  have pre: "distinct (map fst km)" "distinct ?ks" "set ?ks = gm_dom km" "length ?ks < 2 ^ 64"
    using assms fst len dom by (simp_all add: props_inv_def)
  note r = reindexed_order [OF pre km [folded len]]
  show "unsafeKeys (Sort p) = ?ks" using r(1) by (simp add: unsafeKeys_def S)
  have "ki_key ki = k \<and> ki_index ki < of_nat (Len p)" if "(k, ki) \<in> set km" for k ki
    using that reindexed_set [OF pre(1,3) km [folded len]] assms(2) len
    by (auto simp: word_less_nat_alt unat_of_nat_64)
  then show "props_inv (Sort p)"
    using assms(1) r(2) fst dom by (auto simp: props_inv_def S)
qed

lemma Len_le_next: "props_inv p \<Longrightarrow> Len p \<le> unat (nextKeyIndex p)"
proof -
  assume p: "props_inv p"
  have "inj_on unat (set (map (ki_index \<circ> snd) (keys p)))"
    by (simp add: inj_on_def word_eq_iff_unsigned [where ?'a = nat])
  then have d: "distinct (map unat (map (ki_index \<circ> snd) (keys p)))"
    using p by (simp only: distinct_map props_inv_def simp_thms)
  have "set (map unat (map (ki_index \<circ> snd) (keys p))) \<subseteq> {..<unat (nextKeyIndex p)}"
    using p by (auto simp: props_inv_def word_less_nat_alt)
  then have "card (set (map unat (map (ki_index \<circ> snd) (keys p)))) \<le> card {..<unat (nextKeyIndex p)}"
    by (intro card_mono) simp
  with d show ?thesis by (simp only: distinct_card card_lessThan) (simp add: Len_def)
qed

lemma Len_bound: "props_inv p \<Longrightarrow> Len p < 2 ^ 64"
  using Len_le_next [of p] unsigned_less [of "nextKeyIndex p", where ?'a = nat] by simp

lemma room_Sort: "props_room p n \<Longrightarrow> props_room (Sort p) n"
proof -
  assume r: "props_room p n"
  then have p: "props_inv p" by (simp add: props_room_def)
  obtain km where "Sort p = p\<lparr>keys := km, nextKeyIndex := of_nat (Len p)\<rparr>"
    using Sort_eq [OF p] by blast
  then have "unat (nextKeyIndex (Sort p)) = Len p" using unat_of_nat_64 [OF Len_bound [OF p]] by simp
  then show ?thesis
    using r Len_le_next [OF p] Sort_keys(2) [OF p Len_bound [OF p]] by (simp add: props_room_def)
qed

lemma Get_Sort: "Get (Sort p) k = Get p k"
  by (simp add: Get_def Sort_def Let_def case_prod_beta)

lemma entries_Sort:
  assumes "props_inv p"
  shows "entries (Sort p) = sort_key prop_key (entries p)"
proof (rule sorted_key_distinct_unique [where f = prop_key])
  note S = Sort_keys [OF assms Len_bound [OF assms]]
  have keys: "map prop_key (entries (Sort p)) = sort (map fst (keys p))"
    using entries_keys [OF S(2)] S(1) by simp
  show "sorted (map prop_key (entries (Sort p)))" "distinct (map prop_key (entries (Sort p)))"
    using assms by (simp_all add: keys props_inv_def)
  show "sorted (map prop_key (sort_key prop_key (entries p)))" by simp
  have "mset (unsafeKeys (Sort p)) = mset (unsafeKeys p)" by (simp add: S(1) mset_unsafeKeys [OF assms])
  then show "mset (entries (Sort p)) = mset (sort_key prop_key (entries p))"
    by (simp add: entries_def Get_Sort)
qed

section \<open>Sequences of operations\<close>

datatype props_op =
    OpPut Property
  | OpSet string go_value
  | OpDelete string
  | OpMerge Properties
  | OpMergeDefaults Properties
  | OpSort

fun apply_op :: "props_op \<Rightarrow> Properties \<Rightarrow> Properties" where
  "apply_op (OpPut prop) p = Put prop p"
| "apply_op (OpSet k v) p = (case Properties_Set k v p of Ret p' \<Rightarrow> p' | _ \<Rightarrow> p)"
| "apply_op (OpDelete k) p = Delete k p"
| "apply_op (OpMerge m) p = Merge (Some m) p"
| "apply_op (OpMergeDefaults m) p = MergeDefaults (Some m) p"
| "apply_op OpSort p = Sort p"

text \<open>The number of insertions an operation can make.\<close>

fun op_cost :: "props_op \<Rightarrow> nat" where
  "op_cost (OpPut prop) = 1"
| "op_cost (OpSet k v) = 1"
| "op_cost (OpDelete k) = 0"
| "op_cost (OpMerge m) = Len m"
| "op_cost (OpMergeDefaults m) = Len m"
| "op_cost OpSort = 0"

lemma Properties_Set_put: "Properties_Set k v p = Ret p' \<Longrightarrow> \<exists>prop. p' = put prop p"
  by (auto simp: Properties_Set_def SetWithComment_def Put_def)

lemma room_apply_op: "props_room p (op_cost a + n) \<Longrightarrow> props_room (apply_op a p) n"
proof (cases a)
  case (OpSet k v)
  moreover assume "props_room p (op_cost a + n)"
  ultimately have "props_room p (Suc n)" by simp
  then show ?thesis
    using OpSet room_put room_mono [of p "Suc n" n] by (auto dest: Properties_Set_put split: go.split)
qed (auto simp: Put_def Merge_def MergeDefaults_def room_put room_merge room_Sort ps.room_remove)

lemma room_apply_ops: "props_room p (sum_list (map op_cost ops) + n) \<Longrightarrow> props_room (fold apply_op ops p) n"
proof (induction ops arbitrary: p)
  case (Cons a ops)
  then have "props_room p (op_cost a + (sum_list (map op_cost ops) + n))" by (simp add: add.assoc)
  then show ?case using Cons.IH room_apply_op by simp
qed simp

section \<open>Comparison\<close>

lemma Equal_iff:
  assumes "props_inv p" "props_inv t"
  shows "Properties_Equal p (Some t) \<longleftrightarrow> (\<forall>k. map_option prop_value (Get p k) = map_option prop_value (Get t k))"
proof -
  have dom: "gm_dom (keys q) = {k. Get q k \<noteq> None}" "card (gm_dom (keys q)) = length (keys q)" "finite (gm_dom (keys q))"
    if "props_inv q" for q
    using that gm_get_None [of "properties q"] distinct_card [of "map fst (keys q)"]
    by (auto simp: props_inv_def Get_def)
  have eq: "Property_Equal a b \<longleftrightarrow> prop_value a = prop_value b"
    if "Get p k = Some a" "Get t k = Some b" for k a b
    using inv_prop_key [OF assms(1) that(1)] inv_prop_key [OF assms(2) that(2)] by (simp add: Property_Equal_def)
  have loop: "Properties_Equal p (Some t) \<longleftrightarrow> length (keys p) = length (keys t) \<and>
      (\<forall>k \<in> gm_dom (keys t). \<exists>a b. Get p k = Some a \<and> Get t k = Some b \<and> prop_value a = prop_value b)"
  proof -
    have "(case Get p k of None \<Rightarrow> False | Some a \<Rightarrow> (case Get t k of None \<Rightarrow> False | Some b \<Rightarrow> Property_Equal a b)) \<longleftrightarrow>
        (\<exists>a b. Get p k = Some a \<and> Get t k = Some b \<and> prop_value a = prop_value b)" for k
      using eq [of k] by (cases "Get p k"; cases "Get t k") auto
    then show ?thesis unfolding Properties_Equal_def list_all_iff Get_def [symmetric] by simp
  qed
  show ?thesis
  proof
    assume E: "Properties_Equal p (Some t)"
    then have sub: "gm_dom (keys t) \<subseteq> gm_dom (keys p)" using loop dom(1) [OF assms(1)] by auto
    have "gm_dom (keys t) = gm_dom (keys p)"
      by (rule card_subset_eq [OF dom(3) [OF assms(1)] sub]) (use E loop dom(2) assms in simp)
    then show "\<forall>k. map_option prop_value (Get p k) = map_option prop_value (Get t k)"
    proof (intro allI)
      fix k
      show "map_option prop_value (Get p k) = map_option prop_value (Get t k)"
      proof (cases "Get t k")
        case None
        then have "k \<notin> gm_dom (keys p)"
          by (simp only: \<open>gm_dom (keys t) = gm_dom (keys p)\<close> [symmetric] dom(1) [OF assms(2)]) simp
        then show ?thesis using None by (simp only: dom(1) [OF assms(1)]) simp
      next
        case (Some b)
        then have "k \<in> gm_dom (keys t)" using dom(1) [OF assms(2)] by auto
        then show ?thesis using E loop Some by fastforce
      qed
    qed
  next
    assume V: "\<forall>k. map_option prop_value (Get p k) = map_option prop_value (Get t k)"
    then have "gm_dom (keys p) = gm_dom (keys t)"
    proof -
      have "Get p k = None \<longleftrightarrow> Get t k = None" for k using V by (metis option.map_disc_iff)
      then show ?thesis by (simp only: dom(1) [OF assms(1)] dom(1) [OF assms(2)])
    qed
    then have "length (keys p) = length (keys t)" using dom(2) assms by metis
    moreover have "\<exists>a b. Get p k = Some a \<and> Get t k = Some b \<and> prop_value a = prop_value b"
      if "k \<in> gm_dom (keys t)" for k
    proof -
      from that have "Get t k \<noteq> None" by (simp only: dom(1) [OF assms(2)]) simp
      then show ?thesis using V [rule_format, of k] by (cases "Get p k"; cases "Get t k") auto
    qed
    ultimately show "Properties_Equal p (Some t)" using loop by blast
  qed
qed

lemma diff_key_None_iff:
  assumes "props_inv p" "props_inv m" "Get p k \<noteq> None \<or> Get m k \<noteq> None"
  shows "diff_key p m k = None \<longleftrightarrow> map_option prop_value (Get p k) = map_option prop_value (Get m k)"
proof (cases "Get p k"; cases "Get m k")
  fix a b assume g: "Get p k = Some a" "Get m k = Some b"
  then have "prop_key a = k" "prop_key b = k" using assms(1,2) inv_prop_key by blast+
  with g show ?thesis by (simp add: diff_key_def Get_def Property_Equal_def)
qed (use assms(3) in \<open>simp_all add: diff_key_def Get_def\<close>)

lemma map_of_map_filter:
  "distinct ks \<Longrightarrow> map_of (List.map_filter (\<lambda>k. map_option (\<lambda>d. (k, d)) (f k)) ks) k = (if k \<in> set ks then f k else None)"
proof (induction ks)
  case (Cons a ks)
  then show ?case by (cases "f a") (auto simp: List.map_filter_simps)
qed (simp add: List.map_filter_simps)

lemma Diff_lookup:
  assumes "props_inv p" "props_inv m"
  shows "map_of (Diff p (Some m)) k =
    (if Get p k = None \<and> Get m k = None then None else diff_key p m k)"
proof -
  have "k \<in> gm_dom (keys q) \<longleftrightarrow> Get q k \<noteq> None" if "props_inv q" for q
    using that gm_get_None [of "properties q" k] by (simp add: props_inv_def Get_def)
  then show ?thesis using assms by (auto simp: Diff_def map_of_map_filter)
qed

lemma Diff_dom:
  assumes "props_inv p" "props_inv m"
  shows "gm_dom (Diff p (Some m)) = {k. map_option prop_value (Get p k) \<noteq> map_option prop_value (Get m k)}"
proof -
  have "k \<in> gm_dom (Diff p (Some m)) \<longleftrightarrow> map_option prop_value (Get p k) \<noteq> map_option prop_value (Get m k)" for k
    using gm_get_None [of "Diff p (Some m)" k] Diff_lookup [OF assms, of k] diff_key_None_iff [OF assms, of k]
    by (cases "Get p k"; cases "Get m k") auto
  then show ?thesis by blast
qed

section \<open>Properties\<close>



text \<open>Every state a sequence of public operations reaches from the empty container is well
  formed (the two maps agree, indices are distinct and below the counter), provided the
  sequence makes fewer than 2^64 insertions.\<close>

theorem properties_reachable_inv:
  assumes "sum_list (map op_cost ops) < 2 ^ 64"
  shows "props_inv (fold apply_op ops NewProperties)"
proof -
  have "props_room NewProperties (sum_list (map op_cost ops) + 0)"
    using assms by (simp add: props_room_def) (simp add: NewProperties_def)
  then have "props_room (fold apply_op ops NewProperties) 0" by (rule room_apply_ops)
  then show ?thesis by (simp add: props_room_def)
qed

theorem properties_reachable_inv_witness:
  "props_inv (fold apply_op [OpSet ''b'' (IntVal 3), OpSet ''a'' (BoolVal True), OpSort, OpDelete ''a''] NewProperties)"
  by (rule properties_reachable_inv) simp

text \<open>What is found under a key after a merge: \<open>Merge\<close> takes the other container's property
  where there is one; \<open>MergeDefaults\<close> takes it only where the own property is missing or
  empty.\<close>

theorem merge_lookup:
  assumes "props_inv m"
  shows "Get (Merge (Some m) p) k = (case Get m k of Some mProp \<Rightarrow> Some mProp | None \<Rightarrow> Get p k) \<and>
    Get (MergeDefaults (Some m) p) k =
      (case Get p k of
         Some pProp \<Rightarrow> if prop_key pProp = [] \<or> prop_value pProp = []
                       then (case Get m k of Some mProp \<Rightarrow> Some mProp | None \<Rightarrow> Some pProp) else Some pProp
       | None \<Rightarrow> Get m k)"
  using assms
  by (cases "Get p k"; cases "Get m k") (simp_all add: Merge_def MergeDefaults_def Get_merge Property_IsEmpty_def)

theorem merge_lookup_witness:
  "Get (MergeDefaults (Some (put \<lparr>prop_key = ''a'', prop_value = ''2'', prop_comment = []\<rparr> NewProperties))
      (put \<lparr>prop_key = ''a'', prop_value = [], prop_comment = []\<rparr> NewProperties)) ''a'' =
   Some \<lparr>prop_key = ''a'', prop_value = ''2'', prop_comment = []\<rparr>"
proof -
  have "props_inv (put \<lparr>prop_key = ''a'', prop_value = ''2'', prop_comment = []\<rparr> NewProperties)"
    by (rule props_inv_put) (simp_all add: NewProperties_def [THEN arg_cong [where f = nextKeyIndex]])
  then show ?thesis by (simp add: merge_lookup Get_put)
qed

text \<open>\<open>Equal\<close> and \<open>Diff\<close> agree with the contents: two well-formed containers are equal, and their
  difference is empty, exactly when the same keys carry the same values; the difference
  holds a key exactly when its values differ.\<close>

theorem equal_diff_correct:
  assumes "props_inv p" "props_inv m"
  shows "(Properties_Equal p (Some m) \<longleftrightarrow> (\<forall>k. map_option prop_value (Get p k) = map_option prop_value (Get m k))) \<and>
    (Diff p (Some m) = [] \<longleftrightarrow> Properties_Equal p (Some m)) \<and>
    gm_dom (Diff p (Some m)) = {k. map_option prop_value (Get p k) \<noteq> map_option prop_value (Get m k)}"
proof -
  have "Diff p (Some m) = [] \<longleftrightarrow> gm_dom (Diff p (Some m)) = {}" by simp
  with Diff_dom [OF assms] show ?thesis by (simp add: Equal_iff [OF assms])
qed

theorem equal_diff_correct_witness: "Properties_Equal NewProperties (Some NewProperties)"
  using equal_diff_correct [of NewProperties NewProperties] by simp

end
