(* ===== verification/PropertiesLoader.thy ===== *)
theory PropertiesLoader
  imports PropertiesStore
begin

text \<open>
  Reading a whole document (\<open>Loader\<close> in \<open>properties/pkg/utils.go\<close>): \<open>bufio.Scanner\<close> splits
  the text into lines, \<open>load\<close> trims them, \<open>parse\<close> joins continuation lines, collects
  comments and stores the properties. Printing a container and loading the text gives the
  same ordered properties, no text makes the loader panic, and what it returns is well
  formed. Struct tags (\<open>properties/internal/utils/struct.go\<close>) are parsed here too.
\<close>

section \<open>Lines\<close>

text \<open>\<open>bufio.ScanLines\<close> with the default buffer: lines end at a newline, one trailing carriage
  return is dropped, an empty last line is not a token, and scanning stops at the first line
  of 65536 bytes or more (\<open>bufio.ErrTooLong\<close>).\<close>

definition MaxScanTokenSize :: nat where
  "MaxScanTokenSize = 65536"

definition drop_cr :: "string \<Rightarrow> string" where
  "drop_cr l = (if l \<noteq> [] \<and> last l = CHR 0x0D then butlast l else l)"

definition scan_lines :: "string \<Rightarrow> string list" where
  "scan_lines s =
     (let ls = split_on CHR 0x0A s;
          raw = (if last ls = [] then butlast ls else ls)
      in map drop_cr (takeWhile (\<lambda>l. length l < MaxScanTokenSize) raw))"

section \<open>The loader\<close>

text \<open>\<open>load\<close> ignores the scanner's error: it keeps the lines read so far.\<close>

definition load :: "string list \<Rightarrow> string \<Rightarrow> string list" where
  "load lines r = lines @ map TrimSpace (scan_lines r)"

fun parse_lines :: "string list \<Rightarrow> string \<Rightarrow> string \<Rightarrow> Properties \<Rightarrow> (prop_error, Properties) go" where
  "parse_lines [] property comment props = Ret props"
| "parse_lines (line # ls) property comment props =
     (if line = [] then parse_lines ls [] [] props
      else if HasPrefix line ''#'' \<or> HasPrefix line ''!'' then
        parse_lines ls property (comment @ line @ [CHR 0x0A]) props
      else if HasSuffix line [CHR 0x5C] then
        parse_lines ls (property @ TrimSuffix line [CHR 0x5C]) comment props
      else go_bind (newPropertyFromString (property @ line) comment)
        (\<lambda>p. parse_lines ls [] [] (Put p props)))"

definition parse :: "string list \<Rightarrow> (prop_error, Properties) go" where
  "parse lines = parse_lines lines [] [] NewProperties"

definition Load :: "string list \<Rightarrow> string \<Rightarrow> (prop_error, Properties) go" where
  "Load lines r = parse (load lines r)"

definition NewFromString :: "string \<Rightarrow> (prop_error, Properties) go" where
  "NewFromString s = Load [] s"

section \<open>Struct tags\<close>

record StructTag =
  st_Key :: string
  st_OmitEmpty :: bool
  st_Default :: string

definition StructTag_Skip :: "StructTag \<Rightarrow> bool" where
  "StructTag_Skip t \<longleftrightarrow> st_Key t = [] \<or> st_Key t = ''-''"

record structTagFlag =
  fl_Key :: string
  fl_Value :: string

definition structTagFlag_IsValid :: "structTagFlag \<Rightarrow> bool" where
  "structTagFlag_IsValid f \<longleftrightarrow> fl_Key f \<noteq> []"

definition parseStructTagFlag :: "string \<Rightarrow> (prop_error, structTagFlag) go" where
  "parseStructTagFlag s =
     (if s = [] then Err StructTagFlagEmpty
      else let f = split_2 CHR ''='' s in
        go_bind (go_nth f 0) (\<lambda>k.
          if length f = 2 then go_bind (go_nth f 1) (\<lambda>v. Ret \<lparr>fl_Key = k, fl_Value = v\<rparr>)
          else Ret \<lparr>fl_Key = k, fl_Value = []\<rparr>))"

fun parse_tag_flags :: "string list \<Rightarrow> StructTag \<Rightarrow> (prop_error, StructTag) go" where
  "parse_tag_flags [] st = Ret st"
| "parse_tag_flags (f # fs) st =
     go_bind (parseStructTagFlag f) (\<lambda>flag.
       if fl_Key flag = ''omitempty'' then parse_tag_flags fs (st\<lparr>st_OmitEmpty := True\<rparr>)
       else if fl_Key flag = ''default'' then parse_tag_flags fs (st\<lparr>st_Default := fl_Value flag\<rparr>)
       else Err (StructTagFlagUnsupported f))"

definition ParseStructTag :: "string \<Rightarrow> (prop_error, StructTag) go" where
  "ParseStructTag s =
     (if s = [] then Err StructTagEmpty
      else let items = split_on CHR '','' s in
        go_bind (go_nth items 0) (\<lambda>k.
          parse_tag_flags (tl items) \<lparr>st_Key = k, st_OmitEmpty = False, st_Default = []\<rparr>))"

section \<open>No panics\<close>

lemma separator_loop_bound:
  assumes "length r = idx + length cs"
  shows "separator_loop seps r idx cs \<noteq> Panic \<and>
    (\<forall>sep i. separator_loop seps r idx cs = Ret (sep, i) \<longrightarrow> i = 0 \<or> i < length r) \<and>
    (\<forall>e. separator_loop seps r idx cs \<noteq> Err e)"
  using assms
proof (induction cs arbitrary: idx)
  case (Cons c cs)
  then have "separator_loop seps r (Suc idx) cs \<noteq> Panic \<and>
    (\<forall>sep i. separator_loop seps r (Suc idx) cs = Ret (sep, i) \<longrightarrow> i = 0 \<or> i < length r) \<and>
    (\<forall>e. separator_loop seps r (Suc idx) cs \<noteq> Err e)" by simp
  then show ?case using Cons.prems by (auto simp: go_nth_def)
qed simp

lemma newPropertyFromString_no_panic: "newPropertyFromString prop comment \<noteq> Panic"
proof (cases "GetSeparator prop")
  case Panic
  then show ?thesis
    using separator_loop_bound [of "runes prop" 0 "runes prop" "runes Separators"]
    by (auto simp: GetSeparator_def split: if_splits)
next
  case (Ret r)
  obtain sep idx where r: "r = (sep, idx)" by fastforce
  then have "idx = 0 \<or> idx < length (runes prop)"
    using Ret separator_loop_bound [of "runes prop" 0 "runes prop" "runes Separators"]
    by (auto simp: GetSeparator_def split: if_splits)
  then have idx: "idx = 0 \<or> idx < length prop" using length_runes [of "prop"] by linarith
  have "UnEscapeSeparators t \<noteq> Panic" for t
    by (cases "t = []") (simp add: UnEscapeSeparators_def, simp add: UnEscapeSeparators_eq)
  then show ?thesis using Ret r idx by (auto simp: newPropertyFromString_def go_slice_def)
qed (simp add: newPropertyFromString_def)

lemma parse_lines_no_panic: "parse_lines ls property comment props \<noteq> Panic"
  by (induction ls property comment props rule: parse_lines.induct)
     (auto simp: newPropertyFromString_no_panic)

section \<open>What the loader returns\<close>

lemma newPropertyFromString_trimmed: "newPropertyFromString s c = Ret p \<Longrightarrow> trimmed (prop_value p)"
  by (auto simp: newPropertyFromString_def trimmed_TrimSpace split: go.splits prod.splits if_splits)

lemma put_list_all: "list_all P xs \<Longrightarrow> P prop \<Longrightarrow> list_all P (put_list prop xs)"
  by (auto simp: put_list_def list_all_iff)

lemma parse_lines_result:
  assumes "parse_lines ls property comment props = Ret q" "props_room props (length ls + n)"
    and "list_all (trimmed \<circ> prop_value) (entries props)"
  shows "props_room q n \<and> list_all (trimmed \<circ> prop_value) (entries q)"
  using assms
proof (induction ls property comment props rule: parse_lines.induct)
  case (1 property comment props)
  then show ?case by simp
next
  case (2 line ls property comment props)
  have room: "props_room props (length ls + n)" "props_room props (Suc (length ls + n))"
    using "2.prems"(2) by (auto intro: room_mono)
  consider "line = []" | "line \<noteq> []" "HasPrefix line ''#'' \<or> HasPrefix line ''!''"
    | "line \<noteq> []" "\<not> (HasPrefix line ''#'' \<or> HasPrefix line ''!'')" "HasSuffix line [CHR 0x5C]"
    | "line \<noteq> []" "\<not> (HasPrefix line ''#'' \<or> HasPrefix line ''!'')" "\<not> HasSuffix line [CHR 0x5C]" by blast
  then show ?case
  proof cases
    case 4
    then obtain p where p: "newPropertyFromString (property @ line) comment = Ret p"
      and rest: "parse_lines ls [] [] (Put p props) = Ret q" using "2.prems"(1) by auto
    have "list_all (trimmed \<circ> prop_value) (entries (Put p props))"
      using "2.prems"(2,3) newPropertyFromString_trimmed [OF p]
      by (simp add: Put_def entries_put put_list_all props_room_def comp_def)
    then show ?thesis
      using 4 "2.IH"(4) rest room_put [OF room(2)] by (simp add: Put_def comp_def)
  qed (use "2.IH" "2.prems" room in auto)
qed

section \<open>Round trip\<close>

text \<open>A property whose line survives printing, scanning and parsing.\<close>

definition printable :: "Property \<Rightarrow> bool" where
  "printable p \<longleftrightarrow> plain_key (prop_key p) \<and> trimmed (prop_value p) \<and>
     CHR 0x0A \<notin> set (prop_key p) \<union> set (prop_value p) \<and>
     hd (prop_key p) \<notin> {CHR ''#'', CHR ''!''} \<and> \<not> HasSuffix (prop_value p) [CHR 0x5C] \<and>
     length (escaped (prop_key p)) + length (prop_value p) + 1 < MaxScanTokenSize"

definition prop_line :: "Property \<Rightarrow> string" where
  "prop_line p = escaped (prop_key p) @ ''='' @ prop_value p"

lemma set_escaped: "ascii k \<Longrightarrow> k \<noteq> [] \<Longrightarrow> set (escaped k) \<subseteq> insert (CHR 0x5C) (set k)"
proof
  fix c assume k: "ascii k" "k \<noteq> []" and c: "c \<in> set (escaped k)"
  then have "(byte c :: nat) \<in> set (esc sep_runes 0 (map byte k))"
    using escaped_props(1) [OF k] by (metis image_eqI list.set_map)
  then have "(byte c :: nat) = 92 \<or> byte c \<in> (byte ` set k :: nat set)"
    using set_esc [of sep_runes 0 "map byte k"] by (auto simp: EscapeChar_def)
  then show "c \<in> insert (CHR 0x5C) (set k)" by (auto simp: backslash_iff)
qed

lemma prop_line_props:
  assumes "printable p"
  shows "CHR 0x0A \<notin> set (prop_line p)" and "length (prop_line p) < MaxScanTokenSize"
    and "trimmed (prop_line p)" and "prop_line p \<noteq> []"
    and "\<not> HasPrefix (prop_line p) ''#''" and "\<not> HasPrefix (prop_line p) ''!''"
    and "\<not> HasSuffix (prop_line p) [CHR 0x5C]" and "drop_cr (prop_line p) = prop_line p"
proof -
  have k: "ascii (prop_key p)" "prop_key p \<noteq> []" "plain_key (prop_key p)" "trimmed (prop_value p)"
    using assms by (auto simp: printable_def plain_key_def)
  note e = escaped_props [OF k(1,2)]
  show "CHR 0x0A \<notin> set (prop_line p)"
    using assms set_escaped [OF k(1,2)] by (auto simp: printable_def prop_line_def)
  show "length (prop_line p) < MaxScanTokenSize" using assms by (simp add: printable_def prop_line_def)
  show t: "trimmed (prop_line p)"
    using trimmed_escaped [OF k(3)] k(4) trimmed_around [OF separator_not_space]
    by (simp add: prop_line_def trimmed_iff)
  show "prop_line p \<noteq> []" by (simp add: prop_line_def)
  show "\<not> HasPrefix (prop_line p) ''#''" "\<not> HasPrefix (prop_line p) ''!''"
    using e(3,5) assms by (auto simp: prop_line_def prefix_single printable_def)
  show "\<not> HasSuffix (prop_line p) [CHR 0x5C]"
    using assms by (auto simp: prop_line_def printable_def suffix_single)
  have "\<not> ascii_space (last (prop_line p))"
    using t \<open>prop_line p \<noteq> []\<close> single_encoding [of "last (prop_line p)"]
    by (auto simp: trimmed_iff suffix_single)
  then show "drop_cr (prop_line p) = prop_line p" by (auto simp: drop_cr_def ascii_space_def)
qed

lemma split_on_terminated:
  "(\<forall>l \<in> set ls. c \<notin> set l) \<Longrightarrow> split_on c (concat (map (\<lambda>l. l @ [c]) ls)) = ls @ [[]]"
  by (induction ls) (auto simp: split_on_append)

lemma scan_lines_terminated:
  assumes "\<forall>l \<in> set ls. CHR 0x0A \<notin> set l \<and> length l < MaxScanTokenSize \<and> drop_cr l = l"
  shows "scan_lines (concat (map (\<lambda>l. l @ [CHR 0x0A]) ls)) = ls"
proof -
  have "takeWhile (\<lambda>l. length l < MaxScanTokenSize) ls = ls" using assms by (simp add: takeWhile_eq_all_conv)
  moreover have "map drop_cr ls = ls" using assms by (simp add: map_idI)
  moreover have "split_on CHR 0x0A (concat (map (\<lambda>l. l @ [CHR 0x0A]) ls)) = ls @ [[]]"
    using assms by (simp add: split_on_terminated)
  ultimately show ?thesis by (simp only: scan_lines_def Let_def last_snoc butlast_snoc if_True simp_thms)
qed

lemma parse_lines_printable:
  "list_all printable ps \<Longrightarrow>
     parse_lines (map prop_line ps) [] [] props = Ret (fold (\<lambda>p. put (p\<lparr>prop_comment := []\<rparr>)) ps props)"
proof (induction ps arbitrary: props)
  case (Cons p ps)
  have "newPropertyFromString (prop_line p) [] = Ret (p\<lparr>prop_comment := []\<rparr>)"
    using Cons.prems newPropertyFromString_line [of "prop_key p" "prop_value p" "[]"]
    by (simp add: printable_def prop_line_def)
  with Cons show ?case by (simp add: prop_line_props Put_def)
qed simp

lemma fold_put_list_fresh: "distinct (map prop_key (xs @ ys)) \<Longrightarrow> fold put_list ys xs = xs @ ys"
proof (induction ys arbitrary: xs)
  case (Cons y ys)
  then have "put_list y xs = xs @ [y]" by (auto simp: put_list_def)
  then show ?case using Cons by simp
qed simp

lemma entries_fold_put:
  "props_room p (length xs) \<Longrightarrow>
     entries (fold put xs p) = fold put_list xs (entries p) \<and> props_room (fold put xs p) 0"
proof (induction xs arbitrary: p)
  case (Cons x xs)
  then have "props_inv p" "props_room (put x p) (length xs)"
    by (simp add: props_room_def) (use Cons.prems in \<open>simp add: room_put\<close>)
  then show ?case using Cons.IH by (simp add: entries_put)
qed simp

lemma Properties_String_lines:
  assumes "props_inv p" "list_all printable (entries p)"
  shows "Properties_String p = Ret (concat (map (\<lambda>l. l @ [CHR 0x0A]) (map prop_line (entries p))))"
proof -
  have "go_map (\<lambda>prop. go_bind (Property_String prop) (\<lambda>s. Ret (s @ [CHR 0x0A]))) (entries p) =
      Ret (map (\<lambda>prop. prop_line prop @ [CHR 0x0A]) (entries p))"
    by (rule go_map_all_Ret)
       (use assms(2) in \<open>auto simp: list_all_iff printable_def Property_String_line prop_line_def\<close>)
  then show ?thesis by (simp add: go_map_entries [OF assms(1)] comp_def)
qed

lemma NewFromString_lines:
  assumes "list_all printable ps"
  shows "NewFromString (concat (map (\<lambda>l. l @ [CHR 0x0A]) (map prop_line ps))) =
    Ret (fold put (map (\<lambda>e. e\<lparr>prop_comment := []\<rparr>) ps) NewProperties)"
proof -
  have sc: "scan_lines (concat (map (\<lambda>l. l @ [CHR 0x0A]) (map prop_line ps))) = map prop_line ps"
    by (rule scan_lines_terminated) (use assms prop_line_props in \<open>auto simp: list_all_iff\<close>)
  have tr: "map TrimSpace (map prop_line ps) = map prop_line ps"
    by (rule map_idI) (use assms prop_line_props in \<open>auto simp: list_all_iff TrimSpace_trimmed\<close>)
  show ?thesis
    unfolding NewFromString_def Load_def load_def sc append_Nil tr parse_def parse_lines_printable [OF assms]
    by (simp add: fold_map comp_def)
qed

lemma NewFromString_printed:
  assumes "props_inv p" "list_all printable (entries p)"
  shows "\<exists>q. go_bind (Properties_String p) NewFromString = Ret q \<and> props_inv q \<and>
    entries q = map (\<lambda>e. e\<lparr>prop_comment := []\<rparr>) (entries p)"
proof -
  let ?ps = "entries p" and ?f = "\<lambda>e. e\<lparr>prop_comment := []\<rparr> :: Property"
  have run: "go_bind (Properties_String p) NewFromString = Ret (fold put (map ?f ?ps) NewProperties)"
    unfolding Properties_String_lines [OF assms] by (simp only: go_bind.simps NewFromString_lines [OF assms(2)])
  have room: "props_room NewProperties (length (map ?f ?ps))"
    using Len_bound [OF assms(1)] by (simp add: props_room_def entries_def) (simp add: NewProperties_def)
  have "distinct (map prop_key ([] @ map ?f ?ps))"
    using distinct_unsafeKeys [OF assms(1)] entries_keys [OF assms(1)] by (simp add: comp_def)
  then have "entries (fold put (map ?f ?ps) NewProperties) = map ?f ?ps"
    using entries_fold_put [OF room] fold_put_list_fresh [of "[]" "map ?f ?ps"] by simp
  moreover have "props_room (fold put (map ?f ?ps) NewProperties) 0"
    using entries_fold_put [OF room] by simp
  ultimately show ?thesis using run by (auto simp: props_room_def)
qed

section \<open>Struct tags without separators\<close>

lemma parseStructTagFlag_plain:
  "s \<noteq> [] \<Longrightarrow> CHR ''='' \<notin> set s \<Longrightarrow> parseStructTagFlag s = Ret \<lparr>fl_Key = s, fl_Value = []\<rparr>"
  by (simp add: parseStructTagFlag_def split_2_no_sep go_nth_def)

lemma parseStructTagFlag_value:
  "CHR ''='' \<notin> set k \<Longrightarrow> parseStructTagFlag (k @ ''='' @ v) = Ret \<lparr>fl_Key = k, fl_Value = v\<rparr>"
  by (simp add: parseStructTagFlag_def split_2_append go_nth_def)

lemma parseStructTagFlag_no_panic: "parseStructTagFlag s \<noteq> Panic"
  using split_2_length [of "CHR ''=''" s]
  by (auto simp: parseStructTagFlag_def go_nth_def Let_def split: if_splits)

lemma parse_tag_flags_no_panic: "parse_tag_flags fs st \<noteq> Panic"
  by (induction fs arbitrary: st) (auto simp: parseStructTagFlag_no_panic)

lemma escaped_plain:
  assumes "ascii k" "list_all (\<lambda>c. byte c \<notin> sep_runes) k"
  shows "escaped k = k"
proof -
  have "esc sep_runes p (map byte k) = map byte k" for p
    using assms(2) by (induction k arbitrary: p) auto
  then show ?thesis using of_runes_ascii [OF assms(1)] by (simp add: escaped_def)
qed

lemma NewFromString_line:
  assumes "printable \<lparr>prop_key = k, prop_value = v, prop_comment = []\<rparr>" "list_all (\<lambda>c. byte c \<notin> sep_runes) k"
  shows "NewFromString (k @ ''='' @ v @ [CHR 0x0A]) = Ret (put \<lparr>prop_key = k, prop_value = v, prop_comment = []\<rparr> NewProperties)"
  using NewFromString_lines [of "[\<lparr>prop_key = k, prop_value = v, prop_comment = []\<rparr>]"] assms escaped_plain [of k]
  by (simp add: prop_line_def printable_def plain_key_def)

lemma load_length: "length (load [] s) \<le> Suc (length s)"
proof -
  have pieces: "length (split_on c t) \<le> Suc (length t)" for c t
    by (induction t) (auto split: list.splits)
  have "length (takeWhile P (butlast xs)) \<le> length xs" for P and xs :: "string list"
    by (rule le_trans [OF length_takeWhile_le]) simp
  then have "length (scan_lines s) \<le> length (split_on CHR 0x0A s)"
    by (simp add: scan_lines_def Let_def length_takeWhile_le)
  then show ?thesis using pieces [of "CHR 0x0A" s] by (simp add: load_def)
qed

lemma loaded_room:
  assumes "NewFromString s = Ret p" "Suc (length s) + n < 2 ^ 64"
  shows "props_room p n \<and> list_all (trimmed \<circ> prop_value) (entries p)"
proof -
  have "props_room NewProperties (length (load [] s) + n)"
    using load_length [of s] assms(2) by (simp add: props_room_def) (simp add: NewProperties_def)
  then show ?thesis
    by (rule parse_lines_result [rotated]) (use assms(1) in \<open>simp_all add: NewFromString_def Load_def parse_def\<close>)
qed

lemmas printable_simps = printable_def plain_key_def trimmed_ascii ascii_space_def sep_runes_eq EscapeChar_def
  escaped_def of_runes_def encode_rune_def MaxScanTokenSize_def suffix_single

section \<open>Properties\<close>

text \<open>(C26) Printing a well-formed container whose properties are printable and loading the text
  again succeeds, and gives the same properties in the same order, without their comments.\<close>

theorem document_roundtrip:
  assumes "props_inv p" "list_all printable (entries p)"
  shows "\<exists>q. go_bind (Properties_String p) NewFromString = Ret q \<and> props_inv q \<and>
    entries q = map (\<lambda>e. e\<lparr>prop_comment := []\<rparr>) (entries p)"
  using assms by (rule NewFromString_printed)

theorem document_roundtrip_witness:
  "\<exists>q. go_bind (Properties_String (put \<lparr>prop_key = ''a.b'', prop_value = ''1'', prop_comment = ''# c''\<rparr> NewProperties))
      NewFromString = Ret q \<and> props_inv q \<and>
    entries q = [\<lparr>prop_key = ''a.b'', prop_value = ''1'', prop_comment = []\<rparr>]"
proof -
  let ?e = "\<lparr>prop_key = ''a.b'', prop_value = ''1'', prop_comment = ''# c''\<rparr>"
  have inv: "props_inv (put ?e NewProperties)"
    by (rule props_inv_put) (simp_all add: NewProperties_def [THEN arg_cong [where f = nextKeyIndex]])
  have ent: "entries (put ?e NewProperties) = [?e]" by (simp add: entries_put put_list_def)
  have "printable ?e"
    by (simp add: printable_simps)
  then show ?thesis using document_roundtrip [OF inv] by (simp add: ent)
qed

text \<open>The loader never panics, whatever the text, and a container it returns is well formed and
  holds only values without white space at their ends (for texts shorter than 2^64 bytes).\<close>

theorem loader_safe:
  "NewFromString s \<noteq> Panic \<and>
   (length s < 2 ^ 64 - 1 \<longrightarrow> NewFromString s = Ret p \<longrightarrow>
      props_inv p \<and> list_all (trimmed \<circ> prop_value) (entries p))"
proof (intro conjI impI)
  show "NewFromString s \<noteq> Panic"
    by (simp add: NewFromString_def Load_def parse_def parse_lines_no_panic)
next
  assume len: "length s < 2 ^ 64 - 1" and ret: "NewFromString s = Ret p"
  then have "props_room p 0 \<and> list_all (trimmed \<circ> prop_value) (entries p)" by (intro loaded_room [of s]) simp_all
  then show "props_inv p" "list_all (trimmed \<circ> prop_value) (entries p)" by (simp_all add: props_room_def)
qed

theorem loader_safe_witness:
  "NewFromString [] = Ret NewProperties \<and> props_inv NewProperties"
proof -
  have "NewFromString [] = Ret NewProperties"
    by (simp add: NewFromString_def Load_def load_def scan_lines_def parse_def)
  then show ?thesis using loader_safe [of "[]" NewProperties] by simp
qed

text \<open> Parsing a struct tag returns the key and the flags that were written: the key is everything
  before the first comma, \<open>omitempty\<close> sets the flag, \<open>default=\<close> the default value, and no tag
  makes the parser panic.\<close>

theorem struct_tag_correct:
  assumes "CHR '','' \<notin> set k" "CHR '','' \<notin> set d"
  shows "ParseStructTag (k @ '',omitempty,default='' @ d) = Ret \<lparr>st_Key = k, st_OmitEmpty = True, st_Default = d\<rparr> \<and>
    ParseStructTag s \<noteq> Panic"
proof -
  have items: "split_on CHR '','' (k @ '',omitempty,default='' @ d) = [k, ''omitempty'', ''default='' @ d]"
    using assms split_on_append [of "CHR '',''" k "''omitempty,default='' @ d"]
      split_on_append [of "CHR '',''" "''omitempty''" "''default='' @ d"]
    by (simp add: split_on_no_sep)
  have flags: "parseStructTagFlag ''omitempty'' = Ret \<lparr>fl_Key = ''omitempty'', fl_Value = []\<rparr>"
    "parseStructTagFlag (''default='' @ d) = Ret \<lparr>fl_Key = ''default'', fl_Value = d\<rparr>"
    using parseStructTagFlag_plain [of "''omitempty''"] parseStructTagFlag_value [of "''default''" d] by simp_all
  have "ParseStructTag (k @ '',omitempty,default='' @ d) = Ret \<lparr>st_Key = k, st_OmitEmpty = True, st_Default = d\<rparr>"
    unfolding ParseStructTag_def items using flags by (simp add: go_nth_def)
  moreover have "ParseStructTag s \<noteq> Panic"
    using split_on_not_Nil [of "CHR '',''" s]
    by (simp add: ParseStructTag_def go_nth_def Let_def parse_tag_flags_no_panic)
  ultimately show ?thesis ..
qed

theorem struct_tag_correct_witness:
  "ParseStructTag ''test_key,omitempty,default=x'' = Ret \<lparr>st_Key = ''test_key'', st_OmitEmpty = True, st_Default = ''x''\<rparr>"
  using struct_tag_correct [of "''test_key''" "''x''"] by simp

text \<open>The scanner stops at a line of 65536 bytes and its error is not read: everything from that line
  on is silently missing.\<close>

theorem long_line_truncates:
  assumes "CHR 0x0A \<notin> set l" "MaxScanTokenSize \<le> length l"
  shows "NewFromString (l @ [CHR 0x0A] @ rest) = Ret NewProperties"
proof -
  have "split_on CHR 0x0A (l @ [CHR 0x0A] @ rest) = l # split_on CHR 0x0A rest"
    using split_on_append [OF assms(1)] by simp
  then have "scan_lines (l @ [CHR 0x0A] @ rest) = []"
    using assms(2) by (simp add: scan_lines_def Let_def)
  then show ?thesis by (simp add: NewFromString_def Load_def load_def parse_def)
qed

text \<open>The documentation of \<open>StructTag\<close> gives a tag with the prefix \<open>properties:\<close> and says that its key is
  \<open>test_key\<close>; the parser keeps the prefix in the key. It also says that \<open>Skip\<close> is false for an
  empty key or a dash; the method returns true.\<close>

theorem struct_tag_doc_divergence:
  "ParseStructTag ''properties:test_key,omitempty,default=d'' =
     Ret \<lparr>st_Key = ''properties:test_key'', st_OmitEmpty = True, st_Default = ''d''\<rparr> \<and>
   StructTag_Skip \<lparr>st_Key = ''-'', st_OmitEmpty = True, st_Default = ''d''\<rparr>"
  by (simp add: ParseStructTag_def parseStructTagFlag_def go_nth_def StructTag_Skip_def)

end
