(* ===== verification/KubeTypes.thy ===== *)
theory KubeTypes
  imports GoStd
begin

text \<open>
  The objects of the Kubernetes API that the operator generates and reads: environment variables, volumes,
  ports, containers and pods, services, configuration maps, disruption budgets, secrets and nodes, each with
  the fields that the operator sets or reads. A field whose value is only copied (a security context, a
  resource requirement, an affinity) is its text.
\<close>

record EnvVar =
  envName :: string
  envValue :: string
  envValueFrom :: "string option"

record VolumeMount =
  vmName :: string
  vmMountPath :: string

datatype VolumeSource =
    PvcSource string
  | EmptyDirSource string
  | ConfigMapSource string
  | SecretSource string
  | OtherSource string

record Volume =
  volName :: string
  volSource :: VolumeSource

text \<open>A port of a container and a port of a service. The target port of a service port is a number.\<close>

record ContainerPort =
  cpName :: string
  cpContainerPort :: "32 word"
  cpProtocol :: string

record ServicePort =
  spName :: string
  spPort :: "32 word"
  spTargetPort :: "32 word"
  spNodePort :: "32 word"
  spProtocol :: string

datatype Probe = TCPProbe "32 word" | ExecProbe "string list"

record ContainerSpec =
  ctName :: string
  ctImage :: string
  ctCommand :: "string list"
  ctEnv :: "EnvVar list"
  ctPorts :: "ContainerPort list"
  ctVolumeMounts :: "VolumeMount list"
  ctResources :: string
  ctSecurityContext :: string
  ctReadinessProbe :: "Probe option"
  ctLivenessProbe :: "Probe option"

datatype Affinity =
    PodAntiAffinityRequired "(string, string) gomap" string
  | PodAntiAffinityPreferred int "(string, string) gomap" string
  | GivenAffinity string

record PodSpec =
  psInitContainers :: "ContainerSpec list"
  psContainers :: "ContainerSpec list"
  psVolumes :: "Volume list"
  psAffinity :: "Affinity option"
  psSecurityContext :: string
  psRestartPolicy :: string
  psTerminationGracePeriodSeconds :: "64 word"
  psImagePullSecrets :: "string list"
  psServiceAccountName :: string
  psNodeSelector :: "(string, string) gomap"
  psPriorityClassName :: string
  psHostname :: string
  psSubdomain :: string
  psNodeName :: string

definition zero_PodSpec :: PodSpec where
  "zero_PodSpec = \<lparr>psInitContainers = [], psContainers = [], psVolumes = [], psAffinity = None, psSecurityContext = [],
     psRestartPolicy = [], psTerminationGracePeriodSeconds = 0, psImagePullSecrets = [], psServiceAccountName = [],
     psNodeSelector = [], psPriorityClassName = [], psHostname = [], psSubdomain = [], psNodeName = []\<rparr>"

text \<open>The metadata of a generated object. Its owner is the Kafka cluster.\<close>

record GenMeta =
  gmName :: string
  gmNamespace :: string
  gmLabels :: "(string, string) gomap"
  gmAnnotations :: "(string, string) gomap"
  gmDeletionTimestamp :: "int option"
  gmResourceVersion :: string

record Service =
  svcMeta :: GenMeta
  svcType :: string
  svcSelector :: "(string, string) gomap"
  svcPorts :: "ServicePort list"
  svcClusterIP :: string
  svcPublishNotReadyAddresses :: bool
  svcHealthCheckNodePort :: "32 word"
  svcIngress :: "(string \<times> string) list"

record ConfigMap =
  cmMeta :: GenMeta
  cmData :: "(string, string) gomap"

record PodDisruptionBudget =
  pdbMeta :: GenMeta
  pdbMinAvailable :: "64 word"
  pdbSelector :: "(string, string) gomap"

datatype kobject = ServiceObj Service | ConfigMapObj ConfigMap | PdbObj PodDisruptionBudget

fun obj_meta :: "kobject \<Rightarrow> GenMeta" where
  "obj_meta (ServiceObj s) = svcMeta s"
| "obj_meta (ConfigMapObj c) = cmMeta c"
| "obj_meta (PdbObj p) = pdbMeta p"

datatype kkind = KindService | KindConfigMap | KindPdb

fun obj_kind :: "kobject \<Rightarrow> kkind" where
  "obj_kind (ServiceObj s) = KindService"
| "obj_kind (ConfigMapObj c) = KindConfigMap"
| "obj_kind (PdbObj p) = KindPdb"

text \<open>A secret is given by its data, a node by its labels and addresses.\<close>

record Secret =
  secName :: string
  secData :: "(string, string) gomap"

record Node =
  nodeLabels :: "(string, string) gomap"
  nodeAddresses :: "(string \<times> string) list"

end
