(* ===== verification/CCTypes.thy ===== *)
theory CCTypes
  imports KubeTypes
begin

text \<open>
  The custom resources that the Cruise Control controllers work on: the state enumerations and
  their predicates (\<open>api/v1beta1/common_types.go\<close>), the \<open>CruiseControlOperation\<close> resource with its
  methods (\<open>api/v1alpha1/cruisecontroloperation_types.go\<close>) and the part of \<open>KafkaCluster\<close> the
  controllers read.

  A Go string type with declared constants is a datatype with one constructor per constant, one
  for the empty string (the zero value) and one for every other string. A time is the number of
  nanoseconds since the zero time of Go. A pointer field is an option. A Go map that is written
  through is an option of a \<open>gomap\<close>, \<open>None\<close> being the nil map whose assignment panics.
\<close>

section \<open>State enumerations (api/v1beta1/common\_types.go)\<close>

datatype CruiseControlState =
    CCStateNone
  | GracefulUpscaleRequired
  | GracefulUpscaleRunning
  | GracefulUpscaleScheduled
  | GracefulUpscaleSucceeded
  | GracefulUpscaleCompletedWithError
  | GracefulUpscalePaused
  | GracefulDownscaleRequired
  | GracefulDownscaleScheduled
  | GracefulDownscaleRunning
  | GracefulDownscaleSucceeded
  | GracefulDownscaleCompletedWithError
  | GracefulDownscalePaused
  | CCStateOther string

datatype CruiseControlVolumeState =
    VolumeStateNone
  | GracefulDiskRemovalRequired
  | GracefulDiskRemovalRunning
  | GracefulDiskRemovalSucceeded
  | GracefulDiskRemovalScheduled
  | GracefulDiskRemovalCompletedWithError
  | GracefulDiskRemovalPaused
  | GracefulDiskRebalanceRequired
  | GracefulDiskRebalanceRunning
  | GracefulDiskRebalanceSucceeded
  | GracefulDiskRebalanceScheduled
  | GracefulDiskRebalanceCompletedWithError
  | GracefulDiskRebalancePaused
  | VolumeStateOther string

datatype CruiseControlUserTaskState =
    UserTaskNone
  | CruiseControlTaskActive
  | CruiseControlTaskInExecution
  | CruiseControlTaskCompleted
  | CruiseControlTaskCompletedWithError
  | UserTaskOther string

definition IsDiskRebalanceRunning :: "CruiseControlVolumeState \<Rightarrow> bool" where
  "IsDiskRebalanceRunning s \<longleftrightarrow>
     s = GracefulDiskRebalanceRunning \<or> s = GracefulDiskRebalanceCompletedWithError \<or>
     s = GracefulDiskRebalancePaused \<or> s = GracefulDiskRebalanceScheduled"

definition IsDiskRemovalRunning :: "CruiseControlVolumeState \<Rightarrow> bool" where
  "IsDiskRemovalRunning s \<longleftrightarrow>
     s = GracefulDiskRemovalRunning \<or> s = GracefulDiskRemovalCompletedWithError \<or>
     s = GracefulDiskRemovalPaused \<or> s = GracefulDiskRemovalScheduled"

definition VolumeState_IsRequiredState :: "CruiseControlVolumeState \<Rightarrow> bool" where
  "VolumeState_IsRequiredState s \<longleftrightarrow> s = GracefulDiskRebalanceRequired \<or> s = GracefulDiskRemovalRequired"

definition IsDiskRebalance :: "CruiseControlVolumeState \<Rightarrow> bool" where
  "IsDiskRebalance s \<longleftrightarrow> IsDiskRebalanceRunning s \<or> s = GracefulDiskRebalanceRequired"

definition IsDiskRemoval :: "CruiseControlVolumeState \<Rightarrow> bool" where
  "IsDiskRemoval s \<longleftrightarrow> IsDiskRemovalRunning s \<or> s = GracefulDiskRemovalRequired"

definition IsUpscale :: "CruiseControlState \<Rightarrow> bool" where
  "IsUpscale r \<longleftrightarrow>
     r = GracefulUpscaleRequired \<or> r = GracefulUpscaleSucceeded \<or> r = GracefulUpscaleRunning \<or>
     r = GracefulUpscaleCompletedWithError \<or> r = GracefulUpscalePaused \<or> r = GracefulUpscaleScheduled"

definition IsDownscale :: "CruiseControlState \<Rightarrow> bool" where
  "IsDownscale r \<longleftrightarrow>
     r = GracefulDownscaleRequired \<or> r = GracefulDownscaleSucceeded \<or> r = GracefulDownscaleRunning \<or>
     r = GracefulDownscaleCompletedWithError \<or> r = GracefulDownscalePaused \<or> r = GracefulDownscaleScheduled"

definition IsRunningState :: "CruiseControlState \<Rightarrow> bool" where
  "IsRunningState r \<longleftrightarrow>
     r = GracefulUpscaleRunning \<or> r = GracefulUpscaleCompletedWithError \<or>
     r = GracefulUpscalePaused \<or> r = GracefulUpscaleScheduled \<or>
     r = GracefulDownscaleRunning \<or> r = GracefulDownscaleCompletedWithError \<or>
     r = GracefulDownscalePaused \<or> r = GracefulDownscaleScheduled"

definition IsRequiredState :: "CruiseControlState \<Rightarrow> bool" where
  "IsRequiredState r \<longleftrightarrow> r = GracefulDownscaleRequired \<or> r = GracefulUpscaleRequired"

definition IsActive :: "CruiseControlState \<Rightarrow> bool" where
  "IsActive r \<longleftrightarrow> IsRunningState r \<or> IsRequiredState r"

definition IsSucceeded :: "CruiseControlState \<Rightarrow> bool" where
  "IsSucceeded r \<longleftrightarrow> r = GracefulDownscaleSucceeded \<or> r = GracefulUpscaleSucceeded"

definition IsDiskRebalanceSucceeded :: "CruiseControlVolumeState \<Rightarrow> bool" where
  "IsDiskRebalanceSucceeded r \<longleftrightarrow> r = GracefulDiskRebalanceSucceeded"

definition IsDiskRemovalSucceeded :: "CruiseControlVolumeState \<Rightarrow> bool" where
  "IsDiskRemovalSucceeded r \<longleftrightarrow> r = GracefulDiskRemovalSucceeded"

lemmas cc_state_defs =
  IsDiskRebalanceRunning_def IsDiskRemovalRunning_def VolumeState_IsRequiredState_def
  IsDiskRebalance_def IsDiskRemoval_def IsUpscale_def IsDownscale_def IsRunningState_def
  IsRequiredState_def IsActive_def IsSucceeded_def IsDiskRebalanceSucceeded_def
  IsDiskRemovalSucceeded_def

section \<open>Time and object metadata\<close>

type_synonym time = int

definition Second :: int where
  "Second = 1000000000"

definition Unix :: "time \<Rightarrow> int" where
  "Unix t = t div Second - 62135596800"

definition time_IsZero :: "time option \<Rightarrow> bool" where
  "time_IsZero t \<longleftrightarrow> (case t of None \<Rightarrow> True | Some n \<Rightarrow> n = 0)"

record ObjectMeta =
  Name :: string
  GenerateName :: string
  Namespace :: string
  Labels :: "(string, string) gomap option"
  Finalizers :: "string list"
  OwnerReferences :: "string list"
  CreationTimestamp :: time
  DeletionTimestamp :: "time option"
  Generation :: int
  ResourceVersion :: string

definition GetLabel :: "ObjectMeta \<Rightarrow> string \<Rightarrow> string" where
  "GetLabel m k = (case Labels m of None \<Rightarrow> [] | Some l \<Rightarrow> (case map_of l k of None \<Rightarrow> [] | Some v \<Rightarrow> v))"

section \<open>CruiseControlOperation (api/v1alpha1)\<close>

datatype CruiseControlTaskOperation =
    OperationNone
  | OperationStopExecution
  | OperationAddBroker
  | OperationRemoveBroker
  | OperationRemoveDisks
  | OperationRebalance
  | OperationStatus
  | OperationOther string

fun op_string :: "CruiseControlTaskOperation \<Rightarrow> string" where
  "op_string OperationNone = []"
| "op_string OperationStopExecution = ''stop_proposal_execution''"
| "op_string OperationAddBroker = ''add_broker''"
| "op_string OperationRemoveBroker = ''remove_broker''"
| "op_string OperationRemoveDisks = ''remove_disks''"
| "op_string OperationRebalance = ''rebalance''"
| "op_string OperationStatus = ''status''"
| "op_string (OperationOther s) = s"

datatype ErrorPolicyType = ErrorPolicyNone | ErrorPolicyIgnore | ErrorPolicyRetry | ErrorPolicyOther string

definition DefaultRetryBackOffDurationSec :: int where
  "DefaultRetryBackOffDurationSec = 30"

definition PauseLabel :: string where
  "PauseLabel = ''pause''"

definition True_str :: string where
  "True_str = ''true''"

definition KafkaCRLabelKey :: string where
  "KafkaCRLabelKey = ''kafka_cr''"

record CruiseControlTask =
  ID :: string
  Started :: "time option"
  Finished :: "time option"
  Operation :: CruiseControlTaskOperation
  Parameters :: "(string, string) gomap"
  HTTPRequest :: string
  HTTPResponseCode :: "int option"
  Summary :: "(string, string) gomap"
  State :: CruiseControlUserTaskState
  ErrorMessage :: string

definition new_task :: "CruiseControlTaskOperation \<Rightarrow> CruiseControlTask" where
  "new_task opn = \<lparr>ID = [], Started = None, Finished = None, Operation = opn, Parameters = [],
     HTTPRequest = [], HTTPResponseCode = None, Summary = [], State = UserTaskNone, ErrorMessage = []\<rparr>"

definition SetDefaults :: "CruiseControlTask \<Rightarrow> CruiseControlTask" where
  "SetDefaults t = t\<lparr>Finished := None, State := UserTaskNone, Started := None, ErrorMessage := [],
     HTTPRequest := [], HTTPResponseCode := None, ID := [], Summary := []\<rparr>"

record CruiseControlOperationSpec =
  ErrorPolicy :: ErrorPolicyType
  TTLSecondsAfterFinished :: "64 word option"

record CruiseControlOperationStatus =
  StatusCurrentTask :: "CruiseControlTask option"
  StatusErrorPolicy :: ErrorPolicyType
  RetryCount :: int
  FailedTasks :: "CruiseControlTask list"

record CruiseControlOperation =
  Meta :: ObjectMeta
  Spec :: CruiseControlOperationSpec
  Status :: CruiseControlOperationStatus

definition GetTTLSecondsAfterFinished :: "CruiseControlOperation \<Rightarrow> 64 word option" where
  "GetTTLSecondsAfterFinished c = TTLSecondsAfterFinished (Spec c)"

definition CurrentTask :: "CruiseControlOperation \<Rightarrow> CruiseControlTask option" where
  "CurrentTask op = StatusCurrentTask (Status op)"

definition CurrentTaskParameters :: "CruiseControlOperation \<Rightarrow> (string, string) gomap" where
  "CurrentTaskParameters op = (case CurrentTask op of None \<Rightarrow> [] | Some t \<Rightarrow> Parameters t)"

definition GetClusterRef :: "CruiseControlOperation \<Rightarrow> string" where
  "GetClusterRef op = GetLabel (Meta op) KafkaCRLabelKey"

definition CurrentTaskState :: "CruiseControlOperation \<Rightarrow> CruiseControlUserTaskState" where
  "CurrentTaskState op = (case CurrentTask op of None \<Rightarrow> UserTaskNone | Some t \<Rightarrow> State t)"

definition CurrentTaskID :: "CruiseControlOperation \<Rightarrow> string" where
  "CurrentTaskID op = (case CurrentTask op of None \<Rightarrow> [] | Some t \<Rightarrow> ID t)"

definition CurrentTaskFinished :: "CruiseControlOperation \<Rightarrow> time option" where
  "CurrentTaskFinished op = (case CurrentTask op of None \<Rightarrow> None | Some t \<Rightarrow> Finished t)"

definition CurrentTaskOperation :: "CruiseControlOperation \<Rightarrow> CruiseControlTaskOperation" where
  "CurrentTaskOperation op = (case CurrentTask op of None \<Rightarrow> OperationNone | Some t \<Rightarrow> Operation t)"

definition IsWaitingForFirstExecution :: "CruiseControlOperation \<Rightarrow> bool" where
  "IsWaitingForFirstExecution op \<longleftrightarrow>
     CurrentTaskState op = UserTaskNone \<and> CurrentTaskID op = [] \<and> RetryCount (Status op) = 0"

definition IsInProgress :: "CruiseControlOperation \<Rightarrow> bool" where
  "IsInProgress op \<longleftrightarrow> CurrentTaskID op \<noteq> [] \<and>
     (CurrentTaskState op = CruiseControlTaskActive \<or> CurrentTaskState op = CruiseControlTaskInExecution)"

definition IsPaused :: "CruiseControlOperation \<Rightarrow> bool" where
  "IsPaused op \<longleftrightarrow> GetLabel (Meta op) PauseLabel = True_str"

definition IsErrorPolicyIgnore :: "CruiseControlOperation \<Rightarrow> bool" where
  "IsErrorPolicyIgnore op \<longleftrightarrow> ErrorPolicy (Spec op) = ErrorPolicyIgnore"

definition IsFinished :: "CruiseControlOperation \<Rightarrow> bool" where
  "IsFinished op \<longleftrightarrow> CurrentTaskState op = CruiseControlTaskCompleted \<or>
     (ErrorPolicy (Spec op) = ErrorPolicyIgnore \<and> CurrentTaskState op = CruiseControlTaskCompletedWithError)"

definition IsDone :: "CruiseControlOperation \<Rightarrow> bool" where
  "IsDone op \<longleftrightarrow> (IsPaused op \<and> CurrentTaskState op = CruiseControlTaskCompletedWithError) \<or> IsFinished op"

definition IsErrorPolicyRetry :: "CruiseControlOperation \<Rightarrow> bool" where
  "IsErrorPolicyRetry op \<longleftrightarrow> ErrorPolicy (Spec op) = ErrorPolicyRetry"

definition IsWaitingForRetryExecution :: "CruiseControlOperation \<Rightarrow> bool" where
  "IsWaitingForRetryExecution op \<longleftrightarrow> (\<not> IsPaused op \<and> IsErrorPolicyRetry op) \<and>
     CurrentTaskState op = CruiseControlTaskCompletedWithError \<and> CurrentTaskID op \<noteq> []"

definition IsReadyForRetryExecution :: "time \<Rightarrow> CruiseControlOperation \<Rightarrow> bool" where
  "IsReadyForRetryExecution now op \<longleftrightarrow> IsWaitingForRetryExecution op \<and>
     (case CurrentTaskFinished op of None \<Rightarrow> False
      | Some f \<Rightarrow> f + Second * DefaultRetryBackOffDurationSec < now)"

definition IsCurrentTaskRunning :: "CruiseControlOperation \<Rightarrow> bool" where
  "IsCurrentTaskRunning op \<longleftrightarrow>
     (CurrentTaskState op = CruiseControlTaskInExecution \<or> CurrentTaskState op = CruiseControlTaskActive) \<and>
     CurrentTaskFinished op = None"

definition IsCurrentTaskFinished :: "CruiseControlOperation \<Rightarrow> bool" where
  "IsCurrentTaskFinished op \<longleftrightarrow>
     CurrentTaskState op = CruiseControlTaskCompleted \<or> CurrentTaskState op = CruiseControlTaskCompletedWithError"

definition IsCurrentTaskOperationValid :: "CruiseControlOperation \<Rightarrow> bool" where
  "IsCurrentTaskOperationValid op \<longleftrightarrow>
     CurrentTaskOperation op = OperationAddBroker \<or> CurrentTaskOperation op = OperationRebalance \<or>
     CurrentTaskOperation op = OperationRemoveBroker \<or> CurrentTaskOperation op = OperationStopExecution \<or>
     CurrentTaskOperation op = OperationRemoveDisks"

lemmas cc_op_defs =
  CurrentTaskParameters_def GetClusterRef_def CurrentTaskState_def CurrentTaskID_def CurrentTaskFinished_def
  CurrentTaskOperation_def IsWaitingForFirstExecution_def IsInProgress_def IsErrorPolicyIgnore_def
  IsFinished_def IsDone_def IsErrorPolicyRetry_def IsWaitingForRetryExecution_def
  IsReadyForRetryExecution_def IsCurrentTaskRunning_def IsCurrentTaskFinished_def
  IsCurrentTaskOperationValid_def

text \<open>\<open>op.Status.CurrentTask\<close> is a pointer: writing a field of the task changes the operation.\<close>

definition upd_task :: "(CruiseControlTask \<Rightarrow> CruiseControlTask) \<Rightarrow> CruiseControlOperation \<Rightarrow> CruiseControlOperation" where
  "upd_task f op = op\<lparr>Status := (Status op)\<lparr>StatusCurrentTask := map_option f (CurrentTask op)\<rparr>\<rparr>"

lemma CurrentTask_upd_task [simp]: "CurrentTask (upd_task f op) = map_option f (CurrentTask op)"
  by (simp add: upd_task_def CurrentTask_def)

lemma upd_task_other [simp]:
  "Meta (upd_task f op) = Meta op" "Spec (upd_task f op) = Spec op"
  "RetryCount (Status (upd_task f op)) = RetryCount (Status op)"
  "FailedTasks (Status (upd_task f op)) = FailedTasks (Status op)"
  by (simp_all add: upd_task_def)

section \<open>The part of KafkaCluster the controllers read (api/v1beta1)\<close>

record VolumeState =
  volCruiseControlVolumeState :: CruiseControlVolumeState
  volCruiseControlOperationReference :: "string option"

record GracefulActionState =
  gasCruiseControlState :: CruiseControlState
  gasCruiseControlOperationReference :: "string option"
  VolumeStates :: "(string, VolumeState) gomap"

record BrokerState =
  RackAwarenessState :: string
  bsGracefulActionState :: GracefulActionState
  ConfigurationState :: string
  PerBrokerConfigurationState :: string
  ExternalListenerConfigNames :: "string list"
  Version :: string
  Image :: string
  ConfigurationBackup :: string

text \<open>The parts of a storage or an affinity that come from the Kubernetes API are kept as their text, except for the
  storage that a claim requests.\<close>

record StorageConfig =
  MountPath :: string
  PvcSpec :: "string option"
  PvcStorage :: int
  EmptyDir :: "string option"

record BrokerConfig =
  Roles :: "string list"
  bcImage :: string
  bcMetricsReporterImage :: string
  StorageConfigs :: "StorageConfig list"
  BrokerLabels :: "(string, string) gomap"
  BrokerAnnotations :: "(string, string) gomap"
  Affinity :: "string option"
  BrokerIngressMapping :: "string list"
  Envs :: "EnvVar list"
  TerminationGracePeriod :: "64 word option"
  bcConfig :: string
  Log4jConfig :: string
  Tolerations :: "string list"
  NodePortExternalIP :: "(string, string) gomap"
  NodePortNodeAddressType :: string
  KafkaHeapOpts :: string
  KafkaJVMPerfOpts :: string
  InitContainers :: "ContainerSpec list"
  Containers :: "ContainerSpec list"
  Volumes :: "Volume list"
  VolumeMounts :: "VolumeMount list"
  ServiceAccountName :: string
  Resources :: "string option"
  ImagePullSecrets :: "string list"
  NodeSelector :: "(string, string) gomap"
  PodSecurityContext :: string
  SecurityContext :: string
  PriorityClassName :: string

record Broker =
  BrokerId :: "32 word"
  BrokerConfigGroup :: string
  ReadOnlyConfig :: string
  brokerBrokerConfig :: "BrokerConfig option"

record RollingUpgradeConfig =
  FailureThreshold :: int
  ConcurrentBrokerRestartCountPerRack :: int

record EnvoyConfig =
  AdminPort :: "32 word option"
  HealthCheckPort :: "32 word option"
  BrokerHostnameTemplate :: string

record ContourIngressConfig =
  contourTLSSecretName :: string
  BrokerFQDNTemplate :: string

text \<open>The configuration of an Istio ingress is only merged and handed on: it is kept as its text.\<close>

record IngressServiceSettings =
  HostnameOverride :: string
  issServiceAnnotations :: "(string, string) gomap"
  ExternalTrafficPolicy :: string
  ServiceType :: string

record IngressConfig =
  icSettings :: IngressServiceSettings
  icIstioIngressConfig :: "string option"
  icEnvoyConfig :: "EnvoyConfig option"
  icContourIngressConfig :: "ContourIngressConfig option"

record ListenerIngress =
  DefaultIngressConfig :: string
  IngressConfigs :: "(string, IngressConfig) gomap"

text \<open>The fields of \<open>CommonListenerSpec\<close> have the prefix \<open>el\<close> in an external and \<open>il\<close> in an internal listener.\<close>

record ExternalListenerConfig =
  elName :: string
  elContainerPort :: "32 word"
  elUsedForInnerBrokerCommunication :: bool
  elUsedForKafkaAdminCommunication :: bool
  ExternalStartingPort :: "32 word"
  AnyCastPort :: "32 word option"
  IngressControllerTargetPort :: "32 word option"
  AccessMethod :: string
  elType :: string
  elSSLClientAuth :: string
  elServerSSLCertSecret :: "string option"
  elSettings :: IngressServiceSettings
  elConfig :: "ListenerIngress option"

record InternalListenerConfig =
  ilName :: string
  ilContainerPort :: "32 word"
  ilUsedForInnerBrokerCommunication :: bool
  ilUsedForKafkaAdminCommunication :: bool
  UsedForControllerCommunication :: bool
  ilType :: string
  ilSSLClientAuth :: string
  ilServerSSLCertSecret :: "string option"
  InternalStartingPort :: "32 word"
  ExternalListenerForHostname :: string

record ListenersConfig =
  ExternalListeners :: "ExternalListenerConfig list"
  InternalListeners :: "InternalListenerConfig list"
  SSLSecrets :: "string option"
  ServiceAnnotations :: "(string, string) gomap"

record DisruptionBudget =
  Create :: bool
  Budget :: string

record MonitoringConfig =
  JmxImage :: string
  PathToJar :: string

record ListenerStatus =
  lsName :: string
  lsAddress :: string

type_synonym listener_statuses = "(string, ListenerStatus list) gomap"

record AlertManagerConfig =
  DownScaleLimit :: int
  UpScaleLimit :: int

record KafkaClusterSpec =
  specListenersConfig :: ListenersConfig
  specEnvoyConfig :: EnvoyConfig
  IngressController :: string
  KubernetesClusterDomain :: string
  specAlertManagerConfig :: "AlertManagerConfig option"
  ClusterWideConfig :: string
  KRaftMode :: bool
  HeadlessServiceEnabled :: bool
  specRollingUpgradeConfig :: RollingUpgradeConfig
  Brokers :: "Broker list"
  BrokerConfigGroups :: "(string, BrokerConfig) gomap"
  specEnvs :: "EnvVar list"
  CapacityConfig :: string
  ccOperationSpec :: "64 word option option"
  specReadOnlyConfig :: string
  ZKAddresses :: "string list"
  ZKPath :: string
  ClientSSLCertSecret :: "string option"
  RackAwareness :: "string list option"
  specDisruptionBudget :: DisruptionBudget
  ClusterImage :: string
  ClusterMetricsReporterImage :: string
  CruiseControlImage :: string
  OneBrokerPerNode :: bool
  IstioControlPlane :: "string option"
  IstioIngressConfig :: string
  specContourIngressConfig :: ContourIngressConfig
  AdditionalPorts :: "ContainerPort list"
  specMonitoringConfig :: MonitoringConfig
  PropagateLabels :: bool

record KafkaCluster =
  kcName :: string
  kcNamespace :: string
  kcAnnotations :: "(string, string) gomap"
  kcFinalizers :: "string list"
  kcDeletionTimestamp :: "time option"
  kcGeneration :: int
  kcSpec :: KafkaClusterSpec
  BrokersState :: "(string, BrokerState) gomap"
  ClusterState :: string
  CruiseControlTopicStatus :: string
  RollingUpgradeErrorCount :: int
  RollingUpgradeLastSuccess :: string
  kcLabels :: "(string, string) gomap"
  ClusterID :: string
  statusInternalListeners :: listener_statuses
  statusExternalListeners :: listener_statuses

definition no_listeners :: ListenersConfig where
  "no_listeners = \<lparr>ExternalListeners = [], InternalListeners = [], SSLSecrets = None, ServiceAnnotations = []\<rparr>"

text \<open>The zero values of Go.\<close>

definition zero_IngressServiceSettings :: IngressServiceSettings where
  "zero_IngressServiceSettings = \<lparr>HostnameOverride = [], issServiceAnnotations = [], ExternalTrafficPolicy = [], ServiceType = []\<rparr>"

definition zero_KafkaClusterSpec :: KafkaClusterSpec where
  "zero_KafkaClusterSpec = \<lparr>specListenersConfig = no_listeners,
     specEnvoyConfig = \<lparr>AdminPort = None, HealthCheckPort = None, BrokerHostnameTemplate = []\<rparr>, IngressController = [],
     KubernetesClusterDomain = [], specAlertManagerConfig = None, ClusterWideConfig = [], KRaftMode = False, HeadlessServiceEnabled = False,
     specRollingUpgradeConfig = \<lparr>FailureThreshold = 0, ConcurrentBrokerRestartCountPerRack = 0\<rparr>, Brokers = [],
     BrokerConfigGroups = [], specEnvs = [], CapacityConfig = [], ccOperationSpec = None, specReadOnlyConfig = [], ZKAddresses = [],
     ZKPath = [], ClientSSLCertSecret = None, RackAwareness = None, specDisruptionBudget = \<lparr>Create = False, Budget = []\<rparr>,
     ClusterImage = [], ClusterMetricsReporterImage = [], CruiseControlImage = [], OneBrokerPerNode = False, IstioControlPlane = None,
     IstioIngressConfig = [], specContourIngressConfig = \<lparr>contourTLSSecretName = [], BrokerFQDNTemplate = []\<rparr>, AdditionalPorts = [],
     specMonitoringConfig = \<lparr>JmxImage = [], PathToJar = []\<rparr>, PropagateLabels = False\<rparr>"

definition zero_KafkaCluster :: KafkaCluster where
  "zero_KafkaCluster = \<lparr>kcName = [], kcNamespace = [], kcAnnotations = [], kcFinalizers = [], kcDeletionTimestamp = None,
     kcGeneration = 0, kcSpec = zero_KafkaClusterSpec, BrokersState = [], ClusterState = [], CruiseControlTopicStatus = [],
     RollingUpgradeErrorCount = 0, RollingUpgradeLastSuccess = [], kcLabels = [], ClusterID = [], statusInternalListeners = [],
     statusExternalListeners = []\<rparr>"

lemmas zero_cluster_defs [simp] = zero_KafkaClusterSpec_def zero_KafkaCluster_def

definition Spec_GetTTLSecondsAfterFinished :: "64 word option option \<Rightarrow> 64 word option" where
  "Spec_GetTTLSecondsAfterFinished c = (case c of None \<Rightarrow> None | Some t \<Rightarrow> t)"

section \<open>Errors, labels and controller results\<close>

text \<open>
  An error value: the two API errors the controllers test for, any other error by its text, an error
  wrapped with a message and one wrapped in a type of the error factory; the tests look through both to the cause.
\<close>

datatype errtype =
    ResourceNotReady | APIFailure | StatusUpdateError | BrokersUnreachable | BrokersNotReady | BrokersRequestError
  | CreateTopicError | TopicNotFound | GracefulUpscaleFailed | TooManyResources | InternalError | FatalReconcileError
  | ReconcileRollingUpgrade | CruiseControlNotReady | CruiseControlTaskRunning | CruiseControlTaskTimeout
  | CruiseControlTaskFailure | PerBrokerConfigNotReady | LoadBalancerIPNotReady

datatype err = ApiNotFound | ApiConflict | NewErr string | WrapErr string err | TypedErr errtype err

fun IsNotFound :: "err \<Rightarrow> bool" where
  "IsNotFound ApiNotFound = True"
| "IsNotFound ApiConflict = False"
| "IsNotFound (NewErr s) = False"
| "IsNotFound (WrapErr s e) = IsNotFound e"
| "IsNotFound (TypedErr t e) = IsNotFound e"

fun IsConflict :: "err \<Rightarrow> bool" where
  "IsConflict ApiNotFound = False"
| "IsConflict ApiConflict = True"
| "IsConflict (NewErr s) = False"
| "IsConflict (WrapErr s e) = IsConflict e"
| "IsConflict (TypedErr t e) = IsConflict e"

definition typed :: "errtype \<Rightarrow> err \<Rightarrow> err" where
  "typed t e = TypedErr t e"

text \<open>\<open>errors.As\<close> for a type of the factory.\<close>

fun errors_As :: "err \<Rightarrow> errtype \<Rightarrow> bool" where
  "errors_As (TypedErr t e) u = (t = u \<or> errors_As e u)"
| "errors_As (WrapErr s e) u = errors_As e u"
| "errors_As ApiNotFound u = False"
| "errors_As ApiConflict u = False"
| "errors_As (NewErr s) u = False"

text \<open>What a reconcile returns: \<open>ctrl.Result\<close> with no error, or an error.\<close>

datatype ctrl_result = Reconciled | RequeueAfter int

type_synonym reconcile_result = "(err, ctrl_result) go"

definition requeueAfter :: "int \<Rightarrow> reconcile_result" where
  "requeueAfter sec = Ret (RequeueAfter sec)"

definition requeueWithError :: "string \<Rightarrow> err \<Rightarrow> reconcile_result" where
  "requeueWithError msg e = Err e"

definition reconciled :: reconcile_result where
  "reconciled = Ret Reconciled"

lemmas ctrl_defs [simp] = requeueAfter_def requeueWithError_def reconciled_def

definition CloneMap :: "(string, string) gomap \<Rightarrow> (string, string) gomap" where
  "CloneMap original = fold (\<lambda>(k, v). AList.update k v) original []"

definition MergeLabels :: "(string, string) gomap list \<Rightarrow> (string, string) gomap" where
  "MergeLabels ls = fold (\<lambda>l res. fold (\<lambda>(k, v). AList.update k v) l res) ls []"

definition LabelsForKafka :: "string \<Rightarrow> (string, string) gomap" where
  "LabelsForKafka name = [(''app'', ''kafka''), (''kafka_cr'', name)]"

definition LabelsForBroker :: "string \<Rightarrow> (string, string) gomap" where
  "LabelsForBroker name = [(''isBrokerNode'', ''true''), (''app'', ''kafka''), (''kafka_cr'', name)]"

definition LabelsForController :: "string \<Rightarrow> (string, string) gomap" where
  "LabelsForController name = [(''isControllerNode'', ''true''), (''app'', ''kafka''), (''kafka_cr'', name)]"

fun StringSliceContains :: "string list \<Rightarrow> string \<Rightarrow> bool" where
  "StringSliceContains [] s = False"
| "StringSliceContains (v # vs) s = (if v = s then True else StringSliceContains vs s)"

lemma StringSliceContains_iff [simp]: "StringSliceContains vs s \<longleftrightarrow> s \<in> set vs"
  by (induction vs) auto

end
