(* ===== verification/Scaler.thy ===== *)
theory Scaler
  imports CCTypes
begin

text \<open>
  The Cruise Control scaler (\<open>pkg/scale\<close>): how the parameters of an operation become a request to
  Cruise Control and how the response becomes a result. The HTTP client is a parameter, the record
  \<open>cc_client\<close>: one function per endpoint that the scaler calls. Every operation returns the requests
  it sent beside its result, so that what reaches Cruise Control is observable.

  The client of the repository allocates the response before it sends the request, so a response is
  there even when an error is returned; the endpoints whose result the scaler dereferences give a
  result whenever they give no error. The text of an error is not reproduced.
\<close>

section \<open>Requests and responses\<close>

datatype ProposalDataSource = ProposalDataSourceValidWindows | ProposalDataSourceOther string

record AddBrokerRequest =
  abAllowCapacityEstimation :: bool
  abBrokerIDs :: "32 word list"
  abDataFrom :: ProposalDataSource
  abUseReadyDefaultGoals :: bool
  abExcludeRecentlyDemotedBrokers :: bool
  abExcludeRecentlyRemovedBrokers :: bool

record RemoveBrokerRequest =
  rbAllowCapacityEstimation :: bool
  rbBrokerIDs :: "32 word list"
  rbDataFrom :: ProposalDataSource
  rbUseReadyDefaultGoals :: bool
  rbExcludeRecentlyDemotedBrokers :: bool
  rbExcludeRecentlyRemovedBrokers :: bool

record RebalanceRequest =
  reAllowCapacityEstimation :: bool
  reDestinationBrokerIDs :: "32 word list"
  reDataFrom :: ProposalDataSource
  reUseReadyDefaultGoals :: bool
  reRebalanceDisk :: bool
  reExcludeRecentlyDemotedBrokers :: bool
  reExcludeRecentlyRemovedBrokers :: bool

datatype cc_request =
    ReqState bool
  | ReqUserTasks "string list" bool
  | ReqAddBroker AddBrokerRequest
  | ReqRemoveBroker RemoveBrokerRequest
  | ReqRebalance RebalanceRequest
  | ReqRemoveDisks "(32 word, string list) gomap"
  | ReqStop
  | ReqLoad
  | ReqClusterState

text \<open>The requests that start or stop work in Cruise Control.\<close>

fun executes :: "cc_request \<Rightarrow> bool" where
  "executes (ReqAddBroker r) = True"
| "executes (ReqRemoveBroker r) = True"
| "executes (ReqRebalance r) = True"
| "executes (ReqRemoveDisks m) = True"
| "executes ReqStop = True"
| "executes _ = False"

record OptimizerResult =
  NumReplicaMovements :: int
  DataToMoveMB :: int
  NumIntraBrokerReplicaMovements :: int
  IntraBrokerDataToMoveMB :: int
  NumLeaderMovements :: int
  RecentWindows :: int
  ProvisionRecommendation :: string

record cc_response =
  respTaskID :: string
  respDate :: string
  respStatusCode :: int
  respRequestURL :: string
  respResult :: "OptimizerResult option"

datatype GoalReadinessStatus = GoalReadinessStatusUndefined | GoalReadinessStatusNotReady | GoalReadinessStatusReady

datatype MonitorStateType =
    MonitorStateUndefined | MonitorStateNotStarted | MonitorStateRunning | MonitorStatePaused
  | MonitorStateSampling | MonitorStateBootstrapping | MonitorStateTraining | MonitorStateLoading

datatype ExecutorStateType =
    ExecutorStateTypeUndefined | ExecutorStateTypeNoTaskInProgress | ExecutorStateTypeBusy string

record StateResult =
  srMonitorState :: MonitorStateType
  srExecutorState :: ExecutorStateType
  srIsProposalReady :: bool
  srGoalReadiness :: "GoalReadinessStatus list"

datatype UserTaskStatus =
    UserTaskStatusUndefined | UserTaskStatusActive | UserTaskStatusInExecution
  | UserTaskStatusCompleted | UserTaskStatusCompletedWithError

fun UserTaskStatus_state :: "UserTaskStatus \<Rightarrow> CruiseControlUserTaskState" where
  "UserTaskStatus_state UserTaskStatusActive = CruiseControlTaskActive"
| "UserTaskStatus_state UserTaskStatusInExecution = CruiseControlTaskInExecution"
| "UserTaskStatus_state UserTaskStatusCompleted = CruiseControlTaskCompleted"
| "UserTaskStatus_state UserTaskStatusCompletedWithError = CruiseControlTaskCompletedWithError"
| "UserTaskStatus_state UserTaskStatusUndefined = UserTaskOther ''UNDEFINED''"

text \<open>The start of a task is kept as its UTC text, the only form in which it is used.\<close>

record UserTaskInfo =
  UserTaskID :: string
  StartMs :: string
  utStatus :: UserTaskStatus
  OriginalResponse :: string

datatype KafkaBrokerState =
    KafkaBrokerUndefined | KafkaBrokerAlive | KafkaBrokerDead | KafkaBrokerNew | KafkaBrokerDemoted | KafkaBrokerBadDisks

record DiskStats =
  NumReplicas :: int
  Dead :: bool

record BrokerLoad =
  loadBroker :: "32 word"
  loadBrokerState :: KafkaBrokerState
  DiskState :: "(string, DiskStats) gomap"

record ClusterState =
  ReplicaCountByBrokerID :: "(string, int) gomap"
  LeaderCountByBrokerID :: "(string, int) gomap"
  OnlineLogDirsByBrokerID :: "(string, string list) gomap"
  OfflineLogDirsByBrokerID :: "(string, string list) gomap"

record cc_client =
  ccState :: "bool \<Rightarrow> cc_response \<times> StateResult option \<times> err option"
  ccUserTasks :: "string list \<Rightarrow> bool \<Rightarrow> err + UserTaskInfo list"
  ccAddBroker :: "AddBrokerRequest \<Rightarrow> cc_response \<times> err option"
  ccRemoveBroker :: "RemoveBrokerRequest \<Rightarrow> cc_response \<times> err option"
  ccRebalance :: "RebalanceRequest \<Rightarrow> cc_response \<times> err option"
  ccRemoveDisks :: "(32 word, string list) gomap \<Rightarrow> cc_response \<times> err option"
  ccStop :: "cc_response \<times> err option"
  ccLoad :: "err + BrokerLoad list"
  ccClusterState :: "err + ClusterState"
  UnmarshalState :: "string \<Rightarrow> err + StateResult"

section \<open>Results (pkg/scale/types.go)\<close>

record Result =
  TaskID :: string
  StartedAt :: string
  ResponseStatusCode :: int
  RequestURL :: string
  resResult :: "OptimizerResult option"
  resState :: CruiseControlUserTaskState
  resErr :: "err option"

definition zero_Result :: Result where
  "zero_Result = \<lparr>TaskID = [], StartedAt = [], ResponseStatusCode = 0, RequestURL = [], resResult = None,
     resState = UserTaskNone, resErr = None\<rparr>"

record CruiseControlStatus =
  MonitorReady :: bool
  ExecutorReady :: bool
  AnalyzerReady :: bool
  ProposalReady :: bool
  GoalsReady :: bool

definition Status_IsReady :: "CruiseControlStatus \<Rightarrow> bool" where
  "Status_IsReady s \<longleftrightarrow> AnalyzerReady s \<and> MonitorReady s"

definition InExecution :: "CruiseControlStatus \<Rightarrow> bool" where
  "InExecution s \<longleftrightarrow> \<not> ExecutorReady s"

record StatusTaskResult =
  TaskResult :: "Result option"
  strStatus :: "CruiseControlStatus option"

definition zero_StatusTaskResult :: StatusTaskResult where
  "zero_StatusTaskResult = \<lparr>TaskResult = None, strStatus = None\<rparr>"

section \<open>Parameters\<close>

definition ParamBrokerID :: string where "ParamBrokerID = ''brokerid''"
definition ParamExcludeDemoted :: string where "ParamExcludeDemoted = ''exclude_recently_demoted_brokers''"
definition ParamExcludeRemoved :: string where "ParamExcludeRemoved = ''exclude_recently_removed_brokers''"
definition ParamDestbrokerIDs :: string where "ParamDestbrokerIDs = ''destination_broker_ids''"
definition ParamRebalanceDisk :: string where "ParamRebalanceDisk = ''rebalance_disk''"
definition ParamBrokerIDAndLogDirs :: string where "ParamBrokerIDAndLogDirs = ''brokerid_and_logdirs''"

lemmas param_defs =
  ParamBrokerID_def ParamExcludeDemoted_def ParamExcludeRemoved_def ParamDestbrokerIDs_def
  ParamRebalanceDisk_def ParamBrokerIDAndLogDirs_def

definition int32 :: "int \<Rightarrow> 32 word" where
  "int32 i = word_of_int i"

fun parse_ids :: "string list \<Rightarrow> err + 32 word list" where
  "parse_ids [] = Inr []"
| "parse_ids (b # bs) = (case ParseInt 32 b of
     None \<Rightarrow> Inl (NewErr ''strconv.ParseInt: invalid syntax'')
   | Some i \<Rightarrow> (case parse_ids bs of Inl e \<Rightarrow> Inl e | Inr is \<Rightarrow> Inr (int32 i # is)))"

definition parseBrokerIDtoSlice :: "string \<Rightarrow> err + 32 word list" where
  "parseBrokerIDtoSlice brokerid = parse_ids (split_on (CHR '','') brokerid)"

definition parse_bool_param :: "string \<Rightarrow> err + bool" where
  "parse_bool_param v = (case ParseBool v of None \<Rightarrow> Inl (NewErr ''strconv.ParseBool: invalid syntax'') | Some b \<Rightarrow> Inr b)"

definition dirs_of :: "(32 word, string list) gomap \<Rightarrow> 32 word \<Rightarrow> string list" where
  "dirs_of m i = (case map_of m i of None \<Rightarrow> [] | Some ds \<Rightarrow> ds)"

fun parse_log_dirs :: "string list \<Rightarrow> (32 word, string list) gomap \<Rightarrow> err + (32 word, string list) gomap" where
  "parse_log_dirs [] m = Inr m"
| "parse_log_dirs (pair # ps) m = (case split_2 (CHR ''-'') pair of
     [c0, c1] \<Rightarrow> (case ParseInt 32 c0 of
         None \<Rightarrow> Inl (NewErr ''invalid broker ID'')
       | Some i \<Rightarrow> parse_log_dirs ps (AList.update (int32 i) (dirs_of m (int32 i) @ [c1]) m))
   | _ \<Rightarrow> Inl (NewErr ''invalid format for brokerIDsAndLogDirs''))"

definition parseBrokerIDsAndLogDirsToMap :: "string \<Rightarrow> err + (32 word, string list) gomap" where
  "parseBrokerIDsAndLogDirsToMap s = (if length s = 0 then Inr [] else parse_log_dirs (split_on (CHR '','') s) [])"

fun add_broker_params :: "(string, string) gomap \<Rightarrow> AddBrokerRequest \<Rightarrow> err + AddBrokerRequest" where
  "add_broker_params [] req = Inr req"
| "add_broker_params ((param, pvalue) # ps) req =
     (if param = ParamBrokerID then
        (case parseBrokerIDtoSlice pvalue of Inl e \<Rightarrow> Inl e
         | Inr ret \<Rightarrow> add_broker_params ps (req\<lparr>abBrokerIDs := ret\<rparr>))
      else if param = ParamExcludeDemoted then
        (case parse_bool_param pvalue of Inl e \<Rightarrow> Inl e
         | Inr ret \<Rightarrow> add_broker_params ps (req\<lparr>abExcludeRecentlyDemotedBrokers := ret\<rparr>))
      else if param = ParamExcludeRemoved then
        (case parse_bool_param pvalue of Inl e \<Rightarrow> Inl e
         | Inr ret \<Rightarrow> add_broker_params ps (req\<lparr>abExcludeRecentlyRemovedBrokers := ret\<rparr>))
      else add_broker_params ps req)"

fun remove_broker_params :: "(string, string) gomap \<Rightarrow> RemoveBrokerRequest \<Rightarrow> err + RemoveBrokerRequest" where
  "remove_broker_params [] req = Inr req"
| "remove_broker_params ((param, pvalue) # ps) req =
     (if param = ParamBrokerID then
        (case parseBrokerIDtoSlice pvalue of Inl e \<Rightarrow> Inl e
         | Inr ret \<Rightarrow> remove_broker_params ps (req\<lparr>rbBrokerIDs := ret\<rparr>))
      else if param = ParamExcludeDemoted then
        (case parse_bool_param pvalue of Inl e \<Rightarrow> Inl e
         | Inr ret \<Rightarrow> remove_broker_params ps (req\<lparr>rbExcludeRecentlyDemotedBrokers := ret\<rparr>))
      else if param = ParamExcludeRemoved then
        (case parse_bool_param pvalue of Inl e \<Rightarrow> Inl e
         | Inr ret \<Rightarrow> remove_broker_params ps (req\<lparr>rbExcludeRecentlyRemovedBrokers := ret\<rparr>))
      else remove_broker_params ps req)"

fun rebalance_params :: "(string, string) gomap \<Rightarrow> RebalanceRequest \<Rightarrow> err + RebalanceRequest" where
  "rebalance_params [] req = Inr req"
| "rebalance_params ((param, pvalue) # ps) req =
     (if param = ParamDestbrokerIDs then
        (case parseBrokerIDtoSlice pvalue of Inl e \<Rightarrow> Inl e
         | Inr ret \<Rightarrow> rebalance_params ps (req\<lparr>reDestinationBrokerIDs := ret\<rparr>))
      else if param = ParamRebalanceDisk then
        (case parse_bool_param pvalue of Inl e \<Rightarrow> Inl e
         | Inr ret \<Rightarrow> rebalance_params ps (req\<lparr>reRebalanceDisk := ret\<rparr>))
      else if param = ParamExcludeDemoted then
        (case parse_bool_param pvalue of Inl e \<Rightarrow> Inl e
         | Inr ret \<Rightarrow> rebalance_params ps (req\<lparr>reExcludeRecentlyDemotedBrokers := ret\<rparr>))
      else if param = ParamExcludeRemoved then
        (case parse_bool_param pvalue of Inl e \<Rightarrow> Inl e
         | Inr ret \<Rightarrow> rebalance_params ps (req\<lparr>reExcludeRecentlyRemovedBrokers := ret\<rparr>))
      else rebalance_params ps req)"

fun remove_disks_params :: "(string, string) gomap \<Rightarrow> (32 word, string list) gomap \<Rightarrow> err + (32 word, string list) gomap" where
  "remove_disks_params [] m = Inr m"
| "remove_disks_params ((param, pvalue) # ps) m =
     (if param = ParamBrokerIDAndLogDirs then
        (case parseBrokerIDsAndLogDirsToMap pvalue of Inl e \<Rightarrow> Inl e
         | Inr ret \<Rightarrow> remove_disks_params ps ret)
      else remove_disks_params ps m)"

section \<open>Operations (pkg/scale/scale.go)\<close>

type_synonym scaler_out = "cc_request list \<times> Result option \<times> err option"

text \<open>The result built from the response of a request that starts work; the optimisation result is
  kept only by the operations that take parameters.\<close>

definition op_result :: "bool \<Rightarrow> cc_response \<times> err option \<Rightarrow> Result option \<times> err option" where
  "op_result keep re = (case re of (resp, e) \<Rightarrow>
     (case e of
        Some er \<Rightarrow> (Some \<lparr>TaskID = respTaskID resp, StartedAt = respDate resp, ResponseStatusCode = respStatusCode resp,
                         RequestURL = respRequestURL resp, resResult = None,
                         resState = CruiseControlTaskCompletedWithError, resErr = Some er\<rparr>, Some er)
      | None \<Rightarrow> (Some \<lparr>TaskID = respTaskID resp, StartedAt = respDate resp, ResponseStatusCode = respStatusCode resp,
                      RequestURL = respRequestURL resp, resResult = (if keep then respResult resp else None),
                      resState = CruiseControlTaskActive, resErr = None\<rparr>, None)))"

definition AddBrokersWithParams :: "cc_client \<Rightarrow> (string, string) gomap \<Rightarrow> scaler_out" where
  "AddBrokersWithParams cc params =
     (case add_broker_params params \<lparr>abAllowCapacityEstimation = True, abBrokerIDs = [],
             abDataFrom = ProposalDataSourceValidWindows, abUseReadyDefaultGoals = True,
             abExcludeRecentlyDemotedBrokers = False, abExcludeRecentlyRemovedBrokers = False\<rparr> of
        Inl e \<Rightarrow> ([], None, Some e)
      | Inr addBrokerReq \<Rightarrow> ([ReqAddBroker addBrokerReq], op_result True (ccAddBroker cc addBrokerReq)))"

definition StopExecution :: "cc_client \<Rightarrow> scaler_out" where
  "StopExecution cc = ([ReqStop], (case ccStop cc of
     (resp, Some e) \<Rightarrow> op_result False (resp, Some e)
   | (resp, None) \<Rightarrow> (Some (zero_Result\<lparr>TaskID := respTaskID resp, StartedAt := respDate resp,
                           resState := CruiseControlTaskActive\<rparr>), None)))"

definition RemoveBrokersWithParams :: "cc_client \<Rightarrow> (string, string) gomap \<Rightarrow> scaler_out" where
  "RemoveBrokersWithParams cc params =
     (case remove_broker_params params \<lparr>rbAllowCapacityEstimation = True, rbBrokerIDs = [],
             rbDataFrom = ProposalDataSourceValidWindows, rbUseReadyDefaultGoals = True,
             rbExcludeRecentlyDemotedBrokers = False, rbExcludeRecentlyRemovedBrokers = False\<rparr> of
        Inl e \<Rightarrow> ([], None, Some e)
      | Inr rmBrokerReq \<Rightarrow> ([ReqRemoveBroker rmBrokerReq], op_result True (ccRemoveBroker cc rmBrokerReq)))"

definition RebalanceWithParams :: "cc_client \<Rightarrow> (string, string) gomap \<Rightarrow> scaler_out" where
  "RebalanceWithParams cc params =
     (case rebalance_params params \<lparr>reAllowCapacityEstimation = True, reDestinationBrokerIDs = [],
             reDataFrom = ProposalDataSourceValidWindows, reUseReadyDefaultGoals = True, reRebalanceDisk = False,
             reExcludeRecentlyDemotedBrokers = False, reExcludeRecentlyRemovedBrokers = False\<rparr> of
        Inl e \<Rightarrow> ([], None, Some e)
      | Inr rebalanceReq \<Rightarrow> ([ReqRebalance rebalanceReq], op_result True (ccRebalance cc rebalanceReq)))"

definition RemoveDisksWithParams :: "cc_client \<Rightarrow> (string, string) gomap \<Rightarrow> scaler_out" where
  "RemoveDisksWithParams cc params =
     (case remove_disks_params params [] of
        Inl e \<Rightarrow> ([], None, Some e)
      | Inr m \<Rightarrow>
          if length m = 0 then ([], Some (zero_Result\<lparr>resState := CruiseControlTaskCompleted\<rparr>), None)
          else ([ReqRemoveDisks m], op_result True (ccRemoveDisks cc m)))"

definition convert :: "StateResult \<Rightarrow> CruiseControlStatus" where
  "convert r = (let goalsReady = list_all (\<lambda>g. g = GoalReadinessStatusReady) (srGoalReadiness r) in
     \<lparr>MonitorReady = (srMonitorState r = MonitorStateRunning),
      ExecutorReady = (srExecutorState r = ExecutorStateTypeNoTaskInProgress),
      AnalyzerReady = (srIsProposalReady r \<and> goalsReady),
      ProposalReady = srIsProposalReady r,
      GoalsReady = goalsReady\<rparr>)"

definition Scaler_Status :: "cc_client \<Rightarrow> cc_request list \<times> StatusTaskResult \<times> err option" where
  "Scaler_Status cc = ([ReqState True], (case ccState cc True of (resp, res, e) \<Rightarrow>
     (case e of
        Some er \<Rightarrow> (zero_StatusTaskResult, Some er)
      | None \<Rightarrow>
          let tr = Some (zero_Result\<lparr>TaskID := respTaskID resp, StartedAt := respDate resp,
                           ResponseStatusCode := respStatusCode resp, RequestURL := respRequestURL resp,
                           resState := CruiseControlTaskActive\<rparr>)
          in (case res of
                None \<Rightarrow> (\<lparr>TaskResult = tr, strStatus = None\<rparr>, None)
              | Some r \<Rightarrow> (\<lparr>TaskResult = tr, strStatus = Some (convert r)\<rparr>, None)))))"

definition task_info_result :: "UserTaskInfo \<Rightarrow> Result" where
  "task_info_result info = zero_Result\<lparr>TaskID := UserTaskID info, StartedAt := StartMs info,
     resState := UserTaskStatus_state (utStatus info)\<rparr>"

definition StatusTask :: "cc_client \<Rightarrow> string \<Rightarrow> cc_request list \<times> StatusTaskResult \<times> err option" where
  "StatusTask cc taskID = ([ReqUserTasks [taskID] True], (case ccUserTasks cc [taskID] True of
     Inl e \<Rightarrow> (zero_StatusTaskResult, Some e)
   | Inr [] \<Rightarrow> (\<lparr>TaskResult = Some (zero_Result\<lparr>TaskID := taskID, resState := CruiseControlTaskCompletedWithError\<rparr>),
                 strStatus = None\<rparr>, None)
   | Inr [taskInfo] \<Rightarrow>
       if utStatus taskInfo = UserTaskStatusCompleted then
         (case UnmarshalState cc (OriginalResponse taskInfo) of
            Inl e \<Rightarrow> (zero_StatusTaskResult, Some e)
          | Inr r \<Rightarrow> (\<lparr>TaskResult = Some (task_info_result taskInfo), strStatus = Some (convert r)\<rparr>, None))
       else (\<lparr>TaskResult = Some (task_info_result taskInfo), strStatus = None\<rparr>, None)
   | Inr _ \<Rightarrow> (zero_StatusTaskResult, Some (NewErr ''could not get the Cruise Control state''))))"

definition Scaler_IsReady :: "cc_client \<Rightarrow> bool" where
  "Scaler_IsReady cc = (case snd (Scaler_Status cc) of (st, e) \<Rightarrow>
     (if e \<noteq> None then False else (case strStatus st of None \<Rightarrow> False | Some s \<Rightarrow> Status_IsReady s)))"

definition IsUp :: "cc_client \<Rightarrow> bool" where
  "IsUp cc = (snd (snd (ccState cc False)) = None)"

definition UserTasks :: "cc_client \<Rightarrow> string list \<Rightarrow> cc_request list \<times> (err + Result list)" where
  "UserTasks cc taskIDs = ([ReqUserTasks taskIDs False], (case ccUserTasks cc taskIDs False of
     Inl e \<Rightarrow> Inl e
   | Inr infos \<Rightarrow> Inr (map task_info_result infos)))"

section \<open>Broker and log directory queries\<close>

fun brokerIDsFromStringSlice :: "string list \<Rightarrow> err + 32 word list" where
  "brokerIDsFromStringSlice [] = Inr []"
| "brokerIDsFromStringSlice (s # ss) = (case Atoi s of
     None \<Rightarrow> Inl (NewErr ''strconv.Atoi: invalid syntax'')
   | Some bid \<Rightarrow>
       if bid < 0 \<or> bid > 2147483647 then Inl (NewErr ''broker ID out of valid range for int32 conversion'')
       else (case brokerIDsFromStringSlice ss of Inl e \<Rightarrow> Inl e | Inr bs \<Rightarrow> Inr (int32 bid # bs)))"

fun err_text :: "err \<Rightarrow> string" where
  "err_text ApiNotFound = ''not found''"
| "err_text ApiConflict = ''conflict''"
| "err_text (NewErr s) = s"
| "err_text (WrapErr m e) = m @ '': '' @ err_text e"

definition broker_id_text :: "32 word \<Rightarrow> string" where
  "broker_id_text b = Itoa (sint b)"

definition BrokersWithState :: "cc_client \<Rightarrow> KafkaBrokerState list \<Rightarrow> cc_request list \<times> (err + string list)" where
  "BrokersWithState cc states = ([ReqLoad], (case ccLoad cc of
     Inl e \<Rightarrow>
       if sublist ''NullPointerException'' (err_text e)
       then Inl (WrapErr ''could not get Kafka cluster load from Cruise Control because broker storage capacity calculation has not been finished yet'' e)
       else if sublist ''NotEnoughValidWindowsException'' (err_text e)
       then Inl (WrapErr ''could not get Kafka cluster load from Cruise Control because has not been collected enough data yet'' e)
       else Inl (WrapErr ''getting Kafka cluster load from Cruise Control returned an error'' e)
   | Inr brokers \<Rightarrow> Inr (map (\<lambda>b. broker_id_text (loadBroker b)) (filter (\<lambda>b. loadBrokerState b \<in> set states) brokers))))"

definition AddBrokers :: "cc_client \<Rightarrow> string list \<Rightarrow> scaler_out" where
  "AddBrokers cc brokerIDs =
     (if length brokerIDs = 0 then ([], None, Some (NewErr ''no broker id(s) provided for add brokers request''))
      else (case brokerIDsFromStringSlice brokerIDs of
        Inl e \<Rightarrow> ([], None, Some e)
      | Inr brokersToAdd \<Rightarrow>
          (case BrokersWithState cc [KafkaBrokerAlive, KafkaBrokerNew] of (reqs, ab) \<Rightarrow>
             (case ab of
                Inl e \<Rightarrow> (reqs, None, Some e)
              | Inr availableBrokers \<Rightarrow>
                  if length (filter (\<lambda>id. id \<notin> set availableBrokers) brokerIDs) > 0
                  then (reqs, None, Some (NewErr ''not all brokers are available which are meant to be added to the Kafka cluster''))
                  else (let req = \<lparr>abAllowCapacityEstimation = True, abBrokerIDs = brokersToAdd,
                                   abDataFrom = ProposalDataSourceValidWindows, abUseReadyDefaultGoals = True,
                                   abExcludeRecentlyDemotedBrokers = False, abExcludeRecentlyRemovedBrokers = False\<rparr>
                        in (reqs @ [ReqAddBroker req], op_result False (ccAddBroker cc req)))))))"

fun brokers_to_remove :: "(string, int) gomap \<Rightarrow> string list \<Rightarrow> err + 32 word list" where
  "brokers_to_remove counts [] = Inr []"
| "brokers_to_remove counts (brokerID # ids) =
     (if (case map_of counts brokerID of None \<Rightarrow> True | Some replicas \<Rightarrow> replicas \<le> 0) then brokers_to_remove counts ids
      else (case Atoi brokerID of
          None \<Rightarrow> Inl (NewErr ''strconv.Atoi: invalid syntax'')
        | Some bID \<Rightarrow>
            if bID < 0 \<or> bID > 2147483647 then Inl (NewErr ''broker ID out of valid range for int32 conversion'')
            else (case brokers_to_remove counts ids of Inl e \<Rightarrow> Inl e | Inr bs \<Rightarrow> Inr (int32 bID # bs))))"

definition RemoveBrokers :: "cc_client \<Rightarrow> string list \<Rightarrow> scaler_out" where
  "RemoveBrokers cc brokerIDs =
     (if length brokerIDs = 0 then ([], None, Some (NewErr ''no broker id(s) provided for remove brokers request''))
      else (case ccClusterState cc of
        Inl e \<Rightarrow> ([ReqClusterState], None, Some e)
      | Inr st \<Rightarrow>
          (case brokers_to_remove (ReplicaCountByBrokerID st) brokerIDs of
             Inl e \<Rightarrow> ([ReqClusterState], None, Some e)
           | Inr brokersToRemove \<Rightarrow>
               if length brokersToRemove = 0
               then ([ReqClusterState], Some (zero_Result\<lparr>resState := CruiseControlTaskCompleted\<rparr>), None)
               else (let req = \<lparr>rbAllowCapacityEstimation = True, rbBrokerIDs = brokersToRemove,
                                rbDataFrom = ProposalDataSourceValidWindows, rbUseReadyDefaultGoals = True,
                                rbExcludeRecentlyDemotedBrokers = False, rbExcludeRecentlyRemovedBrokers = False\<rparr>
                     in ([ReqClusterState, ReqRemoveBroker req], op_result False (ccRemoveBroker cc req))))))"

definition empty_disk :: "DiskStats \<Rightarrow> bool" where
  "empty_disk d \<longleftrightarrow> NumReplicas d \<le> 0 \<and> \<not> Dead d"

definition brokers_with_empty_disks :: "string list \<Rightarrow> BrokerLoad list \<Rightarrow> 32 word list" where
  "brokers_with_empty_disks brokerIDs stats =
     concat (map (\<lambda>b. if broker_id_text (loadBroker b) \<notin> set brokerIDs then []
                      else map (\<lambda>_. loadBroker b) (filter (\<lambda>(d, st). empty_disk st) (DiskState b))) stats)"

definition RebalanceDisks :: "cc_client \<Rightarrow> string list \<Rightarrow> scaler_out" where
  "RebalanceDisks cc brokerIDs = (case ccLoad cc of
     Inl e \<Rightarrow> ([ReqLoad], None, Some e)
   | Inr stats \<Rightarrow>
       let bs = brokers_with_empty_disks brokerIDs stats in
       if length bs = 0 then ([ReqLoad], Some (zero_Result\<lparr>resState := CruiseControlTaskCompleted\<rparr>), None)
       else (let req = \<lparr>reAllowCapacityEstimation = True, reDestinationBrokerIDs = bs,
                        reDataFrom = ProposalDataSourceValidWindows, reUseReadyDefaultGoals = True, reRebalanceDisk = False,
                        reExcludeRecentlyDemotedBrokers = False, reExcludeRecentlyRemovedBrokers = True\<rparr>
             in ([ReqLoad, ReqRebalance req], op_result False (ccRebalance cc req))))"

definition PartitionLeadersReplicasByBroker :: "cc_client \<Rightarrow> err + (string, int) gomap \<times> (string, int) gomap" where
  "PartitionLeadersReplicasByBroker cc = (case ccClusterState cc of
     Inl e \<Rightarrow> Inl e
   | Inr st \<Rightarrow> Inr (ReplicaCountByBrokerID st, LeaderCountByBrokerID st))"

datatype LogDirState = LogDirStateOnline | LogDirStateOffline

type_synonym log_dirs = "(string, (LogDirState, string list) gomap) gomap"

definition add_log_dirs :: "LogDirState \<Rightarrow> string \<times> string list \<Rightarrow> log_dirs \<Rightarrow> log_dirs" where
  "add_log_dirs k bd m = (case bd of (broker, dirs) \<Rightarrow>
     let cur = (case map_of m broker of None \<Rightarrow> [(LogDirStateOnline, []), (LogDirStateOffline, [])] | Some d \<Rightarrow> d)
     in AList.update broker (AList.update k dirs cur) m)"

definition LogDirsByBroker :: "cc_client \<Rightarrow> cc_request list \<times> (err + log_dirs)" where
  "LogDirsByBroker cc = ([ReqClusterState], (case ccClusterState cc of
     Inl e \<Rightarrow> Inl e
   | Inr st \<Rightarrow> Inr (fold (add_log_dirs LogDirStateOffline) (OfflineLogDirsByBrokerID st)
                       (fold (add_log_dirs LogDirStateOnline) (OnlineLogDirsByBrokerID st) []))))"

text \<open>\<open>PartitionReplicasByBroker\<close> is declared by the embedded interface only, which is nil in a scaler built
  by \<open>NewCruiseControlScaler\<close>: calling it panics.\<close>

fun least_replicas :: "(string \<times> int) list \<Rightarrow> int \<Rightarrow> string \<Rightarrow> string" where
  "least_replicas [] n b = b"
| "least_replicas ((brokerID, replica) # rs) n b =
     (if n > replica then least_replicas rs replica brokerID else least_replicas rs n b)"

definition BrokerWithLeastPartitionReplicas :: "(err + (string, int) gomap) option \<Rightarrow> (err, string) go" where
  "BrokerWithLeastPartitionReplicas embedded = (case embedded of
     None \<Rightarrow> Panic
   | Some (Inl e) \<Rightarrow> Err e
   | Some (Inr m) \<Rightarrow> Ret (least_replicas m 2147483647 []))"

section \<open>Parameter round trips\<close>

lemma nat_str_no_comma: "CHR '','' \<notin> set (nat_str n)"
  using nat_str_digits [of "CHR '',''" n] by auto

lemma nat_str_no_dash: "CHR ''-'' \<notin> set (nat_str n)"
  using nat_str_digits [of "CHR ''-''" n] by auto

lemma Itoa_no_comma: "CHR '','' \<notin> set (Itoa i)"
  by (simp add: Itoa_def nat_str_no_comma)

lemma Itoa_no_dash: "0 \<le> i \<Longrightarrow> CHR ''-'' \<notin> set (Itoa i)"
  by (simp add: Itoa_def nat_str_no_dash)

lemma sint_int32: "in_range 32 i \<Longrightarrow> sint (int32 i) = i"
  unfolding in_range_def int32_def sint_sbintrunc'
  by (rule signed_take_bit_int_eq_self) simp_all

lemma int32_inj: "in_range 32 i \<Longrightarrow> in_range 32 j \<Longrightarrow> int32 i = int32 j \<longleftrightarrow> i = j"
  by (metis sint_int32)

lemma parse_ids_Itoa: "list_all (in_range 32) is \<Longrightarrow> parse_ids (map Itoa is) = Inr (map int32 is)"
  by (induction "is") (simp_all add: ParseInt_Itoa)

lemma broker_ids_roundtrip:
  assumes "is \<noteq> []" "list_all (in_range 32) is"
  shows "parseBrokerIDtoSlice (join '','' (map Itoa is)) = Inr (map int32 is)"
proof -
  have "split_on (CHR '','') (join '','' (map Itoa is)) = map Itoa is"
    using assms(1) Itoa_no_comma by (auto intro!: split_on_join)
  then show ?thesis using parse_ids_Itoa [OF assms(2)] by (simp add: parseBrokerIDtoSlice_def)
qed

definition log_dir_pair :: "int \<times> string \<Rightarrow> string" where
  "log_dir_pair p = Itoa (fst p) @ ''-'' @ snd p"

definition pair_ok :: "int \<times> string \<Rightarrow> bool" where
  "pair_ok p \<longleftrightarrow> in_range 32 (fst p) \<and> 0 \<le> fst p \<and> CHR '','' \<notin> set (snd p)"

lemma dirs_of_update: "dirs_of (AList.update k v m) i = (if i = k then v else dirs_of m i)"
  by (simp add: dirs_of_def gm_get_update)

lemma parse_log_dirs_pairs:
  "list_all pair_ok ps \<Longrightarrow> gm_ok m \<Longrightarrow>
     \<exists>m'. parse_log_dirs (map log_dir_pair ps) m = Inr m' \<and> gm_ok m' \<and>
       (\<forall>i. in_range 32 i \<longrightarrow> dirs_of m' (int32 i) = dirs_of m (int32 i) @ map snd (filter (\<lambda>p. fst p = i) ps))"
proof (induction ps arbitrary: m)
  case Nil
  then show ?case by simp
next
  case (Cons p ps)
  let ?k = "int32 (fst p)"
  let ?m = "AList.update ?k (dirs_of m ?k @ [snd p]) m"
  have ok: "in_range 32 (fst p)" "0 \<le> fst p" using Cons.prems(1) by (auto simp: pair_ok_def)
  have step: "parse_log_dirs (map log_dir_pair (p # ps)) m = parse_log_dirs (map log_dir_pair ps) ?m"
    using ok Itoa_no_dash [OF ok(2)] by (simp add: log_dir_pair_def split_2_append ParseInt_Itoa)
  obtain m' where m': "parse_log_dirs (map log_dir_pair ps) ?m = Inr m'" "gm_ok m'"
    "\<forall>i. in_range 32 i \<longrightarrow> dirs_of m' (int32 i) = dirs_of ?m (int32 i) @ map snd (filter (\<lambda>p. fst p = i) ps)"
    using Cons.IH [of ?m] Cons.prems by auto
  have "dirs_of ?m (int32 i) = dirs_of m (int32 i) @ (if fst p = i then [snd p] else [])" if "in_range 32 i" for i
    using int32_inj [OF that ok(1)] by (auto simp: dirs_of_update)
  then show ?case using step m' by auto
qed

lemma log_dir_pair_no_comma: "pair_ok p \<Longrightarrow> CHR '','' \<notin> set (log_dir_pair p)"
  using Itoa_no_comma by (auto simp: log_dir_pair_def pair_ok_def)

lemma log_dirs_roundtrip:
  assumes "list_all pair_ok ps"
  shows "\<exists>m. parseBrokerIDsAndLogDirsToMap (join '','' (map log_dir_pair ps)) = Inr m \<and> gm_ok m \<and>
     (\<forall>i. in_range 32 i \<longrightarrow> dirs_of m (int32 i) = map snd (filter (\<lambda>p. fst p = i) ps))"
proof (cases "ps = []")
  case True
  then show ?thesis by (simp add: parseBrokerIDsAndLogDirsToMap_def dirs_of_def)
next
  case False
  then have sp: "split_on (CHR '','') (join '','' (map log_dir_pair ps)) = map log_dir_pair ps"
    using assms log_dir_pair_no_comma by (auto intro!: split_on_join simp: list_all_iff)
  have "join '','' (map log_dir_pair ps) \<noteq> []"
  proof
    assume e: "join '','' (map log_dir_pair ps) = []"
    have "map log_dir_pair ps = [[]]" using sp unfolding e by simp
    then show False using False by (cases ps) (auto simp: log_dir_pair_def)
  qed
  then show ?thesis
    using parse_log_dirs_pairs [OF assms, of "[]"] sp by (auto simp: parseBrokerIDsAndLogDirsToMap_def dirs_of_def)
qed

section \<open>What a parameter map asks for\<close>

lemma param_distinct [simp]:
  "ParamBrokerID \<noteq> ParamExcludeDemoted" "ParamBrokerID \<noteq> ParamExcludeRemoved" "ParamExcludeDemoted \<noteq> ParamExcludeRemoved"
  "ParamDestbrokerIDs \<noteq> ParamExcludeDemoted" "ParamDestbrokerIDs \<noteq> ParamExcludeRemoved"
  "ParamDestbrokerIDs \<noteq> ParamRebalanceDisk" "ParamRebalanceDisk \<noteq> ParamExcludeDemoted" "ParamRebalanceDisk \<noteq> ParamExcludeRemoved"
  "ParamExcludeDemoted \<noteq> ParamBrokerID" "ParamExcludeRemoved \<noteq> ParamBrokerID" "ParamExcludeRemoved \<noteq> ParamExcludeDemoted"
  "ParamExcludeDemoted \<noteq> ParamDestbrokerIDs" "ParamExcludeRemoved \<noteq> ParamDestbrokerIDs"
  "ParamRebalanceDisk \<noteq> ParamDestbrokerIDs" "ParamExcludeDemoted \<noteq> ParamRebalanceDisk" "ParamExcludeRemoved \<noteq> ParamRebalanceDisk"
  by (simp_all add: param_defs)

definition ids_param :: "(string, string) gomap \<Rightarrow> string \<Rightarrow> 32 word list \<Rightarrow> err + 32 word list" where
  "ids_param params k d = (case map_of params k of None \<Rightarrow> Inr d | Some v \<Rightarrow> parseBrokerIDtoSlice v)"

definition bool_param :: "(string, string) gomap \<Rightarrow> string \<Rightarrow> bool \<Rightarrow> err + bool" where
  "bool_param params k d = (case map_of params k of None \<Rightarrow> Inr d | Some v \<Rightarrow> parse_bool_param v)"

lemma ids_param_Cons: "ids_param ((k, v) # ps) k' d = (if k = k' then parseBrokerIDtoSlice v else ids_param ps k' d)"
  by (simp add: ids_param_def)

lemma bool_param_Cons: "bool_param ((k, v) # ps) k' d = (if k = k' then parse_bool_param v else bool_param ps k' d)"
  by (simp add: bool_param_def)

lemma params_fresh: "k \<notin> fst ` set ps \<Longrightarrow> ids_param ps k d = Inr d" "k \<notin> fst ` set ps \<Longrightarrow> bool_param ps k b = Inr b"
  by (simp_all add: ids_param_def bool_param_def map_of_eq_None_iff [THEN iffD2])

lemmas params_Cons = ids_param_Cons bool_param_Cons params_fresh

lemma add_broker_params_iff:
  "gm_ok ps \<Longrightarrow> add_broker_params ps req = Inr r \<longleftrightarrow>
     (\<exists>is d e. ids_param ps ParamBrokerID (abBrokerIDs req) = Inr is \<and>
        bool_param ps ParamExcludeDemoted (abExcludeRecentlyDemotedBrokers req) = Inr d \<and>
        bool_param ps ParamExcludeRemoved (abExcludeRecentlyRemovedBrokers req) = Inr e \<and>
        r = req\<lparr>abBrokerIDs := is, abExcludeRecentlyDemotedBrokers := d, abExcludeRecentlyRemovedBrokers := e\<rparr>)"
proof (induction ps arbitrary: req)
  case Nil
  then show ?case by (auto simp: ids_param_def bool_param_def)
next
  case (Cons p ps)
  obtain k v where p: "p = (k, v)" by (cases p)
  show ?case using Cons.prems Cons.IH p by (auto simp: params_Cons split: sum.split)
qed

lemma remove_broker_params_iff:
  "gm_ok ps \<Longrightarrow> remove_broker_params ps req = Inr r \<longleftrightarrow>
     (\<exists>is d e. ids_param ps ParamBrokerID (rbBrokerIDs req) = Inr is \<and>
        bool_param ps ParamExcludeDemoted (rbExcludeRecentlyDemotedBrokers req) = Inr d \<and>
        bool_param ps ParamExcludeRemoved (rbExcludeRecentlyRemovedBrokers req) = Inr e \<and>
        r = req\<lparr>rbBrokerIDs := is, rbExcludeRecentlyDemotedBrokers := d, rbExcludeRecentlyRemovedBrokers := e\<rparr>)"
proof (induction ps arbitrary: req)
  case Nil
  then show ?case by (auto simp: ids_param_def bool_param_def)
next
  case (Cons p ps)
  obtain k v where p: "p = (k, v)" by (cases p)
  show ?case using Cons.prems Cons.IH p by (auto simp: params_Cons split: sum.split)
qed

lemma rebalance_params_iff:
  "gm_ok ps \<Longrightarrow> rebalance_params ps req = Inr r \<longleftrightarrow>
     (\<exists>is b d e. ids_param ps ParamDestbrokerIDs (reDestinationBrokerIDs req) = Inr is \<and>
        bool_param ps ParamRebalanceDisk (reRebalanceDisk req) = Inr b \<and>
        bool_param ps ParamExcludeDemoted (reExcludeRecentlyDemotedBrokers req) = Inr d \<and>
        bool_param ps ParamExcludeRemoved (reExcludeRecentlyRemovedBrokers req) = Inr e \<and>
        r = req\<lparr>reDestinationBrokerIDs := is, reRebalanceDisk := b, reExcludeRecentlyDemotedBrokers := d,
                reExcludeRecentlyRemovedBrokers := e\<rparr>)"
proof (induction ps arbitrary: req)
  case Nil
  then show ?case by (auto simp: ids_param_def bool_param_def)
next
  case (Cons p ps)
  obtain k v where p: "p = (k, v)" by (cases p)
  show ?case using Cons.prems Cons.IH p by (auto simp: params_Cons split: sum.split)
qed

lemma remove_disks_params_lookup:
  "gm_ok ps \<Longrightarrow> remove_disks_params ps m =
     (case map_of ps ParamBrokerIDAndLogDirs of None \<Rightarrow> Inr m | Some v \<Rightarrow> parseBrokerIDsAndLogDirsToMap v)"
proof (induction ps arbitrary: m)
  case (Cons p ps)
  have "k \<notin> fst ` set ps \<Longrightarrow> map_of ps k = None" for k by (simp add: map_of_eq_None_iff)
  then show ?case using Cons by (cases p) (auto split: sum.split)
qed simp

section \<open>Requests sent\<close>

text \<open>The reply of a parameter operation: what was sent, and what is reported when nothing was.\<close>

definition sends_at_most_one :: "scaler_out \<Rightarrow> bool" where
  "sends_at_most_one out \<longleftrightarrow> (case out of (reqs, res, e) \<Rightarrow>
     (\<exists>r. reqs = [r] \<and> executes r \<and> res \<noteq> None) \<or>
     (reqs = [] \<and> (res = None \<and> e \<noteq> None \<or> res = Some (zero_Result\<lparr>resState := CruiseControlTaskCompleted\<rparr>) \<and> e = None)))"

lemma op_result_Some: "\<exists>r. op_result k re = (Some r, snd re) \<and> resState r =
    (if snd re = None then CruiseControlTaskActive else CruiseControlTaskCompletedWithError) \<and>
    resErr r = snd re \<and> TaskID r = respTaskID (fst re) \<and> StartedAt r = respDate (fst re)"
  by (cases re) (simp add: op_result_def split: option.split)

lemma op_result_not_None: "\<exists>r e. op_result k re = (Some r, e)"
  using op_result_Some [of k re] by auto

lemma sends_op_result [simp]: "executes r \<Longrightarrow> sends_at_most_one ([r], op_result k re)"
  using op_result_not_None [of k re] by (auto simp: sends_at_most_one_def)

lemma sends_error [simp]: "sends_at_most_one ([], None, Some e)"
  by (simp add: sends_at_most_one_def)

lemma sends_completed [simp]: "sends_at_most_one ([], Some (zero_Result\<lparr>resState := CruiseControlTaskCompleted\<rparr>), None)"
  by (simp add: sends_at_most_one_def)

lemma params_ops_send:
  "sends_at_most_one (AddBrokersWithParams cc ps)" "sends_at_most_one (RemoveBrokersWithParams cc ps)"
  "sends_at_most_one (RebalanceWithParams cc ps)" "sends_at_most_one (RemoveDisksWithParams cc ps)"
  by (simp_all add: AddBrokersWithParams_def RemoveBrokersWithParams_def RebalanceWithParams_def
      RemoveDisksWithParams_def split: sum.split)

lemma stop_sends: "sends_at_most_one (StopExecution cc)"
  by (simp add: StopExecution_def split: prod.split option.split) (simp add: sends_at_most_one_def)

text \<open>(C29) A parameter map asks Cruise Control for exactly what its entries say, whatever the order in
  which Go visits them: the request is sent if and only if the supported entries parse, carries the
  parsed values and the defaults for the absent ones, and nothing is sent otherwise.\<close>

theorem parameters_make_request:
  assumes "gm_ok ps"
  shows "(fst (AddBrokersWithParams cc ps) = [ReqAddBroker r] \<longleftrightarrow>
       (\<exists>is d e. ids_param ps ParamBrokerID [] = Inr is \<and> bool_param ps ParamExcludeDemoted False = Inr d \<and>
          bool_param ps ParamExcludeRemoved False = Inr e \<and>
          r = \<lparr>abAllowCapacityEstimation = True, abBrokerIDs = is, abDataFrom = ProposalDataSourceValidWindows,
               abUseReadyDefaultGoals = True, abExcludeRecentlyDemotedBrokers = d, abExcludeRecentlyRemovedBrokers = e\<rparr>)) \<and>
    (fst (RemoveBrokersWithParams cc ps) = [ReqRemoveBroker rm] \<longleftrightarrow>
       (\<exists>is d e. ids_param ps ParamBrokerID [] = Inr is \<and> bool_param ps ParamExcludeDemoted False = Inr d \<and>
          bool_param ps ParamExcludeRemoved False = Inr e \<and>
          rm = \<lparr>rbAllowCapacityEstimation = True, rbBrokerIDs = is, rbDataFrom = ProposalDataSourceValidWindows,
                rbUseReadyDefaultGoals = True, rbExcludeRecentlyDemotedBrokers = d, rbExcludeRecentlyRemovedBrokers = e\<rparr>)) \<and>
    (fst (RebalanceWithParams cc ps) = [ReqRebalance rb] \<longleftrightarrow>
       (\<exists>is b d e. ids_param ps ParamDestbrokerIDs [] = Inr is \<and> bool_param ps ParamRebalanceDisk False = Inr b \<and>
          bool_param ps ParamExcludeDemoted False = Inr d \<and> bool_param ps ParamExcludeRemoved False = Inr e \<and>
          rb = \<lparr>reAllowCapacityEstimation = True, reDestinationBrokerIDs = is, reDataFrom = ProposalDataSourceValidWindows,
                reUseReadyDefaultGoals = True, reRebalanceDisk = b, reExcludeRecentlyDemotedBrokers = d,
                reExcludeRecentlyRemovedBrokers = e\<rparr>)) \<and>
    (fst (RemoveDisksWithParams cc ps) = [ReqRemoveDisks m] \<longleftrightarrow>
       m \<noteq> [] \<and> (\<exists>v. map_of ps ParamBrokerIDAndLogDirs = Some v \<and> parseBrokerIDsAndLogDirsToMap v = Inr m)) \<and>
    sends_at_most_one (AddBrokersWithParams cc ps) \<and> sends_at_most_one (RemoveBrokersWithParams cc ps) \<and>
    sends_at_most_one (RebalanceWithParams cc ps) \<and> sends_at_most_one (RemoveDisksWithParams cc ps)"
proof -
  have add: "fst (AddBrokersWithParams cc ps) = [ReqAddBroker r] \<longleftrightarrow>
      add_broker_params ps \<lparr>abAllowCapacityEstimation = True, abBrokerIDs = [], abDataFrom = ProposalDataSourceValidWindows,
        abUseReadyDefaultGoals = True, abExcludeRecentlyDemotedBrokers = False, abExcludeRecentlyRemovedBrokers = False\<rparr> = Inr r"
    by (simp add: AddBrokersWithParams_def split: sum.split)
  have rem: "fst (RemoveBrokersWithParams cc ps) = [ReqRemoveBroker rm] \<longleftrightarrow>
      remove_broker_params ps \<lparr>rbAllowCapacityEstimation = True, rbBrokerIDs = [], rbDataFrom = ProposalDataSourceValidWindows,
        rbUseReadyDefaultGoals = True, rbExcludeRecentlyDemotedBrokers = False, rbExcludeRecentlyRemovedBrokers = False\<rparr> = Inr rm"
    by (simp add: RemoveBrokersWithParams_def split: sum.split)
  have reb: "fst (RebalanceWithParams cc ps) = [ReqRebalance rb] \<longleftrightarrow>
      rebalance_params ps \<lparr>reAllowCapacityEstimation = True, reDestinationBrokerIDs = [], reDataFrom = ProposalDataSourceValidWindows,
        reUseReadyDefaultGoals = True, reRebalanceDisk = False, reExcludeRecentlyDemotedBrokers = False,
        reExcludeRecentlyRemovedBrokers = False\<rparr> = Inr rb"
    by (simp add: RebalanceWithParams_def split: sum.split)
  have dis: "fst (RemoveDisksWithParams cc ps) = [ReqRemoveDisks m] \<longleftrightarrow>
       m \<noteq> [] \<and> (\<exists>v. map_of ps ParamBrokerIDAndLogDirs = Some v \<and> parseBrokerIDsAndLogDirsToMap v = Inr m)"
    by (auto simp: RemoveDisksWithParams_def remove_disks_params_lookup [OF assms] split: sum.split option.split)
  show ?thesis
    unfolding add rem reb dis add_broker_params_iff [OF assms] remove_broker_params_iff [OF assms]
      rebalance_params_iff [OF assms]
    by (simp add: params_ops_send)
qed

definition idle_client :: cc_client where
  "idle_client = (let resp = \<lparr>respTaskID = ''t-1'', respDate = ''Mon, 02 Jan 2006 15:04:05 UTC'', respStatusCode = 200,
       respRequestURL = ''http://cc'', respResult = None\<rparr> in
     \<lparr>ccState = (\<lambda>v. (resp, Some \<lparr>srMonitorState = MonitorStateRunning, srExecutorState = ExecutorStateTypeNoTaskInProgress,
          srIsProposalReady = True, srGoalReadiness = [GoalReadinessStatusReady]\<rparr>, None)),
      ccUserTasks = (\<lambda>ids f. Inr []), ccAddBroker = (\<lambda>r. (resp, None)), ccRemoveBroker = (\<lambda>r. (resp, None)),
      ccRebalance = (\<lambda>r. (resp, None)), ccRemoveDisks = (\<lambda>m. (resp, None)), ccStop = (resp, None),
      ccLoad = Inr [], ccClusterState = Inl (NewErr ''no cluster state''), UnmarshalState = (\<lambda>s. Inl (NewErr ''no state''))\<rparr>)"

lemma parse_one_two: "parseBrokerIDtoSlice ''1,2'' = Inr [1, 2]"
proof -
  have "char_of (49::nat) = CHR ''1''" "char_of (50::nat) = CHR ''2''" by (simp_all add: char_of_eq_iff)
  then show ?thesis
    using broker_ids_roundtrip [of "[1, 2]"] by (simp add: in_range_def Itoa_def nat_str.simps int32_def)
qed

theorem parameters_make_request_witness:
  "fst (AddBrokersWithParams idle_client [(''brokerid'', ''1,2''), (''unknown'', ''x'')]) =
     [ReqAddBroker \<lparr>abAllowCapacityEstimation = True, abBrokerIDs = [1, 2], abDataFrom = ProposalDataSourceValidWindows,
        abUseReadyDefaultGoals = True, abExcludeRecentlyDemotedBrokers = False, abExcludeRecentlyRemovedBrokers = False\<rparr>]"
proof -
  have "gm_ok [(''brokerid'', ''1,2''), (''unknown'', ''x'')]" by simp
  from parameters_make_request [OF this, THEN conjunct1] show ?thesis
    by (auto simp: ids_param_def bool_param_def param_defs parse_one_two)
qed

section \<open>Queries\<close>

definition dirs_in :: "(string, string list) gomap \<Rightarrow> string \<Rightarrow> string list" where
  "dirs_in m b = (case map_of m b of None \<Rightarrow> [] | Some ds \<Rightarrow> ds)"

definition log_dir_entry :: "string list \<Rightarrow> string list \<Rightarrow> (LogDirState, string list) gomap" where
  "log_dir_entry on off = [(LogDirStateOnline, on), (LogDirStateOffline, off)]"

lemma add_online_lookup:
  "gm_ok on \<Longrightarrow> fst ` set on \<inter> fst ` set m = {} \<Longrightarrow>
     map_of (fold (add_log_dirs LogDirStateOnline) on m) b =
       (case map_of on b of Some ds \<Rightarrow> Some (log_dir_entry ds []) | None \<Rightarrow> map_of m b)"
proof (induction on arbitrary: m)
  case (Cons p on)
  obtain k ds where p: "p = (k, ds)" by (cases p)
  have fresh: "map_of m k = None" "map_of on k = None"
    using Cons.prems p by (auto simp: map_of_eq_None_iff)
  have step: "add_log_dirs LogDirStateOnline p m = AList.update k (log_dir_entry ds []) m"
    using fresh p by (simp add: add_log_dirs_def log_dir_entry_def)
  have "map_of (fold (add_log_dirs LogDirStateOnline) on (AList.update k (log_dir_entry ds []) m)) b =
      (case map_of on b of Some ds \<Rightarrow> Some (log_dir_entry ds []) | None \<Rightarrow> map_of (AList.update k (log_dir_entry ds []) m) b)"
    by (rule Cons.IH) (use Cons.prems p in \<open>auto simp: dom_update\<close>)
  then show ?case using p step fresh by (auto simp: gm_get_update split: option.split)
qed simp

lemma add_offline_lookup:
  "gm_ok off \<Longrightarrow> (\<And>b e. map_of m b = Some e \<Longrightarrow> \<exists>on o'. e = log_dir_entry on o') \<Longrightarrow>
     map_of (fold (add_log_dirs LogDirStateOffline) off m) b =
       (case map_of off b of Some ds \<Rightarrow>
            Some (log_dir_entry (case map_of m b of None \<Rightarrow> [] | Some e \<Rightarrow> snd (hd e)) ds)
          | None \<Rightarrow> map_of m b)"
proof (induction off arbitrary: m)
  case (Cons p off)
  obtain k ds where p: "p = (k, ds)" by (cases p)
  let ?on = "case map_of m k of None \<Rightarrow> [] | Some e \<Rightarrow> snd (hd e)"
  have step: "add_log_dirs LogDirStateOffline p m = AList.update k (log_dir_entry ?on ds) m"
    using Cons.prems(2) [of k] p by (auto simp: add_log_dirs_def log_dir_entry_def split: option.splits)
  have "map_of (fold (add_log_dirs LogDirStateOffline) off (AList.update k (log_dir_entry ?on ds) m)) b =
      (case map_of off b of Some ds' \<Rightarrow>
            Some (log_dir_entry (case map_of (AList.update k (log_dir_entry ?on ds) m) b of None \<Rightarrow> [] | Some e \<Rightarrow> snd (hd e)) ds')
          | None \<Rightarrow> map_of (AList.update k (log_dir_entry ?on ds) m) b)"
    by (rule Cons.IH) (use Cons.prems in \<open>auto simp: gm_get_update split: if_splits\<close>)
  moreover have "map_of off k = None" using Cons.prems(1) p by (simp add: map_of_eq_None_iff)
  ultimately show ?case using p step by (auto simp: gm_get_update split: option.split)
qed simp

text \<open> The log directories are reported per broker: a broker is listed if and only if Cruise Control
  knows an online or an offline directory entry for it, and its two lists are those entries.\<close>

theorem log_dirs_by_broker_correct:
  assumes "ccClusterState cc = Inr st" "gm_ok (OnlineLogDirsByBrokerID st)" "gm_ok (OfflineLogDirsByBrokerID st)"
  shows "\<exists>m. LogDirsByBroker cc = ([ReqClusterState], Inr m) \<and>
    (\<forall>b. map_of m b =
       (if map_of (OnlineLogDirsByBrokerID st) b = None \<and> map_of (OfflineLogDirsByBrokerID st) b = None then None
        else Some [(LogDirStateOnline, dirs_in (OnlineLogDirsByBrokerID st) b),
                   (LogDirStateOffline, dirs_in (OfflineLogDirsByBrokerID st) b)]))"
proof -
  let ?on = "OnlineLogDirsByBrokerID st" and ?off = "OfflineLogDirsByBrokerID st"
  let ?m = "fold (add_log_dirs LogDirStateOnline) ?on []"
  have on: "map_of ?m b = (case map_of ?on b of Some ds \<Rightarrow> Some (log_dir_entry ds []) | None \<Rightarrow> None)" for b
    using add_online_lookup [OF assms(2), of "[]"] by (simp split: option.split)
  have shape: "\<exists>on o'. e = log_dir_entry on o'" if "map_of ?m b = Some e" for b e
    using that by (auto simp: on split: option.splits)
  have "map_of (fold (add_log_dirs LogDirStateOffline) ?off ?m) b =
      (case map_of ?off b of Some ds \<Rightarrow> Some (log_dir_entry (case map_of ?m b of None \<Rightarrow> [] | Some e \<Rightarrow> snd (hd e)) ds)
          | None \<Rightarrow> map_of ?m b)" for b
    by (rule add_offline_lookup [OF assms(3) shape])
  then show ?thesis
    using assms(1) by (auto simp: LogDirsByBroker_def on dirs_in_def log_dir_entry_def split: option.split)
qed

theorem log_dirs_by_broker_correct_witness:
  "\<exists>m. LogDirsByBroker (idle_client\<lparr>ccClusterState := Inr \<lparr>ReplicaCountByBrokerID = [], LeaderCountByBrokerID = [],
        OnlineLogDirsByBrokerID = [(''0'', [''/a'']), (''1'', [])], OfflineLogDirsByBrokerID = [(''1'', [''/b''])]\<rparr>\<rparr>)
      = ([ReqClusterState], Inr m) \<and>
     map_of m ''1'' = Some [(LogDirStateOnline, []), (LogDirStateOffline, [''/b''])]"
  using log_dirs_by_broker_correct [of "idle_client\<lparr>ccClusterState := Inr \<lparr>ReplicaCountByBrokerID = [], LeaderCountByBrokerID = [],
        OnlineLogDirsByBrokerID = [(''0'', [''/a'']), (''1'', [])], OfflineLogDirsByBrokerID = [(''1'', [''/b''])]\<rparr>\<rparr>"
      "\<lparr>ReplicaCountByBrokerID = [], LeaderCountByBrokerID = [],
        OnlineLogDirsByBrokerID = [(''0'', [''/a'']), (''1'', [])], OfflineLogDirsByBrokerID = [(''1'', [''/b''])]\<rparr>"]
  by (auto simp: dirs_in_def)

definition parsed_id :: "string \<Rightarrow> 32 word option" where
  "parsed_id s = (case Atoi s of None \<Rightarrow> None | Some i \<Rightarrow> if 0 \<le> i \<and> i \<le> 2147483647 then Some (int32 i) else None)"

lemma brokerIDsFromStringSlice_iff: "brokerIDsFromStringSlice ss = Inr bs \<longleftrightarrow> map parsed_id ss = map Some bs"
  by (induction ss arbitrary: bs) (auto simp: parsed_id_def Cons_eq_map_conv split: option.splits sum.splits, blast)

lemma brokers_to_remove_iff:
  "brokers_to_remove counts ids = Inr bs \<longleftrightarrow>
     map parsed_id (filter (\<lambda>s. \<exists>n. map_of counts s = Some n \<and> 0 < n) ids) = map Some bs"
  by (induction ids arbitrary: bs)
    (auto simp: parsed_id_def Cons_eq_map_conv split: option.splits sum.splits if_splits, blast)

text \<open>Brokers are only added when Cruise Control reports all of them alive or new, and only those that
  still hold partition replicas are removed; the request names exactly these brokers, and no request
  is sent when there is none.\<close>

theorem broker_requests_guarded:
  "(ReqAddBroker r \<in> set (fst (AddBrokers cc ids)) \<longrightarrow>
      ids \<noteq> [] \<and>
      (\<exists>loads. ccLoad cc = Inr loads \<and>
         (\<forall>id \<in> set ids. \<exists>b \<in> set loads. loadBrokerState b \<in> {KafkaBrokerAlive, KafkaBrokerNew} \<and> broker_id_text (loadBroker b) = id)) \<and>
      map parsed_id ids = map Some (abBrokerIDs r)) \<and>
   (ReqRemoveBroker rm \<in> set (fst (RemoveBrokers cc ids)) \<longrightarrow>
      (\<exists>st. ccClusterState cc = Inr st \<and>
        filter (\<lambda>s. \<exists>n. map_of (ReplicaCountByBrokerID st) s = Some n \<and> 0 < n) ids \<noteq> [] \<and>
        map parsed_id (filter (\<lambda>s. \<exists>n. map_of (ReplicaCountByBrokerID st) s = Some n \<and> 0 < n) ids) = map Some (rbBrokerIDs rm)))"
proof (intro conjI impI)
  assume a: "ReqAddBroker r \<in> set (fst (AddBrokers cc ids))"
  then show "ids \<noteq> []" by (auto simp: AddBrokers_def)
  from a obtain loads where l: "ccLoad cc = Inr loads"
    "set ids \<subseteq> set (map (\<lambda>b. broker_id_text (loadBroker b)) (filter (\<lambda>b. loadBrokerState b \<in> set [KafkaBrokerAlive, KafkaBrokerNew]) loads))"
    by (auto simp: AddBrokers_def BrokersWithState_def Let_def filter_empty_conv subset_iff split: sum.splits if_splits)
  then show "\<exists>loads. ccLoad cc = Inr loads \<and>
         (\<forall>id \<in> set ids. \<exists>b \<in> set loads. loadBrokerState b \<in> {KafkaBrokerAlive, KafkaBrokerNew} \<and> broker_id_text (loadBroker b) = id)"
    by fastforce
  from a show "map parsed_id ids = map Some (abBrokerIDs r)"
    by (auto simp: AddBrokers_def BrokersWithState_def Let_def brokerIDsFromStringSlice_iff [symmetric] split: sum.splits if_splits)
next
  assume a: "ReqRemoveBroker rm \<in> set (fst (RemoveBrokers cc ids))"
  then obtain st where st: "ccClusterState cc = Inr st" "brokers_to_remove (ReplicaCountByBrokerID st) ids = Inr (rbBrokerIDs rm)"
    "rbBrokerIDs rm \<noteq> []"
    by (auto simp: RemoveBrokers_def Let_def split: sum.splits if_splits)
  then show "\<exists>st. ccClusterState cc = Inr st \<and>
        filter (\<lambda>s. \<exists>n. map_of (ReplicaCountByBrokerID st) s = Some n \<and> 0 < n) ids \<noteq> [] \<and>
        map parsed_id (filter (\<lambda>s. \<exists>n. map_of (ReplicaCountByBrokerID st) s = Some n \<and> 0 < n) ids) = map Some (rbBrokerIDs rm)"
    by (auto simp: brokers_to_remove_iff)
qed

lemma Atoi_five: "Atoi ''5'' = Some 5"
proof -
  have "char_of (53::nat) = CHR ''5''" by (simp add: char_of_eq_iff)
  then show ?thesis using ParseInt_Itoa [of 64 5] by (simp add: Itoa_def nat_str.simps in_range_def)
qed

theorem broker_requests_guarded_witness:
  "map parsed_id [''5''] = map Some [int32 5]"
proof -
  let ?load = "\<lparr>loadBroker = 5, loadBrokerState = KafkaBrokerNew, DiskState = []\<rparr>"
  let ?cc = "idle_client\<lparr>ccLoad := Inr [?load]\<rparr>"
  let ?r = "\<lparr>abAllowCapacityEstimation = True, abBrokerIDs = [int32 5], abDataFrom = ProposalDataSourceValidWindows,
     abUseReadyDefaultGoals = True, abExcludeRecentlyDemotedBrokers = False, abExcludeRecentlyRemovedBrokers = False\<rparr>"
  have t: "broker_id_text 5 = ''5''"
    by (simp add: broker_id_text_def Itoa_def nat_str.simps char_of_eq_iff)
  have "ReqAddBroker ?r \<in> set (fst (AddBrokers ?cc [''5'']))"
    by (simp add: AddBrokers_def BrokersWithState_def t Atoi_five Let_def)
  from broker_requests_guarded [of ?r ?cc "[''5'']", THEN conjunct1, THEN mp, OF this] show ?thesis by simp
qed

end
