(* ===== verification/World.thy ===== *)
theory World
  imports Scaler
begin

text \<open>
  What the controllers see of the outside: the Kubernetes API, Cruise Control and the clock. All of it
  is a parameter, the record \<open>env\<close>. Every function of it takes the events so far (what the controller
  has asked for, oldest first), so that its answers may change from call to call; a theorem about a
  reconcile holds for every such environment. The events are the observable behaviour of a reconcile.

  Also here: the retry helpers of \<open>pkg/util/util.go\<close>. \<open>wait.ExponentialBackoff\<close> is a parameter too; what
  it promises is \<open>backoff_ok\<close>.
\<close>

section \<open>Events\<close>

datatype event =
    EvListOps string
  | EvListOwned string string
  | EvGetCluster string string
  | EvGetOp string string
  | EvUpdate CruiseControlOperation
  | EvStatusUpdate CruiseControlOperation
  | EvCreate CruiseControlOperation
  | EvDelete CruiseControlOperation
  | EvClusterStatus KafkaCluster
  | EvScaleFactory
  | EvCC cc_request

type_synonym trace = "event list"

fun ev_executes :: "event \<Rightarrow> bool" where
  "ev_executes (EvCC r) = executes r"
| "ev_executes _ = False"

definition executions :: "trace \<Rightarrow> event list" where
  "executions tr = filter ev_executes tr"

lemma executions_append [simp]: "executions (tr @ tr') = executions tr @ executions tr'"
  by (simp add: executions_def)

lemma executions_Nil [simp]: "executions [] = []"
  by (simp add: executions_def)

lemma executions_Cons [simp]: "executions (e # tr) = (if ev_executes e then e # executions tr else executions tr)"
  by (simp add: executions_def)

section \<open>Retries\<close>

datatype wait_result = WaitPanic | WaitDone | WaitErr err | WaitInterrupted

type_synonym 's condition = "'s \<Rightarrow> (err, bool) go \<times> 's"
type_synonym 's backoff = "'s condition \<Rightarrow> 's \<Rightarrow> wait_result \<times> 's"

text \<open>Calling a condition until it is true or fails, at most \<open>n\<close> times.\<close>

fun run_steps :: "nat \<Rightarrow> 's condition \<Rightarrow> 's \<Rightarrow> wait_result \<times> 's" where
  "run_steps 0 cond s = (WaitInterrupted, s)"
| "run_steps (Suc n) cond s = (case cond s of
     (Panic, s') \<Rightarrow> (WaitPanic, s')
   | (Err e, s') \<Rightarrow> (WaitErr e, s')
   | (Ret True, s') \<Rightarrow> (WaitDone, s')
   | (Ret False, s') \<Rightarrow> run_steps n cond s')"

definition BackoffSteps :: nat where
  "BackoffSteps = 6"

text \<open>The documented behaviour of \<open>wait.ExponentialBackoff\<close> that the controllers rely on: it repeats the
  condition, at least once and at most \<open>Steps\<close> times.\<close>

definition backoff_ok :: "'s backoff \<Rightarrow> bool" where
  "backoff_ok b \<longleftrightarrow> (\<forall>cond s. \<exists>n. 1 \<le> n \<and> n \<le> BackoffSteps \<and> b cond s = run_steps n cond s)"

definition RetryOnError ::
  "('s \<times> err option) backoff \<Rightarrow> ('s \<Rightarrow> (err, unit) go \<times> 's) \<Rightarrow> (err \<Rightarrow> bool) \<Rightarrow> 's \<Rightarrow> (err, unit) go \<times> 's" where
  "RetryOnError backoff fn isRetryableError s =
     (case backoff (\<lambda>(s, lastErr). case fn s of
          (Panic, s') \<Rightarrow> (Panic, (s', lastErr))
        | (Ret _, s') \<Rightarrow> (Ret True, (s', lastErr))
        | (Err e, s') \<Rightarrow> if isRetryableError e then (Ret False, (s', Some e)) else (Err e, (s', lastErr))) (s, None) of
        (WaitPanic, (s', _)) \<Rightarrow> (Panic, s')
      | (WaitDone, (s', _)) \<Rightarrow> (Ret (), s')
      | (WaitErr e, (s', _)) \<Rightarrow> (Err e, s')
      | (WaitInterrupted, (s', lastErr)) \<Rightarrow> ((case lastErr of None \<Rightarrow> Ret () | Some e \<Rightarrow> Err e), s'))"

definition RetryOnConflict ::
  "('s \<times> err option) backoff \<Rightarrow> ('s \<Rightarrow> (err, unit) go \<times> 's) \<Rightarrow> 's \<Rightarrow> (err, unit) go \<times> 's" where
  "RetryOnConflict backoff fn s = RetryOnError backoff fn IsConflict s"

text \<open>The same loop without the closure variable: the last retryable error is the result when the
  attempts are used up.\<close>

fun retry :: "nat \<Rightarrow> ('s \<Rightarrow> (err, unit) go \<times> 's) \<Rightarrow> (err \<Rightarrow> bool) \<Rightarrow> 's \<Rightarrow> (err, unit) go \<times> 's" where
  "retry 0 fn p s = (Ret (), s)"
| "retry (Suc n) fn p s = (case fn s of
     (Panic, s') \<Rightarrow> (Panic, s')
   | (Ret _, s') \<Rightarrow> (Ret (), s')
   | (Err e, s') \<Rightarrow> if p e \<and> n \<noteq> 0 then retry n fn p s' else (Err e, s'))"

lemma run_steps_retry:
  fixes fn :: "'s \<Rightarrow> (err, unit) go \<times> 's" and p :: "err \<Rightarrow> bool"
  defines "cond \<equiv> (\<lambda>(s, lastErr). case fn s of
          (Panic, s') \<Rightarrow> (Panic, (s', lastErr))
        | (Ret _, s') \<Rightarrow> (Ret True, (s', lastErr))
        | (Err e, s') \<Rightarrow> if p e then (Ret False, (s', Some e)) else (Err e, (s', lastErr)))"
  shows "(case run_steps (Suc n) cond (s, le) of
        (WaitPanic, (s', _)) \<Rightarrow> (Panic, s')
      | (WaitDone, (s', _)) \<Rightarrow> (Ret (), s')
      | (WaitErr e, (s', _)) \<Rightarrow> (Err e, s')
      | (WaitInterrupted, (s', lastErr)) \<Rightarrow> ((case lastErr of None \<Rightarrow> Ret () | Some e \<Rightarrow> Err e), s')) =
     retry (Suc n) fn p s"
proof (induction n arbitrary: s le)
  case 0
  show ?case by (auto simp: cond_def split: prod.split go.split)
next
  case (Suc n)
  obtain r s' where f: "fn s = (r, s')" by (cases "fn s")
  show ?case
  proof (cases r)
    case (Err e)
    then show ?thesis using Suc.IH [of s' "Some e"] f by (simp add: cond_def)
  qed (use f in \<open>simp_all add: cond_def\<close>)
qed

lemma RetryOnError_retry:
  assumes "backoff_ok b"
  shows "\<exists>n. 1 \<le> n \<and> n \<le> BackoffSteps \<and> RetryOnError b fn p s = retry n fn p s"
proof -
  let ?cond = "\<lambda>(s, lastErr). case fn s of
          (Panic, s') \<Rightarrow> (Panic, (s', lastErr))
        | (Ret _, s') \<Rightarrow> (Ret True, (s', lastErr))
        | (Err e, s') \<Rightarrow> if p e then (Ret False, (s', Some e)) else (Err e, (s', lastErr))"
  from assms obtain n where n: "1 \<le> n" "n \<le> BackoffSteps" "b ?cond (s, None) = run_steps n ?cond (s, None)"
    unfolding backoff_ok_def by blast
  then obtain k where k: "n = Suc k" by (cases n) auto
  have "RetryOnError b fn p s = retry n fn p s"
    using run_steps_retry [where n = k and fn = fn and p = p and s = s and le = None] n(3) k unfolding RetryOnError_def by simp
  then show ?thesis using n by blast
qed

text \<open>A property of the state that every attempt keeps is kept by the whole retry.\<close>

lemma retry_invariant:
  "(\<And>s. I s \<Longrightarrow> I (snd (fn s))) \<Longrightarrow> I s \<Longrightarrow> I (snd (retry n fn p s))"
proof (induction n arbitrary: s)
  case (Suc n)
  obtain r s' where f: "fn s = (r, s')" by (cases "fn s")
  then have "I s'" using Suc.prems(1) [OF Suc.prems(2)] by simp
  then show ?case using Suc.IH [OF Suc.prems(1)] f by (cases r) auto
qed simp

lemma RetryOnConflict_invariant:
  assumes "backoff_ok b" "\<And>s. I s \<Longrightarrow> I (snd (fn s))" "I s"
  shows "I (snd (RetryOnConflict b fn s))"
  using RetryOnError_retry [OF assms(1), of fn IsConflict s] retry_invariant [of I fn s, OF assms(2,3)]
  by (auto simp: RetryOnConflict_def)

section \<open>The environment\<close>

record env =
  listOps :: "trace \<Rightarrow> string \<Rightarrow> err + CruiseControlOperation list"
  listOwned :: "trace \<Rightarrow> string \<Rightarrow> string \<Rightarrow> err + CruiseControlOperation list"
  getCluster :: "trace \<Rightarrow> string \<Rightarrow> string \<Rightarrow> err + KafkaCluster"
  getOp :: "trace \<Rightarrow> string \<Rightarrow> string \<Rightarrow> err + CruiseControlOperation"
  updateOp :: "trace \<Rightarrow> CruiseControlOperation \<Rightarrow> err + CruiseControlOperation"
  updateStatusOp :: "trace \<Rightarrow> CruiseControlOperation \<Rightarrow> err + CruiseControlOperation"
  createOp :: "trace \<Rightarrow> CruiseControlOperation \<Rightarrow> err + CruiseControlOperation"
  deleteOp :: "trace \<Rightarrow> CruiseControlOperation \<Rightarrow> err option"
  updateStatusCluster :: "trace \<Rightarrow> KafkaCluster \<Rightarrow> err + KafkaCluster"
  setControllerReference :: "KafkaCluster \<Rightarrow> CruiseControlOperation \<Rightarrow> err + CruiseControlOperation"
  scaleFactory :: "trace \<Rightarrow> KafkaCluster \<Rightarrow> err option"
  ccClient :: "trace \<Rightarrow> cc_client"
  now :: "trace \<Rightarrow> time"
  ContainsFinalizer :: "string \<Rightarrow> CruiseControlOperation \<Rightarrow> bool"
  AddFinalizer :: "string \<Rightarrow> CruiseControlOperation \<Rightarrow> CruiseControlOperation"
  RemoveFinalizer :: "string \<Rightarrow> CruiseControlOperation \<Rightarrow> CruiseControlOperation"
  parseRFC1123 :: "string \<Rightarrow> err + time"
  backoffOp :: "((CruiseControlOperation \<times> trace) \<times> err option) backoff"
  backoffCluster :: "((KafkaCluster \<times> trace) \<times> err option) backoff"

text \<open>An object call: the event is recorded, and the object is replaced by the answer or kept on error.\<close>

definition call_obj :: "(trace \<Rightarrow> 'o \<Rightarrow> err + 'o) \<Rightarrow> ('o \<Rightarrow> event) \<Rightarrow> 'o \<Rightarrow> trace \<Rightarrow> err option \<times> 'o \<times> trace" where
  "call_obj f ev ob tr = (case f tr ob of
     Inl e \<Rightarrow> (Some e, ob, tr @ [ev ob])
   | Inr ob' \<Rightarrow> (None, ob', tr @ [ev ob]))"

definition Update :: "env \<Rightarrow> CruiseControlOperation \<Rightarrow> trace \<Rightarrow> err option \<times> CruiseControlOperation \<times> trace" where
  "Update E = call_obj (updateOp E) EvUpdate"

definition Status_Update :: "env \<Rightarrow> CruiseControlOperation \<Rightarrow> trace \<Rightarrow> err option \<times> CruiseControlOperation \<times> trace" where
  "Status_Update E = call_obj (updateStatusOp E) EvStatusUpdate"

definition Create :: "env \<Rightarrow> CruiseControlOperation \<Rightarrow> trace \<Rightarrow> err option \<times> CruiseControlOperation \<times> trace" where
  "Create E = call_obj (createOp E) EvCreate"

lemma call_obj_trace: "call_obj f ev ob tr = (e, ob', tr') \<Longrightarrow> tr' = tr @ [ev ob]"
  by (auto simp: call_obj_def split: sum.splits)

lemma api_traces:
  "Update E ob tr = (e, ob', tr') \<Longrightarrow> tr' = tr @ [EvUpdate ob]"
  "Status_Update E ob tr = (e, ob', tr') \<Longrightarrow> tr' = tr @ [EvStatusUpdate ob]"
  "Create E ob tr = (e, ob', tr') \<Longrightarrow> tr' = tr @ [EvCreate ob]"
  using call_obj_trace [of _ EvUpdate] call_obj_trace [of _ EvStatusUpdate] call_obj_trace [of _ EvCreate]
  by (auto simp: Update_def Status_Update_def Create_def)

section \<open>Steps made of acceptable events\<close>

definition steps :: "(event \<Rightarrow> bool) \<Rightarrow> trace \<Rightarrow> trace \<Rightarrow> bool" where
  "steps ok tr tr' \<longleftrightarrow> (\<exists>d. tr' = tr @ d \<and> (\<forall>e \<in> set d. ok e))"

lemma steps_refl [simp, intro]: "steps ok tr tr"
  by (simp add: steps_def)

lemma steps_trans [trans]: "steps ok a b \<Longrightarrow> steps ok b c \<Longrightarrow> steps ok a c"
  by (fastforce simp: steps_def)

lemma steps_snoc [simp]: "steps ok tr (tr @ [e]) \<longleftrightarrow> ok e"
  by (auto simp: steps_def)

lemma steps_append: "(\<forall>e \<in> set d. ok e) \<Longrightarrow> steps ok tr (tr @ d)"
  by (auto simp: steps_def)

text \<open>
  The interface between a controller and a property of its events: a property that accepts the reads, the
  writes of a status and the queries to Cruise Control. What holds of all helpers of the controllers is
  proved for every such property.
\<close>

locale event_property =
  fixes ok :: "event \<Rightarrow> bool"
  assumes ok_status: "ok (EvStatusUpdate op)"
    and ok_create: "ok (EvCreate op)"
    and ok_get: "ok (EvGetOp n ns)"
    and ok_query: "\<not> executes r \<Longrightarrow> ok (EvCC r)"
begin

lemma steps_Status_Update: "Status_Update E ob tr = (e, ob', tr') \<Longrightarrow> steps ok tr tr'"
  by (auto dest!: api_traces(2) simp: ok_status)

lemma steps_Create: "Create E ob tr = (e, ob', tr') \<Longrightarrow> steps ok tr tr'"
  by (auto dest!: api_traces(3) simp: ok_create)

end

section \<open>Finalizers\<close>

text \<open>The finalizer helpers of controller-runtime are part of the environment. Their documented behaviour: a
  finalizer is added at the end of the list unless it is there, and every occurrence of it is removed;
  nothing else of the object changes.\<close>

definition std_contains :: "string \<Rightarrow> CruiseControlOperation \<Rightarrow> bool" where
  "std_contains f op \<longleftrightarrow> f \<in> set (Finalizers (Meta op))"

definition std_add :: "string \<Rightarrow> CruiseControlOperation \<Rightarrow> CruiseControlOperation" where
  "std_add f op = (if std_contains f op then op
     else op\<lparr>Meta := (Meta op)\<lparr>Finalizers := Finalizers (Meta op) @ [f]\<rparr>\<rparr>)"

definition std_remove :: "string \<Rightarrow> CruiseControlOperation \<Rightarrow> CruiseControlOperation" where
  "std_remove f op = op\<lparr>Meta := (Meta op)\<lparr>Finalizers := filter (\<lambda>x. x \<noteq> f) (Finalizers (Meta op))\<rparr>\<rparr>"

definition finalizers_ok :: "env \<Rightarrow> bool" where
  "finalizers_ok E \<longleftrightarrow> ContainsFinalizer E = std_contains \<and> AddFinalizer E = std_add \<and> RemoveFinalizer E = std_remove"

end
