(* ===== verification/CCOperationCtl.thy ===== *)
theory CCOperationCtl
  imports World "HOL-Library.Product_Lexorder"
begin

text \<open>
  The controller that executes \<open>CruiseControlOperation\<close> resources
  (\<open>controllers/cruisecontroloperation_controller.go\<close>). The operations listed at the start of a reconcile
  are held in a list; a pointer to an operation is its index in this list, so the writes through the
  filtered and sorted queues reach the listed objects. The handler is split at its phases, each phase
  calling the next one, and threads the listed operations and the trace of events.
\<close>

section \<open>Helpers\<close>

definition defaultFailedTasksHistoryMaxLength :: nat where
  "defaultFailedTasksHistoryMaxLength = 50"

definition ccOperationFinalizerGroup :: string where
  "ccOperationFinalizerGroup = ''finalizer.cruisecontroloperations.kafka.banzaicloud.io''"

definition defaultCruiseControlStatusOperationMaxDuration :: int where
  "defaultCruiseControlStatusOperationMaxDuration = 300 * Second"

definition defaultRequeueIntervalInSeconds :: int where
  "defaultRequeueIntervalInSeconds = 10"

fun executionPriorityMap :: "CruiseControlTaskOperation \<Rightarrow> int" where
  "executionPriorityMap OperationAddBroker = 3"
| "executionPriorityMap OperationRemoveBroker = 2"
| "executionPriorityMap OperationRemoveDisks = 1"
| "executionPriorityMap OperationRebalance = 0"
| "executionPriorityMap _ = 0"

definition missingCCResErr :: err where
  "missingCCResErr = NewErr ''missing Cruise Control user task result''"

definition isFinalizerNeeded :: "env \<Rightarrow> CruiseControlOperation \<Rightarrow> bool" where
  "isFinalizerNeeded E op \<longleftrightarrow>
     ContainsFinalizer E ccOperationFinalizerGroup op \<and> \<not> time_IsZero (DeletionTimestamp (Meta op))"

definition isWaitingForFinalization :: "env \<Rightarrow> CruiseControlOperation \<Rightarrow> bool" where
  "isWaitingForFinalization E op \<longleftrightarrow> IsCurrentTaskRunning op \<and> \<not> time_IsZero (DeletionTimestamp (Meta op)) \<and>
     ContainsFinalizer E ccOperationFinalizerGroup op"

text \<open>The reference is returned beside the error; without the label it is the empty key.\<close>

definition kafkaClusterReference :: "CruiseControlOperation \<Rightarrow> (string \<times> string) \<times> err option" where
  "kafkaClusterReference op =
     (if GetClusterRef op = [] then (([], []), Some (NewErr ''could not find kafka cluster reference label for CruiseControlOperation''))
      else ((GetClusterRef op, Namespace (Meta op)), None))"

definition addFinalizer :: "env \<Rightarrow> CruiseControlOperation \<Rightarrow> trace \<Rightarrow> err option \<times> CruiseControlOperation \<times> trace" where
  "addFinalizer E op tr =
     (if time_IsZero (DeletionTimestamp (Meta op)) \<and> \<not> ContainsFinalizer E ccOperationFinalizerGroup op
      then Update E (AddFinalizer E ccOperationFinalizerGroup op) tr
      else (None, op, tr))"

definition formatSummary :: "OptimizerResult option \<Rightarrow> (string, string) gomap" where
  "formatSummary res = (case res of None \<Rightarrow> []
     | Some r \<Rightarrow>
        [(''Data to move'', Itoa (DataToMoveMB r)),
         (''Number of replica movements'', Itoa (NumReplicaMovements r)),
         (''Intra broker data to move'', Itoa (IntraBrokerDataToMoveMB r)),
         (''Number of intra broker replica movements'', Itoa (NumIntraBrokerReplicaMovements r)),
         (''Number of leader movements'', Itoa (NumLeaderMovements r)),
         (''Recent windows'', Itoa (RecentWindows r)),
         (''Provision recommendation'', ProvisionRecommendation r)])"

section \<open>Recording a result\<close>

definition record_failure :: "CruiseControlTask list \<Rightarrow> CruiseControlTask \<Rightarrow> CruiseControlTask list" where
  "record_failure failed t =
     (if length failed \<ge> defaultFailedTasksHistoryMaxLength then drop 1 failed else failed) @ [t]"

definition after_execution :: "env \<Rightarrow> Result \<Rightarrow> CruiseControlTask \<Rightarrow> err + CruiseControlTask" where
  "after_execution E res task =
     (case (case Started task of
              Some s \<Rightarrow> Inr task
            | None \<Rightarrow> (case parseRFC1123 E (StartedAt res) of
                 Inl e \<Rightarrow> Inl (WrapErr ''could not parse user task start time from Cruise Control API'' e)
               | Inr startTime \<Rightarrow> Inr (task\<lparr>Started := Some startTime\<rparr>))) of
        Inl e \<Rightarrow> Inl e
      | Inr t \<Rightarrow> Inr (t\<lparr>ID := TaskID res, Summary := formatSummary (resResult res),
                        ErrorMessage := (case resErr res of None \<Rightarrow> ErrorMessage t | Some e \<Rightarrow> err_text e),
                        HTTPRequest := RequestURL res, HTTPResponseCode := Some (ResponseStatusCode res)\<rparr>))"

definition missing_result :: "CruiseControlOperation \<Rightarrow> Result" where
  "missing_result op = zero_Result\<lparr>TaskID := CurrentTaskID op, resState := CruiseControlTaskCompletedWithError,
     resErr := Some missingCCResErr\<rparr>"

definition updateResult ::
  "env \<Rightarrow> trace \<Rightarrow> Result option \<Rightarrow> CruiseControlOperation \<Rightarrow> bool \<Rightarrow> (err, CruiseControlOperation) go" where
  "updateResult E tr result op isAfterExecution =
     (let res = (case result of Some r \<Rightarrow> r | None \<Rightarrow> missing_result op);
          st = (Status op)\<lparr>StatusErrorPolicy := ErrorPolicy (Spec op)\<rparr>
      in (case CurrentTask op of
            None \<Rightarrow> Panic
          | Some task0 \<Rightarrow>
              let task = (if (resState res = CruiseControlTaskCompleted \<or> resState res = CruiseControlTaskCompletedWithError) \<and>
                             Finished task0 = None
                          then task0\<lparr>Finished := Some (now E tr)\<rparr> else task0);
                  failed = (isAfterExecution \<and> Finished task \<noteq> None \<and> State task = CruiseControlTaskCompletedWithError);
                  st1 = (if failed then st\<lparr>FailedTasks := record_failure (FailedTasks st) task, RetryCount := RetryCount st + 1\<rparr> else st);
                  task1 = (if failed then SetDefaults task else task)
              in (case (if isAfterExecution then after_execution E res task1 else Inr task1) of
                    Inl e \<Rightarrow> Err e
                  | Inr task2 \<Rightarrow>
                      Ret (op\<lparr>Status := st1\<lparr>StatusCurrentTask := Some (task2\<lparr>State := resState res\<rparr>)\<rparr>\<rparr>))))"

section \<open>Refreshing the current tasks\<close>

type_synonym ops = "CruiseControlOperation list"

fun update_tasks :: "env \<Rightarrow> trace \<Rightarrow> (string, Result) gomap \<Rightarrow> nat list \<Rightarrow> ops \<Rightarrow> (err, ops) go" where
  "update_tasks E tr results [] items = Ret items"
| "update_tasks E tr results (i # is) items =
     (if CurrentTaskID (items ! i) \<noteq> [] \<and> \<not> IsDone (items ! i) then
        (case updateResult E tr (map_of results (CurrentTaskID (items ! i))) (items ! i) False of
           Panic \<Rightarrow> Panic
         | Err e \<Rightarrow> Err (WrapErr ''could not set Cruise Control user task result to CruiseControlOperation CurrentTask'' e)
         | Ret op \<Rightarrow> update_tasks E tr results is (items[i := op]))
      else update_tasks E tr results is items)"

fun push_status :: "env \<Rightarrow> ops \<Rightarrow> nat list \<Rightarrow> ops \<Rightarrow> trace \<Rightarrow> err option \<times> ops \<times> trace" where
  "push_status E olds [] items tr = (None, items, tr)"
| "push_status E olds (i # is) items tr =
     (if Status (items ! i) \<noteq> Status (olds ! i) then
        (case Status_Update E (items ! i) tr of
           (Some e, op, tr') \<Rightarrow> (Some (WrapErr ''could not update CruiseControlOperation status'' e), items, tr')
         | (None, op, tr') \<Rightarrow> push_status E olds is (items[i := op]) tr')
      else push_status E olds is items tr)"

definition updateCurrentTasks :: "env \<Rightarrow> nat list \<Rightarrow> ops \<Rightarrow> trace \<Rightarrow> (err, unit) go \<times> ops \<times> trace" where
  "updateCurrentTasks E is items tr =
     (let userTaskIDs = filter (\<lambda>s. s \<noteq> []) (map (\<lambda>i. CurrentTaskID (items ! i)) is) in
      (case UserTasks (ccClient E tr) userTaskIDs of (reqs, r) \<Rightarrow>
         let tr1 = tr @ map EvCC reqs in
         (case r of
            Inl e \<Rightarrow> (Err (WrapErr ''could not get user tasks from Cruise Control API'' e), items, tr1)
          | Inr tasks \<Rightarrow>
              (case update_tasks E tr1 (fold (\<lambda>t. AList.update (TaskID t) t) tasks []) is items of
                 Panic \<Rightarrow> (Panic, items, tr1)
               | Err e \<Rightarrow> (Err e, items, tr1)
               | Ret items' \<Rightarrow>
                   (case push_status E items is items' tr1 of
                      (Some e, items'', tr2) \<Rightarrow> (Err e, items'', tr2)
                    | (None, items'', tr2) \<Rightarrow> (Ret (), items'', tr2))))))"

section \<open>Creating an operation and the status of Cruise Control\<close>

definition new_op :: "KafkaCluster \<Rightarrow> CruiseControlTaskOperation \<Rightarrow> ErrorPolicyType \<Rightarrow> 64 word option \<Rightarrow> CruiseControlOperation" where
  "new_op cluster opn policy ttl =
     \<lparr>Meta = \<lparr>Name = [], GenerateName = kcName cluster @ ''-'' @ ReplaceAll (op_string opn) (CHR ''_'') [] @ ''-'',
         Namespace = kcNamespace cluster, Labels = Some (LabelsForKafka (kcName cluster)), Finalizers = [],
         OwnerReferences = [], CreationTimestamp = 0, DeletionTimestamp = None, Generation = 0, ResourceVersion = []\<rparr>,
      Spec = \<lparr>ErrorPolicy = policy, TTLSecondsAfterFinished = ttl\<rparr>,
      Status = \<lparr>StatusCurrentTask = None, StatusErrorPolicy = ErrorPolicyNone, RetryCount = 0, FailedTasks = []\<rparr>\<rparr>"

definition set_current_task :: "CruiseControlTask \<Rightarrow> CruiseControlOperation \<Rightarrow> CruiseControlOperation" where
  "set_current_task t op = op\<lparr>Status := (Status op)\<lparr>StatusCurrentTask := Some t\<rparr>\<rparr>"

definition createCCOperation ::
  "env \<Rightarrow> KafkaCluster \<Rightarrow> 64 word option \<Rightarrow> CruiseControlTaskOperation \<Rightarrow> trace \<Rightarrow> (err + CruiseControlOperation) \<times> trace" where
  "createCCOperation E cluster ttl opn tr =
     (case setControllerReference E cluster (new_op cluster opn ErrorPolicyNone ttl) of
        Inl e \<Rightarrow> (Inl e, tr)
      | Inr op \<Rightarrow>
          (case Create E op tr of
             (Some e, _, tr1) \<Rightarrow> (Inl e, tr1)
           | (None, op1, tr1) \<Rightarrow>
               (case Status_Update E (set_current_task (new_task opn) op1) tr1 of
                  (Some e, _, tr2) \<Rightarrow> (Inl e, tr2)
                | (None, op2, tr2) \<Rightarrow> (Inr op2, tr2))))"

definition is_status_op :: "string \<times> string \<Rightarrow> CruiseControlOperation \<Rightarrow> bool" where
  "is_status_op ref op \<longleftrightarrow> fst (kafkaClusterReference op) = ref \<and> CurrentTask op \<noteq> None \<and>
     CurrentTaskOperation op = OperationStatus \<and> IsCurrentTaskRunning op"

definition find_op :: "(CruiseControlOperation \<Rightarrow> bool) \<Rightarrow> ops \<Rightarrow> nat option" where
  "find_op P items = find (\<lambda>i. P (items ! i)) [0..<length items]"

definition refresh_status_op ::
  "env \<Rightarrow> nat \<Rightarrow> ops \<Rightarrow> trace \<Rightarrow> (err, CruiseControlStatus) go \<times> ops \<times> trace" where
  "refresh_status_op E i items tr =
     (case StatusTask (ccClient E tr) (CurrentTaskID (items ! i)) of (reqs, res, e) \<Rightarrow>
        let tr1 = tr @ map EvCC reqs in
        (case e of
           Some er \<Rightarrow> (Err (WrapErr ''could not get the latest state of Status CruiseControlOperation'' er), items, tr1)
         | None \<Rightarrow>
           (case updateResult E tr1 (TaskResult res) (items ! i) False of
              Panic \<Rightarrow> (Panic, items, tr1)
            | Err er \<Rightarrow> (Err (WrapErr ''could not update the state of Status CruiseControlOperation'' er), items, tr1)
            | Ret op \<Rightarrow>
                (case Status_Update E op tr1 of
                   (Some er, _, tr2) \<Rightarrow> (Err (WrapErr ''could not update the state of Status CruiseControlOperation'' er), items[i := op], tr2)
                 | (None, op', tr2) \<Rightarrow>
                     (case CurrentTask op' of
                        None \<Rightarrow> (Panic, items[i := op'], tr2)
                      | Some t \<Rightarrow>
                          (case (Finished t, Started t) of
                             (Some f, None) \<Rightarrow> (Panic, items[i := op'], tr2)
                           | (Some f, Some s) \<Rightarrow>
                               if f - s > defaultCruiseControlStatusOperationMaxDuration
                               then (Err (NewErr ''the Cruise Control status operation took too long to finish''), items[i := op'], tr2)
                               else (case strStatus res of
                                   None \<Rightarrow> (Err (NewErr ''could not get Cruise Control status''), items[i := op'], tr2)
                                 | Some s' \<Rightarrow> (Ret s', items[i := op'], tr2))
                           | (None, _) \<Rightarrow>
                               (case strStatus res of
                                  None \<Rightarrow> (Err (NewErr ''could not get Cruise Control status''), items[i := op'], tr2)
                                | Some s' \<Rightarrow> (Ret s', items[i := op'], tr2)))))))) "

text \<open>In the two error branches after the new status operation has been created the message reads the
  name of the (nil) operation found before: these branches panic.\<close>

definition ask_status ::
  "env \<Rightarrow> KafkaCluster \<Rightarrow> ops \<Rightarrow> trace \<Rightarrow> (err, CruiseControlStatus) go \<times> ops \<times> trace" where
  "ask_status E cluster items tr =
     (case Scaler_Status (ccClient E tr) of (reqs, res, e) \<Rightarrow>
        let tr1 = tr @ map EvCC reqs in
        (case e of
           Some er \<Rightarrow> (Err (WrapErr ''could not get Cruise Control status'' er), items, tr1)
         | None \<Rightarrow>
           (case strStatus res of
              Some s \<Rightarrow> (Ret s, items, tr1)
            | None \<Rightarrow>
               (case createCCOperation E cluster (Spec_GetTTLSecondsAfterFinished (ccOperationSpec (kcSpec cluster))) OperationStatus tr1 of
                  (Inl er, tr2) \<Rightarrow> (Err (WrapErr ''could not create a new Status CruiseControlOperation'' er), items, tr2)
                | (Inr op, tr2) \<Rightarrow>
                    (case updateResult E tr2 (TaskResult res) op True of
                       Panic \<Rightarrow> (Panic, items, tr2)
                     | Err er \<Rightarrow> (Panic, items, tr2)
                     | Ret op' \<Rightarrow>
                         (case Status_Update E op' tr2 of
                            (Some er, _, tr3) \<Rightarrow> (Panic, items, tr3)
                          | (None, _, tr3) \<Rightarrow>
                              (Err (NewErr ''could not get Cruise Control status, the operation is still in progress''), items, tr3)))))))"

definition getStatus ::
  "env \<Rightarrow> KafkaCluster \<Rightarrow> string \<times> string \<Rightarrow> ops \<Rightarrow> trace \<Rightarrow> (err, CruiseControlStatus) go \<times> ops \<times> trace" where
  "getStatus E cluster ref items tr = (case find_op (is_status_op ref) items of
     Some i \<Rightarrow> refresh_status_op E i items tr
   | None \<Rightarrow> ask_status E cluster items tr)"

section \<open>Queues\<close>

datatype queue_key = ccOperationForStopExecution | ccOperationFirstExecution | ccOperationRetryExecution | ccOperationInProgress

type_synonym queues = "(queue_key, nat list) gomap"

definition queue :: "queues \<Rightarrow> queue_key \<Rightarrow> nat list" where
  "queue m k = (case map_of m k of None \<Rightarrow> [] | Some q \<Rightarrow> q)"

definition classify :: "env \<Rightarrow> CruiseControlOperation \<Rightarrow> queue_key option" where
  "classify E op =
     (if isWaitingForFinalization E op then Some ccOperationForStopExecution
      else if IsWaitingForFirstExecution op then Some ccOperationFirstExecution
      else if IsWaitingForRetryExecution op then Some ccOperationRetryExecution
      else if IsInProgress op then Some ccOperationInProgress
      else None)"

definition enqueue :: "env \<Rightarrow> ops \<Rightarrow> nat \<Rightarrow> queues \<Rightarrow> queues" where
  "enqueue E items i m = (case classify E (items ! i) of None \<Rightarrow> m | Some k \<Rightarrow> AList.update k (queue m k @ [i]) m)"

text \<open>The order of \<open>sort.SliceStable\<close>: higher priority first, then older first.\<close>

definition sort_pos :: "ops \<Rightarrow> nat \<Rightarrow> int \<times> int" where
  "sort_pos items i = (- executionPriorityMap (CurrentTaskOperation (items ! i)), Unix (CreationTimestamp (Meta (items ! i))))"

definition sortOperations :: "env \<Rightarrow> ops \<Rightarrow> nat list \<Rightarrow> queues" where
  "sortOperations E items is = map (\<lambda>(k, q). (k, sort_key (sort_pos items) q)) (fold (enqueue E items) is [])"

definition getFirstOperation :: "queues \<Rightarrow> queue_key \<Rightarrow> nat option" where
  "getFirstOperation m k = (case queue m k of [] \<Rightarrow> None | i # _ \<Rightarrow> Some i)"

definition pause_op :: "(string, string) gomap \<Rightarrow> CruiseControlOperation \<Rightarrow> CruiseControlOperation" where
  "pause_op labels op = op\<lparr>Meta := (Meta op)\<lparr>Labels := Some (AList.update PauseLabel True_str labels)\<rparr>\<rparr>"

definition select_retry ::
  "env \<Rightarrow> queues \<Rightarrow> nat \<Rightarrow> ops \<Rightarrow> trace \<Rightarrow> (err, nat option) go \<times> ops \<times> trace" where
  "select_retry E m i items tr =
     (let waiting = (Ret (if IsReadyForRetryExecution (now E tr) (items ! i) then Some i
                          else getFirstOperation m ccOperationFirstExecution), items, tr) in
      if CurrentTaskOperation (items ! i) = OperationRemoveDisks then
        (case find (\<lambda>j. CurrentTaskOperation (items ! j) = OperationRebalance) (queue m ccOperationFirstExecution) of
           None \<Rightarrow> waiting
         | Some j \<Rightarrow>
             (case Labels (Meta (items ! i)) of
                None \<Rightarrow> (Panic, items, tr)
              | Some labels \<Rightarrow>
                  (case Update E (pause_op labels (items ! i)) tr of
                     (Some e, _, tr') \<Rightarrow> (Err (WrapErr ''failed to update Cruise Control operation'' e), items, tr')
                   | (None, op, tr') \<Rightarrow> (Ret (Some j), items[i := op], tr'))))
      else waiting)"

definition selectOperationForExecution ::
  "env \<Rightarrow> queues \<Rightarrow> ops \<Rightarrow> trace \<Rightarrow> (err, nat option) go \<times> ops \<times> trace" where
  "selectOperationForExecution E m items tr =
     (case getFirstOperation m ccOperationForStopExecution of
        Some i \<Rightarrow>
          (if CurrentTask (items ! i) = None then (Panic, items, tr)
           else (Ret (Some i), items[i := upd_task (\<lambda>t. t\<lparr>Operation := OperationStopExecution\<rparr>) (items ! i)], tr))
      | None \<Rightarrow>
          (case getFirstOperation m ccOperationFirstExecution of
             Some i \<Rightarrow>
               (if CurrentTaskOperation (items ! i) = OperationAddBroker then (Ret (Some i), items, tr)
                else (case getFirstOperation m ccOperationRetryExecution of
                        Some r \<Rightarrow> select_retry E m r items tr
                      | None \<Rightarrow> (Ret (Some i), items, tr)))
           | None \<Rightarrow>
               (case getFirstOperation m ccOperationRetryExecution of
                  Some r \<Rightarrow> select_retry E m r items tr
                | None \<Rightarrow> (Ret None, items, tr))))"

section \<open>The handler\<close>

definition executeOperation :: "env \<Rightarrow> CruiseControlOperation \<Rightarrow> trace \<Rightarrow> scaler_out" where
  "executeOperation E op tr =
     (let cc = ccClient E tr; params = CurrentTaskParameters op in
      (case CurrentTaskOperation op of
         OperationAddBroker \<Rightarrow> AddBrokersWithParams cc params
       | OperationRemoveBroker \<Rightarrow> RemoveBrokersWithParams cc params
       | OperationRebalance \<Rightarrow> RebalanceWithParams cc params
       | OperationRemoveDisks \<Rightarrow> RemoveDisksWithParams cc params
       | OperationStopExecution \<Rightarrow> StopExecution cc
       | _ \<Rightarrow> ([], None, Some (NewErr ''Cruise Control operation not supported''))))"

text \<open>The closure retried on conflict. After a conflict the object is read again and the error of that
  read, if any, takes the place of the conflict.\<close>

definition conflict_retry ::
  "env \<Rightarrow> Result option \<Rightarrow> CruiseControlOperation \<times> trace \<Rightarrow> (err, unit) go \<times> CruiseControlOperation \<times> trace" where
  "conflict_retry E res s = (case s of (op, tr) \<Rightarrow>
     (case updateResult E tr res op True of
        Panic \<Rightarrow> (Panic, op, tr)
      | Err e \<Rightarrow> (Err e, op, tr)
      | Ret op1 \<Rightarrow>
          (case Status_Update E op1 tr of
             (None, op2, tr1) \<Rightarrow> (Ret (), op2, tr1)
           | (Some e, op2, tr1) \<Rightarrow>
               if IsConflict e then
                 (let n = Name (Meta op2); ns = Namespace (Meta op2) in
                  (case getOp E tr1 n ns of
                     Inl e' \<Rightarrow> (Err e', op2, tr1 @ [EvGetOp n ns])
                   | Inr op3 \<Rightarrow> (Ret (), op3, tr1 @ [EvGetOp n ns])))
               else (Err e, op2, tr1))))"

definition reconcile_execute :: "env \<Rightarrow> nat \<Rightarrow> ops \<Rightarrow> trace \<Rightarrow> reconcile_result \<times> trace" where
  "reconcile_execute E i items tr =
     (case executeOperation E (items ! i) tr of (reqs, res, e) \<Rightarrow>
        let tr1 = tr @ map EvCC reqs in
        (case (e, res) of
           (Some er, None) \<Rightarrow> (requeueWithError ''CruiseControlOperation custom resource is invalid'' er, tr1)
         | _ \<Rightarrow>
             (case RetryOnConflict (backoffOp E) (conflict_retry E res) (items ! i, tr1) of
                (Panic, _, tr2) \<Rightarrow> (Panic, tr2)
              | (Err er, _, tr2) \<Rightarrow>
                  (requeueWithError ''could not update the result of the Cruise Control user task execution to the CruiseControlOperation status'' er, tr2)
              | (Ret _, _, tr2) \<Rightarrow> (reconciled, tr2))))"

definition reconcile_queues ::
  "env \<Rightarrow> CruiseControlStatus \<Rightarrow> nat list \<Rightarrow> ops \<Rightarrow> trace \<Rightarrow> reconcile_result \<times> trace" where
  "reconcile_queues E status is items tr =
     (let m = sortOperations E items is in
      if queue m ccOperationForStopExecution = [] \<and> queue m ccOperationFirstExecution = [] \<and>
         queue m ccOperationRetryExecution = [] \<and> queue m ccOperationInProgress = []
      then (reconciled, tr)
      else (case selectOperationForExecution E m items tr of
              (Panic, _, tr1) \<Rightarrow> (Panic, tr1)
            | (Err e, _, tr1) \<Rightarrow> (requeueAfter defaultRequeueIntervalInSeconds, tr1)
            | (Ret None, _, tr1) \<Rightarrow> (requeueAfter defaultRequeueIntervalInSeconds, tr1)
            | (Ret (Some i), items1, tr1) \<Rightarrow>
                if (InExecution status \<or> length (queue m ccOperationInProgress) > 0) \<and>
                   CurrentTaskOperation (items1 ! i) \<noteq> OperationStopExecution
                then (requeueAfter defaultRequeueIntervalInSeconds, tr1)
                else reconcile_execute E i items1 tr1))"

definition selected_for :: "string \<times> string \<Rightarrow> CruiseControlOperation \<Rightarrow> bool" where
  "selected_for ref op \<longleftrightarrow> fst (kafkaClusterReference op) = ref \<and> IsCurrentTaskOperationValid op \<and> \<not> IsDone op"

definition reconcile_tasks ::
  "env \<Rightarrow> CruiseControlStatus \<Rightarrow> string \<times> string \<Rightarrow> nat \<Rightarrow> ops \<Rightarrow> trace \<Rightarrow> reconcile_result \<times> trace" where
  "reconcile_tasks E status ref c items tr =
     (let is = filter (\<lambda>i. selected_for ref (items ! i)) [0..<length items] in
      (case updateCurrentTasks E is items tr of
         (Panic, _, tr1) \<Rightarrow> (Panic, tr1)
       | (Err e, _, tr1) \<Rightarrow> (requeueAfter defaultRequeueIntervalInSeconds, tr1)
       | (Ret _, items1, tr1) \<Rightarrow>
           if isFinalizerNeeded E (items1 ! c) \<and> \<not> IsCurrentTaskRunning (items1 ! c)
           then (case Update E (RemoveFinalizer E ccOperationFinalizerGroup (items1 ! c)) tr1 of
                   (Some e, _, tr2) \<Rightarrow> (requeueWithError (err_text e) e, tr2)
                 | (None, _, tr2) \<Rightarrow> (reconciled, tr2))
           else reconcile_queues E status is items1 tr1))"

definition reconcile_status ::
  "env \<Rightarrow> KafkaCluster \<Rightarrow> string \<times> string \<Rightarrow> nat \<Rightarrow> ops \<Rightarrow> trace \<Rightarrow> reconcile_result \<times> trace" where
  "reconcile_status E cluster ref c items tr =
     (case addFinalizer E (items ! c) tr of
        (Some e, _, tr1) \<Rightarrow> (requeueWithError ''failed to add finalizer to CruiseControlOperation'' e, tr1)
      | (None, op, tr1) \<Rightarrow>
          let tr2 = tr1 @ [EvScaleFactory] in
          (case scaleFactory E tr1 cluster of
             Some e \<Rightarrow> (requeueWithError ''failed to create Cruise Control Scaler instance'' e, tr2)
           | None \<Rightarrow>
               (case getStatus E cluster ref (items[c := op]) tr2 of
                  (Panic, _, tr3) \<Rightarrow> (Panic, tr3)
                | (Err e, _, tr3) \<Rightarrow> (requeueAfter defaultRequeueIntervalInSeconds, tr3)
                | (Ret status, items1, tr3) \<Rightarrow>
                    if \<not> Status_IsReady status then (requeueAfter defaultRequeueIntervalInSeconds, tr3)
                    else reconcile_tasks E status ref c items1 tr3)))"

definition reconcile_current :: "env \<Rightarrow> nat \<Rightarrow> ops \<Rightarrow> trace \<Rightarrow> reconcile_result \<times> trace" where
  "reconcile_current E c items tr =
     (let cur = items ! c in
      if CurrentTaskOperation cur = OperationStatus then (reconciled, tr)
      else if isFinalizerNeeded E cur \<and> IsDone cur then
        (case Update E (RemoveFinalizer E ccOperationFinalizerGroup cur) tr of
           (Some e, _, tr1) \<Rightarrow> (requeueWithError ''error happened when removing finalizer'' e, tr1)
         | (None, _, tr1) \<Rightarrow> (reconciled, tr1))
      else if \<not> IsCurrentTaskOperationValid cur then (reconciled, tr)
      else (case kafkaClusterReference cur of
          (ref, Some e) \<Rightarrow> (requeueWithError ''couldn't get kafka cluster reference'' e, tr)
        | (ref, None) \<Rightarrow>
            let tr1 = tr @ [EvGetCluster (fst ref) (snd ref)] in
            (case getCluster E tr (fst ref) (snd ref) of
               Inl e \<Rightarrow>
                 if IsNotFound e then
                   if \<not> time_IsZero (DeletionTimestamp (Meta cur)) then
                     (case Update E (RemoveFinalizer E ccOperationFinalizerGroup cur) tr1 of
                        (Some e, _, tr2) \<Rightarrow> (requeueWithError ''failed to remove finalizer from CruiseControlOperation'' e, tr2)
                      | (None, _, tr2) \<Rightarrow> (reconciled, tr2))
                   else (reconciled, tr1)
                 else (requeueWithError ''failed to lookup referenced kafka cluster'' e, tr1)
             | Inr cluster \<Rightarrow> reconcile_status E cluster ref c items tr1)))"

definition Reconcile :: "env \<Rightarrow> string \<Rightarrow> string \<Rightarrow> trace \<Rightarrow> reconcile_result \<times> trace" where
  "Reconcile E name ns tr =
     (let tr1 = tr @ [EvListOps ns] in
      (case listOps E tr ns of
         Inl e \<Rightarrow> (requeueWithError (err_text e) e, tr1)
       | Inr items \<Rightarrow>
           (case find_op (\<lambda>op. Name (Meta op) = name \<and> Namespace (Meta op) = ns) items of
              None \<Rightarrow> (reconciled, tr1)
            | Some c \<Rightarrow> reconcile_current E c items tr1)))"

section \<open>Event filters\<close>

definition gm_equal :: "(string, string) gomap \<Rightarrow> (string, string) gomap \<Rightarrow> bool" where
  "gm_equal m n \<longleftrightarrow> list_all (\<lambda>(k, v). map_of m k = map_of n k) (m @ n)"

definition task_DeepEqual :: "CruiseControlTask option \<Rightarrow> CruiseControlTask option \<Rightarrow> bool" where
  "task_DeepEqual a b \<longleftrightarrow> (case (a, b) of
     (None, None) \<Rightarrow> True
   | (Some t, Some u) \<Rightarrow> t\<lparr>Parameters := [], Summary := []\<rparr> = u\<lparr>Parameters := [], Summary := []\<rparr> \<and>
       gm_equal (Parameters t) (Parameters u) \<and> gm_equal (Summary t) (Summary u)
   | _ \<Rightarrow> False)"

text \<open>The deletion timestamps are compared as pointers: those of two distinct objects are equal only
  when both are nil.\<close>

definition ptr_differs :: "time option \<Rightarrow> time option \<Rightarrow> bool" where
  "ptr_differs a b \<longleftrightarrow> a \<noteq> None \<or> b \<noteq> None"

definition OpCreateFunc :: "CruiseControlOperation \<Rightarrow> bool" where
  "OpCreateFunc obj \<longleftrightarrow> (\<not> IsDone obj \<or> \<not> time_IsZero (DeletionTimestamp (Meta obj))) \<and> CurrentTaskOperation obj \<noteq> OperationNone"

definition OpUpdateFunc :: "CruiseControlOperation \<Rightarrow> CruiseControlOperation \<Rightarrow> bool" where
  "OpUpdateFunc oldObj newObj \<longleftrightarrow>
     (if IsDone newObj \<and> time_IsZero (DeletionTimestamp (Meta newObj)) then False
      else \<not> task_DeepEqual (CurrentTask oldObj) (CurrentTask newObj) \<or>
           ptr_differs (DeletionTimestamp (Meta oldObj)) (DeletionTimestamp (Meta newObj)) \<or>
           IsPaused oldObj \<noteq> IsPaused newObj \<or> Generation (Meta oldObj) \<noteq> Generation (Meta newObj))"

section \<open>Events of the helpers\<close>

context event_property
begin

lemma steps_push_status: "push_status E olds is items tr = (e, items', tr') \<Longrightarrow> steps ok tr tr'"
proof (induction "is" arbitrary: items tr)
  case (Cons i "is")
  then show ?case
    by (auto split: if_splits prod.splits option.splits dest!: steps_Status_Update intro: steps_trans)
qed simp

lemma steps_updateCurrentTasks: "updateCurrentTasks E is items tr = (r, items', tr') \<Longrightarrow> steps ok tr tr'"
proof -
  assume a: "updateCurrentTasks E is items tr = (r, items', tr')"
  let ?ids = "filter (\<lambda>s. s \<noteq> []) (map (\<lambda>i. CurrentTaskID (items ! i)) is)"
  let ?tr = "tr @ [EvCC (ReqUserTasks ?ids False)]"
  have "tr' = ?tr \<or> (\<exists>items1 e items2. push_status E items is items1 ?tr = (e, items2, tr'))"
    using a by (auto simp: updateCurrentTasks_def UserTasks_def Let_def split: sum.splits go.splits prod.splits option.splits)
  moreover have "steps ok tr ?tr" by (simp add: ok_query)
  ultimately show ?thesis using steps_push_status steps_trans by blast
qed

lemma steps_createCCOperation: "createCCOperation E cluster ttl opn tr = (r, tr') \<Longrightarrow> steps ok tr tr'"
  by (auto simp: createCCOperation_def split: sum.splits prod.splits option.splits
      dest!: steps_Create steps_Status_Update intro: steps_trans)

lemma steps_conflict_retry: "steps ok (snd s) (snd (snd (conflict_retry E res s)))"
  by (cases s) (auto simp: conflict_retry_def Let_def ok_get split: go.splits prod.splits option.splits if_splits sum.splits
      dest!: steps_Status_Update intro: steps_trans)

lemma steps_retry:
  assumes "backoff_ok b" "RetryOnConflict b (conflict_retry E res) (op, tr) = (r, op', tr')"
  shows "steps ok tr tr'"
proof -
  have "steps ok tr (snd (snd (RetryOnConflict b (conflict_retry E res) (op, tr))))"
    by (rule RetryOnConflict_invariant [OF assms(1), where I = "\<lambda>s. steps ok tr (snd s)"])
      (use steps_trans steps_conflict_retry in \<open>blast, simp\<close>)
  then show ?thesis using assms(2) by simp
qed

lemma steps_refresh_status_op:
  assumes "refresh_status_op E i items tr = (r, items', tr')"
  shows "steps ok (tr @ [EvCC (ReqUserTasks [CurrentTaskID (items ! i)] True)]) tr'"
proof -
  obtain res e where st: "StatusTask (ccClient E tr) (CurrentTaskID (items ! i)) =
      ([ReqUserTasks [CurrentTaskID (items ! i)] True], res, e)"
    by (cases "StatusTask (ccClient E tr) (CurrentTaskID (items ! i))") (auto simp: StatusTask_def)
  show ?thesis
    using assms unfolding refresh_status_op_def st
    by (auto simp: Let_def split: option.splits go.splits prod.splits if_splits dest!: steps_Status_Update)
qed

lemma steps_ask_status:
  assumes "ask_status E cluster items tr = (r, items', tr')"
  shows "steps ok (tr @ [EvCC (ReqState True)]) tr'"
proof -
  obtain res e where st: "Scaler_Status (ccClient E tr) = ([ReqState True], res, e)"
    by (cases "Scaler_Status (ccClient E tr)") (auto simp: Scaler_Status_def)
  show ?thesis
    using assms unfolding ask_status_def st
    by (auto simp: Let_def split: sum.splits go.splits prod.splits option.splits
        dest!: steps_Status_Update steps_createCCOperation intro: steps_trans)
qed

lemma steps_getStatus:
  assumes "getStatus E cluster ref items tr = (r, items', tr')"
  shows "steps ok tr tr'"
proof -
  have q: "steps ok tr (tr @ [EvCC q])" if "\<not> executes q" for q using that by (simp add: ok_query)
  show ?thesis
  proof (cases "find_op (is_status_op ref) items")
    case None
    then have "steps ok (tr @ [EvCC (ReqState True)]) tr'" using assms steps_ask_status by (simp add: getStatus_def)
    then show ?thesis by (intro steps_trans [OF q]) simp_all
  next
    case (Some i)
    then have "steps ok (tr @ [EvCC (ReqUserTasks [CurrentTaskID (items ! i)] True)]) tr'"
      using assms steps_refresh_status_op by (simp add: getStatus_def)
    then show ?thesis by (intro steps_trans [OF q]) simp_all
  qed
qed

end

section \<open>Quiet steps\<close>

text \<open>A step is quiet when it only adds events that start or stop nothing in Cruise Control.\<close>

abbreviation quiet :: "trace \<Rightarrow> trace \<Rightarrow> bool" where
  "quiet \<equiv> steps (\<lambda>e. \<not> ev_executes e)"

interpretation quiet: event_property "\<lambda>e. \<not> ev_executes e"
  by unfold_locales simp_all

lemma quiet_iff: "quiet tr tr' \<longleftrightarrow> (\<exists>d. tr' = tr @ d \<and> executions d = [])"
  by (auto simp: steps_def executions_def filter_empty_conv)

lemma quiet_Update: "Update E ob tr = (e, ob', tr') \<Longrightarrow> quiet tr tr'"
  by (auto dest!: api_traces(1))

lemma quiet_addFinalizer: "addFinalizer E op tr = (e, op', tr') \<Longrightarrow> quiet tr tr'"
  by (auto simp: addFinalizer_def dest: quiet_Update split: if_splits)

lemma quiet_select: "selectOperationForExecution E m items tr = (r, items', tr') \<Longrightarrow> quiet tr tr'"
  by (auto simp: selectOperationForExecution_def select_retry_def Let_def
      split: option.splits if_splits prod.splits dest!: quiet_Update)

section \<open>Reported status\<close>

text \<open>What Cruise Control reports about itself in answer to an event after the trace \<open>p\<close>.\<close>

definition status_report :: "env \<Rightarrow> trace \<Rightarrow> event \<Rightarrow> CruiseControlStatus option" where
  "status_report E p e = (case e of
     EvCC (ReqState True) \<Rightarrow> (case ccState (ccClient E p) True of (resp, Some r, None) \<Rightarrow> Some (convert r) | _ \<Rightarrow> None)
   | EvCC (ReqUserTasks [i] True) \<Rightarrow> strStatus (fst (snd (StatusTask (ccClient E p) i)))
   | _ \<Rightarrow> None)"

definition reported :: "env \<Rightarrow> trace \<Rightarrow> trace \<Rightarrow> CruiseControlStatus \<Rightarrow> bool" where
  "reported E tr tr' s \<longleftrightarrow> (\<exists>p e q. tr' = tr @ p @ e # q \<and> executions (p @ e # q) = [] \<and> status_report E (tr @ p) e = Some s)"

lemma reportedI: "executions p = [] \<Longrightarrow> \<not> ev_executes e \<Longrightarrow> executions q = [] \<Longrightarrow> status_report E (tr @ p) e = Some s \<Longrightarrow>
    reported E tr (tr @ p @ e # q) s"
  by (auto simp: reported_def)

lemma reported_quiet:
  assumes "reported E tr tr' s" "quiet tr' tr''"
  shows "reported E tr tr'' s"
proof -
  from assms(1) obtain p e q where r: "tr' = tr @ p @ e # q" "executions (p @ e # q) = []" "status_report E (tr @ p) e = Some s"
    by (auto simp: reported_def)
  from assms(2) obtain d where d: "tr'' = tr' @ d" "executions d = []" by (auto simp: quiet_iff)
  show ?thesis
    using reportedI [of p e "q @ d"] r d by (auto split: if_splits)
qed

lemma quiet_reported:
  assumes "quiet tr tr'" "reported E tr' tr'' s"
  shows "reported E tr tr'' s"
proof -
  from assms(2) obtain p e q where r: "tr'' = tr' @ p @ e # q" "executions (p @ e # q) = []" "status_report E (tr' @ p) e = Some s"
    by (auto simp: reported_def)
  from assms(1) obtain d where d: "tr' = tr @ d" "executions d = []" by (auto simp: quiet_iff)
  show ?thesis
    using reportedI [of "d @ p" e q] r d by (auto split: if_splits)
qed

lemma reported_is_quiet: "reported E tr tr' s \<Longrightarrow> quiet tr tr'"
  unfolding reported_def quiet_iff by blast

lemma refresh_status_op_status:
  assumes "refresh_status_op E i items tr = (Ret s, items', tr')"
  shows "status_report E tr (EvCC (ReqUserTasks [CurrentTaskID (items ! i)] True)) = Some s"
proof -
  obtain reqs res e where st: "StatusTask (ccClient E tr) (CurrentTaskID (items ! i)) = (reqs, res, e)"
    by (cases "StatusTask (ccClient E tr) (CurrentTaskID (items ! i))")
  then show ?thesis
    using assms unfolding refresh_status_op_def
    by (auto simp: Let_def status_report_def split: option.splits go.splits prod.splits if_splits)
qed

lemma ask_status_status:
  assumes "ask_status E cluster items tr = (Ret s, items', tr')"
  shows "status_report E tr (EvCC (ReqState True)) = Some s"
proof -
  obtain resp sr e where c: "ccState (ccClient E tr) True = (resp, sr, e)" by (cases "ccState (ccClient E tr) True")
  show ?thesis
    using assms
    by (cases e; cases sr)
      (auto simp: ask_status_def Scaler_Status_def c Let_def status_report_def split: sum.splits go.splits prod.splits option.splits)
qed

lemma getStatus_reported:
  assumes "getStatus E cluster ref items tr = (Ret s, items', tr')"
  shows "reported E tr tr' s"
proof -
  have "\<exists>e. \<not> ev_executes e \<and> quiet (tr @ [e]) tr' \<and> status_report E tr e = Some s"
  proof (cases "find_op (is_status_op ref) items")
    case None
    then have "ask_status E cluster items tr = (Ret s, items', tr')" using assms by (simp add: getStatus_def)
    from quiet.steps_ask_status [OF this] ask_status_status [OF this] show ?thesis
      by (intro exI [of _ "EvCC (ReqState True)"]) simp
  next
    case (Some i)
    then have "refresh_status_op E i items tr = (Ret s, items', tr')" using assms by (simp add: getStatus_def)
    from quiet.steps_refresh_status_op [OF this] refresh_status_op_status [OF this] show ?thesis
      by (intro exI [of _ "EvCC (ReqUserTasks [CurrentTaskID (items ! i)] True)"]) simp
  qed
  then obtain e where e: "\<not> ev_executes e" "quiet (tr @ [e]) tr'" "status_report E tr e = Some s" by blast
  have "reported E tr (tr @ [e]) s" using reportedI [of "[]" e "[]" E tr s] e by simp
  then show ?thesis using e(2) by (rule reported_quiet)
qed

section \<open>Executions of a reconcile\<close>

text \<open>At most one request that starts or stops work, sent under the condition \<open>P\<close>.\<close>

definition one_execution :: "(cc_request \<Rightarrow> bool) \<Rightarrow> trace \<Rightarrow> trace \<Rightarrow> bool" where
  "one_execution P tr tr' \<longleftrightarrow> (\<exists>d. tr' = tr @ d \<and> (executions d = [] \<or> (\<exists>r. executions d = [EvCC r] \<and> P r)))"

lemma quiet_one: "quiet tr tr' \<Longrightarrow> one_execution P tr tr'"
  by (auto simp: quiet_iff one_execution_def)

lemma quiet_one_trans: "quiet a b \<Longrightarrow> one_execution P b c \<Longrightarrow> one_execution P a c"
  by (fastforce simp: quiet_iff one_execution_def)

lemma one_steps_trans: "one_execution P a b \<Longrightarrow> quiet b c \<Longrightarrow> one_execution P a c"
  by (fastforce simp: quiet_iff one_execution_def)

lemma one_execution_mono: "one_execution P a b \<Longrightarrow> (\<And>r. P r \<Longrightarrow> Q r) \<Longrightarrow> one_execution Q a b"
  by (fastforce simp: one_execution_def)

lemma stop_request: "sends_at_most_one (executeOperation E op tr)"
  by (auto simp: executeOperation_def Let_def params_ops_send stop_sends split: CruiseControlTaskOperation.split)

lemma stop_only_for_stop:
  "fst (executeOperation E op tr) = [ReqStop] \<longleftrightarrow> CurrentTaskOperation op = OperationStopExecution"
  by (auto simp: executeOperation_def Let_def AddBrokersWithParams_def RemoveBrokersWithParams_def RebalanceWithParams_def
      RemoveDisksWithParams_def StopExecution_def split: CruiseControlTaskOperation.splits sum.splits if_splits)

lemma execute_one:
  assumes "backoff_ok (backoffOp E)" "reconcile_execute E i items tr = (res, tr')"
  shows "one_execution (\<lambda>r. r = ReqStop \<longleftrightarrow> CurrentTaskOperation (items ! i) = OperationStopExecution) tr tr'"
proof -
  obtain reqs r e where x: "executeOperation E (items ! i) tr = (reqs, r, e)" by (cases "executeOperation E (items ! i) tr")
  have "reqs = [] \<or> (\<exists>q. reqs = [q] \<and> executes q)"
    using stop_request [of E "items ! i" tr] x by (auto simp: sends_at_most_one_def)
  then have one: "one_execution (\<lambda>r. r = ReqStop \<longleftrightarrow> CurrentTaskOperation (items ! i) = OperationStopExecution) tr (tr @ map EvCC reqs)"
    using stop_only_for_stop [of E "items ! i" tr] x by (fastforce simp: one_execution_def)
  have "quiet (tr @ map EvCC reqs) tr'"
    using assms(2) x quiet.steps_retry [OF assms(1), of E r "items ! i" "tr @ map EvCC reqs"]
    by (auto simp: reconcile_execute_def Let_def split: option.splits go.splits prod.splits)
  then show ?thesis using one one_steps_trans by blast
qed

lemma queues_one:
  assumes "backoff_ok (backoffOp E)" "reconcile_queues E status is items tr = (res, tr')"
  shows "one_execution (\<lambda>r. r \<noteq> ReqStop \<longrightarrow>
      \<not> InExecution status \<and> queue (sortOperations E items is) ccOperationInProgress = []) tr tr'"
proof -
  let ?m = "sortOperations E items is"
  obtain r items1 tr1 where sel: "selectOperationForExecution E ?m items tr = (r, items1, tr1)"
    by (cases "selectOperationForExecution E ?m items tr") auto
  note q = quiet_select [OF sel]
  show ?thesis
  proof (cases "\<exists>i. r = Ret (Some i) \<and> (res, tr') = reconcile_execute E i items1 tr1")
    case False
    then have "tr' = tr \<or> tr' = tr1"
      using assms(2) sel by (auto simp: reconcile_queues_def Let_def split: if_splits go.splits option.splits)
    then show ?thesis using q quiet_one by blast
  next
    case True
    then obtain i where i: "r = Ret (Some i)" "reconcile_execute E i items1 tr1 = (res, tr')" by auto
    note one = quiet_one_trans [OF q execute_one [OF assms(1) i(2)]]
    show ?thesis
    proof (cases "CurrentTaskOperation (items1 ! i) \<noteq> OperationStopExecution \<and>
        (InExecution status \<or> queue ?m ccOperationInProgress \<noteq> [])")
      case True
      then have "tr' = tr \<or> tr' = tr1"
        using assms(2) sel i(1) by (auto simp: reconcile_queues_def Let_def split: if_splits)
      then show ?thesis using q quiet_one by blast
    next
      case False
      then show ?thesis by (intro one_execution_mono [OF one]) auto
    qed
  qed
qed

lemma tasks_one:
  assumes "backoff_ok (backoffOp E)" "reconcile_tasks E status ref c items tr = (res, tr')"
  shows "one_execution (\<lambda>r. r \<noteq> ReqStop \<longrightarrow> \<not> InExecution status) tr tr'"
proof -
  let ?is = "filter (\<lambda>i. selected_for ref (items ! i)) [0..<length items]"
  obtain r items1 tr1 where u: "updateCurrentTasks E ?is items tr = (r, items1, tr1)"
    by (cases "updateCurrentTasks E ?is items tr") auto
  note q = quiet.steps_updateCurrentTasks [OF u]
  show ?thesis
  proof (cases "reconcile_queues E status ?is items1 tr1 = (res, tr')")
    case True
    show ?thesis
      using quiet_one_trans [OF q queues_one [OF assms(1) True]] by (rule one_execution_mono) simp
  next
    case False
    then have "quiet tr1 tr'"
      using assms(2) u by (auto simp: reconcile_tasks_def Let_def split: go.splits if_splits option.splits prod.splits dest: quiet_Update)
    then show ?thesis using steps_trans [OF q] quiet_one by blast
  qed
qed

definition ready_execution :: "env \<Rightarrow> trace \<Rightarrow> trace \<Rightarrow> bool" where
  "ready_execution E tr tr' \<longleftrightarrow> quiet tr tr' \<or>
     (\<exists>s tr1. reported E tr tr1 s \<and> Status_IsReady s \<and> one_execution (\<lambda>r. r \<noteq> ReqStop \<longrightarrow> \<not> InExecution s) tr1 tr')"

lemma ready_after_quiet: "quiet tr tr1 \<Longrightarrow> ready_execution E tr1 tr' \<Longrightarrow> ready_execution E tr tr'"
  unfolding ready_execution_def using steps_trans quiet_reported by blast

lemma status_ready:
  assumes "backoff_ok (backoffOp E)" "reconcile_status E cluster ref c items tr = (res, tr')"
  shows "ready_execution E tr tr'"
proof -
  obtain e op tr1 where f: "addFinalizer E (items ! c) tr = (e, op, tr1)" by (cases "addFinalizer E (items ! c) tr") auto
  let ?tr2 = "tr1 @ [EvScaleFactory]"
  obtain r items1 tr3 where g: "getStatus E cluster ref (items[c := op]) ?tr2 = (r, items1, tr3)"
    by (cases "getStatus E cluster ref (items[c := op]) ?tr2") auto
  have q1: "quiet tr tr1" using quiet_addFinalizer [OF f] .
  then have q2: "quiet tr ?tr2" by (rule steps_trans) simp
  have q3: "quiet tr tr3" using q2 quiet.steps_getStatus [OF g] steps_trans by blast
  show ?thesis
  proof (cases "\<exists>s. r = Ret s \<and> Status_IsReady s \<and> reconcile_tasks E s ref c items1 tr3 = (res, tr')")
    case True
    then obtain s where s: "r = Ret s" "Status_IsReady s" "reconcile_tasks E s ref c items1 tr3 = (res, tr')" by blast
    have "reported E tr tr3 s" using quiet_reported [OF q2] getStatus_reported g s(1) by blast
    then show ?thesis using s tasks_one [OF assms(1) s(3)] by (auto simp: ready_execution_def)
  next
    case False
    then have "tr' = tr1 \<or> tr' = ?tr2 \<or> tr' = tr3"
      using assms(2) f g by (auto simp: reconcile_status_def Let_def split: option.splits go.splits if_splits)
    then show ?thesis using q1 q2 q3 by (auto simp: ready_execution_def)
  qed
qed

lemma current_ready:
  assumes "backoff_ok (backoffOp E)" "reconcile_current E c items tr = (res, tr')"
  shows "ready_execution E tr tr'"
proof -
  obtain ref e where k: "kafkaClusterReference (items ! c) = (ref, e)" by (cases "kafkaClusterReference (items ! c)") auto
  let ?tr1 = "tr @ [EvGetCluster (fst ref) (snd ref)]"
  have q: "quiet tr ?tr1" by simp
  show ?thesis
  proof (cases "\<exists>cluster. reconcile_status E cluster ref c items ?tr1 = (res, tr')")
    case True
    then show ?thesis using status_ready [OF assms(1)] ready_after_quiet [OF q] by blast
  next
    case False
    then have "quiet tr tr'"
      using assms(2) k
      by (auto simp: reconcile_current_def Let_def split: if_splits option.splits sum.splits prod.splits
          dest!: quiet_Update intro: steps_trans [OF q])
    then show ?thesis by (simp add: ready_execution_def)
  qed
qed

lemma reconcile_ready:
  assumes "backoff_ok (backoffOp E)" "Reconcile E name ns tr = (res, tr')"
  shows "ready_execution E tr tr'"
proof -
  have q: "quiet tr (tr @ [EvListOps ns])" by simp
  show ?thesis
  proof (cases "\<exists>c items. reconcile_current E c items (tr @ [EvListOps ns]) = (res, tr')")
    case True
    then show ?thesis using current_ready [OF assms(1)] ready_after_quiet [OF q] by blast
  next
    case False
    then have "tr' = tr @ [EvListOps ns]"
      using assms(2) by (auto simp: Reconcile_def Let_def split: sum.splits option.splits)
    then show ?thesis by (simp add: ready_execution_def)
  qed
qed

section \<open>A sample environment\<close>

text \<open>One cluster, the given operations, an idle Cruise Control and an API that accepts every write.\<close>

definition sample_kafka :: KafkaCluster where
  "sample_kafka = zero_KafkaCluster\<lparr>kcName := ''kafka'', kcNamespace := ''ns'', kcGeneration := 1,
     kcSpec := zero_KafkaClusterSpec\<lparr>HeadlessServiceEnabled := True, specRollingUpgradeConfig := \<lparr>FailureThreshold = 1, ConcurrentBrokerRestartCountPerRack = 1\<rparr>\<rparr>,
     ClusterState := ''ClusterRunning''\<rparr>"

definition sample_env :: "ops \<Rightarrow> env" where
  "sample_env items = \<lparr>listOps = (\<lambda>tr ns. Inr items), listOwned = (\<lambda>tr ns n. Inr items),
     getCluster = (\<lambda>tr n ns. Inr sample_kafka), getOp = (\<lambda>tr n ns. Inl ApiNotFound),
     updateOp = (\<lambda>tr op. Inr op), updateStatusOp = (\<lambda>tr op. Inr op), createOp = (\<lambda>tr op. Inr op), deleteOp = (\<lambda>tr op. None),
     updateStatusCluster = (\<lambda>tr c. Inr c), setControllerReference = (\<lambda>c op. Inr op), scaleFactory = (\<lambda>tr c. None),
     ccClient = (\<lambda>tr. idle_client), now = (\<lambda>tr. 0),
     ContainsFinalizer = std_contains, AddFinalizer = std_add, RemoveFinalizer = std_remove,
     parseRFC1123 = (\<lambda>s. if s = [] then Inl (NewErr ''cannot parse'') else Inr 0),
     backoffOp = run_steps BackoffSteps, backoffCluster = run_steps BackoffSteps\<rparr>"

definition sample_op :: "string \<Rightarrow> CruiseControlTaskOperation \<Rightarrow> time \<Rightarrow> CruiseControlOperation" where
  "sample_op n opn created = set_current_task (new_task opn)
     (let op = new_op sample_kafka opn ErrorPolicyRetry None
      in op\<lparr>Meta := (Meta op)\<lparr>Name := n, CreationTimestamp := created\<rparr>\<rparr>)"

lemma backoff_ok_run_steps: "backoff_ok (run_steps BackoffSteps)"
  by (auto simp: backoff_ok_def BackoffSteps_def intro: exI [of _ 6])

lemma sample_backoff: "backoff_ok (backoffOp (sample_env items))" "backoff_ok (backoffCluster (sample_env items))"
  by (simp_all add: sample_env_def backoff_ok_run_steps)

section \<open>Properties\<close>

text \<open>(C1) One reconcile sends at most one request that starts or stops work in Cruise Control, and only
  after Cruise Control reported, in the same reconcile, that it is ready; a request other than
  \<open>stop_proposal_execution\<close> is only sent when that report also said that nothing is being executed.\<close>

theorem reconcile_executes_at_most_once:
  assumes "backoff_ok (backoffOp E)"
  shows "\<exists>new. snd (Reconcile E name ns tr) = tr @ new \<and> length (executions new) \<le> 1 \<and>
    (\<forall>r. EvCC r \<in> set (executions new) \<longrightarrow>
       (\<exists>p e q s. new = p @ e # q \<and> EvCC r \<in> set q \<and> status_report E (tr @ p) e = Some s \<and>
          Status_IsReady s \<and> (r \<noteq> ReqStop \<longrightarrow> \<not> InExecution s)))"
proof -
  obtain res tr' where R: "Reconcile E name ns tr = (res, tr')" by (cases "Reconcile E name ns tr")
  from reconcile_ready [OF assms R] consider "quiet tr tr'"
    | s tr1 where "reported E tr tr1 s" "Status_IsReady s" "one_execution (\<lambda>r. r \<noteq> ReqStop \<longrightarrow> \<not> InExecution s) tr1 tr'"
    by (auto simp: ready_execution_def)
  then show ?thesis
  proof cases
    case 1
    then obtain d where d: "tr' = tr @ d" "executions d = []" by (auto simp: quiet_iff)
    have "\<forall>r. EvCC r \<in> set (executions d) \<longrightarrow> Q r" for Q using d(2) by simp
    then show ?thesis using d R by (intro exI [of _ d]) (auto simp del: executions_Cons)
  next
    case 2
    obtain p e q where r: "tr1 = tr @ p @ e # q" "executions (p @ e # q) = []" "status_report E (tr @ p) e = Some s"
      using 2(1) by (auto simp: reported_def)
    obtain d where d: "tr' = tr1 @ d" "executions d = [] \<or> (\<exists>r. executions d = [EvCC r] \<and> (r \<noteq> ReqStop \<longrightarrow> \<not> InExecution s))"
      using 2(3) by (auto simp: one_execution_def)
    have ex: "executions (p @ e # q @ d) = executions d" using r(2) by (auto split: if_splits)
    have in_d: "EvCC r' \<in> set (q @ d)" if "EvCC r' \<in> set (executions d)" for r' using that by (auto simp: executions_def)
    have "\<forall>r'. EvCC r' \<in> set (executions (p @ e # q @ d)) \<longrightarrow>
       (\<exists>p' e' q' s. p @ e # q @ d = p' @ e' # q' \<and> EvCC r' \<in> set q' \<and> status_report E (tr @ p') e' = Some s \<and>
          Status_IsReady s \<and> (r' \<noteq> ReqStop \<longrightarrow> \<not> InExecution s))"
      unfolding ex using in_d r(3) 2(2) d(2) by (intro allI impI exI [of _ p] exI [of _ e] exI [of _ "q @ d"] exI [of _ s]) auto
    moreover have "length (executions (p @ e # q @ d)) \<le> 1" unfolding ex using d(2) by auto
    moreover have "snd (Reconcile E name ns tr) = tr @ p @ e # q @ d" using R r(1) d(1) by simp
    ultimately show ?thesis by blast
  qed
qed

theorem reconcile_executes_at_most_once_witness:
  "(\<exists>new. snd (Reconcile (sample_env [sample_op ''op'' OperationAddBroker 0]) ''op'' ''ns'' []) = [] @ new \<and> length (executions new) \<le> 1) \<and>
   executions (snd (Reconcile (sample_env [sample_op ''op'' OperationAddBroker 0]) ''op'' ''ns'' [])) =
     [EvCC (ReqAddBroker \<lparr>abAllowCapacityEstimation = True, abBrokerIDs = [], abDataFrom = ProposalDataSourceValidWindows,
        abUseReadyDefaultGoals = True, abExcludeRecentlyDemotedBrokers = False, abExcludeRecentlyRemovedBrokers = False\<rparr>)]"
proof
  show "\<exists>new. snd (Reconcile (sample_env [sample_op ''op'' OperationAddBroker 0]) ''op'' ''ns'' []) = [] @ new \<and> length (executions new) \<le> 1"
    using reconcile_executes_at_most_once [OF sample_backoff(1)] by blast
  show "executions (snd (Reconcile (sample_env [sample_op ''op'' OperationAddBroker 0]) ''op'' ''ns'' [])) =
     [EvCC (ReqAddBroker \<lparr>abAllowCapacityEstimation = True, abBrokerIDs = [], abDataFrom = ProposalDataSourceValidWindows,
        abUseReadyDefaultGoals = True, abExcludeRecentlyDemotedBrokers = False, abExcludeRecentlyRemovedBrokers = False\<rparr>)]"
    by code_simp
qed

end
