(* ===== verification/CCSelection.thy ===== *)
theory CCSelection
  imports CCOperationCtl
begin

text \<open>
  Which operation the operation controller executes next, and what a recorded result does to the
  operation: the properties of \<open>sortOperations\<close>, \<open>selectOperationForExecution\<close>, \<open>updateResult\<close> and
  \<open>updateCurrentTasks\<close>.
\<close>

section \<open>Selection\<close>

text \<open>The operations of a class and the best of them: highest priority, then oldest.\<close>

definition class_of :: "env \<Rightarrow> ops \<Rightarrow> nat list \<Rightarrow> queue_key \<Rightarrow> nat set" where
  "class_of E items is k = {i \<in> set is. classify E (items ! i) = Some k}"

definition best :: "ops \<Rightarrow> nat set \<Rightarrow> nat \<Rightarrow> bool" where
  "best items S i \<longleftrightarrow> i \<in> S \<and> (\<forall>j \<in> S.
     let prio = \<lambda>k. executionPriorityMap (CurrentTaskOperation (items ! k)); created = \<lambda>k. Unix (CreationTimestamp (Meta (items ! k))) in
     prio j < prio i \<or> prio j = prio i \<and> created i \<le> created j)"

lemma queue_enqueue:
  "queue (enqueue E items i m) k = (if classify E (items ! i) = Some k then queue m k @ [i] else queue m k)"
  by (auto simp: enqueue_def queue_def gm_get_update split: option.split)

lemma queue_fold: "queue (fold (enqueue E items) is m) k = queue m k @ filter (\<lambda>i. classify E (items ! i) = Some k) is"
  by (induction "is" arbitrary: m) (simp_all add: queue_enqueue)

lemma queue_map: "f [] = [] \<Longrightarrow> queue (map (\<lambda>(k, q). (k, f q)) m) k = f (queue m k)"
  by (induction m) (auto simp: queue_def)

lemma queue_sortOperations:
  "queue (sortOperations E items is) k = sort_key (sort_pos items) (filter (\<lambda>i. classify E (items ! i) = Some k) is)"
proof -
  have "queue (fold (enqueue E items) is []) k = filter (\<lambda>i. classify E (items ! i) = Some k) is"
    using queue_fold [of E items "is" "[]" k] by (simp add: queue_def)
  then show ?thesis unfolding sortOperations_def by (subst queue_map) simp_all
qed

lemma set_queue: "set (queue (sortOperations E items is) k) = class_of E items is k"
  by (auto simp: queue_sortOperations class_of_def)

lemma first_is_best:
  assumes "getFirstOperation (sortOperations E items is) k = Some i"
  shows "best items (class_of E items is k) i"
proof -
  let ?q = "queue (sortOperations E items is) k"
  from assms obtain q where q: "?q = i # q" by (auto simp: getFirstOperation_def split: list.splits)
  have "sorted (map (sort_pos items) ?q)" by (simp add: queue_sortOperations)
  then have "\<forall>j \<in> set ?q. sort_pos items i \<le> sort_pos items j" using q by auto
  then show ?thesis using q set_queue [of E items "is" k] by (fastforce simp: best_def sort_pos_def less_eq_prod_def Let_def)
qed

lemma first_None: "getFirstOperation (sortOperations E items is) k = None \<longleftrightarrow> class_of E items is k = {}"
  using set_queue [of E items "is" k] by (auto simp: getFirstOperation_def split: list.splits)

lemma best_not_add:
  assumes "best items S i" "CurrentTaskOperation (items ! i) \<noteq> OperationAddBroker" "j \<in> S"
  shows "CurrentTaskOperation (items ! j) \<noteq> OperationAddBroker"
proof
  assume j: "CurrentTaskOperation (items ! j) = OperationAddBroker"
  have "executionPriorityMap o' < 3" if "o' \<noteq> OperationAddBroker" for o' using that by (cases o') auto
  moreover have "executionPriorityMap (CurrentTaskOperation (items ! j)) \<le> executionPriorityMap (CurrentTaskOperation (items ! i))"
    using assms(1,3) by (auto simp: best_def Let_def)
  ultimately show False using j assms(2) by fastforce
qed

text \<open>The rule by which the next operation is chosen.\<close>

definition selection :: "env \<Rightarrow> ops \<Rightarrow> nat list \<Rightarrow> trace \<Rightarrow> nat \<Rightarrow> ops \<Rightarrow> trace \<Rightarrow> bool" where
  "selection E items is tr i items' tr' \<longleftrightarrow>
     (let C = class_of E items is in
      (best items (C ccOperationForStopExecution) i \<and> CurrentTaskOperation (items' ! i) = OperationStopExecution \<and> tr' = tr) \<or>
      (C ccOperationForStopExecution = {} \<and>
        (best items (C ccOperationFirstExecution) i \<and> items' = items \<and> tr' = tr \<and>
           (CurrentTaskOperation (items ! i) = OperationAddBroker \<or>
            C ccOperationRetryExecution = {} \<or>
            (\<exists>r. best items (C ccOperationRetryExecution) r \<and> \<not> IsReadyForRetryExecution (now E tr) (items ! r))) \<or>
         (\<forall>j \<in> C ccOperationFirstExecution. CurrentTaskOperation (items ! j) \<noteq> OperationAddBroker) \<and>
           (best items (C ccOperationRetryExecution) i \<and> IsReadyForRetryExecution (now E tr) (items ! i) \<and> items' = items \<and> tr' = tr \<or>
            i \<in> C ccOperationFirstExecution \<and> CurrentTaskOperation (items ! i) = OperationRebalance \<and>
            (\<exists>r labels. best items (C ccOperationRetryExecution) r \<and> CurrentTaskOperation (items ! r) = OperationRemoveDisks \<and>
               Labels (Meta (items ! r)) = Some labels \<and> tr' = tr @ [EvUpdate (pause_op labels (items ! r))])))))"

lemma select_retry_selection:
  assumes sel: "select_retry E (sortOperations E items is) r items tr = (Ret (Some i), items', tr')"
    and stop: "class_of E items is ccOperationForStopExecution = {}"
    and noadd: "\<forall>j \<in> class_of E items is ccOperationFirstExecution. CurrentTaskOperation (items ! j) \<noteq> OperationAddBroker"
    and best: "best items (class_of E items is ccOperationRetryExecution) r"
  shows "selection E items is tr i items' tr'"
proof -
  let ?m = "sortOperations E items is"
  let ?find = "find (\<lambda>j. CurrentTaskOperation (items ! j) = OperationRebalance) (queue ?m ccOperationFirstExecution)"
  consider "(if IsReadyForRetryExecution (now E tr) (items ! r) then Some r
             else getFirstOperation ?m ccOperationFirstExecution) = Some i" "items' = items" "tr' = tr"
    | labels where "CurrentTaskOperation (items ! r) = OperationRemoveDisks" "?find = Some i"
      "Labels (Meta (items ! r)) = Some labels" "tr' = tr @ [EvUpdate (pause_op labels (items ! r))]"
  proof (cases "CurrentTaskOperation (items ! r) = OperationRemoveDisks \<and> ?find \<noteq> None")
    case True
    then obtain j where j: "CurrentTaskOperation (items ! r) = OperationRemoveDisks" "?find = Some j" by blast
    with sel obtain labels where l: "Labels (Meta (items ! r)) = Some labels"
      by (cases "Labels (Meta (items ! r))") (simp_all add: select_retry_def Let_def)
    obtain e op tr2 where u: "Update E (pause_op labels (items ! r)) tr = (e, op, tr2)"
      by (cases "Update E (pause_op labels (items ! r)) tr") auto
    with sel j l have "i = j" "tr' = tr2" by (cases e; simp add: select_retry_def Let_def)+
    then show thesis using that(2) j l api_traces(1) [OF u] by simp
  next
    case False
    then have "select_retry E ?m r items tr =
        (Ret (if IsReadyForRetryExecution (now E tr) (items ! r) then Some r else getFirstOperation ?m ccOperationFirstExecution), items, tr)"
      by (auto simp: select_retry_def Let_def)
    then show thesis using that(1) sel by simp
  qed
  then show ?thesis
  proof cases
    case 1
    then show ?thesis using stop noadd best first_is_best [of E items "is" ccOperationFirstExecution i]
      by (auto simp: selection_def Let_def split: if_splits)
  next
    case 2
    then have "i \<in> class_of E items is ccOperationFirstExecution" "CurrentTaskOperation (items ! i) = OperationRebalance"
      using set_queue [of E items "is" ccOperationFirstExecution] by (auto simp: find_Some_iff)
    then show ?thesis using stop noadd best 2(1,3,4) unfolding selection_def Let_def by blast
  qed
qed

lemma selection_listed: "selection E items is tr i items' tr' \<Longrightarrow> i \<in> set is"
  by (auto simp: selection_def Let_def best_def class_of_def)

lemma select_Some:
  assumes sel: "selectOperationForExecution E (sortOperations E items is) items tr = (Ret (Some i), items', tr')"
    and len: "\<forall>i \<in> set is. i < length items"
  shows "selection E items is tr i items' tr'"
proof (cases "getFirstOperation (sortOperations E items is) ccOperationForStopExecution")
  case (Some s)
  have b: "best items (class_of E items is ccOperationForStopExecution) s" by (rule first_is_best [OF Some])
  then have l: "s < length items" using len by (auto simp: best_def class_of_def)
  from sel Some have c: "CurrentTask (items ! s) \<noteq> None" "i = s"
    "items' = items[s := upd_task (\<lambda>t. t\<lparr>Operation := OperationStopExecution\<rparr>) (items ! s)]" "tr' = tr"
    by (auto simp: selectOperationForExecution_def split: if_splits)
  have "CurrentTaskOperation (items' ! i) = OperationStopExecution" using c l by (auto simp: CurrentTaskOperation_def)
  then show ?thesis using b c unfolding selection_def Let_def by blast
next
  case stop: None
  then have empty: "class_of E items is ccOperationForStopExecution = {}" using first_None by simp
  show ?thesis
  proof (cases "getFirstOperation (sortOperations E items is) ccOperationRetryExecution")
    case retry: None
    then have e: "class_of E items is ccOperationRetryExecution = {}" using first_None by simp
    have "getFirstOperation (sortOperations E items is) ccOperationFirstExecution = Some i" "items' = items" "tr' = tr"
      using sel stop retry by (auto simp: selectOperationForExecution_def split: option.splits if_splits)
    then show ?thesis using empty e first_is_best unfolding selection_def Let_def by blast
  next
    case retry: (Some r)
    show ?thesis
    proof (cases "\<exists>f. getFirstOperation (sortOperations E items is) ccOperationFirstExecution = Some f \<and>
        CurrentTaskOperation (items ! f) = OperationAddBroker")
      case True
      then have "getFirstOperation (sortOperations E items is) ccOperationFirstExecution = Some i" "items' = items" "tr' = tr"
        "CurrentTaskOperation (items ! i) = OperationAddBroker"
        using sel stop by (auto simp: selectOperationForExecution_def)
      then show ?thesis using empty first_is_best unfolding selection_def Let_def by blast
    next
      case False
      have "select_retry E (sortOperations E items is) r items tr = (Ret (Some i), items', tr')"
        using sel stop retry False by (auto simp: selectOperationForExecution_def split: option.splits)
      moreover have "\<forall>j \<in> class_of E items is ccOperationFirstExecution. CurrentTaskOperation (items ! j) \<noteq> OperationAddBroker"
        using False first_is_best [of E items "is" ccOperationFirstExecution] first_None [of E items "is" ccOperationFirstExecution]
          best_not_add by (metis empty_iff not_Some_eq)
      ultimately show ?thesis using select_retry_selection empty first_is_best [OF retry] by blast
    qed
  qed
qed


definition sample_items :: ops where
  "sample_items = [sample_op ''a'' OperationRebalance 0, sample_op ''b'' OperationAddBroker 7]"

lemma sample_selected:
  "selectOperationForExecution (sample_env sample_items) (sortOperations (sample_env sample_items) sample_items [0, 1]) sample_items []
     = (Ret (Some 1), sample_items, [])"
  by code_simp


section \<open>Recording results\<close>

text \<open>The bounded history of failed tasks and the retry counter agree: every failure that is recorded
  is counted, and the last fifty of them are kept.\<close>

definition history_ok :: "CruiseControlOperation \<Rightarrow> bool" where
  "history_ok op \<longleftrightarrow> 0 \<le> RetryCount (Status op) \<and> int (length (FailedTasks (Status op))) = min (RetryCount (Status op)) 50"

definition result_for :: "Result option \<Rightarrow> CruiseControlOperation \<Rightarrow> Result" where
  "result_for result op = (case result of Some r \<Rightarrow> r | None \<Rightarrow> missing_result op)"

definition completed :: "CruiseControlUserTaskState \<Rightarrow> bool" where
  "completed s \<longleftrightarrow> s = CruiseControlTaskCompleted \<or> s = CruiseControlTaskCompletedWithError"

definition retried :: "bool \<Rightarrow> Result \<Rightarrow> CruiseControlTask \<Rightarrow> bool" where
  "retried after r t \<longleftrightarrow> after \<and> State t = CruiseControlTaskCompletedWithError \<and> (Finished t \<noteq> None \<or> completed (resState r))"

lemma after_execution_Inr:
  "after_execution E res t = Inr t' \<Longrightarrow> ID t' = TaskID res \<and> Started t' \<noteq> None \<and> Finished t' = Finished t \<and>
     Operation t' = Operation t \<and> Parameters t' = Parameters t \<and> (Started t \<noteq> None \<longrightarrow> Started t' = Started t)"
  by (auto simp: after_execution_def split: option.splits sum.splits)

lemma after_execution_Started: "Started t \<noteq> None \<Longrightarrow> \<exists>t'. after_execution E res t = Inr t'"
  by (auto simp: after_execution_def split: option.splits)

lemma record_failure_keep:
  "length failed \<le> 50 \<Longrightarrow> record_failure failed t = drop (Suc (length failed) - 50) (failed @ [t])"
  by (auto simp: record_failure_def defaultFailedTasksHistoryMaxLength_def)

lemma record_failure_length: "length failed \<le> 50 \<Longrightarrow> length (record_failure failed t) = min (Suc (length failed)) 50"
  by (auto simp: record_failure_def defaultFailedTasksHistoryMaxLength_def)

lemma SetDefaults_simps [simp]:
  "Finished (SetDefaults t) = None" "Started (SetDefaults t) = None" "Operation (SetDefaults t) = Operation t"
  "Parameters (SetDefaults t) = Parameters t" "ID (SetDefaults t) = []" "State (SetDefaults t) = UserTaskNone"
  by (simp_all add: SetDefaults_def)

lemma updateResult_cases:
  assumes "updateResult E tr result op after = Ret op'" "CurrentTask op = Some t"
  defines "r \<equiv> result_for result op"
  defines "t1 \<equiv> (if completed (resState r) \<and> Finished t = None then t\<lparr>Finished := Some (now E tr)\<rparr> else t)"
  defines "t2 \<equiv> (if retried after r t then SetDefaults t1 else t1)"
  shows "\<exists>t3. (if after then after_execution E r t2 = Inr t3 else t3 = t2) \<and>
    op' = op\<lparr>Status := (Status op)\<lparr>StatusErrorPolicy := ErrorPolicy (Spec op), StatusCurrentTask := Some (t3\<lparr>State := resState r\<rparr>),
       FailedTasks := (if retried after r t then record_failure (FailedTasks (Status op)) t1 else FailedTasks (Status op)),
       RetryCount := RetryCount (Status op) + (if retried after r t then 1 else 0)\<rparr>\<rparr>"
proof -
  have ret: "(after \<and> Finished t1 \<noteq> None \<and> State t1 = CruiseControlTaskCompletedWithError) = retried after r t"
    by (auto simp: retried_def t1_def)
  have t1: "(if (resState r = CruiseControlTaskCompleted \<or> resState r = CruiseControlTaskCompletedWithError) \<and> Finished t = None
      then t\<lparr>Finished := Some (now E tr)\<rparr> else t) = t1"
    by (simp add: t1_def completed_def)
  have r: "(case result of None \<Rightarrow> missing_result op | Some r \<Rightarrow> r) = r" by (simp add: r_def result_for_def)
  show ?thesis
    using assms(1) unfolding updateResult_def Let_def r assms(2) option.case t1 ret
    by (auto simp: t2_def split: sum.splits if_splits)
qed

lemma updateResult_refresh_cases:
  assumes "updateResult E tr result op False = Ret op'" "CurrentTask op = Some t"
  shows "\<exists>t'. CurrentTask op' = Some t' \<and> State t' = resState (result_for result op) \<and> ID t' = ID t \<and>
    Operation t' = Operation t \<and> Parameters t' = Parameters t \<and> Started t' = Started t \<and>
    Finished t' = (if completed (resState (result_for result op)) \<and> Finished t = None then Some (now E tr) else Finished t) \<and>
    Meta op' = Meta op \<and> Spec op' = Spec op \<and> FailedTasks (Status op') = FailedTasks (Status op) \<and>
    RetryCount (Status op') = RetryCount (Status op)"
  using updateResult_cases [OF assms] by (auto simp: retried_def CurrentTask_def)

text \<open>Recording a result. The state of the task becomes the reported one (a task that Cruise Control
  no longer knows has completed with an error) and the finishing time is set when the task ends; after
  an execution the task carries the identifier of the new Cruise Control task, and a failed previous
  attempt is moved to the history, which keeps the last fifty and agrees with the retry counter. The
  metadata, the specification, the kind of the task and its parameters are not touched.\<close>

theorem update_result_correct:
  assumes "updateResult E tr result op after = Ret op'" "CurrentTask op = Some t" "history_ok op"
  shows "Meta op' = Meta op \<and> Spec op' = Spec op \<and> history_ok op' \<and>
    RetryCount (Status op') = RetryCount (Status op) + (if retried after (result_for result op) t then 1 else 0) \<and>
    (\<exists>t'. CurrentTask op' = Some t' \<and> Operation t' = Operation t \<and> Parameters t' = Parameters t \<and>
       State t' = resState (result_for result op) \<and>
       (after \<longrightarrow> ID t' = TaskID (result_for result op) \<and> Started t' \<noteq> None) \<and>
       (\<not> after \<longrightarrow> ID t' = ID t \<and> Started t' = Started t) \<and>
       (completed (State t') \<and> \<not> retried after (result_for result op) t \<longrightarrow> Finished t' \<noteq> None))"
proof -
  let ?r = "result_for result op"
  let ?t1 = "if completed (resState ?r) \<and> Finished t = None then t\<lparr>Finished := Some (now E tr)\<rparr> else t"
  let ?t2 = "if retried after ?r t then SetDefaults ?t1 else ?t1"
  from updateResult_cases [OF assms(1,2)] obtain t3 where
    t3: "if after then after_execution E ?r ?t2 = Inr t3 else t3 = ?t2" and
    op': "op' = op\<lparr>Status := (Status op)\<lparr>StatusErrorPolicy := ErrorPolicy (Spec op), StatusCurrentTask := Some (t3\<lparr>State := resState ?r\<rparr>),
       FailedTasks := (if retried after ?r t then record_failure (FailedTasks (Status op)) ?t1 else FailedTasks (Status op)),
       RetryCount := RetryCount (Status op) + (if retried after ?r t then 1 else 0)\<rparr>\<rparr>" by blast
  have keep: "Operation t3 = Operation t \<and> Parameters t3 = Parameters t \<and> Finished t3 = Finished ?t2 \<and>
      (if after then ID t3 = TaskID ?r \<and> Started t3 \<noteq> None else t3 = ?t2)"
    using t3 after_execution_Inr [of E ?r ?t2 t3] by (auto split: if_splits)
  have "length (FailedTasks (Status op)) \<le> 50" using assms(3) by (auto simp: history_ok_def)
  then have "history_ok op'"
    using assms(3) record_failure_length [of "FailedTasks (Status op)" ?t1] op' by (auto simp: history_ok_def)
  moreover have "\<not> after \<Longrightarrow> \<not> retried after ?r t" by (simp add: retried_def)
  ultimately show ?thesis using keep op' by (auto simp: CurrentTask_def)
qed

theorem update_result_correct_witness:
  "\<exists>op'. updateResult (sample_env []) [] (Some (zero_Result\<lparr>TaskID := ''t'', StartedAt := ''now'', resState := CruiseControlTaskActive\<rparr>))
      (sample_op ''a'' OperationRebalance 0) True = Ret op' \<and> history_ok op' \<and> RetryCount (Status op') = 0"
proof -
  let ?res = "Some (zero_Result\<lparr>TaskID := ''t'', StartedAt := ''now'', resState := CruiseControlTaskActive\<rparr>)"
  let ?op = "sample_op ''a'' OperationRebalance 0"
  have t: "CurrentTask ?op = Some (new_task OperationRebalance)"
    by (simp add: sample_op_def set_current_task_def CurrentTask_def)
  have h: "history_ok ?op"
    by (simp add: sample_op_def set_current_task_def history_ok_def new_op_def Let_def)
  obtain op' where op': "updateResult (sample_env []) [] ?res ?op True = Ret op'"
    by (simp add: updateResult_def t after_execution_def new_task_def sample_env_def zero_Result_def)
  from update_result_correct [OF op' t h] op' show ?thesis
    by (auto simp: retried_def new_task_def sample_op_def set_current_task_def new_op_def Let_def)
qed

section \<open>Refreshing the current tasks\<close>

definition needs_refresh :: "CruiseControlOperation \<Rightarrow> bool" where
  "needs_refresh op \<longleftrightarrow> CurrentTaskID op \<noteq> [] \<and> \<not> IsDone op"

definition refreshed :: "env \<Rightarrow> trace \<Rightarrow> (string, Result) gomap \<Rightarrow> CruiseControlOperation \<Rightarrow> CruiseControlOperation" where
  "refreshed E tr results op = (if needs_refresh op then
     (case updateResult E tr (map_of results (CurrentTaskID op)) op False of Ret op' \<Rightarrow> op' | _ \<Rightarrow> op) else op)"

lemma needs_refresh_task: "needs_refresh op \<Longrightarrow> \<exists>t. CurrentTask op = Some t"
  by (auto simp: needs_refresh_def CurrentTaskID_def split: option.splits)

lemma updateResult_refresh: "CurrentTask op = Some t \<Longrightarrow> \<exists>op'. updateResult E tr result op False = Ret op'"
  by (simp add: updateResult_def Let_def)

lemma update_tasks_refreshed:
  "distinct is \<Longrightarrow> \<forall>i \<in> set is. i < length items \<Longrightarrow>
     \<exists>items'. update_tasks E tr results is items = Ret items' \<and> length items' = length items \<and>
       (\<forall>j < length items. items' ! j = (if j \<in> set is then refreshed E tr results (items ! j) else items ! j))"
proof (induction "is" arbitrary: items)
  case (Cons i "is")
  show ?case
  proof (cases "needs_refresh (items ! i)")
    case True
    then obtain op where op: "updateResult E tr (map_of results (CurrentTaskID (items ! i))) (items ! i) False = Ret op"
      using needs_refresh_task updateResult_refresh by blast
    have step: "update_tasks E tr results (i # is) items = update_tasks E tr results is (items[i := op])"
      using True op by (simp add: needs_refresh_def)
    have r: "refreshed E tr results (items ! i) = op" using True op by (simp add: refreshed_def)
    obtain items' where "update_tasks E tr results is (items[i := op]) = Ret items'" "length items' = length items"
      "\<forall>j < length items. items' ! j = (if j \<in> set is then refreshed E tr results (items[i := op] ! j) else items[i := op] ! j)"
      using Cons.IH [of "items[i := op]"] Cons.prems by auto
    then show ?thesis using step r Cons.prems by (auto simp: nth_list_update)
  next
    case False
    then have "update_tasks E tr results (i # is) items = update_tasks E tr results is items"
      by (auto simp: needs_refresh_def)
    moreover have "refreshed E tr results (items ! i) = items ! i" using False by (simp add: refreshed_def)
    moreover obtain items' where "update_tasks E tr results is items = Ret items'" "length items' = length items"
      "\<forall>j < length items. items' ! j = (if j \<in> set is then refreshed E tr results (items ! j) else items ! j)"
      using Cons.IH [of items] Cons.prems by auto
    ultimately show ?thesis by auto
  qed
qed simp

text \<open>What Cruise Control says about a task: the last entry with its identifier, an error if there is
  none.\<close>

definition reported_state :: "UserTaskInfo list \<Rightarrow> string \<Rightarrow> CruiseControlUserTaskState" where
  "reported_state infos i = (case map_of (rev (map (\<lambda>u. (UserTaskID u, utStatus u)) infos)) i of
     None \<Rightarrow> CruiseControlTaskCompletedWithError | Some s \<Rightarrow> UserTaskStatus_state s)"

lemma task_results_lookup:
  "map_of (fold (\<lambda>t. AList.update (TaskID t) t) (map task_info_result infos) []) i =
     map_of (rev (map (\<lambda>u. (UserTaskID u, task_info_result u)) infos)) i"
proof -
  have "fold (\<lambda>t. AList.update (TaskID t) t) (map task_info_result infos) [] =
      fold (\<lambda>(k, v). AList.update k v) (map (\<lambda>u. (UserTaskID u, task_info_result u)) infos) []"
    by (simp add: fold_map comp_def task_info_result_def)
  then show ?thesis by (simp add: gm.lookup_store_all split: option.split)
qed

lemma reported_state_lookup:
  "resState (result_for (map_of (fold (\<lambda>t. AList.update (TaskID t) t) (map task_info_result infos) []) i) op) = reported_state infos i"
proof -
  have "map_of (map (\<lambda>u. (UserTaskID u, utStatus u)) us) i = map_option utStatus (map_of (map (\<lambda>u. (UserTaskID u, u)) us) i)"
    "map_of (map (\<lambda>u. (UserTaskID u, task_info_result u)) us) i = map_option task_info_result (map_of (map (\<lambda>u. (UserTaskID u, u)) us) i)" for us
    by (induction us) auto
  moreover have "resState (task_info_result u) = UserTaskStatus_state (utStatus u)" for u by (simp add: task_info_result_def)
  moreover have "resState (missing_result op) = CruiseControlTaskCompletedWithError" by (simp add: missing_result_def)
  ultimately show ?thesis
    by (cases "map_of (map (\<lambda>u. (UserTaskID u, u)) (rev infos)) i")
      (simp_all add: task_results_lookup reported_state_def result_for_def rev_map)
qed

lemma refreshed_cases:
  assumes "needs_refresh op"
  shows "CurrentTaskState (refreshed E tr results op) = resState (result_for (map_of results (CurrentTaskID op)) op) \<and>
    CurrentTaskID (refreshed E tr results op) = CurrentTaskID op \<and>
    (completed (CurrentTaskState (refreshed E tr results op)) \<longrightarrow> CurrentTaskFinished (refreshed E tr results op) \<noteq> None) \<and>
    Meta (refreshed E tr results op) = Meta op \<and> Spec (refreshed E tr results op) = Spec op"
proof -
  obtain t where t: "CurrentTask op = Some t" using needs_refresh_task [OF assms] by blast
  obtain op' where op': "updateResult E tr (map_of results (CurrentTaskID op)) op False = Ret op'"
    using updateResult_refresh [OF t] by blast
  have "refreshed E tr results op = op'" using assms op' by (simp add: refreshed_def)
  then show ?thesis using updateResult_refresh_cases [OF op' t] t
    by (auto simp: CurrentTaskState_def CurrentTaskID_def CurrentTaskFinished_def)
qed

text \<open> Refreshing the current tasks asks Cruise Control once, for exactly the identifiers of the listed
  operations, never fails on an answer, and gives every listed operation that has an identifier and
  is not done the state that Cruise Control reported for it, an error if it reported none; a task that
  ended has a finishing time. Other operations keep their state.\<close>

theorem current_tasks_refreshed:
  assumes "distinct is" "\<forall>i \<in> set is. i < length items"
    and "ccUserTasks (ccClient E tr) ids False = Inr infos" "ids = filter (\<lambda>s. s \<noteq> []) (map (\<lambda>i. CurrentTaskID (items ! i)) is)"
  shows "\<exists>items1 r items2 tr2. updateCurrentTasks E is items tr = (r, items2, tr2) \<and>
    push_status E items is items1 (tr @ [EvCC (ReqUserTasks ids False)]) = (case r of Err e \<Rightarrow> Some e | _ \<Rightarrow> None, items2, tr2) \<and>
    r \<noteq> Panic \<and> length items1 = length items \<and>
    (\<forall>j < length items. if j \<in> set is \<and> needs_refresh (items ! j)
       then CurrentTaskState (items1 ! j) = reported_state infos (CurrentTaskID (items ! j)) \<and>
            CurrentTaskID (items1 ! j) = CurrentTaskID (items ! j) \<and> Meta (items1 ! j) = Meta (items ! j) \<and>
            (completed (CurrentTaskState (items1 ! j)) \<longrightarrow> CurrentTaskFinished (items1 ! j) \<noteq> None)
       else items1 ! j = items ! j)"
proof -
  let ?tr1 = "tr @ [EvCC (ReqUserTasks ids False)]"
  let ?res = "fold (\<lambda>t. AList.update (TaskID t) t) (map task_info_result infos) []"
  obtain items1 where i1: "update_tasks E ?tr1 ?res is items = Ret items1" "length items1 = length items"
    "\<forall>j < length items. items1 ! j = (if j \<in> set is then refreshed E ?tr1 ?res (items ! j) else items ! j)"
    using update_tasks_refreshed [OF assms(1,2)] by blast
  obtain e items2 tr2 where p: "push_status E items is items1 ?tr1 = (e, items2, tr2)"
    by (cases "push_status E items is items1 ?tr1") auto
  let ?r = "case e of None \<Rightarrow> Ret () | Some e \<Rightarrow> Err e"
  have u: "updateCurrentTasks E is items tr = (?r, items2, tr2)"
    using assms(3,4) i1(1) p by (simp add: updateCurrentTasks_def UserTasks_def split: option.split)
  have "refreshed E ?tr1 ?res op = op" if "\<not> needs_refresh op" for op using that by (simp add: refreshed_def)
  then have "\<forall>j < length items. if j \<in> set is \<and> needs_refresh (items ! j)
       then CurrentTaskState (items1 ! j) = reported_state infos (CurrentTaskID (items ! j)) \<and>
            CurrentTaskID (items1 ! j) = CurrentTaskID (items ! j) \<and> Meta (items1 ! j) = Meta (items ! j) \<and>
            (completed (CurrentTaskState (items1 ! j)) \<longrightarrow> CurrentTaskFinished (items1 ! j) \<noteq> None)
       else items1 ! j = items ! j"
    using i1(3) refreshed_cases [of _ E ?tr1 ?res] reported_state_lookup [of infos] by simp
  moreover have "(case ?r of Err e \<Rightarrow> Some e | _ \<Rightarrow> None) = e" "?r \<noteq> Panic" by (simp_all split: option.split)
  ultimately show ?thesis using u p i1(2) by metis
qed

theorem current_tasks_refreshed_witness:
  "\<exists>items1. length items1 = 1 \<and> CurrentTaskState (items1 ! 0) = CruiseControlTaskCompletedWithError"
proof -
  let ?op = "upd_task (\<lambda>t. t\<lparr>ID := ''t'', State := CruiseControlTaskInExecution\<rparr>) (sample_op ''a'' OperationRebalance 0)"
  have n: "needs_refresh ?op" "CurrentTaskID ?op = ''t''"
    by (simp_all add: needs_refresh_def CurrentTaskID_def IsDone_def IsFinished_def CurrentTaskState_def sample_op_def
        set_current_task_def CurrentTask_def [of "_\<lparr>Status := _\<rparr>"])
  have c: "ccUserTasks (ccClient (sample_env [?op]) []) [''t''] False = Inr []" by (simp add: sample_env_def idle_client_def Let_def)
  from current_tasks_refreshed [of "[0]" "[?op]" "sample_env [?op]" "[]" "[''t'']" "[]", OF _ _ c] n show ?thesis
    by (auto simp: reported_state_def)
qed

end
