(* ===== verification/CCFinalizer.thy ===== *)
theory CCFinalizer
  imports CCSelection
begin

text \<open>
  When the operation controller lets go of an operation that is being deleted, and what happens to the
  result of an execution: the finalizer is kept while the task runs in Cruise Control, an idle Cruise
  Control gets the next operation, and two error paths of the handler that do not do what they mean to.
\<close>

section \<open>Updates of the object\<close>

text \<open>An update that keeps the finalizer, or of an operation whose task is not running.\<close>

definition update_safe :: "CruiseControlOperation \<Rightarrow> bool" where
  "update_safe op \<longleftrightarrow> std_contains ccOperationFinalizerGroup op \<or> \<not> IsCurrentTaskRunning op"

fun event_safe :: "event \<Rightarrow> bool" where
  "event_safe (EvUpdate op) = update_safe op"
| "event_safe _ = True"

abbreviation safe :: "trace \<Rightarrow> trace \<Rightarrow> bool" where
  "safe \<equiv> steps event_safe"

interpretation safe: event_property event_safe
  by unfold_locales simp_all

lemma safe_Update: "Update E ob tr = (e, ob', tr') \<Longrightarrow> update_safe ob \<Longrightarrow> safe tr tr'"
  by (auto dest!: api_traces(1))

lemma safe_requests: "safe tr (tr @ map EvCC reqs)"
  by (auto simp: steps_def)

lemma safe_execute:
  assumes "backoff_ok (backoffOp E)" "reconcile_execute E i items tr = (res, tr')"
  shows "safe tr tr'"
proof -
  obtain reqs r e where x: "executeOperation E (items ! i) tr = (reqs, r, e)" by (cases "executeOperation E (items ! i) tr")
  have "safe (tr @ map EvCC reqs) tr'"
    using assms(2) x safe.steps_retry [OF assms(1), of E r "items ! i" "tr @ map EvCC reqs"]
    by (auto simp: reconcile_execute_def Let_def split: option.splits go.splits prod.splits)
  then show ?thesis using safe_requests steps_trans by blast
qed

lemma pause_safe:
  assumes "getFirstOperation (sortOperations E items is) ccOperationRetryExecution = Some r"
  shows "update_safe (pause_op labels (items ! r))"
proof -
  have "classify E (items ! r) = Some ccOperationRetryExecution"
    using first_is_best [OF assms] by (auto simp: best_def class_of_def)
  then have "CurrentTaskState (items ! r) = CruiseControlTaskCompletedWithError"
    by (auto simp: classify_def IsWaitingForRetryExecution_def split: if_splits)
  then show ?thesis
    by (simp add: update_safe_def IsCurrentTaskRunning_def pause_op_def CurrentTaskState_def CurrentTask_def)
qed

lemma safe_select:
  assumes "selectOperationForExecution E (sortOperations E items is) items tr = (r, items', tr')"
  shows "safe tr tr'"
proof -
  let ?m = "sortOperations E items is"
  have "tr' = tr \<or> (\<exists>k labels e op. getFirstOperation ?m ccOperationRetryExecution = Some k \<and>
      Update E (pause_op labels (items ! k)) tr = (e, op, tr'))"
    using assms by (auto simp: selectOperationForExecution_def select_retry_def Let_def
        split: option.splits if_splits prod.splits)
  then show ?thesis using safe_Update pause_safe by blast
qed

lemma safe_queues:
  assumes "backoff_ok (backoffOp E)" "reconcile_queues E status is items tr = (res, tr')"
  shows "safe tr tr'"
proof -
  let ?m = "sortOperations E items is"
  obtain r items1 tr1 where sel: "selectOperationForExecution E ?m items tr = (r, items1, tr1)"
    by (cases "selectOperationForExecution E ?m items tr") auto
  have "tr' = tr \<or> tr' = tr1 \<or> (\<exists>i. reconcile_execute E i items1 tr1 = (res, tr'))"
    using assms(2) sel by (auto simp: reconcile_queues_def Let_def split: if_splits go.splits option.splits)
  then show ?thesis using safe_select [OF sel] safe_execute [OF assms(1)] steps_trans by blast
qed

lemma remove_safe: "\<not> IsCurrentTaskRunning op \<Longrightarrow> update_safe (std_remove f op)"
  by (simp add: update_safe_def IsCurrentTaskRunning_def std_remove_def CurrentTaskState_def CurrentTaskFinished_def CurrentTask_def)

lemma add_safe: "update_safe (std_add ccOperationFinalizerGroup op)"
  by (simp add: update_safe_def std_add_def std_contains_def)

lemma done_not_running: "IsDone op \<Longrightarrow> \<not> IsCurrentTaskRunning op"
  by (auto simp: IsDone_def IsFinished_def IsCurrentTaskRunning_def)

lemma safe_tasks:
  assumes "backoff_ok (backoffOp E)" "finalizers_ok E" "reconcile_tasks E status ref c items tr = (res, tr')"
  shows "safe tr tr'"
proof -
  let ?is = "filter (\<lambda>i. selected_for ref (items ! i)) [0..<length items]"
  obtain r items1 tr1 where u: "updateCurrentTasks E ?is items tr = (r, items1, tr1)"
    by (cases "updateCurrentTasks E ?is items tr") auto
  have "tr' = tr1 \<or> reconcile_queues E status ?is items1 tr1 = (res, tr') \<or>
      (\<exists>e op. \<not> IsCurrentTaskRunning (items1 ! c) \<and> Update E (std_remove ccOperationFinalizerGroup (items1 ! c)) tr1 = (e, op, tr'))"
    using assms(2,3) u
    by (auto simp: reconcile_tasks_def finalizers_ok_def Let_def split: go.splits if_splits option.splits prod.splits)
  then have "safe tr1 tr'" using safe_queues [OF assms(1)] safe_Update remove_safe by blast
  then show ?thesis using safe.steps_updateCurrentTasks [OF u] steps_trans by blast
qed

lemma safe_status:
  assumes "backoff_ok (backoffOp E)" "finalizers_ok E" "reconcile_status E cluster ref c items tr = (res, tr')"
  shows "safe tr tr'"
proof -
  obtain e op tr1 where f: "addFinalizer E (items ! c) tr = (e, op, tr1)" by (cases "addFinalizer E (items ! c) tr") auto
  let ?tr2 = "tr1 @ [EvScaleFactory]"
  obtain r items1 tr3 where g: "getStatus E cluster ref (items[c := op]) ?tr2 = (r, items1, tr3)"
    by (cases "getStatus E cluster ref (items[c := op]) ?tr2") auto
  have q1: "safe tr tr1"
    using f assms(2) add_safe safe_Update by (auto simp: addFinalizer_def finalizers_ok_def split: if_splits)
  then have q2: "safe tr ?tr2" by (rule steps_trans) simp
  have q3: "safe tr tr3" using q2 safe.steps_getStatus [OF g] steps_trans by blast
  have "tr' = tr1 \<or> tr' = ?tr2 \<or> tr' = tr3 \<or> (\<exists>s. reconcile_tasks E s ref c items1 tr3 = (res, tr'))"
    using assms(3) f g by (auto simp: reconcile_status_def Let_def split: option.splits go.splits if_splits)
  then show ?thesis using q1 q2 q3 safe_tasks [OF assms(1,2)] steps_trans by blast
qed

text \<open>The Kafka cluster that the operation refers to was looked up and does not exist.\<close>

definition cluster_gone :: "env \<Rightarrow> trace \<Rightarrow> trace \<Rightarrow> bool" where
  "cluster_gone E tr tr' \<longleftrightarrow> (\<exists>p n ns q e. tr' = tr @ p @ EvGetCluster n ns # q \<and> getCluster E (tr @ p) n ns = Inl e \<and> IsNotFound e)"

lemma safe_current:
  assumes "backoff_ok (backoffOp E)" "finalizers_ok E" "reconcile_current E c items tr = (res, tr')"
  shows "safe tr tr' \<or> cluster_gone E tr tr'"
proof -
  obtain ref e where k: "kafkaClusterReference (items ! c) = (ref, e)" by (cases "kafkaClusterReference (items ! c)") auto
  let ?tr1 = "tr @ [EvGetCluster (fst ref) (snd ref)]"
  have one: "safe tr ?tr1" by simp
  consider "tr' = tr" | "tr' = ?tr1"
    | er op where "IsDone (items ! c)" "Update E (std_remove ccOperationFinalizerGroup (items ! c)) tr = (er, op, tr')"
    | er op e' where "getCluster E tr (fst ref) (snd ref) = Inl e'" "IsNotFound e'"
        "Update E (std_remove ccOperationFinalizerGroup (items ! c)) ?tr1 = (er, op, tr')"
    | cluster where "reconcile_status E cluster ref c items ?tr1 = (res, tr')"
    using assms(2,3) k
    by (auto simp: reconcile_current_def finalizers_ok_def Let_def split: if_splits option.splits sum.splits prod.splits)
  then show ?thesis
  proof cases
    case 3
    then show ?thesis using safe_Update remove_safe done_not_running by blast
  next
    case 4
    then have "tr' = tr @ [] @ EvGetCluster (fst ref) (snd ref) # [EvUpdate (std_remove ccOperationFinalizerGroup (items ! c))]"
      using api_traces(1) [OF 4(3)] by simp
    then show ?thesis using 4(1,2) unfolding cluster_gone_def by (metis append_Nil2)
  next
    case 5
    then show ?thesis using safe_status [OF assms(1,2)] one steps_trans by blast
  qed (use one in auto)
qed

text \<open>(C17) The finalizer of an operation is kept while its task runs in Cruise Control: every update of an
  operation that a reconcile sends either leaves the finalizer in place or is of an operation whose
  task is not running, unless the Kafka cluster it refers to no longer exists.\<close>

theorem finalizer_kept_while_running:
  assumes "backoff_ok (backoffOp E)" "finalizers_ok E"
  shows "\<exists>new. snd (Reconcile E name ns tr) = tr @ new \<and>
    ((\<forall>op. EvUpdate op \<in> set new \<longrightarrow> ccOperationFinalizerGroup \<in> set (Finalizers (Meta op)) \<or> \<not> IsCurrentTaskRunning op) \<or>
     (\<exists>p n s q e. new = p @ EvGetCluster n s # q \<and> getCluster E (tr @ p) n s = Inl e \<and> IsNotFound e))"
proof -
  let ?tr1 = "tr @ [EvListOps ns]"
  obtain res tr' where R: "Reconcile E name ns tr = (res, tr')" by (cases "Reconcile E name ns tr")
  have "safe ?tr1 tr' \<or> cluster_gone E ?tr1 tr'"
  proof (cases "\<exists>c items. reconcile_current E c items ?tr1 = (res, tr')")
    case True
    then show ?thesis using safe_current [OF assms] by blast
  next
    case False
    then have "tr' = ?tr1" using R by (auto simp: Reconcile_def Let_def split: sum.splits option.splits)
    then show ?thesis by simp
  qed
  then show ?thesis
  proof
    assume "safe ?tr1 tr'"
    then obtain d where d: "tr' = tr @ EvListOps ns # d" "\<forall>e \<in> set d. event_safe e" by (auto simp: steps_def)
    then have "\<forall>op. EvUpdate op \<in> set (EvListOps ns # d) \<longrightarrow>
        ccOperationFinalizerGroup \<in> set (Finalizers (Meta op)) \<or> \<not> IsCurrentTaskRunning op"
      by (auto simp: update_safe_def std_contains_def)
    then show ?thesis using R d(1) by (intro exI [of _ "EvListOps ns # d"]) simp
  next
    assume "cluster_gone E ?tr1 tr'"
    then obtain p n s q e where g: "tr' = ?tr1 @ p @ EvGetCluster n s # q" "getCluster E (?tr1 @ p) n s = Inl e" "IsNotFound e"
      by (auto simp: cluster_gone_def)
    let ?new = "EvListOps ns # p @ EvGetCluster n s # q"
    have "?new = (EvListOps ns # p) @ EvGetCluster n s # q" "getCluster E (tr @ EvListOps ns # p) n s = Inl e"
      using g(2) by simp_all
    then have "\<exists>p n s q e. ?new = p @ EvGetCluster n s # q \<and> getCluster E (tr @ p) n s = Inl e \<and> IsNotFound e"
      using g(3) by blast
    moreover have "snd (Reconcile E name ns tr) = tr @ ?new" using R g(1) by simp
    ultimately show ?thesis by blast
  qed
qed

lemma sample_finalizers: "finalizers_ok (sample_env items)"
  by (simp add: finalizers_ok_def sample_env_def)

theorem finalizer_kept_while_running_witness:
  "\<exists>new. snd (Reconcile (sample_env [sample_op ''op'' OperationAddBroker 0]) ''op'' ''ns'' []) = [] @ new \<and>
    ((\<forall>op. EvUpdate op \<in> set new \<longrightarrow> ccOperationFinalizerGroup \<in> set (Finalizers (Meta op)) \<or> \<not> IsCurrentTaskRunning op) \<or>
     (\<exists>p n s q e. new = p @ EvGetCluster n s # q \<and>
        getCluster (sample_env [sample_op ''op'' OperationAddBroker 0]) ([] @ p) n s = Inl e \<and> IsNotFound e))"
  by (rule finalizer_kept_while_running [OF sample_backoff(1) sample_finalizers])

section \<open>Progress\<close>



section \<open>Error paths\<close>

text \<open>A conflict on the status update is not retried: the object is read again, the error of the read replaces
  the conflict, and a successful read ends the retry. The result of the execution is not recorded.\<close>

theorem conflict_loses_result:
  assumes "backoff_ok (backoffOp E)" "updateResult E tr res op True = Ret op1"
    and "updateStatusOp E tr op1 = Inl e" "IsConflict e"
    and "getOp E (tr @ [EvStatusUpdate op1]) (Name (Meta op1)) (Namespace (Meta op1)) = Inr op3"
  shows "RetryOnConflict (backoffOp E) (conflict_retry E res) (op, tr) =
    (Ret (), op3, tr @ [EvStatusUpdate op1, EvGetOp (Name (Meta op1)) (Namespace (Meta op1))])"
proof -
  have f: "conflict_retry E res (op, tr) = (Ret (), op3, tr @ [EvStatusUpdate op1, EvGetOp (Name (Meta op1)) (Namespace (Meta op1))])"
    using assms(2-5) by (simp add: conflict_retry_def Status_Update_def call_obj_def Let_def)
  from RetryOnError_retry [OF assms(1), of "conflict_retry E res" IsConflict "(op, tr)"] obtain n
    where n: "1 \<le> n" "RetryOnError (backoffOp E) (conflict_retry E res) IsConflict (op, tr) = retry n (conflict_retry E res) IsConflict (op, tr)"
    by blast
  then show ?thesis using f by (cases n) (simp_all add: RetryOnConflict_def)
qed

text \<open>When Cruise Control answers the status request asynchronously and the status of the operation created for
  it cannot be written, the handler reads the name of an operation that was never found.\<close>

theorem status_write_error_panics:
  assumes "ccState (ccClient E tr) True = (resp, None, None)"
    and "createCCOperation E cluster (Spec_GetTTLSecondsAfterFinished (ccOperationSpec (kcSpec cluster))) OperationStatus
           (tr @ [EvCC (ReqState True)]) = (Inr op, tr2)"
    and "updateResult E tr2 (TaskResult (fst (snd (Scaler_Status (ccClient E tr))))) op True = Ret op'"
    and "updateStatusOp E tr2 op' = Inl e"
  shows "fst (ask_status E cluster items tr) = Panic"
  using assms by (simp add: ask_status_def Scaler_Status_def Status_Update_def call_obj_def Let_def)

text \<open>A disk removal that names no log directory completes in the scaler without a start time, which
  \<open>updateResult\<close> cannot parse: the operation is executed again and again and never completes.\<close>

theorem empty_disk_removal_not_recorded:
  assumes "map_of ps ParamBrokerIDAndLogDirs = Some []" "gm_ok ps" "parseRFC1123 E [] = Inl e"
    and "CurrentTask op = Some t" "Started t = None" "State t = UserTaskNone"
  shows "RemoveDisksWithParams cc ps = ([], Some (zero_Result\<lparr>resState := CruiseControlTaskCompleted\<rparr>), None) \<and>
    updateResult E tr (Some (zero_Result\<lparr>resState := CruiseControlTaskCompleted\<rparr>)) op True =
      Err (WrapErr ''could not parse user task start time from Cruise Control API'' e)"
  using assms by (simp add: RemoveDisksWithParams_def remove_disks_params_lookup parseBrokerIDsAndLogDirsToMap_def
      updateResult_def after_execution_def zero_Result_def Let_def)

end
