(* ===== verification/CCTask.thy ===== *)
theory CCTask
  imports CCTypes
begin

text \<open>
  The tasks that the Cruise Control task controller derives from the status of a Kafka cluster
  (\<open>controllers/cruisecontroltask_types.go\<close>) and the two functions of
  \<open>controllers/cruisecontroltask_controller.go\<close> that fill and refresh them. The container keeps each
  task once in \<open>tasks\<close> and refers to it from \<open>tasksByOp\<close> by pointer; a pointer is the index of the
  task in \<open>tasks\<close>.
\<close>

section \<open>Tasks\<close>

record CCTask =
  BrokerID :: string
  taskBrokerState :: CruiseControlState
  Volume :: string
  taskVolumeState :: CruiseControlVolumeState
  taskOperation :: CruiseControlTaskOperation
  taskReference :: "string option"

definition IsRequired :: "CCTask option \<Rightarrow> bool" where
  "IsRequired t = (case t of None \<Rightarrow> True
     | Some t \<Rightarrow> (case taskOperation t of
           OperationAddBroker \<Rightarrow> IsRequiredState (taskBrokerState t)
         | OperationRemoveBroker \<Rightarrow> IsRequiredState (taskBrokerState t)
         | OperationRebalance \<Rightarrow> VolumeState_IsRequiredState (taskVolumeState t)
         | OperationRemoveDisks \<Rightarrow> VolumeState_IsRequiredState (taskVolumeState t)
         | _ \<Rightarrow> False))"

definition apply_broker_state :: "CCTask \<Rightarrow> KafkaCluster \<Rightarrow> KafkaCluster" where
  "apply_broker_state t inst = (case map_of (BrokersState inst) (BrokerID t) of
     None \<Rightarrow> inst
   | Some state \<Rightarrow>
       let gas = bsGracefulActionState state;
           gas' = gas\<lparr>gasCruiseControlState := taskBrokerState t,
                      gasCruiseControlOperationReference := taskReference t\<rparr>
       in inst\<lparr>BrokersState := AList.update (BrokerID t) (state\<lparr>bsGracefulActionState := gas'\<rparr>) (BrokersState inst)\<rparr>)"

definition apply_volume_state :: "CCTask \<Rightarrow> KafkaCluster \<Rightarrow> KafkaCluster" where
  "apply_volume_state t inst = (case map_of (BrokersState inst) (BrokerID t) of
     None \<Rightarrow> inst
   | Some state \<Rightarrow>
       let gas = bsGracefulActionState state in
       (case map_of (VolumeStates gas) (Volume t) of
          None \<Rightarrow> inst
        | Some volState \<Rightarrow>
            let vol' = volState\<lparr>volCruiseControlVolumeState := taskVolumeState t,
                                volCruiseControlOperationReference := taskReference t\<rparr>;
                gas' = gas\<lparr>VolumeStates := AList.update (Volume t) vol' (VolumeStates gas)\<rparr>
            in inst\<lparr>BrokersState := AList.update (BrokerID t) (state\<lparr>bsGracefulActionState := gas'\<rparr>) (BrokersState inst)\<rparr>))"

definition apply_task :: "CCTask \<Rightarrow> KafkaCluster \<Rightarrow> KafkaCluster" where
  "apply_task t inst = (case taskOperation t of
     OperationAddBroker \<Rightarrow> apply_broker_state t inst
   | OperationRemoveBroker \<Rightarrow> apply_broker_state t inst
   | OperationRebalance \<Rightarrow> apply_volume_state t inst
   | OperationRemoveDisks \<Rightarrow> apply_volume_state t inst
   | _ \<Rightarrow> inst)"

definition Apply :: "CCTask option \<Rightarrow> KafkaCluster option \<Rightarrow> KafkaCluster option" where
  "Apply t inst = (case (t, inst) of (Some t, Some i) \<Rightarrow> Some (apply_task t i) | _ \<Rightarrow> inst)"

definition SetCruiseControlOperationRef :: "string \<Rightarrow> CCTask \<Rightarrow> CCTask" where
  "SetCruiseControlOperationRef ref t = t\<lparr>taskReference := Some ref\<rparr>"

definition SetStateScheduled :: "CCTask \<Rightarrow> CCTask" where
  "SetStateScheduled t = (case taskOperation t of
     OperationAddBroker \<Rightarrow> t\<lparr>taskBrokerState := GracefulUpscaleScheduled\<rparr>
   | OperationRemoveBroker \<Rightarrow> t\<lparr>taskBrokerState := GracefulDownscaleScheduled\<rparr>
   | OperationRebalance \<Rightarrow> t\<lparr>taskVolumeState := GracefulDiskRebalanceScheduled\<rparr>
   | OperationRemoveDisks \<Rightarrow> t\<lparr>taskVolumeState := GracefulDiskRemovalScheduled\<rparr>
   | _ \<Rightarrow> t)"

definition from_result_add_broker :: "CruiseControlOperation option \<Rightarrow> CCTask \<Rightarrow> CCTask" where
  "from_result_add_broker operation t = (case operation of
     None \<Rightarrow> t\<lparr>taskBrokerState := GracefulUpscaleSucceeded\<rparr>
   | Some op \<Rightarrow>
       if IsErrorPolicyIgnore op \<and> CurrentTaskState op = CruiseControlTaskCompletedWithError
       then t\<lparr>taskBrokerState := GracefulUpscaleSucceeded\<rparr>
       else if IsPaused op \<and> CurrentTaskState op = CruiseControlTaskCompletedWithError
       then t\<lparr>taskBrokerState := GracefulUpscalePaused\<rparr>
       else if CurrentTaskState op = CruiseControlTaskActive \<or> CurrentTaskState op = CruiseControlTaskInExecution
       then t\<lparr>taskBrokerState := GracefulUpscaleRunning\<rparr>
       else if CurrentTaskState op = CruiseControlTaskCompleted
       then t\<lparr>taskBrokerState := GracefulUpscaleSucceeded\<rparr>
       else if CurrentTaskState op = CruiseControlTaskCompletedWithError
       then t\<lparr>taskBrokerState := GracefulUpscaleCompletedWithError\<rparr>
       else if CurrentTaskState op = UserTaskNone
       then t\<lparr>taskBrokerState := GracefulUpscaleScheduled\<rparr>
       else t)"

definition from_result_remove_broker :: "CruiseControlOperation option \<Rightarrow> CCTask \<Rightarrow> CCTask" where
  "from_result_remove_broker operation t = (case operation of
     None \<Rightarrow> t\<lparr>taskBrokerState := GracefulDownscaleSucceeded\<rparr>
   | Some op \<Rightarrow>
       if IsErrorPolicyIgnore op \<and> CurrentTaskState op = CruiseControlTaskCompletedWithError
       then t\<lparr>taskBrokerState := GracefulDownscaleSucceeded\<rparr>
       else if IsPaused op \<and> CurrentTaskState op = CruiseControlTaskCompletedWithError
       then t\<lparr>taskBrokerState := GracefulDownscalePaused\<rparr>
       else if CurrentTaskState op = CruiseControlTaskActive \<or> CurrentTaskState op = CruiseControlTaskInExecution
       then t\<lparr>taskBrokerState := GracefulDownscaleRunning\<rparr>
       else if CurrentTaskState op = CruiseControlTaskCompleted
       then t\<lparr>taskBrokerState := GracefulDownscaleSucceeded\<rparr>
       else if CurrentTaskState op = CruiseControlTaskCompletedWithError
       then t\<lparr>taskBrokerState := GracefulDownscaleCompletedWithError\<rparr>
       else if CurrentTaskState op = UserTaskNone
       then t\<lparr>taskBrokerState := GracefulDownscaleScheduled\<rparr>
       else t)"

definition from_result_remove_disks :: "CruiseControlOperation option \<Rightarrow> CCTask \<Rightarrow> CCTask" where
  "from_result_remove_disks operation t = (case operation of
     None \<Rightarrow> t\<lparr>taskVolumeState := GracefulDiskRemovalSucceeded\<rparr>
   | Some op \<Rightarrow>
       if IsErrorPolicyIgnore op \<and> CurrentTaskState op = CruiseControlTaskCompletedWithError
       then t\<lparr>taskVolumeState := GracefulDiskRemovalSucceeded\<rparr>
       else if IsPaused op \<and> CurrentTaskState op = CruiseControlTaskCompletedWithError
       then t\<lparr>taskVolumeState := GracefulDiskRemovalPaused\<rparr>
       else if CurrentTaskState op = CruiseControlTaskActive \<or> CurrentTaskState op = CruiseControlTaskInExecution
       then t\<lparr>taskVolumeState := GracefulDiskRemovalRunning\<rparr>
       else if CurrentTaskState op = CruiseControlTaskCompleted
       then t\<lparr>taskVolumeState := GracefulDiskRemovalSucceeded\<rparr>
       else if CurrentTaskState op = CruiseControlTaskCompletedWithError
       then t\<lparr>taskVolumeState := GracefulDiskRemovalCompletedWithError\<rparr>
       else if CurrentTaskState op = UserTaskNone
       then t\<lparr>taskVolumeState := GracefulDiskRemovalScheduled\<rparr>
       else t)"

definition from_result_rebalance :: "CruiseControlOperation option \<Rightarrow> CCTask \<Rightarrow> CCTask" where
  "from_result_rebalance operation t = (case operation of
     None \<Rightarrow> t\<lparr>taskVolumeState := GracefulDiskRebalanceSucceeded\<rparr>
   | Some op \<Rightarrow>
       if IsErrorPolicyIgnore op \<and> CurrentTaskState op = CruiseControlTaskCompletedWithError
       then t\<lparr>taskVolumeState := GracefulDiskRebalanceSucceeded\<rparr>
       else if IsPaused op \<and> CurrentTaskState op = CruiseControlTaskCompletedWithError
       then t\<lparr>taskVolumeState := GracefulDiskRebalancePaused\<rparr>
       else if CurrentTaskState op = CruiseControlTaskActive \<or> CurrentTaskState op = CruiseControlTaskInExecution
       then t\<lparr>taskVolumeState := GracefulDiskRebalanceRunning\<rparr>
       else if CurrentTaskState op = CruiseControlTaskCompleted
       then t\<lparr>taskVolumeState := GracefulDiskRebalanceSucceeded\<rparr>
       else if CurrentTaskState op = CruiseControlTaskCompletedWithError
       then t\<lparr>taskVolumeState := GracefulDiskRebalanceCompletedWithError\<rparr>
       else if CurrentTaskState op = UserTaskNone
       then t\<lparr>taskVolumeState := GracefulDiskRebalanceScheduled\<rparr>
       else t)"

definition FromResult :: "CruiseControlOperation option \<Rightarrow> CCTask \<Rightarrow> CCTask" where
  "FromResult operation t = (case taskOperation t of
     OperationAddBroker \<Rightarrow> from_result_add_broker operation t
   | OperationRemoveBroker \<Rightarrow> from_result_remove_broker operation t
   | OperationRemoveDisks \<Rightarrow> from_result_remove_disks operation t
   | OperationRebalance \<Rightarrow> from_result_rebalance operation t
   | _ \<Rightarrow> t)"

section \<open>The container\<close>

record CCTasks =
  tasks :: "CCTask list"
  tasksByOp :: "(CruiseControlTaskOperation, nat list) gomap"

definition newCruiseControlTasksAndStates :: CCTasks where
  "newCruiseControlTasksAndStates = \<lparr>tasks = [], tasksByOp = []\<rparr>"

definition byOp :: "CCTasks \<Rightarrow> CruiseControlTaskOperation \<Rightarrow> nat list" where
  "byOp s o' = (case map_of (tasksByOp s) o' of None \<Rightarrow> [] | Some is \<Rightarrow> is)"

definition Tasks_Add :: "CCTask \<Rightarrow> CCTasks \<Rightarrow> CCTasks" where
  "Tasks_Add t s = \<lparr>tasks = tasks s @ [t],
     tasksByOp = AList.update (taskOperation t) (byOp s (taskOperation t) @ [length (tasks s)]) (tasksByOp s)\<rparr>"

definition Tasks_IsEmpty :: "CCTasks \<Rightarrow> bool" where
  "Tasks_IsEmpty s \<longleftrightarrow> length (tasks s) = 0"

definition GetActiveTasksByOp :: "CruiseControlTaskOperation \<Rightarrow> CCTasks \<Rightarrow> nat list" where
  "GetActiveTasksByOp o' s = filter (\<lambda>i. IsRequired (Some (tasks s ! i))) (byOp s o')"

definition NumActiveTasksByOp :: "CruiseControlTaskOperation \<Rightarrow> CCTasks \<Rightarrow> nat" where
  "NumActiveTasksByOp o' s = length (GetActiveTasksByOp o' s)"

definition SyncState :: "CCTasks \<Rightarrow> KafkaCluster \<Rightarrow> KafkaCluster" where
  "SyncState s inst = fold apply_task (tasks s) inst"

text \<open>Writing through a pointer to a task of the container.\<close>

definition set_task :: "(CCTask \<Rightarrow> CCTask) \<Rightarrow> nat \<Rightarrow> CCTasks \<Rightarrow> CCTasks" where
  "set_task f i s = s\<lparr>tasks := (tasks s)[i := f (tasks s ! i)]\<rparr>"

section \<open>Filling and refreshing the container\<close>

definition broker_task :: "string \<Rightarrow> GracefulActionState \<Rightarrow> CruiseControlTaskOperation \<Rightarrow> CCTask" where
  "broker_task brokerId state opn = \<lparr>BrokerID = brokerId, taskBrokerState = gasCruiseControlState state, Volume = [],
     taskVolumeState = VolumeStateNone, taskOperation = opn, taskReference = gasCruiseControlOperationReference state\<rparr>"

definition volume_task :: "string \<Rightarrow> string \<Rightarrow> VolumeState \<Rightarrow> CruiseControlTaskOperation \<Rightarrow> CCTask" where
  "volume_task brokerId mountPath v opn = \<lparr>BrokerID = brokerId, taskBrokerState = CCStateNone, Volume = mountPath,
     taskVolumeState = volCruiseControlVolumeState v, taskOperation = opn, taskReference = volCruiseControlOperationReference v\<rparr>"

definition add_broker_task :: "string \<Rightarrow> GracefulActionState \<Rightarrow> CCTasks \<Rightarrow> CCTasks" where
  "add_broker_task brokerId state s =
     (if IsActive (gasCruiseControlState state) then
        if IsUpscale (gasCruiseControlState state) then Tasks_Add (broker_task brokerId state OperationAddBroker) s
        else if IsDownscale (gasCruiseControlState state) then Tasks_Add (broker_task brokerId state OperationRemoveBroker) s
        else s
      else s)"

definition add_volume_task :: "string \<Rightarrow> string \<times> VolumeState \<Rightarrow> CCTasks \<Rightarrow> CCTasks" where
  "add_volume_task brokerId mv s = (case mv of (mountPath, v) \<Rightarrow>
     if IsDiskRebalance (volCruiseControlVolumeState v) then Tasks_Add (volume_task brokerId mountPath v OperationRebalance) s
     else if IsDiskRemoval (volCruiseControlVolumeState v) then Tasks_Add (volume_task brokerId mountPath v OperationRemoveDisks) s
     else s)"

definition add_broker_tasks :: "string \<times> BrokerState \<Rightarrow> CCTasks \<Rightarrow> CCTasks" where
  "add_broker_tasks bs s = (case bs of (brokerId, st) \<Rightarrow>
     fold (add_volume_task brokerId) (VolumeStates (bsGracefulActionState st))
       (add_broker_task brokerId (bsGracefulActionState st) s))"

definition getActiveTasksFromCluster :: "KafkaCluster \<Rightarrow> CCTasks" where
  "getActiveTasksFromCluster inst = fold add_broker_tasks (BrokersState inst) newCruiseControlTasksAndStates"

definition refresh_task :: "(string, CruiseControlOperation) gomap \<Rightarrow> CCTask \<Rightarrow> CCTask" where
  "refresh_task opMap t = (case taskReference t of None \<Rightarrow> t | Some ref \<Rightarrow> FromResult (map_of opMap ref) t)"

definition updateActiveTasks :: "CruiseControlOperation list \<Rightarrow> CCTasks \<Rightarrow> CCTasks" where
  "updateActiveTasks ccOperations s =
     (let ccOperationMap = fold (\<lambda>op. AList.update (Name (Meta op)) op) ccOperations []
      in s\<lparr>tasks := map (refresh_task ccOperationMap) (tasks s)\<rparr>)"

section \<open>The refresh table\<close>

text \<open>
  What an operation says about the task that refers to it, independently of the kind of the task. An
  operation that no longer exists counts as succeeded.
\<close>

datatype phase = Scheduled | Running | Paused | Failed | Succeeded

definition phase_of :: "CruiseControlOperation option \<Rightarrow> phase option" where
  "phase_of operation = (case operation of None \<Rightarrow> Some Succeeded
     | Some op \<Rightarrow>
         if IsFinished op then Some Succeeded
         else if IsDone op then Some Paused
         else (case CurrentTaskState op of
             UserTaskNone \<Rightarrow> Some Scheduled
           | CruiseControlTaskActive \<Rightarrow> Some Running
           | CruiseControlTaskInExecution \<Rightarrow> Some Running
           | CruiseControlTaskCompletedWithError \<Rightarrow> Some Failed
           | _ \<Rightarrow> None))"

fun upscale_state :: "phase \<Rightarrow> CruiseControlState" where
  "upscale_state Scheduled = GracefulUpscaleScheduled"
| "upscale_state Running = GracefulUpscaleRunning"
| "upscale_state Paused = GracefulUpscalePaused"
| "upscale_state Failed = GracefulUpscaleCompletedWithError"
| "upscale_state Succeeded = GracefulUpscaleSucceeded"

fun downscale_state :: "phase \<Rightarrow> CruiseControlState" where
  "downscale_state Scheduled = GracefulDownscaleScheduled"
| "downscale_state Running = GracefulDownscaleRunning"
| "downscale_state Paused = GracefulDownscalePaused"
| "downscale_state Failed = GracefulDownscaleCompletedWithError"
| "downscale_state Succeeded = GracefulDownscaleSucceeded"

fun removal_state :: "phase \<Rightarrow> CruiseControlVolumeState" where
  "removal_state Scheduled = GracefulDiskRemovalScheduled"
| "removal_state Running = GracefulDiskRemovalRunning"
| "removal_state Paused = GracefulDiskRemovalPaused"
| "removal_state Failed = GracefulDiskRemovalCompletedWithError"
| "removal_state Succeeded = GracefulDiskRemovalSucceeded"

fun rebalance_state :: "phase \<Rightarrow> CruiseControlVolumeState" where
  "rebalance_state Scheduled = GracefulDiskRebalanceScheduled"
| "rebalance_state Running = GracefulDiskRebalanceRunning"
| "rebalance_state Paused = GracefulDiskRebalancePaused"
| "rebalance_state Failed = GracefulDiskRebalanceCompletedWithError"
| "rebalance_state Succeeded = GracefulDiskRebalanceSucceeded"

definition set_phase :: "phase \<Rightarrow> CCTask \<Rightarrow> CCTask" where
  "set_phase p t = (case taskOperation t of
     OperationAddBroker \<Rightarrow> t\<lparr>taskBrokerState := upscale_state p\<rparr>
   | OperationRemoveBroker \<Rightarrow> t\<lparr>taskBrokerState := downscale_state p\<rparr>
   | OperationRemoveDisks \<Rightarrow> t\<lparr>taskVolumeState := removal_state p\<rparr>
   | OperationRebalance \<Rightarrow> t\<lparr>taskVolumeState := rebalance_state p\<rparr>
   | _ \<Rightarrow> t)"

lemma SetStateScheduled_phase: "SetStateScheduled t = set_phase Scheduled t"
  by (simp add: SetStateScheduled_def set_phase_def split: CruiseControlTaskOperation.split)

lemmas from_result_defs =
  from_result_add_broker_def from_result_remove_broker_def from_result_remove_disks_def from_result_rebalance_def

lemma FromResult_phase:
  "FromResult operation t = (case phase_of operation of None \<Rightarrow> t | Some p \<Rightarrow> set_phase p t)"
proof (cases operation)
  case None
  then show ?thesis
    by (simp add: FromResult_def phase_of_def set_phase_def from_result_defs split: CruiseControlTaskOperation.split)
next
  case (Some op)
  then show ?thesis
    by (cases "CurrentTaskState op")
      (simp_all add: FromResult_def phase_of_def set_phase_def from_result_defs IsFinished_def IsDone_def
        IsErrorPolicyIgnore_def split: CruiseControlTaskOperation.split)
qed

lemma set_phase_keeps [simp]:
  "BrokerID (set_phase p t) = BrokerID t" "Volume (set_phase p t) = Volume t"
  "taskOperation (set_phase p t) = taskOperation t" "taskReference (set_phase p t) = taskReference t"
  by (simp_all add: set_phase_def split: CruiseControlTaskOperation.split)

text \<open>A task that the controller still has to take care of.\<close>

definition task_active :: "CCTask \<Rightarrow> bool" where
  "task_active t \<longleftrightarrow> (case taskOperation t of
     OperationAddBroker \<Rightarrow> IsActive (taskBrokerState t) \<and> IsUpscale (taskBrokerState t)
   | OperationRemoveBroker \<Rightarrow> IsActive (taskBrokerState t) \<and> IsDownscale (taskBrokerState t)
   | OperationRebalance \<Rightarrow> IsDiskRebalance (taskVolumeState t)
   | OperationRemoveDisks \<Rightarrow> IsDiskRemoval (taskVolumeState t)
   | _ \<Rightarrow> False)"

lemma task_active_set_phase:
  "task_active t \<Longrightarrow> task_active (set_phase p t) \<longleftrightarrow> p \<noteq> Succeeded"
  by (cases p) (simp_all add: task_active_def set_phase_def cc_state_defs split: CruiseControlTaskOperation.splits)

lemma set_phase_not_required: "task_active t \<Longrightarrow> \<not> IsRequired (Some (set_phase p t))"
  by (cases p) (simp_all add: task_active_def set_phase_def cc_state_defs IsRequired_def split: CruiseControlTaskOperation.splits)

lemma phase_of_succeeded: "phase_of operation = Some Succeeded \<longleftrightarrow> (case operation of None \<Rightarrow> True | Some op \<Rightarrow> IsFinished op)"
  by (auto simp: phase_of_def split: option.splits CruiseControlUserTaskState.splits)

section \<open>The container as a list\<close>

definition tasks_ok :: "CCTasks \<Rightarrow> bool" where
  "tasks_ok s \<longleftrightarrow> (\<forall>o'. byOp s o' = filter (\<lambda>i. taskOperation (tasks s ! i) = o') [0..<length (tasks s)])"

lemma tasks_ok_new: "tasks_ok newCruiseControlTasksAndStates"
  by (simp add: tasks_ok_def newCruiseControlTasksAndStates_def byOp_def)

lemma byOp_Add: "byOp (Tasks_Add t s) o' = (if o' = taskOperation t then byOp s o' @ [length (tasks s)] else byOp s o')"
  by (simp add: byOp_def Tasks_Add_def gm_get_update)

lemma tasks_ok_Add: "tasks_ok s \<Longrightarrow> tasks_ok (Tasks_Add t s)"
proof -
  assume ok: "tasks_ok s"
  have "filter (\<lambda>i. taskOperation (tasks (Tasks_Add t s) ! i) = o') [0..<length (tasks s)]
        = filter (\<lambda>i. taskOperation (tasks s ! i) = o') [0..<length (tasks s)]" for o'
    by (rule filter_cong) (simp_all add: Tasks_Add_def nth_append)
  then show ?thesis
    using ok by (simp add: tasks_ok_def byOp_Add) (simp add: Tasks_Add_def)
qed

lemma tasks_ok_map:
  assumes "tasks_ok s" and "\<And>t. taskOperation (f t) = taskOperation t"
  shows "tasks_ok (s\<lparr>tasks := map f (tasks s)\<rparr>)"
proof -
  have "filter (\<lambda>i. taskOperation (map f (tasks s) ! i) = o') [0..<length (tasks s)]
        = filter (\<lambda>i. taskOperation (tasks s ! i) = o') [0..<length (tasks s)]" for o'
    by (rule filter_cong) (simp_all add: assms(2))
  then show ?thesis using assms(1) by (simp add: tasks_ok_def byOp_def)
qed

lemma tasks_ok_set_task:
  assumes "tasks_ok s" and "\<And>t. taskOperation (f t) = taskOperation t"
  shows "tasks_ok (set_task f i s)"
proof -
  have "filter (\<lambda>j. taskOperation ((tasks s)[i := f (tasks s ! i)] ! j) = o') [0..<length (tasks s)]
        = filter (\<lambda>j. taskOperation (tasks s ! j) = o') [0..<length (tasks s)]" for o'
    by (cases "i < length (tasks s)") (auto simp: nth_list_update assms(2) intro!: filter_cong)
  then show ?thesis using assms(1) by (simp add: tasks_ok_def byOp_def set_task_def)
qed

lemma active_iff:
  assumes "tasks_ok s"
  shows "i \<in> set (GetActiveTasksByOp o' s) \<longleftrightarrow>
           i < length (tasks s) \<and> taskOperation (tasks s ! i) = o' \<and> IsRequired (Some (tasks s ! i))"
  using assms by (auto simp: GetActiveTasksByOp_def tasks_ok_def)

lemma tasks_Add [simp]: "tasks (Tasks_Add t s) = tasks s @ [t]"
  by (simp add: Tasks_Add_def)

definition btasks :: "string \<Rightarrow> GracefulActionState \<Rightarrow> CCTask list" where
  "btasks brokerId state =
     (if IsActive (gasCruiseControlState state) then
        if IsUpscale (gasCruiseControlState state) then [broker_task brokerId state OperationAddBroker]
        else if IsDownscale (gasCruiseControlState state) then [broker_task brokerId state OperationRemoveBroker]
        else []
      else [])"

definition vtasks :: "string \<Rightarrow> string \<times> VolumeState \<Rightarrow> CCTask list" where
  "vtasks brokerId mv =
     (if IsDiskRebalance (volCruiseControlVolumeState (snd mv)) then [volume_task brokerId (fst mv) (snd mv) OperationRebalance]
      else if IsDiskRemoval (volCruiseControlVolumeState (snd mv)) then [volume_task brokerId (fst mv) (snd mv) OperationRemoveDisks]
      else [])"

definition gas_tasks :: "string \<Rightarrow> GracefulActionState \<Rightarrow> CCTask list" where
  "gas_tasks brokerId state = btasks brokerId state @ concat (map (vtasks brokerId) (VolumeStates state))"

lemma add_broker_task_list: "tasks (add_broker_task b st s) = tasks s @ btasks b st"
  by (simp add: add_broker_task_def btasks_def)

lemma add_volume_task_list: "tasks (add_volume_task b mv s) = tasks s @ vtasks b mv"
  by (simp add: add_volume_task_def vtasks_def case_prod_beta)

lemma add_volume_tasks_list: "tasks (fold (add_volume_task b) mvs s) = tasks s @ concat (map (vtasks b) mvs)"
  by (induction mvs arbitrary: s) (simp_all add: add_volume_task_list)

lemma add_broker_tasks_list: "tasks (fold add_broker_tasks bs s) = tasks s @ concat (map (\<lambda>(b, st). gas_tasks b (bsGracefulActionState st)) bs)"
  by (induction bs arbitrary: s) (auto simp: add_broker_tasks_def add_volume_tasks_list add_broker_task_list gas_tasks_def)

lemma active_tasks_list:
  "tasks (getActiveTasksFromCluster inst) = concat (map (\<lambda>(b, st). gas_tasks b (bsGracefulActionState st)) (BrokersState inst))"
  by (simp add: getActiveTasksFromCluster_def add_broker_tasks_list newCruiseControlTasksAndStates_def)

lemma tasks_ok_fold: "(\<And>x s. tasks_ok s \<Longrightarrow> tasks_ok (g x s)) \<Longrightarrow> tasks_ok s \<Longrightarrow> tasks_ok (fold g xs s)"
  by (induction xs arbitrary: s) auto

lemma tasks_ok_active: "tasks_ok (getActiveTasksFromCluster inst)"
proof -
  have v: "tasks_ok s \<Longrightarrow> tasks_ok (add_volume_task b mv s)" for b mv s
    by (simp add: add_volume_task_def tasks_ok_Add split: prod.split)
  have b: "tasks_ok s \<Longrightarrow> tasks_ok (add_broker_tasks bs s)" for bs s
    by (auto simp: add_broker_tasks_def add_broker_task_def tasks_ok_Add split: prod.split intro!: tasks_ok_fold v)
  show ?thesis unfolding getActiveTasksFromCluster_def by (rule tasks_ok_fold [OF b tasks_ok_new])
qed

lemma task_active_all:
  "t \<in> set (tasks (getActiveTasksFromCluster inst)) \<Longrightarrow> task_active t"
  unfolding active_tasks_list
  by (auto simp: gas_tasks_def btasks_def vtasks_def task_active_def broker_task_def volume_task_def split: if_splits)

section \<open>Synchronising the cluster status\<close>

lemma update_middle: "k \<notin> fst ` set pre \<Longrightarrow> AList.update k v (pre @ (k, w) # post) = pre @ (k, v) # post"
  by (induction pre) auto

lemma map_of_middle: "k \<notin> fst ` set pre \<Longrightarrow> map_of (pre @ (k, w) # post) k = Some w"
  by (induction pre) auto

text \<open>What the tasks of one broker, changed by \<open>f\<close>, write into its graceful action state.\<close>

definition sync_cc :: "(CCTask \<Rightarrow> CCTask) \<Rightarrow> string \<Rightarrow> GracefulActionState \<Rightarrow> GracefulActionState" where
  "sync_cc f b gas = (case btasks b gas of [] \<Rightarrow> gas
     | t # _ \<Rightarrow> gas\<lparr>gasCruiseControlState := taskBrokerState (f t),
                    gasCruiseControlOperationReference := taskReference (f t)\<rparr>)"

definition sync_volume :: "(CCTask \<Rightarrow> CCTask) \<Rightarrow> string \<Rightarrow> string \<times> VolumeState \<Rightarrow> string \<times> VolumeState" where
  "sync_volume f b mv = (fst mv, case vtasks b mv of [] \<Rightarrow> snd mv
     | t # _ \<Rightarrow> (snd mv)\<lparr>volCruiseControlVolumeState := taskVolumeState (f t),
                         volCruiseControlOperationReference := taskReference (f t)\<rparr>)"

definition sync_broker :: "(CCTask \<Rightarrow> CCTask) \<Rightarrow> string \<times> BrokerState \<Rightarrow> string \<times> BrokerState" where
  "sync_broker f bs = (fst bs, (snd bs)\<lparr>bsGracefulActionState :=
     (let gas = bsGracefulActionState (snd bs) in
        (sync_cc f (fst bs) gas)\<lparr>VolumeStates := map (sync_volume f (fst bs)) (VolumeStates gas)\<rparr>)\<rparr>)"

definition task_frame :: "(CCTask \<Rightarrow> CCTask) \<Rightarrow> bool" where
  "task_frame f \<longleftrightarrow> (\<forall>t. BrokerID (f t) = BrokerID t \<and> Volume (f t) = Volume t \<and> taskOperation (f t) = taskOperation t)"

lemma task_frameD:
  assumes "task_frame f"
  shows "BrokerID (f t) = BrokerID t" "Volume (f t) = Volume t" "taskOperation (f t) = taskOperation t"
  using assms by (simp_all add: task_frame_def)

lemma apply_broker_middle:
  assumes "b \<notin> fst ` set pre" "BrokersState inst = pre @ (b, st) # post" "task_frame f"
  shows "fold apply_task (map f (btasks b (bsGracefulActionState st))) inst =
         inst\<lparr>BrokersState := pre @ (b, st\<lparr>bsGracefulActionState := sync_cc f b (bsGracefulActionState st)\<rparr>) # post\<rparr>"
proof -
  have "apply_broker_state t inst = inst\<lparr>BrokersState := pre @ (b, st\<lparr>bsGracefulActionState :=
       (bsGracefulActionState st)\<lparr>gasCruiseControlState := taskBrokerState t,
          gasCruiseControlOperationReference := taskReference t\<rparr>\<rparr>) # post\<rparr>" if "BrokerID t = b" for t
    using assms(1,2) that by (simp add: apply_broker_state_def map_of_middle update_middle del: map_of_append)
  then show ?thesis
    using assms(2) task_frameD [OF assms(3)]
    by (simp add: btasks_def sync_cc_def apply_task_def broker_task_def)
qed

lemma apply_volume_middle:
  assumes "b \<notin> fst ` set pre" "BrokersState inst = pre @ (b, st) # post" "task_frame f"
    and "m \<notin> fst ` set vpre" "VolumeStates (bsGracefulActionState st) = vpre @ (m, v) # vpost"
  shows "fold apply_task (map f (vtasks b (m, v))) inst =
         inst\<lparr>BrokersState := pre @ (b, st\<lparr>bsGracefulActionState := (bsGracefulActionState st)
                \<lparr>VolumeStates := vpre @ sync_volume f b (m, v) # vpost\<rparr>\<rparr>) # post\<rparr>"
proof -
  have "apply_volume_state t inst = inst\<lparr>BrokersState := pre @ (b, st\<lparr>bsGracefulActionState := (bsGracefulActionState st)
          \<lparr>VolumeStates := vpre @ (m, v\<lparr>volCruiseControlVolumeState := taskVolumeState t,
             volCruiseControlOperationReference := taskReference t\<rparr>) # vpost\<rparr>\<rparr>) # post\<rparr>"
    if "BrokerID t = b" "Volume t = m" for t
    using assms that by (simp add: apply_volume_state_def map_of_middle update_middle Let_def del: map_of_append)
  then show ?thesis
    using assms(2,5) task_frameD [OF assms(3)]
    by (simp add: vtasks_def sync_volume_def apply_task_def volume_task_def)
qed

lemma fst_sync_volume [simp]: "fst (sync_volume f b mv) = fst mv"
  by (simp add: sync_volume_def)

lemma fst_sync_broker [simp]: "fst (sync_broker f bs) = fst bs"
  by (simp add: sync_broker_def)

lemma apply_volumes_middle:
  assumes "b \<notin> fst ` set pre" "task_frame f"
  shows "BrokersState inst = pre @ (b, st) # post \<Longrightarrow> VolumeStates (bsGracefulActionState st) = vpre @ vs \<Longrightarrow>
           distinct (map fst (vpre @ vs)) \<Longrightarrow>
           fold apply_task (map f (concat (map (vtasks b) vs))) inst =
             inst\<lparr>BrokersState := pre @ (b, st\<lparr>bsGracefulActionState := (bsGracefulActionState st)
                \<lparr>VolumeStates := vpre @ map (sync_volume f b) vs\<rparr>\<rparr>) # post\<rparr>"
proof (induction vs arbitrary: inst st vpre)
  case Nil
  then show ?case by simp
next
  case (Cons mv vs)
  let ?st = "st\<lparr>bsGracefulActionState := (bsGracefulActionState st)\<lparr>VolumeStates := vpre @ sync_volume f b mv # vs\<rparr>\<rparr>"
  let ?inst = "inst\<lparr>BrokersState := pre @ (b, ?st) # post\<rparr>"
  have "fold apply_task (map f (vtasks b mv)) inst = ?inst"
    using apply_volume_middle [OF assms(1) Cons.prems(1) assms(2), of "fst mv" vpre "snd mv" vs] Cons.prems(2,3) by simp
  moreover have "fold apply_task (map f (concat (map (vtasks b) vs))) ?inst =
      ?inst\<lparr>BrokersState := pre @ (b, ?st\<lparr>bsGracefulActionState := (bsGracefulActionState ?st)
        \<lparr>VolumeStates := (vpre @ [sync_volume f b mv]) @ map (sync_volume f b) vs\<rparr>\<rparr>) # post\<rparr>"
    by (rule Cons.IH) (use Cons.prems(3) in simp_all)
  ultimately show ?case by simp
qed

lemma apply_gas_middle:
  assumes "b \<notin> fst ` set pre" "task_frame f" "BrokersState inst = pre @ (b, st) # post"
    and "gm_ok (VolumeStates (bsGracefulActionState st))"
  shows "fold apply_task (map f (gas_tasks b (bsGracefulActionState st))) inst =
           inst\<lparr>BrokersState := pre @ sync_broker f (b, st) # post\<rparr>"
proof -
  let ?st = "st\<lparr>bsGracefulActionState := sync_cc f b (bsGracefulActionState st)\<rparr>"
  let ?inst = "inst\<lparr>BrokersState := pre @ (b, ?st) # post\<rparr>"
  have vol: "VolumeStates (sync_cc f b gas) = VolumeStates gas" for gas
    by (simp add: sync_cc_def split: list.split)
  have "fold apply_task (map f (concat (map (vtasks b) (VolumeStates (bsGracefulActionState st))))) ?inst =
      ?inst\<lparr>BrokersState := pre @ (b, ?st\<lparr>bsGracefulActionState := (bsGracefulActionState ?st)
        \<lparr>VolumeStates := [] @ map (sync_volume f b) (VolumeStates (bsGracefulActionState st))\<rparr>\<rparr>) # post\<rparr>"
    by (rule apply_volumes_middle [OF assms(1,2)]) (use assms(4) vol in simp_all)
  then show ?thesis
    using apply_broker_middle [OF assms(1,3,2)] by (simp add: gas_tasks_def sync_broker_def Let_def)
qed

definition cluster_ok :: "KafkaCluster \<Rightarrow> bool" where
  "cluster_ok inst \<longleftrightarrow> gm_ok (BrokersState inst) \<and>
     (\<forall>(b, st) \<in> set (BrokersState inst). gm_ok (VolumeStates (bsGracefulActionState st)))"

lemma apply_all:
  assumes "task_frame f"
  shows "BrokersState inst = pre @ bs \<Longrightarrow> distinct (map fst (pre @ bs)) \<Longrightarrow>
           (\<forall>(b, st) \<in> set bs. gm_ok (VolumeStates (bsGracefulActionState st))) \<Longrightarrow>
           fold apply_task (map f (concat (map (\<lambda>(b, st). gas_tasks b (bsGracefulActionState st)) bs))) inst =
             inst\<lparr>BrokersState := pre @ map (sync_broker f) bs\<rparr>"
proof (induction bs arbitrary: inst pre)
  case Nil
  then show ?case by simp
next
  case (Cons x bs)
  obtain b st where x: "x = (b, st)" by (cases x)
  let ?inst = "inst\<lparr>BrokersState := pre @ sync_broker f (b, st) # bs\<rparr>"
  have "fold apply_task (map f (gas_tasks b (bsGracefulActionState st))) inst = ?inst"
    by (rule apply_gas_middle [OF _ assms]) (use Cons.prems x in auto)
  moreover have "fold apply_task (map f (concat (map (\<lambda>(b, st). gas_tasks b (bsGracefulActionState st)) bs))) ?inst =
      ?inst\<lparr>BrokersState := (pre @ [sync_broker f (b, st)]) @ map (sync_broker f) bs\<rparr>"
    by (rule Cons.IH) (use Cons.prems x in auto)
  ultimately show ?case using x by simp
qed

lemma SyncState_active:
  assumes "cluster_ok inst" "task_frame f"
  shows "SyncState ((getActiveTasksFromCluster inst)\<lparr>tasks := map f (tasks (getActiveTasksFromCluster inst))\<rparr>) inst =
           inst\<lparr>BrokersState := map (sync_broker f) (BrokersState inst)\<rparr>"
  using apply_all [OF assms(2), of inst "[]" "BrokersState inst"] assms(1)
  by (simp add: SyncState_def active_tasks_list cluster_ok_def)

section \<open>Properties\<close>

text \<open>The operation that a reference names: of several with the same name the last one listed.\<close>

definition named_op :: "CruiseControlOperation list \<Rightarrow> string \<Rightarrow> CruiseControlOperation option" where
  "named_op ops n = map_of (rev (map (\<lambda>op. (Name (Meta op), op)) ops)) n"

lemma op_map_lookup: "map_of (fold (\<lambda>op. AList.update (Name (Meta op)) op) ops []) n = named_op ops n"
proof -
  have "fold (\<lambda>op. AList.update (Name (Meta op)) op) ops [] =
        fold (\<lambda>(k, v). AList.update k v) (map (\<lambda>op. (Name (Meta op), op)) ops) []"
    by (simp add: fold_map comp_def)
  then show ?thesis by (simp add: gm.lookup_store_all named_op_def split: option.split)
qed

definition refreshed_cc :: "CruiseControlOperation list \<Rightarrow> string option \<Rightarrow> CruiseControlState \<Rightarrow> CruiseControlState" where
  "refreshed_cc ops ref c = (case ref of None \<Rightarrow> c
     | Some r \<Rightarrow> (case phase_of (named_op ops r) of None \<Rightarrow> c
         | Some p \<Rightarrow> if \<not> IsActive c then c else if IsUpscale c then upscale_state p else downscale_state p))"

definition refreshed_volume :: "CruiseControlOperation list \<Rightarrow> string option \<Rightarrow> CruiseControlVolumeState \<Rightarrow> CruiseControlVolumeState" where
  "refreshed_volume ops ref c = (case ref of None \<Rightarrow> c
     | Some r \<Rightarrow> (case phase_of (named_op ops r) of None \<Rightarrow> c
         | Some p \<Rightarrow> if IsDiskRebalance c then rebalance_state p else if IsDiskRemoval c then removal_state p else c))"

definition refreshed_gas :: "CruiseControlOperation list \<Rightarrow> GracefulActionState \<Rightarrow> GracefulActionState" where
  "refreshed_gas ops gas = gas
     \<lparr>gasCruiseControlState := refreshed_cc ops (gasCruiseControlOperationReference gas) (gasCruiseControlState gas),
      VolumeStates := map (\<lambda>(m, v). (m, v\<lparr>volCruiseControlVolumeState :=
         refreshed_volume ops (volCruiseControlOperationReference v) (volCruiseControlVolumeState v)\<rparr>)) (VolumeStates gas)\<rparr>"

lemma task_frame_refresh: "task_frame (refresh_task m)"
  by (auto simp: task_frame_def refresh_task_def FromResult_phase split: option.split)

lemma active_scale: "IsActive c \<Longrightarrow> IsUpscale c \<or> IsDownscale c"
  by (auto simp: cc_state_defs)

lemma sync_refresh_volume:
  "sync_volume (refresh_task (fold (\<lambda>op. AList.update (Name (Meta op)) op) ops [])) b =
     (\<lambda>(m, v). (m, v\<lparr>volCruiseControlVolumeState := refreshed_volume ops (volCruiseControlOperationReference v) (volCruiseControlVolumeState v)\<rparr>))"
  by (auto simp: fun_eq_iff sync_volume_def vtasks_def refresh_task_def FromResult_phase op_map_lookup refreshed_volume_def
      volume_task_def set_phase_def split: option.split)

lemma sync_refresh_cc:
  "sync_cc (refresh_task (fold (\<lambda>op. AList.update (Name (Meta op)) op) ops [])) b gas =
     gas\<lparr>gasCruiseControlState := refreshed_cc ops (gasCruiseControlOperationReference gas) (gasCruiseControlState gas)\<rparr>"
  using active_scale [of "gasCruiseControlState gas"]
  by (auto simp: sync_cc_def btasks_def refresh_task_def FromResult_phase op_map_lookup refreshed_cc_def
      broker_task_def set_phase_def split: option.split)

text \<open>A task follows the operation it refers to by one table, whatever its kind. The task leaves the
  active states exactly when its operation has disappeared or is finished, and once the operation
  reports a known state the task no longer asks for an operation to be created.\<close>

theorem from_result_correct:
  assumes "task_active t"
  shows "FromResult operation t = (case phase_of operation of None \<Rightarrow> t | Some p \<Rightarrow> set_phase p t) \<and>
    (task_active (FromResult operation t) \<longleftrightarrow> (\<exists>op. operation = Some op \<and> \<not> IsFinished op)) \<and>
    (phase_of operation \<noteq> None \<longrightarrow> \<not> IsRequired (Some (FromResult operation t))) \<and>
    FromResult operation (FromResult operation t) = FromResult operation t"
proof -
  have "set_phase p (set_phase p t) = set_phase p t" for p
    by (simp add: set_phase_def split: CruiseControlTaskOperation.split)
  moreover have "task_active (FromResult operation t) \<longleftrightarrow> phase_of operation \<noteq> Some Succeeded"
    using assms by (simp add: FromResult_phase task_active_set_phase split: option.split)
  ultimately show ?thesis
    using assms set_phase_not_required [OF assms] phase_of_succeeded [of operation]
    by (auto simp: FromResult_phase split: option.splits)
qed

theorem from_result_correct_witness:
  "FromResult None \<lparr>BrokerID = ''1'', taskBrokerState = GracefulUpscaleRunning, Volume = [], taskVolumeState = VolumeStateNone,
      taskOperation = OperationAddBroker, taskReference = Some ''op''\<rparr> =
    \<lparr>BrokerID = ''1'', taskBrokerState = GracefulUpscaleSucceeded, Volume = [], taskVolumeState = VolumeStateNone,
      taskOperation = OperationAddBroker, taskReference = Some ''op''\<rparr>"
proof -
  let ?t = "\<lparr>BrokerID = ''1'', taskBrokerState = GracefulUpscaleRunning, Volume = [], taskVolumeState = VolumeStateNone,
      taskOperation = OperationAddBroker, taskReference = Some ''op''\<rparr>"
  have "task_active ?t" by (simp add: task_active_def cc_state_defs)
  from from_result_correct [OF this, of None] show ?thesis by (simp add: phase_of_def set_phase_def)
qed

text \<open>(C15) Collecting the active tasks of a cluster, refreshing them from the listed operations and writing
  them back changes the status of every broker and volume to the refreshed state and nothing else:
  no other field, no broker and no volume is added, lost or reordered. Without the refresh the status
  is a fixed point.\<close>

theorem status_sync_correct:
  assumes "cluster_ok inst"
  shows "SyncState (updateActiveTasks ops (getActiveTasksFromCluster inst)) inst =
      inst\<lparr>BrokersState := map (\<lambda>(b, st). (b, st\<lparr>bsGracefulActionState := refreshed_gas ops (bsGracefulActionState st)\<rparr>))
             (BrokersState inst)\<rparr> \<and>
    SyncState (getActiveTasksFromCluster inst) inst = inst"
proof -
  let ?f = "refresh_task (fold (\<lambda>op. AList.update (Name (Meta op)) op) ops [])"
  have "sync_broker ?f = (\<lambda>(b, st). (b, st\<lparr>bsGracefulActionState := refreshed_gas ops (bsGracefulActionState st)\<rparr>))"
    by (rule ext) (simp add: sync_broker_def sync_refresh_cc sync_refresh_volume refreshed_gas_def Let_def split: prod.split)
  moreover have "sync_volume id b (m, v) = (m, v)" for b m v
    by (simp add: sync_volume_def vtasks_def volume_task_def)
  then have "map (sync_volume id b) vs = vs" for b vs by (simp add: map_idI split_paired_all)
  then have "sync_broker id = id"
    by (auto simp: fun_eq_iff sync_broker_def sync_cc_def btasks_def broker_task_def Let_def)
  ultimately show ?thesis
    using SyncState_active [OF assms task_frame_refresh] SyncState_active [OF assms, of id]
    by (simp add: updateActiveTasks_def Let_def task_frame_def)
qed

definition sample_cluster :: KafkaCluster where
  "sample_cluster = zero_KafkaCluster\<lparr>kcName := ''kafka'', kcNamespace := ''ns'', kcGeneration := 1,
     kcSpec := zero_KafkaClusterSpec\<lparr>HeadlessServiceEnabled := True, specRollingUpgradeConfig := \<lparr>FailureThreshold = 1, ConcurrentBrokerRestartCountPerRack = 1\<rparr>\<rparr>,
     BrokersState := [(''0'', \<lparr>RackAwarenessState = [],
       bsGracefulActionState = \<lparr>gasCruiseControlState = GracefulDownscaleRunning, gasCruiseControlOperationReference = Some ''gone'',
          VolumeStates = [(''/logs'', \<lparr>volCruiseControlVolumeState = GracefulDiskRebalanceRequired,
                                       volCruiseControlOperationReference = None\<rparr>)]\<rparr>,
       ConfigurationState = [], PerBrokerConfigurationState = [], ExternalListenerConfigNames = [],
       Version = [], Image = [], ConfigurationBackup = []\<rparr>)],
     ClusterState := ''ClusterRunning''\<rparr>"

lemma sample_cluster_ok: "cluster_ok sample_cluster"
  by (simp add: sample_cluster_def cluster_ok_def)

theorem status_sync_correct_witness:
  "map (\<lambda>(b, st). gasCruiseControlState (bsGracefulActionState st))
     (BrokersState (SyncState (updateActiveTasks [] (getActiveTasksFromCluster sample_cluster)) sample_cluster))
   = [GracefulDownscaleSucceeded]"
  using status_sync_correct [OF sample_cluster_ok, of "[]"]
  by (simp add: sample_cluster_def refreshed_gas_def refreshed_cc_def named_op_def phase_of_def cc_state_defs)

end
