(* ===== verification/KafkaConfig.thy ===== *)
theory KafkaConfig
  imports Scaler "HOL-Library.Multiset"
begin

text \<open>
  The configuration of a broker and the helpers that read it: the methods of \<open>BrokerConfig\<close> and \<open>Broker\<close>
  in \<open>api/v1beta1/kafkacluster_types.go\<close> and the functions of \<open>pkg/util/util.go\<close> over brokers, labels and
  lists. The library \<open>mergo\<close>, which merges a configuration with its group, is a parameter.
\<close>

section \<open>Broker configuration (api/v1beta1/kafkacluster\_types.go)\<close>

definition ControllerNodeProcessRole :: string where
  "ControllerNodeProcessRole = ''controller''"

definition BrokerNodeProcessRole :: string where
  "BrokerNodeProcessRole = ''broker''"

definition BrokerIdLabelKey :: string where
  "BrokerIdLabelKey = ''brokerId''"

definition IsBrokerNode :: "BrokerConfig \<Rightarrow> bool" where
  "IsBrokerNode c = StringSliceContains (Roles c) BrokerNodeProcessRole"

definition IsControllerNode :: "BrokerConfig \<Rightarrow> bool" where
  "IsControllerNode c = StringSliceContains (Roles c) ControllerNodeProcessRole"

definition IsBrokerOnlyNode :: "BrokerConfig \<Rightarrow> bool" where
  "IsBrokerOnlyNode c \<longleftrightarrow> IsBrokerNode c \<and> \<not> IsControllerNode c"

definition IsControllerOnlyNode :: "BrokerConfig \<Rightarrow> bool" where
  "IsControllerOnlyNode c \<longleftrightarrow> IsControllerNode c \<and> \<not> IsBrokerNode c"

definition IsCombinedNode :: "BrokerConfig \<Rightarrow> bool" where
  "IsCombinedNode c \<longleftrightarrow> IsBrokerNode c \<and> IsControllerNode c"

definition zero_BrokerConfig :: BrokerConfig where
  "zero_BrokerConfig = \<lparr>Roles = [], bcImage = [], bcMetricsReporterImage = [], StorageConfigs = [], BrokerLabels = [],
     BrokerAnnotations = [], Affinity = None, BrokerIngressMapping = [], Envs = [], TerminationGracePeriod = None,
     bcConfig = [], Log4jConfig = [], Tolerations = [], NodePortExternalIP = [], NodePortNodeAddressType = [], KafkaHeapOpts = [],
     KafkaJVMPerfOpts = [], InitContainers = [], Containers = [], Volumes = [], VolumeMounts = [], ServiceAccountName = [],
     Resources = None, ImagePullSecrets = [], NodeSelector = [], PodSecurityContext = [], SecurityContext = [], PriorityClassName = []\<rparr>"

text \<open>The ways the code calls \<open>mergo.Merge\<close>: of two affinities with \<open>WithOverride\<close>, of two broker configurations
  with \<open>WithAppendSlice\<close>, and with no option of the settings of an ingress; the destination is the first argument.\<close>

record mergo =
  Merge_WithOverride :: "string \<Rightarrow> string \<Rightarrow> err + string"
  Merge_WithAppendSlice :: "BrokerConfig \<Rightarrow> BrokerConfig \<Rightarrow> err + BrokerConfig"
  Merge_EnvoyConfig :: "EnvoyConfig \<Rightarrow> EnvoyConfig \<Rightarrow> err + EnvoyConfig"
  Merge_IstioIngressConfig :: "string \<Rightarrow> string \<Rightarrow> err + string"
  Merge_ContourIngressConfig :: "ContourIngressConfig \<Rightarrow> ContourIngressConfig \<Rightarrow> err + ContourIngressConfig"
  Merge_IngressServiceSettings :: "IngressServiceSettings \<Rightarrow> IngressServiceSettings \<Rightarrow> err + IngressServiceSettings"

definition mergeEnvs :: "KafkaClusterSpec \<Rightarrow> BrokerConfig \<Rightarrow> BrokerConfig option \<Rightarrow> EnvVar list" where
  "mergeEnvs spec groupConfig bConfig =
     specEnvs spec @ Envs groupConfig @ (case bConfig of None \<Rightarrow> [] | Some c \<Rightarrow> Envs c)"

definition or_empty :: "string option \<Rightarrow> string" where
  "or_empty a = (case a of None \<Rightarrow> [] | Some s \<Rightarrow> s)"

definition mergeAffinity :: "mergo \<Rightarrow> BrokerConfig \<Rightarrow> BrokerConfig \<Rightarrow> err + string" where
  "mergeAffinity M groupConfig bConfig =
     Merge_WithOverride M (or_empty (Affinity groupConfig)) (or_empty (Affinity bConfig))"

fun dedup_storage :: "string list \<Rightarrow> StorageConfig list \<Rightarrow> StorageConfig list" where
  "dedup_storage encountered [] = []"
| "dedup_storage encountered (v # vs) =
     (if MountPath v \<notin> set encountered then v # dedup_storage (MountPath v # encountered) vs
      else dedup_storage encountered vs)"

definition dedupStorageConfigs :: "StorageConfig list \<Rightarrow> StorageConfig list" where
  "dedupStorageConfigs elements = dedup_storage [] elements"

text \<open>A nil configuration of a broker without a group is returned as it is.\<close>

definition GetBrokerConfig :: "mergo \<Rightarrow> Broker \<Rightarrow> KafkaClusterSpec \<Rightarrow> err + BrokerConfig option" where
  "GetBrokerConfig M b spec =
     (if BrokerConfigGroup b = [] then Inr (brokerBrokerConfig b)
      else
        let bConfig = (case brokerBrokerConfig b of None \<Rightarrow> zero_BrokerConfig | Some c \<Rightarrow> c) in
        (case map_of (BrokerConfigGroups spec) (BrokerConfigGroup b) of
           None \<Rightarrow> Inl (NewErr ''missing brokerConfigGroup'')
         | Some groupConfig \<Rightarrow>
             (case mergeAffinity M groupConfig bConfig of
                Inl e \<Rightarrow> Inl (WrapErr ''could not merge brokerConfig.Affinity with ConfigGroup.Affinity'' e)
              | Inr dstAffinity \<Rightarrow>
                  let envs = mergeEnvs spec groupConfig (Some bConfig) in
                  (case Merge_WithAppendSlice M bConfig groupConfig of
                     Inl e \<Rightarrow> Inl (WrapErr ''could not merge brokerConfig with ConfigGroup'' e)
                   | Inr merged \<Rightarrow>
                       let c1 = merged\<lparr>StorageConfigs := dedupStorageConfigs (StorageConfigs merged)\<rparr>;
                           c2 = (if Affinity groupConfig \<noteq> None \<or> Affinity c1 \<noteq> None
                                 then c1\<lparr>Affinity := Some dstAffinity\<rparr> else c1)
                       in Inr (Some (c2\<lparr>Envs := envs\<rparr>))))))"

definition defaultBrokerTerminationGracePeriod :: "64 word" where
  "defaultBrokerTerminationGracePeriod = 120"

definition GetTerminationGracePeriod :: "BrokerConfig \<Rightarrow> 64 word" where
  "GetTerminationGracePeriod c =
     (case TerminationGracePeriod c of None \<Rightarrow> defaultBrokerTerminationGracePeriod | Some p \<Rightarrow> p)"

text \<open>The loop appends a comma after every element but the one at the last index.\<close>

fun mount_paths :: "nat \<Rightarrow> nat \<Rightarrow> StorageConfig list \<Rightarrow> string \<Rightarrow> string" where
  "mount_paths n i [] acc = acc"
| "mount_paths n i (sc # scs) acc =
     (if int i \<noteq> int n - 1 then mount_paths n (Suc i) scs (acc @ MountPath sc @ '','')
      else mount_paths n (Suc i) scs (acc @ MountPath sc))"

definition GetStorageMountPaths :: "BrokerConfig \<Rightarrow> string" where
  "GetStorageMountPaths c = mount_paths (length (StorageConfigs c)) 0 (StorageConfigs c) []"

definition bool_str :: "bool \<Rightarrow> string" where
  "bool_str b = (if b then ''true'' else ''false'')"

definition ProcessRolesKey :: string where
  "ProcessRolesKey = ''processRoles''"

definition IsControllerNodeKey :: string where
  "IsControllerNodeKey = ''isControllerNode''"

definition IsBrokerNodeKey :: string where
  "IsBrokerNodeKey = ''isBrokerNode''"

definition GetBrokerLabels :: "BrokerConfig \<Rightarrow> string \<Rightarrow> 32 word \<Rightarrow> bool \<Rightarrow> (string, string) gomap" where
  "GetBrokerLabels c kafkaClusterName brokerId kRaftMode =
     (let kraftLabels =
            (if kRaftMode
             then [(ProcessRolesKey, join ''_'' (Roles c)), (IsControllerNodeKey, bool_str (IsControllerNode c)),
                   (IsBrokerNodeKey, bool_str (IsBrokerNode c))]
             else [(IsControllerNodeKey, bool_str False), (IsBrokerNodeKey, bool_str True)])
      in MergeLabels [BrokerLabels c, LabelsForKafka kafkaClusterName, kraftLabels, [(BrokerIdLabelKey, Itoa (sint brokerId))]])"

section \<open>Helpers (pkg/util/util.go)\<close>

definition IngressConfigGlobalName :: string where
  "IngressConfigGlobalName = ''globalConfig''"

definition MergeAnnotations :: "(string, string) gomap list \<Rightarrow> (string, string) gomap" where
  "MergeAnnotations as = fold (\<lambda>a rtn. fold (\<lambda>(k, v). AList.update k v) a rtn) as []"

definition ConvertStringToInt32 :: "string \<Rightarrow> 32 word" where
  "ConvertStringToInt32 s = (case ParseInt 32 s of None \<Rightarrow> - 1 | Some i \<Rightarrow> int32 i)"

text \<open>
  \<open>StringSliceRemove\<close> ranges over the slice it shortens: the loop reads the backing array \<open>arr\<close>, which the
  append overwrites in place, up to the original length, while \<open>n\<close> is the length of the shortened slice.
  Slicing \<open>list[i+1:]\<close> beyond that length panics.
\<close>

fun slice_remove :: "string \<Rightarrow> nat list \<Rightarrow> string list \<Rightarrow> nat \<Rightarrow> (err, string list) go" where
  "slice_remove s [] arr n = Ret (take n arr)"
| "slice_remove s (i # is) arr n =
     (if arr ! i = s then
        if i + 1 \<le> n then slice_remove s is (take i arr @ drop (i + 1) (take n arr) @ drop (n - 1) arr) (n - 1)
        else Panic
      else slice_remove s is arr n)"

definition StringSliceRemove :: "string list \<Rightarrow> string \<Rightarrow> (err, string list) go" where
  "StringSliceRemove list s = slice_remove s [0..<length list] list (length list)"

text \<open>Both slices are sorted in place; the result is that of the comparison. Comparing a nil with an empty
  slice is left out: both are the empty list here.\<close>

definition AreStringSlicesIdentical :: "string list \<Rightarrow> string list \<Rightarrow> bool" where
  "AreStringSlicesIdentical a b \<longleftrightarrow> sort a = sort b"

definition add_status_id :: "string \<times> BrokerState \<Rightarrow> (int, unit) gomap \<Rightarrow> (int, unit) gomap" where
  "add_status_id bs m = (case Atoi (fst bs) of None \<Rightarrow> m | Some i \<Rightarrow> AList.update i () m)"

definition GetBrokerIdsFromStatusAndSpec :: "(string, BrokerState) gomap \<Rightarrow> Broker list \<Rightarrow> int list" where
  "GetBrokerIdsFromStatusAndSpec brokerStatuses brokers =
     (let m = fold (\<lambda>b. AList.update (sint (BrokerId b)) ()) brokers [];
          m' = fold add_status_id brokerStatuses m
      in sort (map fst m'))"

fun find_broker :: "string \<Rightarrow> Broker list \<Rightarrow> Broker option" where
  "find_broker brokerId [] = None"
| "find_broker brokerId (b # bs) = (if brokerId = Itoa (sint (BrokerId b)) then Some b else find_broker brokerId bs)"

definition GetBrokerFromKafkaClusterSpec :: "string \<Rightarrow> KafkaClusterSpec \<Rightarrow> Broker option" where
  "GetBrokerFromKafkaClusterSpec brokerId spec = find_broker brokerId (Brokers spec)"

text \<open>Asking a nil configuration for its roles panics.\<close>

fun filter_controller_only :: "mergo \<Rightarrow> KafkaClusterSpec \<Rightarrow> string list \<Rightarrow> string list \<Rightarrow> (err, string list) go" where
  "filter_controller_only M spec [] filteredIDs = Ret filteredIDs"
| "filter_controller_only M spec (brokerId # ids) filteredIDs =
     (case GetBrokerFromKafkaClusterSpec brokerId spec of
        None \<Rightarrow> filter_controller_only M spec ids filteredIDs
      | Some broker \<Rightarrow>
          (case GetBrokerConfig M broker spec of
             Inl e \<Rightarrow> Err e
           | Inr None \<Rightarrow> Panic
           | Inr (Some bConfig) \<Rightarrow>
               filter_controller_only M spec ids
                 (if IsControllerOnlyNode bConfig then filteredIDs else filteredIDs @ [Itoa (sint (BrokerId broker))])))"

definition FilterControllerOnlyNodes :: "mergo \<Rightarrow> string list \<Rightarrow> KafkaClusterSpec \<Rightarrow> (err, string list) go" where
  "FilterControllerOnlyNodes M brokerIDs spec = filter_controller_only M spec brokerIDs []"

fun bound_to_broker :: "mergo \<Rightarrow> KafkaClusterSpec \<Rightarrow> string \<Rightarrow> string \<Rightarrow> Broker list \<Rightarrow> (err, bool option) go" where
  "bound_to_broker M spec iConfigName defaultConfigName [] = Ret None"
| "bound_to_broker M spec iConfigName defaultConfigName (b # bs) =
     (case GetBrokerConfig M b spec of
        Inl e \<Rightarrow> Ret (Some False)
      | Inr None \<Rightarrow> Panic
      | Inr (Some c) \<Rightarrow>
          if length (BrokerIngressMapping c) = 0 \<and> iConfigName = defaultConfigName \<or>
             StringSliceContains (BrokerIngressMapping c) iConfigName
          then Ret (Some True) else bound_to_broker M spec iConfigName defaultConfigName bs)"

definition IsIngressConfigInUse :: "mergo \<Rightarrow> string \<Rightarrow> string \<Rightarrow> KafkaCluster \<Rightarrow> (err, bool) go" where
  "IsIngressConfigInUse M iConfigName defaultConfigName cluster =
     (if iConfigName = IngressConfigGlobalName then Ret True
      else (case bound_to_broker M (kcSpec cluster) iConfigName defaultConfigName (Brokers (kcSpec cluster)) of
          Panic \<Rightarrow> Panic
        | Err e \<Rightarrow> Err e
        | Ret (Some r) \<Rightarrow> Ret r
        | Ret None \<Rightarrow>
            Ret (list_ex (\<lambda>(b, st). StringSliceContains (ExternalListenerConfigNames st) iConfigName) (BrokersState cluster))))"

definition ConstructEListenerLabelName :: "string \<Rightarrow> string \<Rightarrow> string" where
  "ConstructEListenerLabelName ingressConfigName eListenerName =
     (let externalListenerName = ReplaceAll eListenerName (CHR ''_'') ''-'' in
      if ingressConfigName = IngressConfigGlobalName then externalListenerName
      else externalListenerName @ ''-'' @ ingressConfigName)"

definition ShouldIncludeBroker ::
  "BrokerConfig option \<Rightarrow> (string, BrokerState) gomap \<Rightarrow> int \<Rightarrow> string \<Rightarrow> string \<Rightarrow> bool" where
  "ShouldIncludeBroker brokerConfig brokersState brokerID defaultIngressConfigName ingressConfigName =
     (case brokerConfig of None \<Rightarrow> False
      | Some c \<Rightarrow>
          if length (Roles c) = 0 \<or> IsBrokerNode c then
            if length (BrokerIngressMapping c) = 0 \<and>
                 (ingressConfigName = defaultIngressConfigName \<or> defaultIngressConfigName = []) \<or>
               StringSliceContains (BrokerIngressMapping c) ingressConfigName
            then True
            else (case map_of brokersState (Itoa brokerID) of
                None \<Rightarrow> False
              | Some st \<Rightarrow> StringSliceContains (ExternalListenerConfigNames st) ingressConfigName)
          else False)"

definition GetBrokerImage :: "BrokerConfig \<Rightarrow> string \<Rightarrow> string" where
  "GetBrokerImage c clusterImage = (if bcImage c \<noteq> [] then bcImage c else clusterImage)"

definition Max_int :: "64 word \<Rightarrow> 64 word \<Rightarrow> 64 word" where
  "Max_int x y = (if x <s y then y else x)"

definition StorageConfigKafkaMountPath :: "string \<Rightarrow> string" where
  "StorageConfigKafkaMountPath mountPath = mountPath @ ''/kafka''"

definition GetExternalPortForBroker :: "32 word \<Rightarrow> 32 word \<Rightarrow> 32 word" where
  "GetExternalPortForBroker externalStartingPort brokerId = externalStartingPort + brokerId"

section \<open>Helpers of the controllers (controllers/controller\_common.go, pkg/scale/utils.go)\<close>

definition clusterRefLabel :: string where
  "clusterRefLabel = ''kafkaCluster''"

definition getClusterRefNamespace :: "string \<Rightarrow> string \<Rightarrow> string" where
  "getClusterRefNamespace ns refNamespace = (if refNamespace = [] then ns else refNamespace)"

definition clusterLabelString :: "KafkaCluster \<Rightarrow> string" where
  "clusterLabelString cluster = kcName cluster @ ''.'' @ kcNamespace cluster"

definition applyClusterRefLabel :: "KafkaCluster \<Rightarrow> (string, string) gomap option \<Rightarrow> (string, string) gomap" where
  "applyClusterRefLabel cluster labels =
     (let labelValue = clusterLabelString cluster;
          l = (case labels of None \<Rightarrow> [] | Some l \<Rightarrow> l)
      in (case map_of l clusterRefLabel of
            Some label \<Rightarrow> if label \<noteq> labelValue then AList.update clusterRefLabel labelValue l else l
          | None \<Rightarrow> AList.update clusterRefLabel labelValue l))"

definition cruiseControlURL :: "string \<Rightarrow> bool \<Rightarrow> string" where
  "cruiseControlURL endpoint secure =
     (let scheme = (if secure then ''https'' else ''http'') in scheme @ ''://'' @ endpoint @ ''/'' @ ''kafkacruisecontrol'')"

definition CruiseControlURL :: "string \<Rightarrow> string \<Rightarrow> string \<Rightarrow> string \<Rightarrow> string" where
  "CruiseControlURL ns domain endpoint name =
     (let url = (if endpoint \<noteq> [] then endpoint
                 else name @ ''-cruisecontrol-svc.'' @ ns @ ''.svc.'' @ domain @ '':8090'')
      in cruiseControlURL url False)"

section \<open>Lemmas\<close>

lemma dedup_storage_distinct:
  "distinct (map MountPath (dedup_storage enc scs)) \<and> set (map MountPath (dedup_storage enc scs)) \<inter> set enc = {}"
  by (induction enc scs rule: dedup_storage.induct) auto

lemma dedup_storage_find:
  "mp \<notin> set enc \<Longrightarrow> find (\<lambda>c. MountPath c = mp) (dedup_storage enc scs) = find (\<lambda>c. MountPath c = mp) scs"
  by (induction enc scs rule: dedup_storage.induct) auto

lemma find_append: "find P (xs @ ys) = (case find P xs of None \<Rightarrow> find P ys | Some x \<Rightarrow> Some x)"
  by (induction xs) auto

lemma mount_paths_join:
  "scs \<noteq> [] \<Longrightarrow> n = i + length scs \<Longrightarrow> mount_paths n i scs acc = acc @ join '','' (map MountPath scs)"
proof (induction scs arbitrary: i acc rule: list_nonempty_induct)
  case (cons sc scs)
  have "mount_paths n i (sc # scs) acc = mount_paths n (Suc i) scs (acc @ MountPath sc @ '','')"
    using cons.hyps cons.prems by (cases scs) simp_all
  also have "\<dots> = (acc @ MountPath sc @ '','') @ join '','' (map MountPath scs)"
    using cons.prems by (intro cons.IH) simp
  finally show ?case using cons.hyps by (cases scs) simp_all
qed simp

lemma find_broker_iff:
  "find_broker i bs = find (\<lambda>b. i = Itoa (sint (BrokerId b))) bs"
  by (induction bs) auto

text \<open>The configuration of a broker id, \<open>None\<close> for an id that the spec does not list.\<close>

definition node_config :: "mergo \<Rightarrow> KafkaClusterSpec \<Rightarrow> string \<Rightarrow> (err, BrokerConfig option) go" where
  "node_config M spec i = (case GetBrokerFromKafkaClusterSpec i spec of None \<Rightarrow> Ret None
     | Some b \<Rightarrow> (case GetBrokerConfig M b spec of Inl e \<Rightarrow> Err e | Inr None \<Rightarrow> Panic | Inr (Some c) \<Rightarrow> Ret (Some c)))"

definition takes_work :: "BrokerConfig option \<Rightarrow> bool" where
  "takes_work c \<longleftrightarrow> (case c of None \<Rightarrow> False | Some c \<Rightarrow> \<not> IsControllerOnlyNode c)"

lemma find_broker_id: "find_broker i bs = Some b \<Longrightarrow> Itoa (sint (BrokerId b)) = i"
  by (induction bs) (auto split: if_splits)

lemma filter_controller_only_eq:
  "filter_controller_only M spec ids acc =
     go_bind (go_map (node_config M spec) ids) (\<lambda>cs. Ret (acc @ map fst (filter (\<lambda>(i, c). takes_work c) (zip ids cs))))"
proof (induction ids arbitrary: acc)
  case (Cons i ids)
  show ?case
  proof (cases "node_config M spec i")
    case Panic
    then show ?thesis by (auto simp: node_config_def split: option.splits sum.splits)
  next
    case (Err e)
    then show ?thesis by (auto simp: node_config_def split: option.splits sum.splits)
  next
    case (Ret c)
    have "filter_controller_only M spec (i # ids) acc = filter_controller_only M spec ids (if takes_work c then acc @ [i] else acc)"
      using Ret find_broker_id [of i "Brokers spec"]
      by (auto simp: node_config_def takes_work_def GetBrokerFromKafkaClusterSpec_def split: option.splits sum.splits)
    then show ?thesis using Cons.IH Ret by (cases "go_map (node_config M spec) ids") auto
  qed
qed simp

lemma gm_keys_fold_update:
  "gm_ok m \<Longrightarrow> gm_ok (fold (\<lambda>x. AList.update (f x) ()) xs m) \<and> gm_dom (fold (\<lambda>x. AList.update (f x) ()) xs m) = gm_dom m \<union> f ` set xs"
  by (induction xs arbitrary: m) auto

lemma add_status_ids:
  "gm_ok m \<Longrightarrow> gm_ok (fold add_status_id sts m) \<and>
     gm_dom (fold add_status_id sts m) = gm_dom m \<union> {i. \<exists>b \<in> fst ` set sts. Atoi b = Some i}"
proof (induction sts arbitrary: m)
  case (Cons x sts)
  have "gm_ok (add_status_id x m)" using Cons.prems by (simp add: add_status_id_def split: option.split)
  moreover have "gm_dom (add_status_id x m) = gm_dom m \<union> {i. Atoi (fst x) = Some i}"
    by (auto simp: add_status_id_def split: option.split)
  ultimately show ?case using Cons.IH [of "add_status_id x m"] by auto
qed simp

lemma slice_remove_skip:
  "\<forall>i \<in> set is. arr ! i \<noteq> s \<Longrightarrow> slice_remove s (is @ js) arr n = slice_remove s js arr n"
  by (induction "is") auto

lemma upt_around: "k < n \<Longrightarrow> [0..<n] = [0..<k] @ k # [Suc k..<n]"
  by (metis append_take_drop_id drop_upt less_imp_le_nat plus_nat.add_0 take_upt upt_conv_Cons)

lemma slice_remove_first:
  assumes "s \<notin> set pre"
  shows "StringSliceRemove (pre @ s # post) s =
    slice_remove s [Suc (length pre)..<Suc (length pre + length post)] (pre @ post @ [last (s # post)]) (length pre + length post)"
proof -
  let ?l = "pre @ s # post"
  have "drop (length pre + length post) ?l = [last (s # post)]"
    by (simp add: drop_Cons' last_conv_nth nth_Cons' Cons_nth_drop_Suc [symmetric])
  moreover have "\<forall>i \<in> set [0..<length pre]. ?l ! i \<noteq> s" using assms by (auto simp: nth_append)
  ultimately show ?thesis
    using slice_remove_skip [of "[0..<length pre]" ?l s "length pre # [Suc (length pre)..<length ?l]" "length ?l"]
      upt_around [of "length pre" "length ?l"]
    by (simp add: StringSliceRemove_def del: upt_Suc)
qed

lemma slice_remove_once:
  assumes "s \<notin> set pre" "s \<notin> set post"
  shows "StringSliceRemove (pre @ s # post) s = Ret (pre @ post)"
proof -
  let ?arr = "pre @ post @ [last (s # post)]" and ?is = "[Suc (length pre)..<Suc (length pre + length post)]"
  have "\<forall>i \<in> set ?is. ?arr ! i \<noteq> s"
  proof
    fix i assume "i \<in> set ?is"
    then have i: "length pre < i" "i \<le> length pre + length post" by auto
    then have "post \<noteq> []" by auto
    then have "set (post @ [last (s # post)]) \<subseteq> set post" by auto
    moreover have "?arr ! i \<in> set (post @ [last (s # post)])"
      using i by (simp only: nth_append) (auto intro!: nth_mem simp: nth_append)
    ultimately show "?arr ! i \<noteq> s" using assms(2) by auto
  qed
  then show ?thesis using slice_remove_first [OF assms(1), of post] slice_remove_skip [of ?is ?arr s "[]"] by simp
qed

lemma slice_remove_last_panics:
  "n < length arr \<Longrightarrow> last arr = s \<Longrightarrow> arr \<noteq> [] \<Longrightarrow> m < length arr \<Longrightarrow>
     slice_remove s ([m..<length arr]) arr n = Panic"
proof (induction "length arr - m" arbitrary: m arr n)
  case (Suc d)
  have up: "[m..<length arr] = m # [Suc m..<length arr]" using Suc.prems(4) by (simp add: upt_conv_Cons)
  show ?case
  proof (cases "arr ! m = s \<and> Suc m > n")
    case True
    then show ?thesis by (simp add: up del: upt_Suc)
  next
    case False
    have m: "Suc m < length arr"
    proof (rule ccontr)
      assume "\<not> Suc m < length arr"
      then have "m = length arr - 1" using Suc.prems(4) by simp
      then have "arr ! m = s" using Suc.prems(2,3) by (simp add: last_conv_nth)
      then show False using False Suc.prems(1) \<open>m = length arr - 1\<close> by simp
    qed
    let ?arr = "take m arr @ drop (m + 1) (take n arr) @ drop (n - 1) arr"
    have len: "length ?arr = length arr" if "Suc m \<le> n" using that Suc.prems(1) by auto
    have "last ?arr = s" using Suc.prems by (auto simp: last_append)
    then show ?thesis
      using Suc.hyps(1) [of ?arr "Suc m" "n - 1"] Suc.hyps(1) [of arr "Suc m" n] Suc.hyps(2) Suc.prems m len False
      by (cases "arr ! m = s") (auto simp: up simp del: upt_Suc)
  qed
qed simp

section \<open>Properties\<close>

text \<open>What the code relies on in \<open>mergo\<close>: with \<open>WithAppendSlice\<close> the slices of the source are appended to those
  of the destination and an empty field is filled from the source.\<close>

definition appends :: "mergo \<Rightarrow> bool" where
  "appends M \<longleftrightarrow> (\<forall>d s. \<exists>c. Merge_WithAppendSlice M d s = Inr c \<and> Roles c = Roles d @ Roles s \<and>
     StorageConfigs c = StorageConfigs d @ StorageConfigs s \<and> BrokerIngressMapping c = BrokerIngressMapping d @ BrokerIngressMapping s \<and>
     bcImage c = (if bcImage d = [] then bcImage s else bcImage d))"

definition sample_mergo :: mergo where
  "sample_mergo = \<lparr>Merge_WithOverride = (\<lambda>d s. Inr (if s = [] then d else s)),
     Merge_WithAppendSlice = (\<lambda>d s. Inr (d\<lparr>Roles := Roles d @ Roles s, StorageConfigs := StorageConfigs d @ StorageConfigs s,
        BrokerIngressMapping := BrokerIngressMapping d @ BrokerIngressMapping s,
        bcImage := (if bcImage d = [] then bcImage s else bcImage d)\<rparr>)),
     Merge_EnvoyConfig = (\<lambda>d s. Inr (if BrokerHostnameTemplate d = [] then d\<lparr>BrokerHostnameTemplate := BrokerHostnameTemplate s\<rparr> else d)),
     Merge_IstioIngressConfig = (\<lambda>d s. Inr (if d = [] then s else d)), Merge_ContourIngressConfig = (\<lambda>d s. Inr d),
     Merge_IngressServiceSettings = (\<lambda>d s. Inr (if HostnameOverride d = [] then d\<lparr>HostnameOverride := HostnameOverride s\<rparr> else d))\<rparr>"

lemma sample_mergo_appends: "appends sample_mergo"
  by (simp add: appends_def sample_mergo_def)

text \<open>The configuration of a broker in a group: its storages are those of the broker and then of the
  group, each mount path once and the storage of the broker before that of the group; the environment
  is that of the cluster, then of the group, then of the broker; a role given in either place counts.\<close>

theorem broker_config_merged:
  assumes "appends M" "BrokerConfigGroup b \<noteq> []" "map_of (BrokerConfigGroups spec) (BrokerConfigGroup b) = Some g"
    and "mergeAffinity M g own = Inr aff" "own = (case brokerBrokerConfig b of None \<Rightarrow> zero_BrokerConfig | Some c \<Rightarrow> c)"
  shows "\<exists>c. GetBrokerConfig M b spec = Inr (Some c) \<and>
    distinct (map MountPath (StorageConfigs c)) \<and>
    (\<forall>mp. find (\<lambda>x. MountPath x = mp) (StorageConfigs c) =
       (case find (\<lambda>x. MountPath x = mp) (StorageConfigs own) of
          Some x \<Rightarrow> Some x | None \<Rightarrow> find (\<lambda>x. MountPath x = mp) (StorageConfigs g))) \<and>
    Envs c = specEnvs spec @ Envs g @ Envs own \<and>
    (IsControllerNode c \<longleftrightarrow> IsControllerNode own \<or> IsControllerNode g) \<and>
    (IsBrokerNode c \<longleftrightarrow> IsBrokerNode own \<or> IsBrokerNode g) \<and>
    (IsControllerOnlyNode c \<longrightarrow> IsControllerOnlyNode own \<or> IsControllerOnlyNode g)"
proof -
  obtain m where m: "Merge_WithAppendSlice M own g = Inr m" "Roles m = Roles own @ Roles g"
    "StorageConfigs m = StorageConfigs own @ StorageConfigs g" using assms(1) by (auto simp: appends_def)
  let ?sc = "dedupStorageConfigs (StorageConfigs own @ StorageConfigs g)"
  obtain c where c: "GetBrokerConfig M b spec = Inr (Some c)" "StorageConfigs c = ?sc" "Roles c = Roles own @ Roles g"
    "Envs c = specEnvs spec @ Envs g @ Envs own"
    using assms m by (auto simp: GetBrokerConfig_def Let_def mergeEnvs_def)
  have "distinct (map MountPath ?sc)" using dedup_storage_distinct by (auto simp: dedupStorageConfigs_def)
  moreover have "find (\<lambda>x. MountPath x = mp) ?sc = (case find (\<lambda>x. MountPath x = mp) (StorageConfigs own) of
          Some x \<Rightarrow> Some x | None \<Rightarrow> find (\<lambda>x. MountPath x = mp) (StorageConfigs g))" for mp
    by (simp add: dedupStorageConfigs_def dedup_storage_find find_append split: option.split)
  ultimately show ?thesis
    using c by (intro exI [of _ c]) (auto simp: IsControllerNode_def IsBrokerNode_def IsControllerOnlyNode_def)
qed

definition sample_group :: BrokerConfig where
  "sample_group = zero_BrokerConfig\<lparr>Roles := [''controller''], StorageConfigs := [\<lparr>MountPath = ''/a'', PvcSpec = Some ''group'', PvcStorage = 10, EmptyDir = None\<rparr>]\<rparr>"

definition sample_broker :: Broker where
  "sample_broker = \<lparr>BrokerId = 1, BrokerConfigGroup = ''g'', ReadOnlyConfig = [], brokerBrokerConfig = Some (zero_BrokerConfig
     \<lparr>StorageConfigs := [\<lparr>MountPath = ''/a'', PvcSpec = Some ''own'', PvcStorage = 10, EmptyDir = None\<rparr>]\<rparr>)\<rparr>"

definition sample_spec :: KafkaClusterSpec where
  "sample_spec = zero_KafkaClusterSpec\<lparr>KRaftMode := True, HeadlessServiceEnabled := True,
     specRollingUpgradeConfig := \<lparr>FailureThreshold = 1, ConcurrentBrokerRestartCountPerRack = 1\<rparr>, Brokers := [sample_broker],
     BrokerConfigGroups := [(''g'', sample_group)]\<rparr>"

lemmas sample_spec_defs = sample_spec_def sample_broker_def sample_group_def zero_BrokerConfig_def

theorem broker_config_merged_witness:
  "\<exists>c. GetBrokerConfig sample_mergo sample_broker sample_spec = Inr (Some c) \<and>
     find (\<lambda>x. MountPath x = ''/a'') (StorageConfigs c) = Some \<lparr>MountPath = ''/a'', PvcSpec = Some ''own'', PvcStorage = 10, EmptyDir = None\<rparr>"
proof -
  let ?own = "zero_BrokerConfig\<lparr>StorageConfigs := [\<lparr>MountPath = ''/a'', PvcSpec = Some ''own'', PvcStorage = 10, EmptyDir = None\<rparr>]\<rparr>"
  from broker_config_merged [OF sample_mergo_appends, of sample_broker sample_spec sample_group ?own "[]"]
  show ?thesis by (auto simp: sample_spec_defs mergeAffinity_def sample_mergo_def or_empty_def)
qed

text \<open> In KRaft mode the brokers that Cruise Control is asked to work on are the listed ids, in their order,
  that the spec knows and that are not controller-only. The first id whose configuration cannot be
  built decides the outcome: its error is returned, and a broker with neither a group nor a
  configuration makes the function panic.\<close>

theorem filter_controller_only_correct:
  "FilterControllerOnlyNodes M ids spec =
     go_bind (go_map (node_config M spec) ids) (\<lambda>cs. Ret (map fst (filter (\<lambda>(i, c). takes_work c) (zip ids cs)))) \<and>
   (\<forall>ids'. FilterControllerOnlyNodes M ids spec = Ret ids' \<longrightarrow> subseq ids' ids \<and>
      set ids' = {i \<in> set ids. \<exists>c. node_config M spec i = Ret (Some c) \<and> \<not> IsControllerOnlyNode c})"
proof -
  let ?F = "FilterControllerOnlyNodes M ids spec"
  have eq: "?F = go_bind (go_map (node_config M spec) ids) (\<lambda>cs. Ret (map fst (filter (\<lambda>(i, c). takes_work c) (zip ids cs))))"
    using filter_controller_only_eq [of M spec ids "[]"] by (simp add: FilterControllerOnlyNodes_def)
  have "subseq ids' ids \<and> set ids' = {i \<in> set ids. \<exists>c. node_config M spec i = Ret (Some c) \<and> \<not> IsControllerOnlyNode c}"
    if F: "?F = Ret ids'" for ids'
  proof -
    obtain cs where cs: "list_all2 (\<lambda>i c. node_config M spec i = Ret c) ids cs"
      "ids' = map fst (filter (\<lambda>(i, c). takes_work c) (zip ids cs))"
      using F unfolding eq by (auto simp: go_map_Ret_iff)
    have "subseq ids' (map fst (zip ids cs))" unfolding cs(2) by (intro subseq_map subseq_filter_left)
    moreover have "map fst (zip ids cs) = ids" using cs(1) by (auto simp: list_all2_lengthD)
    moreover have "set ids' = {i \<in> set ids. \<exists>c. node_config M spec i = Ret (Some c) \<and> \<not> IsControllerOnlyNode c}"
      using cs(1) unfolding cs(2) by induction (auto simp: takes_work_def split: option.splits)
    ultimately show ?thesis by simp
  qed
  then show ?thesis using eq by blast
qed

theorem filter_controller_only_correct_witness:
  "FilterControllerOnlyNodes sample_mergo [''7'', ''1''] sample_spec = Ret [] \<and>
   subseq [] [''7'', ''1''] \<and> FilterControllerOnlyNodes sample_mergo [''1''] (sample_spec\<lparr>BrokerConfigGroups := []\<rparr>) = Err (NewErr ''missing brokerConfigGroup'')"
proof -
  have "FilterControllerOnlyNodes sample_mergo [''7'', ''1''] sample_spec = Ret []"
    "FilterControllerOnlyNodes sample_mergo [''1''] (sample_spec\<lparr>BrokerConfigGroups := []\<rparr>) = Err (NewErr ''missing brokerConfigGroup'')"
    by code_simp+
  then show ?thesis using filter_controller_only_correct [of sample_mergo "[''7'', ''1'']" sample_spec] by blast
qed

text \<open> The broker ids of a cluster are the ids of the spec and of the status, ascending and each once; a key
  of the status that is not a number is ignored.\<close>

theorem broker_ids_union:
  "sorted (GetBrokerIdsFromStatusAndSpec sts bs) \<and> distinct (GetBrokerIdsFromStatusAndSpec sts bs) \<and>
   set (GetBrokerIdsFromStatusAndSpec sts bs) =
     (sint \<circ> BrokerId) ` set bs \<union> {i. \<exists>b \<in> fst ` set sts. Atoi b = Some i} \<and>
   GetBrokerIdsFromStatusAndSpec (rev sts) (rev bs) = GetBrokerIdsFromStatusAndSpec sts bs"
proof -
  let ?ids = "\<lambda>sts bs. GetBrokerIdsFromStatusAndSpec sts bs"
  have ok: "sorted (?ids sts bs) \<and> distinct (?ids sts bs) \<and>
      set (?ids sts bs) = (sint \<circ> BrokerId) ` set bs \<union> {i. \<exists>b \<in> fst ` set sts. Atoi b = Some i}" for sts bs
    using gm_keys_fold_update [of "[]" "\<lambda>b. sint (BrokerId b)" bs]
      add_status_ids [of "fold (\<lambda>b. AList.update (sint (BrokerId b)) ()) bs []" sts]
    by (auto simp: GetBrokerIdsFromStatusAndSpec_def Let_def)
  have "?ids (rev sts) (rev bs) = ?ids sts bs"
    using ok [of sts bs] ok [of "rev sts" "rev bs"] by (intro sorted_distinct_set_unique) auto
  then show ?thesis using ok by blast
qed

theorem broker_ids_union_witness:
  "GetBrokerIdsFromStatusAndSpec [] [sample_broker] = [1] \<and> sorted (GetBrokerIdsFromStatusAndSpec [] [sample_broker])"
  using broker_ids_union [of "[]" "[sample_broker]"] by (auto simp: GetBrokerIdsFromStatusAndSpec_def sample_spec_defs)

text \<open> \<open>StringSliceRemove\<close> removes a string that occurs at most once. When the string occurs several times
  and one of them is the last element, the loop slices beyond the shortened slice and panics.\<close>

theorem string_slice_remove_correct:
  "(length (filter (\<lambda>x. x = s) list) \<le> 1 \<longrightarrow> StringSliceRemove list s = Ret (filter (\<lambda>x. x \<noteq> s) list)) \<and>
   (2 \<le> length (filter (\<lambda>x. x = s) list) \<and> last list = s \<longrightarrow> StringSliceRemove list s = Panic)"
proof (cases "s \<in> set list")
  case False
  then have "\<forall>i \<in> set [0..<length list]. list ! i \<noteq> s" by auto
  then have "StringSliceRemove list s = Ret list"
    using slice_remove_skip [of "[0..<length list]" list s "[]"] by (simp add: StringSliceRemove_def)
  moreover have "filter (\<lambda>x. x \<noteq> s) list = list" using False by (auto simp: filter_id_conv)
  moreover have "filter (\<lambda>x. x = s) list = []" using False by (auto simp: filter_empty_conv)
  ultimately show ?thesis by simp
next
  case True
  then obtain pre post where l: "list = pre @ s # post" "s \<notin> set pre" by (meson split_list_first)
  then have pre: "filter (\<lambda>x. x = s) pre = []" "filter (\<lambda>x. x \<noteq> s) pre = pre"
    by (auto simp: filter_empty_conv filter_id_conv)
  show ?thesis
  proof (cases "s \<in> set post")
    case False
    then have "filter (\<lambda>x. x = s) post = []" "filter (\<lambda>x. x \<noteq> s) post = post"
      by (auto simp: filter_empty_conv filter_id_conv)
    then show ?thesis using l pre slice_remove_once [OF l(2) False] by simp
  next
    case True
    then have "filter (\<lambda>x. x = s) post \<noteq> []" by (auto simp: filter_empty_conv)
    moreover have "post \<noteq> []" using True by auto
    moreover have "StringSliceRemove list s = Panic" if "last post = s"
      using slice_remove_last_panics [of "length pre + length post" "pre @ post @ [last (s # post)]" s "Suc (length pre)"]
        slice_remove_first [OF l(2), of post] that l(1) \<open>post \<noteq> []\<close> by (cases post) (simp_all del: upt_Suc)
    ultimately show ?thesis using l(1) pre by simp
  qed
qed

theorem string_slice_remove_correct_witness:
  "StringSliceRemove [''a'', ''b''] ''a'' = Ret [''b''] \<and> StringSliceRemove [''a'', ''b'', ''b''] ''b'' = Panic"
  using string_slice_remove_correct [of "''a''" "[''a'', ''b'']"] string_slice_remove_correct [of "''b''" "[''a'', ''b'', ''b'']"]
  by simp

text \<open> The labels of a broker pod: what the operator writes cannot be overridden by the labels of the user,
  and every other label of the user is kept.\<close>

theorem broker_labels_protected:
  "map_of (GetBrokerLabels c name i kraft) k =
     (if k = BrokerIdLabelKey then Some (Itoa (sint i))
      else if k = IsBrokerNodeKey then Some (bool_str (kraft \<longrightarrow> IsBrokerNode c))
      else if k = IsControllerNodeKey then Some (bool_str (kraft \<and> IsControllerNode c))
      else if k = ProcessRolesKey \<and> kraft then Some (join ''_'' (Roles c))
      else if k = ''app'' then Some ''kafka''
      else if k = KafkaCRLabelKey then Some name
      else map_of (rev (BrokerLabels c)) k)"
  by (simp add: GetBrokerLabels_def MergeLabels_def Let_def gm_get_update gm.lookup_store_all BrokerIdLabelKey_def
      IsBrokerNodeKey_def IsControllerNodeKey_def ProcessRolesKey_def LabelsForKafka_def KafkaCRLabelKey_def split: option.split)

theorem broker_labels_protected_witness:
  "map_of (GetBrokerLabels (sample_group\<lparr>BrokerLabels := [(''app'', ''mine''), (''team'', ''x'')]\<rparr>) ''kafka'' 3 True) ''app'' = Some ''kafka''"
  using broker_labels_protected [of "sample_group\<lparr>BrokerLabels := [(''app'', ''mine''), (''team'', ''x'')]\<rparr>" "''kafka''" 3 True "''app''"]
  by (simp add: BrokerIdLabelKey_def IsBrokerNodeKey_def IsControllerNodeKey_def ProcessRolesKey_def)

end
