(* ===== verification/CCTaskCtl.thy ===== *)
theory CCTaskCtl
  imports CCOperationCtl CCTask KafkaConfig
begin

text \<open>
  The Cruise Control task controller (\<open>controllers/cruisecontroltask_controller.go\<close>): it reads the tasks that
  the status of a Kafka cluster asks for, refreshes them from the operations of the cluster, creates one
  \<open>CruiseControlOperation\<close> for the most important kind of task that still needs one, and writes the states
  back to the status.

  The container of the tasks is mutated through pointers; the model passes it along. The JSON decoder
  and the accessors of \<open>unstructured\<close> are parameters, as is the order in which Go ranges over a map.
\<close>

section \<open>Libraries\<close>

datatype json = JNull | JBool bool | JNumber string | JString string | JArray "json list" | JObject "(string, json) gomap"

record libs =
  libMergo :: mergo
  UnmarshalCapacities :: "string \<Rightarrow> err + json list"
  NestedString :: "(string, json) gomap \<Rightarrow> string \<Rightarrow> err + string option"
  NestedMap :: "(string, json) gomap \<Rightarrow> string \<Rightarrow> string \<Rightarrow> err + bool"
  rangeOrder :: "(string, string list) gomap \<Rightarrow> (string, string list) gomap"

text \<open>Go visits every entry of a map once, in any order.\<close>

definition range_ok :: "libs \<Rightarrow> bool" where
  "range_ok L \<longleftrightarrow> (\<forall>m. mset (rangeOrder L m) = mset m)"

section \<open>Constants\<close>

definition DefaultRequeueAfterTimeInSec :: int where
  "DefaultRequeueAfterTimeInSec = 20"

definition BrokerCapacityDisk :: string where
  "BrokerCapacityDisk = ''DISK''"

definition BrokerCapacity :: string where
  "BrokerCapacity = ''capacity''"

section \<open>JBOD capacity\<close>

text \<open>One entry of the capacity configuration. The map \<open>brokerIsJBOD\<close> has a key for every broker id.\<close>

definition jbod_entry :: "libs \<Rightarrow> json \<Rightarrow> (string, bool) gomap \<Rightarrow> err + (string, bool) gomap" where
  "jbod_entry L brokerCapacity m = (case brokerCapacity of
     JObject brokerCapacityMap \<Rightarrow>
       (case NestedString L brokerCapacityMap BrokerIdLabelKey of
          Inl e \<Rightarrow> Inl (WrapErr ''could not retrieve broker Id from broker capacity configuration'' e)
        | Inr None \<Rightarrow> Inr m
        | Inr (Some brokerId) \<Rightarrow>
            (case NestedMap L brokerCapacityMap BrokerCapacity BrokerCapacityDisk of
               Inl e \<Rightarrow>
                 let m1 = (if brokerId = ''-1'' then map (\<lambda>(b, j). (b, False)) m else m)
                 in Inr (if map_of m1 brokerId \<noteq> None then AList.update brokerId False m1 else m1)
             | Inr ok \<Rightarrow> Inr (if map_of m brokerId \<noteq> None \<and> ok then AList.update brokerId True m else m)))
   | _ \<Rightarrow> Inr m)"

fun jbod_entries :: "libs \<Rightarrow> json list \<Rightarrow> (string, bool) gomap \<Rightarrow> err + (string, bool) gomap" where
  "jbod_entries L [] m = Inr m"
| "jbod_entries L (c # cs) m = (case jbod_entry L c m of Inl e \<Rightarrow> Inl e | Inr m' \<Rightarrow> jbod_entries L cs m')"

definition brokersJBODSelector :: "libs \<Rightarrow> string list \<Rightarrow> string \<Rightarrow> err + string list \<times> string list" where
  "brokersJBODSelector L brokerIDs capacityConfigJSON =
     (if capacityConfigJSON = [] then Inr (brokerIDs, [])
      else
        let brokerIsJBOD = fold (\<lambda>b. AList.update b True) brokerIDs [] in
        (case UnmarshalCapacities L capacityConfigJSON of
           Inl e \<Rightarrow> Inl (WrapErr ''could not unmarshal the user-provided broker capacity config'' e)
         | Inr capacities \<Rightarrow>
             (case jbod_entries L capacities brokerIsJBOD of
                Inl e \<Rightarrow> Inl e
              | Inr m \<Rightarrow> Inr (map fst (filter snd m), map fst (filter (\<lambda>e. \<not> snd e) m)))))"

section \<open>What Cruise Control reports about brokers and log directories\<close>

definition getUnavailableBrokers :: "env \<Rightarrow> string list \<Rightarrow> trace \<Rightarrow> (err + string list) \<times> trace" where
  "getUnavailableBrokers E brokerIDs tr =
     (case BrokersWithState (ccClient E tr) [KafkaBrokerAlive, KafkaBrokerNew] of
        (reqs, Inl e) \<Rightarrow> (Inl (WrapErr ''failed to retrieve list of available brokers from Cruise Control'' e), tr @ map EvCC reqs)
      | (reqs, Inr availableBrokers) \<Rightarrow>
          let availableBrokersMap = fold (\<lambda>b. AList.update b True) availableBrokers []
          in (Inr (filter (\<lambda>b. map_of availableBrokersMap b = None) brokerIDs), tr @ map EvCC reqs))"

definition online_dirs :: "log_dirs \<Rightarrow> string \<Rightarrow> string list option" where
  "online_dirs logDirsByBroker brokerID =
     (case map_of logDirsByBroker brokerID of None \<Rightarrow> None | Some d \<Rightarrow> map_of d LogDirStateOnline)"

definition on_volume :: "string \<Rightarrow> string \<Rightarrow> bool" where
  "on_volume volume dir \<longleftrightarrow> prefix (TrimSpace volume) (TrimSpace dir)"

text \<open>A broker without an entry for its online directories is not reported as unavailable.\<close>

definition volume_unavailable :: "log_dirs \<Rightarrow> CCTask \<Rightarrow> bool" where
  "volume_unavailable logDirsByBroker t = (case online_dirs logDirsByBroker (BrokerID t) of
     None \<Rightarrow> False
   | Some onlineDirs \<Rightarrow> \<not> list_ex (on_volume (Volume t)) onlineDirs)"

definition checkBrokerLogDirsAvailability :: "env \<Rightarrow> CCTasks \<Rightarrow> trace \<Rightarrow> (err + string list) \<times> trace" where
  "checkBrokerLogDirsAvailability E s tr =
     (case LogDirsByBroker (ccClient E tr) of
        (reqs, Inl e) \<Rightarrow> (Inl (WrapErr ''failed to get list of volumes per broker from Cruise Control'' e), tr @ map EvCC reqs)
      | (reqs, Inr logDirsByBroker) \<Rightarrow>
          (Inr (map BrokerID (filter (volume_unavailable logDirsByBroker)
                  (map (\<lambda>i. tasks s ! i) (GetActiveTasksByOp OperationRebalance s)))), tr @ map EvCC reqs))"

section \<open>Creating operations\<close>

definition disk_pairs :: "(string, string list) gomap \<Rightarrow> string list" where
  "disk_pairs m = concat (map (\<lambda>(brokerID, logDirs). map (\<lambda>logDir. brokerID @ ''-'' @ logDir) logDirs) m)"

definition task_parameters ::
  "libs \<Rightarrow> CruiseControlTaskOperation \<Rightarrow> string list \<Rightarrow> bool \<Rightarrow> (string, string list) gomap \<Rightarrow> (string, string) gomap" where
  "task_parameters L opn brokerIDs isJBOD logDirsByBrokerID =
     (let ps = (if opn \<noteq> OperationRemoveDisks
                then AList.update ParamExcludeRemoved True_str (AList.update ParamExcludeDemoted True_str []) else [])
      in (case opn of
            OperationRebalance \<Rightarrow>
              let ps1 = AList.update ParamDestbrokerIDs (join '','' brokerIDs) ps
              in if isJBOD then AList.update ParamRebalanceDisk True_str ps1 else ps1
          | OperationRemoveDisks \<Rightarrow>
              AList.update ParamBrokerIDAndLogDirs (join '','' (disk_pairs (rangeOrder L logDirsByBrokerID))) ps
          | OperationStopExecution \<Rightarrow> ps
          | OperationStatus \<Rightarrow> ps
          | _ \<Rightarrow> AList.update ParamBrokerID (join '','' brokerIDs) ps))"

definition createCCOperation ::
  "env \<Rightarrow> libs \<Rightarrow> KafkaCluster \<Rightarrow> ErrorPolicyType \<Rightarrow> 64 word option \<Rightarrow> CruiseControlTaskOperation \<Rightarrow> string list \<Rightarrow> bool \<Rightarrow>
     (string, string list) gomap \<Rightarrow> trace \<Rightarrow> (err + string) \<times> trace" where
  "createCCOperation E L kafkaCluster errorPolicy ttlSecondsAfterFinished opn brokerIDs isJBOD logDirsByBrokerID tr =
     (case setControllerReference E kafkaCluster (new_op kafkaCluster opn errorPolicy ttlSecondsAfterFinished) of
        Inl e \<Rightarrow> (Inl e, tr)
      | Inr op \<Rightarrow>
          (case Create E op tr of
             (Some e, _, tr1) \<Rightarrow> (Inl e, tr1)
           | (None, op1, tr1) \<Rightarrow>
               (case Status_Update E (set_current_task
                       ((new_task opn)\<lparr>Parameters := task_parameters L opn brokerIDs isJBOD logDirsByBrokerID\<rparr>) op1) tr1 of
                  (Some e, _, tr2) \<Rightarrow> (Inl e, tr2)
                | (None, op2, tr2) \<Rightarrow> (Inr (Name (Meta op2)), tr2))))"

definition addBrokers ::
  "env \<Rightarrow> libs \<Rightarrow> KafkaCluster \<Rightarrow> 64 word option \<Rightarrow> string list \<Rightarrow> trace \<Rightarrow> (err + string) \<times> trace" where
  "addBrokers E L kafkaCluster ttl brokerIDs tr =
     createCCOperation E L kafkaCluster ErrorPolicyRetry ttl OperationAddBroker brokerIDs False [] tr"

definition removeBroker ::
  "env \<Rightarrow> libs \<Rightarrow> KafkaCluster \<Rightarrow> 64 word option \<Rightarrow> string \<Rightarrow> trace \<Rightarrow> (err + string) \<times> trace" where
  "removeBroker E L kafkaCluster ttl brokerID tr =
     createCCOperation E L kafkaCluster ErrorPolicyRetry ttl OperationRemoveBroker [brokerID] False [] tr"

definition removeDisks ::
  "env \<Rightarrow> libs \<Rightarrow> KafkaCluster \<Rightarrow> 64 word option \<Rightarrow> (string, string list) gomap \<Rightarrow> trace \<Rightarrow> (err + string) \<times> trace" where
  "removeDisks E L kafkaCluster ttl brokerIdsToRemovedLogDirs tr =
     createCCOperation E L kafkaCluster ErrorPolicyRetry ttl OperationRemoveDisks [] False brokerIdsToRemovedLogDirs tr"

definition rebalanceDisks ::
  "env \<Rightarrow> libs \<Rightarrow> KafkaCluster \<Rightarrow> 64 word option \<Rightarrow> string list \<Rightarrow> bool \<Rightarrow> trace \<Rightarrow> (err + string) \<times> trace" where
  "rebalanceDisks E L kafkaCluster ttl brokerIDs isJBOD tr =
     createCCOperation E L kafkaCluster ErrorPolicyRetry ttl OperationRebalance brokerIDs isJBOD [] tr"

section \<open>Writing the status\<close>

text \<open>Updating the status replaces the object by the answer of the API server.\<close>

definition Status_Update_Cluster :: "env \<Rightarrow> KafkaCluster \<Rightarrow> trace \<Rightarrow> err option \<times> KafkaCluster \<times> trace" where
  "Status_Update_Cluster E = call_obj (updateStatusCluster E) EvClusterStatus"

definition status_retry :: "env \<Rightarrow> CCTasks \<Rightarrow> KafkaCluster \<times> trace \<Rightarrow> (err, unit) go \<times> KafkaCluster \<times> trace" where
  "status_retry E s st = (case st of (inst, tr) \<Rightarrow>
     (case Status_Update_Cluster E inst tr of
        (None, inst1, tr1) \<Rightarrow> (Ret (), inst1, tr1)
      | (Some e, inst1, tr1) \<Rightarrow>
          if IsConflict e then
            let tr2 = tr1 @ [EvGetCluster (kcName inst1) (kcNamespace inst1)] in
            (case getCluster E tr1 (kcName inst1) (kcNamespace inst1) of
               Inl e' \<Rightarrow> (Err (WrapErr ''failed to get updated Kafka Cluster CR before updating its status'' e'), inst1, tr2)
             | Inr inst2 \<Rightarrow> (Err e, SyncState s inst2, tr2))
          else (Err e, inst1, tr1)))"

definition UpdateStatus :: "env \<Rightarrow> CCTasks \<Rightarrow> KafkaCluster \<Rightarrow> trace \<Rightarrow> (err, unit) go \<times> KafkaCluster \<times> trace" where
  "UpdateStatus E s inst tr =
     (let inst1 = SyncState s inst in
      if BrokersState inst = BrokersState inst1 then (Ret (), inst1, tr)
      else RetryOnConflict (backoffCluster E) (status_retry E s) (inst1, tr))"

section \<open>The kinds of tasks\<close>

text \<open>A case of the switch either leaves the function (\<open>Inl\<close>) or goes on with the tasks it has changed.\<close>

type_synonym case_result = "(reconcile_result + CCTasks) \<times> trace"

definition schedule_task :: "string \<Rightarrow> CCTask \<Rightarrow> CCTask" where
  "schedule_task ref t = SetStateScheduled (SetCruiseControlOperationRef ref t)"

definition schedule :: "string \<Rightarrow> nat list \<Rightarrow> CCTasks \<Rightarrow> CCTasks" where
  "schedule ref is s = fold (set_task (schedule_task ref)) is s"

text \<open>After the operation was created, the active tasks refer to it and are scheduled.\<close>

definition scheduled :: "nat list \<Rightarrow> CCTasks \<Rightarrow> (err + string) \<times> trace \<Rightarrow> case_result" where
  "scheduled is s r = (case r of
     (Inl e, tr) \<Rightarrow> (Inl (requeueWithError ''creating CruiseControlOperation has failed'' e), tr)
   | (Inr ref, tr) \<Rightarrow> (Inr (schedule ref is s), tr))"

definition broker_ids :: "CCTasks \<Rightarrow> nat list \<Rightarrow> string list" where
  "broker_ids s is = map (\<lambda>i. BrokerID (tasks s ! i)) is"

definition upscale_case :: "env \<Rightarrow> libs \<Rightarrow> KafkaCluster \<Rightarrow> 64 word option \<Rightarrow> CCTasks \<Rightarrow> trace \<Rightarrow> case_result" where
  "upscale_case E L inst ttl s tr =
     (let is = GetActiveTasksByOp OperationAddBroker s; ids = broker_ids s is in
      if length ids = 0 then (Inr s, tr)
      else
        (case (if KRaftMode (kcSpec inst) then FilterControllerOnlyNodes (libMergo L) ids (kcSpec inst) else Ret ids) of
           Panic \<Rightarrow> (Inl Panic, tr)
         | Err e \<Rightarrow> (Inl (requeueWithError ''failed to filter out controller-only nodes from the Kafka cluster'' e), tr)
         | Ret brokerIDs \<Rightarrow>
             (case getUnavailableBrokers E brokerIDs tr of
                (Inl e, tr1) \<Rightarrow> (Inl (requeueAfter DefaultRequeueAfterTimeInSec), tr1)
              | (Inr unavailableBrokers, tr1) \<Rightarrow>
                  if length unavailableBrokers > 0 then (Inl (requeueAfter DefaultRequeueAfterTimeInSec), tr1)
                  else if length brokerIDs \<noteq> 0 then scheduled is s (addBrokers E L inst ttl brokerIDs tr1)
                  else (Inr s, tr1))))"

definition downscale_case :: "env \<Rightarrow> libs \<Rightarrow> KafkaCluster \<Rightarrow> 64 word option \<Rightarrow> CCTasks \<Rightarrow> trace \<Rightarrow> case_result" where
  "downscale_case E L inst ttl s tr =
     (case GetActiveTasksByOp OperationRemoveBroker s of
        [] \<Rightarrow> (Inl Panic, tr)
      | i # _ \<Rightarrow> scheduled [i] s (removeBroker E L inst ttl (BrokerID (tasks s ! i)) tr))"

fun dirs_to_remove :: "log_dirs \<Rightarrow> CCTask list \<Rightarrow> (string, string list) gomap \<Rightarrow> err + (string, string list) gomap" where
  "dirs_to_remove logDirsByBroker [] m = Inr m"
| "dirs_to_remove logDirsByBroker (t # ts) m =
     (let m1 = (if map_of m (BrokerID t) = None then AList.update (BrokerID t) [] m else m) in
      (case (case online_dirs logDirsByBroker (BrokerID t) of None \<Rightarrow> None
             | Some onlineDirs \<Rightarrow> find (on_volume (Volume t)) onlineDirs) of
         None \<Rightarrow> Inl (NewErr ''log dir not found'')
       | Some dir \<Rightarrow>
           dirs_to_remove logDirsByBroker ts
             (AList.update (BrokerID t) ((case map_of m1 (BrokerID t) of None \<Rightarrow> [] | Some ds \<Rightarrow> ds) @ [dir]) m1)))"

definition remove_disks_case :: "env \<Rightarrow> libs \<Rightarrow> KafkaCluster \<Rightarrow> 64 word option \<Rightarrow> CCTasks \<Rightarrow> trace \<Rightarrow> case_result" where
  "remove_disks_case E L inst ttl s tr =
     (case LogDirsByBroker (ccClient E tr) of
        (reqs, Inl e) \<Rightarrow> (Inl (requeueWithError ''failed to get list of brokerIdsToLogDirs per broker from Cruise Control'' e), tr @ map EvCC reqs)
      | (reqs, Inr logDirsByBroker) \<Rightarrow>
          let is = GetActiveTasksByOp OperationRemoveDisks s; tr1 = tr @ map EvCC reqs in
          (case dirs_to_remove logDirsByBroker (map (\<lambda>i. tasks s ! i) is) [] of
             Inl e \<Rightarrow> (Inl (requeueWithError ''volume not found for broker in CC online log dirs'' e), tr1)
           | Inr brokerLogDirsToRemove \<Rightarrow> scheduled is s (removeDisks E L inst ttl brokerLogDirsToRemove tr1)))"

definition rebalance_case :: "env \<Rightarrow> libs \<Rightarrow> KafkaCluster \<Rightarrow> 64 word option \<Rightarrow> CCTasks \<Rightarrow> trace \<Rightarrow> case_result" where
  "rebalance_case E L inst ttl s tr =
     (let is = GetActiveTasksByOp OperationRebalance s; brokerIDs = broker_ids s is in
      (case checkBrokerLogDirsAvailability E s tr of
         (Inl e, tr1) \<Rightarrow> (Inl (requeueAfter DefaultRequeueAfterTimeInSec), tr1)
       | (Inr unavailableBrokerIDs, tr1) \<Rightarrow>
           if length unavailableBrokerIDs > 0 then (Inl (requeueAfter DefaultRequeueAfterTimeInSec), tr1)
           else
             let allBrokerIDs = map (\<lambda>b. Itoa (sint (BrokerId b))) (Brokers (kcSpec inst)) in
             (case brokersJBODSelector L allBrokerIDs (CapacityConfig (kcSpec inst)) of
                Inl e \<Rightarrow> (Inl (requeueWithError ''failed to determine which broker using JBOD or not JBOD capacity configuration'' e), tr1)
              | Inr (_, brokersNotJBOD) \<Rightarrow>
                  (case (if KRaftMode (kcSpec inst) then FilterControllerOnlyNodes (libMergo L) brokerIDs (kcSpec inst) else Ret brokerIDs) of
                     Panic \<Rightarrow> (Inl Panic, tr1)
                   | Err e \<Rightarrow> (Inl (requeueWithError ''failed to filter out controller-only nodes from the Kafka cluster'' e), tr1)
                   | Ret filteredBrokerIDs \<Rightarrow>
                       if KRaftMode (kcSpec inst) \<and> length filteredBrokerIDs = 0 then (Inl reconciled, tr1)
                       else if length brokersNotJBOD > 0 then scheduled is s (rebalanceDisks E L inst ttl filteredBrokerIDs False tr1)
                       else scheduled is s (rebalanceDisks E L inst ttl filteredBrokerIDs True tr1)))))"

definition reconcile_switch :: "env \<Rightarrow> libs \<Rightarrow> KafkaCluster \<Rightarrow> CCTasks \<Rightarrow> trace \<Rightarrow> case_result" where
  "reconcile_switch E L inst s tr =
     (let ttl = Spec_GetTTLSecondsAfterFinished (ccOperationSpec (kcSpec inst)) in
      if NumActiveTasksByOp OperationAddBroker s > 0 then upscale_case E L inst ttl s tr
      else if NumActiveTasksByOp OperationRemoveBroker s > 0 then downscale_case E L inst ttl s tr
      else if NumActiveTasksByOp OperationRemoveDisks s > 0 then remove_disks_case E L inst ttl s tr
      else if NumActiveTasksByOp OperationRebalance s > 0 then rebalance_case E L inst ttl s tr
      else (Inr s, tr))"

section \<open>The handler\<close>

definition owned_by :: "KafkaCluster \<Rightarrow> CruiseControlOperation \<Rightarrow> bool" where
  "owned_by inst op \<longleftrightarrow> list_ex (\<lambda>r. r = kcName inst) (OwnerReferences (Meta op))"

definition reconcile_active :: "env \<Rightarrow> libs \<Rightarrow> string \<Rightarrow> KafkaCluster \<Rightarrow> CCTasks \<Rightarrow> trace \<Rightarrow> reconcile_result \<times> trace" where
  "reconcile_active E L ns inst s tr =
     (let tr1 = tr @ [EvListOwned ns (kcName inst)] in
      (case listOwned E tr ns (kcName inst) of
         Inl e \<Rightarrow> (requeueWithError [] e, tr1)
       | Inr items \<Rightarrow>
           let s1 = updateActiveTasks (filter (owned_by inst) items) s in
           (case UpdateStatus E s1 inst tr1 of
              (Panic, _, tr2) \<Rightarrow> (Panic, tr2)
            | (Err e, _, tr2) \<Rightarrow> (requeueWithError ''failed to update Kafka Cluster status'' e, tr2)
            | (Ret _, inst1, tr2) \<Rightarrow>
                let tr3 = tr2 @ [EvScaleFactory] in
                (case scaleFactory E tr2 inst1 of
                   Some e \<Rightarrow> (requeueWithError ''failed to create Cruise Control Scaler instance'' e, tr3)
                 | None \<Rightarrow>
                     (case reconcile_switch E L inst1 s1 tr3 of
                        (Inl r, tr4) \<Rightarrow> (r, tr4)
                      | (Inr s2, tr4) \<Rightarrow>
                          (case UpdateStatus E s2 inst1 tr4 of
                             (Panic, _, tr5) \<Rightarrow> (Panic, tr5)
                           | (Err e, _, tr5) \<Rightarrow> (requeueWithError ''failed to update Kafka Cluster status'' e, tr5)
                           | (Ret _, _, tr5) \<Rightarrow> (reconciled, tr5)))))))"

definition Reconcile :: "env \<Rightarrow> libs \<Rightarrow> string \<Rightarrow> string \<Rightarrow> trace \<Rightarrow> reconcile_result \<times> trace" where
  "Reconcile E L name ns tr =
     (let tr1 = tr @ [EvGetCluster name ns] in
      (case getCluster E tr name ns of
         Inl e \<Rightarrow> if IsNotFound e then (reconciled, tr1) else (requeueWithError [] e, tr1)
       | Inr inst \<Rightarrow>
           let s = getActiveTasksFromCluster inst in
           if Tasks_IsEmpty s then (reconciled, tr1) else reconcile_active E L ns inst s tr1))"

section \<open>Event filters\<close>

definition TaskOpCreateFunc :: "CruiseControlOperation \<Rightarrow> bool" where
  "TaskOpCreateFunc obj \<longleftrightarrow> CurrentTaskState obj \<noteq> UserTaskNone"

definition TaskOpUpdateFunc :: "CruiseControlOperation \<Rightarrow> CruiseControlOperation \<Rightarrow> bool" where
  "TaskOpUpdateFunc oldObj newObj \<longleftrightarrow>
     \<not> task_DeepEqual (CurrentTask oldObj) (CurrentTask newObj) \<or> IsPaused oldObj \<noteq> IsPaused newObj \<or>
     ptr_differs (DeletionTimestamp (Meta oldObj)) (DeletionTimestamp (Meta newObj)) \<or>
     Generation (Meta oldObj) \<noteq> Generation (Meta newObj)"

definition broker_states_equal :: "(string, BrokerState) gomap \<Rightarrow> (string, BrokerState) gomap \<Rightarrow> bool" where
  "broker_states_equal m n \<longleftrightarrow> list_all (\<lambda>(b, st). (case (map_of m b, map_of n b) of
       (Some u, Some v) \<Rightarrow>
         u\<lparr>bsGracefulActionState := (bsGracefulActionState u)\<lparr>VolumeStates := []\<rparr>\<rparr> =
         v\<lparr>bsGracefulActionState := (bsGracefulActionState v)\<lparr>VolumeStates := []\<rparr>\<rparr> \<and>
         list_all (\<lambda>(p, x). map_of (VolumeStates (bsGracefulActionState u)) p = map_of (VolumeStates (bsGracefulActionState v)) p)
           (VolumeStates (bsGracefulActionState u) @ VolumeStates (bsGracefulActionState v))
     | _ \<Rightarrow> False)) (m @ n)"

text \<open>The filter is applied to every object the controller watches; it is only about Kafka clusters.\<close>

datatype watched = WatchedCluster KafkaCluster | WatchedOther

definition KafkaUpdateFunc :: "KafkaCluster \<Rightarrow> watched \<Rightarrow> bool" where
  "KafkaUpdateFunc oldObj objectNew = (case objectNew of
     WatchedCluster newObj \<Rightarrow>
       \<not> broker_states_equal (BrokersState oldObj) (BrokersState newObj) \<or>
       ptr_differs (kcDeletionTimestamp oldObj) (kcDeletionTimestamp newObj) \<or> kcGeneration oldObj \<noteq> kcGeneration newObj
   | WatchedOther \<Rightarrow> True)"

end
