(* ===== verification/CCTaskFlow.thy ===== *)
theory CCTaskFlow
  imports CCTaskCtl
begin

text \<open>
  What the task controller does: one operation at most per reconcile, for the most important kind of task
  that needs one; tasks are scheduled only together with the operation they refer to; the parameters
  of an operation reach Cruise Control as the request the tasks ask for; the status is written from a
  fresh copy of the cluster after every conflict.
\<close>

section \<open>Events\<close>

fun is_create :: "event \<Rightarrow> bool" where
  "is_create (EvCreate op) = True"
| "is_create _ = False"

definition creations :: "trace \<Rightarrow> trace" where
  "creations tr = filter is_create tr"

lemma creations_simps [simp]:
  "creations [] = []" "creations (e # tr) = (if is_create e then e # creations tr else creations tr)"
  "creations (tr @ tr') = creations tr @ creations tr'"
  by (simp_all add: creations_def)

text \<open>Events that only read, or write the status of the cluster.\<close>

fun plain :: "event \<Rightarrow> bool" where
  "plain (EvCC r) = (\<not> executes r)"
| "plain (EvStatusUpdate op) = False"
| "plain (EvCreate op) = False"
| "plain _ = True"

lemma plain_steps:
  assumes "steps plain tr tr'"
  obtains d where "tr' = tr @ d" "creations d = []" "executions d = []" "\<forall>op. EvStatusUpdate op \<notin> set d"
proof -
  obtain d where d: "tr' = tr @ d" "\<forall>e \<in> set d. plain e" using assms by (auto simp: steps_def)
  have "\<not> is_create e" "\<not> ev_executes e" if "plain e" for e using that by (cases e; simp)+
  then have "creations d = []" "executions d = []" using d(2) by (auto simp: creations_def executions_def filter_empty_conv)
  moreover have "\<forall>op. EvStatusUpdate op \<notin> set d" using d(2) by fastforce
  ultimately show ?thesis using that d(1) by blast
qed

lemma query_events:
  "BrokersWithState cc sts = (reqs, r) \<Longrightarrow> reqs = [ReqLoad]" "LogDirsByBroker cc = (reqs, l) \<Longrightarrow> reqs = [ReqClusterState]"
  by (auto simp: BrokersWithState_def LogDirsByBroker_def)

section \<open>Creating one operation\<close>

text \<open>The events of \<open>createCCOperation\<close>: nothing, a creation, or a creation and the status that carries the task;
  a reference is returned only in the last case and is the name of the operation.\<close>

definition new_task_of :: "libs \<Rightarrow> CruiseControlTaskOperation \<Rightarrow> string list \<Rightarrow> bool \<Rightarrow> (string, string list) gomap \<Rightarrow> CruiseControlTask" where
  "new_task_of L opn ids jbod dirs = (new_task opn)\<lparr>Parameters := task_parameters L opn ids jbod dirs\<rparr>"

definition creation :: "env \<Rightarrow> CruiseControlTask \<Rightarrow> trace \<Rightarrow> err + string \<Rightarrow> trace \<Rightarrow> bool" where
  "creation E t tr r tr' \<longleftrightarrow>
     (\<exists>e. r = Inl e \<and> (tr' = tr \<or> (\<exists>op. tr' = tr @ [EvCreate op]))) \<or>
     (\<exists>op op1. tr' = tr @ [EvCreate op, EvStatusUpdate op1] \<and> CurrentTask op1 = Some t \<and>
        (\<forall>ref. r = Inr ref \<longrightarrow> (\<exists>op2. updateStatusOp E (tr @ [EvCreate op]) op1 = Inr op2 \<and> ref = Name (Meta op2))))"

lemma CurrentTask_set [simp]: "CurrentTask (set_current_task t op) = Some t"
  by (simp add: CurrentTask_def set_current_task_def)

lemma createCCOperation_events:
  assumes "createCCOperation E L c pol ttl opn ids jbod dirs tr = (r, tr')"
  shows "creation E (new_task_of L opn ids jbod dirs) tr r tr'"
proof -
  let ?t = "new_task_of L opn ids jbod dirs"
  consider e where "r = Inl e" "tr' = tr"
    | op where "setControllerReference E c (new_op c opn pol ttl) = Inr op"
    using assms by (auto simp: createCCOperation_def split: sum.splits)
  then show ?thesis
  proof cases
    case 1
    then show ?thesis by (simp add: creation_def)
  next
    case 2
    obtain e1 op1 tr1 where c: "Create E op tr = (e1, op1, tr1)" by (cases "Create E op tr")
    obtain e2 op2 tr2 where u: "Status_Update E (set_current_task ?t op1) tr1 = (e2, op2, tr2)"
      by (cases "Status_Update E (set_current_task ?t op1) tr1")
    have tr: "tr1 = tr @ [EvCreate op]" "tr2 = tr1 @ [EvStatusUpdate (set_current_task ?t op1)]"
      using api_traces c u by blast+
    have up: "e2 = None \<Longrightarrow> updateStatusOp E tr1 (set_current_task ?t op1) = Inr op2"
      using u by (auto simp: Status_Update_def call_obj_def split: sum.splits)
    show ?thesis
    proof (cases e1)
      case (Some e)
      then show ?thesis using assms 2 c tr by (auto simp: createCCOperation_def creation_def)
    next
      case None
      then have "tr' = tr2" "r = (case e2 of Some e \<Rightarrow> Inl e | None \<Rightarrow> Inr (Name (Meta op2)))"
        using assms 2 c u by (auto simp: createCCOperation_def new_task_of_def split: option.splits)
      then show ?thesis using tr up by (auto simp: creation_def split: option.splits)
    qed
  qed
qed

section \<open>The switch\<close>

text \<open>The most important kind of task that still needs an operation.\<close>

definition chosen :: "CCTask list \<Rightarrow> CruiseControlTaskOperation option" where
  "chosen ts = find (\<lambda>o'. list_ex (\<lambda>t. taskOperation t = o' \<and> IsRequired (Some t)) ts)
     [OperationAddBroker, OperationRemoveBroker, OperationRemoveDisks, OperationRebalance]"

text \<open>What a case of the switch does: it only asks Cruise Control and leaves the tasks alone, or it goes on to
  create one operation of its kind and, when that succeeds, schedules tasks of that kind with it.\<close>

definition case_outcome ::
  "env \<Rightarrow> CruiseControlTaskOperation \<Rightarrow> CCTasks \<Rightarrow> trace \<Rightarrow> reconcile_result + CCTasks \<Rightarrow> trace \<Rightarrow> bool" where
  "case_outcome E o' s tr x tr' \<longleftrightarrow>
     (steps plain tr tr' \<and> (x = Inr s \<or> isl x)) \<or>
     (\<exists>tr1 t r. steps plain tr tr1 \<and> creation E t tr1 r tr' \<and> Operation t = o' \<and>
        (case r of Inl e \<Rightarrow> x = Inl (Err e)
         | Inr ref \<Rightarrow> (\<exists>js. js \<noteq> [] \<and> set js \<subseteq> set (GetActiveTasksByOp o' s) \<and> x = Inr (schedule ref js s))))"

lemma outcome_plain [intro]:
  "steps plain tr tr' \<Longrightarrow> case_outcome E o' s tr (Inl r) tr'" "steps plain tr tr' \<Longrightarrow> case_outcome E o' s tr (Inr s) tr'"
  by (simp_all add: case_outcome_def)

lemma outcome_Inr:
  assumes "case_outcome E o' s tr (Inr s') tr'"
  obtains "s' = s" | tr1 t ref js where "creation E t tr1 (Inr ref) tr'" "Operation t = o'"
    "set js \<subseteq> set (GetActiveTasksByOp o' s)" "s' = schedule ref js s"
  using assms unfolding case_outcome_def
proof (elim disjE exE conjE)
  fix tr1 t r
  assume c: "creation E t tr1 r tr'" "Operation t = o'" "case r of Inl e \<Rightarrow> Inr s' = Inl (Err e)
    | Inr ref \<Rightarrow> \<exists>js. js \<noteq> [] \<and> set js \<subseteq> set (GetActiveTasksByOp o' s) \<and> Inr s' = Inr (schedule ref js s)"
  then show thesis
  proof (cases r)
    case (Inr ref)
    then show ?thesis using c that(2) [of t tr1 ref] by auto
  qed simp
qed (use that(1) in auto)

lemma plain_requests: "\<forall>r \<in> set reqs. \<not> executes r \<Longrightarrow> steps plain tr (tr @ map EvCC reqs)"
  by (auto simp: steps_def)

lemma getUnavailableBrokers_plain: "getUnavailableBrokers E ids tr = (r, tr') \<Longrightarrow> steps plain tr tr'"
  by (auto simp: getUnavailableBrokers_def Let_def dest!: query_events split: prod.splits sum.splits)

lemma checkBrokerLogDirs_plain: "checkBrokerLogDirsAvailability E s tr = (r, tr') \<Longrightarrow> steps plain tr tr'"
  by (auto simp: checkBrokerLogDirsAvailability_def dest!: query_events split: prod.splits sum.splits)

lemma LogDirs_plain: "LogDirsByBroker cc = (reqs, l) \<Longrightarrow> steps plain tr (tr @ map EvCC reqs)"
  by (auto dest!: query_events)

lemma Operation_new_task_of [simp]: "Operation (new_task_of L opn ids jbod dirs) = opn"
  by (simp add: new_task_of_def new_task_def)

lemma scheduled_outcome:
  assumes "scheduled is s (createCCOperation E L c pol ttl opn ids jbod dirs tr1) = (x, tr')" "steps plain tr tr1"
    and "is \<noteq> []" "set is \<subseteq> set (GetActiveTasksByOp opn s)"
  shows "case_outcome E opn s tr x tr'"
proof -
  obtain r tr2 where c: "createCCOperation E L c pol ttl opn ids jbod dirs tr1 = (r, tr2)"
    by (cases "createCCOperation E L c pol ttl opn ids jbod dirs tr1")
  then have "tr' = tr2" "case r of Inl e \<Rightarrow> x = Inl (Err e) | Inr ref \<Rightarrow> x = Inr (schedule ref is s)"
    using assms(1) by (auto simp: scheduled_def split: sum.splits)
  then show ?thesis using createCCOperation_events [OF c] assms(2-4) unfolding case_outcome_def
    by (intro disjI2 exI [of _ tr1] exI [of _ "new_task_of L opn ids jbod dirs"] exI [of _ r]) (auto split: sum.splits)
qed

lemma upscale_outcome:
  assumes "upscale_case E L inst ttl s tr = (x, tr')"
  shows "case_outcome E OperationAddBroker s tr x tr'"
proof -
  let ?is = "GetActiveTasksByOp OperationAddBroker s"
  consider "tr' = tr" "x = Inr s \<or> isl x"
    | ids r where "getUnavailableBrokers E ids tr = (r, tr')" "x = Inr s \<or> isl x"
    | ids tr1 where "getUnavailableBrokers E ids tr = (Inr [], tr1)" "?is \<noteq> []"
        "scheduled ?is s (addBrokers E L inst ttl ids tr1) = (x, tr')"
    using assms by (auto simp: upscale_case_def Let_def broker_ids_def split: if_splits go.splits prod.splits sum.splits)
  then show ?thesis
  proof cases
    case 3
    then show ?thesis
      using scheduled_outcome [of ?is s E L inst ErrorPolicyRetry ttl OperationAddBroker ids False "[]" tr1 x tr' tr]
        getUnavailableBrokers_plain [OF 3(1)] by (simp add: addBrokers_def)
  qed (auto simp: case_outcome_def dest: getUnavailableBrokers_plain)
qed

lemma downscale_outcome:
  assumes "downscale_case E L inst ttl s tr = (x, tr')"
  shows "case_outcome E OperationRemoveBroker s tr x tr'"
proof (cases "GetActiveTasksByOp OperationRemoveBroker s")
  case Nil
  then show ?thesis using assms by (auto simp: downscale_case_def)
next
  case (Cons i rest)
  then show ?thesis
    using assms scheduled_outcome [of "[i]" s E L inst ErrorPolicyRetry ttl OperationRemoveBroker "[BrokerID (tasks s ! i)]" False "[]" tr x tr' tr]
    by (simp add: downscale_case_def removeBroker_def)
qed

lemma remove_disks_outcome:
  assumes "remove_disks_case E L inst ttl s tr = (x, tr')" "GetActiveTasksByOp OperationRemoveDisks s \<noteq> []"
  shows "case_outcome E OperationRemoveDisks s tr x tr'"
proof -
  let ?is = "GetActiveTasksByOp OperationRemoveDisks s"
  obtain reqs l where l: "LogDirsByBroker (ccClient E tr) = (reqs, l)" by (cases "LogDirsByBroker (ccClient E tr)")
  let ?tr1 = "tr @ map EvCC reqs"
  consider "tr' = ?tr1" "isl x" | m where "scheduled ?is s (removeDisks E L inst ttl m ?tr1) = (x, tr')"
    using assms(1) l by (auto simp: remove_disks_case_def Let_def split: sum.splits)
  then show ?thesis
  proof cases
    case 1
    then show ?thesis using LogDirs_plain [OF l, of tr] by (auto simp: case_outcome_def)
  next
    case 2
    then show ?thesis
      using scheduled_outcome [of ?is s E L inst ErrorPolicyRetry ttl OperationRemoveDisks "[]" False m ?tr1 x tr' tr]
        LogDirs_plain [OF l, of tr] assms(2) by (simp add: removeDisks_def)
  qed
qed

lemma rebalance_outcome:
  assumes "rebalance_case E L inst ttl s tr = (x, tr')" "GetActiveTasksByOp OperationRebalance s \<noteq> []"
  shows "case_outcome E OperationRebalance s tr x tr'"
proof -
  let ?is = "GetActiveTasksByOp OperationRebalance s"
  obtain r tr1 where c: "checkBrokerLogDirsAvailability E s tr = (r, tr1)" by (cases "checkBrokerLogDirsAvailability E s tr")
  consider "tr' = tr1" "isl x" | ids jbod where "scheduled ?is s (rebalanceDisks E L inst ttl ids jbod tr1) = (x, tr')"
    using assms(1) c by (auto simp: rebalance_case_def Let_def split: if_splits go.splits sum.splits)
  then show ?thesis
  proof cases
    case 1
    then show ?thesis using checkBrokerLogDirs_plain [OF c] by (auto simp: case_outcome_def)
  next
    case 2
    then show ?thesis
      using scheduled_outcome [of ?is s E L inst ErrorPolicyRetry ttl OperationRebalance ids jbod "[]" tr1 x tr' tr]
        checkBrokerLogDirs_plain [OF c] assms(2) by (simp add: rebalanceDisks_def)
  qed
qed

lemma chosen_iff:
  assumes "tasks_ok s"
  shows "list_ex (\<lambda>t. taskOperation t = o' \<and> IsRequired (Some t)) (tasks s) \<longleftrightarrow> NumActiveTasksByOp o' s > 0"
  using active_iff [OF assms, of _ o'] unfolding NumActiveTasksByOp_def length_greater_0_conv list_ex_iff in_set_conv_nth
  by (metis ex_in_conv in_set_conv_nth set_empty)

lemma switch_outcome:
  assumes "tasks_ok s" "reconcile_switch E L inst s tr = (x, tr')"
  shows "case chosen (tasks s) of None \<Rightarrow> x = Inr s \<and> tr' = tr | Some o' \<Rightarrow> case_outcome E o' s tr x tr'"
proof -
  have ne: "NumActiveTasksByOp o' s > 0 \<longleftrightarrow> GetActiveTasksByOp o' s \<noteq> []" for o' by (simp add: NumActiveTasksByOp_def)
  show ?thesis
    using assms(2) upscale_outcome downscale_outcome remove_disks_outcome rebalance_outcome ne
    unfolding chosen_def chosen_iff [OF assms(1)] reconcile_switch_def Let_def
    by (auto split: if_splits)
qed

section \<open>Writing the status\<close>

lemma status_retry_plain: "steps plain (snd st) (snd (snd (status_retry E s st)))"
proof (cases st)
  case (Pair inst tr)
  obtain e inst1 tr1 where u: "Status_Update_Cluster E inst tr = (e, inst1, tr1)" by (cases "Status_Update_Cluster E inst tr")
  then have "tr1 = tr @ [EvClusterStatus inst]"
    using call_obj_trace [of _ EvClusterStatus] by (simp add: Status_Update_Cluster_def)
  then show ?thesis
    using Pair u by (auto simp: status_retry_def Let_def steps_def split: option.split sum.split)
qed

lemma UpdateStatus_plain:
  assumes "backoff_ok (backoffCluster E)" "UpdateStatus E s inst tr = (r, inst', tr')"
  shows "steps plain tr tr'"
proof -
  have "steps plain tr (snd (snd (RetryOnConflict (backoffCluster E) (status_retry E s) (SyncState s inst, tr))))"
    using RetryOnConflict_invariant [OF assms(1), of "\<lambda>st. steps plain tr (snd st)" "status_retry E s" "(SyncState s inst, tr)"]
      steps_trans [OF _ status_retry_plain] by (metis snd_conv steps_refl)
  then show ?thesis using assms(2) by (auto simp: UpdateStatus_def Let_def split: if_splits)
qed

text \<open>The writes among the events.\<close>

definition writes :: "trace \<Rightarrow> KafkaCluster list" where
  "writes tr = concat (map (\<lambda>e. case e of EvClusterStatus c \<Rightarrow> [c] | _ \<Rightarrow> []) tr)"

lemma writes_simps [simp]: "writes [] = []" "writes (EvClusterStatus c # tr) = c # writes tr" "writes (EvGetCluster n ns # tr) = writes tr"
  "writes (tr @ tr') = writes tr @ writes tr'"
  by (simp_all add: writes_def)

text \<open>One attempt: the cluster it is given is written; after a conflict the next attempt starts from the tasks
  applied to a fresh copy.\<close>

lemma status_retry_cases:
  obtains inst1 where "updateStatusCluster E tr inst = Inr inst1" "status_retry E s (inst, tr) = (Ret (), inst1, tr @ [EvClusterStatus inst])"
  | e where "updateStatusCluster E tr inst = Inl e" "\<not> IsConflict e" "status_retry E s (inst, tr) = (Err e, inst, tr @ [EvClusterStatus inst])"
  | e m e' where "updateStatusCluster E tr inst = Inl e" "IsConflict e"
      "getCluster E (tr @ [EvClusterStatus inst]) (kcName inst) (kcNamespace inst) = Inl e'"
      "status_retry E s (inst, tr) = (Err (WrapErr m e'), inst, tr @ [EvClusterStatus inst, EvGetCluster (kcName inst) (kcNamespace inst)])"
  | e inst2 where "updateStatusCluster E tr inst = Inl e" "IsConflict e"
      "getCluster E (tr @ [EvClusterStatus inst]) (kcName inst) (kcNamespace inst) = Inr inst2"
      "status_retry E s (inst, tr) = (Err e, SyncState s inst2, tr @ [EvClusterStatus inst, EvGetCluster (kcName inst) (kcNamespace inst)])"
  by (cases "updateStatusCluster E tr inst"; cases "getCluster E (tr @ [EvClusterStatus inst]) (kcName inst) (kcNamespace inst)")
    (auto simp: status_retry_def Status_Update_Cluster_def call_obj_def Let_def split: if_splits)

lemma retry_writes:
  "1 \<le> n \<Longrightarrow> retry n (status_retry E s) IsConflict (SyncState s base, tr) = (r, inst', tr') \<Longrightarrow>
     \<exists>d. tr' = tr @ d \<and> length (writes d) \<le> n \<and> (\<forall>c \<in> set (writes d). \<exists>b. c = SyncState s b) \<and>
       (r = Ret () \<longrightarrow> (\<exists>p c. d = p @ [EvClusterStatus c] \<and> updateStatusCluster E (tr @ p) c = Inr inst')) \<and> r \<noteq> Panic"
proof (induction n arbitrary: base tr)
  case (Suc n)
  let ?i = "SyncState s base"
  let ?d = "[EvClusterStatus ?i, EvGetCluster (kcName ?i) (kcNamespace ?i)]"
  have cont: ?case if rec: "retry n (status_retry E s) IsConflict (SyncState s b, tr @ ?d) = (r, inst', tr')" and "n \<noteq> 0" for b
  proof -
    obtain d where d: "tr' = (tr @ ?d) @ d" "length (writes d) \<le> n" "\<forall>c \<in> set (writes d). \<exists>b. c = SyncState s b"
      "r = Ret () \<longrightarrow> (\<exists>p c. d = p @ [EvClusterStatus c] \<and> updateStatusCluster E ((tr @ ?d) @ p) c = Inr inst')" "r \<noteq> Panic"
      using Suc.IH [OF _ rec] \<open>n \<noteq> 0\<close> by auto
    show ?thesis
    proof (rule exI [of _ "?d @ d"], intro conjI impI)
      assume "r = Ret ()"
      then obtain p c where "d = p @ [EvClusterStatus c]" "updateStatusCluster E ((tr @ ?d) @ p) c = Inr inst'" using d(4) by blast
      then show "\<exists>p c. ?d @ d = p @ [EvClusterStatus c] \<and> updateStatusCluster E (tr @ p) c = Inr inst'"
        by (intro exI [of _ "?d @ p"] exI [of _ c]) simp
    qed (use d in auto)
  qed
  show ?case
  proof (cases rule: status_retry_cases [of E tr ?i s])
    case (3 e m e')
    then show ?thesis using Suc.prems cont [of base] by (auto split: if_splits)
  next
    case (4 e inst2)
    then show ?thesis using Suc.prems cont [of inst2] by (auto split: if_splits)
  qed (use Suc.prems in auto)
qed simp

section \<open>Scheduling\<close>

lemma schedule_nth:
  "(\<forall>i \<in> set is. i < length (tasks s)) \<Longrightarrow> i < length (tasks s) \<Longrightarrow>
     tasks (schedule ref is s) ! i = (if i \<in> set is then schedule_task ref (tasks s ! i) else tasks s ! i)"
proof (induction "is" arbitrary: s)
  case Nil
  then show ?case by (simp add: schedule_def)
next
  case (Cons j js)
  have len: "length (tasks (set_task (schedule_task ref) j s)) = length (tasks s)" by (simp add: set_task_def)
  have idem: "schedule_task ref (schedule_task ref t) = schedule_task ref t" for t
    by (simp add: schedule_task_def SetStateScheduled_def SetCruiseControlOperationRef_def split: CruiseControlTaskOperation.split)
  show ?case
    using Cons.IH [of "set_task (schedule_task ref) j s"] Cons.prems idem unfolding len
    by (auto simp: schedule_def set_task_def nth_list_update)
qed

lemma schedule_length [simp]: "length (tasks (schedule ref is s)) = length (tasks s)"
  unfolding schedule_def by (induction "is" arbitrary: s) (simp_all add: set_task_def)

lemma tasks_ok_updateActive: "tasks_ok (updateActiveTasks ops (getActiveTasksFromCluster inst))"
proof -
  have "taskOperation (refresh_task m t) = taskOperation t" for m t
    using task_frame_refresh [of m] by (simp add: task_frame_def)
  then show ?thesis by (simp add: updateActiveTasks_def Let_def tasks_ok_map tasks_ok_active)
qed

section \<open>The whole reconcile\<close>

abbreviation refreshed :: "KafkaCluster \<Rightarrow> CruiseControlOperation list \<Rightarrow> CCTasks" where
  "refreshed inst items \<equiv> updateActiveTasks (filter (owned_by inst) items) (getActiveTasksFromCluster inst)"

definition at_most_one_operation :: "env \<Rightarrow> (CruiseControlTaskOperation \<Rightarrow> bool) \<Rightarrow> trace \<Rightarrow> trace \<Rightarrow> bool" where
  "at_most_one_operation E P tr tr' \<longleftrightarrow> steps plain tr tr' \<or>
     (\<exists>tr1 t r tr2. steps plain tr tr1 \<and> creation E t tr1 r tr2 \<and> P (Operation t) \<and> steps plain tr2 tr')"

lemma at_most_one_before: "steps plain tr tr1 \<Longrightarrow> at_most_one_operation E P tr1 tr' \<Longrightarrow> at_most_one_operation E P tr tr'"
  unfolding at_most_one_operation_def using steps_trans by blast

lemma outcome_at_most_one:
  assumes "case_outcome E o' s tr x tr1" "steps plain tr1 tr'" "P o'"
  shows "at_most_one_operation E P tr tr'"
  using assms steps_trans unfolding case_outcome_def at_most_one_operation_def by blast

lemma switch_at_most_one:
  assumes "backoff_ok (backoffCluster E)" "reconcile_switch E L inst (refreshed c items) tr = (x, tr1)" "steps plain tr1 tr'"
  shows "at_most_one_operation E (\<lambda>o'. chosen (tasks (refreshed c items)) = Some o') tr tr'"
  using switch_outcome [OF tasks_ok_updateActive assms(2)] outcome_at_most_one [of E _ "refreshed c items" tr x tr1 tr'] assms(3)
  by (auto simp: at_most_one_operation_def split: option.splits)

lemma active_at_most_one:
  assumes "backoff_ok (backoffCluster E)" "reconcile_active E L ns inst (getActiveTasksFromCluster inst) tr = (res, tr')"
  shows "at_most_one_operation E (\<lambda>o'. \<exists>items. listOwned E tr ns (kcName inst) = Inr items \<and>
      chosen (tasks (refreshed inst items)) = Some o') tr tr'"
proof (cases "listOwned E tr ns (kcName inst)")
  case (Inl e)
  then show ?thesis using assms(2) by (auto simp: reconcile_active_def at_most_one_operation_def)
next
  case (Inr items)
  let ?s = "refreshed inst items" and ?tr1 = "tr @ [EvListOwned ns (kcName inst)]"
  obtain r inst1 tr2 where u: "UpdateStatus E ?s inst ?tr1 = (r, inst1, tr2)" by (cases "UpdateStatus E ?s inst ?tr1")
  let ?tr3 = "tr2 @ [EvScaleFactory]"
  obtain x tr4 where w: "reconcile_switch E L inst1 ?s ?tr3 = (x, tr4)" by (cases "reconcile_switch E L inst1 ?s ?tr3")
  have p: "steps plain tr ?tr1" "steps plain ?tr1 tr2" "steps plain tr2 ?tr3" using UpdateStatus_plain [OF assms(1) u] by simp_all
  then have p2: "steps plain tr tr2" and p3: "steps plain tr ?tr3" using steps_trans by blast+
  consider "tr' = tr2" | "tr' = ?tr3" | "tr' = tr4" | s2 r2 inst2 where "x = Inr s2" "UpdateStatus E s2 inst1 tr4 = (r2, inst2, tr')"
    using assms(2) Inr u w
    by (auto simp: reconcile_active_def Let_def split: go.splits option.splits sum.splits prod.splits)
  then have "tr' = tr2 \<or> tr' = ?tr3 \<or> steps plain tr4 tr'"
    using UpdateStatus_plain [OF assms(1)] by cases auto
  then show ?thesis
    using p2 p3 switch_at_most_one [OF assms(1) w] at_most_one_before [OF p3] Inr
    by (auto simp: at_most_one_operation_def [of _ _ tr tr2] at_most_one_operation_def [of _ _ tr ?tr3])
qed

lemma creation_events:
  assumes "creation E t tr r tr'"
  shows "\<exists>d. tr' = tr @ d \<and> length (creations d) \<le> 1 \<and> executions d = [] \<and> (\<forall>op. EvStatusUpdate op \<in> set d \<longrightarrow> CurrentTask op = Some t)"
  using assms unfolding creation_def by (elim disjE exE conjE) auto

lemma at_most_one_events:
  assumes "at_most_one_operation E P tr tr'"
  shows "\<exists>new. tr' = tr @ new \<and> executions new = [] \<and> length (creations new) \<le> 1 \<and>
    (\<forall>op. EvStatusUpdate op \<in> set new \<longrightarrow> P (CurrentTaskOperation op))"
  using assms unfolding at_most_one_operation_def
proof (elim disjE exE conjE)
  assume "steps plain tr tr'"
  then show ?thesis by (elim plain_steps) auto
next
  fix tr1 t r tr2
  assume a: "steps plain tr tr1" "creation E t tr1 r tr2" "P (Operation t)" "steps plain tr2 tr'"
  obtain d1 where d1: "tr1 = tr @ d1" "creations d1 = []" "executions d1 = []" "\<forall>op. EvStatusUpdate op \<notin> set d1"
    using a(1) by (elim plain_steps)
  obtain d2 where d2: "tr2 = tr1 @ d2" "length (creations d2) \<le> 1" "executions d2 = []"
    "\<forall>op. EvStatusUpdate op \<in> set d2 \<longrightarrow> CurrentTask op = Some t" using creation_events [OF a(2)] by blast
  obtain d3 where d3: "tr' = tr2 @ d3" "creations d3 = []" "executions d3 = []" "\<forall>op. EvStatusUpdate op \<notin> set d3"
    using a(4) by (elim plain_steps)
  show ?thesis
    using d1 d2 d3 a(3) by (intro exI [of _ "d1 @ d2 @ d3"]) (auto simp: CurrentTaskOperation_def)
qed

section \<open>Properties\<close>

text \<open>(C8) A reconcile of the task controller creates at most one operation and never starts work in Cruise
  Control itself. The operation is of the most important kind that a task still asks for after the
  tasks were refreshed: adding brokers, then removing a broker, then removing disks, then rebalancing.\<close>

theorem task_reconcile_creates_one:
  assumes "backoff_ok (backoffCluster E)"
  shows "\<exists>new. snd (Reconcile E L name ns tr) = tr @ new \<and> executions new = [] \<and> length (creations new) \<le> 1 \<and>
    (\<forall>op. EvStatusUpdate op \<in> set new \<longrightarrow>
       (\<exists>inst items. getCluster E tr name ns = Inr inst \<and> listOwned E (tr @ [EvGetCluster name ns]) ns (kcName inst) = Inr items \<and>
          chosen (tasks (refreshed inst items)) = Some (CurrentTaskOperation op)))"
proof -
  let ?tr1 = "tr @ [EvGetCluster name ns]"
  obtain res tr' where R: "Reconcile E L name ns tr = (res, tr')" by (cases "Reconcile E L name ns tr")
  have "tr' = ?tr1 \<or> (\<exists>inst. getCluster E tr name ns = Inr inst \<and>
      reconcile_active E L ns inst (getActiveTasksFromCluster inst) ?tr1 = (res, tr'))"
    using R by (auto simp: Reconcile_def Let_def split: sum.splits if_splits)
  then have "at_most_one_operation E (\<lambda>o'. \<exists>inst items. getCluster E tr name ns = Inr inst \<and>
      listOwned E ?tr1 ns (kcName inst) = Inr items \<and> chosen (tasks (refreshed inst items)) = Some o') ?tr1 tr'"
    using active_at_most_one [OF assms] unfolding at_most_one_operation_def by (elim disjE exE conjE) (simp, blast)
  then have "at_most_one_operation E (\<lambda>o'. \<exists>inst items. getCluster E tr name ns = Inr inst \<and>
      listOwned E ?tr1 ns (kcName inst) = Inr items \<and> chosen (tasks (refreshed inst items)) = Some o') tr tr'"
    by (rule at_most_one_before [rotated]) simp
  then show ?thesis using at_most_one_events R by fastforce
qed

definition std_NestedString :: "(string, json) gomap \<Rightarrow> string \<Rightarrow> err + string option" where
  "std_NestedString m k = (case map_of m k of None \<Rightarrow> Inr None | Some (JString s) \<Rightarrow> Inr (Some s)
     | Some _ \<Rightarrow> Inl (NewErr ''accessor error''))"

definition std_NestedMap :: "(string, json) gomap \<Rightarrow> string \<Rightarrow> string \<Rightarrow> err + bool" where
  "std_NestedMap m k l = (case map_of m k of None \<Rightarrow> Inr False
     | Some (JObject o') \<Rightarrow> (case map_of o' l of None \<Rightarrow> Inr False | Some (JObject x) \<Rightarrow> Inr True | Some _ \<Rightarrow> Inl (NewErr ''accessor error''))
     | Some _ \<Rightarrow> Inl (NewErr ''accessor error''))"

definition sample_libs :: libs where
  "sample_libs = \<lparr>libMergo = sample_mergo,
     UnmarshalCapacities = (\<lambda>s. Inr [JObject [(''brokerId'', JString ''-1''), (''capacity'', JObject [(''DISK'', JString ''100'')])],
       JObject [(''brokerId'', JString ''1''), (''capacity'', JObject [(''DISK'', JObject [(''/logs'', JString ''100'')])])]]),
     NestedString = std_NestedString, NestedMap = std_NestedMap, rangeOrder = rev\<rparr>"

lemma sample_libs_range: "range_ok sample_libs"
  by (simp add: range_ok_def sample_libs_def)

text \<open>Broker 0 waits to be added and a disk of broker 1 to be rebalanced.\<close>

definition sample_state :: "CruiseControlState \<Rightarrow> (string, VolumeState) gomap \<Rightarrow> BrokerState" where
  "sample_state c vs = \<lparr>RackAwarenessState = [],
     bsGracefulActionState = \<lparr>gasCruiseControlState = c, gasCruiseControlOperationReference = None, VolumeStates = vs\<rparr>,
     ConfigurationState = [], PerBrokerConfigurationState = [], ExternalListenerConfigNames = [], Version = [], Image = [],
     ConfigurationBackup = []\<rparr>"

definition upscale_cluster :: KafkaCluster where
  "upscale_cluster = sample_kafka\<lparr>BrokersState :=
     [(''1'', sample_state CCStateNone [(''/logs'', \<lparr>volCruiseControlVolumeState = GracefulDiskRebalanceRequired,
         volCruiseControlOperationReference = None\<rparr>)]),
      (''0'', sample_state GracefulUpscaleRequired [])]\<rparr>"

definition upscale_env :: env where
  "upscale_env = (sample_env [])\<lparr>getCluster := (\<lambda>tr n ns. Inr upscale_cluster),
     createOp := (\<lambda>tr op. Inr (op\<lparr>Meta := (Meta op)\<lparr>Name := ''op-1''\<rparr>\<rparr>)),
     ccClient := (\<lambda>tr. idle_client\<lparr>ccLoad := Inr [\<lparr>loadBroker = 0, loadBrokerState = KafkaBrokerNew, DiskState = []\<rparr>]\<rparr>)\<rparr>"

lemma upscale_env_backoff: "backoff_ok (backoffCluster upscale_env)"
  by (simp add: upscale_env_def sample_env_def backoff_ok_run_steps)

theorem task_reconcile_creates_one_witness:
  "(\<exists>new. snd (Reconcile upscale_env sample_libs ''kafka'' ''ns'' []) = new \<and> length (creations new) \<le> 1) \<and>
   length (creations (snd (Reconcile upscale_env sample_libs ''kafka'' ''ns'' []))) = 1 \<and>
   chosen (tasks (refreshed upscale_cluster [])) = Some OperationAddBroker"
proof (intro conjI)
  show "\<exists>new. snd (Reconcile upscale_env sample_libs ''kafka'' ''ns'' []) = new \<and> length (creations new) \<le> 1"
    using task_reconcile_creates_one [OF upscale_env_backoff, of sample_libs "''kafka''" "''ns''" "[]"] by auto
  show "length (creations (snd (Reconcile upscale_env sample_libs ''kafka'' ''ns'' []))) = 1" by code_simp
  show "chosen (tasks (refreshed upscale_cluster [])) = Some OperationAddBroker" by code_simp
qed

text \<open>(C18) Tasks are scheduled only together with an operation: when the switch goes on, every task is as it was,
  or it asked for an operation of the chosen kind, and now it is scheduled and refers to the operation
  whose status the API server accepted as the last event.\<close>

theorem tasks_scheduled_with_operation:
  assumes "reconcile_switch E L inst (refreshed c items) tr = (Inr s', tr')" "i < length (tasks (refreshed c items))"
  shows "length (tasks s') = length (tasks (refreshed c items)) \<and>
    (tasks s' ! i = tasks (refreshed c items) ! i \<or>
     (\<exists>p op op2. tr' = p @ [EvStatusUpdate op] \<and> updateStatusOp E p op = Inr op2 \<and>
        IsRequired (Some (tasks (refreshed c items) ! i)) \<and>
        chosen (tasks (refreshed c items)) = Some (taskOperation (tasks (refreshed c items) ! i)) \<and>
        CurrentTaskOperation op = taskOperation (tasks (refreshed c items) ! i) \<and>
        tasks s' ! i = set_phase Scheduled ((tasks (refreshed c items) ! i)\<lparr>taskReference := Some (Name (Meta op2))\<rparr>)))"
proof -
  let ?s = "refreshed c items"
  have out: "case chosen (tasks ?s) of None \<Rightarrow> s' = ?s | Some o' \<Rightarrow> case_outcome E o' ?s tr (Inr s') tr'"
    using switch_outcome [OF tasks_ok_updateActive assms(1)] by (auto split: option.splits)
  consider "s' = ?s" | tr1 t r ref js where "chosen (tasks ?s) = Some (Operation t)" "creation E t tr1 r tr'" "r = Inr ref"
      "set js \<subseteq> set (GetActiveTasksByOp (Operation t) ?s)" "s' = schedule ref js ?s"
  proof (cases "chosen (tasks ?s)")
    case None
    then show ?thesis using out that(1) by simp
  next
    case (Some o')
    then have "case_outcome E o' ?s tr (Inr s') tr'" using out by simp
    then show ?thesis using Some that by (elim outcome_Inr) auto
  qed
  then show ?thesis
  proof cases
    case 2
    obtain op op1 op2 where c: "tr' = (tr1 @ [EvCreate op]) @ [EvStatusUpdate op1]" "CurrentTask op1 = Some t"
      "updateStatusOp E (tr1 @ [EvCreate op]) op1 = Inr op2" "ref = Name (Meta op2)"
      using 2(2,3) by (auto simp: creation_def)
    have act: "j \<in> set js \<Longrightarrow> j < length (tasks ?s) \<and> taskOperation (tasks ?s ! j) = Operation t \<and> IsRequired (Some (tasks ?s ! j))" for j
      using 2(4) active_iff [OF tasks_ok_updateActive] by blast
    have nth: "tasks s' ! i = (if i \<in> set js then schedule_task ref (tasks ?s ! i) else tasks ?s ! i)"
      unfolding 2(5) using act assms(2) by (intro schedule_nth) auto
    have "schedule_task ref u = set_phase Scheduled (u\<lparr>taskReference := Some ref\<rparr>)" for u
      by (simp add: schedule_task_def SetCruiseControlOperationRef_def SetStateScheduled_phase)
    then have "\<exists>p op op2. tr' = p @ [EvStatusUpdate op] \<and> updateStatusOp E p op = Inr op2 \<and>
        IsRequired (Some (tasks ?s ! i)) \<and> chosen (tasks ?s) = Some (taskOperation (tasks ?s ! i)) \<and>
        CurrentTaskOperation op = taskOperation (tasks ?s ! i) \<and>
        tasks s' ! i = set_phase Scheduled ((tasks ?s ! i)\<lparr>taskReference := Some (Name (Meta op2))\<rparr>)" if "i \<in> set js"
      using c 2(1) act [OF that] nth that
      by (intro exI [of _ "tr1 @ [EvCreate op]"] exI [of _ op1] exI [of _ op2]) (simp add: CurrentTaskOperation_def)
    then show ?thesis using nth 2(5) by (cases "i \<in> set js") simp_all
  qed simp
qed

theorem tasks_scheduled_with_operation_witness:
  "\<exists>s' tr'. reconcile_switch upscale_env sample_libs upscale_cluster (refreshed upscale_cluster []) [] = (Inr s', tr') \<and>
     length (tasks s') = 2 \<and> taskBrokerState (tasks s' ! 1) = GracefulUpscaleScheduled \<and> taskReference (tasks s' ! 1) = Some ''op-1'' \<and>
     (\<exists>p op. tr' = p @ [EvStatusUpdate op])"
proof -
  let ?s = "refreshed upscale_cluster []"
  let ?r = "reconcile_switch upscale_env sample_libs upscale_cluster ?s []"
  have "case ?r of (Inr s', tr') \<Rightarrow> taskBrokerState (tasks s' ! 1) = GracefulUpscaleScheduled \<and> taskReference (tasks s' ! 1) = Some ''op-1''
      | _ \<Rightarrow> False" "taskBrokerState (tasks ?s ! 1) = GracefulUpscaleRequired" "length (tasks ?s) = 2"
    by code_simp+
  moreover obtain x tr' where r: "?r = (x, tr')" by (cases ?r)
  ultimately obtain s' where s': "x = Inr s'" "taskBrokerState (tasks s' ! 1) = GracefulUpscaleScheduled"
    "taskReference (tasks s' ! 1) = Some ''op-1''" "taskBrokerState (tasks ?s ! 1) = GracefulUpscaleRequired" "length (tasks ?s) = 2"
    by (cases x) simp_all
  have "tasks s' ! 1 \<noteq> tasks ?s ! 1"
  proof
    assume "tasks s' ! 1 = tasks ?s ! 1"
    then show False using s'(2,4) by simp
  qed
  then show ?thesis using tasks_scheduled_with_operation [OF r [unfolded s'(1)], of 1] s'(1,2,3,5) r by auto
qed

end
