(* ===== verification/CCTaskRequests.thy ===== *)
theory CCTaskRequests
  imports CCTaskFlow
begin

text \<open>
  What an operation created by the task controller makes the operation controller ask Cruise Control for,
  when the task controller waits before it creates one, and the capacity configuration that decides
  between rebalancing disks and brokers.
\<close>

section \<open>Parameters of a created operation\<close>

lemma CurrentTaskParameters_new [simp]: "CurrentTaskParameters (set_current_task t op) = Parameters t"
  by (simp add: CurrentTaskParameters_def)

lemma CurrentTaskOperation_new [simp]: "CurrentTaskOperation (set_current_task t op) = Operation t"
  by (simp add: CurrentTaskOperation_def)

lemma parse_true [simp]: "parse_bool_param True_str = Inr True"
  by (simp add: parse_bool_param_def True_str_def ParseBool_def)

lemma Parameters_new_task_of [simp]: "Parameters (new_task_of L opn ids jbod dirs) = task_parameters L opn ids jbod dirs"
  by (simp add: new_task_of_def)

lemma task_parameters_ok: "gm_ok (task_parameters L opn ids jbod dirs)"
  by (simp add: task_parameters_def Let_def split: CruiseControlTaskOperation.split)

text \<open>The parameters of the operations on brokers, by name.\<close>

lemma broker_parameters:
  assumes "opn = OperationAddBroker \<or> opn = OperationRemoveBroker"
  shows "map_of (task_parameters L opn ids jbod dirs) ParamBrokerID = Some (join '','' ids)"
    "map_of (task_parameters L opn ids jbod dirs) ParamExcludeDemoted = Some True_str"
    "map_of (task_parameters L opn ids jbod dirs) ParamExcludeRemoved = Some True_str"
  using assms by (auto simp: task_parameters_def gm_get_update)

lemma rebalance_parameters:
  "map_of (task_parameters L OperationRebalance ids jbod dirs) ParamDestbrokerIDs = Some (join '','' ids)"
  "map_of (task_parameters L OperationRebalance ids jbod dirs) ParamRebalanceDisk = (if jbod then Some True_str else None)"
  "map_of (task_parameters L OperationRebalance ids jbod dirs) ParamExcludeDemoted = Some True_str"
  "map_of (task_parameters L OperationRebalance ids jbod dirs) ParamExcludeRemoved = Some True_str"
  by (auto simp: task_parameters_def gm_get_update Let_def)

lemma disks_parameters:
  "map_of (task_parameters L OperationRemoveDisks ids jbod dirs) ParamBrokerIDAndLogDirs = Some (join '','' (disk_pairs (rangeOrder L dirs)))"
  by (simp add: task_parameters_def)

text \<open>The pairs of a map whose keys are printed broker ids, in the order of the map.\<close>

definition id_pairs :: "(int \<times> string list) list \<Rightarrow> (int \<times> string) list" where
  "id_pairs ds = concat (map (\<lambda>(i, dirs). map (Pair i) dirs) ds)"

definition printed :: "int \<times> string list \<Rightarrow> string \<times> string list" where
  "printed e = (Itoa (fst e), snd e)"

lemma disk_pairs_printed: "disk_pairs (map printed ds) = map log_dir_pair (id_pairs ds)"
  by (induction ds) (auto simp: disk_pairs_def id_pairs_def log_dir_pair_def printed_def split: prod.split)

lemma id_pairs_filter:
  "distinct (map fst ds) \<Longrightarrow> map snd (filter (\<lambda>p. fst p = i) (id_pairs ds)) = (case map_of ds i of None \<Rightarrow> [] | Some l \<Rightarrow> l)"
proof (induction ds)
  case (Cons e ds)
  obtain j l where e: "e = (j, l)" by (cases e)
  have "filter (\<lambda>p. fst p = i) (map (Pair j) l) = (if i = j then map (Pair j) l else [])" by (induction l) auto
  moreover have "map_of ds j = None" using Cons.prems e by (simp add: map_of_eq_None_iff)
  ultimately show ?case using Cons e by (auto simp: id_pairs_def comp_def split: option.split)
qed (simp add: id_pairs_def)

lemma printed_inj: "inj printed"
  by (auto simp: inj_on_def printed_def prod_eq_iff dest: Itoa_inj)

lemma range_printed:
  assumes "range_ok L" "distinct (map fst ds)"
  obtains ds' where "rangeOrder L (map printed ds) = map printed ds'" "mset ds' = mset ds"
proof -
  let ?r = "rangeOrder L (map printed ds)"
  have m: "mset ?r = image_mset printed (mset ds)" using assms(1) by (simp add: range_ok_def)
  have "set ?r = printed ` set ds" using arg_cong [OF m, of set_mset] by simp
  then obtain ds' where ds': "?r = map printed ds'" using ex_map_conv [of ?r printed] by blast
  then have "image_mset printed (mset ds') = image_mset printed (mset ds)" using m by simp
  then have "image_mset (inv printed) (image_mset printed (mset ds')) = image_mset (inv printed) (image_mset printed (mset ds))"
    by simp
  then have "mset ds' = mset ds" by (simp add: image_mset.compositionality inv_o_cancel [OF printed_inj])
  then show thesis using that ds' by blast
qed

lemma requests:
  assumes "ids \<noteq> []" "list_all (in_range 32) ids"
  shows "fst (executeOperation E (set_current_task (new_task_of L OperationAddBroker (map Itoa ids) j d) op) tr) =
      [ReqAddBroker \<lparr>abAllowCapacityEstimation = True, abBrokerIDs = map int32 ids, abDataFrom = ProposalDataSourceValidWindows,
         abUseReadyDefaultGoals = True, abExcludeRecentlyDemotedBrokers = True, abExcludeRecentlyRemovedBrokers = True\<rparr>]"
    and "fst (executeOperation E (set_current_task (new_task_of L OperationRemoveBroker (map Itoa ids) j d) op) tr) =
      [ReqRemoveBroker \<lparr>rbAllowCapacityEstimation = True, rbBrokerIDs = map int32 ids, rbDataFrom = ProposalDataSourceValidWindows,
         rbUseReadyDefaultGoals = True, rbExcludeRecentlyDemotedBrokers = True, rbExcludeRecentlyRemovedBrokers = True\<rparr>]"
    and "fst (executeOperation E (set_current_task (new_task_of L OperationRebalance (map Itoa ids) j d) op) tr) =
      [ReqRebalance \<lparr>reAllowCapacityEstimation = True, reDestinationBrokerIDs = map int32 ids, reDataFrom = ProposalDataSourceValidWindows,
         reUseReadyDefaultGoals = True, reRebalanceDisk = j, reExcludeRecentlyDemotedBrokers = True, reExcludeRecentlyRemovedBrokers = True\<rparr>]"
proof -
  note ids = broker_ids_roundtrip [OF assms]
  let ?ps = "\<lambda>o'. task_parameters L o' (map Itoa ids) j d"
  let ?a = "\<lparr>abAllowCapacityEstimation = True, abBrokerIDs = [], abDataFrom = ProposalDataSourceValidWindows,
         abUseReadyDefaultGoals = True, abExcludeRecentlyDemotedBrokers = False, abExcludeRecentlyRemovedBrokers = False\<rparr>"
  have "add_broker_params (?ps OperationAddBroker) ?a =
      Inr (?a\<lparr>abBrokerIDs := map int32 ids, abExcludeRecentlyDemotedBrokers := True, abExcludeRecentlyRemovedBrokers := True\<rparr>)"
    unfolding add_broker_params_iff [OF task_parameters_ok] by (simp add: ids_param_def bool_param_def broker_parameters ids) blast
  then show "fst (executeOperation E (set_current_task (new_task_of L OperationAddBroker (map Itoa ids) j d) op) tr) =
      [ReqAddBroker \<lparr>abAllowCapacityEstimation = True, abBrokerIDs = map int32 ids, abDataFrom = ProposalDataSourceValidWindows,
         abUseReadyDefaultGoals = True, abExcludeRecentlyDemotedBrokers = True, abExcludeRecentlyRemovedBrokers = True\<rparr>]"
    by (simp add: executeOperation_def AddBrokersWithParams_def Let_def)
  let ?b = "\<lparr>rbAllowCapacityEstimation = True, rbBrokerIDs = [], rbDataFrom = ProposalDataSourceValidWindows,
         rbUseReadyDefaultGoals = True, rbExcludeRecentlyDemotedBrokers = False, rbExcludeRecentlyRemovedBrokers = False\<rparr>"
  have "remove_broker_params (?ps OperationRemoveBroker) ?b =
      Inr (?b\<lparr>rbBrokerIDs := map int32 ids, rbExcludeRecentlyDemotedBrokers := True, rbExcludeRecentlyRemovedBrokers := True\<rparr>)"
    unfolding remove_broker_params_iff [OF task_parameters_ok] by (simp add: ids_param_def bool_param_def broker_parameters ids) blast
  then show "fst (executeOperation E (set_current_task (new_task_of L OperationRemoveBroker (map Itoa ids) j d) op) tr) =
      [ReqRemoveBroker \<lparr>rbAllowCapacityEstimation = True, rbBrokerIDs = map int32 ids, rbDataFrom = ProposalDataSourceValidWindows,
         rbUseReadyDefaultGoals = True, rbExcludeRecentlyDemotedBrokers = True, rbExcludeRecentlyRemovedBrokers = True\<rparr>]"
    by (simp add: executeOperation_def RemoveBrokersWithParams_def Let_def)
  let ?c = "\<lparr>reAllowCapacityEstimation = True, reDestinationBrokerIDs = [], reDataFrom = ProposalDataSourceValidWindows,
         reUseReadyDefaultGoals = True, reRebalanceDisk = False, reExcludeRecentlyDemotedBrokers = False, reExcludeRecentlyRemovedBrokers = False\<rparr>"
  have "rebalance_params (?ps OperationRebalance) ?c =
      Inr (?c\<lparr>reDestinationBrokerIDs := map int32 ids, reRebalanceDisk := j, reExcludeRecentlyDemotedBrokers := True, reExcludeRecentlyRemovedBrokers := True\<rparr>)"
    unfolding rebalance_params_iff [OF task_parameters_ok] by (simp add: ids_param_def bool_param_def rebalance_parameters ids) blast
  then show "fst (executeOperation E (set_current_task (new_task_of L OperationRebalance (map Itoa ids) j d) op) tr) =
      [ReqRebalance \<lparr>reAllowCapacityEstimation = True, reDestinationBrokerIDs = map int32 ids, reDataFrom = ProposalDataSourceValidWindows,
         reUseReadyDefaultGoals = True, reRebalanceDisk = j, reExcludeRecentlyDemotedBrokers = True, reExcludeRecentlyRemovedBrokers = True\<rparr>]"
    by (simp add: executeOperation_def RebalanceWithParams_def Let_def)
qed

lemma disk_request:
  assumes "range_ok L" "distinct (map fst ds)" "list_all pair_ok (id_pairs ds)" "id_pairs ds \<noteq> []"
  shows "\<exists>m. fst (executeOperation E (set_current_task (new_task_of L OperationRemoveDisks is j (map printed ds)) op) tr) = [ReqRemoveDisks m] \<and>
    (\<forall>i. in_range 32 i \<longrightarrow> dirs_of m (int32 i) = (case map_of ds i of None \<Rightarrow> [] | Some l \<Rightarrow> l))"
proof -
  obtain ds' where ds': "rangeOrder L (map printed ds) = map printed ds'" "mset ds' = mset ds"
    using range_printed [OF assms(1,2)] .
  have set': "set ds' = set ds" using ds'(2) mset_eq_setD by blast
  have d': "distinct (map fst ds')" using ds'(2) assms(2) by (metis mset_eq_imp_distinct_iff mset_map)
  have look: "map_of ds' = map_of ds" by (rule map_of_inject_set [OF d' assms(2), THEN iffD2]) (rule set')
  have sp: "set (id_pairs ds') = set (id_pairs ds)" by (simp add: id_pairs_def set')
  then have "list_all pair_ok (id_pairs ds')" "id_pairs ds' \<noteq> []" using assms(3,4) by (auto simp: list_all_iff)
  then obtain m where m: "parseBrokerIDsAndLogDirsToMap (join '','' (map log_dir_pair (id_pairs ds'))) = Inr m"
    "\<forall>i. in_range 32 i \<longrightarrow> dirs_of m (int32 i) = map snd (filter (\<lambda>p. fst p = i) (id_pairs ds'))"
    using log_dirs_roundtrip by blast
  have "m \<noteq> []"
  proof
    assume "m = []"
    obtain p where p: "p \<in> set (id_pairs ds')" using \<open>id_pairs ds' \<noteq> []\<close> by (cases "id_pairs ds'") auto
    then have "in_range 32 (fst p)" using \<open>list_all pair_ok (id_pairs ds')\<close> by (auto simp: list_all_iff pair_ok_def)
    then show False using m(2) \<open>m = []\<close> p by (auto simp: dirs_of_def filter_empty_conv)
  qed
  then have "fst (executeOperation E (set_current_task (new_task_of L OperationRemoveDisks is j (map printed ds)) op) tr) = [ReqRemoveDisks m]"
    using m(1) by (simp add: executeOperation_def RemoveDisksWithParams_def Let_def remove_disks_params_lookup task_parameters_ok
        disks_parameters ds'(1) disk_pairs_printed split: prod.split)
  then show ?thesis using m(2) id_pairs_filter [OF d'] by (auto simp: look)
qed

text \<open>(C16) From tasks to Cruise Control: the operation that the task controller creates for a list of brokers
  makes the operation controller send one request for exactly these brokers, in their order, excluding
  demoted and removed brokers; disks are rebalanced only when asked for; and a removal of disks asks
  for exactly the log directories given for each broker, whatever the order in which Go visits the map.\<close>

theorem created_operation_requests:
  assumes "ids \<noteq> []" "list_all (in_range 32) ids"
    and "range_ok L" "distinct (map fst ds)" "list_all pair_ok (id_pairs ds)" "id_pairs ds \<noteq> []"
  shows "fst (executeOperation E (set_current_task (new_task_of L OperationAddBroker (map Itoa ids) j d) op) tr) =
      [ReqAddBroker \<lparr>abAllowCapacityEstimation = True, abBrokerIDs = map int32 ids, abDataFrom = ProposalDataSourceValidWindows,
         abUseReadyDefaultGoals = True, abExcludeRecentlyDemotedBrokers = True, abExcludeRecentlyRemovedBrokers = True\<rparr>] \<and>
    fst (executeOperation E (set_current_task (new_task_of L OperationRemoveBroker (map Itoa ids) j d) op) tr) =
      [ReqRemoveBroker \<lparr>rbAllowCapacityEstimation = True, rbBrokerIDs = map int32 ids, rbDataFrom = ProposalDataSourceValidWindows,
         rbUseReadyDefaultGoals = True, rbExcludeRecentlyDemotedBrokers = True, rbExcludeRecentlyRemovedBrokers = True\<rparr>] \<and>
    fst (executeOperation E (set_current_task (new_task_of L OperationRebalance (map Itoa ids) j d) op) tr) =
      [ReqRebalance \<lparr>reAllowCapacityEstimation = True, reDestinationBrokerIDs = map int32 ids, reDataFrom = ProposalDataSourceValidWindows,
         reUseReadyDefaultGoals = True, reRebalanceDisk = j, reExcludeRecentlyDemotedBrokers = True, reExcludeRecentlyRemovedBrokers = True\<rparr>] \<and>
    (\<exists>m. fst (executeOperation E (set_current_task (new_task_of L OperationRemoveDisks is j (map printed ds)) op) tr) = [ReqRemoveDisks m] \<and>
       (\<forall>i. in_range 32 i \<longrightarrow> dirs_of m (int32 i) = (case map_of ds i of None \<Rightarrow> [] | Some l \<Rightarrow> l)))"
  by (intro conjI requests [OF assms(1,2)] disk_request [OF assms(3-6)])

theorem created_operation_requests_witness:
  "\<exists>m. fst (executeOperation (sample_env []) (set_current_task (new_task_of sample_libs OperationRemoveDisks [] False
        (map printed [(1, [''/a'', ''/b'']), (2, [''/c''])])) (sample_op ''op'' OperationRemoveDisks 0)) []) = [ReqRemoveDisks m] \<and>
      dirs_of m (int32 1) = [''/a'', ''/b'']"
proof -
  let ?ds = "[(1, [''/a'', ''/b'']), (2, [''/c''])] :: (int \<times> string list) list"
  have "list_all pair_ok (id_pairs ?ds)" "id_pairs ?ds \<noteq> []" "list_all (in_range 32) [1]" "in_range 32 1" "distinct (map fst ?ds)"
    by (simp_all add: id_pairs_def pair_ok_def in_range_def)
  from created_operation_requests [OF _ this(3) sample_libs_range this(5,1,2),
      of "sample_env []" False "[]" "sample_op ''op'' OperationRemoveDisks 0" "[]" "[]"] this(4)
  show ?thesis by fastforce
qed

section \<open>Waiting for brokers\<close>

text \<open>The broker takes part in the cluster, as Cruise Control reports it.\<close>

definition available :: "BrokerLoad list \<Rightarrow> string \<Rightarrow> bool" where
  "available brokers i \<longleftrightarrow>
     (\<exists>b \<in> set brokers. broker_id_text (loadBroker b) = i \<and> loadBrokerState b \<in> {KafkaBrokerAlive, KafkaBrokerNew})"

lemma fold_update_True: "map_of (fold (\<lambda>b. AList.update b True) bs m) i = (if i \<in> set bs then Some True else map_of m i)"
  by (induction bs arbitrary: m) (auto simp: gm_get_update)

lemma unavailable_iff:
  "getUnavailableBrokers E ids tr = (Inr us, tr') \<longleftrightarrow>
     (\<exists>brokers. ccLoad (ccClient E tr) = Inr brokers \<and> us = filter (\<lambda>i. \<not> available brokers i) ids \<and> tr' = tr @ [EvCC ReqLoad])"
proof (cases "ccLoad (ccClient E tr)")
  case (Inr brokers)
  have "i \<in> (\<lambda>b. broker_id_text (loadBroker b)) ` {b \<in> set brokers. loadBrokerState b = KafkaBrokerAlive \<or> loadBrokerState b = KafkaBrokerNew}
      \<longleftrightarrow> available brokers i" for i by (auto simp: available_def)
  then show ?thesis
    using Inr by (auto simp: getUnavailableBrokers_def BrokersWithState_def Let_def fold_update_True intro!: filter_cong)
qed (auto simp: getUnavailableBrokers_def BrokersWithState_def)

text \<open> An operation that adds brokers is created only for brokers that Cruise Control reports, in the same
  reconcile, as alive or new. While one of them is not there, or Cruise Control cannot tell, no event
  but the question is produced and the reconcile is repeated after twenty seconds.\<close>

theorem upscale_waits_for_brokers:
  assumes "KRaftMode (kcSpec inst) = False" "GetActiveTasksByOp OperationAddBroker s \<noteq> []"
  shows "(\<exists>brokers. ccLoad (ccClient E tr) = Inr brokers \<and>
       list_all (available brokers) (broker_ids s (GetActiveTasksByOp OperationAddBroker s)) \<and>
       upscale_case E L inst ttl s tr = scheduled (GetActiveTasksByOp OperationAddBroker s) s
         (addBrokers E L inst ttl (broker_ids s (GetActiveTasksByOp OperationAddBroker s)) (tr @ [EvCC ReqLoad]))) \<or>
    (\<not> (\<exists>brokers. ccLoad (ccClient E tr) = Inr brokers \<and>
       list_all (available brokers) (broker_ids s (GetActiveTasksByOp OperationAddBroker s))) \<and>
     upscale_case E L inst ttl s tr = (Inl (Ret (RequeueAfter 20)), tr @ [EvCC ReqLoad]))"
proof -
  let ?is = "GetActiveTasksByOp OperationAddBroker s"
  let ?ids = "broker_ids s ?is"
  have ne: "?ids \<noteq> []" using assms(2) by (simp add: broker_ids_def)
  show ?thesis
  proof (cases "ccLoad (ccClient E tr)")
    case (Inl e)
    then have "\<exists>e. getUnavailableBrokers E ?ids tr = (Inl e, tr @ [EvCC ReqLoad])"
      by (auto simp: getUnavailableBrokers_def BrokersWithState_def)
    then show ?thesis using Inl assms(1) ne by (auto simp: upscale_case_def Let_def DefaultRequeueAfterTimeInSec_def)
  next
    case (Inr brokers)
    let ?us = "filter (\<lambda>i. \<not> available brokers i) ?ids"
    have "getUnavailableBrokers E ?ids tr = (Inr ?us, tr @ [EvCC ReqLoad])" using Inr by (simp add: unavailable_iff)
    moreover have "?us = [] \<longleftrightarrow> list_all (available brokers) ?ids" by (auto simp: filter_empty_conv list_all_iff)
    ultimately show ?thesis
      using Inr assms(1) ne by (cases "?us = []") (auto simp: upscale_case_def Let_def DefaultRequeueAfterTimeInSec_def)
  qed
qed

theorem upscale_waits_for_brokers_witness:
  "upscale_case (sample_env []) sample_libs upscale_cluster None (refreshed upscale_cluster []) [] =
     (Inl (Ret (RequeueAfter 20)), [EvCC ReqLoad])"
proof -
  let ?s = "refreshed upscale_cluster []"
  have "KRaftMode (kcSpec upscale_cluster) = False" "GetActiveTasksByOp OperationAddBroker ?s = [1]"
    "BrokerID (tasks ?s ! 1) = ''0''" "ccLoad (ccClient (sample_env []) []) = Inr []"
    by code_simp+
  then show ?thesis
    using upscale_waits_for_brokers [of upscale_cluster ?s "sample_env []" "[]" sample_libs None]
    by (simp add: broker_ids_def available_def)
qed

section \<open>JBOD capacity\<close>

text \<open>The verdict of the entries on one broker: an entry with a plain disk capacity, for the broker or for all,
  makes it not JBOD; a later entry with a capacity per disk for this broker makes it JBOD again.\<close>

definition entry_verdict :: "libs \<Rightarrow> string \<Rightarrow> json \<Rightarrow> bool \<Rightarrow> bool" where
  "entry_verdict L b c v = (case c of
     JObject m \<Rightarrow> (case NestedString L m BrokerIdLabelKey of
         Inr (Some i) \<Rightarrow> (case NestedMap L m BrokerCapacity BrokerCapacityDisk of
             Inl e \<Rightarrow> v \<and> \<not> (i = ''-1'' \<or> i = b)
           | Inr ok \<Rightarrow> v \<or> (i = b \<and> ok))
       | _ \<Rightarrow> v)
   | _ \<Rightarrow> v)"

lemma jbod_entry_verdict:
  assumes "jbod_entry L c m = Inr m'"
  shows "map_of m' b = map_option (entry_verdict L b c) (map_of m b)" "gm_dom m' = gm_dom m" "gm_ok m \<Longrightarrow> gm_ok m'"
proof -
  have all: "map_of (map (\<lambda>(b, j). (b, False)) m) b = map_option (\<lambda>_. False) (map_of m b)" for b :: string and m :: "(string, bool) gomap"
    by (induction m) auto
  have dom: "gm_ok m \<Longrightarrow> gm_ok (map (\<lambda>(b, j). (b, False)) m)" by (simp add: comp_def case_prod_beta)
  have look: "map_of m' b = map_option (entry_verdict L b c) (map_of m b)" for b
    using assms by (cases "map_of m b") (auto simp: jbod_entry_def entry_verdict_def Let_def gm_get_update all
        split: json.splits sum.splits option.splits if_splits)
  then show "map_of m' b = map_option (entry_verdict L b c) (map_of m b)" .
  show "gm_dom m' = gm_dom m" unfolding dom_map_of_conv_image_fst [symmetric] by (auto simp: dom_def look)
  show "gm_ok m \<Longrightarrow> gm_ok m'"
    using assms dom by (auto simp: jbod_entry_def Let_def simp del: map_map split: json.splits sum.splits option.splits if_splits)
qed

lemma jbod_entries_verdict:
  assumes "jbod_entries L cs m = Inr m'"
  shows "map_of m' b = map_option (fold (entry_verdict L b) cs) (map_of m b) \<and> gm_dom m' = gm_dom m \<and> (gm_ok m \<longrightarrow> gm_ok m')"
  using assms
proof (induction cs arbitrary: m)
  case Nil
  then show ?case by (simp add: option.map_ident)
next
  case (Cons c cs)
  then obtain m1 where m1: "jbod_entry L c m = Inr m1" "jbod_entries L cs m1 = Inr m'" by (auto split: sum.splits)
  then show ?case using Cons.IH [OF m1(2)] jbod_entry_verdict [OF m1(1)] by (auto simp: option.map_comp comp_def)
qed

text \<open> The selector splits the brokers by the verdict of the capacity configuration on each of them: every
  given broker is in exactly one of the two lists. Without a configuration all brokers are JBOD.\<close>

theorem jbod_selector_correct:
  assumes "brokersJBODSelector L ids cfg = Inr (jbod, notJBOD)"
  shows "set jbod \<union> set notJBOD = set ids \<and> set jbod \<inter> set notJBOD = {} \<and>
    (cfg = [] \<longrightarrow> jbod = ids) \<and>
    (cfg \<noteq> [] \<longrightarrow> (\<exists>cs. UnmarshalCapacities L cfg = Inr cs \<and>
       (\<forall>b \<in> set ids. b \<in> set jbod \<longleftrightarrow> fold (entry_verdict L b) cs True)))"
proof (cases "cfg = []")
  case True
  then show ?thesis using assms by (simp add: brokersJBODSelector_def)
next
  case False
  let ?m0 = "fold (\<lambda>b. AList.update b True) ids []"
  obtain cs m where cs: "UnmarshalCapacities L cfg = Inr cs" "jbod_entries L cs ?m0 = Inr m"
    "jbod = map fst (filter snd m)" "notJBOD = map fst (filter (\<lambda>e. \<not> snd e) m)"
    using assms False by (auto simp: brokersJBODSelector_def Let_def split: sum.splits)
  have dom0: "gm_dom (fold (\<lambda>b. AList.update b True) xs m0) = gm_dom m0 \<union> set xs \<and>
      (gm_ok m0 \<longrightarrow> gm_ok (fold (\<lambda>b. AList.update b True) xs m0))" for xs :: "string list" and m0 :: "(string, bool) gomap"
    by (induction xs arbitrary: m0) auto
  have m: "gm_dom m = set ids" "gm_ok m" "map_of m b = map_option (fold (entry_verdict L b) cs) (map_of ?m0 b)" for b
    using jbod_entries_verdict [OF cs(2)] dom0 [of ids "[]"] by auto
  have j: "b \<in> set jbod \<longleftrightarrow> map_of m b = Some True" for b unfolding cs(3) using m(2) by (force simp: gm_get_in)
  have n: "b \<in> set notJBOD \<longleftrightarrow> map_of m b = Some False" for b unfolding cs(4) using m(2) by (force simp: gm_get_in)
  have "set jbod \<union> set notJBOD = set ids" unfolding cs(3,4) m(1) [symmetric] by auto
  moreover have "set jbod \<inter> set notJBOD = {}" using j n by auto
  moreover have "b \<in> set jbod \<longleftrightarrow> fold (entry_verdict L b) cs True" if "b \<in> set ids" for b
    using j [of b] m(3) [of b] that by (simp add: fold_update_True)
  ultimately show ?thesis using False cs(1) by blast
qed

theorem jbod_selector_correct_witness:
  "set [''1''] \<union> set [''2''] = set [''1'', ''2''] \<and> brokersJBODSelector sample_libs [''1'', ''2''] ''{}'' = Inr ([''1''], [''2''])"
proof -
  have "brokersJBODSelector sample_libs [''1'', ''2''] ''{}'' = Inr ([''1''], [''2''])" by code_simp
  then show ?thesis using jbod_selector_correct by blast
qed

text \<open>Writing the status of the cluster: every write carries the states of the tasks, at most six writes are
  made, and success means that either nothing had changed or the last write was accepted by the API
  server. After a conflict the cluster is read again and the states of the tasks are applied to it.\<close>

theorem status_written_fresh:
  assumes "backoff_ok (backoffCluster E)" "UpdateStatus E s inst tr = (r, inst', tr')"
  shows "\<exists>d. tr' = tr @ d \<and> length (writes d) \<le> 6 \<and> (\<forall>c \<in> set (writes d). \<exists>b. c = SyncState s b) \<and> r \<noteq> Panic \<and>
    (r = Ret () \<longrightarrow> (d = [] \<and> BrokersState inst' = BrokersState inst) \<or>
       (\<exists>p c. d = p @ [EvClusterStatus c] \<and> updateStatusCluster E (tr @ p) c = Inr inst'))"
proof (cases "BrokersState inst = BrokersState (SyncState s inst)")
  case True
  then show ?thesis using assms(2) by (auto simp: UpdateStatus_def Let_def)
next
  case False
  obtain n where n: "1 \<le> n" "n \<le> BackoffSteps"
    "RetryOnConflict (backoffCluster E) (status_retry E s) (SyncState s inst, tr) = retry n (status_retry E s) IsConflict (SyncState s inst, tr)"
    using RetryOnError_retry [OF assms(1)] unfolding RetryOnConflict_def by blast
  have "retry n (status_retry E s) IsConflict (SyncState s inst, tr) = (r, inst', tr')"
    using assms(2) False n(3) by (simp add: UpdateStatus_def Let_def)
  from retry_writes [OF n(1) this] obtain d where "tr' = tr @ d" "length (writes d) \<le> n" "\<forall>c \<in> set (writes d). \<exists>b. c = SyncState s b"
    "r = Ret () \<longrightarrow> (\<exists>p c. d = p @ [EvClusterStatus c] \<and> updateStatusCluster E (tr @ p) c = Inr inst')" "r \<noteq> Panic"
    by blast
  then show ?thesis using n(2) by (intro exI [of _ d]) (auto simp: BackoffSteps_def)
qed

text \<open>An API server that answers the first write with a conflict.\<close>

definition conflict_env :: env where
  "conflict_env = upscale_env\<lparr>updateStatusCluster := (\<lambda>tr c. if tr = [] then Inl ApiConflict else Inr c)\<rparr>"

theorem status_written_fresh_witness:
  "\<exists>inst' tr' d. UpdateStatus conflict_env (set_task (schedule_task ''op-1'') 1 (getActiveTasksFromCluster upscale_cluster)) upscale_cluster []
      = (Ret (), inst', tr') \<and> tr' = d \<and> length d = 3 \<and> length (writes d) \<le> 6"
proof -
  let ?s = "set_task (schedule_task ''op-1'') 1 (getActiveTasksFromCluster upscale_cluster)"
  let ?u = "UpdateStatus conflict_env ?s upscale_cluster []"
  have b: "backoff_ok (backoffCluster conflict_env)" by (simp add: conflict_env_def upscale_env_backoff)
  have "fst ?u = Ret ()" "length (snd (snd ?u)) = 3" by code_simp+
  then show ?thesis using status_written_fresh [OF b, of ?s upscale_cluster "[]"] by (cases ?u) auto
qed

end
