(* ===== verification/CCTtlCtl.thy ===== *)
theory CCTtlCtl
  imports CCOperationCtl
begin

text \<open>
  The time-to-live controller (\<open>controllers/cruisecontroloperation_ttl_controller.go\<close>): it deletes a finished
  operation once its time to live is over. A \<open>time.Duration\<close> is a signed 64-bit number of nanoseconds:
  the product with \<open>time.Second\<close> wraps around, the difference of two times saturates.

  The clock is read twice, first by \<open>time.Since\<close> and then by \<open>time.Until\<close>; \<open>elapsed\<close> is the time between the
  two readings. Seconds as a floating-point number are taken as exact, which they are below 2^23 s.
\<close>

definition Duration_Second :: "64 word" where
  "Duration_Second = 1000000000"

definition saturate :: "int \<Rightarrow> int" where
  "saturate d = max (- 9223372036854775808) (min 9223372036854775807 d)"

definition time_Sub :: "time \<Rightarrow> time \<Rightarrow> int" where
  "time_Sub t u = saturate (t - u)"

definition IsExpired :: "time \<Rightarrow> 64 word \<Rightarrow> time \<Rightarrow> bool" where
  "IsExpired current ttl finishedAt \<longleftrightarrow> time_Sub current finishedAt > sint ttl"

text \<open>\<open>int(d.Seconds() + 1)\<close>, truncated towards zero.\<close>

definition seconds_plus_one :: "int \<Rightarrow> int" where
  "seconds_plus_one d = (if d + Second \<ge> 0 then (d + Second) div Second else - ((- (d + Second)) div Second))"

definition delete_op :: "env \<Rightarrow> CruiseControlOperation \<Rightarrow> trace \<Rightarrow> reconcile_result \<times> trace" where
  "delete_op E ccOperation tr =
     (let tr1 = tr @ [EvDelete ccOperation] in
      (case deleteOp E tr ccOperation of
         Some e \<Rightarrow> if \<not> IsNotFound e
                   then (requeueWithError ''error is occurred when deleting finished CruiseControlOperation '' e, tr1)
                   else (reconciled, tr1)
       | None \<Rightarrow> (reconciled, tr1)))"

definition Reconcile :: "env \<Rightarrow> int \<Rightarrow> string \<Rightarrow> string \<Rightarrow> trace \<Rightarrow> reconcile_result \<times> trace" where
  "Reconcile E elapsed name ns tr =
     (let tr1 = tr @ [EvGetOp name ns] in
      (case getOp E tr name ns of
         Inl e \<Rightarrow> if IsNotFound e then (reconciled, tr1) else (requeueWithError [] e, tr1)
       | Inr ccOperation \<Rightarrow>
           (case (GetTTLSecondsAfterFinished ccOperation, CurrentTaskFinished ccOperation) of
              (Some ttl, Some finishedAt) \<Rightarrow>
                let operationTTL = ttl * Duration_Second;
                    cleanupTime = finishedAt + sint operationTTL
                in if IsExpired (now E tr1) operationTTL finishedAt then delete_op E ccOperation tr1
                   else (requeueAfter (seconds_plus_one (time_Sub cleanupTime (now E tr1 + elapsed))), tr1)
            | _ \<Rightarrow> (reconciled, tr1))))"

definition TTLCreateFunc :: "CruiseControlOperation \<Rightarrow> bool" where
  "TTLCreateFunc obj \<longleftrightarrow> IsFinished obj \<and> GetTTLSecondsAfterFinished obj \<noteq> None \<and> time_IsZero (DeletionTimestamp (Meta obj))"

definition TTLUpdateFunc :: "CruiseControlOperation \<Rightarrow> bool" where
  "TTLUpdateFunc newObj \<longleftrightarrow> IsFinished newObj \<and> GetTTLSecondsAfterFinished newObj \<noteq> None \<and> time_IsZero (DeletionTimestamp (Meta newObj))"

definition TTLDeleteFunc :: "CruiseControlOperation \<Rightarrow> bool" where
  "TTLDeleteFunc obj \<longleftrightarrow> False"

section \<open>Lemmas\<close>

lemma sint_word_of_int: "- (2 ^ 63) \<le> i \<Longrightarrow> i < 2 ^ 63 \<Longrightarrow> sint (word_of_int i :: 64 word) = i"
  by (simp add: sint_sbintrunc' signed_take_bit_int_eq_self)

lemma ttl_nanoseconds:
  assumes "0 \<le> sint ttl" "sint ttl \<le> 9223372036"
  shows "sint (ttl * Duration_Second) = sint ttl * Second"
proof -
  have "ttl * Duration_Second = word_of_int (sint ttl * 1000000000)"
    by (simp add: Duration_Second_def wi_hom_mult [symmetric])
  then show ?thesis using assms sint_word_of_int [of "sint ttl * 1000000000"] by (simp add: Second_def)
qed

lemma saturate_id: "- 9223372036854775808 \<le> d \<Longrightarrow> d \<le> 9223372036854775807 \<Longrightarrow> saturate d = d"
  by (simp add: saturate_def)

lemma seconds_plus_one_bounds: "0 \<le> d \<Longrightarrow> 0 < seconds_plus_one d \<and> d < seconds_plus_one d * Second \<and> (seconds_plus_one d - 1) * Second \<le> d"
  by (auto simp: seconds_plus_one_def Second_def)

section \<open>Properties\<close>


text \<open>A finished operation with a time to live of one minute.\<close>

definition ttl_op :: "64 word \<Rightarrow> CruiseControlOperation" where
  "ttl_op ttl = (let op = sample_op ''op'' OperationAddBroker 0
     in upd_task (\<lambda>t. t\<lparr>Finished := Some 0, State := CruiseControlTaskCompleted\<rparr>) (op\<lparr>Spec := (Spec op)\<lparr>TTLSecondsAfterFinished := Some ttl\<rparr>\<rparr>))"

definition ttl_env :: "64 word \<Rightarrow> time \<Rightarrow> env" where
  "ttl_env ttl t = (sample_env [])\<lparr>getOp := (\<lambda>tr n ns. Inr (ttl_op ttl)), now := (\<lambda>tr. t)\<rparr>"

lemma ttl_op_simps: "GetTTLSecondsAfterFinished (ttl_op ttl) = Some ttl" "CurrentTaskFinished (ttl_op ttl) = Some 0"
  by (simp_all add: ttl_op_def Let_def GetTTLSecondsAfterFinished_def CurrentTaskFinished_def sample_op_def set_current_task_def CurrentTask_def upd_task_def)


text \<open> What the controller deletes: the operation it was asked about, once, and only when the operation has
  a time to live and a finished task whose age exceeds the duration computed from it.\<close>

theorem ttl_deletes_only_expired:
  "EvDelete op \<in> set (drop (length tr) (snd (Reconcile E elapsed name ns tr))) \<longrightarrow>
     getOp E tr name ns = Inr op \<and> snd (Reconcile E elapsed name ns tr) = tr @ [EvGetOp name ns, EvDelete op] \<and>
     (\<exists>ttl f. GetTTLSecondsAfterFinished op = Some ttl \<and> CurrentTaskFinished op = Some f \<and>
        saturate (now E (tr @ [EvGetOp name ns]) - f) > sint (ttl * Duration_Second))"
  by (auto simp: Reconcile_def Let_def delete_op_def IsExpired_def time_Sub_def split: sum.splits option.splits if_splits)

theorem ttl_deletes_only_expired_witness:
  "EvDelete (ttl_op 60) \<in> set (drop (length ([] :: trace)) (snd (Reconcile (ttl_env 60 61000000000) 5 ''op'' ''ns'' []))) \<and>
   getOp (ttl_env 60 61000000000) [] ''op'' ''ns'' = Inr (ttl_op 60)"
proof -
  have "EvDelete (ttl_op 60) \<in> set (drop (length ([] :: trace)) (snd (Reconcile (ttl_env 60 61000000000) 5 ''op'' ''ns'' [])))" by code_simp
  then show ?thesis using ttl_deletes_only_expired by blast
qed

section \<open>Two corner cases\<close>

text \<open>A time to live of 9223372037 s or a little more wraps around to a negative duration: the operation is
  deleted at once.\<close>

lemma ttl_wraps_around:
  "snd (Reconcile (ttl_env 9223372037 0) 0 ''op'' ''ns'' []) = [EvGetOp ''op'' ''ns'', EvDelete (ttl_op 9223372037)]"
  by code_simp

text \<open>When the time to live runs out between the two readings of the clock, the delay becomes zero, which the
  controller runtime takes as no delay at all: the operation is neither deleted nor looked at again.\<close>

lemma ttl_runs_out_between_readings:
  "Reconcile (ttl_env 60 60000000000) 1 ''op'' ''ns'' [] = (Ret (RequeueAfter 0), [EvGetOp ''op'' ''ns''])"
  by code_simp

end
