(* ===== verification/KafkaStatus.thy ===== *)
theory KafkaStatus
  imports World
begin

text \<open>
  Writing the status of a Kafka cluster (\<open>pkg/k8sutil/status.go\<close>), and what the Kafka reconciler sees of the
  outside: the Kubernetes API, Kafka and Cruise Control are the record \<open>kenv\<close>, whose functions take the
  events so far, so that their answers may change from call to call.

  The functions of \<open>status.go\<close> change the object, write it, and after a conflict read it again, change it
  again and write it once more. \<open>TypeMeta\<close>, which they save and restore, is not part of the model.
\<close>

section \<open>Pods and the environment\<close>

text \<open>A pod: its metadata, specification and status. The status of a container is given by whether it has
  terminated and whether it is waiting, that of an init container by the reason of its termination.
  Tolerations, which the rolling upgrade merges, are kept apart from the rest of the specification.\<close>

record Container =
  csTerminated :: bool
  csWaiting :: bool

record Pod =
  podName :: string
  podLabels :: "(string, string) gomap"
  podDeletionTimestamp :: "time option"
  podTolerations :: "string list"
  podInitTerminated :: "string option list"
  podContainers :: "Container list"
  podPhase :: string
  podReason :: string
  podGenerateName :: string
  podAnnotations :: "(string, string) gomap"
  podSpec :: PodSpec

definition claim_name :: "VolumeSource \<Rightarrow> string option" where
  "claim_name s = (case s of PvcSource n \<Rightarrow> Some n | _ \<Rightarrow> None)"

definition podVolumes :: "Pod \<Rightarrow> (string \<times> string option) list" where
  "podVolumes p = map (\<lambda>v. (volName v, claim_name (volSource v))) (psVolumes (podSpec p))"

record Pvc =
  pvcName :: string
  pvcMountPath :: string
  pvcLabels :: "(string, string) gomap"
  pvcPhase :: string
  pvcStorage :: int

text \<open>A claim as the alert manager reads it.\<close>

record AlertPvc =
  apNamespace :: string
  apLabels :: "(string, string) gomap"
  apAnnotations :: "(string, string) gomap"
  apPhase :: string

text \<open>The goals that the state of Cruise Control reports: the ready ones, and the violated ones by anomaly.\<close>

record AnalyzerGoals =
  ReadyGoals :: "string list"
  RecentGoalViolations :: "(string list \<times> string list) list"

datatype kevent =
    KStatusUpdate KafkaCluster
  | KUpdate KafkaCluster
  | KGetCluster string string
  | KListPods
  | KDeletePod Pod
  | KDeleteConfigMap string
  | KDeleteService string
  | KDeletePvc string
  | KListPvcs string
  | KCreatePvc Pvc
  | KUpdatePvc Pvc
  | KScaleFactory
  | KCC cc_request
  | KKafkaClient
  | KAllOfflineReplicas
  | KOutOfSyncReplicas
  | KGetPvc string string
  | KListClusterPvcs string string
  | KListNamespaces
  | KDeleteAllTopics string string
  | KDeleteAllUsers string string
  | KListChildTopics string
  | KFinalizePKI
  | KComponent nat
  | KDescribeBroker "32 word" "string list"
  | KAlterBroker "32 word" "(string, string option) gomap" bool
  | KDescribeClusterWide
  | KAlterClusterWide "(string, string option) gomap" bool
  | KGetObject kkind string
  | KCreateObject kobject
  | KUpdateObject kobject
  | KListServices
  | KGetSecret string
  | KGetNode string
  | KListBrokerPods string
  | KListAllPvcs
  | KCreatePod Pod
  | KDescribeCluster
  | KReconcilePKI
  | KExtractVersion "32 word"

type_synonym ktrace = "kevent list"

record kenv =
  kStatusUpdate :: "ktrace \<Rightarrow> KafkaCluster \<Rightarrow> err + KafkaCluster"
  kUpdate :: "ktrace \<Rightarrow> KafkaCluster \<Rightarrow> err + KafkaCluster"
  kGetCluster :: "ktrace \<Rightarrow> string \<Rightarrow> string \<Rightarrow> err + KafkaCluster"
  kListPods :: "ktrace \<Rightarrow> err + Pod list"
  kDeletePod :: "ktrace \<Rightarrow> Pod \<Rightarrow> err option"
  kDeleteConfigMap :: "ktrace \<Rightarrow> string \<Rightarrow> err option"
  kDeleteService :: "ktrace \<Rightarrow> string \<Rightarrow> err option"
  kDeletePvc :: "ktrace \<Rightarrow> string \<Rightarrow> err option"
  kListPvcs :: "ktrace \<Rightarrow> string \<Rightarrow> err + Pvc list"
  kCreatePvc :: "ktrace \<Rightarrow> Pvc \<Rightarrow> err option"
  kUpdatePvc :: "ktrace \<Rightarrow> Pvc \<Rightarrow> err option"
  kScaleFactory :: "ktrace \<Rightarrow> err option"
  kccClient :: "ktrace \<Rightarrow> cc_client"
  kGoals :: "ktrace \<Rightarrow> err + AnalyzerGoals option"
  kKafkaClient :: "ktrace \<Rightarrow> err option"
  kAllOfflineReplicas :: "ktrace \<Rightarrow> err + 32 word list"
  kOutOfSyncReplicas :: "ktrace \<Rightarrow> err + 32 word list"
  kPatchCalculate :: "Pod \<Rightarrow> Pod \<Rightarrow> err + bool"
  kSetLastApplied :: "Pod \<Rightarrow> err option"
  kPatchPvc :: "Pvc \<Rightarrow> Pvc \<Rightarrow> err + bool"
  kSetLastAppliedPvc :: "Pvc \<Rightarrow> err option"
  kTaintSelector :: "err + ((string, string) gomap \<Rightarrow> bool) option"
  kBrokerFromBackup :: "string \<Rightarrow> err + Broker"
  kBrokerBackup :: "Broker \<Rightarrow> err + string"
  kGetPvc :: "ktrace \<Rightarrow> string \<Rightarrow> string \<Rightarrow> err + AlertPvc"
  kListClusterPvcs :: "ktrace \<Rightarrow> string \<Rightarrow> string \<Rightarrow> err + AlertPvc list"
  kRandomString :: "ktrace \<Rightarrow> err + string"
  kParseQuantity :: "string \<Rightarrow> err + int"
  kUnmarshalAnnotations :: "string \<Rightarrow> err option \<times> (string, string) gomap"
  kListNamespaces :: "ktrace \<Rightarrow> err + string list"
  kDeleteAllTopics :: "ktrace \<Rightarrow> string \<Rightarrow> string \<Rightarrow> err option"
  kDeleteAllUsers :: "ktrace \<Rightarrow> string \<Rightarrow> string \<Rightarrow> err option"
  kListChildTopics :: "ktrace \<Rightarrow> string \<Rightarrow> err + string list"
  kFinalizePKI :: "ktrace \<Rightarrow> KafkaCluster \<Rightarrow> err option"
  kNow :: "ktrace \<Rightarrow> string"
  kDescribeBroker :: "ktrace \<Rightarrow> 32 word \<Rightarrow> string list \<Rightarrow> err + (string \<times> string) list"
  kAlterBroker :: "ktrace \<Rightarrow> 32 word \<Rightarrow> (string, string option) gomap \<Rightarrow> bool \<Rightarrow> err option"
  kDescribeClusterWide :: "ktrace \<Rightarrow> err + (string \<times> string) list"
  kAlterClusterWide :: "ktrace \<Rightarrow> (string, string option) gomap \<Rightarrow> bool \<Rightarrow> err option"
  kBackoff :: "((KafkaCluster \<times> ktrace) \<times> err option) backoff"

definition kcall :: "(ktrace \<Rightarrow> 'o \<Rightarrow> err + 'o) \<Rightarrow> ('o \<Rightarrow> kevent) \<Rightarrow> 'o \<Rightarrow> ktrace \<Rightarrow> err option \<times> 'o \<times> ktrace" where
  "kcall f ev ob tr = (case f tr ob of Inl e \<Rightarrow> (Some e, ob, tr @ [ev ob]) | Inr ob' \<Rightarrow> (None, ob', tr @ [ev ob]))"

section \<open>Changes of the status\<close>

text \<open>The dynamic type of the argument \<open>state\<close>.\<close>

datatype status_value =
    StExternalListenerConfigNames "string list"
  | StRackAwarenessState string
  | StGracefulActionState GracefulActionState
  | StGracefulActionStates "(string, GracefulActionState) gomap"
  | StConfigurationState string
  | StPerBrokerConfigurationState string
  | StVolumeStates "(string, VolumeState) gomap"
  | StBrokersVolumeStates "(string, (string, VolumeState) gomap) gomap"
  | StKafkaVersion string string

definition zero_GracefulActionState :: GracefulActionState where
  "zero_GracefulActionState = \<lparr>gasCruiseControlState = CCStateNone, gasCruiseControlOperationReference = None, VolumeStates = []\<rparr>"

definition zero_BrokerState :: BrokerState where
  "zero_BrokerState = \<lparr>RackAwarenessState = [], bsGracefulActionState = zero_GracefulActionState, ConfigurationState = [],
     PerBrokerConfigurationState = [], ExternalListenerConfigNames = [], Version = [], Image = [], ConfigurationBackup = []\<rparr>"

definition set_volume_states :: "(string, VolumeState) gomap \<Rightarrow> BrokerState \<Rightarrow> BrokerState" where
  "set_volume_states vs st = (let gas = bsGracefulActionState st in
     st\<lparr>bsGracefulActionState := gas\<lparr>VolumeStates := fold (\<lambda>(m, v). AList.update m v) vs (VolumeStates gas)\<rparr>\<rparr>)"

definition set_status_value :: "string \<Rightarrow> status_value \<Rightarrow> BrokerState \<Rightarrow> BrokerState" where
  "set_status_value brokerID state st = (case state of
     StExternalListenerConfigNames s \<Rightarrow> st\<lparr>ExternalListenerConfigNames := s\<rparr>
   | StRackAwarenessState s \<Rightarrow> st\<lparr>RackAwarenessState := s\<rparr>
   | StGracefulActionState s \<Rightarrow> st\<lparr>bsGracefulActionState := s\<rparr>
   | StGracefulActionStates s \<Rightarrow>
       st\<lparr>bsGracefulActionState := (case map_of s brokerID of None \<Rightarrow> zero_GracefulActionState | Some g \<Rightarrow> g)\<rparr>
   | StConfigurationState s \<Rightarrow> st\<lparr>ConfigurationState := s\<rparr>
   | StPerBrokerConfigurationState s \<Rightarrow> st\<lparr>PerBrokerConfigurationState := s\<rparr>
   | StVolumeStates s \<Rightarrow> set_volume_states s st
   | StBrokersVolumeStates s \<Rightarrow> set_volume_states (case map_of s brokerID of None \<Rightarrow> [] | Some vs \<Rightarrow> vs) st
   | StKafkaVersion img ver \<Rightarrow> st\<lparr>Image := img, Version := ver\<rparr>)"

definition set_broker_state :: "status_value \<Rightarrow> string \<Rightarrow> (string, BrokerState) gomap \<Rightarrow> (string, BrokerState) gomap" where
  "set_broker_state state brokerID m =
     AList.update brokerID (set_status_value brokerID state (case map_of m brokerID of None \<Rightarrow> zero_BrokerState | Some st \<Rightarrow> st)) m"

definition generateBrokerState :: "string list \<Rightarrow> status_value \<Rightarrow> KafkaCluster \<Rightarrow> KafkaCluster" where
  "generateBrokerState brokerIDs state cluster =
     cluster\<lparr>BrokersState := fold (set_broker_state state) brokerIDs (BrokersState cluster)\<rparr>"

definition delete_broker_state :: "string \<Rightarrow> KafkaCluster \<Rightarrow> KafkaCluster" where
  "delete_broker_state brokerID cluster = cluster\<lparr>BrokersState := AList.delete brokerID (BrokersState cluster)\<rparr>"

definition delete_volume_state :: "string \<Rightarrow> string \<Rightarrow> KafkaCluster \<Rightarrow> KafkaCluster" where
  "delete_volume_state brokerID mountPath cluster = (case map_of (BrokersState cluster) brokerID of
     None \<Rightarrow> cluster
   | Some st \<Rightarrow>
       let gas = bsGracefulActionState st in
       cluster\<lparr>BrokersState := AList.update brokerID
         (st\<lparr>bsGracefulActionState := gas\<lparr>VolumeStates := AList.delete mountPath (VolumeStates gas)\<rparr>\<rparr>) (BrokersState cluster)\<rparr>)"

section \<open>Writing\<close>

definition status_or_update :: "kenv \<Rightarrow> KafkaCluster \<Rightarrow> ktrace \<Rightarrow> err option \<times> KafkaCluster \<times> ktrace" where
  "status_or_update E cluster tr = (case kcall (kStatusUpdate E) KStatusUpdate cluster tr of
     (Some e, c1, tr1) \<Rightarrow> if IsNotFound e then kcall (kUpdate E) KUpdate c1 tr1 else (Some e, c1, tr1)
   | r \<Rightarrow> r)"

text \<open>The body that the five functions below share; \<open>change\<close> is what differs.\<close>

definition write_status ::
  "kenv \<Rightarrow> (KafkaCluster \<Rightarrow> KafkaCluster) \<Rightarrow> KafkaCluster \<Rightarrow> ktrace \<Rightarrow> err option \<times> KafkaCluster \<times> ktrace" where
  "write_status E change cluster tr =
     (case status_or_update E (change cluster) tr of
        (None, c1, tr1) \<Rightarrow> (None, c1, tr1)
      | (Some e, c1, tr1) \<Rightarrow>
          if \<not> IsConflict e then (Some (WrapErr ''could not update the state'' e), c1, tr1)
          else
            let tr2 = tr1 @ [KGetCluster (kcName c1) (kcNamespace c1)] in
            (case kGetCluster E tr1 (kcName c1) (kcNamespace c1) of
               Inl e' \<Rightarrow> (Some (WrapErr ''could not get config for updating status'' e'), c1, tr2)
             | Inr c2 \<Rightarrow>
                 (case status_or_update E (change c2) tr2 of
                    (None, c3, tr3) \<Rightarrow> (None, c3, tr3)
                  | (Some e', c3, tr3) \<Rightarrow> (Some (WrapErr ''could not update the state'' e'), c3, tr3))))"

definition UpdateBrokerStatus ::
  "kenv \<Rightarrow> string list \<Rightarrow> KafkaCluster \<Rightarrow> status_value \<Rightarrow> ktrace \<Rightarrow> err option \<times> KafkaCluster \<times> ktrace" where
  "UpdateBrokerStatus E brokerIDs cluster state tr = write_status E (generateBrokerState brokerIDs state) cluster tr"

definition DeleteBrokerStatus :: "kenv \<Rightarrow> string \<Rightarrow> KafkaCluster \<Rightarrow> ktrace \<Rightarrow> err option \<times> KafkaCluster \<times> ktrace" where
  "DeleteBrokerStatus E brokerID cluster tr = write_status E (delete_broker_state brokerID) cluster tr"

definition DeleteVolumeStatus :: "kenv \<Rightarrow> string \<Rightarrow> string \<Rightarrow> KafkaCluster \<Rightarrow> ktrace \<Rightarrow> err option \<times> KafkaCluster \<times> ktrace" where
  "DeleteVolumeStatus E brokerID mountPath cluster tr = write_status E (delete_volume_state brokerID mountPath) cluster tr"

datatype cr_status = CrClusterState string | CrTopicStatus string

definition set_cr_status :: "cr_status \<Rightarrow> KafkaCluster \<Rightarrow> KafkaCluster" where
  "set_cr_status state cluster = (case state of
     CrClusterState s \<Rightarrow> cluster\<lparr>ClusterState := s\<rparr>
   | CrTopicStatus s \<Rightarrow> cluster\<lparr>CruiseControlTopicStatus := s\<rparr>)"

definition UpdateCRStatus :: "kenv \<Rightarrow> KafkaCluster \<Rightarrow> cr_status \<Rightarrow> ktrace \<Rightarrow> err option \<times> KafkaCluster \<times> ktrace" where
  "UpdateCRStatus E cluster state tr = write_status E (set_cr_status state) cluster tr"

definition UpdateRollingUpgradeState :: "kenv \<Rightarrow> KafkaCluster \<Rightarrow> string \<Rightarrow> ktrace \<Rightarrow> err option \<times> KafkaCluster \<times> ktrace" where
  "UpdateRollingUpgradeState E cluster timeStamp tr =
     write_status E (\<lambda>c. c\<lparr>RollingUpgradeLastSuccess := timeStamp\<rparr>) cluster tr"

section \<open>Backups of the broker configuration\<close>

fun backup_brokers :: "kenv \<Rightarrow> Broker list \<Rightarrow> bool \<Rightarrow> KafkaCluster \<Rightarrow> (err, bool) go \<times> KafkaCluster" where
  "backup_brokers E [] needsUpdate cluster = (Ret needsUpdate, cluster)"
| "backup_brokers E (b # bs) needsUpdate cluster =
     (let i = Itoa (sint (BrokerId b));
          st = (case map_of (BrokersState cluster) i of None \<Rightarrow> zero_BrokerState | Some st \<Rightarrow> st)
      in (case kBrokerBackup E b of
            Inl e \<Rightarrow> (Err (WrapErr ''could not generate broker configuration backup'' e), cluster)
          | Inr backup \<Rightarrow>
              backup_brokers E bs (needsUpdate \<or> backup \<noteq> ConfigurationBackup st)
                (cluster\<lparr>BrokersState := AList.update i (st\<lparr>ConfigurationBackup := backup\<rparr>) (BrokersState cluster)\<rparr>)))"

definition generateBrokerConfigurationBackups :: "kenv \<Rightarrow> KafkaCluster \<Rightarrow> (err, bool) go \<times> KafkaCluster" where
  "generateBrokerConfigurationBackups E cluster = backup_brokers E (Brokers (kcSpec cluster)) False cluster"

text \<open>After a conflict the condition tests the error of the write, which is not nil, and returns the error of the
  read: nil when the read succeeds.\<close>

definition backup_attempt :: "kenv \<Rightarrow> KafkaCluster \<times> ktrace \<Rightarrow> (err, unit) go \<times> KafkaCluster \<times> ktrace" where
  "backup_attempt E st = (case st of (cluster, tr) \<Rightarrow>
     (case generateBrokerConfigurationBackups E cluster of
        (Panic, c1) \<Rightarrow> (Panic, c1, tr)
      | (Err e, c1) \<Rightarrow> (Err e, c1, tr)
      | (Ret False, c1) \<Rightarrow> (Ret (), c1, tr)
      | (Ret True, c1) \<Rightarrow>
          (case kcall (kStatusUpdate E) KStatusUpdate c1 tr of
             (None, c2, tr1) \<Rightarrow> (Ret (), c2, tr1)
           | (Some e, c2, tr1) \<Rightarrow>
               if IsConflict e then
                 let tr2 = tr1 @ [KGetCluster (kcName c2) (kcNamespace c2)] in
                 (case kGetCluster E tr1 (kcName c2) (kcNamespace c2) of
                    Inl e' \<Rightarrow> (Err (WrapErr ''could not get config for updating status'' e'), c2, tr2)
                  | Inr c3 \<Rightarrow> (Ret (), c3, tr2))
               else (Err e, c2, tr1))))"

definition UpdateBrokerConfigurationBackup :: "kenv \<Rightarrow> KafkaCluster \<Rightarrow> ktrace \<Rightarrow> (err, unit) go \<times> KafkaCluster \<times> ktrace" where
  "UpdateBrokerConfigurationBackup E cluster tr = RetryOnConflict (kBackoff E) (backup_attempt E) (cluster, tr)"

section \<open>Lemmas\<close>

fun written :: "kevent \<Rightarrow> KafkaCluster option" where
  "written (KStatusUpdate c) = Some c"
| "written (KUpdate c) = Some c"
| "written _ = None"

lemma status_or_update_events:
  assumes "status_or_update E c tr = (r, c', tr')"
  shows "\<exists>d. tr' = tr @ d \<and> (d = [KStatusUpdate c] \<or> d = [KStatusUpdate c, KUpdate c]) \<and>
    (if r = None then kStatusUpdate E tr c = Inr c' \<or> kUpdate E (tr @ [KStatusUpdate c]) c = Inr c' else c' = c)"
  using assms by (auto simp: status_or_update_def kcall_def split: sum.splits if_splits)

text \<open>Every write carries the change, applied to the given cluster or to one just read; success means that a
  write was accepted.\<close>

lemma write_status_events:
  assumes "write_status E f c tr = (r, c', tr')"
  shows "\<exists>d. tr' = tr @ d \<and> length d \<le> 5 \<and>
    (\<forall>e \<in> set d. \<forall>w. written e = Some w \<longrightarrow> (\<exists>b. w = f b \<and> (b = c \<or> (\<exists>p n ns. kGetCluster E p n ns = Inr b)))) \<and>
    (\<forall>e \<in> set d. written e = None \<longrightarrow> (\<exists>n ns. e = KGetCluster n ns)) \<and>
    (r = None \<longrightarrow> (\<exists>p b. kStatusUpdate E p (f b) = Inr c' \<or> kUpdate E p (f b) = Inr c'))"
proof -
  obtain r1 c1 tr1 where s1: "status_or_update E (f c) tr = (r1, c1, tr1)" by (cases "status_or_update E (f c) tr")
  note e1 = status_or_update_events [OF s1]
  let ?n = "kcName c1" and ?ns = "kcNamespace c1"
  show ?thesis
  proof (cases "\<exists>e b. r1 = Some e \<and> IsConflict e \<and> kGetCluster E tr1 ?n ?ns = Inr b")
    case False
    then have "tr' = tr1 \<or> tr' = tr1 @ [KGetCluster ?n ?ns]" "r = None \<longleftrightarrow> r1 = None" "r = None \<longrightarrow> c' = c1"
      using assms s1 by (auto simp: write_status_def Let_def split: option.splits if_splits sum.splits)
    then show ?thesis using e1 by (elim exE conjE disjE) (auto split: if_splits)
  next
    case True
    then obtain e b where b: "r1 = Some e" "IsConflict e" "kGetCluster E tr1 ?n ?ns = Inr b" by blast
    let ?tr2 = "tr1 @ [KGetCluster ?n ?ns]"
    obtain r3 c3 tr3 where s3: "status_or_update E (f b) ?tr2 = (r3, c3, tr3)" by (cases "status_or_update E (f b) ?tr2")
    note e3 = status_or_update_events [OF s3]
    have "tr' = tr3" "r = None \<longleftrightarrow> r3 = None" "c' = c3"
      using assms s1 s3 b by (auto simp: write_status_def Let_def split: option.splits)
    then show ?thesis using e1 e3 b(3) by (elim exE conjE disjE) (auto split: if_splits)
  qed
qed

lemma set_broker_state_lookup:
  "map_of (set_broker_state v i m) b =
     (if b = i then Some (set_status_value i v (case map_of m i of None \<Rightarrow> zero_BrokerState | Some st \<Rightarrow> st)) else map_of m b)"
  by (simp add: set_broker_state_def gm_get_update)

lemma generateBrokerState_lookup:
  "distinct ids \<Longrightarrow> map_of (fold (set_broker_state v) ids m) b =
     (if b \<in> set ids then Some (set_status_value b v (case map_of m b of None \<Rightarrow> zero_BrokerState | Some st \<Rightarrow> st)) else map_of m b)"
  by (induction ids arbitrary: m) (auto simp: set_broker_state_lookup)

section \<open>Properties\<close>


text \<open>A cluster with two brokers, an API server that answers the first write with a conflict, a healthy Kafka.\<close>

definition sample_brokers :: "Broker list" where
  "sample_brokers = [\<lparr>BrokerId = 0, BrokerConfigGroup = [], ReadOnlyConfig = [], brokerBrokerConfig = None\<rparr>,
     \<lparr>BrokerId = 1, BrokerConfigGroup = [], ReadOnlyConfig = [], brokerBrokerConfig = None\<rparr>]"

definition kafka_cluster :: KafkaCluster where
  "kafka_cluster = zero_KafkaCluster\<lparr>kcName := ''kafka'', kcNamespace := ''ns'', kcGeneration := 1,
     kcSpec := zero_KafkaClusterSpec\<lparr>HeadlessServiceEnabled := True, specRollingUpgradeConfig := \<lparr>FailureThreshold = 1, ConcurrentBrokerRestartCountPerRack = 1\<rparr>, Brokers := sample_brokers\<rparr>,
     BrokersState := [(''0'', zero_BrokerState)], ClusterState := ''ClusterRunning''\<rparr>"

definition sample_kenv :: kenv where
  "sample_kenv = \<lparr>kStatusUpdate = (\<lambda>tr c. if tr = [] then Inl ApiConflict else Inr c), kUpdate = (\<lambda>tr c. Inr c),
     kGetCluster = (\<lambda>tr n ns. Inr kafka_cluster), kListPods = (\<lambda>tr. Inr []), kDeletePod = (\<lambda>tr p. None),
     kDeleteConfigMap = (\<lambda>tr n. None), kDeleteService = (\<lambda>tr n. None), kDeletePvc = (\<lambda>tr n. None),
     kListPvcs = (\<lambda>tr i. Inr []), kCreatePvc = (\<lambda>tr p. None), kUpdatePvc = (\<lambda>tr p. None), kScaleFactory = (\<lambda>tr. None),
     kccClient = (\<lambda>tr. idle_client), kGoals = (\<lambda>tr. Inr None), kKafkaClient = (\<lambda>tr. None), kAllOfflineReplicas = (\<lambda>tr. Inr []),
     kOutOfSyncReplicas = (\<lambda>tr. Inr []), kPatchCalculate = (\<lambda>c d. Inr False), kSetLastApplied = (\<lambda>p. None),
     kPatchPvc = (\<lambda>c d. Inr True), kSetLastAppliedPvc = (\<lambda>p. None), kTaintSelector = Inr None,
     kBrokerFromBackup = (\<lambda>s. Inr (hd sample_brokers)), kBrokerBackup = (\<lambda>b. Inr ''backup''),
     kGetPvc = (\<lambda>tr n ns. Inl ApiNotFound), kListClusterPvcs = (\<lambda>tr ns c. Inr []), kRandomString = (\<lambda>tr. Inr ''abcdef''),
     kParseQuantity = (\<lambda>s. Inr 10), kUnmarshalAnnotations = (\<lambda>s. (None, [])), kListNamespaces = (\<lambda>tr. Inr [''ns'']),
     kDeleteAllTopics = (\<lambda>tr ns l. None), kDeleteAllUsers = (\<lambda>tr ns l. None), kListChildTopics = (\<lambda>tr l. Inr []),
     kFinalizePKI = (\<lambda>tr c. None), kNow = (\<lambda>tr. ''2025-01-01 00:00:00''), kDescribeBroker = (\<lambda>tr i ks. Inr []),
     kAlterBroker = (\<lambda>tr i c v. None), kDescribeClusterWide = (\<lambda>tr. Inr []), kAlterClusterWide = (\<lambda>tr c v. None), kBackoff = run_steps BackoffSteps\<rparr>"


text \<open>A conflict while the backups are written is taken as success, although the status was not written.\<close>

lemma backup_conflict_reports_success:
  "case UpdateBrokerConfigurationBackup sample_kenv kafka_cluster [] of (r, c, tr) \<Rightarrow>
     r = Ret () \<and> length tr = 2 \<and> c = kafka_cluster"
  by code_simp

end
