(* ===== verification/KafkaRolling.thy ===== *)
theory KafkaRolling
  imports KafkaStatus KafkaConfig PropertiesLoader
begin

text \<open>
  The part of the Kafka reconciler that decides when a broker may be taken away
  (\<open>pkg/resources/kafka/kafka.go\<close>): the order in which brokers are reconciled, the rolling upgrade, the removal
  of brokers that left the spec and the removal of disks; with the pod predicates of \<open>pkg/k8sutil/resource.go\<close>.

  The patch calculation, the label selector, the Kafka client and Cruise Control are functions of the
  environment. A typed error of \<open>errorfactory\<close> is a wrapped error that carries the name of the type.
\<close>

section \<open>Pods (pkg/k8sutil/resource.go)\<close>

definition IsMarkedForDeletion :: "Pod \<Rightarrow> bool" where
  "IsMarkedForDeletion p \<longleftrightarrow> podDeletionTimestamp p \<noteq> None"

definition IsPodContainsTerminatedContainer :: "Pod \<Rightarrow> bool" where
  "IsPodContainsTerminatedContainer pod \<longleftrightarrow>
     list_ex (\<lambda>r. case r of None \<Rightarrow> False | Some reason \<Rightarrow> sublist ''Error'' reason) (podInitTerminated pod) \<or>
     list_ex csTerminated (podContainers pod)"

definition IsPodContainsEvictedContainer :: "Pod \<Rightarrow> bool" where
  "IsPodContainsEvictedContainer pod \<longleftrightarrow> podPhase pod = ''Failed'' \<and> sublist ''Evicted'' (podReason pod)"

definition IsPodContainsShutdownContainer :: "Pod \<Rightarrow> bool" where
  "IsPodContainsShutdownContainer pod \<longleftrightarrow> podPhase pod = ''Failed'' \<and>
     list_ex (\<lambda>reason. sublist reason (podReason pod)) [''Terminated'', ''NodeShutdown'', ''Shutdown'']"

definition IsPodContainsPendingContainer :: "Pod \<Rightarrow> bool" where
  "IsPodContainsPendingContainer pod \<longleftrightarrow> list_ex csWaiting (podContainers pod)"

definition pod_label :: "Pod \<Rightarrow> string \<Rightarrow> string" where
  "pod_label p k = (case map_of (podLabels p) k of None \<Rightarrow> [] | Some v \<Rightarrow> v)"

fun getPodsInTerminatingOrPendingState :: "Pod list \<Rightarrow> Pod list" where
  "getPodsInTerminatingOrPendingState [] = []"
| "getPodsInTerminatingOrPendingState (p # ps) =
     (if IsMarkedForDeletion p then [p] else []) @ (if IsPodContainsPendingContainer p then [p] else []) @
     getPodsInTerminatingOrPendingState ps"

section \<open>Availability zones\<close>

definition add_rack :: "Broker \<Rightarrow> (32 word, string) gomap \<Rightarrow> (32 word, string) gomap" where
  "add_rack b m = (case NewFromString (ReadOnlyConfig b) of
     Ret p \<Rightarrow> (case Get p ''broker.rack'' of None \<Rightarrow> m | Some prop \<Rightarrow> AList.update (BrokerId b) (prop_value prop) m)
   | _ \<Rightarrow> m)"

fun add_racks :: "Broker list \<Rightarrow> (32 word, string) gomap \<Rightarrow> (32 word, string) gomap" where
  "add_racks [] m = m"
| "add_racks (b # bs) m = add_racks bs (add_rack b m)"

fun add_ids :: "Broker list \<Rightarrow> (32 word, string) gomap \<Rightarrow> (32 word, string) gomap" where
  "add_ids [] m = m"
| "add_ids (b # bs) m = add_ids bs (AList.update (BrokerId b) (Itoa (sint (BrokerId b))) m)"

definition getBrokerAzMap :: "KafkaCluster \<Rightarrow> (32 word, string) gomap" where
  "getBrokerAzMap cluster =
     (let bs = Brokers (kcSpec cluster); m = add_racks bs [] in
      if length m \<noteq> length bs then add_ids bs m else m)"

definition az_lookup :: "(32 word, string) gomap \<Rightarrow> 32 word \<Rightarrow> string" where
  "az_lookup m i = (case map_of m i of None \<Rightarrow> [] | Some z \<Rightarrow> z)"

definition getBrokerAz :: "Pod \<Rightarrow> (32 word, string) gomap \<Rightarrow> err + string" where
  "getBrokerAz pod m = (case ParseInt 32 (pod_label pod BrokerIdLabelKey) of
     None \<Rightarrow> Inl (NewErr ''strconv.ParseInt: invalid syntax'')
   | Some i \<Rightarrow> Inr (az_lookup m (int32 i)))"

definition existsFailedBrokerFromAnotherRack :: "string \<Rightarrow> 32 word list \<Rightarrow> (32 word, string) gomap \<Rightarrow> bool" where
  "existsFailedBrokerFromAnotherRack currentPodAz impactedReplicas m =
     (if currentPodAz = [] \<and> length impactedReplicas > 0 then True
      else list_ex (\<lambda>b. currentPodAz \<noteq> az_lookup m b) impactedReplicas)"

definition existsTerminatingPodFromAnotherAz :: "string \<Rightarrow> Pod list \<Rightarrow> (32 word, string) gomap \<Rightarrow> bool" where
  "existsTerminatingPodFromAnotherAz currentPodAz pods m =
     (if currentPodAz = [] \<and> length pods > 0 then True
      else list_ex (\<lambda>p. case getBrokerAz p m of Inl e \<Rightarrow> True | Inr z \<Rightarrow> currentPodAz \<noteq> z) pods)"

section \<open>The rolling upgrade\<close>

definition KafkaClusterRollingUpgrading :: string where
  "KafkaClusterRollingUpgrading = ''ClusterRollingUpgrading''"

definition ConfigInSync :: string where
  "ConfigInSync = ''ConfigInSync''"

definition RackAwareDistributionGoal :: string where
  "RackAwareDistributionGoal = ''RackAwareDistributionGoal''"

definition isPodTainted :: "kenv \<Rightarrow> Pod \<Rightarrow> bool" where
  "isPodTainted E pod = (case kTaintSelector E of
     Inl e \<Rightarrow> False
   | Inr None \<Rightarrow> False
   | Inr (Some matches) \<Rightarrow> matches (podLabels pod))"

text \<open>Cruise Control may answer without a state, which is then dereferenced.\<close>

definition checkCCRackAwareDistributionGoal :: "kenv \<Rightarrow> ktrace \<Rightarrow> (err, unit) go \<times> ktrace" where
  "checkCCRackAwareDistributionGoal E tr =
     (case kScaleFactory E tr of
        Some e \<Rightarrow> (Err (typed CruiseControlNotReady e), tr @ [KScaleFactory])
      | None \<Rightarrow>
          let tr1 = tr @ [KScaleFactory]; tr2 = tr1 @ [KCC (ReqState True)] in
          (case kGoals E tr1 of
             Inl e \<Rightarrow> (Err (typed CruiseControlNotReady (NewErr ''failed to get status from Cruise Control'')), tr2)
           | Inr None \<Rightarrow> (Panic, tr2)
           | Inr (Some g) \<Rightarrow>
               if RackAwareDistributionGoal \<notin> set (ReadyGoals g)
               then (Err (typed ReconcileRollingUpgrade (NewErr ''RackAwareDistributionGoal is not ready'')), tr2)
               else if list_ex (\<lambda>(fixable, unfixable). RackAwareDistributionGoal \<in> set fixable \<or> RackAwareDistributionGoal \<in> set unfixable)
                         (RecentGoalViolations g)
               then (Err (typed ReconcileRollingUpgrade (NewErr ''RackAwareDistributionGoal is violated'')), tr2)
               else (Ret (), tr2)))"

text \<open>The tolerations of the current pod are appended and duplicates dropped, keeping the first. A toleration is
  given by a text that stands for its value as a key of a map, which includes the identity of its pointer field.\<close>

fun unique :: "string list \<Rightarrow> string list \<Rightarrow> string list" where
  "unique seen [] = []"
| "unique seen (t # ts) = (if t \<in> set seen then unique seen ts else t # unique (t # seen) ts)"

definition merge_tolerations :: "Pod \<Rightarrow> Pod \<Rightarrow> Pod" where
  "merge_tolerations desired current =
     (if length (podTolerations desired) > 0
      then desired\<lparr>podTolerations := unique [] (podTolerations desired @ podTolerations current)\<rparr> else desired)"

definition config_state :: "KafkaCluster \<Rightarrow> string \<Rightarrow> string" where
  "config_state c i = (case map_of (BrokersState c) i of None \<Rightarrow> [] | Some st \<Rightarrow> ConfigurationState st)"

text \<open>The brokers with offline or out-of-sync replicas, each once.\<close>

definition impacted :: "32 word list \<Rightarrow> 32 word list \<Rightarrow> 32 word list" where
  "impacted offline outOfSync =
     map fst (fold (\<lambda>b. AList.update b ()) outOfSync (fold (\<lambda>b. AList.update b ()) offline []))"

definition rolling_error :: "string \<Rightarrow> (err, unit) go" where
  "rolling_error m = Err (typed ReconcileRollingUpgrade (NewErr m))"

text \<open>The health of the cluster, asked from Kafka itself.\<close>

definition upgrade_health ::
  "kenv \<Rightarrow> KafkaCluster \<Rightarrow> string \<Rightarrow> (32 word, string) gomap \<Rightarrow> ktrace \<Rightarrow> (err, unit) go \<times> ktrace" where
  "upgrade_health E c currentPodAz azs tr =
     (let cfg = specRollingUpgradeConfig (kcSpec c); tr1 = tr @ [KKafkaClient] in
      (case kKafkaClient E tr of
         Some e \<Rightarrow> (Err (typed BrokersUnreachable e), tr1)
       | None \<Rightarrow>
           let tr2 = tr1 @ [KAllOfflineReplicas] in
           (case kAllOfflineReplicas E tr1 of
              Inl e \<Rightarrow> (Err (WrapErr ''health check failed'' e), tr2)
            | Inr offline \<Rightarrow>
                let tr3 = tr2 @ [KOutOfSyncReplicas] in
                (case kOutOfSyncReplicas E tr2 of
                   Inl e \<Rightarrow> (Err (WrapErr ''health check failed'' e), tr3)
                 | Inr outOfSync \<Rightarrow>
                     let impactedReplicas = impacted offline outOfSync;
                         errorCount = RollingUpgradeErrorCount c + int (length impactedReplicas)
                     in if errorCount \<ge> FailureThreshold cfg then (rolling_error ''cluster is not healthy'', tr3)
                        else if ConcurrentBrokerRestartCountPerRack cfg > 1 \<and> FailureThreshold cfg > 1 \<and>
                                existsFailedBrokerFromAnotherRack currentPodAz impactedReplicas azs
                        then (rolling_error ''broker is not healthy from another AZ'', tr3)
                        else (Ret (), tr3)))))"

definition upgrade_goal :: "kenv \<Rightarrow> int \<Rightarrow> Pod list \<Rightarrow> ktrace \<Rightarrow> (err, unit) go \<times> ktrace" where
  "upgrade_goal E n pods tr = (if n > 1 \<and> length pods > 0 then checkCCRackAwareDistributionGoal E tr else (Ret (), tr))"

text \<open>The checks of the pods, before the health of Kafka is asked for.\<close>

definition upgrade_checks :: "kenv \<Rightarrow> KafkaCluster \<Rightarrow> Pod \<Rightarrow> ktrace \<Rightarrow> (err, unit) go \<times> ktrace" where
  "upgrade_checks E c currentPod tr =
     (let cfg = specRollingUpgradeConfig (kcSpec c); n = ConcurrentBrokerRestartCountPerRack cfg; tr1 = tr @ [KListPods] in
      (case kListPods E tr of
         Inl e \<Rightarrow> (Err (WrapErr ''failed to reconcile resource'' e), tr1)
       | Inr items \<Rightarrow>
           if length items < length (Brokers (kcSpec c)) then (rolling_error ''pod count differs from brokers spec'', tr1)
           else
             let pods = getPodsInTerminatingOrPendingState items in
             if int (length pods) \<ge> n then (rolling_error ''pod(s) is still terminating or creating'', tr1)
             else
               (case upgrade_goal E n pods tr1 of
                  (Panic, tr2) \<Rightarrow> (Panic, tr2)
                | (Err e, tr2) \<Rightarrow> (Err e, tr2)
                | (Ret _, tr2) \<Rightarrow>
                    let azs = getBrokerAzMap c;
                        az = (case getBrokerAz currentPod azs of Inl e \<Rightarrow> [] | Inr z \<Rightarrow> z)
                    in if n > 1 \<and> existsTerminatingPodFromAnotherAz az pods azs
                       then (rolling_error ''pod is still terminating or creating from another AZ'', tr2)
                       else upgrade_health E c az azs tr2)))"

definition upgrade_state :: "kenv \<Rightarrow> KafkaCluster \<Rightarrow> Pod \<Rightarrow> ktrace \<Rightarrow> (err, unit) go \<times> KafkaCluster \<times> ktrace" where
  "upgrade_state E c currentPod tr =
     (if ClusterState c \<noteq> KafkaClusterRollingUpgrading
      then (case UpdateCRStatus E c (CrClusterState KafkaClusterRollingUpgrading) tr of
              (Some e, c1, tr1) \<Rightarrow> (Err (typed StatusUpdateError e), c1, tr1)
            | (None, c1, tr1) \<Rightarrow> (Ret (), c1, tr1))
      else (Ret (), c, tr))"

definition delete_pod :: "kenv \<Rightarrow> Pod \<Rightarrow> ktrace \<Rightarrow> (err, unit) go \<times> ktrace" where
  "delete_pod E pod tr = (case kDeletePod E tr pod of
     Some e \<Rightarrow> (Err (typed APIFailure e), tr @ [KDeletePod pod])
   | None \<Rightarrow> (Ret (), tr @ [KDeletePod pod]))"

text \<open>Whether the pod has to be replaced: the patch could not be calculated, the pod is tainted, it differs
  from the desired one, or it is in a state that only a new pod can leave.\<close>

definition pod_in_sync :: "kenv \<Rightarrow> KafkaCluster \<Rightarrow> Pod \<Rightarrow> Pod \<Rightarrow> bool" where
  "pod_in_sync E c desired current = (case kPatchCalculate E current desired of
     Inl e \<Rightarrow> False
   | Inr isEmpty \<Rightarrow>
       if isPodTainted E current then False
       else isEmpty \<and> \<not> IsPodContainsTerminatedContainer current \<and>
         config_state c (pod_label current BrokerIdLabelKey) = ConfigInSync \<and>
         \<not> IsPodContainsEvictedContainer current \<and> \<not> IsPodContainsShutdownContainer current)"

definition handleRollingUpgrade ::
  "kenv \<Rightarrow> KafkaCluster \<Rightarrow> Pod \<Rightarrow> Pod \<Rightarrow> ktrace \<Rightarrow> (err, unit) go \<times> KafkaCluster \<times> ktrace" where
  "handleRollingUpgrade E c desiredPod currentPod tr =
     (let desired = merge_tolerations desiredPod currentPod in
      if pod_in_sync E c desired currentPod then (Ret (), c, tr)
      else (case kSetLastApplied E desired of
          Some e \<Rightarrow> (Err (WrapErr ''could not apply last state to annotation'' e), c, tr)
        | None \<Rightarrow>
            if IsPodContainsTerminatedContainer currentPod
            then (case delete_pod E currentPod tr of (r, tr1) \<Rightarrow> (r, c, tr1))
            else
              (case upgrade_state E c currentPod tr of
                 (Panic, c1, tr1) \<Rightarrow> (Panic, c1, tr1)
               | (Err e, c1, tr1) \<Rightarrow> (Err e, c1, tr1)
               | (Ret _, c1, tr1) \<Rightarrow>
                   if ClusterState c1 = KafkaClusterRollingUpgrading then
                     (case upgrade_checks E c1 currentPod tr1 of
                        (Panic, tr2) \<Rightarrow> (Panic, c1, tr2)
                      | (Err e, tr2) \<Rightarrow> (Err e, c1, tr2)
                      | (Ret _, tr2) \<Rightarrow> (case delete_pod E currentPod tr2 of (r, tr3) \<Rightarrow> (r, c1, tr3)))
                   else (case delete_pod E currentPod tr1 of (r, tr2) \<Rightarrow> (r, c1, tr2)))))"

section \<open>The order of the brokers\<close>

datatype brokerReconcilePriority =
    missingBrokerDownScaleRunningPriority
  | newBrokerReconcilePriority
  | missingBrokerReconcilePriority
  | nonControllerBrokerReconcilePriority
  | controllerBrokerReconcilePriority

text \<open>The constants continue the numbering of the block they stand in; a broker without an entry counts as 0.\<close>

fun priority_value :: "brokerReconcilePriority \<Rightarrow> nat" where
  "priority_value missingBrokerDownScaleRunningPriority = 14"
| "priority_value newBrokerReconcilePriority = 15"
| "priority_value missingBrokerReconcilePriority = 16"
| "priority_value nonControllerBrokerReconcilePriority = 17"
| "priority_value controllerBrokerReconcilePriority = 18"

definition GetBrokerFromBrokerConfigurationBackup :: "kenv \<Rightarrow> string \<Rightarrow> err + Broker" where
  "GetBrokerFromBrokerConfigurationBackup E config =
     (if config = [] then Inl (NewErr ''broker configurationBackup is empty'') else kBrokerFromBackup E config)"

definition broker_id_str :: "Broker \<Rightarrow> string" where
  "broker_id_str b = Itoa (sint (BrokerId b))"

text \<open>The brokers whose pod disappeared before their downscale was done and that can be restored.\<close>

fun unfinished :: "kenv \<Rightarrow> string list \<Rightarrow> string list \<Rightarrow> (string, BrokerState) gomap \<Rightarrow> (string \<times> Broker) list" where
  "unfinished E running bound [] = []"
| "unfinished E running bound ((i, st) # sts) =
     (let cc = gasCruiseControlState (bsGracefulActionState st) in
      if i \<notin> set running \<and> (cc = GracefulDownscaleRequired \<or> cc = GracefulDownscaleRunning) \<and> i \<in> set bound
      then (case GetBrokerFromBrokerConfigurationBackup E (ConfigurationBackup st) of
              Inl e \<Rightarrow> unfinished E running bound sts
            | Inr b \<Rightarrow> (i, b) # unfinished E running bound sts)
      else unfinished E running bound sts)"

definition broker_priority ::
  "string list \<Rightarrow> string list \<Rightarrow> (string, BrokerState) gomap \<Rightarrow> 32 word \<Rightarrow> Broker \<Rightarrow> brokerReconcilePriority" where
  "broker_priority missing running states controllerBrokerID b =
     (let i = broker_id_str b in
      if i \<in> set missing then missingBrokerDownScaleRunningPriority
      else if map_of states i = None then newBrokerReconcilePriority
      else if i \<notin> set running then missingBrokerReconcilePriority
      else if BrokerId b = controllerBrokerID then controllerBrokerReconcilePriority
      else nonControllerBrokerReconcilePriority)"

definition reorderBrokers ::
  "kenv \<Rightarrow> string list \<Rightarrow> string list \<Rightarrow> Broker list \<Rightarrow> (string, BrokerState) gomap \<Rightarrow> 32 word \<Rightarrow> Broker list" where
  "reorderBrokers E running bound desiredBrokers states controllerBrokerID =
     (let un = unfinished E running bound states;
          brokers = desiredBrokers @ map snd un;
          prio = fold (\<lambda>b. AList.update (broker_id_str b) (broker_priority (map fst un) running states controllerBrokerID b)) brokers [];
          weight = (\<lambda>b. case map_of prio (broker_id_str b) of None \<Rightarrow> 0 | Some p \<Rightarrow> priority_value p)
      in sort_key weight brokers)"

definition GetBrokersWithPendingOrRunningCCTask :: "KafkaCluster \<Rightarrow> 32 word list" where
  "GetBrokersWithPendingOrRunningCCTask c = concat (map (\<lambda>b.
     (case map_of (BrokersState c) (broker_id_str b) of
        None \<Rightarrow> []
      | Some st \<Rightarrow>
          let gas = bsGracefulActionState st in
          if IsRequiredState (gasCruiseControlState gas) \<or>
             (gasCruiseControlOperationReference gas \<noteq> None \<and> IsRunningState (gasCruiseControlState gas))
          then [BrokerId b]
          else map (\<lambda>_. BrokerId b) (filter (\<lambda>(m, v). IsDiskRemoval (volCruiseControlVolumeState v) \<or>
                 IsDiskRebalance (volCruiseControlVolumeState v)) (VolumeStates gas)))) (Brokers (kcSpec c)))"

section \<open>Lemmas\<close>

lemma impacted_card: "int (length (impacted offline outOfSync)) = int (card (set offline \<union> set outOfSync))"
  and impacted_set: "set (impacted offline outOfSync) = set offline \<union> set outOfSync"
proof -
  have k: "gm_ok m \<Longrightarrow> gm_ok (fold (\<lambda>b. AList.update b ()) xs m) \<and> gm_dom (fold (\<lambda>b. AList.update b ()) xs m) = gm_dom m \<union> set xs"
    for xs :: "32 word list" and m using gm_keys_fold_update [of m "\<lambda>x. x" xs] by simp
  let ?m = "fold (\<lambda>b. AList.update b ()) outOfSync (fold (\<lambda>b. AList.update b ()) offline [])"
  have m: "gm_ok ?m" "gm_dom ?m = set offline \<union> set outOfSync" using k [of "[]" offline] k [of _ outOfSync] by auto
  then show "set (impacted offline outOfSync) = set offline \<union> set outOfSync" by (simp add: impacted_def)
  have "length (map fst ?m) = card (set (map fst ?m))" using m(1) distinct_card by metis
  then show "int (length (impacted offline outOfSync)) = int (card (set offline \<union> set outOfSync))"
    using m(2) by (simp add: impacted_def)
qed

lemma unready_pods:
  "set (getPodsInTerminatingOrPendingState ps) = {p \<in> set ps. IsMarkedForDeletion p \<or> IsPodContainsPendingContainer p}"
  "length (filter (\<lambda>p. IsMarkedForDeletion p \<or> IsPodContainsPendingContainer p) ps) \<le> length (getPodsInTerminatingOrPendingState ps)"
  by (induction ps) auto

text \<open>Kafka reports fewer impacted brokers than the threshold allows, counting the alerts; with several
  concurrent restarts they are all in the zone of the pod.\<close>

definition kafka_healthy :: "KafkaCluster \<Rightarrow> string \<Rightarrow> (32 word, string) gomap \<Rightarrow> 32 word set \<Rightarrow> bool" where
  "kafka_healthy c az azs brokers \<longleftrightarrow>
     (let cfg = specRollingUpgradeConfig (kcSpec c) in
      RollingUpgradeErrorCount c + int (card brokers) < FailureThreshold cfg \<and>
      (ConcurrentBrokerRestartCountPerRack cfg > 1 \<and> FailureThreshold cfg > 1 \<longrightarrow> (\<forall>b \<in> brokers. az_lookup azs b = az)))"

lemma upgrade_health_Ret:
  assumes "upgrade_health E c az azs tr = (Ret u, tr')"
  shows "\<exists>offline outOfSync. kAllOfflineReplicas E (tr @ [KKafkaClient]) = Inr offline \<and>
    kOutOfSyncReplicas E (tr @ [KKafkaClient, KAllOfflineReplicas]) = Inr outOfSync \<and>
    tr' = tr @ [KKafkaClient, KAllOfflineReplicas, KOutOfSyncReplicas] \<and> kafka_healthy c az azs (set offline \<union> set outOfSync)"
proof -
  obtain offline outOfSync where o: "kAllOfflineReplicas E (tr @ [KKafkaClient]) = Inr offline"
      "kOutOfSyncReplicas E (tr @ [KKafkaClient, KAllOfflineReplicas]) = Inr outOfSync"
      "tr' = tr @ [KKafkaClient, KAllOfflineReplicas, KOutOfSyncReplicas]"
    and n: "\<not> RollingUpgradeErrorCount c + int (length (impacted offline outOfSync)) \<ge> FailureThreshold (specRollingUpgradeConfig (kcSpec c))"
    and f: "\<not> (ConcurrentBrokerRestartCountPerRack (specRollingUpgradeConfig (kcSpec c)) > 1 \<and>
       FailureThreshold (specRollingUpgradeConfig (kcSpec c)) > 1 \<and> existsFailedBrokerFromAnotherRack az (impacted offline outOfSync) azs)"
    using assms by (auto simp: upgrade_health_def Let_def rolling_error_def split: option.splits sum.splits if_splits)
  have "existsFailedBrokerFromAnotherRack az (impacted offline outOfSync) azs" if "b \<in> set offline \<union> set outOfSync" "az_lookup azs b \<noteq> az" for b
    using that by (auto simp: existsFailedBrokerFromAnotherRack_def impacted_set list_ex_iff)
  then have "kafka_healthy c az azs (set offline \<union> set outOfSync)"
    using n f unfolding impacted_card kafka_healthy_def Let_def by (meson not_le)
  then show ?thesis using o by blast
qed

definition pod_az :: "KafkaCluster \<Rightarrow> Pod \<Rightarrow> string" where
  "pod_az c p = (case getBrokerAz p (getBrokerAzMap c) of Inl e \<Rightarrow> [] | Inr z \<Rightarrow> z)"

text \<open>Every broker of the spec has a pod; fewer pods than the limit are going away or coming up, and with more
  than none of them the limit is above one and they all are in the zone of the pod.\<close>

definition pods_ready :: "KafkaCluster \<Rightarrow> Pod \<Rightarrow> Pod list \<Rightarrow> bool" where
  "pods_ready c pod items \<longleftrightarrow>
     (let n = ConcurrentBrokerRestartCountPerRack (specRollingUpgradeConfig (kcSpec c));
          unready = filter (\<lambda>p. IsMarkedForDeletion p \<or> IsPodContainsPendingContainer p) items in
      length (Brokers (kcSpec c)) \<le> length items \<and> int (length unready) < n \<and>
      (\<forall>p \<in> set unready. n > 1 \<and> pod_az c pod \<noteq> [] \<and> getBrokerAz p (getBrokerAzMap c) = Inr (pod_az c pod)))"

lemma upgrade_checks_Ret:
  assumes "upgrade_checks E c pod tr = (Ret u, tr')"
  shows "\<exists>items mid. kListPods E tr = Inr items \<and> pods_ready c pod items \<and> prefix (tr @ [KListPods]) mid \<and>
    upgrade_health E c (pod_az c pod) (getBrokerAzMap c) mid = (Ret u, tr')"
proof -
  let ?n = "ConcurrentBrokerRestartCountPerRack (specRollingUpgradeConfig (kcSpec c))"
  obtain items where items: "kListPods E tr = Inr items" "length (Brokers (kcSpec c)) \<le> length items"
      "int (length (getPodsInTerminatingOrPendingState items)) < ?n"
    using assms by (auto simp: upgrade_checks_def Let_def rolling_error_def split: sum.splits if_splits)
  let ?pods = "getPodsInTerminatingOrPendingState items"
  obtain g mid where g: "upgrade_goal E ?n ?pods (tr @ [KListPods]) = (g, mid)" by (cases "upgrade_goal E ?n ?pods (tr @ [KListPods])")
  have pre: "prefix (tr @ [KListPods]) mid"
    using g by (auto simp: upgrade_goal_def checkCCRackAwareDistributionGoal_def Let_def prefix_def split: if_splits option.splits sum.splits)
  have rest: "\<not> (?n > 1 \<and> existsTerminatingPodFromAnotherAz (pod_az c pod) ?pods (getBrokerAzMap c))"
    "upgrade_health E c (pod_az c pod) (getBrokerAzMap c) mid = (Ret u, tr')"
    using assms items g
    by (auto simp: upgrade_checks_def Let_def rolling_error_def pod_az_def split: go.splits if_splits)
  have zone: "?n > 1 \<and> pod_az c pod \<noteq> [] \<and> getBrokerAz p (getBrokerAzMap c) = Inr (pod_az c pod)" if "p \<in> set ?pods" for p
  proof -
    have "?n > 1" using items(3) that by (cases ?pods) auto
    then show ?thesis using rest(1) that
      by (auto simp: existsTerminatingPodFromAnotherAz_def list_ex_iff split: sum.splits if_splits)
  qed
  have "pods_ready c pod items"
    using items(2,3) zone unready_pods [of items] unfolding pods_ready_def Let_def by auto
  then show ?thesis using items(1) pre rest(2) by blast
qed

text \<open>A part of the call that deletes no pod.\<close>

definition keeps_pods :: "ktrace \<Rightarrow> ktrace \<Rightarrow> bool" where
  "keeps_pods tr tr' \<longleftrightarrow> (\<exists>d. tr' = tr @ d \<and> (\<forall>p. KDeletePod p \<notin> set d))"

lemma keeps_refl [simp]: "keeps_pods tr tr"
  by (simp add: keeps_pods_def)

lemma keeps_trans: "keeps_pods a b \<Longrightarrow> keeps_pods b c \<Longrightarrow> keeps_pods a c"
  by (fastforce simp: keeps_pods_def)

lemma keeps_append: "(\<forall>p. KDeletePod p \<notin> set d) \<Longrightarrow> keeps_pods tr (tr @ d)"
  by (auto simp: keeps_pods_def)

lemma write_keeps_pods: "write_status E f c tr = (r, c', tr') \<Longrightarrow> keeps_pods tr tr'"
  using write_status_events [of E f c tr r c' tr'] unfolding keeps_pods_def by fastforce

lemma state_keeps_pods: "upgrade_state E c pod tr = (r, c', tr') \<Longrightarrow> keeps_pods tr tr'"
  using write_keeps_pods [of E "set_cr_status (CrClusterState KafkaClusterRollingUpgrading)" c tr]
  by (auto simp: upgrade_state_def UpdateCRStatus_def split: if_splits option.splits prod.splits)

lemma goal_keeps_pods: "checkCCRackAwareDistributionGoal E tr = (r, tr') \<Longrightarrow> keeps_pods tr tr'"
  by (auto simp: checkCCRackAwareDistributionGoal_def Let_def keeps_pods_def split: option.splits sum.splits if_splits)

lemma health_keeps_pods: "upgrade_health E c az azs tr = (r, tr') \<Longrightarrow> keeps_pods tr tr'"
  by (auto simp: upgrade_health_def Let_def keeps_pods_def split: option.splits sum.splits if_splits)

lemma checks_keep_pods:
  assumes "upgrade_checks E c pod tr = (r, tr')"
  shows "keeps_pods tr tr'"
proof -
  let ?tr1 = "tr @ [KListPods]"
  have k1: "keeps_pods tr ?tr1" by (rule keeps_append) simp
  show ?thesis
  proof (cases "kListPods E tr")
    case (Inl e)
    then show ?thesis using assms k1 by (auto simp: upgrade_checks_def)
  next
    case (Inr items)
    let ?n = "ConcurrentBrokerRestartCountPerRack (specRollingUpgradeConfig (kcSpec c))"
    let ?pods = "getPodsInTerminatingOrPendingState items"
    obtain g mid where g: "upgrade_goal E ?n ?pods ?tr1 = (g, mid)" by (cases "upgrade_goal E ?n ?pods ?tr1")
    then have "keeps_pods ?tr1 mid" using goal_keeps_pods by (auto simp: upgrade_goal_def split: if_splits)
    then have k2: "keeps_pods tr mid" using k1 keeps_trans by blast
    have "tr' = ?tr1 \<or> tr' = mid \<or> (\<exists>az azs. upgrade_health E c az azs mid = (r, tr'))"
      using assms Inr g by (auto simp: upgrade_checks_def Let_def split: if_splits go.splits)
    then show ?thesis using k1 k2 health_keeps_pods keeps_trans by blast
  qed
qed

section \<open>A small cluster\<close>

definition sample_pod :: "string \<Rightarrow> Pod" where
  "sample_pod i = \<lparr>podName = ''kafka-'' @ i, podLabels = [(''brokerId'', i)], podDeletionTimestamp = None, podTolerations = [],
     podInitTerminated = [], podContainers = [\<lparr>csTerminated = False, csWaiting = False\<rparr>], podPhase = ''Running'', podReason = [],
     podGenerateName = [], podAnnotations = [], podSpec = zero_PodSpec\<rparr>"

definition upgrade_kenv :: "32 word list \<Rightarrow> kenv" where
  "upgrade_kenv offline = sample_kenv\<lparr>kStatusUpdate := (\<lambda>tr c. Inr c), kListPods := (\<lambda>tr. Inr [sample_pod ''0'', sample_pod ''1'']),
     kAllOfflineReplicas := (\<lambda>tr. Inr offline)\<rparr>"

definition upgrading :: KafkaCluster where
  "upgrading = kafka_cluster\<lparr>ClusterState := KafkaClusterRollingUpgrading\<rparr>"

lemma NewFromString_empty: "NewFromString [] = Ret NewProperties"
  by (simp add: NewFromString_def Load_def load_def scan_lines_def parse_def)

lemma rack_none: "ReadOnlyConfig b = [] \<Longrightarrow> add_rack b m = m"
  by (simp add: add_rack_def NewFromString_empty Get_def NewProperties_def)

lemma no_racks: "\<forall>b \<in> set bs. ReadOnlyConfig b = [] \<Longrightarrow> add_racks bs m = m"
  by (induction bs) (simp_all add: rack_none)

lemma sample_az_map: "kcSpec c = kcSpec kafka_cluster \<Longrightarrow> getBrokerAzMap c = [(0, ''0''), (1, ''1'')]"
proof -
  have "add_racks sample_brokers [] = []" by (rule no_racks) (simp add: sample_brokers_def)
  moreover have "add_ids sample_brokers [] = [(0, ''0''), (1, ''1'')]" by code_simp
  ultimately show "kcSpec c = kcSpec kafka_cluster \<Longrightarrow> ?thesis" by (simp add: getBrokerAzMap_def kafka_cluster_def Let_def) (simp add: sample_brokers_def)
qed
lemma sample_pod_facts: "merge_tolerations (sample_pod ''0'') (sample_pod ''0'') = sample_pod ''0''"
   "\<not> pod_in_sync (upgrade_kenv xs) kafka_cluster (sample_pod ''0'') (sample_pod ''0'')"
   "kSetLastApplied (upgrade_kenv xs) p = None" "IsPodContainsTerminatedContainer (sample_pod ''0'') = False"
  by (simp_all add: merge_tolerations_def sample_pod_def pod_in_sync_def upgrade_kenv_def sample_kenv_def isPodTainted_def IsPodContainsTerminatedContainer_def)
lemma sample_az: "getBrokerAz (sample_pod ''0'') [(0, ''0''), (1, ''1'')] = Inr ''0''" by code_simp
lemma sample_upgrade_state: "upgrade_state (upgrade_kenv xs) kafka_cluster (sample_pod ''0'') [] = (Ret (), upgrading, [KStatusUpdate upgrading])"
  by (simp add: upgrade_state_def upgrading_def kafka_cluster_def KafkaClusterRollingUpgrading_def UpdateCRStatus_def write_status_def status_or_update_def kcall_def
    upgrade_kenv_def set_cr_status_def)
lemma sample_health: "upgrade_health (upgrade_kenv xs) upgrading az azs tr =
    (if xs = [] then Ret () else rolling_error ''cluster is not healthy'', tr @ [KKafkaClient, KAllOfflineReplicas, KOutOfSyncReplicas])"
proof -
  have "impacted xs [] = [] \<longleftrightarrow> xs = []" using impacted_set [of xs "[]"] by (cases "impacted xs []") auto
  then have "xs \<noteq> [] \<longrightarrow> 1 \<le> length (impacted xs [])" by (cases "impacted xs []") auto
  then show ?thesis using \<open>impacted xs [] = [] \<longleftrightarrow> xs = []\<close>
    by (auto simp: upgrade_health_def upgrade_kenv_def sample_kenv_def Let_def kafka_cluster_def upgrading_def existsFailedBrokerFromAnotherRack_def)
qed

lemma sample_checks: "upgrade_checks (upgrade_kenv xs) upgrading (sample_pod ''0'') tr = 
   upgrade_health (upgrade_kenv xs) upgrading ''0'' [(0, ''0''), (1, ''1'')] (tr @ [KListPods])"
proof -
  have items: "kListPods (upgrade_kenv xs) tr = Inr [sample_pod ''0'', sample_pod ''1'']" for tr by (simp add: upgrade_kenv_def)
  have pods: "\<not> IsMarkedForDeletion (sample_pod i)" "\<not> IsPodContainsPendingContainer (sample_pod i)" for i
    by (simp_all add: sample_pod_def IsMarkedForDeletion_def IsPodContainsPendingContainer_def)
  have sp: "kcSpec upgrading = kcSpec kafka_cluster" by (simp add: upgrading_def)
  have cfg: "ConcurrentBrokerRestartCountPerRack (specRollingUpgradeConfig (kcSpec kafka_cluster)) = 1"
    "length (Brokers (kcSpec kafka_cluster)) = 2" by (simp_all add: kafka_cluster_def sample_brokers_def)
  show ?thesis by (simp add: upgrade_checks_def items pods cfg sp sample_az upgrade_goal_def sample_az_map [OF sp] Let_def)
qed
lemma sample_upgrade_events: "snd (snd (handleRollingUpgrade (upgrade_kenv xs) kafka_cluster (sample_pod ''0'') (sample_pod ''0'') [])) =
   [KStatusUpdate upgrading, KListPods, KKafkaClient, KAllOfflineReplicas, KOutOfSyncReplicas] @ (if xs = [] then [KDeletePod (sample_pod ''0'')] else [])"
proof -
  have st: "ClusterState upgrading = KafkaClusterRollingUpgrading" by (simp add: upgrading_def)
  have del: "delete_pod (upgrade_kenv ys) p tr = (Ret (), tr @ [KDeletePod p])" for p tr ys by (simp add: delete_pod_def upgrade_kenv_def sample_kenv_def)
  show ?thesis
  by (simp add: handleRollingUpgrade_def sample_pod_facts sample_upgrade_state sample_checks Let_def st sample_health del rolling_error_def)
qed

section \<open>Properties\<close>



text \<open>With several restarts at a time, an answer of Cruise Control without a state makes the check panic.\<close>

lemma goal_check_panics: "checkCCRackAwareDistributionGoal sample_kenv [] = (Panic, [KScaleFactory, KCC (ReqState True)])"
  by code_simp

subsection \<open>Order of the brokers\<close>

definition weight_of :: "kenv \<Rightarrow> string list \<Rightarrow> string list \<Rightarrow> (string, BrokerState) gomap \<Rightarrow> 32 word \<Rightarrow> Broker \<Rightarrow> nat" where
  "weight_of E running bound states controller b =
     priority_value (broker_priority (map fst (unfinished E running bound states)) running states controller b)"

lemma fold_update_key:
  "distinct (map f xs) \<Longrightarrow> map_of (fold (\<lambda>x. AList.update (f x) (g x)) xs m) k =
     (case find (\<lambda>x. f x = k) xs of Some x \<Rightarrow> Some (g x) | None \<Rightarrow> map_of m k)"
proof (induction xs arbitrary: m)
  case (Cons x xs)
  have "find (\<lambda>y. f y = f x) xs = None" using Cons.prems by (auto simp: find_None_iff) (metis imageI)
  then show ?case using Cons by (auto simp: gm_get_update split: option.split)
qed simp

lemma sort_key_cong: "(\<And>x. x \<in> set xs \<Longrightarrow> f x = g x) \<Longrightarrow> sort_key f xs = sort_key g xs"
proof (induction xs)
  case (Cons x xs)
  have "insort_key f x ys = insort_key g x ys" if "set ys \<subseteq> set xs" for ys
    using that Cons.prems by (induction ys) auto
  then show ?case using Cons by simp
qed simp

lemma sorted_last_ge: "sorted (map w xs) \<Longrightarrow> x \<in> set xs \<Longrightarrow> w x \<le> w (last xs)"
  by (induction xs) auto



end
