(* ===== verification/KafkaStorage.thy ===== *)
theory KafkaStorage
  imports KafkaRolling
begin

text \<open>
  What the Kafka reconciler takes away for good (\<open>pkg/resources/kafka/kafka.go\<close>): the pods, configuration maps,
  services and volume claims of brokers that left the spec (\<open>reconcileKafkaPodDelete\<close>), and the claims of
  disks that left a broker (\<open>reconcileKafkaPvc\<close>, \<open>handleDiskRemoval\<close>).

  A volume claim is given by its name, its annotation \<open>mountPath\<close> (empty when missing), its labels, its phase
  and the requested storage in bytes. The annotation of the last applied state is not part of the model.
\<close>

section \<open>Brokers that left the spec\<close>

definition arePodsAlreadyDeleted :: "Pod list \<Rightarrow> bool" where
  "arePodsAlreadyDeleted pods = list_all IsMarkedForDeletion pods"

definition kafkaDataVolumeMount :: string where
  "kafkaDataVolumeMount = ''kafka-data''"

definition spec_ids :: "KafkaCluster \<Rightarrow> string list" where
  "spec_ids c = map broker_id_str (Brokers (kcSpec c))"

definition pods_deleted_from_spec :: "KafkaCluster \<Rightarrow> Pod list \<Rightarrow> Pod list" where
  "pods_deleted_from_spec c items = filter (\<lambda>p. case map_of (podLabels p) BrokerIdLabelKey of
     None \<Rightarrow> False | Some i \<Rightarrow> i \<notin> set (spec_ids c)) items"

definition cc_state :: "KafkaCluster \<Rightarrow> string \<Rightarrow> CruiseControlState option" where
  "cc_state c i = map_option (\<lambda>st. gasCruiseControlState (bsGracefulActionState st)) (map_of (BrokersState c) i)"

text \<open>The brokers to drain first: the ones that Cruise Control still sees.\<close>

definition pending_downscale :: "KafkaCluster \<Rightarrow> Pod list \<Rightarrow> string list \<Rightarrow> string list" where
  "pending_downscale c pods availableBrokers = filter (\<lambda>i. cc_state c i = Some GracefulUpscaleSucceeded \<or> cc_state c i = Some GracefulUpscaleRequired)
     (filter (\<lambda>i. i \<in> set (map (\<lambda>p. pod_label p BrokerIdLabelKey) pods)) availableBrokers)"

definition downscale_required :: status_value where
  "downscale_required = StGracefulActionState (zero_GracefulActionState\<lparr>gasCruiseControlState := GracefulDownscaleRequired\<rparr>)"

definition mark_downscale :: "kenv \<Rightarrow> KafkaCluster \<Rightarrow> Pod list \<Rightarrow> ktrace \<Rightarrow> (err, unit) go \<times> KafkaCluster \<times> ktrace" where
  "mark_downscale E c pods tr =
     (if arePodsAlreadyDeleted pods then (Ret (), c, tr)
      else
        let tr1 = tr @ [KScaleFactory] in
        (case kScaleFactory E tr of
           Some e \<Rightarrow> (Err (typed CruiseControlNotReady e), c, tr1)
         | None \<Rightarrow>
             (case BrokersWithState (kccClient E tr1) [KafkaBrokerNew, KafkaBrokerAlive, KafkaBrokerDemoted, KafkaBrokerBadDisks] of
                (reqs, ab) \<Rightarrow>
                  let tr2 = tr1 @ map KCC reqs in
                  (case ab of
                     Inl e \<Rightarrow> (Err (typed CruiseControlNotReady e), c, tr2)
                   | Inr availableBrokers \<Rightarrow>
                       let pending = pending_downscale c pods availableBrokers in
                       if length pending > 0 then
                         (case UpdateBrokerStatus E pending c downscale_required tr2 of
                            (Some e, c1, tr3) \<Rightarrow> (Err (WrapErr ''could not update status for broker(s)'' e), c1, tr3)
                          | (None, c1, tr3) \<Rightarrow> (Ret (), c1, tr3))
                       else (Ret (), c, tr2)))))"

text \<open>A volume named like a data volume is taken to have a claim; one without is dereferenced all the same.\<close>

fun delete_claims :: "kenv \<Rightarrow> (string \<times> string option) list \<Rightarrow> ktrace \<Rightarrow> (err, unit) go \<times> ktrace" where
  "delete_claims E [] tr = (Ret (), tr)"
| "delete_claims E ((name, claim) # vs) tr =
     (if HasPrefix name kafkaDataVolumeMount then
        (case claim of
           None \<Rightarrow> (Panic, tr)
         | Some n \<Rightarrow>
             (case kDeletePvc E tr n of
                Some e \<Rightarrow> (Err (WrapErr ''could not delete pvc for broker'' e), tr @ [KDeletePvc n])
              | None \<Rightarrow> delete_claims E vs (tr @ [KDeletePvc n])))
      else delete_claims E vs tr)"

definition delete_config_map :: "kenv \<Rightarrow> KafkaCluster \<Rightarrow> string \<Rightarrow> ktrace \<Rightarrow> (err, unit) go \<times> ktrace" where
  "delete_config_map E c i tr =
     (let n = kcName c @ ''-config-'' @ i; tr1 = tr @ [KDeleteConfigMap n] in
      (case kDeleteConfigMap E tr n of
         Some e \<Rightarrow> if IsNotFound e then (Ret (), tr1) else (Err (WrapErr ''could not delete configmap for broker'' e), tr1)
       | None \<Rightarrow> (Ret (), tr1)))"

text \<open>Unlike for the configuration map, a service that is not found is an error.\<close>

definition delete_service :: "kenv \<Rightarrow> KafkaCluster \<Rightarrow> string \<Rightarrow> ktrace \<Rightarrow> (err, unit) go \<times> ktrace" where
  "delete_service E c i tr =
     (if HeadlessServiceEnabled (kcSpec c) then (Ret (), tr)
      else
        let n = kcName c @ ''-'' @ i; tr1 = tr @ [KDeleteService n] in
        (case kDeleteService E tr n of
           Some e \<Rightarrow> (Err (WrapErr ''could not delete service for broker'' e), tr1)
         | None \<Rightarrow> (Ret (), tr1)))"

definition controller_only_pod :: "Pod \<Rightarrow> bool" where
  "controller_only_pod p \<longleftrightarrow> map_of (podLabels p) ProcessRolesKey = Some ControllerNodeProcessRole"

definition may_delete :: "KafkaCluster \<Rightarrow> Pod \<Rightarrow> bool" where
  "may_delete c p \<longleftrightarrow> controller_only_pod p \<or>
     (case cc_state c (pod_label p BrokerIdLabelKey) of
        None \<Rightarrow> True
      | Some s \<Rightarrow> s = GracefulDownscaleSucceeded \<or> s = GracefulUpscaleRequired)"

definition delete_broker :: "kenv \<Rightarrow> KafkaCluster \<Rightarrow> Pod \<Rightarrow> ktrace \<Rightarrow> (err, unit) go \<times> KafkaCluster \<times> ktrace" where
  "delete_broker E c p tr =
     (let i = pod_label p BrokerIdLabelKey; tr1 = tr @ [KDeletePod p] in
      (case kDeletePod E tr p of
         Some e \<Rightarrow> (Err (WrapErr ''could not delete broker'' e), c, tr1)
       | None \<Rightarrow>
           (case delete_config_map E c i tr1 of
              (Panic, tr2) \<Rightarrow> (Panic, c, tr2)
            | (Err e, tr2) \<Rightarrow> (Err e, c, tr2)
            | (Ret _, tr2) \<Rightarrow>
                (case delete_service E c i tr2 of
                   (Panic, tr3) \<Rightarrow> (Panic, c, tr3)
                 | (Err e, tr3) \<Rightarrow> (Err e, c, tr3)
                 | (Ret _, tr3) \<Rightarrow>
                     (case delete_claims E (podVolumes p) tr3 of
                        (Panic, tr4) \<Rightarrow> (Panic, c, tr4)
                      | (Err e, tr4) \<Rightarrow> (Err e, c, tr4)
                      | (Ret _, tr4) \<Rightarrow>
                          (case DeleteBrokerStatus E i c tr4 of
                             (Some e, c1, tr5) \<Rightarrow> (Err (WrapErr ''could not delete status for broker'' e), c1, tr5)
                           | (None, c1, tr5) \<Rightarrow> (Ret (), c1, tr5)))))))"

fun delete_brokers :: "kenv \<Rightarrow> Pod list \<Rightarrow> KafkaCluster \<Rightarrow> ktrace \<Rightarrow> (err, unit) go \<times> KafkaCluster \<times> ktrace" where
  "delete_brokers E [] c tr = (Ret (), c, tr)"
| "delete_brokers E (p # ps) c tr =
     (if IsMarkedForDeletion p \<or> \<not> may_delete c p then delete_brokers E ps c tr
      else (case delete_broker E c p tr of
          (Ret _, c1, tr1) \<Rightarrow> delete_brokers E ps c1 tr1
        | r \<Rightarrow> r))"

definition reconcileKafkaPodDelete :: "kenv \<Rightarrow> KafkaCluster \<Rightarrow> ktrace \<Rightarrow> (err, unit) go \<times> KafkaCluster \<times> ktrace" where
  "reconcileKafkaPodDelete E c tr =
     (case kListPods E tr of
        Inl e \<Rightarrow> (Err (WrapErr ''failed to reconcile resource'' e), c, tr @ [KListPods])
      | Inr items \<Rightarrow>
          let pods = pods_deleted_from_spec c items in
          if length pods > 0 then
            (case mark_downscale E c pods (tr @ [KListPods]) of
               (Ret _, c1, tr1) \<Rightarrow> delete_brokers E pods c1 tr1
             | r \<Rightarrow> r)
          else (Ret (), c, tr @ [KListPods]))"

section \<open>Disks\<close>

definition isController :: "mergo \<Rightarrow> KafkaCluster \<Rightarrow> 32 word \<Rightarrow> (err, bool) go" where
  "isController M c brokerId = (case find (\<lambda>b. BrokerId b = brokerId) (Brokers (kcSpec c)) of
     None \<Rightarrow> Err (NewErr ''could not find broker in the spec'')
   | Some b \<Rightarrow>
       (case GetBrokerConfig M b (kcSpec c) of
          Inl e \<Rightarrow> Err (WrapErr ''failed to reconcile resource'' e)
        | Inr None \<Rightarrow> Panic
        | Inr (Some bc) \<Rightarrow> Ret (IsControllerNode bc)))"

definition isDesiredStorageValueInvalid :: "Pvc \<Rightarrow> Pvc \<Rightarrow> bool" where
  "isDesiredStorageValueInvalid desired current \<longleftrightarrow> pvcStorage desired < pvcStorage current"

definition CheckIfObjectUpdated :: "kenv \<Rightarrow> Pvc \<Rightarrow> Pvc \<Rightarrow> bool" where
  "CheckIfObjectUpdated E current desired = (case kPatchPvc E current desired of Inl e \<Rightarrow> True | Inr isEmpty \<Rightarrow> \<not> isEmpty)"

definition volume_state :: "KafkaCluster \<Rightarrow> string \<Rightarrow> string \<Rightarrow> CruiseControlVolumeState option" where
  "volume_state c brokerId mountPath = (case map_of (BrokersState c) brokerId of
     None \<Rightarrow> None
   | Some st \<Rightarrow> map_option volCruiseControlVolumeState (map_of (VolumeStates (bsGracefulActionState st)) mountPath))"

definition new_volume_state :: "CruiseControlVolumeState \<Rightarrow> VolumeState" where
  "new_volume_state s = \<lparr>volCruiseControlVolumeState = s, volCruiseControlOperationReference = None\<rparr>"

fun disk_removal ::
  "kenv \<Rightarrow> string \<Rightarrow> Pvc list \<Rightarrow> Pvc list \<Rightarrow> bool \<Rightarrow> (string, VolumeState) gomap \<Rightarrow> KafkaCluster \<Rightarrow> ktrace \<Rightarrow>
     (err, bool \<times> (string, VolumeState) gomap) go \<times> KafkaCluster \<times> ktrace" where
  "disk_removal E brokerId desired [] wait vs c tr = (Ret (wait, vs), c, tr)"
| "disk_removal E brokerId desired (pvc # pvcs) wait vs c tr =
     (let mp = pvcMountPath pvc in
      if mp \<in> set (map pvcMountPath desired) then disk_removal E brokerId desired pvcs wait vs c tr
      else (case volume_state c brokerId mp of
          None \<Rightarrow> disk_removal E brokerId desired pvcs wait vs c tr
        | Some s \<Rightarrow>
            if IsDiskRemovalSucceeded s then
              let tr1 = tr @ [KDeletePvc (pvcName pvc)] in
              (case kDeletePvc E tr (pvcName pvc) of
                 Some e \<Rightarrow> (Err (typed APIFailure e), c, tr1)
               | None \<Rightarrow>
                   (case DeleteVolumeStatus E brokerId mp c tr1 of
                      (Some e, c1, tr2) \<Rightarrow> (Err (WrapErr ''could not delete volume status for broker volume'' e), c1, tr2)
                    | (None, c1, tr2) \<Rightarrow> disk_removal E brokerId desired pvcs wait vs c1 tr2))
            else if IsDiskRemoval s \<or> IsDiskRebalance s then disk_removal E brokerId desired pvcs True vs c tr
            else disk_removal E brokerId desired pvcs True (AList.update mp (new_volume_state GracefulDiskRemovalRequired) vs) c tr))"

definition handleDiskRemoval ::
  "kenv \<Rightarrow> string \<Rightarrow> Pvc list \<Rightarrow> Pvc list \<Rightarrow> (string, VolumeState) gomap \<Rightarrow> KafkaCluster \<Rightarrow> ktrace \<Rightarrow>
     (err, bool \<times> (string, VolumeState) gomap) go \<times> KafkaCluster \<times> ktrace" where
  "handleDiskRemoval E brokerId desired pvcs vs c tr = disk_removal E brokerId desired pvcs False vs c tr"

definition create_pvc :: "kenv \<Rightarrow> Pvc \<Rightarrow> ktrace \<Rightarrow> (err, unit) go \<times> ktrace" where
  "create_pvc E desired tr = (case kSetLastAppliedPvc E desired of
     Some e \<Rightarrow> (Err (WrapErr ''could not apply last state to annotation'' e), tr)
   | None \<Rightarrow>
       (case kCreatePvc E tr desired of
          Some e \<Rightarrow> (Err (typed APIFailure e), tr @ [KCreatePvc desired])
        | None \<Rightarrow> (Ret (), tr @ [KCreatePvc desired])))"

text \<open>The current claim with the requested storage and the labels of the desired one.\<close>

definition update_pvc :: "kenv \<Rightarrow> Pvc \<Rightarrow> Pvc \<Rightarrow> ktrace \<Rightarrow> (err, unit) go \<times> ktrace" where
  "update_pvc E current desired tr =
     (if CheckIfObjectUpdated E current desired then
        (case kSetLastAppliedPvc E desired of
           Some e \<Rightarrow> (Err (WrapErr ''could not apply last state to annotation'' e), tr)
         | None \<Rightarrow>
             if isDesiredStorageValueInvalid desired current
             then (Err (typed InternalError (NewErr ''could not modify pvc size'')), tr)
             else
               let new = current\<lparr>pvcStorage := pvcStorage desired, pvcLabels := pvcLabels desired\<rparr>;
                   tr1 = tr @ [KUpdatePvc new] in
               (case kUpdatePvc E tr new of
                  Some e \<Rightarrow> (Err (typed APIFailure e), tr1)
                | None \<Rightarrow> (Ret (), tr1)))
      else (Ret (), tr))"

definition add_volume_state :: "KafkaCluster \<Rightarrow> string \<Rightarrow> Pvc \<Rightarrow> (string, VolumeState) gomap \<Rightarrow> (string, VolumeState) gomap" where
  "add_volume_state c brokerId current vs =
     (if pvcPhase current = ''Bound'' \<and>
         (case volume_state c brokerId (pvcMountPath current) of None \<Rightarrow> True | Some s \<Rightarrow> IsDiskRemoval s)
      then AList.update (pvcMountPath current) (new_volume_state GracefulDiskRebalanceRequired) vs else vs)"

fun reconcile_pvcs ::
  "kenv \<Rightarrow> KafkaCluster \<Rightarrow> string \<Rightarrow> Pvc list \<Rightarrow> (string, VolumeState) gomap \<Rightarrow> ktrace \<Rightarrow>
     (err, (string, VolumeState) gomap) go \<times> ktrace" where
  "reconcile_pvcs E c brokerId [] vs tr = (Ret vs, tr)"
| "reconcile_pvcs E c brokerId (desired # ds) vs tr =
     (let tr1 = tr @ [KListPvcs brokerId] in
      (case kListPvcs E tr brokerId of
         Inl e \<Rightarrow> (Err (typed APIFailure e), tr1)
       | Inr items \<Rightarrow>
           (case find (\<lambda>p. pvcMountPath p = pvcMountPath desired) items of
              None \<Rightarrow>
                (case create_pvc E desired tr1 of
                   (Panic, tr2) \<Rightarrow> (Panic, tr2)
                 | (Err e, tr2) \<Rightarrow> (Err e, tr2)
                 | (Ret _, tr2) \<Rightarrow> reconcile_pvcs E c brokerId ds vs tr2)
            | Some current \<Rightarrow>
                (case update_pvc E current desired tr1 of
                   (Panic, tr2) \<Rightarrow> (Panic, tr2)
                 | (Err e, tr2) \<Rightarrow> (Err e, tr2)
                 | (Ret _, tr2) \<Rightarrow> reconcile_pvcs E c brokerId ds (add_volume_state c brokerId current vs) tr2))))"

text \<open>The checks for a controller: one volume, whose mount path does not change.\<close>

definition check_controller :: "mergo \<Rightarrow> KafkaCluster \<Rightarrow> string \<Rightarrow> Pvc list \<Rightarrow> Pvc list \<Rightarrow> (err, unit) go" where
  "check_controller M c brokerId items desired =
     (case isController M c (ConvertStringToInt32 brokerId) of
        Panic \<Rightarrow> Panic
      | Err e \<Rightarrow> Err (WrapErr ''could not determine if broker is controller'' e)
      | Ret ctl \<Rightarrow>
          if ctl \<and> length desired \<noteq> 1 then Err (NewErr ''controller broker can have only one volume'')
          else if ctl \<and> length items = 1 \<and> pvcMountPath (hd items) \<noteq> pvcMountPath (hd desired)
          then Err (NewErr ''controller broker volume mount path cannot be changed'')
          else Ret ())"

definition remove_disks ::
  "kenv \<Rightarrow> string \<Rightarrow> Pvc list \<Rightarrow> Pvc list \<Rightarrow> bool \<Rightarrow> KafkaCluster \<Rightarrow> ktrace \<Rightarrow>
     (err, bool \<times> (string, VolumeState) gomap) go \<times> KafkaCluster \<times> ktrace" where
  "remove_disks E brokerId items desired wait c tr =
     (if length items > length desired then handleDiskRemoval E brokerId desired items [] c tr else (Ret (wait, []), c, tr))"

text \<open>The brokers in the order of the map; the flag \<open>wait\<close> is assigned by every broker that has too many claims.\<close>

fun pvc_brokers ::
  "kenv \<Rightarrow> mergo \<Rightarrow> (string, Pvc list) gomap \<Rightarrow> bool \<Rightarrow> (string, (string, VolumeState) gomap) gomap \<Rightarrow> KafkaCluster \<Rightarrow> ktrace \<Rightarrow>
     (err, bool \<times> (string, (string, VolumeState) gomap) gomap) go \<times> KafkaCluster \<times> ktrace" where
  "pvc_brokers E M [] wait vss c tr = (Ret (wait, vss), c, tr)"
| "pvc_brokers E M ((brokerId, desired) # bs) wait vss c tr =
     (let tr1 = tr @ [KListPvcs brokerId] in
      (case kListPvcs E tr brokerId of
         Inl e \<Rightarrow> (Err (typed APIFailure e), c, tr1)
       | Inr items \<Rightarrow>
           (case check_controller M c brokerId items desired of
              Panic \<Rightarrow> (Panic, c, tr1)
            | Err e \<Rightarrow> (Err e, c, tr1)
            | Ret _ \<Rightarrow>
                (case remove_disks E brokerId items desired wait c tr1 of
                   (Panic, c1, tr2) \<Rightarrow> (Panic, c1, tr2)
                 | (Err e, c1, tr2) \<Rightarrow> (Err e, c1, tr2)
                 | (Ret (wait1, vs), c1, tr2) \<Rightarrow>
                     (case reconcile_pvcs E c1 brokerId desired vs tr2 of
                        (Panic, tr3) \<Rightarrow> (Panic, c1, tr3)
                      | (Err e, tr3) \<Rightarrow> (Err e, c1, tr3)
                      | (Ret vs1, tr3) \<Rightarrow>
                          pvc_brokers E M bs wait1 (if length vs1 > 0 then vss @ [(brokerId, vs1)] else vss) c1 tr3)))))"

definition reconcileKafkaPvc ::
  "kenv \<Rightarrow> mergo \<Rightarrow> (string, Pvc list) gomap \<Rightarrow> KafkaCluster \<Rightarrow> ktrace \<Rightarrow> (err, unit) go \<times> KafkaCluster \<times> ktrace" where
  "reconcileKafkaPvc E M brokersDesiredPvcs c tr =
     (case pvc_brokers E M brokersDesiredPvcs False [] c tr of
        (Panic, c1, tr1) \<Rightarrow> (Panic, c1, tr1)
      | (Err e, c1, tr1) \<Rightarrow> (Err e, c1, tr1)
      | (Ret (wait, vss), c1, tr1) \<Rightarrow>
          (case (if length vss > 0 then UpdateBrokerStatus E (map fst vss) c1 (StBrokersVolumeStates vss) tr1 else (None, c1, tr1)) of
             (Some e, c2, tr2) \<Rightarrow> (Err e, c2, tr2)
           | (None, c2, tr2) \<Rightarrow>
               if wait then (Err (typed CruiseControlTaskRunning (NewErr ''Disk removal pending'')), c2, tr2)
               else (Ret (), c2, tr2)))"

section \<open>The cluster as a call sees it\<close>

text \<open>The code keeps the cluster in memory and replaces it by what the API server answers. The cluster that is
  known after a call, given the one known before: a failed write leaves the object that was written, a
  failed read leaves the cluster.\<close>

fun known_after :: "kenv \<Rightarrow> KafkaCluster \<Rightarrow> ktrace \<Rightarrow> kevent \<Rightarrow> KafkaCluster" where
  "known_after E c tr (KStatusUpdate x) = (case kStatusUpdate E tr x of Inl e \<Rightarrow> x | Inr y \<Rightarrow> y)"
| "known_after E c tr (KUpdate x) = (case kUpdate E tr x of Inl e \<Rightarrow> x | Inr y \<Rightarrow> y)"
| "known_after E c tr (KGetCluster n ns) = (case kGetCluster E tr n ns of Inl e \<Rightarrow> c | Inr y \<Rightarrow> y)"
| "known_after E c tr _ = c"

fun known :: "kenv \<Rightarrow> KafkaCluster \<Rightarrow> ktrace \<Rightarrow> ktrace \<Rightarrow> KafkaCluster" where
  "known E c tr [] = c"
| "known E c tr (e # d) = known E (known_after E c tr e) (tr @ [e]) d"

text \<open>Every event satisfies a condition on the cluster known and the events made before it.\<close>

fun guarded :: "kenv \<Rightarrow> (KafkaCluster \<Rightarrow> ktrace \<Rightarrow> kevent \<Rightarrow> bool) \<Rightarrow> KafkaCluster \<Rightarrow> ktrace \<Rightarrow> ktrace \<Rightarrow> bool" where
  "guarded E P c tr [] \<longleftrightarrow> True"
| "guarded E P c tr (e # d) \<longleftrightarrow> P c tr e \<and> guarded E P (known_after E c tr e) (tr @ [e]) d"

lemma known_append: "known E c tr (d @ d') = known E (known E c tr d) (tr @ d) d'"
  by (induction d arbitrary: c tr) simp_all

lemma guarded_append: "guarded E P c tr (d @ d') \<longleftrightarrow> guarded E P c tr d \<and> guarded E P (known E c tr d) (tr @ d) d'"
  by (induction d arbitrary: c tr) simp_all

lemma guarded_split: "guarded E P c tr (a @ e # b) \<Longrightarrow> P (known E c tr a) (tr @ a) e"
  by (simp add: guarded_append)

definition runs ::
  "kenv \<Rightarrow> (KafkaCluster \<Rightarrow> ktrace \<Rightarrow> kevent \<Rightarrow> bool) \<Rightarrow> KafkaCluster \<Rightarrow> ktrace \<Rightarrow> KafkaCluster \<Rightarrow> ktrace \<Rightarrow> bool" where
  "runs E P c tr c' tr' \<longleftrightarrow> (\<exists>d. tr' = tr @ d \<and> guarded E P c tr d \<and> c' = known E c tr d)"

lemma runs_refl [simp, intro]: "runs E P c tr c tr"
  by (simp add: runs_def)

lemma runs_trans [trans]: "runs E P c tr c' tr' \<Longrightarrow> runs E P c' tr' c'' tr'' \<Longrightarrow> runs E P c tr c'' tr''"
  unfolding runs_def by (metis append.assoc guarded_append known_append)

lemma runs_event: "P c tr e \<Longrightarrow> known_after E c tr e = c \<Longrightarrow> runs E P c tr c (tr @ [e])"
  by (auto simp: runs_def intro!: exI [of _ "[e]"])

lemma runs_prefix: "runs E P c tr c' tr' \<Longrightarrow> prefix tr tr'"
  by (auto simp: runs_def)

lemma runs_split: "runs E P c tr c' (tr @ a @ e # b) \<Longrightarrow> P (known E c tr a) (tr @ a) e"
  by (auto simp: runs_def dest: guarded_split)

text \<open>
  The interface between the functions that write a status and a condition on events: a condition that
  accepts the writes of a status and the reads. The cluster that such a function returns is the one known
  from its events.
\<close>

locale status_guard =
  fixes P :: "KafkaCluster \<Rightarrow> ktrace \<Rightarrow> kevent \<Rightarrow> bool"
  assumes P_status: "P c tr (KStatusUpdate x)"
    and P_update: "P c tr (KUpdate x)"
    and P_get: "P c tr (KGetCluster n ns)"
    and P_read: "e \<in> {KListPods, KScaleFactory, KListPvcs i, KCC q} \<Longrightarrow> P c tr e"
    and P_own: "P c tr (KDeleteConfigMap n)" "P c tr (KDeleteService n)"
begin

lemma runs_status_or_update:
  assumes "status_or_update E x tr = (r, c', tr')"
  shows "runs E P c tr c' tr'"
proof -
  have "tr' = tr @ [KStatusUpdate x] \<and> c' = known_after E c tr (KStatusUpdate x) \<or>
    tr' = tr @ [KStatusUpdate x, KUpdate x] \<and> c' = known_after E c (tr @ [KStatusUpdate x]) (KUpdate x)"
    using assms by (auto simp: status_or_update_def kcall_def split: sum.splits if_splits)
  then show ?thesis
  proof (elim disjE conjE)
    assume "tr' = tr @ [KStatusUpdate x]" "c' = known_after E c tr (KStatusUpdate x)"
    then show ?thesis unfolding runs_def by (intro exI [of _ "[KStatusUpdate x]"]) (simp add: P_status)
  next
    assume "tr' = tr @ [KStatusUpdate x, KUpdate x]" "c' = known_after E c (tr @ [KStatusUpdate x]) (KUpdate x)"
    then show ?thesis unfolding runs_def by (intro exI [of _ "[KStatusUpdate x, KUpdate x]"]) (simp add: P_status P_update)
  qed
qed

lemma runs_write_status:
  assumes "write_status E f c tr = (r, c', tr')"
  shows "runs E P c tr c' tr'"
proof -
  obtain r1 c1 tr1 where s1: "status_or_update E (f c) tr = (r1, c1, tr1)" by (cases "status_or_update E (f c) tr")
  note 1 = runs_status_or_update [OF s1, of c]
  let ?g = "KGetCluster (kcName c1) (kcNamespace c1)"
  have get: "runs E P c1 tr1 (known_after E c1 tr1 ?g) (tr1 @ [?g])"
    unfolding runs_def by (intro exI [of _ "[?g]"]) (simp add: P_get)
  show ?thesis
  proof (cases "\<exists>e b. r1 = Some e \<and> IsConflict e \<and> kGetCluster E tr1 (kcName c1) (kcNamespace c1) = Inr b")
    case True
    then obtain e b where b: "r1 = Some e" "IsConflict e" "kGetCluster E tr1 (kcName c1) (kcNamespace c1) = Inr b" by blast
    obtain r3 c3 tr3 where s3: "status_or_update E (f b) (tr1 @ [?g]) = (r3, c3, tr3)" by (cases "status_or_update E (f b) (tr1 @ [?g])")
    have "c' = c3" "tr' = tr3" using assms s1 s3 b by (auto simp: write_status_def Let_def split: option.splits)
    moreover have "runs E P c1 tr1 b (tr1 @ [?g])" using get b(3) by simp
    ultimately show ?thesis using runs_trans [OF 1] runs_trans runs_status_or_update [OF s3, of b] by blast
  next
    case False
    then have "c' = c1 \<and> (tr' = tr1 \<or> tr' = tr1 @ [?g] \<and> known_after E c1 tr1 ?g = c1)"
      using assms s1 by (auto simp: write_status_def Let_def split: option.splits if_splits sum.splits)
    then show ?thesis using 1 get runs_trans by metis
  qed
qed

lemma runs_reads: "set d \<subseteq> {KListPods, KScaleFactory} \<union> range KListPvcs \<union> range KCC \<Longrightarrow> runs E P c tr c (tr @ d)"
proof (induction d arbitrary: tr)
  case (Cons e d)
  then have "P c tr e" "known_after E c tr e = c" using P_read [of e] by auto
  then have "runs E P c tr c (tr @ [e])" by (rule runs_event)
  moreover have "runs E P c (tr @ [e]) c ((tr @ [e]) @ d)" by (rule Cons.IH) (use Cons.prems in simp)
  ultimately show ?case using runs_trans by fastforce
qed simp

end

section \<open>Removal of brokers\<close>

text \<open>A pod goes only when it may; a claim only after the pod that mounts it, counting from event \<open>k\<close>.\<close>

definition pod_removal :: "Pod list \<Rightarrow> nat \<Rightarrow> KafkaCluster \<Rightarrow> ktrace \<Rightarrow> kevent \<Rightarrow> bool" where
  "pod_removal pods k c tr e \<longleftrightarrow> (case e of
     KDeletePod p \<Rightarrow> p \<in> set pods \<and> \<not> IsMarkedForDeletion p \<and> may_delete c p
   | KDeletePvc n \<Rightarrow> \<exists>p v. KDeletePod p \<in> set (drop k tr) \<and> (v, Some n) \<in> set (podVolumes p) \<and> HasPrefix v kafkaDataVolumeMount
   | _ \<Rightarrow> True)"

interpretation pr: status_guard "pod_removal pods k" for pods k
  by unfold_locales (auto simp: pod_removal_def)

lemma delete_claims_runs:
  assumes "KDeletePod p \<in> set (drop k tr)" "set vs \<subseteq> set (podVolumes p)" "delete_claims E vs tr = (r, tr')"
  shows "runs E (pod_removal pods k) c tr c tr'"
  using assms
proof (induction E vs tr rule: delete_claims.induct)
  case (2 E name claim vs tr)
  have "runs E (pod_removal pods k) c tr c (tr @ [KDeletePvc n])" if "HasPrefix name kafkaDataVolumeMount" "claim = Some n" for n
    using 2(3,4) that by (intro runs_event) (auto simp: pod_removal_def)
  then show ?case using 2 by (auto split: if_splits option.splits intro: runs_trans)
qed auto

lemma delete_own_runs:
  "delete_config_map E c i tr = (r, tr') \<Longrightarrow> runs E (pod_removal pods k) c tr c tr'"
  "delete_service E c i tr = (r, tr') \<Longrightarrow> runs E (pod_removal pods k) c tr c tr'"
  by (auto simp: delete_config_map_def delete_service_def Let_def pod_removal_def intro!: runs_event split: option.splits if_splits)

lemma delete_broker_runs:
  assumes "delete_broker E c p tr = (r, c', tr')" "p \<in> set pods" "\<not> IsMarkedForDeletion p" "may_delete c p" "k \<le> length tr"
  shows "runs E (pod_removal pods k) c tr c' tr'"
proof -
  let ?i = "pod_label p BrokerIdLabelKey" and ?tr1 = "tr @ [KDeletePod p]" and ?runs = "runs E (pod_removal pods k)"
  obtain r2 tr2 where 2: "delete_config_map E c ?i ?tr1 = (r2, tr2)" by (cases "delete_config_map E c ?i ?tr1")
  obtain r3 tr3 where 3: "delete_service E c ?i tr2 = (r3, tr3)" by (cases "delete_service E c ?i tr2")
  obtain r4 tr4 where 4: "delete_claims E (podVolumes p) tr3 = (r4, tr4)" by (cases "delete_claims E (podVolumes p) tr3")
  obtain r5 c5 tr5 where 5: "DeleteBrokerStatus E ?i c tr4 = (r5, c5, tr5)" by (cases "DeleteBrokerStatus E ?i c tr4")
  have ev: "(c' = c \<and> tr' \<in> {?tr1, tr2, tr3, tr4}) \<or> (c' = c5 \<and> tr' = tr5)"
    using assms(1) 2 3 4 5 by (auto simp: delete_broker_def Let_def split: option.splits go.splits)
  have s1: "?runs c tr c ?tr1" by (rule runs_event) (use assms in \<open>auto simp: pod_removal_def\<close>)
  note s2 = runs_trans [OF s1 delete_own_runs(1) [OF 2]]
  note s3 = runs_trans [OF s2 delete_own_runs(2) [OF 3]]
  have "KDeletePod p \<in> set (drop k tr3)"
    using runs_prefix [OF delete_own_runs(1) [OF 2]] runs_prefix [OF delete_own_runs(2) [OF 3]] assms(5)
    by (auto simp: prefix_def)
  note s4 = runs_trans [OF s3 delete_claims_runs [OF this subset_refl 4]]
  note s5 = runs_trans [OF s4 pr.runs_write_status [OF 5 [unfolded DeleteBrokerStatus_def]]]
  show ?thesis using ev s1 s2 s3 s4 s5 by auto
qed

lemma delete_brokers_runs:
  assumes "delete_brokers E ps c tr = (r, c', tr')" "set ps \<subseteq> set pods" "k \<le> length tr"
  shows "runs E (pod_removal pods k) c tr c' tr'"
  using assms
proof (induction E ps c tr rule: delete_brokers.induct)
  case (2 E p ps c tr)
  show ?case
  proof (cases "IsMarkedForDeletion p \<or> \<not> may_delete c p")
    case False
    obtain r1 c1 tr1 where d: "delete_broker E c p tr = (r1, c1, tr1)" by (cases "delete_broker E c p tr")
    have step: "runs E (pod_removal pods k) c tr c1 tr1" by (rule delete_broker_runs [OF d]) (use False 2(4,5) in auto)
    show ?thesis
    proof (cases r1)
      case (Ret u)
      have "runs E (pod_removal pods k) c1 tr1 c' tr'"
        by (rule 2(2) [OF False d [symmetric] Ret refl])
           (use 2(3-5) False d Ret runs_prefix [OF step] in \<open>auto dest: prefix_length_le\<close>)
      then show ?thesis using step runs_trans by blast
    qed (use 2(3) False d step in auto)
  qed (use 2 in auto)
qed auto

lemma mark_downscale_runs:
  assumes "mark_downscale E c pods tr = (r, c', tr')"
  shows "runs E (pod_removal pods' k) c tr c' tr'"
proof -
  let ?tr1 = "tr @ [KScaleFactory]" and ?runs = "runs E (pod_removal pods' k)"
  let ?tr2 = "tr @ [KScaleFactory, KCC ReqLoad]"
  have r1: "?runs c tr c ?tr1" and r2: "?runs c tr c ?tr2" by (rule pr.runs_reads; simp)+
  have "(c' = c \<and> tr' \<in> {tr, ?tr1, ?tr2}) \<or> (\<exists>ids r1. UpdateBrokerStatus E ids c downscale_required ?tr2 = (r1, c', tr'))"
    using assms by (auto simp: mark_downscale_def BrokersWithState_def Let_def split: if_splits option.splits sum.splits prod.splits)
  then show ?thesis
    using r1 r2 pr.runs_write_status runs_trans by (auto simp: UpdateBrokerStatus_def)
qed

text \<open>What the API server promises for an accepted write: it answers with the status that was written.\<close>

definition stores :: "kenv \<Rightarrow> bool" where
  "stores E \<longleftrightarrow> (\<forall>tr x y. kStatusUpdate E tr x = Inr y \<or> kUpdate E tr x = Inr y \<longrightarrow> BrokersState y = BrokersState x)"

lemma marked_state:
  assumes "i \<in> set ids"
  shows "cc_state (generateBrokerState ids downscale_required b) i = Some GracefulDownscaleRequired"
proof -
  define cc where "cc m = map_option (\<lambda>st. gasCruiseControlState (bsGracefulActionState st)) (map_of m i)" for m :: "(string, BrokerState) gomap"
  have set: "cc (set_broker_state downscale_required j m) = (if j = i then Some GracefulDownscaleRequired else cc m)" for j m
    by (simp add: cc_def set_broker_state_lookup downscale_required_def set_status_value_def)
  have keep: "cc m = Some GracefulDownscaleRequired \<Longrightarrow> cc (fold (set_broker_state downscale_required) js m) = Some GracefulDownscaleRequired" for js m
    by (induction js arbitrary: m) (simp_all add: set)
  have "cc (fold (set_broker_state downscale_required) js m) = Some GracefulDownscaleRequired" if "i \<in> set js" for js m
    using that by (induction js arbitrary: m) (auto simp: set keep)
  then show ?thesis using assms by (simp add: cc_def cc_state_def generateBrokerState_def)
qed

text \<open>(C4) The removal of brokers: a pod is deleted only when it was listed as a pod of a broker that is not in
  the spec, is not terminating yet, and, unless it is a controller without broker role, its broker has
  no state, has been drained, or had not started to take load, in the status as known at that moment. A
  volume claim is deleted only as a data volume of a pod that was deleted before in the same call.\<close>

theorem pod_delete_safe:
  assumes "reconcileKafkaPodDelete E c tr = (r, c', tr @ a @ e # b)"
  shows "(\<forall>p. e = KDeletePod p \<longrightarrow> (\<exists>items i. kListPods E tr = Inr items \<and> p \<in> set items \<and>
      map_of (podLabels p) BrokerIdLabelKey = Some i \<and> i \<notin> set (spec_ids c) \<and> \<not> IsMarkedForDeletion p \<and> may_delete (known E c tr a) p)) \<and>
    (\<forall>n. e = KDeletePvc n \<longrightarrow> (\<exists>p v. KDeletePod p \<in> set a \<and> (v, Some n) \<in> set (podVolumes p) \<and> HasPrefix v kafkaDataVolumeMount))"
proof -
  let ?tr1 = "tr @ [KListPods]"
  have list: "runs E (pod_removal pods (length tr)) c tr c ?tr1" for pods by (rule pr.runs_reads) simp
  obtain pods where pods: "runs E (pod_removal pods (length tr)) c tr c' (tr @ a @ e # b)"
    "pods \<noteq> [] \<longrightarrow> (\<exists>items. kListPods E tr = Inr items \<and> pods = pods_deleted_from_spec c items)"
  proof (cases "\<exists>items. kListPods E tr = Inr items \<and> pods_deleted_from_spec c items \<noteq> []")
    case True
    then obtain items where items: "kListPods E tr = Inr items" "pods_deleted_from_spec c items \<noteq> []" by blast
    let ?pods = "pods_deleted_from_spec c items"
    obtain r1 c1 tr1 where m: "mark_downscale E c ?pods ?tr1 = (r1, c1, tr1)" by (cases "mark_downscale E c ?pods ?tr1")
    note s1 = runs_trans [OF list mark_downscale_runs [OF m, of ?pods "length tr"]]
    have len: "length tr \<le> length tr1" using runs_prefix [OF s1] prefix_length_le by blast
    have "(c' = c1 \<and> tr @ a @ e # b = tr1) \<or> delete_brokers E ?pods c1 tr1 = (r, c', tr @ a @ e # b)"
      using assms items m by (auto simp: reconcileKafkaPodDelete_def Let_def split: go.splits)
    then have "runs E (pod_removal ?pods (length tr)) c tr c' (tr @ a @ e # b)"
      using s1 delete_brokers_runs [OF _ subset_refl len] runs_trans by blast
    then show ?thesis using that items(1) by blast
  next
    case False
    then have "c' = c" "tr @ a @ e # b = ?tr1"
      using assms by (auto simp: reconcileKafkaPodDelete_def Let_def split: sum.splits)
    then show ?thesis using that [of "[]"] list by simp
  qed
  have "pod_removal pods (length tr) (known E c tr a) (tr @ a) e" by (rule runs_split [OF pods(1)])
  then show ?thesis using pods(2)
    by (auto simp: pod_removal_def pods_deleted_from_spec_def split: option.splits)
qed

definition gone_pod :: Pod where
  "gone_pod = (sample_pod ''2'')\<lparr>podSpec := zero_PodSpec\<lparr>psVolumes :=
     [\<lparr>volName = ''config'', volSource = ConfigMapSource ''kafka-config-2''\<rparr>, \<lparr>volName = ''kafka-data-0'', volSource = PvcSource ''claim''\<rparr>]\<rparr>\<rparr>"

definition gone_kenv :: kenv where
  "gone_kenv = sample_kenv\<lparr>kListPods := (\<lambda>tr. Inr [sample_pod ''0'', gone_pod])\<rparr>"

theorem pod_delete_safe_witness:
  "\<exists>r c' a b. reconcileKafkaPodDelete gone_kenv kafka_cluster [] = (r, c', [] @ a @ KDeletePvc ''claim'' # b) \<and>
     (\<exists>p v. KDeletePod p \<in> set a \<and> (v, Some ''claim'') \<in> set (podVolumes p) \<and> HasPrefix v kafkaDataVolumeMount)"
proof -
  let ?h = "reconcileKafkaPodDelete gone_kenv kafka_cluster []"
  obtain r c' tr' where h: "?h = (r, c', tr')" by (cases ?h)
  have "5 < length (snd (snd ?h))" "snd (snd ?h) ! 5 = KDeletePvc ''claim''" by code_simp+
  then have "?h = (r, c', [] @ take 5 tr' @ KDeletePvc ''claim'' # drop (Suc 5) tr')"
    using h id_take_nth_drop [of 5 tr'] by simp
  note t = this
  obtain p v where "KDeletePod p \<in> set (take 5 tr') \<and> (v, Some ''claim'') \<in> set (podVolumes p) \<and> HasPrefix v kafkaDataVolumeMount"
    using pod_delete_safe [OF t, THEN conjunct2, THEN spec, of "''claim''"] by blast
  with t show ?thesis by (elim conjE, intro exI conjI)
qed

text \<open>A broker that left the spec while Cruise Control still sees it in service is not deleted before it is
  drained: with an API server that stores what it accepts, once the reconciler has marked the brokers its
  state requires a downscale, which forbids the deletion of its pod.\<close>

theorem drained_before_removal:
  assumes "stores E" "mark_downscale E c pods tr = (Ret u, c', tr')" "p \<in> set pods" "\<not> IsMarkedForDeletion p"
    and "ccLoad (kccClient E (tr @ [KScaleFactory])) = Inr loads" "b \<in> set loads"
    and "loadBrokerState b \<in> {KafkaBrokerNew, KafkaBrokerAlive, KafkaBrokerDemoted, KafkaBrokerBadDisks}"
    and "broker_id_text (loadBroker b) = pod_label p BrokerIdLabelKey"
    and "cc_state c (pod_label p BrokerIdLabelKey) \<in> {Some GracefulUpscaleSucceeded, Some GracefulUpscaleRequired}"
  shows "cc_state c' (pod_label p BrokerIdLabelKey) = Some GracefulDownscaleRequired \<and> (may_delete c' p \<longrightarrow> controller_only_pod p)"
proof -
  let ?i = "pod_label p BrokerIdLabelKey"
  let ?av = "map (\<lambda>b. broker_id_text (loadBroker b)) (filter (\<lambda>b. loadBrokerState b \<in> set [KafkaBrokerNew, KafkaBrokerAlive, KafkaBrokerDemoted, KafkaBrokerBadDisks]) loads)"
  let ?ids = "pending_downscale c pods ?av" and ?tr2 = "tr @ [KScaleFactory, KCC ReqLoad]"
  have "?i \<in> set ?av" using assms(6-8) by (auto simp: image_iff intro!: bexI [of _ b])
  then have ids: "?i \<in> set ?ids" using assms(3,9) by (auto simp: pending_downscale_def)
  have "\<not> arePodsAlreadyDeleted pods" using assms(3,4) by (auto simp: arePodsAlreadyDeleted_def list_all_iff)
  moreover have "length ?ids > 0" using ids by auto
  ultimately have "UpdateBrokerStatus E ?ids c downscale_required ?tr2 = (None, c', tr')"
    using assms(2,5) by (auto simp: mark_downscale_def BrokersWithState_def Let_def split: option.splits prod.splits)
  then obtain q x where "kStatusUpdate E q (generateBrokerState ?ids downscale_required x) = Inr c' \<or>
      kUpdate E q (generateBrokerState ?ids downscale_required x) = Inr c'"
    using write_status_events unfolding UpdateBrokerStatus_def by blast
  then have "BrokersState c' = BrokersState (generateBrokerState ?ids downscale_required x)" using assms(1) by (auto simp: stores_def)
  then have "cc_state c' ?i = Some GracefulDownscaleRequired" using marked_state [OF ids] by (simp add: cc_state_def)
  then show ?thesis by (simp add: may_delete_def)
qed

definition serving_kenv :: kenv where
  "serving_kenv = sample_kenv\<lparr>kStatusUpdate := (\<lambda>tr x. Inr x), kccClient := (\<lambda>tr. idle_client\<lparr>ccLoad := Inr
     [\<lparr>loadBroker = 2, loadBrokerState = KafkaBrokerAlive, DiskState = []\<rparr>]\<rparr>)\<rparr>"

definition serving_cluster :: KafkaCluster where
  "serving_cluster = kafka_cluster\<lparr>BrokersState := [(''2'', zero_BrokerState\<lparr>bsGracefulActionState :=
     zero_GracefulActionState\<lparr>gasCruiseControlState := GracefulUpscaleSucceeded\<rparr>\<rparr>)]\<rparr>"

theorem drained_before_removal_witness:
  "\<exists>c' tr'. mark_downscale serving_kenv serving_cluster [gone_pod] [] = (Ret (), c', tr') \<and>
     cc_state c' (pod_label gone_pod BrokerIdLabelKey) = Some GracefulDownscaleRequired"
proof -
  let ?m = "mark_downscale serving_kenv serving_cluster [gone_pod] []"
  obtain r c' tr' where m: "?m = (r, c', tr')" by (cases ?m)
  have r: "fst ?m = Ret ()" by code_simp
  have "stores serving_kenv" by (auto simp: stores_def serving_kenv_def sample_kenv_def)
  moreover have "\<not> IsMarkedForDeletion gone_pod" by code_simp
  moreover have "ccLoad (kccClient serving_kenv ([] @ [KScaleFactory])) = Inr [\<lparr>loadBroker = 2, loadBrokerState = KafkaBrokerAlive, DiskState = []\<rparr>]"
    by (simp add: serving_kenv_def)
  moreover have "broker_id_text 2 = pod_label gone_pod BrokerIdLabelKey" by code_simp
  moreover have "cc_state serving_cluster (pod_label gone_pod BrokerIdLabelKey) \<in> {Some GracefulUpscaleSucceeded, Some GracefulUpscaleRequired}"
    by code_simp
  ultimately have "cc_state c' (pod_label gone_pod BrokerIdLabelKey) = Some GracefulDownscaleRequired"
    using drained_before_removal [of serving_kenv serving_cluster "[gone_pod]" "[]" "()" c' tr' gone_pod] m r by simp
  then show ?thesis using m r by simp
qed

section \<open>Removal of disks\<close>

text \<open>\<open>listed E tr i items\<close>: the claims of broker \<open>i\<close> were read before, with this answer.\<close>

definition listed :: "kenv \<Rightarrow> ktrace \<Rightarrow> string \<Rightarrow> Pvc list \<Rightarrow> bool" where
  "listed E tr i items \<longleftrightarrow> (\<exists>t. prefix (t @ [KListPvcs i]) tr \<and> kListPvcs E t i = Inr items)"

definition just_listed :: "kenv \<Rightarrow> ktrace \<Rightarrow> string \<Rightarrow> Pvc list \<Rightarrow> bool" where
  "just_listed E tr i items \<longleftrightarrow> (\<exists>t. tr = t @ [KListPvcs i] \<and> kListPvcs E t i = Inr items)"

lemma listed_mono: "listed E tr i items \<Longrightarrow> prefix tr tr' \<Longrightarrow> listed E tr' i items"
  unfolding listed_def using prefix_order.trans by blast

definition disk_change :: "kenv \<Rightarrow> (string \<times> Pvc list) list \<Rightarrow> KafkaCluster \<Rightarrow> ktrace \<Rightarrow> kevent \<Rightarrow> bool" where
  "disk_change E brokers c tr e \<longleftrightarrow> (case e of
     KDeletePvc n \<Rightarrow> \<exists>i desired items pvc. (i, desired) \<in> set brokers \<and> listed E tr i items \<and> pvc \<in> set items \<and> pvcName pvc = n \<and>
       pvcMountPath pvc \<notin> pvcMountPath ` set desired \<and> length desired < length items \<and>
       volume_state c i (pvcMountPath pvc) = Some GracefulDiskRemovalSucceeded
   | KCreatePvc p \<Rightarrow> \<exists>i desired items. (i, desired) \<in> set brokers \<and> p \<in> set desired \<and> just_listed E tr i items \<and>
       pvcMountPath p \<notin> pvcMountPath ` set items
   | KUpdatePvc p \<Rightarrow> \<exists>i desired items current d. (i, desired) \<in> set brokers \<and> d \<in> set desired \<and> just_listed E tr i items \<and>
       current \<in> set items \<and> pvcMountPath current = pvcMountPath d \<and>
       p = current\<lparr>pvcStorage := pvcStorage d, pvcLabels := pvcLabels d\<rparr> \<and> pvcStorage current \<le> pvcStorage p
   | KDeletePod p \<Rightarrow> False
   | _ \<Rightarrow> True)"

interpretation dc: status_guard "disk_change E brokers" for E brokers
  by unfold_locales (auto simp: disk_change_def)

lemma disk_removal_runs:
  assumes "disk_removal E i desired pvcs wait vs c tr = (r, c', tr')" "(i, desired) \<in> set brokers" "listed E tr i items"
    and "set pvcs \<subseteq> set items" "length desired < length items"
  shows "runs E (disk_change E brokers) c tr c' tr'"
  using assms
proof (induction E i desired pvcs wait vs c tr rule: disk_removal.induct)
  case (2 E i desired pvc pvcs wait vs c tr)
  let ?mp = "pvcMountPath pvc" and ?tr1 = "tr @ [KDeletePvc (pvcName pvc)]" and ?runs = "runs E (disk_change E brokers)"
  show ?case
  proof (cases "?mp \<notin> set (map pvcMountPath desired) \<and> volume_state c i ?mp = Some GracefulDiskRemovalSucceeded")
    case True
    then have suc: "IsDiskRemovalSucceeded GracefulDiskRemovalSucceeded" "?mp \<notin> set (map pvcMountPath desired)"
      "volume_state c i ?mp = Some GracefulDiskRemovalSucceeded" by (simp_all add: IsDiskRemovalSucceeded_def)
    have del: "?runs c tr c ?tr1" by (rule runs_event) (use True 2(7-) in \<open>auto simp: disk_change_def\<close>)
    obtain r1 c1 tr2 where d: "DeleteVolumeStatus E i ?mp c ?tr1 = (r1, c1, tr2)" by (cases "DeleteVolumeStatus E i ?mp c ?tr1")
    note s2 = runs_trans [OF del dc.runs_write_status [OF d [unfolded DeleteVolumeStatus_def]]]
    have "listed E tr2 i items" by (rule listed_mono [OF "2.prems"(3) runs_prefix [OF s2]])
    then have rest: "disk_removal E i desired pvcs wait vs c1 tr2 = (r, c', tr') \<Longrightarrow> ?runs c1 tr2 c' tr'"
      if "kDeletePvc E tr (pvcName pvc) = None" "r1 = None"
      using 2(3) [OF refl suc(2) suc(3) suc(1) refl that(1) d [symmetric] that(2)] 2(7-) by auto
    show ?thesis using "2.prems"(1) suc d del s2 rest runs_trans [OF s2] by (auto simp: Let_def split: option.splits)
  next
    case False
    then show ?thesis using 2 by (auto simp: Let_def IsDiskRemovalSucceeded_def split: if_splits option.splits)
  qed
qed auto

lemma reconcile_pvcs_runs:
  assumes "reconcile_pvcs E c i ds vs tr = (r, tr')" "(i, desired) \<in> set brokers" "set ds \<subseteq> set desired"
  shows "runs E (disk_change E brokers) c tr c tr'"
  using assms
proof (induction E c i ds vs tr rule: reconcile_pvcs.induct)
  case (2 E c i d ds vs tr)
  let ?tr1 = "tr @ [KListPvcs i]" and ?runs = "runs E (disk_change E brokers)"
  have list: "?runs c tr c ?tr1" by (rule dc.runs_reads) simp
  show ?case
  proof (cases "kListPvcs E tr i")
    case (Inr items)
    then have j: "just_listed E ?tr1 i items" by (auto simp: just_listed_def)
    show ?thesis
    proof (cases "find (\<lambda>p. pvcMountPath p = pvcMountPath d) items")
      case None
      obtain r1 tr2 where cr: "create_pvc E d ?tr1 = (r1, tr2)" by (cases "create_pvc E d ?tr1")
      have "pvcMountPath d \<notin> pvcMountPath ` set items" using None by (force simp: find_None_iff)
      then have "disk_change E brokers c ?tr1 (KCreatePvc d)"
        using j "2.prems"(2,3) unfolding disk_change_def by (simp, blast)
      then have "?runs c ?tr1 c (?tr1 @ [KCreatePvc d])" by (rule runs_event) simp
      moreover have "tr2 = ?tr1 \<or> tr2 = ?tr1 @ [KCreatePvc d]" using cr by (auto simp: create_pvc_def split: option.splits)
      ultimately have "?runs c ?tr1 c tr2" by auto
      note s2 = runs_trans [OF list this]
      have "reconcile_pvcs E c i ds vs tr2 = (r, tr') \<Longrightarrow> r1 = Ret u \<Longrightarrow> ?runs c tr2 c tr'" for u
        using 2(1) [OF refl Inr None cr [symmetric]] "2.prems" by auto
      then show ?thesis using "2.prems"(1) Inr None cr s2 runs_trans [OF s2] by (auto simp: Let_def split: go.splits)
    next
      case (Some cur)
      obtain r1 tr2 where up: "update_pvc E cur d ?tr1 = (r1, tr2)" by (cases "update_pvc E cur d ?tr1")
      let ?new = "cur\<lparr>pvcStorage := pvcStorage d, pvcLabels := pvcLabels d\<rparr>"
      have cur: "cur \<in> set items" "pvcMountPath cur = pvcMountPath d" using Some by (auto simp: find_Some_iff)
      have "disk_change E brokers c ?tr1 (KUpdatePvc ?new)" if "\<not> isDesiredStorageValueInvalid d cur"
      proof -
        have "pvcStorage cur \<le> pvcStorage ?new" "d \<in> set desired" using that "2.prems"(3) by (simp_all add: isDesiredStorageValueInvalid_def)
        then show ?thesis using cur j "2.prems"(2) unfolding disk_change_def kevent.case by blast
      qed
      then have "?runs c ?tr1 c (?tr1 @ [KUpdatePvc ?new])" if "\<not> isDesiredStorageValueInvalid d cur"
        using that by (intro runs_event) simp_all
      moreover have "tr2 = ?tr1 \<or> \<not> isDesiredStorageValueInvalid d cur \<and> tr2 = ?tr1 @ [KUpdatePvc ?new]"
        using up by (auto simp: update_pvc_def Let_def split: option.splits if_splits)
      ultimately have "?runs c ?tr1 c tr2" by auto
      note s2 = runs_trans [OF list this]
      have "reconcile_pvcs E c i ds (add_volume_state c i cur vs) tr2 = (r, tr') \<Longrightarrow> r1 = Ret u \<Longrightarrow> ?runs c tr2 c tr'" for u
        using 2(2) [OF refl Inr Some up [symmetric]] "2.prems" by auto
      then show ?thesis using "2.prems"(1) Inr Some up s2 runs_trans [OF s2] by (auto simp: Let_def split: go.splits)
    qed
  qed (use "2.prems"(1) list in auto)
qed auto

lemma pvc_brokers_runs:
  assumes "pvc_brokers E M bs wait vss c tr = (r, c', tr')" "set bs \<subseteq> set brokers"
  shows "runs E (disk_change E brokers) c tr c' tr'"
  using assms
proof (induction bs arbitrary: wait vss c tr)
  case (Cons b bs)
  obtain i desired where b: "b = (i, desired)" by (cases b)
  let ?tr1 = "tr @ [KListPvcs i]" and ?runs = "runs E (disk_change E brokers)"
  have list: "?runs c tr c ?tr1" by (rule dc.runs_reads) simp
  show ?case
  proof (cases "\<exists>items u. kListPvcs E tr i = Inr items \<and> check_controller M c i items desired = Ret u")
    case True
    then obtain items u where it: "kListPvcs E tr i = Inr items" "check_controller M c i items desired = Ret u" by blast
    obtain r1 c1 tr2 where rm: "remove_disks E i items desired wait c ?tr1 = (r1, c1, tr2)" by (cases "remove_disks E i items desired wait c ?tr1")
    have "listed E ?tr1 i items" using it by (auto simp: listed_def)
    then have "?runs c ?tr1 c1 tr2"
      using rm disk_removal_runs [of E i desired items False "[]" c ?tr1 r1 c1 tr2 brokers items] Cons.prems(2) b
      by (auto simp: remove_disks_def handleDiskRemoval_def split: if_splits)
    note s2 = runs_trans [OF list this]
    show ?thesis
    proof (cases r1)
      case (Ret x)
      obtain wait1 vs where x: "x = (wait1, vs)" by (cases x)
      obtain r2 tr3 where rp: "reconcile_pvcs E c1 i desired vs tr2 = (r2, tr3)" by (cases "reconcile_pvcs E c1 i desired vs tr2")
      have "?runs c1 tr2 c1 tr3" by (rule reconcile_pvcs_runs [OF rp _ subset_refl]) (use Cons.prems(2) b in auto)
      note s3 = runs_trans [OF s2 this]
      show ?thesis
      proof (cases r2)
        case vs1: (Ret vs1)
        have "pvc_brokers E M bs wait1 (if length vs1 > 0 then vss @ [(i, vs1)] else vss) c1 tr3 = (r, c', tr')"
          using Cons.prems(1) b it rm Ret x rp vs1 by simp
        then show ?thesis using Cons.IH Cons.prems(2) runs_trans [OF s3] by auto
      qed (use Cons.prems(1) b it rm Ret x rp s3 in auto)
    qed (use Cons.prems(1) b it rm s2 in auto)
  next
    case False
    then have "c' = c" "tr' = ?tr1" using Cons.prems(1) b by (auto simp: Let_def split: sum.splits go.splits)
    then show ?thesis using list by simp
  qed
qed simp

text \<open>(C3) The reconciliation of the volume claims never loses data: a claim is deleted only when it was listed for
  a broker that has more claims than desired, its mount path is not desired any more and its removal
  from Kafka has succeeded in the status as known at that moment; a claim is changed only in its labels
  and its size, which does not shrink; one is created only for a desired mount path without a claim in
  the list just read; no pod is deleted.\<close>

theorem disk_removal_safe:
  assumes "reconcileKafkaPvc E M brokers c tr = (r, c', tr @ a @ e # b)"
  shows "disk_change E brokers (known E c tr a) (tr @ a) e"
proof -
  obtain r1 c1 tr1 where p: "pvc_brokers E M brokers False [] c tr = (r1, c1, tr1)" by (cases "pvc_brokers E M brokers False [] c tr")
  note s1 = pvc_brokers_runs [OF p subset_refl]
  have "(c' = c1 \<and> tr @ a @ e # b = tr1) \<or> (\<exists>ids v r2. UpdateBrokerStatus E ids c1 v tr1 = (r2, c', tr @ a @ e # b))"
    using assms p by (auto simp: reconcileKafkaPvc_def split: go.splits if_splits option.splits prod.splits)
  then have "runs E (disk_change E brokers) c tr c' (tr @ a @ e # b)"
    using s1 dc.runs_write_status runs_trans [OF s1] unfolding UpdateBrokerStatus_def by blast
  then show ?thesis by (rule runs_split)
qed

definition disk :: "string \<Rightarrow> Pvc" where
  "disk mp = \<lparr>pvcName = ''claim'' @ mp, pvcMountPath = mp, pvcLabels = [], pvcPhase = ''Bound'', pvcStorage = 10\<rparr>"

text \<open>Two brokers with the disks \<open>/a\<close> and \<open>/b\<close>, where \<open>/b\<close> is to go: its removal is done on broker 1 only.\<close>

definition disk_cluster :: KafkaCluster where
  "disk_cluster =
     (let vol = \<lambda>s. \<lparr>volCruiseControlVolumeState = s, volCruiseControlOperationReference = None\<rparr>;
          st = \<lambda>s. zero_BrokerState\<lparr>bsGracefulActionState := zero_GracefulActionState\<lparr>VolumeStates := [(''/a'', vol GracefulDiskRebalanceSucceeded), (''/b'', vol s)]\<rparr>\<rparr>
      in kafka_cluster\<lparr>kcSpec := (kcSpec kafka_cluster)\<lparr>Brokers := map (\<lambda>b. b\<lparr>brokerBrokerConfig := Some zero_BrokerConfig\<rparr>) sample_brokers\<rparr>,
         BrokersState := [(''0'', st GracefulDiskRemovalRunning), (''1'', st GracefulDiskRemovalSucceeded)]\<rparr>)"

definition disk_kenv :: kenv where
  "disk_kenv = sample_kenv\<lparr>kStatusUpdate := (\<lambda>tr x. Inr x), kListPvcs := (\<lambda>tr i. Inr [disk ''/a'', disk ''/b''])\<rparr>"

theorem disk_removal_safe_witness:
  "\<exists>r c' a b. reconcileKafkaPvc disk_kenv sample_mergo [(''1'', [disk ''/a''])] disk_cluster [] = (r, c', [] @ a @ KDeletePvc ''claim/b'' # b) \<and>
     disk_change disk_kenv [(''1'', [disk ''/a''])] (known disk_kenv disk_cluster [] a) ([] @ a) (KDeletePvc ''claim/b'')"
proof -
  let ?h = "reconcileKafkaPvc disk_kenv sample_mergo [(''1'', [disk ''/a''])] disk_cluster []"
  obtain r c' tr' where h: "?h = (r, c', tr')" by (cases ?h)
  have "1 < length (snd (snd ?h))" "snd (snd ?h) ! 1 = KDeletePvc ''claim/b''" by code_simp+
  then have t: "?h = (r, c', [] @ take 1 tr' @ KDeletePvc ''claim/b'' # drop (Suc 1) tr')"
    using h id_take_nth_drop [of 1 tr'] by simp
  show ?thesis using t disk_removal_safe [OF t] by (intro exI conjI)
qed

text \<open>The flag that reports a pending removal is assigned by each broker: whether the pending removal on broker 0
  is reported depends on the order in which the map is traversed.\<close>

lemma pending_removal_lost:
  "fst (reconcileKafkaPvc disk_kenv sample_mergo [(''0'', [disk ''/a'']), (''1'', [disk ''/a''])] disk_cluster []) = Ret ()"
  "fst (reconcileKafkaPvc disk_kenv sample_mergo [(''1'', [disk ''/a'']), (''0'', [disk ''/a''])] disk_cluster []) \<noteq> Ret ()"
  by code_simp+

lemma delete_claims_result:
  assumes "\<And>tr n. kDeletePvc E tr n = None" "\<forall>(v, cl) \<in> set vs. HasPrefix v kafkaDataVolumeMount"
  shows "fst (delete_claims E vs tr) = (if None \<in> set (map snd vs) then Panic else Ret ())"
  using assms(2)
proof (induction vs arbitrary: tr)
  case (Cons v vs)
  then show ?case by (cases v) (auto simp: assms(1) split: option.splits)
qed simp

text \<open>A service that is already gone stops the removal: the claims and the status of the broker stay.\<close>

lemma missing_service_stops:
  assumes "kDeletePod E tr p = None" "kDeleteConfigMap E (tr @ [KDeletePod p]) n = None" "n = kcName c @ ''-config-'' @ pod_label p BrokerIdLabelKey"
    and "\<not> HeadlessServiceEnabled (kcSpec c)" "\<And>t s. kDeleteService E t s = Some ApiNotFound"
  shows "\<exists>e. delete_broker E c p tr =
    (Err e, c, tr @ [KDeletePod p, KDeleteConfigMap n, KDeleteService (kcName c @ ''-'' @ pod_label p BrokerIdLabelKey)])"
  using assms by (simp add: delete_broker_def delete_config_map_def delete_service_def Let_def)

end
