(* ===== verification/AlertManager.thy ===== *)
theory AlertManager
  imports KafkaStorage
begin

text \<open>
  The alert manager (\<open>internal/alertmanager\<close>: \<open>currentalert\<close> and \<open>dispatcher\<close>) and the changes of a cluster that it asks for
  (\<open>pkg/k8sutil/cr.go\<close>). Alerts are kept in a map from fingerprints, which Prometheus computes; an alert here carries its
  fingerprint and its status. The map is guarded by a lock, so that its operations are atomic steps.

  A claim's text (the field \<open>PvcSpec\<close> of a storage) is built from the access mode and the storage class; quantities are
  integers, and parsing them is the field \<open>kParseQuantity\<close>. A failed \<open>resource.MustParse\<close> is a panic.
\<close>

section \<open>Changes of a cluster (pkg/k8sutil/cr.go)\<close>

definition GetCr :: "kenv \<Rightarrow> string \<Rightarrow> string \<Rightarrow> ktrace \<Rightarrow> (err + KafkaCluster) \<times> ktrace" where
  "GetCr E name ns tr = (case kGetCluster E tr name ns of
     Inl e \<Rightarrow> (Inl (WrapErr ''could not get cr from k8s'' e), tr @ [KGetCluster name ns])
   | Inr c \<Rightarrow> (Inr c, tr @ [KGetCluster name ns]))"

definition UpdateCr :: "kenv \<Rightarrow> KafkaCluster \<Rightarrow> ktrace \<Rightarrow> err option \<times> ktrace" where
  "UpdateCr E c tr = (case kUpdate E tr c of Inl e \<Rightarrow> (Some e, tr @ [KUpdate c]) | Inr c1 \<Rightarrow> (None, tr @ [KUpdate c]))"

definition with_brokers :: "(Broker list \<Rightarrow> Broker list) \<Rightarrow> KafkaCluster \<Rightarrow> KafkaCluster" where
  "with_brokers f c = c\<lparr>kcSpec := (kcSpec c)\<lparr>Brokers := f (Brokers (kcSpec c))\<rparr>\<rparr>"

definition change_cr :: "kenv \<Rightarrow> (Broker list \<Rightarrow> Broker list) \<Rightarrow> string \<Rightarrow> string \<Rightarrow> ktrace \<Rightarrow> err option \<times> ktrace" where
  "change_cr E f crName ns tr = (case GetCr E crName ns tr of
     (Inl e, tr1) \<Rightarrow> (Some e, tr1)
   | (Inr c, tr1) \<Rightarrow> UpdateCr E (with_brokers f c) tr1)"

definition AddNewBrokerToCr :: "kenv \<Rightarrow> Broker \<Rightarrow> string \<Rightarrow> string \<Rightarrow> ktrace \<Rightarrow> err option \<times> ktrace" where
  "AddNewBrokerToCr E b crName ns tr = change_cr E (\<lambda>bs. bs @ [b]) crName ns tr"

definition remove_broker :: "string \<Rightarrow> Broker list \<Rightarrow> Broker list" where
  "remove_broker brokerID bs = filter (\<lambda>b. Itoa (sint (BrokerId b)) \<noteq> brokerID) bs"

definition RemoveBrokerFromCr :: "kenv \<Rightarrow> string \<Rightarrow> string \<Rightarrow> string \<Rightarrow> ktrace \<Rightarrow> err option \<times> ktrace" where
  "RemoveBrokerFromCr E brokerID crName ns tr = change_cr E (remove_broker brokerID) crName ns tr"

definition own_config :: "Broker \<Rightarrow> BrokerConfig" where
  "own_config b = (case brokerBrokerConfig b of None \<Rightarrow> zero_BrokerConfig | Some c \<Rightarrow> c)"

definition add_pv :: "string \<Rightarrow> StorageConfig \<Rightarrow> Broker list \<Rightarrow> Broker list" where
  "add_pv brokerID s bs = map (\<lambda>b. if Itoa (sint (BrokerId b)) = brokerID
     then b\<lparr>brokerBrokerConfig := Some ((own_config b)\<lparr>StorageConfigs := StorageConfigs (own_config b) @ [s]\<rparr>)\<rparr> else b) bs"

definition AddPvToSpecificBroker :: "kenv \<Rightarrow> string \<Rightarrow> string \<Rightarrow> string \<Rightarrow> StorageConfig \<Rightarrow> ktrace \<Rightarrow> err option \<times> ktrace" where
  "AddPvToSpecificBroker E brokerID crName ns s tr = change_cr E (add_pv brokerID s) crName ns tr"

text \<open>The status is written with no new state, so that after a conflict the object that is read again is written back
  unchanged: the error count is lost then.\<close>

definition UpdateCrWithRollingUpgrade :: "kenv \<Rightarrow> int \<Rightarrow> KafkaCluster \<Rightarrow> ktrace \<Rightarrow> err option \<times> KafkaCluster \<times> ktrace" where
  "UpdateCrWithRollingUpgrade E errorCount c tr = write_status E (\<lambda>c. c) (c\<lparr>RollingUpgradeErrorCount := errorCount\<rparr>) tr"

section \<open>Alerts\<close>

type_synonym label_set = "(string, string) gomap"

definition label :: "label_set \<Rightarrow> string \<Rightarrow> string" where
  "label m k = (case map_of m k of None \<Rightarrow> [] | Some v \<Rightarrow> v)"

record AlertState =
  FingerPrint :: nat
  asStatus :: string
  asLabels :: label_set
  asAnnotations :: label_set

record currentAlert =
  alStatus :: string
  alLabels :: label_set
  alAnnotations :: label_set
  Processed :: bool

type_synonym alerts = "(nat, currentAlert) gomap"

definition AddAlert :: "AlertState \<Rightarrow> alerts \<Rightarrow> alerts" where
  "AddAlert a store = (case map_of store (FingerPrint a) of
     None \<Rightarrow> AList.update (FingerPrint a)
       \<lparr>alStatus = asStatus a, alLabels = asLabels a, alAnnotations = asAnnotations a, Processed = False\<rparr> store
   | Some c \<Rightarrow> store)"

definition DeleteAlert :: "nat \<Rightarrow> alerts \<Rightarrow> alerts" where
  "DeleteAlert fp store = AList.delete fp store"

definition AlertGC :: "AlertState \<Rightarrow> alerts \<Rightarrow> alerts" where
  "AlertGC a store = (if asStatus a = ''resolved'' then DeleteAlert (FingerPrint a) store else store)"

definition GetRollingUpgradeAlertCount :: "alerts \<Rightarrow> int" where
  "GetRollingUpgradeAlertCount store =
     int (length (concat (map (\<lambda>(fp, a). filter (\<lambda>(k, v). k = ''rollingupgrade'') (alLabels a)) store)))"

section \<open>Validation (the validators)\<close>

definition AddPvcCommand :: string where "AddPvcCommand = ''addPvc''"
definition DownScaleCommand :: string where "DownScaleCommand = ''downScale''"
definition UpScaleCommand :: string where "UpScaleCommand = ''upScale''"
definition ResizePvcCommand :: string where "ResizePvcCommand = ''resizePvc''"

lemmas command_defs = AddPvcCommand_def DownScaleCommand_def UpScaleCommand_def ResizePvcCommand_def

definition GetCommandList :: "string list" where
  "GetCommandList = [AddPvcCommand, DownScaleCommand, UpScaleCommand, ResizePvcCommand]"

definition checkLabelExists :: "label_set \<Rightarrow> string \<Rightarrow> bool" where
  "checkLabelExists m k \<longleftrightarrow> map_of m k \<noteq> None"

definition validate_command :: "string \<Rightarrow> string \<Rightarrow> currentAlert \<Rightarrow> err option" where
  "validate_command key command a =
     (if \<not> checkLabelExists (alLabels a) key then Some (NewErr (key @ '' label doesn'' @ [CHR 0x27] @ ''t exist''))
      else if label (alAnnotations a) ''command'' \<noteq> command then Some (NewErr ''unsupported command'')
      else None)"

definition addPvcValidator :: "currentAlert \<Rightarrow> err option" where
  "addPvcValidator a = validate_command ''persistentvolumeclaim'' AddPvcCommand a"

definition downScaleValidator :: "currentAlert \<Rightarrow> err option" where
  "downScaleValidator a = validate_command KafkaCRLabelKey DownScaleCommand a"

definition upScaleValidator :: "currentAlert \<Rightarrow> err option" where
  "upScaleValidator a = validate_command KafkaCRLabelKey UpScaleCommand a"

text \<open>\<open>LabelValue.IsValid\<close> asks for valid UTF-8, which an empty value is; the API hands over no other strings.\<close>

definition resizePvcValidator :: "kenv \<Rightarrow> currentAlert \<Rightarrow> err option" where
  "resizePvcValidator E a = (case validate_command ''persistentvolumeclaim'' ResizePvcCommand a of
     Some e \<Rightarrow> Some e
   | None \<Rightarrow> (case kParseQuantity E (label (alAnnotations a) ''incrementBy'') of
       Inl e \<Rightarrow> Some (NewErr ''incrementBy not valid quantity'') | Inr q \<Rightarrow> None))"

definition ValidateAlert :: "err option list \<Rightarrow> err option" where
  "ValidateAlert results = (if length (filter (\<lambda>r. r \<noteq> None) results) > 0 then Some (NewErr ''alert validation failed %v'') else None)"

section \<open>Commands (process.go)\<close>

type_synonym outcome = "(err, unit) go \<times> ktrace"

definition finish :: "err option \<times> ktrace \<Rightarrow> outcome" where
  "finish r = (case r of (Some e, tr) \<Rightarrow> (Err e, tr) | (None, tr) \<Rightarrow> (Ret (), tr))"

definition getPvc :: "kenv \<Rightarrow> string \<Rightarrow> string \<Rightarrow> ktrace \<Rightarrow> (err + AlertPvc) \<times> ktrace" where
  "getPvc E name ns tr = (case kGetPvc E tr name ns of
     Inl e \<Rightarrow> (Inl (WrapErr ''could not get PVC from k8s'' e), tr @ [KGetPvc name ns])
   | Inr p \<Rightarrow> (Inr p, tr @ [KGetPvc name ns]))"

definition pendingOrRunningCCTaskExists :: "kenv \<Rightarrow> label_set \<Rightarrow> string \<Rightarrow> ktrace \<Rightarrow> (err + bool) \<times> ktrace" where
  "pendingOrRunningCCTaskExists E ls ns tr = (case GetCr E (label ls KafkaCRLabelKey) ns tr of
     (Inl e, tr1) \<Rightarrow> (Inl e, tr1)
   | (Inr c, tr1) \<Rightarrow> (Inr (length (GetBrokersWithPendingOrRunningCCTask c) > 0), tr1))"

definition unboundPvcOnNodeExists :: "kenv \<Rightarrow> AlertPvc \<Rightarrow> string \<Rightarrow> ktrace \<Rightarrow> (err + bool) \<times> ktrace" where
  "unboundPvcOnNodeExists E pvc nodeName tr =
     (let cr = label (apLabels pvc) KafkaCRLabelKey; tr1 = tr @ [KListClusterPvcs (apNamespace pvc) cr] in
      (case kListClusterPvcs E tr (apNamespace pvc) cr of
         Inl e \<Rightarrow> (Inl e, tr1)
       | Inr items \<Rightarrow>
           (Inr (\<exists>p \<in> set (filter (\<lambda>p. label (apAnnotations p) ''volume.kubernetes.io/selected-node'' = nodeName) items). apPhase p = ''Pending''), tr1)))"

definition alert_claim :: "string \<Rightarrow> string" where
  "alert_claim storageClass = ''ReadWriteOnce'' @ (if storageClass \<noteq> [] then '','' @ storageClass else [])"

definition addPvc :: "kenv \<Rightarrow> label_set \<Rightarrow> label_set \<Rightarrow> ktrace \<Rightarrow> outcome" where
  "addPvc E labels annotations tr =
     (let ns = label labels ''namespace'' in
      (case getPvc E (label labels ''persistentvolumeclaim'') ns tr of
         (Inl e, tr1) \<Rightarrow> (Err e, tr1)
       | (Inr pvc, tr1) \<Rightarrow>
           (case pendingOrRunningCCTaskExists E (apLabels pvc) ns tr1 of
              (Inl e, tr2) \<Rightarrow> (Err e, tr2)
            | (Inr True, tr2) \<Rightarrow> (Ret (), tr2)
            | (Inr False, tr2) \<Rightarrow>
                (case unboundPvcOnNodeExists E pvc (label labels ''node'') tr2 of
                   (Inl e, tr3) \<Rightarrow> (Err e, tr3)
                 | (Inr True, tr3) \<Rightarrow> (Ret (), tr3)
                 | (Inr False, tr3) \<Rightarrow>
                     (case kRandomString E tr3 of
                        Inl e \<Rightarrow> (Err e, tr3)
                      | Inr rnd \<Rightarrow>
                          (case kParseQuantity E (label annotations ''diskSize'') of
                             Inl e \<Rightarrow> (Panic, tr3)
                           | Inr storage \<Rightarrow>
                               finish (AddPvToSpecificBroker E (label (apLabels pvc) ''brokerId'') (label (apLabels pvc) KafkaCRLabelKey) ns
                                 \<lparr>MountPath = label annotations ''mountPathPrefix'' @ ''-'' @ rnd,
                                  PvcSpec = Some (alert_claim (label annotations ''storageClass'')), PvcStorage = storage, EmptyDir = None\<rparr> tr3)))))))"

text \<open>The storage of one broker: the configured storage at the mount path, enlarged, replaces the broker's own one there or
  is appended to them.\<close>

fun put_storage :: "string \<Rightarrow> StorageConfig \<Rightarrow> StorageConfig list \<Rightarrow> StorageConfig list" where
  "put_storage path s [] = [s]"
| "put_storage path s (c # cs) = (if MountPath c = path then s # cs else c # put_storage path s cs)"

fun resize_storages :: "string \<Rightarrow> int \<Rightarrow> StorageConfig list \<Rightarrow> BrokerConfig option \<Rightarrow> (err, BrokerConfig option) go" where
  "resize_storages path incr [] own = Ret own"
| "resize_storages path incr (c # cs) own =
     (if MountPath c \<noteq> path then resize_storages path incr cs own
      else if PvcSpec c = None then Panic
      else
        let cfg = (case own of None \<Rightarrow> zero_BrokerConfig | Some b \<Rightarrow> b) in
        resize_storages path incr cs
          (Some (cfg\<lparr>StorageConfigs := put_storage path (c\<lparr>PvcStorage := PvcStorage c + incr\<rparr>) (StorageConfigs cfg)\<rparr>)))"

fun resize_brokers :: "mergo \<Rightarrow> KafkaClusterSpec \<Rightarrow> string \<Rightarrow> string \<Rightarrow> int \<Rightarrow> Broker list \<Rightarrow> (err, Broker list) go" where
  "resize_brokers M spec brokerID path incr [] = Ret []"
| "resize_brokers M spec brokerID path incr (b # bs) =
     (case (if Itoa (sint (BrokerId b)) \<noteq> brokerID then Ret b
            else (case GetBrokerConfig M b spec of
                    Inl e \<Rightarrow> Err (WrapErr ''failed to determine broker config'' e)
                  | Inr None \<Rightarrow> Panic
                  | Inr (Some cfg) \<Rightarrow>
                      (case resize_storages path incr (StorageConfigs cfg) (brokerBrokerConfig b) of
                         Panic \<Rightarrow> Panic
                       | Err e \<Rightarrow> Err e
                       | Ret own \<Rightarrow> Ret (b\<lparr>brokerBrokerConfig := own\<rparr>)))) of
        Panic \<Rightarrow> Panic
      | Err e \<Rightarrow> Err e
      | Ret b' \<Rightarrow>
          (case resize_brokers M spec brokerID path incr bs of
             Panic \<Rightarrow> Panic | Err e \<Rightarrow> Err e | Ret bs' \<Rightarrow> Ret (b' # bs')))"

definition resizePvc :: "kenv \<Rightarrow> mergo \<Rightarrow> label_set \<Rightarrow> label_set \<Rightarrow> ktrace \<Rightarrow> outcome" where
  "resizePvc E M labels annotations tr =
     (let ns = label labels ''namespace'' in
      (case getPvc E (label labels ''persistentvolumeclaim'') ns tr of
         (Inl e, tr1) \<Rightarrow> (Err e, tr1)
       | (Inr pvc, tr1) \<Rightarrow>
           (case GetCr E (label (apLabels pvc) KafkaCRLabelKey) ns tr1 of
              (Inl e, tr2) \<Rightarrow> (Err e, tr2)
            | (Inr c, tr2) \<Rightarrow>
                (case kParseQuantity E (label annotations ''incrementBy'') of
                   Inl e \<Rightarrow> (Err e, tr2)
                 | Inr incr \<Rightarrow>
                     (case resize_brokers M (kcSpec c) (label (apLabels pvc) ''brokerId'') (label (apAnnotations pvc) ''mountPath'') incr
                             (Brokers (kcSpec c)) of
                        Panic \<Rightarrow> (Panic, tr2)
                      | Err e \<Rightarrow> (Err e, tr2)
                      | Ret bs \<Rightarrow> finish (UpdateCr E (with_brokers (\<lambda>_. bs) c) tr2))))))"

text \<open>The broker to remove comes from the alert, or from a scaler whose method is missing (see \<open>Scaler\<close>).\<close>

definition downScale :: "kenv \<Rightarrow> label_set \<Rightarrow> ktrace \<Rightarrow> outcome" where
  "downScale E labels tr =
     (let crName = label labels KafkaCRLabelKey; ns = label labels ''namespace'' in
      (case GetCr E crName ns tr of
         (Inl e, tr1) \<Rightarrow> (Err e, tr1)
       | (Inr c, tr1) \<Rightarrow>
           if length (GetBrokersWithPendingOrRunningCCTask c) > 0 then (Ret (), tr1)
           else
             (case map_of labels ''brokerId'' of
                Some brokerID \<Rightarrow> finish (RemoveBrokerFromCr E brokerID crName ns tr1)
              | None \<Rightarrow>
                  (case kScaleFactory E tr1 of
                     Some e \<Rightarrow> (Err (WrapErr ''failed to initialize Cruise Control Scaler'' e), tr1 @ [KScaleFactory])
                   | None \<Rightarrow>
                       (case BrokerWithLeastPartitionReplicas None of
                          Panic \<Rightarrow> (Panic, tr1 @ [KScaleFactory])
                        | Err e \<Rightarrow> (Err e, tr1 @ [KScaleFactory])
                        | Ret brokerID \<Rightarrow> finish (RemoveBrokerFromCr E brokerID crName ns (tr1 @ [KScaleFactory])))))))"

fun biggest_id :: "Broker list \<Rightarrow> 32 word \<Rightarrow> 32 word" where
  "biggest_id [] n = n"
| "biggest_id (b # bs) n = biggest_id bs (if n <s BrokerId b then BrokerId b else n)"

text \<open>The new broker: of a configuration group, or built from the annotations of the alert.\<close>

definition new_broker :: "kenv \<Rightarrow> label_set \<Rightarrow> KafkaCluster \<Rightarrow> (err, Broker) go" where
  "new_broker E annotations c =
     (let newId = biggest_id (Brokers (kcSpec c)) 0 + 1; group = label annotations ''brokerConfigGroup'' in
      if map_of (BrokerConfigGroups (kcSpec c)) group \<noteq> None
      then Ret \<lparr>BrokerId = newId, BrokerConfigGroup = group, ReadOnlyConfig = [], brokerBrokerConfig = None\<rparr>
      else
        let raw = label annotations ''brokerAnnotations'';
            brokerAnnotations = (if length raw > 0 then snd (kUnmarshalAnnotations E raw) else []) in
        (case kParseQuantity E (label annotations ''diskSize'') of
           Inl e \<Rightarrow> Panic
         | Inr storage \<Rightarrow>
             Ret \<lparr>BrokerId = newId, BrokerConfigGroup = [], ReadOnlyConfig = [],
               brokerBrokerConfig = Some (zero_BrokerConfig\<lparr>bcImage := label annotations ''image'',
                 StorageConfigs := [\<lparr>MountPath = label annotations ''mountPath'',
                   PvcSpec = Some (alert_claim (label annotations ''storageClass'')), PvcStorage = storage, EmptyDir = None\<rparr>],
                 BrokerAnnotations := brokerAnnotations\<rparr>)\<rparr>))"

definition upScale :: "kenv \<Rightarrow> label_set \<Rightarrow> label_set \<Rightarrow> ktrace \<Rightarrow> outcome" where
  "upScale E labels annotations tr =
     (let crName = label labels KafkaCRLabelKey; ns = label labels ''namespace'' in
      (case GetCr E crName ns tr of
         (Inl e, tr1) \<Rightarrow> (Err e, tr1)
       | (Inr c, tr1) \<Rightarrow>
           if length (GetBrokersWithPendingOrRunningCCTask c) > 0 then (Ret (), tr1)
           else
             (case new_broker E annotations c of
                Panic \<Rightarrow> (Panic, tr1)
              | Err e \<Rightarrow> (Err e, tr1)
              | Ret b \<Rightarrow> finish (AddNewBrokerToCr E b crName ns tr1))))"

section \<open>Examining an alert\<close>

record disableScaling =
  Up :: bool
  Down :: bool

definition getKafkaCr :: "kenv \<Rightarrow> currentAlert \<Rightarrow> ktrace \<Rightarrow> (err + KafkaCluster option) \<times> ktrace" where
  "getKafkaCr E a tr =
     (let ns = label (alLabels a) ''namespace'';
          get = \<lambda>name tr. (case GetCr E name ns tr of (Inl e, tr1) \<Rightarrow> (Inl e, tr1) | (Inr c, tr1) \<Rightarrow> (Inr (Some c), tr1)) in
      (case map_of (alLabels a) KafkaCRLabelKey of
         Some kafkaCr \<Rightarrow> get kafkaCr tr
       | None \<Rightarrow>
           (case map_of (alLabels a) ''persistentvolumeclaim'' of
              None \<Rightarrow> (Inr None, tr)
            | Some claim \<Rightarrow>
                (case getPvc E claim ns tr of
                   (Inl e, tr1) \<Rightarrow> (Inl e, tr1)
                 | (Inr pvc, tr1) \<Rightarrow>
                     (case map_of (apLabels pvc) KafkaCRLabelKey of
                        Some kafkaCr \<Rightarrow> get kafkaCr tr1
                      | None \<Rightarrow> (Inl (NewErr (''persistentvolumeclaim doesn'' @ [CHR 0x27] @ ''t contain kafka_cr label'')), tr1))))))"

text \<open>Running a command that passed its validation.\<close>

definition processed :: "err option \<Rightarrow> (ktrace \<Rightarrow> outcome) \<Rightarrow> ktrace \<Rightarrow> (err, bool) go \<times> ktrace" where
  "processed invalid command tr = (case invalid of
     Some e \<Rightarrow> (Err e, tr)
   | None \<Rightarrow> (case command tr of (Panic, tr1) \<Rightarrow> (Panic, tr1) | (Err e, tr1) \<Rightarrow> (Err e, tr1) | (Ret u, tr1) \<Rightarrow> (Ret True, tr1)))"

definition processAlert :: "kenv \<Rightarrow> mergo \<Rightarrow> currentAlert \<Rightarrow> disableScaling \<Rightarrow> ktrace \<Rightarrow> (err, bool) go \<times> ktrace" where
  "processAlert E M a ds tr =
     (let command = label (alAnnotations a) ''command'' in
      if command = AddPvcCommand then processed (ValidateAlert [addPvcValidator a]) (addPvc E (alLabels a) (alAnnotations a)) tr
      else if command = ResizePvcCommand then processed (ValidateAlert [resizePvcValidator E a]) (resizePvc E M (alLabels a) (alAnnotations a)) tr
      else if command = DownScaleCommand
      then (case ValidateAlert [downScaleValidator a] of
              Some e \<Rightarrow> (Err e, tr)
            | None \<Rightarrow> if Down ds then (Ret False, tr) else processed None (downScale E (alLabels a)) tr)
      else if command = UpScaleCommand
      then (case ValidateAlert [upScaleValidator a] of
              Some e \<Rightarrow> (Err e, tr)
            | None \<Rightarrow> if Up ds then (Ret False, tr) else processed None (upScale E (alLabels a) (alAnnotations a)) tr)
      else if command = ''testing'' then (Ret True, tr)
      else (Ret False, tr))"

definition scaling_limits :: "KafkaCluster \<Rightarrow> disableScaling" where
  "scaling_limits c = (case specAlertManagerConfig (kcSpec c) of
     None \<Rightarrow> \<lparr>Up = False, Down = False\<rparr>
   | Some cfg \<Rightarrow>
       let n = int (length (Brokers (kcSpec c))) in
       \<lparr>Up = (UpScaleLimit cfg > 0 \<and> n \<ge> UpScaleLimit cfg), Down = (n \<le> DownScaleLimit cfg)\<rparr>)"

definition KafkaClusterRunning :: string where "KafkaClusterRunning = ''ClusterRunning''"

definition examineAlert :: "kenv \<Rightarrow> mergo \<Rightarrow> currentAlert \<Rightarrow> int \<Rightarrow> ktrace \<Rightarrow> (err, bool) go \<times> ktrace" where
  "examineAlert E M a rollingUpgradeAlertCount tr = (case getKafkaCr E a tr of
     (Inl e, tr1) \<Rightarrow> (Err e, tr1)
   | (Inr None, tr1) \<Rightarrow> (Err (NewErr ''kafkaCR is nil''), tr1)
   | (Inr (Some c), tr1) \<Rightarrow>
       (case UpdateCrWithRollingUpgrade E rollingUpgradeAlertCount c tr1 of
          (Some e, c1, tr2) \<Rightarrow> (Err e, tr2)
        | (None, c1, tr2) \<Rightarrow>
            if ClusterState c1 \<noteq> KafkaClusterRunning then (Ret False, tr2)
            else processAlert E M a (scaling_limits c1) tr2))"

definition HandleAlert :: "kenv \<Rightarrow> mergo \<Rightarrow> nat \<Rightarrow> int \<Rightarrow> alerts \<Rightarrow> ktrace \<Rightarrow> (err, currentAlert) go \<times> alerts \<times> ktrace" where
  "HandleAlert E M fp upgrades store tr = (case map_of store fp of
     None \<Rightarrow> (Err (NewErr (''alert doesn'' @ [CHR 0x27] @ ''t exist'')), store, tr)
   | Some a \<Rightarrow>
       if Processed a then (Ret a, store, tr)
       else (case examineAlert E M a upgrades tr of
               (Panic, tr1) \<Rightarrow> (Panic, store, tr1)
             | (Err e, tr1) \<Rightarrow> (Err e, store, tr1)
             | (Ret handled, tr1) \<Rightarrow>
                 let a1 = a\<lparr>Processed := handled\<rparr> in (Ret a1, AList.update fp a1 store, tr1)))"

section \<open>The dispatcher (dispatcher.go)\<close>

definition alertFilter :: "AlertState list \<Rightarrow> AlertState list" where
  "alertFilter promAlerts = concat (map (\<lambda>a. case map_of (asAnnotations a) ''command'' of
     None \<Rightarrow> [] | Some annotation \<Rightarrow> map (\<lambda>_. a) (filter (\<lambda>command. annotation = command) GetCommandList)) promAlerts)"

fun store_alerts :: "AlertState list \<Rightarrow> alerts \<Rightarrow> alerts" where
  "store_alerts [] store = store"
| "store_alerts (a # as) store = store_alerts as (AlertGC a (AddAlert a store))"

text \<open>An error of one alert is logged; a panic ends the dispatcher.\<close>

fun handle_alerts :: "kenv \<Rightarrow> mergo \<Rightarrow> int \<Rightarrow> nat list \<Rightarrow> alerts \<Rightarrow> ktrace \<Rightarrow> bool \<times> alerts \<times> ktrace" where
  "handle_alerts E M upgrades [] store tr = (True, store, tr)"
| "handle_alerts E M upgrades (fp # fps) store tr = (case HandleAlert E M fp upgrades store tr of
     (Panic, store1, tr1) \<Rightarrow> (False, store1, tr1)
   | (Err e, store1, tr1) \<Rightarrow> handle_alerts E M upgrades fps store1 tr1
   | (Ret a, store1, tr1) \<Rightarrow> handle_alerts E M upgrades fps store1 tr1)"

definition Dispatcher :: "kenv \<Rightarrow> mergo \<Rightarrow> AlertState list \<Rightarrow> alerts \<Rightarrow> ktrace \<Rightarrow> bool \<times> alerts \<times> ktrace" where
  "Dispatcher E M promAlerts store tr =
     (let store1 = store_alerts (alertFilter promAlerts) store in
      handle_alerts E M (GetRollingUpgradeAlertCount store1) (map fst store1) store1 tr)"

section \<open>Lemmas\<close>

text \<open>A spec that a command writes: a cluster that was read, with its brokers changed.\<close>

definition read_cluster :: "kenv \<Rightarrow> KafkaCluster \<Rightarrow> bool" where
  "read_cluster E c \<longleftrightarrow> (\<exists>tr n ns. kGetCluster E tr n ns = Inr c)"

definition spec_updates :: "ktrace \<Rightarrow> KafkaCluster set" where
  "spec_updates tr = {c. KUpdate c \<in> set tr}"

lemma spec_updates_simps [simp]:
  "spec_updates [] = {}" "spec_updates (tr @ tr') = spec_updates tr \<union> spec_updates tr'"
  "spec_updates (ev # tr) = (case ev of KUpdate c \<Rightarrow> {c} | _ \<Rightarrow> {}) \<union> spec_updates tr"
  by (auto simp: spec_updates_def split: kevent.split)

lemma GetCr_read: "GetCr E n ns tr = (Inr c, tr') \<Longrightarrow> read_cluster E c"
  by (auto simp: GetCr_def read_cluster_def split: sum.splits)

lemma GetCr_trace: "GetCr E n ns tr = (x, tr') \<Longrightarrow> tr' = tr @ [KGetCluster n ns]"
  by (auto simp: GetCr_def split: sum.splits)

lemma getPvc_trace: "getPvc E n ns tr = (x, tr') \<Longrightarrow> tr' = tr @ [KGetPvc n ns]"
  by (auto simp: getPvc_def split: sum.splits)

definition updates_in :: "KafkaCluster set \<Rightarrow> ktrace \<Rightarrow> ktrace \<Rightarrow> bool" where
  "updates_in S tr tr' \<longleftrightarrow> (\<exists>new. tr' = tr @ new \<and> spec_updates new \<subseteq> S)"

lemma updates_in_append [simp]: "updates_in S tr (tr @ new) \<longleftrightarrow> spec_updates new \<subseteq> S"
  by (auto simp: updates_in_def)

lemma updates_in_self [simp]: "updates_in S tr tr"
  by (auto simp: updates_in_def intro: exI [of _ "[]"])

lemma updates_in_later: "updates_in S (tr @ p) tr' \<Longrightarrow> spec_updates p \<subseteq> S \<Longrightarrow> updates_in S tr tr'"
  by (auto simp: updates_in_def)

definition changed :: "kenv \<Rightarrow> (Broker list \<Rightarrow> Broker list) \<Rightarrow> KafkaCluster set" where
  "changed E f = with_brokers f ` Collect (read_cluster E)"

lemma finish_change:
  assumes "finish (change_cr E f n ns (tr @ p)) = (x, tr')" "spec_updates p \<subseteq> S" "changed E f \<subseteq> S"
  shows "updates_in S tr tr'"
proof (rule updates_in_later [OF _ assms(2)])
  obtain y tr1 where g: "GetCr E n ns (tr @ p) = (y, tr1)" by fastforce
  show "updates_in S (tr @ p) tr'"
    using assms(1,3) g GetCr_trace [OF g] GetCr_read [of E n ns "tr @ p"]
    by (cases y) (auto simp: change_cr_def UpdateCr_def finish_def changed_def updates_in_def split: sum.splits)
qed

lemma addPvc_updates: "addPvc E ls as tr = (x, tr') \<Longrightarrow> updates_in (\<Union>i s. changed E (add_pv i s)) tr tr'"
  by (auto simp: addPvc_def pendingOrRunningCCTaskExists_def unboundPvcOnNodeExists_def AddPvToSpecificBroker_def Let_def
      dest!: GetCr_trace getPvc_trace elim!: finish_change split: sum.splits prod.splits bool.splits) blast

lemma upScale_updates: "upScale E ls as tr = (x, tr') \<Longrightarrow> updates_in (\<Union>b. changed E (\<lambda>bs. bs @ [b])) tr tr'"
  by (auto simp: upScale_def AddNewBrokerToCr_def Let_def
      dest!: GetCr_trace elim!: finish_change split: sum.splits prod.splits go.splits if_splits)

lemma downScale_updates: "downScale E ls tr = (x, tr') \<Longrightarrow> updates_in (\<Union>i. changed E (remove_broker i)) tr tr'"
  by (auto simp: downScale_def RemoveBrokerFromCr_def BrokerWithLeastPartitionReplicas_def Let_def
      dest!: GetCr_trace elim!: finish_change split: sum.splits prod.splits option.splits if_splits)

text \<open>Resizing keeps the brokers, their ids and everything but their own configuration.\<close>

definition resized :: "kenv \<Rightarrow> KafkaCluster set" where
  "resized E = {with_brokers (\<lambda>_. bs) c | bs c. read_cluster E c \<and>
     map (\<lambda>b. b\<lparr>brokerBrokerConfig := None\<rparr>) bs = map (\<lambda>b. b\<lparr>brokerBrokerConfig := None\<rparr>) (Brokers (kcSpec c))}"

lemma resize_brokers_frame:
  "resize_brokers M spec i path incr bs = Ret bs' \<Longrightarrow>
     map (\<lambda>b. b\<lparr>brokerBrokerConfig := None\<rparr>) bs' = map (\<lambda>b. b\<lparr>brokerBrokerConfig := None\<rparr>) bs"
  by (induction bs arbitrary: bs') (auto split: if_splits sum.splits option.splits go.splits)

lemma resizedI:
  assumes "read_cluster E c" "resize_brokers M spec i path incr (Brokers (kcSpec c)) = Ret bs"
  shows "with_brokers (\<lambda>_. bs) c \<in> resized E"
  unfolding resized_def using assms(1) resize_brokers_frame [OF assms(2)] by blast

lemma resizePvc_updates: "resizePvc E M ls as tr = (x, tr') \<Longrightarrow> updates_in (resized E) tr tr'"
proof -
  assume a: "resizePvc E M ls as tr = (x, tr')"
  obtain y tr1 where p: "getPvc E (label ls ''persistentvolumeclaim'') (label ls ''namespace'') tr = (y, tr1)" by fastforce
  show ?thesis
  proof (cases y)
    case (Inl e)
    then show ?thesis using a p getPvc_trace [OF p] by (auto simp: resizePvc_def Let_def)
  next
    case (Inr pvc)
    obtain z tr2 where g: "GetCr E (label (apLabels pvc) KafkaCRLabelKey) (label ls ''namespace'') tr1 = (z, tr2)" by fastforce
    show ?thesis
    proof (cases z)
      case (Inl e)
      then show ?thesis using a p g Inr getPvc_trace [OF p] GetCr_trace [OF g] by (auto simp: resizePvc_def Let_def)
    next
      case c: (Inr c)
      then have "read_cluster E c" using g GetCr_read by blast
      then show ?thesis using a p g Inr c getPvc_trace [OF p] GetCr_trace [OF g]
        by (auto simp: resizePvc_def Let_def UpdateCr_def finish_def dest: resizedI split: sum.splits go.splits)
    qed
  qed
qed

text \<open>What the command of an alert may write to the spec of a cluster.\<close>

definition command_updates :: "kenv \<Rightarrow> string \<Rightarrow> disableScaling \<Rightarrow> KafkaCluster set" where
  "command_updates E command ds =
     (if command = ''addPvc'' then \<Union>i s. changed E (add_pv i s)
      else if command = ''resizePvc'' then resized E
      else if command = ''downScale'' \<and> \<not> Down ds then \<Union>i. changed E (remove_broker i)
      else if command = ''upScale'' \<and> \<not> Up ds then \<Union>b. changed E (\<lambda>bs. bs @ [b])
      else {})"

lemma processed_trace: "processed invalid command tr = (r, tr') \<Longrightarrow> tr' = tr \<or> (\<exists>x. command tr = (x, tr'))"
  by (auto simp: processed_def split: option.splits go.splits prod.splits)

lemma processAlert_updates:
  assumes "processAlert E M a ds tr = (r, tr')"
  shows "updates_in (command_updates E (label (alAnnotations a) ''command'') ds) tr tr'"
proof -
  let ?c = "label (alAnnotations a) ''command''"
  consider "tr' = tr"
    | x where "?c = ''addPvc''" "addPvc E (alLabels a) (alAnnotations a) tr = (x, tr')"
    | x where "?c = ''resizePvc''" "resizePvc E M (alLabels a) (alAnnotations a) tr = (x, tr')"
    | x where "?c = ''downScale''" "\<not> Down ds" "downScale E (alLabels a) tr = (x, tr')"
    | x where "?c = ''upScale''" "\<not> Up ds" "upScale E (alLabels a) (alAnnotations a) tr = (x, tr')"
    using assms unfolding processAlert_def Let_def command_defs
    by (auto dest!: processed_trace split: if_splits option.splits)
  then show ?thesis
    by cases (auto simp: command_updates_def dest: addPvc_updates resizePvc_updates downScale_updates upScale_updates)
qed

section \<open>Properties\<close>

text \<open>The API serves the status of a cluster that it serves; a write may still fail, but not as not found.\<close>

definition status_served :: "kenv \<Rightarrow> bool" where
  "status_served E \<longleftrightarrow> (\<forall>tr c e. kStatusUpdate E tr c = Inl e \<longrightarrow> \<not> IsNotFound e)"

lemma status_or_update_updates:
  assumes "status_served E" "status_or_update E c tr = (r, c', tr')"
  shows "updates_in {} tr tr'"
  using assms by (auto simp: status_served_def status_or_update_def kcall_def split: sum.splits if_splits)

lemma write_status_updates:
  assumes "status_served E" "write_status E f c tr = (r, c', tr')"
  shows "updates_in {} tr tr'"
proof -
  obtain r1 c1 tr1 where w: "status_or_update E (f c) tr = (r1, c1, tr1)" by (metis prod_cases3)
  obtain p where p: "tr1 = tr @ p" "spec_updates p = {}" using status_or_update_updates [OF assms(1) w] by (auto simp: updates_in_def)
  have "updates_in {} tr tr'"
    if "status_or_update E c2 (tr @ p @ [KGetCluster m ns]) = (r2, c3, tr')" for m ns c2 r2 c3
    using updates_in_later [OF status_or_update_updates [OF assms(1) that]] p(2) by simp
  then show ?thesis using assms(2) w p
    by (auto simp: write_status_def Let_def split: option.splits sum.splits if_splits prod.splits)
qed

lemma getKafkaCr_updates: "getKafkaCr E a tr = (r, tr') \<Longrightarrow> updates_in {} tr tr'"
  by (auto simp: getKafkaCr_def Let_def dest!: GetCr_trace getPvc_trace split: option.splits sum.splits prod.splits)

lemma updates_in_trans: "updates_in {} tr tr1 \<Longrightarrow> updates_in S tr1 tr2 \<Longrightarrow> updates_in S tr tr2"
  by (auto simp: updates_in_def)

text \<open>The cluster as the status write before the command left it: its limits and its state decide.\<close>

definition examined :: "kenv \<Rightarrow> int \<Rightarrow> KafkaCluster \<Rightarrow> bool" where
  "examined E n c \<longleftrightarrow> (\<exists>c0 tr tr'. UpdateCrWithRollingUpgrade E n c0 tr = (None, c, tr'))"

definition update_permitted :: "kenv \<Rightarrow> string \<Rightarrow> KafkaCluster \<Rightarrow> KafkaCluster \<Rightarrow> bool" where
  "update_permitted E command seen c \<longleftrightarrow> ClusterState seen = ''ClusterRunning'' \<and> (\<exists>base. read_cluster E base \<and>
     (command = ''addPvc'' \<and> (\<exists>i s. c = with_brokers (add_pv i s) base) \<or>
      command = ''resizePvc'' \<and> (\<exists>bs. c = with_brokers (\<lambda>_. bs) base \<and> map BrokerId bs = map BrokerId (Brokers (kcSpec base))) \<or>
      command = ''downScale'' \<and> (\<exists>i. c = with_brokers (remove_broker i) base) \<and>
        (\<forall>cfg. specAlertManagerConfig (kcSpec seen) = Some cfg \<longrightarrow> DownScaleLimit cfg < int (length (Brokers (kcSpec seen)))) \<or>
      command = ''upScale'' \<and> (\<exists>b. c = with_brokers (\<lambda>bs. bs @ [b]) base) \<and>
        (\<forall>cfg. specAlertManagerConfig (kcSpec seen) = Some cfg \<and> 0 < UpScaleLimit cfg \<longrightarrow>
           int (length (Brokers (kcSpec seen))) < UpScaleLimit cfg)))"

lemma command_updates_permitted:
  assumes "c \<in> command_updates E command (scaling_limits seen)" "ClusterState seen = ''ClusterRunning''"
  shows "update_permitted E command seen c"
proof -
  have ids: "map BrokerId bs = map BrokerId bs'"
    if "map (\<lambda>b. b\<lparr>brokerBrokerConfig := None\<rparr>) bs = map (\<lambda>b. b\<lparr>brokerBrokerConfig := None\<rparr>) bs'" for bs bs'
    using arg_cong [OF that, of "map BrokerId"] by (simp add: comp_def)
  show ?thesis
    using assms ids
    by (auto simp: command_updates_def update_permitted_def changed_def resized_def scaling_limits_def Let_def split: if_splits option.splits)
qed


lemma biggest_id_bound:
  "sint n \<le> sint (biggest_id bs n) \<and> (\<forall>b \<in> set bs. sint (BrokerId b) \<le> sint (biggest_id bs n)) \<and>
   (biggest_id bs n = n \<or> (\<exists>b \<in> set bs. biggest_id bs n = BrokerId b))"
proof (induction bs arbitrary: n)
  case (Cons b bs)
  show ?case using Cons.IH [of "if n <s BrokerId b then BrokerId b else n"] by (auto simp: word_sless_alt split: if_splits)
qed simp

lemma sint_Suc: "sint (w :: 32 word) < 2147483647 \<Longrightarrow> sint (w + 1) = sint w + 1"
proof -
  assume "sint w < 2147483647"
  moreover have "- 2147483648 \<le> sint w" using sint_ge [of w] by simp
  ultimately show ?thesis by (simp add: sint_word_ariths signed_take_bit_int_eq_self)
qed

text \<open>
  Upscaling by an alert. When the cluster reads the same throughout, has no pending or running Cruise Control task, and
  its broker ids are not negative and below the largest 32-bit integer, an upscale that succeeds writes the cluster exactly
  once, with one broker appended, whose id is one more than the largest id in use (or than 0) and so is used by no broker.
\<close>

theorem upscale_adds_fresh_broker:
  assumes "\<And>tr. kGetCluster E tr (label ls ''kafka_cr'') (label ls ''namespace'') = Inr c"
    and "GetBrokersWithPendingOrRunningCCTask c = []"
    and "\<And>b. b \<in> set (Brokers (kcSpec c)) \<Longrightarrow> 0 \<le> sint (BrokerId b) \<and> sint (BrokerId b) < 2147483647"
    and "upScale E ls as tr = (Ret (), tr')"
  shows "\<exists>b new. tr' = tr @ new @ [KUpdate (with_brokers (\<lambda>bs. bs @ [b]) c)] \<and> spec_updates new = {} \<and>
    sint (BrokerId b) = 1 + Lattices_Big.linorder_class.Max (insert 0 ((\<lambda>b. sint (BrokerId b)) ` set (Brokers (kcSpec c)))) \<and>
    BrokerId b \<notin> BrokerId ` set (Brokers (kcSpec c))"
proof -
  let ?bs = "Brokers (kcSpec c)" and ?ids = "(\<lambda>b. sint (BrokerId b)) ` set (Brokers (kcSpec c))"
  let ?g = "KGetCluster (label ls ''kafka_cr'') (label ls ''namespace'')"
  have get: "GetCr E (label ls ''kafka_cr'') (label ls ''namespace'') q = (Inr c, q @ [?g])" for q by (simp add: GetCr_def assms(1))
  obtain b where b: "new_broker E as c = Ret b" and tr': "tr' = tr @ [?g, ?g] @ [KUpdate (with_brokers (\<lambda>bs. bs @ [b]) c)]"
    using assms(2,4) get
    by (auto simp: upScale_def KafkaCRLabelKey_def AddNewBrokerToCr_def change_cr_def UpdateCr_def finish_def Let_def split: go.splits sum.splits)
  have id: "BrokerId b = biggest_id ?bs 0 + 1" using b by (auto simp: new_broker_def Let_def split: if_splits sum.splits)
  have big: "0 \<le> sint (biggest_id ?bs 0)" "\<And>x. x \<in> ?ids \<Longrightarrow> x \<le> sint (biggest_id ?bs 0)"
    "sint (biggest_id ?bs 0) \<in> insert 0 ?ids"
    using biggest_id_bound [of 0 ?bs] by auto
  have "Lattices_Big.linorder_class.Max (insert 0 ?ids) = sint (biggest_id ?bs 0)" by (rule Lattices_Big.linorder_class.Max_eqI) (use big in auto)
  moreover have "sint (biggest_id ?bs 0) < 2147483647" using big(3) assms(3) by auto
  ultimately have "sint (BrokerId b) = 1 + Lattices_Big.linorder_class.Max (insert 0 ?ids)" by (simp add: id sint_Suc)
  moreover have "BrokerId b \<notin> BrokerId ` set ?bs"
  proof
    assume "BrokerId b \<in> BrokerId ` set ?bs"
    then have "sint (BrokerId b) \<le> Lattices_Big.linorder_class.Max (insert 0 ?ids)" by (intro Lattices_Big.linorder_class.Max_ge) auto
    with calculation show False by simp
  qed
  ultimately show ?thesis using tr' by (intro exI [of _ b] exI [of _ "[?g, ?g]"]) auto
qed

definition scale_alert :: "string \<Rightarrow> currentAlert" where
  "scale_alert command = \<lparr>alStatus = ''firing'', alLabels = [(''kafka_cr'', ''kafka''), (''namespace'', ''ns''), (''brokerId'', ''1'')],
     alAnnotations = [(''command'', command), (''mountPath'', ''/logs''), (''diskSize'', ''10Gi'')], Processed = False\<rparr>"

definition limited_cluster :: "int \<Rightarrow> int \<Rightarrow> KafkaCluster" where
  "limited_cluster lower upper = kafka_cluster\<lparr>kcSpec := (kcSpec kafka_cluster)\<lparr>specAlertManagerConfig :=
     Some \<lparr>DownScaleLimit = lower, UpScaleLimit = upper\<rparr>\<rparr>\<rparr>"

definition alert_env :: "int \<Rightarrow> int \<Rightarrow> kenv" where
  "alert_env lower upper = sample_kenv\<lparr>kStatusUpdate := \<lambda>tr c. Inr c, kGetCluster := \<lambda>tr n ns. Inr (limited_cluster lower upper)\<rparr>"

lemma alert_env_served: "status_served (alert_env l u)"
  by (simp add: status_served_def alert_env_def)

theorem upscale_adds_fresh_broker_witness:
  "\<exists>b new. snd (upScale (alert_env 1 5) (alLabels (scale_alert ''upScale'')) (alAnnotations (scale_alert ''upScale'')) []) =
      [] @ new @ [KUpdate (with_brokers (\<lambda>bs. bs @ [b]) (limited_cluster 1 5))] \<and> sint (BrokerId b) = 2"
proof -
  let ?r = "upScale (alert_env 1 5) (alLabels (scale_alert ''upScale'')) (alAnnotations (scale_alert ''upScale'')) []"
  have "fst ?r = Ret ()" by code_simp
  then have r: "?r = (Ret (), snd ?r)" by (metis prod.collapse)
  have c: "kGetCluster (alert_env 1 5) tr n ns = Inr (limited_cluster 1 5)" for tr n ns by (simp add: alert_env_def)
  have p: "GetBrokersWithPendingOrRunningCCTask (limited_cluster 1 5) = []" by code_simp
  have bs: "Brokers (kcSpec (limited_cluster 1 5)) = sample_brokers" by (simp add: limited_cluster_def kafka_cluster_def)
  have i: "0 \<le> sint (BrokerId b) \<and> sint (BrokerId b) < 2147483647" if "b \<in> set (Brokers (kcSpec (limited_cluster 1 5)))" for b
    using that unfolding bs by (auto simp: sample_brokers_def)
  from upscale_adds_fresh_broker [OF c p i r] show ?thesis unfolding bs by (fastforce simp: sample_brokers_def)
qed


section \<open>The store of alerts\<close>

text \<open>Fingerprints are unique, and every stored alert has a command that is supported.\<close>

definition alerts_ok :: "alerts \<Rightarrow> bool" where
  "alerts_ok store \<longleftrightarrow> distinct (map fst store) \<and> (\<forall>fp a. map_of store fp = Some a \<longrightarrow> label (alAnnotations a) ''command'' \<in> set GetCommandList)"

definition same_alert :: "currentAlert \<Rightarrow> currentAlert \<Rightarrow> bool" where
  "same_alert a a' \<longleftrightarrow> a' = a \<or> \<not> Processed a \<and> (\<exists>p. a' = a\<lparr>Processed := p\<rparr>)"

lemma same_alert_refl [simp]: "same_alert a a"
  by (simp add: same_alert_def)

lemma same_alert_trans: "same_alert a b \<Longrightarrow> same_alert b c \<Longrightarrow> same_alert a c"
  by (auto simp: same_alert_def)

text \<open>Two stores with the same fingerprints, in which only the mark of unprocessed alerts may differ.\<close>

definition handled :: "alerts \<Rightarrow> alerts \<Rightarrow> bool" where
  "handled store store' \<longleftrightarrow> map fst store' = map fst store \<and> (\<forall>fp a. map_of store fp = Some a \<longrightarrow> (\<exists>a'. map_of store' fp = Some a' \<and> same_alert a a'))"

lemma handled_refl [simp]: "handled store store"
  by (simp add: handled_def)

lemma handled_trans: "handled s1 s2 \<Longrightarrow> handled s2 s3 \<Longrightarrow> handled s1 s3"
  unfolding handled_def by (metis same_alert_trans)

lemma HandleAlert_handled: "HandleAlert E M fp n store tr = (r, store', tr') \<Longrightarrow> handled store store'"
proof -
  assume h: "HandleAlert E M fp n store tr = (r, store', tr')"
  consider "store' = store" | a p where "map_of store fp = Some a" "\<not> Processed a" "store' = AList.update fp (a\<lparr>Processed := p\<rparr>) store"
    using h by (auto simp: HandleAlert_def Let_def split: option.splits if_splits go.splits prod.splits)
  then show ?thesis
  proof cases
    case 2
    have "fp \<in> fst ` set store" using 2(1) by (metis domI dom_map_of_conv_image_fst)
    then have "map fst store' = map fst store" using 2(3) by (simp add: update_keys)
    then show ?thesis using 2 by (auto simp: handled_def gm_get_update same_alert_def)
  qed simp
qed

lemma handle_alerts_handled: "handle_alerts E M n fps store tr = (ok, store', tr') \<Longrightarrow> handled store store'"
proof (induction fps arbitrary: store tr)
  case (Cons fp fps)
  obtain r s1 tr1 where h: "HandleAlert E M fp n store tr = (r, s1, tr1)" by (metis prod_cases3)
  from HandleAlert_handled [OF h] Cons.prems h Cons.IH show ?case
    by (cases r) (auto intro: handled_trans)
qed simp

lemma handled_origin:
  assumes "handled store store'" "map_of store' fp = Some a'"
  shows "\<exists>a. map_of store fp = Some a \<and> same_alert a a'"
proof -
  have "fp \<in> set (map fst store')" using assms(2) by (metis domI dom_map_of_conv_image_fst list.set_map)
  then have "fp \<in> set (map fst store)" using assms(1) unfolding handled_def by metis
  then obtain a where a: "map_of store fp = Some a" by (metis list.set_map map_of_eq_None_iff not_None_eq)
  then show ?thesis using assms unfolding handled_def by (metis option.inject)
qed

lemma handled_ok:
  assumes "handled store store'" "alerts_ok store"
  shows "alerts_ok store'"
proof -
  have "label (alAnnotations a') ''command'' \<in> set GetCommandList" if "map_of store' fp = Some a'" for fp a'
  proof -
    from handled_origin [OF assms(1) that] obtain a where "map_of store fp = Some a" "alAnnotations a' = alAnnotations a"
      by (auto simp: same_alert_def)
    then show ?thesis using assms(2) by (auto simp: alerts_ok_def)
  qed
  then show ?thesis using assms by (simp add: alerts_ok_def handled_def)
qed

lemma alertFilter_supported: "s \<in> set (alertFilter as) \<Longrightarrow> s \<in> set as \<and> label (asAnnotations s) ''command'' \<in> set GetCommandList"
  by (auto simp: alertFilter_def label_def split: option.splits)

lemma map_of_delete: "map_of (AList.delete k m) = (map_of m)(k := None)"
  by (rule ext) (simp add: delete_conv)

lemma step_ok:
  assumes "alerts_ok store" "label (asAnnotations s) ''command'' \<in> set GetCommandList"
  shows "alerts_ok (AlertGC s (AddAlert s store))"
proof -
  have "alerts_ok (AddAlert s store)"
    using assms by (auto simp: AddAlert_def alerts_ok_def distinct_update gm_get_update simp del: map_of_eq_Some_iff split: option.split if_splits)
  then show ?thesis by (auto simp: AlertGC_def DeleteAlert_def alerts_ok_def distinct_delete map_of_delete simp del: map_of_eq_Some_iff split: if_splits)
qed

lemma store_alerts_ok:
  "alerts_ok store \<Longrightarrow> (\<And>s. s \<in> set as \<Longrightarrow> label (asAnnotations s) ''command'' \<in> set GetCommandList) \<Longrightarrow> alerts_ok (store_alerts as store)"
  by (induction as arbitrary: store) (auto intro: step_ok)

lemma step_lookup:
  "map_of (AlertGC s (AddAlert s store)) fp = (if FingerPrint s \<noteq> fp then map_of store fp
     else if asStatus s = ''resolved'' then None
     else case map_of store fp of Some a \<Rightarrow> Some a
       | None \<Rightarrow> Some \<lparr>alStatus = asStatus s, alLabels = asLabels s, alAnnotations = asAnnotations s, Processed = False\<rparr>)"
  by (auto simp: AlertGC_def DeleteAlert_def AddAlert_def map_of_delete gm_get_update split: option.split)

lemma store_alerts_keep:
  "map_of store fp = Some a \<Longrightarrow> (\<And>s. s \<in> set as \<Longrightarrow> FingerPrint s = fp \<Longrightarrow> asStatus s \<noteq> ''resolved'') \<Longrightarrow>
     map_of (store_alerts as store) fp = Some a"
  by (induction as arbitrary: store) (auto simp: step_lookup)

lemma store_alerts_resolve:
  "(\<And>s. s \<in> set as \<Longrightarrow> FingerPrint s = fp \<Longrightarrow> asStatus s = ''resolved'') \<Longrightarrow>
   map_of store fp = None \<or> (\<exists>s \<in> set as. FingerPrint s = fp) \<Longrightarrow> map_of (store_alerts as store) fp = None"
  by (induction as arbitrary: store) (auto simp: step_lookup)

lemma store_alerts_new:
  "map_of (store_alerts as store) fp = Some a \<Longrightarrow> map_of store fp = Some a \<or>
     (\<exists>s \<in> set as. FingerPrint s = fp \<and> asStatus s \<noteq> ''resolved'' \<and>
        a = \<lparr>alStatus = asStatus s, alLabels = asLabels s, alAnnotations = asAnnotations s, Processed = False\<rparr>)"
proof (induction as arbitrary: store)
  case (Cons s as)
  then have "map_of (store_alerts as (AlertGC s (AddAlert s store))) fp = Some a" by simp
  from Cons.IH [OF this] show ?case by (auto simp: step_lookup split: if_splits option.splits)
qed simp

text \<open>
  (C35) The store of alerts over a round of the dispatcher. Fingerprints stay unique and every stored alert has a supported
  command. An alert that has been processed is not touched unless a resolved alert with its fingerprint arrives, and is not
  acted upon again: handling it sends nothing. An alert that is reported as resolved, and only so, is gone afterwards. An
  alert that is there afterwards was there before, or was reported as not resolved with a supported command.
\<close>

theorem alerts_processed_once:
  assumes "alerts_ok store" and "Dispatcher E M as store tr = (ok, store', tr')"
  shows "alerts_ok store' \<and>
    (\<forall>fp a. map_of store fp = Some a \<and> Processed a \<and> (\<forall>s \<in> set as. FingerPrint s = fp \<longrightarrow> asStatus s \<noteq> ''resolved'') \<longrightarrow>
       map_of store' fp = Some a \<and> (\<forall>n tr. HandleAlert E M fp n store' tr = (Ret a, store', tr))) \<and>
    (\<forall>fp. (\<exists>s \<in> set (alertFilter as). FingerPrint s = fp) \<and> (\<forall>s \<in> set as. FingerPrint s = fp \<longrightarrow> asStatus s = ''resolved'') \<longrightarrow>
       map_of store' fp = None) \<and>
    (\<forall>fp a. map_of store' fp = Some a \<longrightarrow> (\<exists>a0. map_of store fp = Some a0 \<and> same_alert a0 a) \<or>
       (\<exists>s \<in> set as. FingerPrint s = fp \<and> asStatus s \<noteq> ''resolved'' \<and> alAnnotations a = asAnnotations s \<and>
          label (asAnnotations s) ''command'' \<in> {''addPvc'', ''downScale'', ''upScale'', ''resizePvc''}))"
proof -
  let ?s = "store_alerts (alertFilter as) store"
  have sup: "s \<in> set as \<and> label (asAnnotations s) ''command'' \<in> set GetCommandList" if "s \<in> set (alertFilter as)" for s
    by (rule alertFilter_supported [OF that])
  have h: "handled ?s store'" using assms(2) handle_alerts_handled by (auto simp: Dispatcher_def Let_def)
  have "alerts_ok ?s" by (rule store_alerts_ok [OF assms(1)]) (use sup in blast)
  then have ok: "alerts_ok store'" by (rule handled_ok [OF h])
  have keep: "map_of store' fp = Some a \<and> (\<forall>n tr. HandleAlert E M fp n store' tr = (Ret a, store', tr))"
    if "map_of store fp = Some a" "Processed a" "\<forall>s \<in> set as. FingerPrint s = fp \<longrightarrow> asStatus s \<noteq> ''resolved''" for fp a
  proof -
    have "map_of ?s fp = Some a" by (rule store_alerts_keep [OF that(1)]) (use sup that(3) in blast)
    then have "map_of store' fp = Some a" using h that(2) by (auto simp: handled_def same_alert_def)
    then show ?thesis using that(2) by (simp add: HandleAlert_def)
  qed
  have gone: "map_of store' fp = None"
    if "\<exists>s \<in> set (alertFilter as). FingerPrint s = fp" "\<forall>s \<in> set as. FingerPrint s = fp \<longrightarrow> asStatus s = ''resolved''" for fp
  proof -
    have "map_of ?s fp = None" by (rule store_alerts_resolve) (use sup that in blast)+
    then show ?thesis using handled_origin [OF h, of fp] by (cases "map_of store' fp") auto
  qed
  have from': "(\<exists>a0. map_of store fp = Some a0 \<and> same_alert a0 a) \<or>
       (\<exists>s \<in> set as. FingerPrint s = fp \<and> asStatus s \<noteq> ''resolved'' \<and> alAnnotations a = asAnnotations s \<and>
          label (asAnnotations s) ''command'' \<in> {''addPvc'', ''downScale'', ''upScale'', ''resizePvc''})"
    if a: "map_of store' fp = Some a" for fp a
  proof -
    from handled_origin [OF h a] obtain a1 where a1: "map_of ?s fp = Some a1" "same_alert a1 a" by blast
    have ann: "alAnnotations a = alAnnotations a1" using a1(2) by (auto simp: same_alert_def)
    from store_alerts_new [OF a1(1)] show ?thesis
    proof (elim disjE bexE conjE)
      fix s assume s: "s \<in> set (alertFilter as)" "FingerPrint s = fp" "asStatus s \<noteq> ''resolved''"
        "a1 = \<lparr>alStatus = asStatus s, alLabels = asLabels s, alAnnotations = asAnnotations s, Processed = False\<rparr>"
      have "label (asAnnotations s) ''command'' \<in> {''addPvc'', ''downScale'', ''upScale'', ''resizePvc''}"
        using sup [OF s(1)] by (simp add: GetCommandList_def command_defs)
      then show ?thesis using s ann sup [OF s(1)] by (intro disjI2 bexI [of _ s]) simp_all
    qed (use a1 in blast)
  qed
  show ?thesis by (intro conjI allI impI ok; (elim conjE)?; rule keep [THEN conjunct1] keep [THEN conjunct2, THEN spec, THEN spec] gone from'; assumption)
qed

definition firing :: AlertState where
  "firing = \<lparr>FingerPrint = 7, asStatus = ''firing'', asLabels = alLabels (scale_alert ''downScale''),
     asAnnotations = alAnnotations (scale_alert ''downScale'')\<rparr>"

theorem alerts_processed_once_witness:
  "\<exists>store tr. Dispatcher (alert_env 1 5) sample_mergo [firing] [(7, (scale_alert ''downScale'')\<lparr>Processed := True\<rparr>)] [] = (True, store, tr) \<and>
     map_of store 7 = Some ((scale_alert ''downScale'')\<lparr>Processed := True\<rparr>)"
proof -
  let ?a = "(scale_alert ''downScale'')\<lparr>Processed := True\<rparr>"
  let ?d = "Dispatcher (alert_env 1 5) sample_mergo [firing] [(7, ?a)] []"
  have ok: "alerts_ok [(7, ?a)]" by (auto simp: alerts_ok_def scale_alert_def label_def GetCommandList_def command_defs)
  have "fst ?d" by code_simp
  then obtain store tr where d: "?d = (True, store, tr)" by (cases ?d) auto
  have "\<forall>s \<in> set [firing]. FingerPrint s = 7 \<longrightarrow> asStatus s \<noteq> ''resolved''" by (simp add: firing_def)
  then have "map_of store 7 = Some ?a" using alerts_processed_once [OF ok d] unfolding conj_assoc by (elim conjE, elim allE [of _ 7] allE [of _ ?a]) simp
  then show ?thesis using d by blast
qed

section \<open>Alerts that are marked without an effect\<close>

text \<open>An upscale that is skipped because of a Cruise Control task counts as processed and is not tried again.\<close>

lemma skipped_upscale_processed:
  assumes "kGetCluster E tr (label ls ''kafka_cr'') (label ls ''namespace'') = Inr c" "GetBrokersWithPendingOrRunningCCTask c \<noteq> []"
  shows "processed None (upScale E ls as) tr = (Ret True, tr @ [KGetCluster (label ls ''kafka_cr'') (label ls ''namespace'')])"
  using assms by (simp add: processed_def upScale_def GetCr_def KafkaCRLabelKey_def Let_def)

text \<open>A downscale whose alert names no broker panics.\<close>

lemma downscale_without_broker_panics:
  assumes "kGetCluster E tr (label ls ''kafka_cr'') (label ls ''namespace'') = Inr c" "GetBrokersWithPendingOrRunningCCTask c = []"
    and "map_of ls ''brokerId'' = None" "kScaleFactory E (tr @ [KGetCluster (label ls ''kafka_cr'') (label ls ''namespace'')]) = None"
  shows "fst (downScale E ls tr) = Panic"
  using assms by (simp add: downScale_def GetCr_def KafkaCRLabelKey_def BrokerWithLeastPartitionReplicas_def Let_def)

text \<open>A disk size that does not parse panics.\<close>

lemma bad_disk_size_panics:
  assumes "map_of (BrokerConfigGroups (kcSpec c)) (label as ''brokerConfigGroup'') = None" "kParseQuantity E (label as ''diskSize'') = Inl e"
  shows "new_broker E as c = Panic"
  using assms by (simp add: new_broker_def Let_def)

text \<open>The id after the largest 32-bit integer is negative.\<close>

lemma upscale_id_overflows: "biggest_id [b\<lparr>BrokerId := 2147483647\<rparr>] 0 + 1 = (- 2147483648 :: 32 word)"
  by (simp add: word_sless_alt)

text \<open>After a conflict the error count is the one that was read, not the one that was to be written.\<close>

lemma error_count_lost:
  assumes "kStatusUpdate E tr (c\<lparr>RollingUpgradeErrorCount := n\<rparr>) = Inl ApiConflict"
    and "kGetCluster E (tr @ [KStatusUpdate (c\<lparr>RollingUpgradeErrorCount := n\<rparr>)]) (kcName c) (kcNamespace c) = Inr c2"
    and "\<And>tr. kStatusUpdate E tr c2 = Inr c2"
  shows "\<exists>tr'. UpdateCrWithRollingUpgrade E n c tr = (None, c2, tr' @ [KStatusUpdate c2])"
  using assms by (simp add: UpdateCrWithRollingUpgrade_def write_status_def status_or_update_def kcall_def Let_def)

end
