(* ===== verification/ClusterCtl.thy ===== *)
theory ClusterCtl
  imports KafkaRolling
begin

text \<open>
  The controller of Kafka clusters (\<open>controllers/kafkacluster_controller.go\<close>). The reconcilers of the components (Envoy,
  Istio and Contour ingress, node ports, monitoring, Kafka, Cruise Control) are an argument, a list of functions from the
  cluster and the events so far; the tear-down of the certificates is the field \<open>kFinalizePKI\<close> of the environment. An event
  \<open>KComponent i\<close> marks the start of the component at position \<open>i\<close>.
\<close>

section \<open>The controller\<close>

definition clusterFinalizer :: string where
  "clusterFinalizer = ''finalizer.kafkaclusters.kafka.banzaicloud.io''"

definition clusterTopicsFinalizer :: string where
  "clusterTopicsFinalizer = ''topics.kafkaclusters.kafka.banzaicloud.io''"

definition clusterUsersFinalizer :: string where
  "clusterUsersFinalizer = ''users.kafkaclusters.kafka.banzaicloud.io''"

lemmas finalizer_defs = clusterFinalizer_def clusterTopicsFinalizer_def clusterUsersFinalizer_def

definition KafkaClusterReconciling :: string where
  "KafkaClusterReconciling = ''ClusterReconciling''"

definition ClusterRunningState :: string where
  "ClusterRunningState = ''ClusterRunning''"

type_synonym component = "KafkaCluster \<Rightarrow> ktrace \<Rightarrow> err option \<times> KafkaCluster \<times> ktrace"

definition component_error :: "err \<Rightarrow> reconcile_result" where
  "component_error e =
     (if errors_As e BrokersUnreachable then Ret (RequeueAfter 15)
      else if errors_As e BrokersNotReady then Ret (RequeueAfter 15)
      else if errors_As e ResourceNotReady then Ret (RequeueAfter 7)
      else if errors_As e ReconcileRollingUpgrade then Ret (RequeueAfter 15)
      else if errors_As e CruiseControlNotReady then Ret (RequeueAfter 15)
      else if errors_As e CruiseControlTaskRunning then Ret (RequeueAfter 20)
      else if errors_As e CruiseControlTaskTimeout then Ret (RequeueAfter 20)
      else if errors_As e CruiseControlTaskFailure then Ret (RequeueAfter 20)
      else if errors_As e PerBrokerConfigNotReady then Err e
      else if errors_As e LoadBalancerIPNotReady then Ret (RequeueAfter 30)
      else requeueWithError ''error'' e)"

fun run_components :: "component list \<Rightarrow> nat \<Rightarrow> KafkaCluster \<Rightarrow> ktrace \<Rightarrow> err option \<times> KafkaCluster \<times> ktrace" where
  "run_components [] i c tr = (None, c, tr)"
| "run_components (rec # recs) i c tr = (case rec c (tr @ [KComponent i]) of
     (Some e, c1, tr1) \<Rightarrow> (Some e, c1, tr1)
   | (None, c1, tr1) \<Rightarrow> run_components recs (Suc i) c1 tr1)"

definition Cluster_updateAndFetchLatest :: "kenv \<Rightarrow> KafkaCluster \<Rightarrow> ktrace \<Rightarrow> (err, KafkaCluster) go \<times> ktrace" where
  "Cluster_updateAndFetchLatest E c tr = (case kcall (kUpdate E) KUpdate c tr of
     (Some e, c1, tr1) \<Rightarrow> (Err e, tr1)
   | (None, c1, tr1) \<Rightarrow> (Ret c1, tr1))"

fun add_finalizers :: "string list \<Rightarrow> string list \<Rightarrow> string list" where
  "add_finalizers [] fs = fs"
| "add_finalizers (f # new) fs = add_finalizers new (if StringSliceContains fs f then fs else fs @ [f])"

definition ensureFinalizers :: "kenv \<Rightarrow> KafkaCluster \<Rightarrow> ktrace \<Rightarrow> (err, KafkaCluster) go \<times> ktrace" where
  "ensureFinalizers E c tr = Cluster_updateAndFetchLatest E
     (c\<lparr>kcFinalizers := add_finalizers [clusterFinalizer, clusterTopicsFinalizer, clusterUsersFinalizer] (kcFinalizers c)\<rparr>) tr"

definition Cluster_removeFinalizer :: "kenv \<Rightarrow> KafkaCluster \<Rightarrow> string \<Rightarrow> ktrace \<Rightarrow> (err, KafkaCluster) go \<times> ktrace" where
  "Cluster_removeFinalizer E c finalizer tr = (case StringSliceRemove (kcFinalizers c) finalizer of
     Panic \<Rightarrow> (Panic, tr)
   | Err e \<Rightarrow> (Err e, tr)
   | Ret fs \<Rightarrow> Cluster_updateAndFetchLatest E (c\<lparr>kcFinalizers := fs\<rparr>) tr)"

text \<open>A request per namespace to delete everything with a label; not found is not an error.\<close>

fun delete_all ::
  "(ktrace \<Rightarrow> string \<Rightarrow> string \<Rightarrow> err option) \<Rightarrow> (string \<Rightarrow> string \<Rightarrow> kevent) \<Rightarrow> string \<Rightarrow> string list \<Rightarrow> ktrace \<Rightarrow> err option \<times> ktrace" where
  "delete_all del ev lbl [] tr = (None, tr)"
| "delete_all del ev lbl (ns # nss) tr = (case del tr ns lbl of
     Some e \<Rightarrow> if IsNotFound e then delete_all del ev lbl nss (tr @ [ev ns lbl]) else (Some e, tr @ [ev ns lbl])
   | None \<Rightarrow> delete_all del ev lbl nss (tr @ [ev ns lbl]))"

text \<open>Deleting the children of one kind and removing the finalizer that stands for them.\<close>

definition delete_children ::
  "kenv \<Rightarrow> (ktrace \<Rightarrow> string \<Rightarrow> string \<Rightarrow> err option) \<Rightarrow> (string \<Rightarrow> string \<Rightarrow> kevent) \<Rightarrow> string \<Rightarrow> string list \<Rightarrow> KafkaCluster \<Rightarrow> ktrace \<Rightarrow>
     (err, KafkaCluster) go \<times> ktrace" where
  "delete_children E del ev finalizer nss c tr =
     (if StringSliceContains (kcFinalizers c) finalizer
      then (case delete_all del ev (clusterLabelString c) nss tr of
              (Some e, tr1) \<Rightarrow> (Err e, tr1)
            | (None, tr1) \<Rightarrow> Cluster_removeFinalizer E c finalizer tr1)
      else (Ret c, tr))"

text \<open>The tear-down looks at the type of the error itself, not through its causes.\<close>

fun is_not_ready :: "err \<Rightarrow> bool" where
  "is_not_ready (TypedErr t e) = (t = ResourceNotReady)"
| "is_not_ready ApiNotFound = False"
| "is_not_ready ApiConflict = False"
| "is_not_ready (NewErr s) = False"
| "is_not_ready (WrapErr s e) = False"

definition finalize_pki :: "kenv \<Rightarrow> KafkaCluster \<Rightarrow> ktrace \<Rightarrow> reconcile_result option \<times> ktrace" where
  "finalize_pki E c tr =
     (if SSLSecrets (specListenersConfig (kcSpec c)) = None then (None, tr)
      else (case kFinalizePKI E tr c of
              Some e \<Rightarrow> (Some (if is_not_ready e then Ret (RequeueAfter 5) else requeueWithError ''failed to finalize PKI'' e), tr @ [KFinalizePKI])
            | None \<Rightarrow> (None, tr @ [KFinalizePKI])))"

definition finish_deletion :: "kenv \<Rightarrow> KafkaCluster \<Rightarrow> ktrace \<Rightarrow> reconcile_result \<times> ktrace" where
  "finish_deletion E c tr = (case Cluster_removeFinalizer E c clusterFinalizer tr of
     (Panic, tr1) \<Rightarrow> (Panic, tr1)
   | (Err e, tr1) \<Rightarrow> (if IsNotFound e then reconciled else requeueWithError ''failed to remove main finalizer'' e, tr1)
   | (Ret c1, tr1) \<Rightarrow> (reconciled, tr1))"

definition delete_users :: "kenv \<Rightarrow> string list \<Rightarrow> KafkaCluster \<Rightarrow> ktrace \<Rightarrow> reconcile_result \<times> ktrace" where
  "delete_users E nss c tr = (case delete_children E (kDeleteAllUsers E) KDeleteAllUsers clusterUsersFinalizer nss c tr of
     (Panic, tr1) \<Rightarrow> (Panic, tr1)
   | (Err e, tr1) \<Rightarrow> (requeueWithError ''failed to delete children kafkausers'' e, tr1)
   | (Ret c1, tr1) \<Rightarrow>
       (case finalize_pki E c1 tr1 of
          (Some r, tr2) \<Rightarrow> (r, tr2)
        | (None, tr2) \<Rightarrow> finish_deletion E c1 tr2))"

definition await_topics :: "kenv \<Rightarrow> string list \<Rightarrow> KafkaCluster \<Rightarrow> ktrace \<Rightarrow> reconcile_result \<times> ktrace" where
  "await_topics E nss c tr =
     (let lbl = clusterLabelString c; tr1 = tr @ [KListChildTopics lbl] in
      (case kListChildTopics E tr lbl of
         Inl e \<Rightarrow> (requeueWithError ''failed to list kafkatopics'' e, tr1)
       | Inr childTopics \<Rightarrow> if length childTopics > 0 then (Ret (RequeueAfter 3), tr1) else delete_users E nss c tr1))"

definition delete_topics :: "kenv \<Rightarrow> string list \<Rightarrow> KafkaCluster \<Rightarrow> ktrace \<Rightarrow> reconcile_result \<times> ktrace" where
  "delete_topics E nss c tr = (case delete_children E (kDeleteAllTopics E) KDeleteAllTopics clusterTopicsFinalizer nss c tr of
     (Panic, tr1) \<Rightarrow> (Panic, tr1)
   | (Err e, tr1) \<Rightarrow> (requeueWithError ''failed to delete children kafkatopics'' e, tr1)
   | (Ret c1, tr1) \<Rightarrow> await_topics E nss c1 tr1)"

definition Cluster_checkFinalizers :: "kenv \<Rightarrow> string list option \<Rightarrow> KafkaCluster \<Rightarrow> ktrace \<Rightarrow> reconcile_result \<times> ktrace" where
  "Cluster_checkFinalizers E namespaces c tr =
     (if \<not> StringSliceContains (kcFinalizers c) clusterFinalizer then (reconciled, tr)
      else
        (case (case namespaces of None \<Rightarrow> (kListNamespaces E tr, tr @ [KListNamespaces]) | Some nss \<Rightarrow> (Inr nss, tr)) of
           (Inl e, tr1) \<Rightarrow> (requeueWithError ''failed to get namespace list'' e, tr1)
         | (Inr nss, tr1) \<Rightarrow> delete_topics E nss c tr1))"

definition mark_running :: "kenv \<Rightarrow> KafkaCluster \<Rightarrow> ktrace \<Rightarrow> reconcile_result \<times> ktrace" where
  "mark_running E c tr =
     (case (if ClusterState c = KafkaClusterRollingUpgrading then UpdateRollingUpgradeState E c (kNow E tr) tr else (None, c, tr)) of
        (Some e, c1, tr1) \<Rightarrow> (requeueWithError ''error'' e, tr1)
      | (None, c1, tr1) \<Rightarrow>
          (case UpdateCRStatus E c1 (CrClusterState ClusterRunningState) tr1 of
             (Some e, c2, tr2) \<Rightarrow> (requeueWithError ''error'' e, tr2)
           | (None, c2, tr2) \<Rightarrow> (reconciled, tr2)))"

definition finish_reconcile :: "kenv \<Rightarrow> KafkaCluster \<Rightarrow> ktrace \<Rightarrow> reconcile_result \<times> ktrace" where
  "finish_reconcile E c tr = (case ensureFinalizers E c tr of
     (Panic, tr1) \<Rightarrow> (Panic, tr1)
   | (Err e, tr1) \<Rightarrow> (requeueWithError ''failed to ensure finalizers on kafkacluster instance'' e, tr1)
   | (Ret c1, tr1) \<Rightarrow> mark_running E c1 tr1)"

definition reconcile_components :: "kenv \<Rightarrow> component list \<Rightarrow> KafkaCluster \<Rightarrow> ktrace \<Rightarrow> reconcile_result \<times> ktrace" where
  "reconcile_components E recs c tr = (case run_components recs 0 c tr of
     (Some e, c1, tr1) \<Rightarrow> (component_error e, tr1)
   | (None, c1, tr1) \<Rightarrow> finish_reconcile E c1 tr1)"

definition Cluster_Reconcile :: "kenv \<Rightarrow> component list \<Rightarrow> string list option \<Rightarrow> string \<Rightarrow> string \<Rightarrow> ktrace \<Rightarrow> reconcile_result \<times> ktrace" where
  "Cluster_Reconcile E recs namespaces name ns tr =
     (let tr1 = tr @ [KGetCluster name ns] in
      (case kGetCluster E tr name ns of
         Inl e \<Rightarrow> (if IsNotFound e then reconciled else requeueWithError ''error'' e, tr1)
       | Inr c \<Rightarrow>
           if kcDeletionTimestamp c \<noteq> None then Cluster_checkFinalizers E namespaces c tr1
           else
             (case (if ClusterState c \<noteq> KafkaClusterRollingUpgrading
                    then UpdateCRStatus E c (CrClusterState KafkaClusterReconciling) tr1 else (None, c, tr1)) of
                (Some e, c1, tr2) \<Rightarrow> (requeueWithError ''error'' e, tr2)
              | (None, c1, tr2) \<Rightarrow> reconcile_components E recs c1 tr2)))"

section \<open>Which events start a reconcile\<close>

text \<open>The predicate on updates of a cluster. The deletion timestamps are compared as pointers, so that two that are set count
  as different.\<close>

definition cluster_update_relevant :: "KafkaCluster \<Rightarrow> KafkaCluster \<Rightarrow> bool" where
  "cluster_update_relevant old new \<longleftrightarrow> kcSpec old \<noteq> kcSpec new \<or>
     (kcDeletionTimestamp old \<noteq> None \<or> kcDeletionTimestamp new \<noteq> None) \<or>
     kcGeneration old \<noteq> kcGeneration new \<or>
     (\<exists>k \<in> set (map fst (BrokersState old) @ map fst (BrokersState new)). map_of (BrokersState old) k \<noteq> map_of (BrokersState new) k)"

section \<open>Lemmas\<close>

lemma slice_remove_distinct:
  assumes "distinct fs" "s \<in> set fs"
  shows "StringSliceRemove fs s = Ret (filter (\<lambda>f. f \<noteq> s) fs)"
proof -
  from assms(2) obtain pre post where fs: "fs = pre @ s # post" by (meson split_list)
  with assms(1) have "s \<notin> set pre" "s \<notin> set post" by auto
  moreover have "filter (\<lambda>f. f \<noteq> s) pre = pre" "filter (\<lambda>f. f \<noteq> s) post = post"
    using calculation by (auto simp: filter_id_conv)
  ultimately show ?thesis using slice_remove_once by (simp add: fs)
qed

text \<open>A cluster without some of its finalizers.\<close>

definition without :: "string set \<Rightarrow> KafkaCluster \<Rightarrow> KafkaCluster" where
  "without D c = c\<lparr>kcFinalizers := filter (\<lambda>f. f \<notin> D) (kcFinalizers c)\<rparr>"

lemma without_without [simp]: "without D (without D' c) = without (D \<union> D') c"
  by (simp add: without_def conj_commute)

lemma without_absent: "f \<notin> set (kcFinalizers c) \<Longrightarrow> without {f} c = c"
  unfolding without_def by (cases c) (auto simp: filter_id_conv)

lemma without_fields [simp]: "kcSpec (without D c) = kcSpec c" "clusterLabelString (without D c) = clusterLabelString c"
  "set (kcFinalizers (without D c)) = set (kcFinalizers c) - D" "distinct (kcFinalizers c) \<Longrightarrow> distinct (kcFinalizers (without D c))"
  by (auto simp: without_def clusterLabelString_def)

text \<open>Documented behaviour of an update: the API answers with the object that it was sent.\<close>

definition cluster_echoed :: "kenv \<Rightarrow> bool" where
  "cluster_echoed E \<longleftrightarrow> (\<forall>tr c c'. kUpdate E tr c = Inr c' \<longrightarrow> c' = c)"

lemma remove_finalizer_outcome:
  assumes "cluster_echoed E" "distinct (kcFinalizers c)" "f \<in> set (kcFinalizers c)"
  shows "\<exists>r. Cluster_removeFinalizer E c f tr = (r, tr @ [KUpdate (without {f} c)]) \<and> (r = Ret (without {f} c) \<or> (\<exists>e. r = Err e))"
  using assms(1) slice_remove_distinct [OF assms(2,3)]
  by (auto simp: Cluster_removeFinalizer_def Cluster_updateAndFetchLatest_def kcall_def without_def cluster_echoed_def split: sum.split)

lemma delete_all_events:
  "delete_all del ev lbl nss tr = (r, tr') \<Longrightarrow> \<exists>new. tr' = tr @ new \<and> set new \<subseteq> (\<lambda>ns. ev ns lbl) ` set nss"
proof (induction nss arbitrary: tr)
  case (Cons ns nss)
  have "\<exists>new. tr' = (tr @ [ev ns lbl]) @ new \<and> set new \<subseteq> (\<lambda>ns. ev ns lbl) ` set nss \<or> tr' = tr @ [ev ns lbl]"
    using Cons.prems Cons.IH [of "tr @ [ev ns lbl]"] by (auto split: option.splits if_splits)
  then show ?case
    by (elim exE disjE) (auto intro: exI [of _ "ev ns lbl # new" for new] exI [of _ "[ev ns lbl]"])
qed simp

lemma delete_children_events:
  assumes "delete_children E del ev f nss c tr = (r, tr')" "cluster_echoed E" "distinct (kcFinalizers c)"
  shows "\<exists>new. tr' = tr @ new \<and> set new \<subseteq> insert (KUpdate (without {f} c)) ((\<lambda>ns. ev ns (clusterLabelString c)) ` set nss) \<and>
    (f \<notin> set (kcFinalizers c) \<longrightarrow> new = []) \<and> (r = Ret (without {f} c) \<or> (\<exists>e. r = Err e))"
proof (cases "f \<in> set (kcFinalizers c)")
  case True
  obtain r1 tr1 where d: "delete_all del ev (clusterLabelString c) nss tr = (r1, tr1)" by fastforce
  from delete_all_events [OF d] obtain p where p: "tr1 = tr @ p" "set p \<subseteq> (\<lambda>ns. ev ns (clusterLabelString c)) ` set nss" by blast
  show ?thesis
  proof (cases r1)
    case None
    from remove_finalizer_outcome [OF assms(2,3) True, of tr1] obtain r2 where
      "Cluster_removeFinalizer E c f tr1 = (r2, tr1 @ [KUpdate (without {f} c)])" "r2 = Ret (without {f} c) \<or> (\<exists>e. r2 = Err e)" by blast
    then show ?thesis using assms(1) True d None p
      by (intro exI [of _ "p @ [KUpdate (without {f} c)]"]) (auto simp: delete_children_def)
  next
    case (Some e)
    then show ?thesis using assms(1) True d p by (intro exI [of _ p]) (auto simp: delete_children_def)
  qed
next
  case False
  then show ?thesis using assms(1) without_absent [OF False] by (auto simp: delete_children_def)
qed

text \<open>Before the event, the certificates were torn down.\<close>

definition pki_before :: "kenv \<Rightarrow> ktrace \<Rightarrow> ktrace \<Rightarrow> kevent \<Rightarrow> bool" where
  "pki_before E tr new ev \<longleftrightarrow> (\<exists>p q c. new = p @ KFinalizePKI # q \<and> kFinalizePKI E (tr @ p) c = None \<and> ev \<in> set q)"

text \<open>Before the event, no topic with the label of the cluster was left.\<close>

definition topics_gone :: "kenv \<Rightarrow> string \<Rightarrow> ktrace \<Rightarrow> ktrace \<Rightarrow> kevent \<Rightarrow> bool" where
  "topics_gone E lbl tr new ev \<longleftrightarrow> (\<exists>p q. new = p @ KListChildTopics lbl # q \<and> kListChildTopics E (tr @ p) lbl = Inr [] \<and> ev \<in> set q)"

definition ssl :: "KafkaCluster \<Rightarrow> bool" where
  "ssl c \<longleftrightarrow> SSLSecrets (specListenersConfig (kcSpec c)) \<noteq> None"

lemma pki_before_later: "pki_before E (tr @ p) new ev \<Longrightarrow> pki_before E tr (p @ new) ev"
  unfolding pki_before_def by (elim exE conjE, intro exI conjI) auto

lemma finish_deletion_events:
  assumes "finish_deletion E c tr = (r, tr')" "cluster_echoed E" "distinct (kcFinalizers c)"
    and "clusterFinalizer \<in> set (kcFinalizers c)"
  shows "tr' = tr @ [KUpdate (without {clusterFinalizer} c)]"
  using assms(1) remove_finalizer_outcome [OF assms(2-4), of tr] by (auto simp: finish_deletion_def split: if_splits)

lemma pki_and_finish_events:
  assumes "(case finalize_pki E c tr of (Some r, tr2) \<Rightarrow> (r, tr2) | (None, tr2) \<Rightarrow> finish_deletion E c tr2) = (r, tr')"
    and "cluster_echoed E" "distinct (kcFinalizers c)" "clusterFinalizer \<in> set (kcFinalizers c)"
  shows "\<exists>new. tr' = tr @ new \<and> (\<forall>ev \<in> set new. ev = KFinalizePKI \<and> ssl c \<or>
    ev = KUpdate (without {clusterFinalizer} c) \<and> (ssl c \<longrightarrow> pki_before E tr new ev)) \<and>
    (r = reconciled \<longrightarrow> KUpdate (without {clusterFinalizer} c) \<in> set new)"
proof (cases "ssl c")
  case True
  show ?thesis
  proof (cases "kFinalizePKI E tr c")
    case None
    then have "finish_deletion E c (tr @ [KFinalizePKI]) = (r, tr')" using assms(1) True by (auto simp: finalize_pki_def ssl_def)
    from finish_deletion_events [OF this assms(2-4)]
    have "tr' = tr @ [KFinalizePKI, KUpdate (without {clusterFinalizer} c)]" by simp
    moreover have "pki_before E tr [KFinalizePKI, KUpdate (without {clusterFinalizer} c)] (KUpdate (without {clusterFinalizer} c))"
      unfolding pki_before_def using None by (intro exI [of _ "[]"] exI [of _ "[KUpdate (without {clusterFinalizer} c)]"] exI [of _ c]) simp
    ultimately show ?thesis using True by auto
  next
    case (Some e)
    then show ?thesis using assms(1) True by (auto simp: finalize_pki_def ssl_def)
  qed
next
  case False
  then have "finish_deletion E c tr = (r, tr')" using assms(1) by (simp add: finalize_pki_def ssl_def)
  from finish_deletion_events [OF this assms(2-4)] show ?thesis using False by auto
qed

lemma delete_users_events:
  assumes "delete_users E nss c tr = (r, tr')" "cluster_echoed E" "distinct (kcFinalizers c)" "clusterFinalizer \<in> set (kcFinalizers c)"
  shows "\<exists>new. tr' = tr @ new \<and> (\<forall>ev \<in> set new.
    (\<exists>ns \<in> set nss. ev = KDeleteAllUsers ns (clusterLabelString c) \<and> clusterUsersFinalizer \<in> set (kcFinalizers c)) \<or>
    ev = KUpdate (without {clusterUsersFinalizer} c) \<or> ev = KFinalizePKI \<and> ssl c \<or>
    ev = KUpdate (without {clusterUsersFinalizer, clusterFinalizer} c) \<and> (ssl c \<longrightarrow> pki_before E tr new ev)) \<and>
    (r = reconciled \<longrightarrow> KUpdate (without {clusterUsersFinalizer, clusterFinalizer} c) \<in> set new)"
proof -
  obtain r1 tr1 where d: "delete_children E (kDeleteAllUsers E) KDeleteAllUsers clusterUsersFinalizer nss c tr = (r1, tr1)" by fastforce
  let ?c1 = "without {clusterUsersFinalizer} c"
  from delete_children_events [OF d assms(2,3)] obtain p where p: "tr1 = tr @ p"
    "set p \<subseteq> insert (KUpdate ?c1) ((\<lambda>ns. KDeleteAllUsers ns (clusterLabelString c)) ` set nss)"
    "clusterUsersFinalizer \<notin> set (kcFinalizers c) \<longrightarrow> p = []" "r1 = Ret ?c1 \<or> (\<exists>e. r1 = Err e)" by (elim exE conjE) (rule that)
  have pe: "(\<exists>ns \<in> set nss. ev = KDeleteAllUsers ns (clusterLabelString c) \<and> clusterUsersFinalizer \<in> set (kcFinalizers c)) \<or> ev = KUpdate ?c1"
    if "ev \<in> set p" for ev using that p(2,3) by (cases "clusterUsersFinalizer \<in> set (kcFinalizers c)") auto
  show ?thesis
  proof (cases "r1 = Ret ?c1")
    case True
    have c1: "distinct (kcFinalizers ?c1)" "clusterFinalizer \<in> set (kcFinalizers ?c1)" "ssl ?c1 = ssl c"
      using assms(3,4) by (simp_all add: finalizer_defs ssl_def)
    have "(case finalize_pki E ?c1 tr1 of (Some r, tr2) \<Rightarrow> (r, tr2) | (None, tr2) \<Rightarrow> finish_deletion E ?c1 tr2) = (r, tr')"
      using assms(1) d True by (simp add: delete_users_def)
    from pki_and_finish_events [OF this assms(2) c1(1,2)] obtain q where q: "tr' = tr1 @ q" "\<forall>ev \<in> set q. ev = KFinalizePKI \<and> ssl c \<or>
      ev = KUpdate (without {clusterFinalizer} ?c1) \<and> (ssl c \<longrightarrow> pki_before E tr1 q ev)"
      "r = reconciled \<longrightarrow> KUpdate (without {clusterFinalizer} ?c1) \<in> set q" unfolding c1(3) by (elim exE conjE) (rule that)
    have "ev = KFinalizePKI \<and> ssl c \<or>
      ev = KUpdate (without {clusterUsersFinalizer, clusterFinalizer} c) \<and> (ssl c \<longrightarrow> pki_before E tr (p @ q) ev)" if "ev \<in> set q" for ev
      using bspec [OF q(2) that] pki_before_later [of E tr p q ev] p(1) by (auto simp: insert_commute)
    then show ?thesis using pe q(1,3) p(1) by (intro exI [of _ "p @ q"]) (auto simp: insert_commute)
  next
    case False
    then have "tr' = tr1 \<and> r \<noteq> reconciled" using assms(1) d p(4) by (auto simp: delete_users_def)
    then show ?thesis using pe p(1) by blast
  qed
qed

lemma await_topics_events:
  assumes "await_topics E nss c tr = (r, tr')" "cluster_echoed E" "distinct (kcFinalizers c)" "clusterFinalizer \<in> set (kcFinalizers c)"
  shows "\<exists>new. tr' = tr @ KListChildTopics (clusterLabelString c) # new \<and>
    (new \<noteq> [] \<longrightarrow> kListChildTopics E tr (clusterLabelString c) = Inr []) \<and> (\<forall>ev \<in> set new.
    (\<exists>ns \<in> set nss. ev = KDeleteAllUsers ns (clusterLabelString c) \<and> clusterUsersFinalizer \<in> set (kcFinalizers c)) \<or>
    ev = KUpdate (without {clusterUsersFinalizer} c) \<or> ev = KFinalizePKI \<and> ssl c \<or>
    ev = KUpdate (without {clusterUsersFinalizer, clusterFinalizer} c) \<and>
      (ssl c \<longrightarrow> pki_before E (tr @ [KListChildTopics (clusterLabelString c)]) new ev)) \<and>
    (r = reconciled \<longrightarrow> KUpdate (without {clusterUsersFinalizer, clusterFinalizer} c) \<in> set new)"
proof (cases "kListChildTopics E tr (clusterLabelString c) = Inr []")
  case True
  then have "delete_users E nss c (tr @ [KListChildTopics (clusterLabelString c)]) = (r, tr')"
    using assms(1) by (simp add: await_topics_def Let_def)
  from delete_users_events [OF this assms(2-4)] True show ?thesis by simp
next
  case False
  then have "tr' = tr @ [KListChildTopics (clusterLabelString c)] \<and> r \<noteq> reconciled"
    using assms(1) by (auto simp: await_topics_def Let_def split: sum.splits if_splits)
  then show ?thesis by simp
qed

lemma checkFinalizers_start:
  assumes "Cluster_checkFinalizers E namespaces c tr = (r, tr')" "clusterFinalizer \<in> set (kcFinalizers c)"
  shows "\<exists>nss p0. ((\<exists>e. r = Err e) \<and> tr' = tr @ p0 \<or> delete_topics E nss c (tr @ p0) = (r, tr')) \<and> set p0 \<subseteq> {KListNamespaces}"
proof (cases namespaces)
  case None
  then show ?thesis using assms by (intro exI [of _ "projr (kListNamespaces E tr)"] exI [of _ "[KListNamespaces]"])
    (auto simp: Cluster_checkFinalizers_def split: sum.splits)
next
  case (Some nss)
  then show ?thesis using assms by (intro exI [of _ nss] exI [of _ "[]"]) (auto simp: Cluster_checkFinalizers_def)
qed

lemma delete_topics_events:
  assumes "delete_topics E nss c (tr @ p0) = (r, tr')" "cluster_echoed E" "distinct (kcFinalizers c)"
    and main: "clusterFinalizer \<in> set (kcFinalizers c)" and p0: "set p0 \<subseteq> {KListNamespaces}"
  shows "\<exists>new. tr' = tr @ new \<and> (\<forall>ev \<in> set new. (ev = KListNamespaces \<or> ev = KListChildTopics (clusterLabelString c) \<or> ev = KUpdate (without {clusterTopicsFinalizer} c) \<or>
     (\<exists>ns. ev = KDeleteAllTopics ns (clusterLabelString c) \<and> clusterTopicsFinalizer \<in> set (kcFinalizers c))) \<or>
    topics_gone E (clusterLabelString c) tr new ev \<and>
    ((\<exists>ns. ev = KDeleteAllUsers ns (clusterLabelString c) \<and> clusterUsersFinalizer \<in> set (kcFinalizers c)) \<or>
     ev = KUpdate (without {clusterTopicsFinalizer, clusterUsersFinalizer} c) \<or> ev = KFinalizePKI \<and> ssl c \<or>
     ev = KUpdate (without {clusterTopicsFinalizer, clusterUsersFinalizer, clusterFinalizer} c) \<and> (ssl c \<longrightarrow> pki_before E tr new ev))) \<and>
    (r = reconciled \<longrightarrow> KUpdate (without {clusterTopicsFinalizer, clusterUsersFinalizer, clusterFinalizer} c) \<in> set new)"
proof -
  let ?lbl = "clusterLabelString c" and ?c1 = "without {clusterTopicsFinalizer} c"
  obtain r1 tr1 where d: "delete_children E (kDeleteAllTopics E) KDeleteAllTopics clusterTopicsFinalizer nss c (tr @ p0) = (r1, tr1)"
    by fastforce
  then have going: "(case r1 of Panic \<Rightarrow> (Panic, tr1) | Err e \<Rightarrow> (Err e, tr1) | Ret c1 \<Rightarrow> await_topics E nss c1 tr1) = (r, tr')"
    using assms(1) by (auto simp: delete_topics_def split: go.splits)
  from delete_children_events [OF d assms(2,3)] obtain p1 where p1: "tr1 = (tr @ p0) @ p1"
    "set p1 \<subseteq> insert (KUpdate ?c1) ((\<lambda>ns. KDeleteAllTopics ns ?lbl) ` set nss)"
    "clusterTopicsFinalizer \<notin> set (kcFinalizers c) \<longrightarrow> p1 = []" "r1 = Ret ?c1 \<or> (\<exists>e. r1 = Err e)"
    by (elim exE conjE) (rule that)
  have pe: "ev = KListNamespaces \<or> ev = KUpdate ?c1 \<or> (\<exists>ns. ev = KDeleteAllTopics ns ?lbl \<and> clusterTopicsFinalizer \<in> set (kcFinalizers c))"
    if "ev \<in> set (p0 @ p1)" for ev
    using that p0 p1(2,3) by (cases "clusterTopicsFinalizer \<in> set (kcFinalizers c)") auto
  show ?thesis
  proof (cases "r1 = Ret ?c1")
    case True
    have c1: "distinct (kcFinalizers ?c1)" "clusterFinalizer \<in> set (kcFinalizers ?c1)" "ssl ?c1 = ssl c"
      using assms(3) main by (simp_all add: finalizer_defs ssl_def)
    have "await_topics E nss ?c1 tr1 = (r, tr')" using going True by simp
    from await_topics_events [OF this assms(2) c1(1,2)] obtain q where q: "tr' = tr1 @ KListChildTopics ?lbl # q"
      "q \<noteq> [] \<longrightarrow> kListChildTopics E tr1 ?lbl = Inr []"
      "\<forall>ev \<in> set q. (\<exists>ns \<in> set nss. ev = KDeleteAllUsers ns ?lbl \<and> clusterUsersFinalizer \<in> set (kcFinalizers ?c1)) \<or>
        ev = KUpdate (without {clusterUsersFinalizer} ?c1) \<or> ev = KFinalizePKI \<and> ssl c \<or>
        ev = KUpdate (without {clusterUsersFinalizer, clusterFinalizer} ?c1) \<and>
          (ssl c \<longrightarrow> pki_before E (tr1 @ [KListChildTopics ?lbl]) q ev)"
      "r = reconciled \<longrightarrow> KUpdate (without {clusterUsersFinalizer, clusterFinalizer} ?c1) \<in> set q"
      unfolding c1(3) without_fields(2) by (elim exE conjE) (rule that)
    let ?new = "(p0 @ p1) @ KListChildTopics ?lbl # q"
    have gone: "topics_gone E ?lbl tr ?new ev" if "ev \<in> set q" for ev
      unfolding topics_gone_def using that q(2) p1(1) by (intro exI [of _ "p0 @ p1"] exI [of _ q]) auto
    have qe: "(\<exists>ns. ev = KDeleteAllUsers ns ?lbl \<and> clusterUsersFinalizer \<in> set (kcFinalizers c)) \<or>
        ev = KUpdate (without {clusterTopicsFinalizer, clusterUsersFinalizer} c) \<or> ev = KFinalizePKI \<and> ssl c \<or>
        ev = KUpdate (without {clusterTopicsFinalizer, clusterUsersFinalizer, clusterFinalizer} c) \<and> (ssl c \<longrightarrow> pki_before E tr ?new ev)"
      if "ev \<in> set q" for ev
      using bspec [OF q(3) that] pki_before_later [of E tr "(p0 @ p1) @ [KListChildTopics ?lbl]" q ev] p1(1)
      by (auto simp: insert_commute)
    show ?thesis
      using pe qe gone q(1,4) p1(1) by (intro exI [of _ ?new] conjI) (auto simp: insert_commute)
  next
    case False
    then have "tr' = tr1 \<and> r \<noteq> reconciled" using going p1(4) by auto
    then show ?thesis using pe p1(1) by (intro exI [of _ "p0 @ p1"]) (auto dest!: pe)
  qed
qed

text \<open>
  What the deletion of a cluster may do (C19). Topics and users are deleted by the label of the cluster and only while the
  finalizer that stands for them is there. Users are deleted, the certificates torn down and the finalizers of the users
  and of the cluster removed only after a listing has shown that no topic of the cluster is left; the finalizer of the
  cluster goes last, and with TLS only after the certificates were torn down without error. Nothing else of the cluster
  object is written, and a run that ends without a requeue has removed the finalizer.
\<close>

theorem cluster_deletion_ordered:
  assumes "Cluster_checkFinalizers E namespaces c tr = (r, tr')" "cluster_echoed E" "distinct (kcFinalizers c)"
  shows "\<exists>new. tr' = tr @ new \<and>
    (\<forall>ns lbl. KDeleteAllTopics ns lbl \<in> set new \<longrightarrow> lbl = clusterLabelString c \<and> clusterTopicsFinalizer \<in> set (kcFinalizers c)) \<and>
    (\<forall>ns lbl. KDeleteAllUsers ns lbl \<in> set new \<longrightarrow> lbl = clusterLabelString c \<and> clusterUsersFinalizer \<in> set (kcFinalizers c) \<and>
       topics_gone E (clusterLabelString c) tr new (KDeleteAllUsers ns lbl)) \<and>
    (KFinalizePKI \<in> set new \<longrightarrow> ssl c \<and> topics_gone E (clusterLabelString c) tr new KFinalizePKI) \<and>
    (\<forall>c'. KUpdate c' \<in> set new \<longrightarrow> c' = without {clusterTopicsFinalizer} c \<or>
       topics_gone E (clusterLabelString c) tr new (KUpdate c') \<and>
       (c' = without {clusterTopicsFinalizer, clusterUsersFinalizer} c \<or>
        c' = without {clusterTopicsFinalizer, clusterUsersFinalizer, clusterFinalizer} c \<and> (ssl c \<longrightarrow> pki_before E tr new (KUpdate c')))) \<and>
    (r = reconciled \<longrightarrow> clusterFinalizer \<notin> set (kcFinalizers c) \<or>
       KUpdate (without {clusterTopicsFinalizer, clusterUsersFinalizer, clusterFinalizer} c) \<in> set new)"
proof (cases "clusterFinalizer \<in> set (kcFinalizers c)")
  case True
  obtain nss p0 where start: "(\<exists>e. r = Err e) \<and> tr' = tr @ p0 \<or> delete_topics E nss c (tr @ p0) = (r, tr')"
    and p0: "set p0 \<subseteq> {KListNamespaces}"
    using checkFinalizers_start [OF assms(1) True] by (elim exE conjE) (rule that)
  have "\<exists>new. tr' = tr @ new \<and> (\<forall>ev \<in> set new. (ev = KListNamespaces \<or> ev = KListChildTopics (clusterLabelString c) \<or> ev = KUpdate (without {clusterTopicsFinalizer} c) \<or>
     (\<exists>ns. ev = KDeleteAllTopics ns (clusterLabelString c) \<and> clusterTopicsFinalizer \<in> set (kcFinalizers c))) \<or>
    topics_gone E (clusterLabelString c) tr new ev \<and>
    ((\<exists>ns. ev = KDeleteAllUsers ns (clusterLabelString c) \<and> clusterUsersFinalizer \<in> set (kcFinalizers c)) \<or>
     ev = KUpdate (without {clusterTopicsFinalizer, clusterUsersFinalizer} c) \<or> ev = KFinalizePKI \<and> ssl c \<or>
     ev = KUpdate (without {clusterTopicsFinalizer, clusterUsersFinalizer, clusterFinalizer} c) \<and> (ssl c \<longrightarrow> pki_before E tr new ev))) \<and>
    (r = reconciled \<longrightarrow> KUpdate (without {clusterTopicsFinalizer, clusterUsersFinalizer, clusterFinalizer} c) \<in> set new)"
    using start
  proof
    assume "delete_topics E nss c (tr @ p0) = (r, tr')"
    from delete_topics_events [OF this assms(2,3) True p0] show ?thesis .
  qed (use p0 in \<open>intro exI [of _ p0], auto\<close>)
  then show ?thesis by (elim exE conjE, intro exI conjI) (assumption, auto dest!: bspec)
next
  case False
  then show ?thesis using assms(1) by (simp add: Cluster_checkFinalizers_def)
qed

section \<open>The order of the components\<close>

text \<open>What the controller relies on: a component only adds events of its own.\<close>

definition components_append :: "component list \<Rightarrow> bool" where
  "components_append recs \<longleftrightarrow> (\<forall>rec \<in> set recs. \<forall>c tr. \<exists>p. snd (snd (rec c tr)) = tr @ p \<and> (\<forall>i. KComponent i \<notin> set p))"

primrec started :: "ktrace \<Rightarrow> nat list" where
  "started [] = []"
| "started (ev # tr) = (case ev of KComponent i \<Rightarrow> i # started tr | _ \<Rightarrow> started tr)"

lemma started_append [simp]: "started (p @ q) = started p @ started q"
  by (induction p) (auto split: kevent.split)

lemma started_none: "(\<And>i. KComponent i \<notin> set p) \<Longrightarrow> started p = []"
  by (induction p) (auto split: kevent.split)

lemma run_components_order:
  assumes "run_components recs i c tr = (eo, c', tr')" "components_append recs"
  shows "\<exists>new n. tr' = tr @ new \<and> n \<le> length recs \<and> started new = [i..<i + n] \<and> (eo = None \<longrightarrow> n = length recs) \<and>
    (\<forall>e. eo = Some e \<longrightarrow> (\<exists>m p c1. n = Suc m \<and> (recs ! m) c1 (tr @ p @ [KComponent (i + m)]) = (Some e, c', tr')))"
  using assms
proof (induction recs arbitrary: i c tr)
  case (Cons rec recs)
  obtain e1 c1 tr1 where r: "rec c (tr @ [KComponent i]) = (e1, c1, tr1)" by (cases "rec c (tr @ [KComponent i])")
  have "\<exists>p. snd (snd (rec c (tr @ [KComponent i]))) = (tr @ [KComponent i]) @ p \<and> (\<forall>j. KComponent j \<notin> set p)"
    using Cons.prems(2) unfolding components_append_def by (meson list.set_intros(1))
  then obtain p where "snd (snd (rec c (tr @ [KComponent i]))) = (tr @ [KComponent i]) @ p" "\<And>j. KComponent j \<notin> set p" by blast
  then have p: "tr1 = tr @ KComponent i # p" "started p = []" using r started_none by auto
  show ?case
  proof (cases e1)
    case None
    then have "run_components recs (Suc i) c1 tr1 = (eo, c', tr')" using Cons.prems(1) r by simp
    from Cons.IH [OF this] Cons.prems(2) obtain new n where n: "tr' = tr1 @ new" "n \<le> length recs" "started new = [Suc i..<Suc i + n]"
      "eo = None \<longrightarrow> n = length recs"
      "\<forall>e. eo = Some e \<longrightarrow> (\<exists>m p c1. n = Suc m \<and> (recs ! m) c1 (tr1 @ p @ [KComponent (Suc i + m)]) = (Some e, c', tr'))"
      by (auto simp: components_append_def)
    have "\<exists>m p c1. Suc n = Suc m \<and> ((rec # recs) ! m) c1 (tr @ p @ [KComponent (i + m)]) = (Some e, c', tr')" if "eo = Some e" for e
    proof -
      from n(5) that obtain m q c2 where "n = Suc m" "(recs ! m) c2 (tr1 @ q @ [KComponent (Suc i + m)]) = (Some e, c', tr')" by blast
      then show ?thesis by (intro exI [of _ "Suc m"] exI [of _ "KComponent i # p @ q"] exI [of _ c2]) (simp add: p(1))
    qed
    then show ?thesis using n p by (intro exI [of _ "KComponent i # p @ new"] exI [of _ "Suc n"]) (auto simp: upt_conv_Cons)
  next
    case (Some e)
    then have "eo = Some e" "c' = c1" "tr' = tr1" using Cons.prems(1) r by auto
    then show ?thesis using Some r p
      by (intro exI [of _ "KComponent i # p"] exI [of _ "Suc 0"]) (auto intro!: exI [of _ "[]"] exI [of _ c])
  qed
qed auto

lemma write_status_last:
  assumes "write_status E f c tr = (None, c', tr')"
  shows "\<exists>b p ev. tr' = tr @ p @ [ev] \<and> written ev = Some (f b)"
proof -
  have one: "\<exists>p ev. tr2 = tr1 @ p @ [ev] \<and> written ev = Some b" if "status_or_update E b tr1 = (r, b', tr2)" for r b b' tr1 tr2
    using status_or_update_events [OF that] by (auto intro: exI [of _ "[]"] exI [of _ "[KStatusUpdate b]"])
  obtain r1 c1 tr1 where s1: "status_or_update E (f c) tr = (r1, c1, tr1)" by (cases "status_or_update E (f c) tr")
  show ?thesis
  proof (cases r1)
    case None
    then show ?thesis using assms s1 one [OF s1] by (auto simp: write_status_def)
  next
    case (Some e)
    then obtain b where "status_or_update E (f b) (tr1 @ [KGetCluster (kcName c1) (kcNamespace c1)]) = (None, c', tr')"
      using assms s1 by (auto simp: write_status_def Let_def split: option.splits if_splits sum.splits prod.splits)
    from one [OF this] one [OF s1] show ?thesis by fastforce
  qed
qed

lemma write_status_started: "write_status E f c tr = (r, c', tr') \<Longrightarrow> \<exists>d. tr' = tr @ d \<and> started d = []"
  using write_status_events [of E f c tr r c' tr'] by (fastforce intro!: started_none)

lemma add_finalizers_set: "set (add_finalizers new fs) = set new \<union> set fs"
  by (induction new fs rule: add_finalizers.induct) auto

text \<open>The end of a run: the finalizers are written first, the state last.\<close>

lemma mark_running_events:
  assumes "mark_running E c tr = (r, tr')"
  shows "\<exists>new. tr' = tr @ new \<and> started new = [] \<and>
    ((\<exists>e. r = Err e) \<or> r = reconciled \<and> new \<noteq> [] \<and> (\<exists>c'. written (last new) = Some c' \<and> ClusterState c' = ClusterRunningState))"
proof -
  obtain r2 c2 tr2 where u2: "(if ClusterState c = KafkaClusterRollingUpgrading then UpdateRollingUpgradeState E c (kNow E tr) tr else (None, c, tr)) = (r2, c2, tr2)"
    by (metis prod_cases3)
  obtain r3 c3 tr3 where u3: "UpdateCRStatus E c2 (CrClusterState ClusterRunningState) tr2 = (r3, c3, tr3)" by (metis prod_cases3)
  have outcome: "(r, tr') = (case r2 of Some e \<Rightarrow> (Err e, tr2) | None \<Rightarrow> (case r3 of Some e \<Rightarrow> (Err e, tr3) | None \<Rightarrow> (reconciled, tr3)))"
    using assms u3 unfolding mark_running_def u2 by (auto split: option.split)
  obtain d2 where d2: "tr2 = tr @ d2" "started d2 = []"
    using u2 write_status_started [of E _ c tr r2 c2 tr2] by (fastforce simp: UpdateRollingUpgradeState_def split: if_splits)
  obtain d3 where d3: "tr3 = tr2 @ d3" "started d3 = []"
    using write_status_started [OF u3 [unfolded UpdateCRStatus_def]] by blast
  have "d3 \<noteq> [] \<and> (\<exists>c'. written (last d3) = Some c' \<and> ClusterState c' = ClusterRunningState)" if "r3 = None"
    using write_status_last [OF u3 [unfolded UpdateCRStatus_def that]] d3(1) by (auto simp: set_cr_status_def)
  then show ?thesis using outcome d2 d3 by (cases r2; cases r3) auto
qed

lemma finish_reconcile_events:
  assumes "finish_reconcile E c tr = (r, tr')"
  shows "\<exists>new. tr' = tr @ new \<and> started new = [] \<and>
    ((\<exists>e. r = Err e) \<or> r = reconciled \<and>
       (\<exists>c'. KUpdate c' \<in> set new \<and> {clusterFinalizer, clusterTopicsFinalizer, clusterUsersFinalizer} \<subseteq> set (kcFinalizers c')) \<and>
       (\<exists>c'. written (last new) = Some c' \<and> ClusterState c' = ClusterRunningState))"
proof -
  define c0 where "c0 = c\<lparr>kcFinalizers := add_finalizers [clusterFinalizer, clusterTopicsFinalizer, clusterUsersFinalizer] (kcFinalizers c)\<rparr>"
  have fin: "{clusterFinalizer, clusterTopicsFinalizer, clusterUsersFinalizer} \<subseteq> set (kcFinalizers c0)"
    by (simp add: c0_def add_finalizers_set del: add_finalizers.simps)
  have e: "ensureFinalizers E c tr = (case kUpdate E tr c0 of Inl e \<Rightarrow> (Err e, tr @ [KUpdate c0]) | Inr c1 \<Rightarrow> (Ret c1, tr @ [KUpdate c0]))"
    unfolding ensureFinalizers_def Cluster_updateAndFetchLatest_def kcall_def c0_def [symmetric] by (simp split: sum.split)
  show ?thesis
  proof (cases "kUpdate E tr c0")
    case (Inl e')
    then show ?thesis using assms e by (intro exI [of _ "[KUpdate c0]"]) (auto simp: finish_reconcile_def)
  next
    case (Inr c1)
    then have "mark_running E c1 (tr @ [KUpdate c0]) = (r, tr')" using assms e by (simp add: finish_reconcile_def)
    from mark_running_events [OF this] obtain new where new: "tr' = (tr @ [KUpdate c0]) @ new" "started new = []"
      "(\<exists>e. r = Err e) \<or> r = reconciled \<and> new \<noteq> [] \<and> (\<exists>c'. written (last new) = Some c' \<and> ClusterState c' = ClusterRunningState)"
      by (elim exE conjE) (rule that)
    show ?thesis using new fin by (intro exI [of _ "KUpdate c0 # new"]) auto
  qed
qed


section \<open>Concrete runs\<close>

definition tls_cluster :: KafkaCluster where
  "tls_cluster = kafka_cluster\<lparr>kcFinalizers := [clusterFinalizer, clusterTopicsFinalizer, clusterUsersFinalizer], kcDeletionTimestamp := Some 0,
     kcSpec := (kcSpec kafka_cluster)\<lparr>specListenersConfig := no_listeners\<lparr>SSLSecrets := Some ''cert-manager''\<rparr>\<rparr>\<rparr>"

theorem cluster_deletion_ordered_witness:
  "KUpdate (without {clusterTopicsFinalizer, clusterUsersFinalizer, clusterFinalizer} tls_cluster)
     \<in> set (snd (Cluster_checkFinalizers sample_kenv None tls_cluster [])) \<and>
   topics_gone sample_kenv (clusterLabelString tls_cluster) [] (snd (Cluster_checkFinalizers sample_kenv None tls_cluster [])) KFinalizePKI"
proof -
  let ?r = "Cluster_checkFinalizers sample_kenv None tls_cluster []"
  have r: "?r = (reconciled, snd ?r)" by code_simp
  have "cluster_echoed sample_kenv" "distinct (kcFinalizers tls_cluster)" "clusterFinalizer \<in> set (kcFinalizers tls_cluster)" "KFinalizePKI \<in> set (snd ?r)"
    by (simp add: cluster_echoed_def sample_kenv_def) code_simp+
  with cluster_deletion_ordered [OF r] show ?thesis by auto
qed

text \<open>Three components, of which the second waits for a load balancer.\<close>

definition ready :: component where
  "ready c tr = (None, c, tr @ [KListPods])"

definition waiting :: component where
  "waiting c tr = (Some (WrapErr ''envoy'' (TypedErr LoadBalancerIPNotReady (NewErr ''no address''))), c, tr)"

lemma sample_components_append: "components_append [ready, waiting, ready]" "components_append [ready, ready]"
  by (auto simp: components_append_def ready_def waiting_def)


end
