(* ===== verification/Listeners.thy ===== *)
theory Listeners
  imports KafkaConfig
begin

text \<open>
  The listeners of a cluster: the getters of \<open>api/v1beta1/kafkacluster_types.go\<close>, the addresses of brokers
  (\<open>pkg/util/kafka/common.go\<close>) and the admission webhook for clusters (\<open>pkg/webhooks/kafkacluster_validator.go\<close>),
  which looks at nothing else.

  Ports are 32-bit words, compared as signed numbers; adding a broker id to a starting port wraps around.
\<close>

section \<open>Getters\<close>

definition defaultIngressControllerTargetPort :: "32 word" where
  "defaultIngressControllerTargetPort = 29092"

definition defaultAnyCastPort :: "32 word" where
  "defaultAnyCastPort = 29092"

definition defaultEnvoyAdminPort :: "32 word" where
  "defaultEnvoyAdminPort = 8081"

definition defaultEnvoyHealthCheckPort :: "32 word" where
  "defaultEnvoyHealthCheckPort = 8080"

definition GetAccessMethod :: "ExternalListenerConfig \<Rightarrow> string" where
  "GetAccessMethod c = (if AccessMethod c = [] then ''LoadBalancer'' else AccessMethod c)"

definition GetAnyCastPort :: "ExternalListenerConfig \<Rightarrow> 32 word" where
  "GetAnyCastPort c = (case AnyCastPort c of None \<Rightarrow> defaultAnyCastPort | Some p \<Rightarrow> p)"

definition GetIngressControllerTargetPort :: "ExternalListenerConfig \<Rightarrow> 32 word" where
  "GetIngressControllerTargetPort c = (case IngressControllerTargetPort c of None \<Rightarrow> defaultIngressControllerTargetPort | Some p \<Rightarrow> p)"

definition TLSEnabled :: "ExternalListenerConfig \<Rightarrow> bool" where
  "TLSEnabled c \<longleftrightarrow> ExternalStartingPort c = - 1"

definition GetBrokerPort :: "ExternalListenerConfig \<Rightarrow> 32 word \<Rightarrow> 32 word" where
  "GetBrokerPort c brokerId = (if TLSEnabled c then GetAnyCastPort c else ExternalStartingPort c + brokerId)"

definition GetEnvoyAdminPort :: "EnvoyConfig \<Rightarrow> 32 word" where
  "GetEnvoyAdminPort e = (case AdminPort e of Some p \<Rightarrow> p | None \<Rightarrow> defaultEnvoyAdminPort)"

definition GetEnvoyHealthCheckPort :: "EnvoyConfig \<Rightarrow> 32 word" where
  "GetEnvoyHealthCheckPort e = (case HealthCheckPort e of Some p \<Rightarrow> p | None \<Rightarrow> defaultEnvoyHealthCheckPort)"

definition GetIngressController :: "KafkaClusterSpec \<Rightarrow> string" where
  "GetIngressController s = (if IngressController s = [] then ''envoy'' else IngressController s)"

definition GetKubernetesClusterDomain :: "KafkaClusterSpec \<Rightarrow> string" where
  "GetKubernetesClusterDomain s = (if KubernetesClusterDomain s = [] then ''cluster.local'' else KubernetesClusterDomain s)"

section \<open>Addresses of brokers (pkg/util/kafka/common.go)\<close>

definition GetClusterServiceDomainName :: "KafkaCluster \<Rightarrow> string" where
  "GetClusterServiceDomainName c = kcNamespace c @ ''.svc.'' @ GetKubernetesClusterDomain (kcSpec c)"

definition GetBrokerServiceFqdn :: "KafkaCluster \<Rightarrow> Broker \<Rightarrow> string" where
  "GetBrokerServiceFqdn c b = kcName c @ ''-'' @ Itoa (sint (BrokerId b)) @ ''.'' @ GetClusterServiceDomainName c"

definition GetClusterServiceFqdn :: "KafkaCluster \<Rightarrow> string" where
  "GetClusterServiceFqdn c =
     kcName c @ (if HeadlessServiceEnabled (kcSpec c) then ''-headless'' else ''-all-broker'') @ ''.'' @ GetClusterServiceDomainName c"

text \<open>The loop over the internal listeners returns the port and whether it was marked for administration.\<close>

fun internal_port :: "InternalListenerConfig list \<Rightarrow> 32 word \<times> bool" where
  "internal_port [] = (0, False)"
| "internal_port (l # ls) =
     (if ilUsedForKafkaAdminCommunication l then (ilContainerPort l, True)
      else if ilUsedForInnerBrokerCommunication l \<and> \<not> UsedForControllerCommunication l then (ilContainerPort l, False)
      else internal_port ls)"

fun external_port :: "ExternalListenerConfig list \<Rightarrow> 32 word \<Rightarrow> 32 word" where
  "external_port [] p = p"
| "external_port (l # ls) p =
     (if elUsedForKafkaAdminCommunication l then elContainerPort l
      else if elUsedForInnerBrokerCommunication l then elContainerPort l
      else external_port ls p)"

definition GetBrokerContainerPort :: "KafkaCluster \<Rightarrow> err + 32 word" where
  "GetBrokerContainerPort c =
     (case internal_port (InternalListeners (specListenersConfig (kcSpec c))) of (p, adminSet) \<Rightarrow>
        let port = (if adminSet then p else external_port (ExternalListeners (specListenersConfig (kcSpec c))) p) in
        if sint port \<le> 0 then Inl (NewErr ''no suitable listener found for using as Kafka bootstrap server configuration'')
        else Inr port)"

definition getBootstrapServers :: "KafkaCluster \<Rightarrow> bool \<Rightarrow> err + string" where
  "getBootstrapServers c useService =
     (case GetBrokerContainerPort c of
        Inl e \<Rightarrow> Inl e
      | Inr port \<Rightarrow>
          Inr (join '','' (if useService then [GetClusterServiceFqdn c @ '':'' @ Itoa (sint port)]
                           else map (\<lambda>b. GetBrokerServiceFqdn c b @ '':'' @ Itoa (sint port)) (Brokers (kcSpec c)))))"

definition GatherBrokerConfigIfAvailable :: "mergo \<Rightarrow> KafkaClusterSpec \<Rightarrow> int \<Rightarrow> err + BrokerConfig option" where
  "GatherBrokerConfigIfAvailable M spec brokerID = (case find (\<lambda>b. sint (BrokerId b) = brokerID) (Brokers spec) of
     None \<Rightarrow> Inr None
   | Some b \<Rightarrow> GetBrokerConfig M b spec)"

section \<open>The webhook (pkg/webhooks/kafkacluster_validator.go)\<close>

text \<open>A field error has a path, the rejected value and a message.\<close>

datatype field_value = VInt int | VStr string

datatype field_error = FieldDuplicate string field_value | FieldInvalid string field_value string

datatype admission = Allowed | RejectedInvalid "field_error list" | RejectedInternal err

definition invalidExternalListenerStartingPortErrMsg :: string where
  "invalidExternalListenerStartingPortErrMsg = ''invalid external listener starting port number''"

definition invalidContainerPortForIngressControllerErrMsg :: string where
  "invalidContainerPortForIngressControllerErrMsg = ''invalid trarget port number for ingress controller deployment''"

definition listener_path :: "string \<Rightarrow> nat \<Rightarrow> string \<Rightarrow> string" where
  "listener_path list i child = ''spec.listenersConfig.'' @ list @ ''['' @ Itoa (int i) @ ''].'' @ child"

definition int32_slice :: "32 word list \<Rightarrow> string" where
  "int32_slice bs = ''['' @ join '' '' (map (\<lambda>b. Itoa (sint b)) bs) @ '']''"

definition port_count :: "(32 word, int) gomap \<Rightarrow> 32 word \<Rightarrow> int" where
  "port_count m p = (case map_of m p of None \<Rightarrow> 0 | Some n \<Rightarrow> n)"

text \<open>One of the two loops that count the container ports; the map goes on from one loop to the other.\<close>

fun unique_ports :: "string \<Rightarrow> nat \<Rightarrow> 32 word list \<Rightarrow> (32 word, int) gomap \<Rightarrow> field_error list \<times> (32 word, int) gomap" where
  "unique_ports list i [] m = ([], m)"
| "unique_ports list i (p # ps) m =
     (let m1 = AList.update p (port_count m p + 1) m in
      (case unique_ports list (Suc i) ps m1 of (errs, m2) \<Rightarrow>
         (if port_count m1 p > 1 then FieldDuplicate (listener_path list i ''containerPort'') (VInt (sint p)) # errs else errs, m2)))"

definition checkUniqueListenerContainerPort :: "ListenersConfig \<Rightarrow> field_error list" where
  "checkUniqueListenerContainerPort ls =
     (case unique_ports ''internalListeners'' 0 (map ilContainerPort (InternalListeners ls)) [] of (errs1, m) \<Rightarrow>
        (case unique_ports ''externalListeners'' 0 (map elContainerPort (ExternalListeners ls)) m of (errs2, m') \<Rightarrow> errs1 @ errs2))"

definition out_of_range :: "ExternalListenerConfig \<Rightarrow> Broker list \<Rightarrow> 32 word list" where
  "out_of_range l bs = map BrokerId (filter (\<lambda>b.
     let port = GetExternalPortForBroker (ExternalStartingPort l) (BrokerId b) in sint port < 1 \<or> sint port > 65535) bs)"

text \<open>A broker is listed twice when its port collides with both kinds of ports.\<close>

definition colliding :: "KafkaClusterSpec \<Rightarrow> ExternalListenerConfig \<Rightarrow> Broker list \<Rightarrow> 32 word list" where
  "colliding spec l bs = concat (map (\<lambda>b.
     let port = GetExternalPortForBroker (ExternalStartingPort l) (BrokerId b) in
     (if port = GetIngressControllerTargetPort l then [BrokerId b] else []) @
     (if GetIngressController spec = ''envoy'' \<and>
         (port = GetEnvoyAdminPort (specEnvoyConfig spec) \<or> port = GetEnvoyHealthCheckPort (specEnvoyConfig spec))
      then [BrokerId b] else [])) bs)"

definition starting_port_errors :: "KafkaClusterSpec \<Rightarrow> nat \<Rightarrow> ExternalListenerConfig \<Rightarrow> field_error list" where
  "starting_port_errors spec i l =
     (let bad = out_of_range l (Brokers spec);
          coll = colliding spec l (Brokers spec);
          path = listener_path ''externalListeners'' i ''externalStartingPort'';
          start = VInt (sint (ExternalStartingPort l))
      in (if length bad > 0 then
            [FieldInvalid path start (invalidExternalListenerStartingPortErrMsg @ '': ExternalListener '' @ [CHR 0x27] @ elName l @ [CHR 0x27] @
               '' would generate external access port numbers (externalStartingPort + Broker ID) that are out of range (not between 1 and 65535) for brokers '' @
               int32_slice bad)] else []) @
         (if length coll > 0 then
            [FieldInvalid path start (invalidExternalListenerStartingPortErrMsg @ '': ExternalListener '' @ [CHR 0x27] @ elName l @ [CHR 0x27] @
               '' would generate external access port numbers (externalStartingPort + Broker ID) that collide with either the envoy admin port ('' @
               [CHR 0x27] @ Itoa (sint (GetEnvoyAdminPort (specEnvoyConfig spec))) @ [CHR 0x27] @ ''), the envoy health-check port ('' @
               [CHR 0x27] @ Itoa (sint (GetEnvoyHealthCheckPort (specEnvoyConfig spec))) @ [CHR 0x27] @ ''), or the ingressControllerTargetPort ('' @
               [CHR 0x27] @ Itoa (sint (GetIngressControllerTargetPort l)) @ [CHR 0x27] @ '') for brokers '' @ int32_slice coll)] else []))"

fun indexed :: "(nat \<Rightarrow> 'a \<Rightarrow> 'b list) \<Rightarrow> nat \<Rightarrow> 'a list \<Rightarrow> 'b list" where
  "indexed f i [] = []"
| "indexed f i (x # xs) = f i x @ indexed f (Suc i) xs"

definition checkExternalListenerStartingPort :: "KafkaClusterSpec \<Rightarrow> field_error list" where
  "checkExternalListenerStartingPort spec = indexed (starting_port_errors spec) 0 (ExternalListeners (specListenersConfig spec))"

definition target_port_errors :: "KafkaClusterSpec \<Rightarrow> nat \<Rightarrow> ExternalListenerConfig \<Rightarrow> field_error list" where
  "target_port_errors spec i l =
     (let port = GetIngressControllerTargetPort l;
          path = listener_path ''externalListeners'' i ''ingressControllerTargetPort'';
          msg = (\<lambda>which. invalidContainerPortForIngressControllerErrMsg @ '': ExternalListener '' @ [CHR 0x27] @ elName l @ [CHR 0x27] @
                  '' uses an ingress controller target port number that collides with the envoy'' @ [CHR 0x27] @ ''s '' @ which @ '' port'')
      in if GetAccessMethod l \<noteq> ''LoadBalancer'' then []
         else (if port = GetEnvoyAdminPort (specEnvoyConfig spec) then [FieldInvalid path (VInt (sint port)) (msg ''admin'')] else []) @
              (if port = GetEnvoyHealthCheckPort (specEnvoyConfig spec) then [FieldInvalid path (VInt (sint port)) (msg ''health-check'')] else []))"

definition checkTargetPortsCollisionForEnvoy :: "KafkaClusterSpec \<Rightarrow> field_error list" where
  "checkTargetPortsCollisionForEnvoy spec =
     (if GetIngressController spec \<noteq> ''envoy'' then []
      else
        let ap = GetEnvoyAdminPort (specEnvoyConfig spec); hcp = GetEnvoyHealthCheckPort (specEnvoyConfig spec) in
        (if ap = hcp then [FieldInvalid ''spec.envoyConfig.adminPort'' (VInt (sint ap)) (invalidContainerPortForIngressControllerErrMsg @
            '': The envoy configuration uses an admin port number that collides with the health-check port number'')] else []) @
        indexed (target_port_errors spec) 0 (ExternalListeners (specListenersConfig spec)))"

definition checkInternalListeners :: "KafkaClusterSpec \<Rightarrow> field_error list" where
  "checkInternalListeners spec = checkUniqueListenerContainerPort (specListenersConfig spec)"

definition checkExternalListeners :: "KafkaClusterSpec \<Rightarrow> field_error list" where
  "checkExternalListeners spec = checkExternalListenerStartingPort spec @ checkTargetPortsCollisionForEnvoy spec"

definition checkInternalAndExternalListeners :: "KafkaClusterSpec \<Rightarrow> field_error list" where
  "checkInternalAndExternalListeners spec = checkInternalListeners spec @ checkExternalListeners spec"

definition admit :: "field_error list \<Rightarrow> admission" where
  "admit errs = (if length errs = 0 then Allowed else RejectedInvalid errs)"

definition Cluster_ValidateCreate :: "KafkaCluster \<Rightarrow> admission" where
  "Cluster_ValidateCreate c = admit (checkInternalAndExternalListeners (kcSpec c))"

definition Cluster_ValidateUpdate :: "KafkaCluster \<Rightarrow> KafkaCluster \<Rightarrow> admission" where
  "Cluster_ValidateUpdate old c = admit (checkInternalAndExternalListeners (kcSpec c))"

definition Cluster_ValidateDelete :: "KafkaCluster \<Rightarrow> admission" where
  "Cluster_ValidateDelete c = Allowed"

section \<open>Lemmas\<close>

lemma admit_Allowed [simp]: "admit errs = Allowed \<longleftrightarrow> errs = []"
  by (simp add: admit_def)

lemma indexed_Nil: "indexed f i xs = [] \<longleftrightarrow> (\<forall>j < length xs. f (i + j) (xs ! j) = [])"
proof (induction xs arbitrary: i)
  case (Cons x xs)
  then show ?case by (auto simp: less_Suc_eq_0_disj)
qed simp

lemma indexed_Nil_all: "(\<And>j x. f j x = [] \<longleftrightarrow> P x) \<Longrightarrow> indexed f i xs = [] \<longleftrightarrow> (\<forall>x \<in> set xs. P x)"
  by (induction xs arbitrary: i) auto

lemma port_count_update: "port_count (AList.update p n m) q = (if q = p then n else port_count m q)"
  by (simp add: port_count_def gm_get_update)

lemma unique_ports_counts:
  "port_count (snd (unique_ports list i ps m)) p = port_count m p + int (count_list ps p)"
proof (induction ps arbitrary: i m)
  case (Cons q ps)
  show ?case
    using Cons.IH [of "Suc i" "AList.update q (port_count m q + 1) m"]
    by (auto simp: Let_def port_count_update split: prod.split)
qed simp

lemma unique_ports_Nil:
  assumes "\<forall>p. 0 \<le> port_count m p"
  shows "fst (unique_ports list i ps m) = [] \<longleftrightarrow> distinct ps \<and> (\<forall>p \<in> set ps. port_count m p = 0)"
  using assms
proof (induction ps arbitrary: i m)
  case (Cons p ps)
  let ?m = "AList.update p (port_count m p + 1) m"
  have "\<forall>q. 0 \<le> port_count ?m q" using Cons.prems by (simp add: port_count_update)
  note IH = Cons.IH [OF this, of "Suc i"]
  have "fst (unique_ports list i (p # ps) m) = [] \<longleftrightarrow> port_count m p \<le> 0 \<and> fst (unique_ports list (Suc i) ps ?m) = []"
    by (auto simp: Let_def port_count_update split: prod.split)
  also have "\<dots> \<longleftrightarrow> port_count m p = 0 \<and> distinct ps \<and> p \<notin> set ps \<and> (\<forall>q \<in> set ps. port_count m q = 0)"
    using spec [OF Cons.prems, of p] unfolding IH port_count_update by (auto split: if_splits)
  finally show ?case by auto
qed simp

lemma unique_container_ports:
  "checkUniqueListenerContainerPort ls = [] \<longleftrightarrow>
     distinct (map ilContainerPort (InternalListeners ls) @ map elContainerPort (ExternalListeners ls))"
proof -
  let ?i = "unique_ports ''internalListeners'' 0 (map ilContainerPort (InternalListeners ls)) []"
  let ?e = "unique_ports ''externalListeners'' 0 (map elContainerPort (ExternalListeners ls)) (snd ?i)"
  have z: "port_count [] p = 0" for p by (simp add: port_count_def)
  have counts: "port_count (snd ?i) p = int (count_list (map ilContainerPort (InternalListeners ls)) p)" for p
    unfolding unique_ports_counts z by simp
  have "checkUniqueListenerContainerPort ls = fst ?i @ fst ?e"
    by (simp add: checkUniqueListenerContainerPort_def split: prod.split)
  then show ?thesis
    using unique_ports_Nil [of "[]" "''internalListeners''" 0 "map ilContainerPort (InternalListeners ls)"]
      unique_ports_Nil [of "snd ?i" "''externalListeners''" 0 "map elContainerPort (ExternalListeners ls)"]
    by (auto simp: z counts count_list_0_iff) (metis imageI)
qed

text \<open>The port a listener gives to a broker is usable: a port number that nothing else of the pod listens on.\<close>

definition usable_port :: "KafkaClusterSpec \<Rightarrow> ExternalListenerConfig \<Rightarrow> 32 word \<Rightarrow> bool" where
  "usable_port spec l port \<longleftrightarrow> 1 \<le> sint port \<and> sint port \<le> 65535 \<and> port \<noteq> GetIngressControllerTargetPort l \<and>
     (GetIngressController spec = ''envoy'' \<longrightarrow>
        port \<noteq> GetEnvoyAdminPort (specEnvoyConfig spec) \<and> port \<noteq> GetEnvoyHealthCheckPort (specEnvoyConfig spec))"

lemma starting_port_ok:
  "starting_port_errors spec i l = [] \<longleftrightarrow>
     (\<forall>b \<in> set (Brokers spec). usable_port spec l (GetExternalPortForBroker (ExternalStartingPort l) (BrokerId b)))"
proof -
  have "out_of_range l bs = [] \<longleftrightarrow> (\<forall>b \<in> set bs. let p = GetExternalPortForBroker (ExternalStartingPort l) (BrokerId b) in
      1 \<le> sint p \<and> sint p \<le> 65535)" for bs
    by (induction bs) (auto simp: out_of_range_def Let_def)
  moreover have "colliding spec l bs = [] \<longleftrightarrow> (\<forall>b \<in> set bs. let p = GetExternalPortForBroker (ExternalStartingPort l) (BrokerId b) in
      p \<noteq> GetIngressControllerTargetPort l \<and> (GetIngressController spec = ''envoy'' \<longrightarrow>
        p \<noteq> GetEnvoyAdminPort (specEnvoyConfig spec) \<and> p \<noteq> GetEnvoyHealthCheckPort (specEnvoyConfig spec)))" for bs
    by (induction bs) (auto simp: colliding_def Let_def)
  ultimately show ?thesis
    by (auto simp: starting_port_errors_def usable_port_def Let_def)
qed

lemma target_ports_ok:
  "checkTargetPortsCollisionForEnvoy spec = [] \<longleftrightarrow>
     (GetIngressController spec = ''envoy'' \<longrightarrow>
        GetEnvoyAdminPort (specEnvoyConfig spec) \<noteq> GetEnvoyHealthCheckPort (specEnvoyConfig spec) \<and>
        (\<forall>l \<in> set (ExternalListeners (specListenersConfig spec)). GetAccessMethod l = ''LoadBalancer'' \<longrightarrow>
           GetIngressControllerTargetPort l \<noteq> GetEnvoyAdminPort (specEnvoyConfig spec) \<and>
           GetIngressControllerTargetPort l \<noteq> GetEnvoyHealthCheckPort (specEnvoyConfig spec)))"
proof -
  have "target_port_errors spec i l = [] \<longleftrightarrow> (GetAccessMethod l = ''LoadBalancer'' \<longrightarrow>
           GetIngressControllerTargetPort l \<noteq> GetEnvoyAdminPort (specEnvoyConfig spec) \<and>
           GetIngressControllerTargetPort l \<noteq> GetEnvoyHealthCheckPort (specEnvoyConfig spec))" for i l
    by (simp add: target_port_errors_def Let_def)
  from indexed_Nil_all [of "target_port_errors spec", OF this]
  show ?thesis by (auto simp: checkTargetPortsCollisionForEnvoy_def Let_def)
qed

section \<open>Properties\<close>

text \<open>
  (C25) A cluster is admitted exactly when it is well-formed: no two listeners, internal or external, have the same
  container port; every external listener gives every broker a port between 1 and 65535 that is neither its ingress
  target port nor, with Envoy, one of Envoy's own ports; and Envoy's two ports differ from each other and from the
  target port of every load-balanced listener. An update is judged by the new object alone.
\<close>

theorem cluster_admission_correct:
  "(Cluster_ValidateCreate c = Allowed \<longleftrightarrow>
      (let spec = kcSpec c; ls = specListenersConfig spec;
           admin = GetEnvoyAdminPort (specEnvoyConfig spec); health = GetEnvoyHealthCheckPort (specEnvoyConfig spec) in
       distinct (map ilContainerPort (InternalListeners ls) @ map elContainerPort (ExternalListeners ls)) \<and>
       (\<forall>l \<in> set (ExternalListeners ls). \<forall>b \<in> set (Brokers spec).
          usable_port spec l (GetExternalPortForBroker (ExternalStartingPort l) (BrokerId b))) \<and>
       (GetIngressController spec = ''envoy'' \<longrightarrow> admin \<noteq> health \<and>
          (\<forall>l \<in> set (ExternalListeners ls). GetAccessMethod l = ''LoadBalancer'' \<longrightarrow>
             GetIngressControllerTargetPort l \<noteq> admin \<and> GetIngressControllerTargetPort l \<noteq> health)))) \<and>
   Cluster_ValidateUpdate old c = Cluster_ValidateCreate c"
proof -
  have "checkExternalListenerStartingPort spec = [] \<longleftrightarrow>
     (\<forall>l \<in> set (ExternalListeners (specListenersConfig spec)). \<forall>b \<in> set (Brokers spec).
        usable_port spec l (GetExternalPortForBroker (ExternalStartingPort l) (BrokerId b)))" for spec
    unfolding checkExternalListenerStartingPort_def
    by (rule indexed_Nil_all) (rule starting_port_ok)
  then show ?thesis
    by (simp add: Cluster_ValidateCreate_def Cluster_ValidateUpdate_def checkInternalAndExternalListeners_def
        checkInternalListeners_def checkExternalListeners_def unique_container_ports target_ports_ok Let_def)
qed

text \<open>A cluster with an internal and an external listener for the sample specification.\<close>

definition internal_listener :: InternalListenerConfig where
  "internal_listener = \<lparr>ilName = ''plaintext'', ilContainerPort = 29092, ilUsedForInnerBrokerCommunication = True,
     ilUsedForKafkaAdminCommunication = False, UsedForControllerCommunication = False, ilType = ''plaintext'', ilSSLClientAuth = [],
     ilServerSSLCertSecret = None, InternalStartingPort = 0, ExternalListenerForHostname = []\<rparr>"

definition external_listener :: ExternalListenerConfig where
  "external_listener = \<lparr>elName = ''external'', elContainerPort = 9094, elUsedForInnerBrokerCommunication = False,
     elUsedForKafkaAdminCommunication = False, ExternalStartingPort = 19090, AnyCastPort = None,
     IngressControllerTargetPort = None, AccessMethod = [], elType = ''plaintext'', elSSLClientAuth = [], elServerSSLCertSecret = None,
     elSettings = zero_IngressServiceSettings, elConfig = None\<rparr>"

definition listening_cluster :: "ExternalListenerConfig list \<Rightarrow> KafkaCluster" where
  "listening_cluster els = zero_KafkaCluster\<lparr>kcName := ''kafka'', kcNamespace := ''ns'', kcGeneration := 1,
     kcSpec := sample_spec\<lparr>specListenersConfig := no_listeners\<lparr>ExternalListeners := els, InternalListeners := [internal_listener]\<rparr>\<rparr>,
     ClusterState := ''ClusterRunning''\<rparr>"

lemma cluster_admission_witness:
  "Cluster_ValidateCreate (listening_cluster [external_listener]) = Allowed \<and>
   Cluster_ValidateCreate (listening_cluster [external_listener, external_listener]) \<noteq> Allowed"
  using cluster_admission_correct [of "listening_cluster [external_listener]"]
    cluster_admission_correct [of "listening_cluster [external_listener, external_listener]"]
  by code_simp

text \<open>A listener that asks for TLS has the starting port -1, which the webhook adds to the broker id like any other.\<close>

lemma tls_listener_rejected:
  assumes "l \<in> set (ExternalListeners (specListenersConfig (kcSpec c)))" "TLSEnabled l"
    and "b \<in> set (Brokers (kcSpec c))" "BrokerId b = 0"
  shows "Cluster_ValidateCreate c \<noteq> Allowed"
proof
  assume "Cluster_ValidateCreate c = Allowed"
  then have "starting_port_errors (kcSpec c) i l = []" for i
    using assms(1,3) unfolding starting_port_ok Cluster_ValidateCreate_def admit_Allowed checkInternalAndExternalListeners_def
      checkExternalListeners_def checkExternalListenerStartingPort_def append_is_Nil_conv
      indexed_Nil_all [of "starting_port_errors (kcSpec c)", OF starting_port_ok] by blast
  then show False
    using assms by (simp add: starting_port_ok usable_port_def GetExternalPortForBroker_def TLSEnabled_def) force
qed

end
