(* ===== verification/KafkaClient.thy ===== *)
theory KafkaClient
  imports Listeners
begin

text \<open>
  The resources \<open>KafkaTopic\<close> and \<open>KafkaUser\<close> (\<open>api/v1alpha1\<close>), the environment of the webhook and the controllers
  that serve them, and the Kafka client of the operator (\<open>pkg/kafkaclient\<close>: \<open>topics.go\<close>, \<open>users.go\<close>, \<open>healthcheck.go\<close>),
  which forwards to the Sarama library.

  Sarama, the Kubernetes API and the certificates are the record \<open>renv\<close>; each of its functions takes the events
  so far. Waiting for a topic to disappear has no bound in the source, so the model of it is a partial function:
  \<open>None\<close> stands for a call that does not return.
\<close>

section \<open>Resources\<close>

record KafkaTopic =
  ktName :: string
  ktNamespace :: string
  ktAnnotations :: "(string, string) gomap"
  ktLabels :: "(string, string) gomap option"
  ktFinalizers :: "string list"
  ktDeletionTimestamp :: "time option"
  ktSpecName :: string
  Partitions :: "32 word"
  ReplicationFactor :: "32 word"
  ktConfig :: "(string, string) gomap"
  ktClusterRefName :: string
  ktClusterRefNamespace :: string
  ktManagedBy :: string
  ktState :: string

record UserTopicGrant =
  TopicName :: string
  AccessType :: string
  PatternType :: string

record KafkaUser =
  kuName :: string
  kuNamespace :: string
  kuLabels :: "(string, string) gomap option"
  kuFinalizers :: "string list"
  kuDeletionTimestamp :: "time option"
  kuClusterRefName :: string
  kuClusterRefNamespace :: string
  TopicGrants :: "UserTopicGrant list"
  CreateCert :: "bool option"
  PKIBackendSpec :: "(string \<times> string) option"
  kuSpecAnnotations :: "(string, string) gomap"
  kuState :: string
  kuACLs :: "string list"

section \<open>Sarama\<close>

type_synonym config_map = "(string, string option) gomap"

record TopicDetail =
  NumPartitions :: "32 word"
  tdReplicationFactor :: "16 word"
  ConfigEntries :: config_map

datatype AclResourcePatternType = AclPatternUnknown | AclPatternAny | AclPatternMatch | AclPatternLiteral | AclPatternPrefixed

datatype AclResourceType = AclResourceTopic | AclResourceGroup

datatype AclOperation =
  AclOperationRead | AclOperationWrite | AclOperationCreate | AclOperationDelete | AclOperationDescribe | AclOperationDescribeConfigs | AclOperationAny

record Resource =
  ResourceType :: AclResourceType
  ResourceName :: string
  ResourcePatternType :: AclResourcePatternType

text \<open>Host and permission are always \<open>*\<close> and \<open>Allow\<close> for the entries the client creates.\<close>

record Acl =
  Principal :: string
  Operation :: AclOperation

text \<open>The filter for a deletion; the permission type is any.\<close>

record AclFilter =
  filterPrincipal :: string
  filterPatternType :: AclResourcePatternType
  filterOperation :: AclOperation
  filterResourceType :: AclResourceType

section \<open>Environment\<close>

datatype revent =
    RGetTopic string string
  | RGetUser string string
  | RGetKafka string string
  | RListTopicCRs string
  | RTopicStatus KafkaTopic
  | RTopicUpdate KafkaTopic
  | RUserStatus KafkaUser
  | RUserUpdate KafkaUser
  | RConnect
  | RListTopics
  | RDescribeTopics string
  | RCreateTopic string TopicDetail
  | RDeleteTopic string
  | RCreatePartitions string "32 word"
  | RAlterTopicConfig string config_map
  | RCreateAcl Resource Acl
  | RDeleteAcl AclFilter
  | RReconcileCertificate string string
  | RFinalizeCertificate string string

type_synonym rtrace = "revent list"

record renv =
  rGetTopic :: "rtrace \<Rightarrow> string \<Rightarrow> string \<Rightarrow> err + KafkaTopic"
  rGetUser :: "rtrace \<Rightarrow> string \<Rightarrow> string \<Rightarrow> err + KafkaUser"
  rGetKafka :: "rtrace \<Rightarrow> string \<Rightarrow> string \<Rightarrow> err + KafkaCluster"
  rListTopicCRs :: "rtrace \<Rightarrow> string \<Rightarrow> err + KafkaTopic list"
  rTopicStatus :: "rtrace \<Rightarrow> KafkaTopic \<Rightarrow> err + KafkaTopic"
  rTopicUpdate :: "rtrace \<Rightarrow> KafkaTopic \<Rightarrow> err + KafkaTopic"
  rUserStatus :: "rtrace \<Rightarrow> KafkaUser \<Rightarrow> err + KafkaUser"
  rUserUpdate :: "rtrace \<Rightarrow> KafkaUser \<Rightarrow> err + KafkaUser"
  rConnect :: "rtrace \<Rightarrow> err option"
  rNumBrokers :: "rtrace \<Rightarrow> int"
  rListTopics :: "rtrace \<Rightarrow> err + (string, TopicDetail) gomap"
  rDescribeTopics :: "rtrace \<Rightarrow> string \<Rightarrow> err + nat list"
  rCreateTopic :: "rtrace \<Rightarrow> string \<Rightarrow> TopicDetail \<Rightarrow> err option"
  rDeleteTopic :: "rtrace \<Rightarrow> string \<Rightarrow> err option"
  rCreatePartitions :: "rtrace \<Rightarrow> string \<Rightarrow> 32 word \<Rightarrow> err option"
  rAlterTopicConfig :: "rtrace \<Rightarrow> string \<Rightarrow> config_map \<Rightarrow> err option"
  rCreateAcl :: "rtrace \<Rightarrow> Resource \<Rightarrow> Acl \<Rightarrow> err option"
  rDeleteAcl :: "rtrace \<Rightarrow> AclFilter \<Rightarrow> err + err option list"
  rReconcileCertificate :: "rtrace \<Rightarrow> string \<Rightarrow> KafkaUser \<Rightarrow> err + (err + string)"
  rFinalizeCertificate :: "rtrace \<Rightarrow> string \<Rightarrow> KafkaUser \<Rightarrow> err option"
  rCmpDiff :: "config_map \<Rightarrow> config_map \<Rightarrow> string"
  rParseDuration :: "string \<Rightarrow> err option"
  rOwnershipAnnotation :: string

text \<open>The name of the annotation is a constant of the cluster registry's package, so it is a field of the environment.\<close>

definition ObjectManagedByClusterRegistry :: "renv \<Rightarrow> (string, string) gomap \<Rightarrow> bool" where
  "ObjectManagedByClusterRegistry E annotations \<longleftrightarrow> map_of annotations (rOwnershipAnnotation E) \<noteq> None"

definition typed_err :: "errtype \<Rightarrow> string \<Rightarrow> err \<Rightarrow> err" where
  "typed_err t msg e = typed t (WrapErr msg e)"

section \<open>Topics (topics.go)\<close>

definition MapStringStringPointer :: "(string, string) gomap \<Rightarrow> config_map" where
  "MapStringStringPointer m = map (\<lambda>(k, v). (k, Some v)) m"

definition Client_GetTopic :: "renv \<Rightarrow> string \<Rightarrow> rtrace \<Rightarrow> (err + TopicDetail option) \<times> rtrace" where
  "Client_GetTopic E name tr = (case rListTopics E tr of
     Inl e \<Rightarrow> (Inl e, tr @ [RListTopics])
   | Inr topics \<Rightarrow> (Inr (map_of topics name), tr @ [RListTopics]))"

definition Client_CreateTopic :: "renv \<Rightarrow> string \<Rightarrow> TopicDetail \<Rightarrow> rtrace \<Rightarrow> err option \<times> rtrace" where
  "Client_CreateTopic E name d tr = (case rCreateTopic E tr name d of
     Some e \<Rightarrow> (Some (typed_err CreateTopicError ''failed to create topic'' e), tr @ [RCreateTopic name d])
   | None \<Rightarrow> (None, tr @ [RCreateTopic name d]))"

text \<open>One round per tick of the clock.\<close>

partial_function (option) wait_gone :: "renv \<Rightarrow> string \<Rightarrow> rtrace \<Rightarrow> (err option \<times> rtrace) option" where
  "wait_gone E name tr = (case Client_GetTopic E name tr of
     (Inl e, tr1) \<Rightarrow> Some (Some e, tr1)
   | (Inr None, tr1) \<Rightarrow> Some (None, tr1)
   | (Inr (Some d), tr1) \<Rightarrow> wait_gone E name tr1)"

definition Client_DeleteTopic :: "renv \<Rightarrow> string \<Rightarrow> bool \<Rightarrow> rtrace \<Rightarrow> (err option \<times> rtrace) option" where
  "Client_DeleteTopic E name wait tr =
     (let tr1 = tr @ [RDeleteTopic name] in
      (case rDeleteTopic E tr name of
         Some e \<Rightarrow> Some (Some e, tr1)
       | None \<Rightarrow> if wait then wait_gone E name tr1 else Some (None, tr1)))"

definition EnsurePartitionCount :: "renv \<Rightarrow> string \<Rightarrow> 32 word \<Rightarrow> rtrace \<Rightarrow> (err + bool) \<times> rtrace" where
  "EnsurePartitionCount E topic desired tr =
     (let tr1 = tr @ [RDescribeTopics topic] in
      (case rDescribeTopics E tr topic of
         Inl e \<Rightarrow> (Inl (typed_err BrokersRequestError ''error describing topics'' e), tr1)
       | Inr [] \<Rightarrow> (Inl (typed_err TopicNotFound (''could not find topic '' @ topic) (NewErr ''empty describe topic response'')), tr1)
       | Inr (n # ns) \<Rightarrow>
           if int n > 2147483647 then (Inl (typed_err BrokersRequestError ''invalid partition count'' (NewErr ''partition count out of valid range for int32 conversion'')), tr1)
           else if desired \<noteq> of_nat n
           then (case rCreatePartitions E tr1 topic desired of
                   Some e \<Rightarrow> (Inl e, tr1 @ [RCreatePartitions topic desired])
                 | None \<Rightarrow> (Inr True, tr1 @ [RCreatePartitions topic desired]))
           else (Inr False, tr1)))"

definition EnsureTopicConfig :: "renv \<Rightarrow> string \<Rightarrow> config_map \<Rightarrow> rtrace \<Rightarrow> err option \<times> rtrace" where
  "EnsureTopicConfig E topic conf tr = (rAlterTopicConfig E tr topic conf, tr @ [RAlterTopicConfig topic conf])"

section \<open>Access control lists (users.go)\<close>

definition AclPatternTypeMapping :: "string \<Rightarrow> AclResourcePatternType" where
  "AclPatternTypeMapping t =
     (if t = ''any'' then AclPatternAny else if t = ''match'' then AclPatternMatch
      else if t = ''literal'' then AclPatternLiteral else if t = ''prefixed'' then AclPatternPrefixed else AclPatternUnknown)"

definition default_pattern :: "string \<Rightarrow> string" where
  "default_pattern t = (if t = [] then ''literal'' else t)"

text \<open>The calls of \<open>CreateACL\<close> in order, until one fails.\<close>

fun create_acls :: "renv \<Rightarrow> (Resource \<times> Acl) list \<Rightarrow> rtrace \<Rightarrow> err option \<times> rtrace" where
  "create_acls E [] tr = (None, tr)"
| "create_acls E ((r, a) # as) tr = (case rCreateAcl E tr r a of
     Some e \<Rightarrow> (Some e, tr @ [RCreateAcl r a])
   | None \<Rightarrow> create_acls E as (tr @ [RCreateAcl r a]))"

definition topic_resource :: "string \<Rightarrow> AclResourcePatternType \<Rightarrow> Resource" where
  "topic_resource topic p = \<lparr>ResourceType = AclResourceTopic, ResourceName = topic, ResourcePatternType = p\<rparr>"

definition common_acls :: "string \<Rightarrow> string \<Rightarrow> AclResourcePatternType \<Rightarrow> (Resource \<times> Acl) list" where
  "common_acls dn topic p =
     [(topic_resource topic p, \<lparr>Principal = dn, Operation = AclOperationDescribe\<rparr>),
      (topic_resource topic p, \<lparr>Principal = dn, Operation = AclOperationDescribeConfigs\<rparr>)]"

definition read_acls :: "string \<Rightarrow> string \<Rightarrow> AclResourcePatternType \<Rightarrow> (Resource \<times> Acl) list" where
  "read_acls dn topic p = common_acls dn topic p @
     [(topic_resource topic p, \<lparr>Principal = dn, Operation = AclOperationRead\<rparr>),
      (\<lparr>ResourceType = AclResourceGroup, ResourceName = ''*'', ResourcePatternType = AclPatternLiteral\<rparr>,
       \<lparr>Principal = dn, Operation = AclOperationRead\<rparr>)]"

definition write_acls :: "string \<Rightarrow> string \<Rightarrow> AclResourcePatternType \<Rightarrow> (Resource \<times> Acl) list" where
  "write_acls dn topic p = common_acls dn topic p @
     [(topic_resource topic p, \<lparr>Principal = dn, Operation = AclOperationWrite\<rparr>),
      (topic_resource topic p, \<lparr>Principal = dn, Operation = AclOperationCreate\<rparr>)]"

definition CreateUserACLs :: "renv \<Rightarrow> string \<Rightarrow> string \<Rightarrow> string \<Rightarrow> string \<Rightarrow> rtrace \<Rightarrow> err option \<times> rtrace" where
  "CreateUserACLs E accessType patternType dn topic tr =
     (let userName = ''User:'' @ dn; p = AclPatternTypeMapping (default_pattern patternType) in
      if p = AclPatternUnknown then (Some (typed_err InternalError ''unrecognized pattern type'' (NewErr (''unknown type: '' @ patternType))), tr)
      else if accessType = ''read'' then create_acls E (read_acls userName topic p) tr
      else if accessType = ''write'' then create_acls E (write_acls userName topic p) tr
      else (Some (typed_err InternalError ''unrecognized access type'' (NewErr (''unknown type: '' @ accessType))), tr))"

definition delete_filter :: "string \<Rightarrow> string \<Rightarrow> AclFilter" where
  "delete_filter dn patternType = \<lparr>filterPrincipal = dn, filterPatternType = AclPatternTypeMapping (default_pattern patternType),
     filterOperation = AclOperationDelete, filterResourceType = AclResourceTopic\<rparr>"

fun first_error :: "err option list \<Rightarrow> err option" where
  "first_error [] = None"
| "first_error (None # es) = first_error es"
| "first_error (Some e # es) = Some e"

definition DeleteUserACLs :: "renv \<Rightarrow> string \<Rightarrow> string \<Rightarrow> rtrace \<Rightarrow> err option \<times> rtrace" where
  "DeleteUserACLs E dn patternType tr =
     (let f = delete_filter dn patternType; tr1 = tr @ [RDeleteAcl f] in
      (case rDeleteAcl E tr f of Inl e \<Rightarrow> (Some e, tr1) | Inr matches \<Rightarrow> (first_error matches, tr1)))"

section \<open>Health (healthcheck.go)\<close>

text \<open>The metadata that the Sarama client has cached: a function per query.\<close>

record metadata =
  mdTopics :: "err + string list"
  mdPartitions :: "string \<Rightarrow> err + 32 word list"
  mdReplicas :: "string \<Rightarrow> 32 word \<Rightarrow> err + 32 word list"
  mdInSyncReplicas :: "string \<Rightarrow> 32 word \<Rightarrow> err + 32 word list"
  mdOfflineReplicas :: "string \<Rightarrow> 32 word \<Rightarrow> err + 32 word list"

fun add_brokers :: "32 word list \<Rightarrow> (32 word, unit) gomap \<Rightarrow> (32 word, unit) gomap" where
  "add_brokers [] m = m"
| "add_brokers (b # bs) m = add_brokers bs (AList.update b () m)"

fun offline_partitions :: "metadata \<Rightarrow> string \<Rightarrow> 32 word list \<Rightarrow> (32 word, unit) gomap \<Rightarrow> err + (32 word, unit) gomap" where
  "offline_partitions D t [] m = Inr m"
| "offline_partitions D t (p # ps) m = (case mdOfflineReplicas D t p of
     Inl e \<Rightarrow> Inl (WrapErr ''could not fetch offline replicas'' e)
   | Inr bs \<Rightarrow> offline_partitions D t ps (add_brokers bs m))"

definition out_of_sync :: "32 word list \<Rightarrow> 32 word list \<Rightarrow> 32 word list" where
  "out_of_sync replicas isr = (if length replicas \<noteq> length isr then filter (\<lambda>r. r \<notin> set isr) replicas else [])"

fun out_of_sync_partitions :: "metadata \<Rightarrow> string \<Rightarrow> 32 word list \<Rightarrow> (32 word, unit) gomap \<Rightarrow> err + (32 word, unit) gomap" where
  "out_of_sync_partitions D t [] m = Inr m"
| "out_of_sync_partitions D t (p # ps) m = (case mdReplicas D t p of
     Inl e \<Rightarrow> Inl (WrapErr ''could not fetch replicas'' e)
   | Inr rs \<Rightarrow>
       (case mdInSyncReplicas D t p of
          Inl e \<Rightarrow> Inl (WrapErr ''could not fetch isr replicas'' e)
        | Inr isr \<Rightarrow> out_of_sync_partitions D t ps (add_brokers (out_of_sync rs isr) m)))"

text \<open>The loop over the topics that both functions share; \<open>f\<close> is the loop over the partitions of one.\<close>

fun over_topics ::
  "metadata \<Rightarrow> (string \<Rightarrow> 32 word list \<Rightarrow> (32 word, unit) gomap \<Rightarrow> err + (32 word, unit) gomap) \<Rightarrow> string list \<Rightarrow>
     (32 word, unit) gomap \<Rightarrow> err + (32 word, unit) gomap" where
  "over_topics D f [] m = Inr m"
| "over_topics D f (t # ts) m = (case mdPartitions D t of
     Inl e \<Rightarrow> Inl (WrapErr ''could not fetch partition'' e)
   | Inr ps \<Rightarrow> (case f t ps m of Inl e \<Rightarrow> Inl e | Inr m1 \<Rightarrow> over_topics D f ts m1))"

definition AllOfflineReplicas :: "metadata \<Rightarrow> err + 32 word list" where
  "AllOfflineReplicas D = (case mdTopics D of
     Inl e \<Rightarrow> Inl (WrapErr ''could not fetch topics'' e)
   | Inr ts \<Rightarrow> (case over_topics D (offline_partitions D) ts [] of Inl e \<Rightarrow> Inl e | Inr m \<Rightarrow> Inr (map fst m)))"

definition OutOfSyncReplicas :: "metadata \<Rightarrow> err + 32 word list" where
  "OutOfSyncReplicas D = (case mdTopics D of
     Inl e \<Rightarrow> Inl (WrapErr ''could not fetch topics'' e)
   | Inr ts \<Rightarrow> (case over_topics D (out_of_sync_partitions D) ts [] of Inl e \<Rightarrow> Inl e | Inr m \<Rightarrow> Inr (map fst m)))"

section \<open>A sample environment\<close>

text \<open>Every call succeeds, Kafka has no topics, and no resource but one topic and one user is there.\<close>

definition sample_topic :: KafkaTopic where
  "sample_topic = \<lparr>ktName = ''topic'', ktNamespace = ''ns'', ktAnnotations = [], ktLabels = None, ktFinalizers = [],
     ktDeletionTimestamp = None, ktSpecName = ''t'', Partitions = 3, ReplicationFactor = 2, ktConfig = [(''k'', ''v'')],
     ktClusterRefName = ''kafka'', ktClusterRefNamespace = [], ktManagedBy = [], ktState = []\<rparr>"

definition sample_detail :: TopicDetail where
  "sample_detail = \<lparr>NumPartitions = 3, tdReplicationFactor = 2, ConfigEntries = [(''k'', Some ''v'')]\<rparr>"

definition sample_user :: KafkaUser where
  "sample_user = \<lparr>kuName = ''user'', kuNamespace = ''ns'', kuLabels = None, kuFinalizers = [], kuDeletionTimestamp = None,
     kuClusterRefName = ''kafka'', kuClusterRefNamespace = [],
     TopicGrants = [\<lparr>TopicName = ''t'', AccessType = ''read'', PatternType = []\<rparr>], CreateCert = Some False, PKIBackendSpec = None,
     kuSpecAnnotations = [], kuState = [], kuACLs = []\<rparr>"

definition quiet_renv :: renv where
  "quiet_renv = \<lparr>rGetTopic = \<lambda>tr n ns. Inl ApiNotFound, rGetUser = \<lambda>tr n ns. Inl ApiNotFound,
     rGetKafka = \<lambda>tr n ns. Inr (listening_cluster []), rListTopicCRs = \<lambda>tr n. Inr [],
     rTopicStatus = \<lambda>tr t. Inr t, rTopicUpdate = \<lambda>tr t. Inr t, rUserStatus = \<lambda>tr u. Inr u, rUserUpdate = \<lambda>tr u. Inr u,
     rConnect = \<lambda>tr. None, rNumBrokers = \<lambda>tr. 3, rListTopics = \<lambda>tr. Inr [], rDescribeTopics = \<lambda>tr t. Inr [3],
     rCreateTopic = \<lambda>tr n d. None, rDeleteTopic = \<lambda>tr n. None, rCreatePartitions = \<lambda>tr n k. None,
     rAlterTopicConfig = \<lambda>tr n c. None, rCreateAcl = \<lambda>tr r a. None, rDeleteAcl = \<lambda>tr f. Inr [],
     rReconcileCertificate = \<lambda>tr b u. Inr (Inr ''CN=user''), rFinalizeCertificate = \<lambda>tr b u. None,
     rCmpDiff = \<lambda>a b. if a = b then [] else ''-'', rParseDuration = \<lambda>s. None, rOwnershipAnnotation = ''owner''\<rparr>"

end
