(* ===== verification/TopicWebhook.thy ===== *)
theory TopicWebhook
  imports KafkaClient
begin

text \<open>
  The admission webhook for topics (\<open>pkg/webhooks/kafkatopic_validator.go\<close>). It asks the API for the cluster and for the
  other \<open>KafkaTopic\<close> resources, and Kafka for the topic itself. The comparison of configurations (\<open>cmp.Diff\<close>) is the
  field \<open>rCmpDiff\<close> of the environment; what the webhook relies on is \<open>diff_exact\<close>.
\<close>

section \<open>Lower case\<close>

text \<open>
  \<open>strings.ToLower\<close> as far as the comparison with \<open>koperator\<close> can see it: ASCII letters, and the Kelvin sign, the only
  other character whose lower case is one of the letters of that word. Other bytes are left alone.
\<close>

definition lower_char :: "char \<Rightarrow> char" where
  "lower_char c = (if 65 \<le> (of_char c :: nat) \<and> (of_char c :: nat) \<le> 90 then char_of ((of_char c :: nat) + 32) else c)"

fun ToLower :: "string \<Rightarrow> string" where
  "ToLower [] = []"
| "ToLower (c # cs) =
     (if take 3 (c # cs) = [CHR 0xE2, CHR 0x84, CHR 0xAA] then CHR 0x6B # ToLower (drop 2 cs)
      else lower_char c # ToLower cs)"

section \<open>The webhook\<close>

definition TopicManagedByAnnotationKey :: string where
  "TopicManagedByAnnotationKey = ''managedBy''"

definition TopicManagedByKoperatorAnnotationValue :: string where
  "TopicManagedByKoperatorAnnotationValue = ''koperator''"

definition MinPartitions :: "32 word" where
  "MinPartitions = - 1"

definition MinReplicationFactor :: "32 word" where
  "MinReplicationFactor = - 1"

definition cantConnectErrorMsg :: string where
  "cantConnectErrorMsg = ''failed to connect to kafka cluster''"

definition cantConnectAPIServerMsg :: string where
  "cantConnectAPIServerMsg = ''failed to connect to Kubernetes API server''"

definition invalidReplicationFactorErrMsg :: string where
  "invalidReplicationFactorErrMsg = ''replication factor is larger than the number of nodes in the kafka cluster''"

definition outOfRangeReplicationFactorErrMsg :: string where
  "outOfRangeReplicationFactorErrMsg = ''replication factor must be larger than 0 (or set it to be -1 to use the broker'' @ [CHR 0x27] @ ''s default)''"

definition outOfRangePartitionsErrMsg :: string where
  "outOfRangePartitionsErrMsg = ''number of partitions must be larger than 0 (or set it to be -1 to use the broker'' @ [CHR 0x27] @ ''s default)''"

definition errorDuringValidationMsg :: string where
  "errorDuringValidationMsg = ''error during validation''"

definition quoted :: "string \<Rightarrow> string" where
  "quoted s = [CHR 0x27] @ s @ [CHR 0x27]"

definition dquoted :: "string \<Rightarrow> string" where
  "dquoted s = [CHR 0x22] @ s @ [CHR 0x22]"

definition cluster_msg :: "KafkaTopic \<Rightarrow> string \<Rightarrow> string" where
  "cluster_msg t what = ''kafkaCluster '' @ quoted (ktClusterRefName t) @ '' in the namespace '' @ quoted (ktClusterRefNamespace t) @ what"

definition int_field :: "string \<Rightarrow> 32 word \<Rightarrow> string \<Rightarrow> field_error" where
  "int_field child v msg = FieldInvalid (''spec.'' @ child) (VInt (sint v)) msg"

definition range_errors :: "KafkaTopic \<Rightarrow> field_error list" where
  "range_errors t =
     (if Partitions t <s MinPartitions \<or> Partitions t = 0 then [int_field ''partitions'' (Partitions t) outOfRangePartitionsErrMsg] else []) @
     (if ReplicationFactor t <s MinReplicationFactor \<or> ReplicationFactor t = 0
      then [int_field ''replicationFactor'' (ReplicationFactor t) outOfRangeReplicationFactorErrMsg] else [])"

text \<open>The resource under admission and remote ones do not count; the first other one for the same topic does.\<close>

definition refers_to :: "renv \<Rightarrow> string \<Rightarrow> KafkaTopic \<Rightarrow> KafkaTopic \<Rightarrow> bool" where
  "refers_to E clusterNamespace t k \<longleftrightarrow>
     \<not> (ktName k = ktName t \<and> ktNamespace k = ktNamespace t) \<and>
     \<not> ObjectManagedByClusterRegistry E (ktAnnotations k) \<and>
     ktClusterRefName k = ktClusterRefName t \<and>
     (ktNamespace k = clusterNamespace \<and> ktClusterRefNamespace k = [] \<or> ktClusterRefNamespace k = clusterNamespace)"

definition duplicate_error :: "KafkaTopic \<Rightarrow> field_error" where
  "duplicate_error k = FieldInvalid ''spec.name'' (VStr (ktSpecName k))
     (''kafkaTopic CR '' @ quoted (ktName k) @ '' in namesapce '' @ quoted (ktNamespace k) @
      '' is already referencing to Kafka topic '' @ quoted (ktSpecName k))"

definition checkExistingKafkaTopicCRs :: "renv \<Rightarrow> string \<Rightarrow> KafkaTopic \<Rightarrow> rtrace \<Rightarrow> (err + field_error option) \<times> rtrace" where
  "checkExistingKafkaTopicCRs E clusterNamespace t tr =
     (let tr1 = tr @ [RListTopicCRs (ktSpecName t)] in
      (case rListTopicCRs E tr (ktSpecName t) of
         Inl e \<Rightarrow> (Inl (WrapErr cantConnectAPIServerMsg e), tr1)
       | Inr items \<Rightarrow>
           (Inr (map_option duplicate_error (find (refers_to E clusterNamespace t) items)), tr1)))"

definition raw_break :: "nat \<Rightarrow> string" where
  "raw_break tabs = CHR 0x0A # replicate tabs (CHR 0x09)"

definition given_present :: "string \<Rightarrow> string \<Rightarrow> string" where
  "given_present g p = '' (given: '' @ g @ '' present: '' @ p @ '')''"

text \<open>Errors for a resource that is being created for a topic that Kafka already has.\<close>

definition adoption_errors :: "renv \<Rightarrow> KafkaTopic \<Rightarrow> TopicDetail \<Rightarrow> field_error list" where
  "adoption_errors E t d =
     (let creating = ''When creating KafkaTopic CR for existing topic, initially its '';
          diff = rCmpDiff E (ConfigEntries d) (MapStringStringPointer (ktConfig t)) in
      (if (case map_of (ktAnnotations t) TopicManagedByAnnotationKey of
             None \<Rightarrow> True | Some manager \<Rightarrow> ToLower manager \<noteq> TopicManagedByKoperatorAnnotationValue)
       then [FieldInvalid ''spec.name'' (VStr (ktSpecName t))
          (''topic '' @ dquoted (ktSpecName t) @ '' already exists on kafka cluster and it is not managed by Koperator,'' @ raw_break 5 @
           ''if you want it to be managed by Koperator so you can modify its configurations through a KafkaTopic CR,'' @ raw_break 5 @
           ''add this '' @ dquoted (TopicManagedByAnnotationKey @ '': '' @ TopicManagedByKoperatorAnnotationValue) @
           '' annotation to this KafkaTopic CR'')] else []) @
      (if NumPartitions d \<noteq> Partitions t
       then [int_field ''partitions'' (Partitions t) (creating @ ''partition number must be the same as what the existing kafka topic has'' @
          given_present (Itoa (sint (Partitions t))) (Itoa (sint (NumPartitions d))))] else []) @
      (if tdReplicationFactor d \<noteq> ucast (ReplicationFactor t)
       then [int_field ''replicationfactor'' (ReplicationFactor t) (creating @ ''replication factor must be the same as what the existing kafka topic has'' @
          given_present (Itoa (sint (ReplicationFactor t))) (Itoa (sint (tdReplicationFactor d))))] else []) @
      (if diff \<noteq> []
       then [int_field ''config'' (Partitions t) (creating @ ''configuration must be the same as the existing kafka topic configuration.'' @
          raw_break 6 @ ''Difference: '' @ diff)] else []))"

definition change_errors :: "KafkaTopic \<Rightarrow> TopicDetail \<Rightarrow> field_error list" where
  "change_errors t d =
     (if Partitions t <s NumPartitions d
      then [int_field ''partitions'' (Partitions t) (''kafka does not support decreasing partition count on an existing topic (from '' @
         Itoa (sint (NumPartitions d)) @ '' to '' @ Itoa (sint (Partitions t)) @ '')'')] else []) @
     (if tdReplicationFactor d \<noteq> ucast (ReplicationFactor t)
      then [int_field ''replicationFactor'' (ReplicationFactor t) (''kafka does not support changing the replication factor on an existing topic (from '' @
         Itoa (sint (tdReplicationFactor d)) @ '' to '' @ Itoa (sint (ReplicationFactor t)) @ '')'')] else [])"

definition checkKafka :: "renv \<Rightarrow> KafkaTopic \<Rightarrow> KafkaCluster \<Rightarrow> rtrace \<Rightarrow> (err + field_error list) \<times> rtrace" where
  "checkKafka E t cluster tr =
     (let tr1 = tr @ [RConnect] in
      (case rConnect E tr of
         Some e \<Rightarrow> (Inl (WrapErr (cantConnectErrorMsg @ '': '' @ ktClusterRefName t) e), tr1)
       | None \<Rightarrow>
           (case Client_GetTopic E (ktSpecName t) tr1 of
              (Inl e, tr2) \<Rightarrow> (Inl (WrapErr (''failed to list topics for kafka cluster: '' @ ktClusterRefName t) e), tr2)
            | (Inr None, tr2) \<Rightarrow>
                (if sint (ReplicationFactor t) > rNumBrokers E tr2
                 then (Inr [int_field ''replicationFactor'' (ReplicationFactor t)
                         (invalidReplicationFactorErrMsg @ '' (available brokers: '' @ Itoa (rNumBrokers E tr2) @ '')'')], tr2)
                 else (Inr [], tr2))
            | (Inr (Some d), tr2) \<Rightarrow>
                (let tr3 = tr2 @ [RGetTopic (ktName t) (ktNamespace t)] in
                 (case rGetTopic E tr2 (ktName t) (ktNamespace t) of
                    Inl e \<Rightarrow>
                      if IsNotFound e
                      then let errs = adoption_errors E t d in
                           if length errs > 0 then (Inr errs, tr3) else (Inr (errs @ change_errors t d), tr3)
                      else (Inl (WrapErr cantConnectAPIServerMsg e), tr3)
                  | Inr topicCR \<Rightarrow> (Inr (change_errors t d), tr3))))))"

definition validateKafkaTopic :: "renv \<Rightarrow> KafkaTopic \<Rightarrow> rtrace \<Rightarrow> (err + field_error list) \<times> rtrace" where
  "validateKafkaTopic E t tr =
     (let allErrs = range_errors t;
          clusterName = ktClusterRefName t;
          clusterNamespace = (if ktClusterRefNamespace t = [] then ktNamespace t else ktClusterRefNamespace t);
          tr1 = tr @ [RGetKafka clusterName clusterNamespace] in
      (case rGetKafka E tr clusterName clusterNamespace of
         Inl e \<Rightarrow>
           if \<not> IsNotFound e then (Inl (WrapErr cantConnectAPIServerMsg e), tr1)
           else if ktDeletionTimestamp t \<noteq> None then (Inr [], tr1)
           else (Inr (allErrs @ [FieldInvalid ''spec.clusterRef.name'' (VStr clusterName) (cluster_msg t '' does not exist'')]), tr1)
       | Inr cluster \<Rightarrow>
           if kcDeletionTimestamp cluster \<noteq> None then (Inr [], tr1)
           else
             let remote = (if ObjectManagedByClusterRegistry E (kcAnnotations cluster)
                           then [FieldInvalid ''spec.clusterRef.name'' (VStr clusterName) (cluster_msg t '' is a remote kafka cluster'')] else []) in
             (case checkExistingKafkaTopicCRs E clusterNamespace t tr1 of
                (Inl e, tr2) \<Rightarrow> (Inl e, tr2)
              | (Inr dup, tr2) \<Rightarrow>
                  (case checkKafka E t cluster tr2 of
                     (Inl e, tr3) \<Rightarrow> (Inl e, tr3)
                   | (Inr errs, tr3) \<Rightarrow>
                       (Inr (allErrs @ remote @ (case dup of None \<Rightarrow> [] | Some f \<Rightarrow> [f]) @ errs), tr3)))))"

definition Topic_validate :: "renv \<Rightarrow> KafkaTopic \<Rightarrow> rtrace \<Rightarrow> admission \<times> rtrace" where
  "Topic_validate E t tr = (case validateKafkaTopic E t tr of
     (Inl e, tr1) \<Rightarrow> (RejectedInternal (WrapErr errorDuringValidationMsg e), tr1)
   | (Inr errs, tr1) \<Rightarrow> (admit errs, tr1))"

definition Topic_ValidateCreate :: "renv \<Rightarrow> KafkaTopic \<Rightarrow> rtrace \<Rightarrow> admission \<times> rtrace" where
  "Topic_ValidateCreate E t tr = Topic_validate E t tr"

definition Topic_ValidateUpdate :: "renv \<Rightarrow> KafkaTopic \<Rightarrow> KafkaTopic \<Rightarrow> rtrace \<Rightarrow> admission \<times> rtrace" where
  "Topic_ValidateUpdate E old t tr = Topic_validate E t tr"

definition Topic_ValidateDelete :: "renv \<Rightarrow> KafkaTopic \<Rightarrow> rtrace \<Rightarrow> admission \<times> rtrace" where
  "Topic_ValidateDelete E t tr = (Allowed, tr)"

section \<open>Lemmas\<close>

lemma range_errors_Nil:
  "range_errors t = [] \<longleftrightarrow> (Partitions t = - 1 \<or> 0 <s Partitions t) \<and> (ReplicationFactor t = - 1 \<or> 0 <s ReplicationFactor t)"
proof -
  have "\<not> (w <s - 1 \<or> w = 0) \<longleftrightarrow> w = - 1 \<or> 0 <s w" for w :: "32 word"
  proof -
    have "w = v \<longleftrightarrow> sint w = sint v" for v :: "32 word" by (rule word_eq_iff_signed)
    from this [of "- 1"] this [of 0] have "w = - 1 \<longleftrightarrow> sint w = - 1" "w = 0 \<longleftrightarrow> sint w = 0"
      unfolding sint_n1 sint_0 by blast+
    then show ?thesis unfolding word_sless_alt sint_n1 sint_0 by linarith
  qed
  from this [of "Partitions t"] this [of "ReplicationFactor t"] show ?thesis
    unfolding range_errors_def MinPartitions_def MinReplicationFactor_def by auto
qed

text \<open>What the webhook relies on of \<open>cmp.Diff\<close>: it is empty exactly when the two maps agree.\<close>

definition diff_exact :: "renv \<Rightarrow> bool" where
  "diff_exact E \<longleftrightarrow> (\<forall>a b. rCmpDiff E a b = [] \<longleftrightarrow> map_of a = map_of b)"

definition managed_explicitly :: "KafkaTopic \<Rightarrow> bool" where
  "managed_explicitly t \<longleftrightarrow> (\<exists>m. map_of (ktAnnotations t) ''managedBy'' = Some m \<and> ToLower m = ''koperator'')"

definition adoptable :: "KafkaTopic \<Rightarrow> TopicDetail \<Rightarrow> bool" where
  "adoptable t d \<longleftrightarrow> managed_explicitly t \<and> Partitions t = NumPartitions d \<and> ucast (ReplicationFactor t) = tdReplicationFactor d \<and>
     map_of (ConfigEntries d) = map_option Some \<circ> map_of (ktConfig t)"

definition changeable :: "KafkaTopic \<Rightarrow> TopicDetail \<Rightarrow> bool" where
  "changeable t d \<longleftrightarrow> NumPartitions d \<le>s Partitions t \<and> ucast (ReplicationFactor t) = tdReplicationFactor d"

lemma map_of_pointers: "map_of (MapStringStringPointer m) = map_option Some \<circ> map_of m"
  unfolding MapStringStringPointer_def by (induction m) (auto simp: fun_eq_iff)

lemma adoption_errors_Nil: "diff_exact E \<Longrightarrow> adoption_errors E t d = [] \<longleftrightarrow> adoptable t d"
  by (auto simp: adoption_errors_def adoptable_def managed_explicitly_def diff_exact_def map_of_pointers Let_def
      TopicManagedByAnnotationKey_def TopicManagedByKoperatorAnnotationValue_def split: option.split)

lemma change_errors_Nil: "change_errors t d = [] \<longleftrightarrow> changeable t d"
  by (auto simp: change_errors_def changeable_def word_sle_eq word_sless_alt)

lemma adoptable_changeable: "adoptable t d \<Longrightarrow> changeable t d"
  by (simp add: adoptable_def changeable_def word_sle_eq)

text \<open>The answers that the webhook meets on its way: the cluster, the other resources, and what Kafka has.\<close>

definition answers :: "renv \<Rightarrow> KafkaTopic \<Rightarrow> rtrace \<Rightarrow> KafkaCluster \<Rightarrow> KafkaTopic list \<Rightarrow> TopicDetail option \<Rightarrow> err + KafkaTopic \<Rightarrow> int \<Rightarrow> bool" where
  "answers E t tr cluster crs existing own brokers \<longleftrightarrow>
     (let ns = getClusterRefNamespace (ktNamespace t) (ktClusterRefNamespace t);
          tr1 = tr @ [RGetKafka (ktClusterRefName t) ns]; tr2 = tr1 @ [RListTopicCRs (ktSpecName t)];
          tr3 = tr2 @ [RConnect]; tr4 = tr3 @ [RListTopics] in
      rGetKafka E tr (ktClusterRefName t) ns = Inr cluster \<and> rListTopicCRs E tr1 (ktSpecName t) = Inr crs \<and>
      rConnect E tr2 = None \<and> (\<exists>topics. rListTopics E tr3 = Inr topics \<and> map_of topics (ktSpecName t) = existing) \<and>
      rGetTopic E tr4 (ktName t) (ktNamespace t) = own \<and> rNumBrokers E tr4 = brokers)"

section \<open>Properties\<close>


text \<open>An environment whose answers do not change, with a topic that Kafka has and no resource for it.\<close>

definition webhook_env :: renv where
  "webhook_env = quiet_renv\<lparr>rListTopics := \<lambda>tr. Inr [(''t'', sample_detail)],
     rCmpDiff := \<lambda>a b. if map_of a = map_of b then [] else ''-''\<rparr>"


text \<open>A replication factor is compared with Kafka's 16-bit one after its upper half is dropped, so that a factor beyond
  the range passes as an unchanged one.\<close>

lemma replication_factor_truncated: "changeable (sample_topic\<lparr>ReplicationFactor := 65538\<rparr>) sample_detail"
  by code_simp

text \<open>A topic whose partition count or replication factor is left to the broker can never be changed once it exists.\<close>

lemma broker_default_rejected:
  assumes "0 <s tdReplicationFactor d" "ReplicationFactor t = - 1"
  shows "\<not> changeable t d"
proof -
  have "(ucast (- 1 :: 32 word) :: 16 word) = - 1" by code_simp
  then have "tdReplicationFactor d = - 1" if "changeable t d" using that assms(2) by (simp add: changeable_def)
  then show ?thesis using assms(1) by (auto simp: word_sless_alt)
qed

end
