(* ===== verification/TopicCtl.thy ===== *)
theory TopicCtl
  imports TopicWebhook
begin

text \<open>
  The topic controller (\<open>controllers/kafkatopic_controller.go\<close>) and the mapping of connection errors that it shares with
  the user controller (\<open>controllers/controller_common.go\<close>). A reconcile may wait for a topic to disappear without a
  bound, so its model is optional: \<open>None\<close> is a reconcile that does not return.

  A label map that is there already is changed in place, so that the comparison that follows compares the map with
  itself: the change is not written by \<open>ensureClusterLabel\<close>, only by a later update.
\<close>

section \<open>The controller\<close>

definition checkBrokerConnectionError :: "err \<Rightarrow> reconcile_result" where
  "checkBrokerConnectionError e =
     (if errors_As e BrokersUnreachable then Ret (RequeueAfter 15)
      else if errors_As e BrokersNotReady then Ret (RequeueAfter 15)
      else if errors_As e ResourceNotReady then Ret (RequeueAfter 5)
      else requeueWithError ''error'' e)"

definition topicFinalizer :: string where
  "topicFinalizer = ''finalizer.kafkatopics.kafka.banzaicloud.io''"

definition TopicStateCreated :: string where
  "TopicStateCreated = ''created''"

definition isTopicManagedByKoperator :: "KafkaTopic \<Rightarrow> bool" where
  "isTopicManagedByKoperator t = (case map_of (ktAnnotations t) TopicManagedByAnnotationKey of
     Some m \<Rightarrow> ToLower m = TopicManagedByKoperatorAnnotationValue
   | None \<Rightarrow> True)"

definition Topic_updateAndFetchLatest :: "renv \<Rightarrow> KafkaTopic \<Rightarrow> rtrace \<Rightarrow> (err + KafkaTopic) \<times> rtrace" where
  "Topic_updateAndFetchLatest E t tr = (rTopicUpdate E tr t, tr @ [RTopicUpdate t])"

definition Topic_ensureClusterLabel :: "renv \<Rightarrow> KafkaCluster \<Rightarrow> KafkaTopic \<Rightarrow> rtrace \<Rightarrow> (err + KafkaTopic) \<times> rtrace" where
  "Topic_ensureClusterLabel E cluster t tr =
     (let t1 = t\<lparr>ktLabels := Some (applyClusterRefLabel cluster (ktLabels t))\<rparr> in
      if ktLabels t = None then Topic_updateAndFetchLatest E t1 tr else (Inr t1, tr))"

definition Topic_removeFinalizer :: "renv \<Rightarrow> KafkaTopic \<Rightarrow> rtrace \<Rightarrow> (err, unit) go \<times> rtrace" where
  "Topic_removeFinalizer E t tr = (case StringSliceRemove (ktFinalizers t) topicFinalizer of
     Panic \<Rightarrow> (Panic, tr)
   | Err e \<Rightarrow> (Err e, tr)
   | Ret fs \<Rightarrow>
       (case Topic_updateAndFetchLatest E (t\<lparr>ktFinalizers := fs\<rparr>) tr of
          (Inl e, tr1) \<Rightarrow> (Err e, tr1)
        | (Inr t1, tr1) \<Rightarrow> (Ret (), tr1)))"

definition finalizeKafkaTopic :: "renv \<Rightarrow> KafkaTopic \<Rightarrow> rtrace \<Rightarrow> (err option \<times> rtrace) option" where
  "finalizeKafkaTopic E t tr = (case Client_GetTopic E (ktSpecName t) tr of
     (Inl e, tr1) \<Rightarrow> Some (Some e, tr1)
   | (Inr None, tr1) \<Rightarrow> Some (None, tr1)
   | (Inr (Some d), tr1) \<Rightarrow> Client_DeleteTopic E (ktSpecName t) True tr1)"

text \<open>Requeueing with the error of a removal of the finalizer, or ending the reconcile.\<close>

definition after_removal :: "(err, unit) go \<times> rtrace \<Rightarrow> reconcile_result \<times> rtrace" where
  "after_removal r = (case r of
     (Panic, tr) \<Rightarrow> (Panic, tr)
   | (Err e, tr) \<Rightarrow> (requeueWithError ''failed to remove finalizer'' e, tr)
   | (Ret u, tr) \<Rightarrow> (reconciled, tr))"

definition Topic_checkFinalizers :: "renv \<Rightarrow> KafkaTopic \<Rightarrow> rtrace \<Rightarrow> (reconcile_result \<times> rtrace) option" where
  "Topic_checkFinalizers E t tr =
     (if StringSliceContains (ktFinalizers t) topicFinalizer
      then (case (if isTopicManagedByKoperator t then finalizeKafkaTopic E t tr else Some (None, tr)) of
              None \<Rightarrow> None
            | Some (Some e, tr1) \<Rightarrow> Some (requeueWithError ''failed to finalize kafkatopic'' e, tr1)
            | Some (None, tr1) \<Rightarrow> Some (after_removal (Topic_removeFinalizer E t tr1)))
      else Some (reconciled, tr))"

text \<open>Bringing an existing topic to its specification, or creating it.\<close>

definition topic_options :: "KafkaTopic \<Rightarrow> TopicDetail" where
  "topic_options t = \<lparr>NumPartitions = Partitions t, tdReplicationFactor = ucast (ReplicationFactor t),
     ConfigEntries = MapStringStringPointer (ktConfig t)\<rparr>"

definition ensure_topic :: "renv \<Rightarrow> KafkaTopic \<Rightarrow> TopicDetail option \<Rightarrow> rtrace \<Rightarrow> err option \<times> rtrace" where
  "ensure_topic E t existing tr = (case existing of
     Some d \<Rightarrow>
       (case EnsurePartitionCount E (ktSpecName t) (Partitions t) tr of
          (Inl e, tr1) \<Rightarrow> (Some e, tr1)
        | (Inr changed, tr1) \<Rightarrow> EnsureTopicConfig E (ktSpecName t) (MapStringStringPointer (ktConfig t)) tr1)
   | None \<Rightarrow> Client_CreateTopic E (ktSpecName t) (topic_options t) tr)"

text \<open>Label, finalizer and status, in this order.\<close>

definition record_topic :: "renv \<Rightarrow> KafkaCluster \<Rightarrow> KafkaTopic \<Rightarrow> rtrace \<Rightarrow> reconcile_result \<times> rtrace" where
  "record_topic E cluster t tr = (case Topic_ensureClusterLabel E cluster t tr of
     (Inl e, tr1) \<Rightarrow> (requeueWithError ''failed to ensure kafkacluster label on topic'' e, tr1)
   | (Inr t1, tr1) \<Rightarrow>
       (case (if StringSliceContains (ktFinalizers t1) topicFinalizer then (Inr t1, tr1)
              else Topic_updateAndFetchLatest E (t1\<lparr>ktFinalizers := ktFinalizers t1 @ [topicFinalizer]\<rparr>) tr1) of
          (Inl e, tr2) \<Rightarrow> (requeueWithError ''failed to add Finalizer to KafkaTopic'' e, tr2)
        | (Inr t2, tr2) \<Rightarrow>
            if ktState t2 \<noteq> TopicStateCreated
            then let t3 = t2\<lparr>ktState := TopicStateCreated\<rparr> in
                 (case rTopicStatus E tr2 t3 of
                    Inl e \<Rightarrow> (requeueWithError ''failed to update kafkatopic status'' e, tr2 @ [RTopicStatus t3])
                  | Inr t4 \<Rightarrow> (reconciled, tr2 @ [RTopicStatus t3]))
            else (reconciled, tr2)))"

definition reconcile_live :: "renv \<Rightarrow> KafkaCluster \<Rightarrow> KafkaTopic \<Rightarrow> rtrace \<Rightarrow> reconcile_result \<times> rtrace" where
  "reconcile_live E cluster t tr =
     (if \<not> isTopicManagedByKoperator t then (reconciled, tr)
      else
        (case Client_GetTopic E (ktSpecName t) tr of
           (Inl e, tr1) \<Rightarrow> (requeueWithError ''failure checking for existing topic'' e, tr1)
         | (Inr existing, tr1) \<Rightarrow>
             if ktState t = TopicStateCreated \<and> existing = None
             then (requeueWithError (ktSpecName t) (NewErr ''topic is still creating''), tr1)
             else
               (case ensure_topic E t existing tr1 of
                  (Some e, tr2) \<Rightarrow> (requeueWithError ''failed to ensure topic'' e, tr2)
                | (None, tr2) \<Rightarrow> record_topic E cluster t tr2)))"

definition managed_by :: "KafkaTopic \<Rightarrow> string" where
  "managed_by t = (if isTopicManagedByKoperator t then TopicManagedByKoperatorAnnotationValue
     else (case map_of (ktAnnotations t) TopicManagedByAnnotationKey of Some m \<Rightarrow> m | None \<Rightarrow> []))"

definition set_managed_by :: "renv \<Rightarrow> KafkaTopic \<Rightarrow> rtrace \<Rightarrow> (err + KafkaTopic) \<times> rtrace" where
  "set_managed_by E t tr =
     (if ktManagedBy t \<noteq> managed_by t
      then let t1 = t\<lparr>ktManagedBy := managed_by t\<rparr> in (rTopicStatus E tr t1, tr @ [RTopicStatus t1])
      else (Inr t, tr))"

definition reconcile_connected :: "renv \<Rightarrow> KafkaCluster \<Rightarrow> KafkaTopic \<Rightarrow> rtrace \<Rightarrow> (reconcile_result \<times> rtrace) option" where
  "reconcile_connected E cluster t tr =
     (let tr1 = tr @ [RConnect] in
      (case rConnect E tr of
         Some e \<Rightarrow> Some (checkBrokerConnectionError e, tr1)
       | None \<Rightarrow>
           if ktDeletionTimestamp t \<noteq> None then Topic_checkFinalizers E t tr1
           else Some (reconcile_live E cluster t tr1)))"

definition Topic_Reconcile :: "renv \<Rightarrow> string \<Rightarrow> string \<Rightarrow> rtrace \<Rightarrow> (reconcile_result \<times> rtrace) option" where
  "Topic_Reconcile E name ns tr =
     (let tr1 = tr @ [RGetTopic name ns] in
      (case rGetTopic E tr name ns of
         Inl e \<Rightarrow> Some (if IsNotFound e then reconciled else requeueWithError ''error'' e, tr1)
       | Inr t \<Rightarrow>
           let cns = getClusterRefNamespace (ktNamespace t) (ktClusterRefNamespace t);
               tr2 = tr1 @ [RGetKafka (ktClusterRefName t) cns] in
           (case rGetKafka E tr1 (ktClusterRefName t) cns of
              Inl e \<Rightarrow>
                if ktDeletionTimestamp t \<noteq> None then Some (after_removal (Topic_removeFinalizer E t tr2))
                else Some (requeueWithError ''failed to lookup referenced cluster'' e, tr2)
            | Inr cluster \<Rightarrow>
                (case set_managed_by E t tr2 of
                   (Inl e, tr3) \<Rightarrow> Some (requeueWithError ''failed to update kafkatopic status'' e, tr3)
                 | (Inr t1, tr3) \<Rightarrow> reconcile_connected E cluster t1 tr3))))"

section \<open>Waiting for a topic to disappear\<close>

text \<open>Kafka still lists the topic, as far as the events so far tell.\<close>

definition still_listed :: "renv \<Rightarrow> string \<Rightarrow> rtrace \<Rightarrow> bool" where
  "still_listed E name tr \<longleftrightarrow> (\<exists>ts d. rListTopics E tr = Inr ts \<and> map_of ts name = Some d)"

lemma wait_gone_step:
  "wait_gone E name tr = (if still_listed E name tr then wait_gone E name (tr @ [RListTopics])
     else Some (case rListTopics E tr of Inl e \<Rightarrow> Some e | Inr ts \<Rightarrow> None, tr @ [RListTopics]))"
  by (subst wait_gone.simps) (auto simp: Client_GetTopic_def still_listed_def split: sum.split option.split)

lemma wait_gone_returns:
  assumes "\<not> still_listed E name (tr @ replicate n RListTopics)"
  shows "\<exists>r k. wait_gone E name tr = Some (r, tr @ replicate (Suc k) RListTopics) \<and> \<not> still_listed E name (tr @ replicate k RListTopics) \<and>
    (r = None \<longrightarrow> (\<exists>ts. rListTopics E (tr @ replicate k RListTopics) = Inr ts \<and> map_of ts name = None))"
  using assms
proof (induction n arbitrary: tr)
  case 0
  then show ?case
    by (intro exI [of _ "case rListTopics E tr of Inl e \<Rightarrow> Some e | Inr ts \<Rightarrow> None"] exI [of _ 0], subst wait_gone_step)
      (auto simp: still_listed_def split: sum.splits)
next
  case (Suc n)
  show ?case
  proof (cases "still_listed E name tr")
    case True
    from Suc.IH [of "tr @ [RListTopics]"] Suc.prems obtain r k where
      "wait_gone E name (tr @ [RListTopics]) = Some (r, tr @ replicate (Suc (Suc k)) RListTopics)"
      "\<not> still_listed E name (tr @ replicate (Suc k) RListTopics)"
      "r = None \<longrightarrow> (\<exists>ts. rListTopics E (tr @ replicate (Suc k) RListTopics) = Inr ts \<and> map_of ts name = None)"
      by auto
    then show ?thesis using True by (subst wait_gone_step) (auto simp del: replicate.simps)
  next
    case False
    then show ?thesis
      by (intro exI [of _ "case rListTopics E tr of Inl e \<Rightarrow> Some e | Inr ts \<Rightarrow> None"] exI [of _ 0], subst wait_gone_step)
        (auto simp: still_listed_def split: sum.splits)
  qed
qed

lemma wait_gone_Some:
  assumes "wait_gone E name tr = Some y"
  shows "\<exists>n. \<not> still_listed E name (tr @ replicate n RListTopics)"
proof (rule wait_gone.raw_induct [of "\<lambda>E name tr y. \<exists>n. \<not> still_listed E name (tr @ replicate n RListTopics)", OF _ assms])
  fix W and E :: renv and name :: string and tr :: rtrace and y :: "err option \<times> rtrace"
  assume IH: "\<And>E name tr y. W E name tr = Some y \<Longrightarrow> \<exists>n. \<not> still_listed E name (tr @ replicate n RListTopics)"
    and body: "(case Client_GetTopic E name tr of
       (Inl e, tr1) \<Rightarrow> Some (Some e, tr1)
     | (Inr None, tr1) \<Rightarrow> Some (None, tr1)
     | (Inr (Some d), tr1) \<Rightarrow> W E name tr1) = Some y"
  show "\<exists>n. \<not> still_listed E name (tr @ replicate n RListTopics)"
  proof (cases "still_listed E name tr")
    case True
    then have "W E name (tr @ [RListTopics]) = Some y"
      using body by (auto simp: still_listed_def Client_GetTopic_def)
    from IH [OF this] obtain n where "\<not> still_listed E name ((tr @ [RListTopics]) @ replicate n RListTopics)" by blast
    then show ?thesis by (intro exI [of _ "Suc n"]) simp
  next
    case False
    then show ?thesis by (intro exI [of _ 0]) simp
  qed
qed

section \<open>What a reconcile may do\<close>

text \<open>Documented behaviour of a status update: the API answers with the object that it was sent.\<close>

definition status_echoed :: "renv \<Rightarrow> bool" where
  "status_echoed E \<longleftrightarrow> (\<forall>tr t t'. rTopicStatus E tr t = Inr t' \<longrightarrow> t' = t)"

text \<open>Before the event, Kafka answered without the topic.\<close>

definition gone_before :: "renv \<Rightarrow> string \<Rightarrow> rtrace \<Rightarrow> rtrace \<Rightarrow> revent \<Rightarrow> bool" where
  "gone_before E name tr tr' ev \<longleftrightarrow>
     (\<exists>p q ts. tr' = tr @ p @ RListTopics # q \<and> ev \<in> set q \<and> rListTopics E (tr @ p) = Inr ts \<and> map_of ts name = None)"

fun permitted :: "renv \<Rightarrow> bool \<Rightarrow> KafkaTopic \<Rightarrow> rtrace \<Rightarrow> rtrace \<Rightarrow> revent \<Rightarrow> bool" where
  "permitted E lost t tr tr' (RDeleteTopic n) \<longleftrightarrow> n = ktSpecName t \<and> ktDeletionTimestamp t \<noteq> None \<and>
     topicFinalizer \<in> set (ktFinalizers t) \<and> isTopicManagedByKoperator t \<and> \<not> lost"
| "permitted E lost t tr tr' (RCreateTopic n d) \<longleftrightarrow> n = ktSpecName t \<and> d = topic_options t \<and> ktDeletionTimestamp t = None \<and>
     isTopicManagedByKoperator t \<and> ktState t \<noteq> TopicStateCreated \<and> gone_before E n tr tr' (RCreateTopic n d)"
| "permitted E lost t tr tr' (RCreatePartitions n k) \<longleftrightarrow> n = ktSpecName t \<and> k = Partitions t \<and> ktDeletionTimestamp t = None \<and>
     isTopicManagedByKoperator t"
| "permitted E lost t tr tr' (RAlterTopicConfig n c) \<longleftrightarrow> n = ktSpecName t \<and> c = MapStringStringPointer (ktConfig t) \<and>
     ktDeletionTimestamp t = None \<and> isTopicManagedByKoperator t"
| "permitted E lost t tr tr' (RTopicUpdate u) \<longleftrightarrow> topicFinalizer \<in> set (ktFinalizers t) \<and> topicFinalizer \<notin> set (ktFinalizers u) \<longrightarrow>
     ktDeletionTimestamp t \<noteq> None \<and>
     (lost \<or> \<not> isTopicManagedByKoperator t \<or> gone_before E (ktSpecName t) tr tr' (RTopicUpdate u))"
| "permitted E lost t tr tr' (RCreateAcl r a) \<longleftrightarrow> False"
| "permitted E lost t tr tr' (RDeleteAcl f) \<longleftrightarrow> False"
| "permitted E lost t tr tr' _ \<longleftrightarrow> True"

lemma gone_before_later: "gone_before E n (tr @ tr1) tr' ev \<Longrightarrow> gone_before E n tr tr' ev"
  by (auto simp: gone_before_def) (metis append_assoc)

lemma record_topic_events:
  assumes "record_topic E c t tr = (r, tr')"
  shows "\<exists>new. tr' = tr @ new \<and> (\<forall>ev \<in> set new. (\<exists>u. ev = RTopicStatus u) \<or>
    (\<exists>u. ev = RTopicUpdate u \<and> (topicFinalizer \<in> set (ktFinalizers t) \<longrightarrow> topicFinalizer \<in> set (ktFinalizers u))))"
  using assms
  by (auto simp: record_topic_def Topic_ensureClusterLabel_def Topic_updateAndFetchLatest_def Let_def
      split: sum.splits if_splits prod.splits)

lemma ensure_topic_events:
  assumes "ensure_topic E t existing tr = (r, tr')"
  shows "\<exists>new. tr' = tr @ new \<and> (\<forall>ev \<in> set new.
    if existing = None then ev = RCreateTopic (ktSpecName t) (topic_options t)
    else ev = RDescribeTopics (ktSpecName t) \<or> ev = RCreatePartitions (ktSpecName t) (Partitions t) \<or>
      ev = RAlterTopicConfig (ktSpecName t) (MapStringStringPointer (ktConfig t)))"
  using assms
  by (auto simp: ensure_topic_def Client_CreateTopic_def EnsurePartitionCount_def EnsureTopicConfig_def Let_def
      split: option.splits sum.splits list.splits if_splits prod.splits)

definition gone_after :: "renv \<Rightarrow> string \<Rightarrow> rtrace \<Rightarrow> rtrace \<Rightarrow> bool" where
  "gone_after E name tr new \<longleftrightarrow> (\<exists>p ts. new = p @ [RListTopics] \<and> rListTopics E (tr @ p) = Inr ts \<and> map_of ts name = None)"

lemma gone_after_Cons: "gone_after E name (tr @ [ev]) new \<Longrightarrow> gone_after E name tr (ev # new)"
  unfolding gone_after_def by (elim exE, rule exI [of _ "ev # p" for p]) auto

lemma gone_after_before: "gone_after E name tr new \<Longrightarrow> ev \<in> set q \<Longrightarrow> gone_before E name tr (tr @ new @ q) ev"
  unfolding gone_after_def gone_before_def by (elim exE conjE, intro exI conjI) auto

lemma wait_gone_events:
  assumes "wait_gone E name tr = Some (r, tr')"
  shows "\<exists>new. tr' = tr @ new \<and> set new \<subseteq> {RListTopics} \<and> (r = None \<longrightarrow> gone_after E name tr new)"
proof -
  from wait_gone_Some [OF assms] obtain n where "\<not> still_listed E name (tr @ replicate n RListTopics)" by blast
  from wait_gone_returns [OF this] assms obtain k where
    "tr' = tr @ replicate (Suc k) RListTopics"
    "r = None \<longrightarrow> (\<exists>ts. rListTopics E (tr @ replicate k RListTopics) = Inr ts \<and> map_of ts name = None)"
    by (auto simp del: replicate.simps)
  moreover have "replicate (Suc k) RListTopics = replicate k RListTopics @ [RListTopics]"
    by (simp add: replicate_append_same)
  ultimately show ?thesis
    unfolding gone_after_def by (intro exI [of _ "replicate (Suc k) RListTopics"]) (auto simp del: replicate.simps)
qed

lemma delete_topic_events:
  assumes "Client_DeleteTopic E name True tr = Some (r, tr')"
  shows "\<exists>new. tr' = tr @ new \<and> set new \<subseteq> {RListTopics, RDeleteTopic name} \<and> (r = None \<longrightarrow> gone_after E name tr new)"
proof (cases "rDeleteTopic E tr name")
  case None
  then have "wait_gone E name (tr @ [RDeleteTopic name]) = Some (r, tr')" using assms by (simp add: Client_DeleteTopic_def Let_def)
  from wait_gone_events [OF this] obtain new where
    "tr' = tr @ RDeleteTopic name # new" "set new \<subseteq> {RListTopics}" "r = None \<longrightarrow> gone_after E name (tr @ [RDeleteTopic name]) new" by auto
  then show ?thesis
    by (intro exI [of _ "RDeleteTopic name # new"]) (auto intro: gone_after_Cons)
next
  case (Some e)
  then show ?thesis using assms by (auto simp: Client_DeleteTopic_def Let_def)
qed

lemma finalize_topic_events:
  assumes "finalizeKafkaTopic E t tr = Some (r, tr')"
  shows "\<exists>new. tr' = tr @ new \<and> set new \<subseteq> {RListTopics, RDeleteTopic (ktSpecName t)} \<and>
    (r = None \<longrightarrow> gone_after E (ktSpecName t) tr new)"
proof (cases "\<exists>ts d. rListTopics E tr = Inr ts \<and> map_of ts (ktSpecName t) = Some d")
  case True
  then have "Client_DeleteTopic E (ktSpecName t) True (tr @ [RListTopics]) = Some (r, tr')"
    using assms by (auto simp: finalizeKafkaTopic_def Client_GetTopic_def)
  from delete_topic_events [OF this] obtain new where
    "tr' = tr @ RListTopics # new" "set new \<subseteq> {RListTopics, RDeleteTopic (ktSpecName t)}"
    "r = None \<longrightarrow> gone_after E (ktSpecName t) (tr @ [RListTopics]) new" by auto
  then show ?thesis
    by (intro exI [of _ "RListTopics # new"]) (auto intro: gone_after_Cons)
next
  case False
  then show ?thesis using assms
    by (intro exI [of _ "[RListTopics]"]) (auto simp: finalizeKafkaTopic_def Client_GetTopic_def gone_after_def split: sum.splits option.splits)
qed

lemma remove_finalizer_events:
  "after_removal (Topic_removeFinalizer E t tr) = (r, tr') \<Longrightarrow> tr' = tr \<or> (\<exists>fs. tr' = tr @ [RTopicUpdate (t\<lparr>ktFinalizers := fs\<rparr>)])"
  by (auto simp: after_removal_def Topic_removeFinalizer_def Topic_updateAndFetchLatest_def split: go.splits sum.splits prod.splits)

lemma check_finalizers_permitted:
  assumes "Topic_checkFinalizers E t tr = Some (r, tr')" "ktDeletionTimestamp t \<noteq> None"
  shows "\<exists>new. tr' = tr @ new \<and> (\<forall>ev \<in> set new. permitted E False t tr tr' ev)"
proof (cases "topicFinalizer \<in> set (ktFinalizers t)")
  case False
  then show ?thesis using assms by (simp add: Topic_checkFinalizers_def)
next
  case fin: True
  show ?thesis
  proof (cases "isTopicManagedByKoperator t")
    case True
    with assms(1) fin obtain r1 tr1 where f: "finalizeKafkaTopic E t tr = Some (r1, tr1)"
      by (auto simp: Topic_checkFinalizers_def split: option.splits)
    from finalize_topic_events [OF f] obtain new where new: "tr1 = tr @ new" "set new \<subseteq> {RListTopics, RDeleteTopic (ktSpecName t)}"
      "r1 = None \<longrightarrow> gone_after E (ktSpecName t) tr new" by blast
    have ok: "permitted E False t tr tr' ev" if "ev \<in> set new" for ev using that new(2) fin True assms(2) by auto
    show ?thesis
    proof (cases r1)
      case (Some e)
      then show ?thesis using assms(1) fin True f new ok by (auto simp: Topic_checkFinalizers_def)
    next
      case None
      then have "after_removal (Topic_removeFinalizer E t tr1) = (r, tr')" using assms(1) fin True f by (auto simp: Topic_checkFinalizers_def)
      from remove_finalizer_events [OF this] show ?thesis
      proof (elim disjE exE)
        fix fs assume tr': "tr' = tr1 @ [RTopicUpdate (t\<lparr>ktFinalizers := fs\<rparr>)]"
        have "gone_before E (ktSpecName t) tr tr' (RTopicUpdate (t\<lparr>ktFinalizers := fs\<rparr>))"
          unfolding tr' new(1) append_assoc using None new(3) by (intro gone_after_before) auto
        then show ?thesis using tr' new(1) ok assms(2) by auto
      qed (use new(1) ok in auto)
    qed
  next
    case False
    then have "after_removal (Topic_removeFinalizer E t tr) = (r, tr')" using assms(1) fin by (auto simp: Topic_checkFinalizers_def)
    from remove_finalizer_events [OF this] show ?thesis using False assms(2) by auto
  qed
qed

lemma reconcile_live_permitted:
  assumes "reconcile_live E c t tr = (r, tr')" "ktDeletionTimestamp t = None"
  shows "\<exists>new. tr' = tr @ new \<and> (\<forall>ev \<in> set new. permitted E lost t tr tr' ev)"
proof (cases "isTopicManagedByKoperator t \<and> (\<exists>ts. rListTopics E tr = Inr ts \<and> \<not> (ktState t = TopicStateCreated \<and> map_of ts (ktSpecName t) = None))")
  case False
  then show ?thesis using assms(1)
    by (auto simp: reconcile_live_def Client_GetTopic_def split: sum.splits if_splits)
next
  case True
  then obtain ts where m: "isTopicManagedByKoperator t" and ts: "rListTopics E tr = Inr ts"
    "\<not> (ktState t = TopicStateCreated \<and> map_of ts (ktSpecName t) = None)" by blast
  let ?tr1 = "tr @ [RListTopics]"
  obtain r2 tr2 where e: "ensure_topic E t (map_of ts (ktSpecName t)) ?tr1 = (r2, tr2)" by (cases "ensure_topic E t (map_of ts (ktSpecName t)) ?tr1")
  from ensure_topic_events [OF e] obtain new where new: "tr2 = ?tr1 @ new" and ev: "\<forall>ev \<in> set new.
    if map_of ts (ktSpecName t) = None then ev = RCreateTopic (ktSpecName t) (topic_options t)
    else ev = RDescribeTopics (ktSpecName t) \<or> ev = RCreatePartitions (ktSpecName t) (Partitions t) \<or>
      ev = RAlterTopicConfig (ktSpecName t) (MapStringStringPointer (ktConfig t))" by blast
  have ok: "permitted E lost t tr (?tr1 @ new @ q) ev" if "ev \<in> set new" for ev q
  proof (cases "map_of ts (ktSpecName t)")
    case None
    then have "gone_after E (ktSpecName t) tr [RListTopics]" using ts(1) by (auto simp: gone_after_def)
    from gone_after_before [OF this, of ev "new @ q"] None ev that show ?thesis using m assms(2) ts(2) by auto
  next
    case (Some d)
    then show ?thesis using ev that m assms(2) by auto
  qed
  have r: "(r, tr') = (case r2 of Some e \<Rightarrow> (Err e, tr2) | None \<Rightarrow> record_topic E c t tr2)"
    using assms(1) m ts e by (auto simp: reconcile_live_def Client_GetTopic_def split: option.split)
  show ?thesis
  proof (cases r2)
    case (Some e)
    then show ?thesis using r new ok [of _ "[]"] by (intro exI [of _ "RListTopics # new"]) auto
  next
    case None
    with r have "record_topic E c t tr2 = (r, tr')" by simp
    from record_topic_events [OF this] obtain q where "tr' = tr2 @ q" "\<forall>ev \<in> set q. (\<exists>u. ev = RTopicStatus u) \<or>
      (\<exists>u. ev = RTopicUpdate u \<and> (topicFinalizer \<in> set (ktFinalizers t) \<longrightarrow> topicFinalizer \<in> set (ktFinalizers u)))" by blast
    then show ?thesis using new ok [of _ q] by (intro exI [of _ "RListTopics # new @ q"]) auto
  qed
qed

text \<open>Only the part of a topic that a status update leaves alone matters.\<close>

lemma permitted_managed_by [simp]: "permitted E lost (t\<lparr>ktManagedBy := m\<rparr>) tr tr' ev = permitted E lost t tr tr' ev"
  by (cases ev) (simp_all add: topic_options_def isTopicManagedByKoperator_def)

lemma permitted_later: "permitted E lost t (tr @ tr1) tr' ev \<Longrightarrow> permitted E lost t tr tr' ev"
  by (cases ev) (auto intro: gone_before_later)

lemma connected_permitted:
  assumes "reconcile_connected E c t tr = Some (r, tr')"
  shows "\<exists>new. tr' = tr @ new \<and> (\<forall>ev \<in> set new. permitted E False t tr tr' ev)"
proof (cases "rConnect E tr")
  case None
  have "\<exists>new. tr' = (tr @ [RConnect]) @ new \<and> (\<forall>ev \<in> set new. permitted E False t (tr @ [RConnect]) tr' ev)"
  proof (cases "ktDeletionTimestamp t")
    case n: None
    with assms None show ?thesis by (intro reconcile_live_permitted) (auto simp: reconcile_connected_def Let_def)
  next
    case (Some d)
    with assms None show ?thesis by (intro check_finalizers_permitted) (auto simp: reconcile_connected_def Let_def)
  qed
  then obtain new where "tr' = tr @ RConnect # new" "\<forall>ev \<in> set new. permitted E False t (tr @ [RConnect]) tr' ev" by auto
  then show ?thesis by (intro exI [of _ "RConnect # new"]) (auto intro: permitted_later)
next
  case (Some e)
  then show ?thesis using assms by (auto simp: reconcile_connected_def Let_def)
qed

section \<open>Properties\<close>

text \<open>
  (C20) What a reconcile of a topic may do. Kafka's topic is deleted only for a resource that is marked for deletion, still
  has the finalizer and is managed by Koperator, and never when the cluster could not be looked up; it is created, exactly
  as specified, only for a live managed resource that is not recorded as created, after Kafka answered without it; its
  partitions and configuration are changed only to what a live managed resource asks for. The finalizer of a resource is
  removed only when the resource is marked for deletion and the cluster is gone, the topic is not managed, or Kafka has
  answered, before, without the topic.
\<close>

theorem topic_changes_guarded:
  assumes "status_echoed E" and "rGetTopic E tr name ns = Inr t" and "Topic_Reconcile E name ns tr = Some (r, tr')"
  shows "\<exists>new. tr' = tr @ RGetTopic name ns # new \<and>
    (\<forall>ev \<in> set new. permitted E (isl (rGetKafka E (tr @ [RGetTopic name ns]) (ktClusterRefName t)
        (getClusterRefNamespace (ktNamespace t) (ktClusterRefNamespace t)))) t tr tr' ev)"
proof -
  let ?cns = "getClusterRefNamespace (ktNamespace t) (ktClusterRefNamespace t)"
  let ?g = "RGetKafka (ktClusterRefName t) ?cns" and ?tr1 = "tr @ [RGetTopic name ns]"
  show ?thesis
  proof (cases "rGetKafka E ?tr1 (ktClusterRefName t) ?cns")
    case (Inl e)
    show ?thesis
    proof (cases "ktDeletionTimestamp t")
      case None
      then show ?thesis using assms(2,3) Inl by (auto simp: Topic_Reconcile_def Let_def)
    next
      case (Some d)
      then have "after_removal (Topic_removeFinalizer E t (?tr1 @ [?g])) = (r, tr')"
        using assms(2,3) Inl by (auto simp: Topic_Reconcile_def Let_def)
      from remove_finalizer_events [OF this] show ?thesis using Inl Some by auto
    qed
  next
    case (Inr cluster)
    show ?thesis
    proof (cases "set_managed_by E t (?tr1 @ [?g])")
      case (Pair a tr3)
      then obtain q where q: "tr3 = ?tr1 @ ?g # q" "\<forall>ev \<in> set q. \<exists>u. ev = RTopicStatus u"
        by (auto simp: set_managed_by_def Let_def split: if_splits)
      have qp: "permitted E False t tr tr' ev" if "ev \<in> set q" for ev using bspec [OF q(2) that] by auto
      show ?thesis
      proof (cases a)
        case (Inl e)
        then have "tr' = tr3" using assms(2,3) Inr Pair by (auto simp: Topic_Reconcile_def Let_def)
        then show ?thesis using Inr q(1) qp by (intro exI [of _ "?g # q"]) auto
      next
        case t1: (Inr t1)
        then have "t1 = t\<lparr>ktManagedBy := managed_by t\<rparr>"
          using Pair assms(1) by (auto simp: set_managed_by_def Let_def status_echoed_def split: if_splits)
        moreover have "reconcile_connected E cluster t1 tr3 = Some (r, tr')"
          using assms(2,3) Inr Pair t1 by (auto simp: Topic_Reconcile_def Let_def)
        ultimately obtain new where "tr' = tr3 @ new" "\<forall>ev \<in> set new. permitted E False t tr3 tr' ev"
          using connected_permitted [of E cluster t1 tr3 r tr'] by auto
        then show ?thesis using q(1) qp Inr
          by (intro exI [of _ "?g # q @ new"]) (auto intro: permitted_later [of _ _ _ tr "RGetTopic name ns # ?g # q"])
      qed
    qed
  qed
qed

text \<open>A reconcile that deletes a topic, and one that waits for it to disappear.\<close>

definition deleting_topic :: KafkaTopic where
  "deleting_topic = sample_topic\<lparr>ktFinalizers := [topicFinalizer], ktDeletionTimestamp := Some 1, ktManagedBy := ''koperator''\<rparr>"

definition topic_env :: "(rtrace \<Rightarrow> bool) \<Rightarrow> KafkaTopic \<Rightarrow> renv" where
  "topic_env present t = quiet_renv\<lparr>rGetTopic := \<lambda>tr n ns. Inr t,
     rListTopics := \<lambda>tr. Inr (if present tr then [(''t'', sample_detail)] else [])\<rparr>"

lemma topic_env_echoed: "status_echoed (topic_env P t)"
  by (simp add: status_echoed_def topic_env_def quiet_renv_def)

theorem topic_changes_guarded_witness:
  "\<exists>new. [RGetTopic ''topic'' ''ns'', RGetKafka ''kafka'' ''ns'', RConnect, RListTopics, RTopicUpdate (deleting_topic\<lparr>ktFinalizers := []\<rparr>)] =
       [] @ RGetTopic ''topic'' ''ns'' # new \<and>
     (\<forall>ev \<in> set new. permitted (topic_env (\<lambda>tr. False) deleting_topic) False deleting_topic []
        [RGetTopic ''topic'' ''ns'', RGetKafka ''kafka'' ''ns'', RConnect, RListTopics, RTopicUpdate (deleting_topic\<lparr>ktFinalizers := []\<rparr>)] ev)"
proof -
  let ?E = "topic_env (\<lambda>tr. False) deleting_topic"
  let ?tr = "[RGetTopic ''topic'' ''ns'', RGetKafka ''kafka'' ''ns'', RConnect, RListTopics, RTopicUpdate (deleting_topic\<lparr>ktFinalizers := []\<rparr>)]"
  have "Topic_Reconcile ?E ''topic'' ''ns'' [] = Some (Ret Reconciled, ?tr)" by code_simp
  moreover have "rGetTopic ?E [] ''topic'' ''ns'' = Inr deleting_topic" by (simp add: topic_env_def)
  moreover have "isl (rGetKafka ?E ([] @ [RGetTopic ''topic'' ''ns'']) (ktClusterRefName deleting_topic)
      (getClusterRefNamespace (ktNamespace deleting_topic) (ktClusterRefNamespace deleting_topic))) = False"
    by (simp add: topic_env_def quiet_renv_def)
  ultimately show ?thesis
    using topic_changes_guarded [OF topic_env_echoed, of "\<lambda>tr. False" deleting_topic "[]" "''topic''" "''ns''" deleting_topic "Ret Reconciled" ?tr]
    by simp
qed

text \<open>
  (C33) Waiting for a deleted topic to disappear. The call never returns exactly when Kafka accepts the deletion and then
  lists the topic in every one of the unbounded sequence of answers; this is also the only way in which a reconcile of a
  topic does not return, and it then is a reconcile of a resource that is marked for deletion.
\<close>

theorem topic_deletion_terminates:
  "(Client_DeleteTopic E n True tr = None \<longleftrightarrow>
      rDeleteTopic E tr n = None \<and> (\<forall>k. still_listed E n (tr @ RDeleteTopic n # replicate k RListTopics))) \<and>
   (Topic_Reconcile E name ns tr = None \<longrightarrow>
      (\<exists>tr1 t. ktDeletionTimestamp t \<noteq> None \<and> isTopicManagedByKoperator t \<and>
         rDeleteTopic E tr1 (ktSpecName t) = None \<and>
         (\<forall>k. still_listed E (ktSpecName t) (tr1 @ RDeleteTopic (ktSpecName t) # replicate k RListTopics))))"
proof -
  have delete: "Client_DeleteTopic E n True tr = None \<longleftrightarrow>
      rDeleteTopic E tr n = None \<and> (\<forall>k. still_listed E n (tr @ RDeleteTopic n # replicate k RListTopics))" for n tr
  proof -
    have "wait_gone E n (tr @ [RDeleteTopic n]) = None \<longleftrightarrow> (\<forall>k. still_listed E n ((tr @ [RDeleteTopic n]) @ replicate k RListTopics))"
      using wait_gone_Some [of E n "tr @ [RDeleteTopic n]"] wait_gone_returns [of E n "tr @ [RDeleteTopic n]"]
      by (metis not_None_eq)
    then show ?thesis by (auto simp: Client_DeleteTopic_def Let_def split: option.split)
  qed
  have "\<exists>tr1 t. ktDeletionTimestamp t \<noteq> None \<and> isTopicManagedByKoperator t \<and> Client_DeleteTopic E (ktSpecName t) True tr1 = None"
    if "Topic_Reconcile E name ns tr = None"
  proof -
    from that obtain c t tr2 where "reconcile_connected E c t tr2 = None"
      by (auto simp: Topic_Reconcile_def Let_def split: sum.splits if_splits prod.splits)
    then obtain tr3 where t: "ktDeletionTimestamp t \<noteq> None" "Topic_checkFinalizers E t tr3 = None"
      by (auto simp: reconcile_connected_def Let_def split: option.splits if_splits)
    then have "isTopicManagedByKoperator t \<and> finalizeKafkaTopic E t tr3 = None"
      by (auto simp: Topic_checkFinalizers_def split: option.splits if_splits prod.splits)
    then show ?thesis using t(1)
      by (auto simp: finalizeKafkaTopic_def split: sum.splits option.splits prod.splits)
  qed
  then show ?thesis unfolding delete by blast
qed

definition waits :: "rtrace \<Rightarrow> bool" where
  "waits tr \<longleftrightarrow> length (filter (\<lambda>ev. ev = RListTopics) tr) < 2"

theorem topic_deletion_terminates_witness:
  "Client_DeleteTopic (topic_env (\<lambda>tr. True) deleting_topic) ''t'' True [] = None \<and>
   Client_DeleteTopic (topic_env waits deleting_topic) ''t'' True [] \<noteq> None"
proof -
  have "still_listed (topic_env (\<lambda>tr. True) deleting_topic) ''t'' tr" for tr by (simp add: still_listed_def topic_env_def)
  moreover have "rDeleteTopic (topic_env P deleting_topic) [] ''t'' = None" for P by (simp add: topic_env_def quiet_renv_def)
  moreover have "\<not> still_listed (topic_env waits deleting_topic) ''t'' ([] @ RDeleteTopic ''t'' # replicate 2 RListTopics)"
    by (simp add: still_listed_def topic_env_def waits_def)
  ultimately show ?thesis
    using topic_deletion_terminates [of "topic_env (\<lambda>tr. True) deleting_topic" "''t''" "[]"]
      topic_deletion_terminates [of "topic_env waits deleting_topic" "''t''" "[]"] by blast
qed

text \<open>Documented behaviour of an update: the API answers with the object that it was sent.\<close>

definition update_echoed :: "renv \<Rightarrow> bool" where
  "update_echoed E \<longleftrightarrow> (\<forall>tr t t'. rTopicUpdate E tr t = Inr t' \<longrightarrow> t' = t)"

lemma ensure_topic_done:
  assumes "ensure_topic E t existing tr = (None, tr')"
  shows "\<exists>new. tr' = tr @ new \<and> (case existing of
      None \<Rightarrow> RCreateTopic (ktSpecName t) (topic_options t) \<in> set new
    | Some d \<Rightarrow> RAlterTopicConfig (ktSpecName t) (MapStringStringPointer (ktConfig t)) \<in> set new \<and>
        (RCreatePartitions (ktSpecName t) (Partitions t) \<in> set new \<or>
         (\<exists>n ns. rDescribeTopics E tr (ktSpecName t) = Inr (n # ns) \<and> Partitions t = of_nat n)))"
  using assms
  by (auto simp: ensure_topic_def Client_CreateTopic_def EnsurePartitionCount_def EnsureTopicConfig_def Let_def
      split: option.splits sum.splits list.splits if_splits prod.splits)

lemma record_topic_done:
  assumes "record_topic E c t tr = (Ret Reconciled, tr')" "update_echoed E"
  shows "\<exists>new. tr' = tr @ new \<and>
    (topicFinalizer \<in> set (ktFinalizers t) \<or> (\<exists>u. RTopicUpdate u \<in> set new \<and> topicFinalizer \<in> set (ktFinalizers u))) \<and>
    (ktState t = TopicStateCreated \<or> (\<exists>u. RTopicStatus u \<in> set new \<and> ktState u = TopicStateCreated))"
proof -
  have echo: "t' = u" if "rTopicUpdate E q u = Inr t'" for q u t' using that assms(2) by (auto simp: update_echoed_def)
  obtain t1 p where l: "Topic_ensureClusterLabel E c t tr = (Inr t1, tr @ p)" "ktFinalizers t1 = ktFinalizers t" "ktState t1 = ktState t"
    using assms(1) echo
    by (fastforce simp: record_topic_def Topic_ensureClusterLabel_def Topic_updateAndFetchLatest_def Let_def
        split: sum.splits if_splits prod.splits)
  define f where "f = (if StringSliceContains (ktFinalizers t1) topicFinalizer then (Inr t1, tr @ p)
              else Topic_updateAndFetchLatest E (t1\<lparr>ktFinalizers := ktFinalizers t1 @ [topicFinalizer]\<rparr>) (tr @ p))"
  obtain t2 q where f: "f = (Inr t2, tr @ p @ q)" "ktState t2 = ktState t"
    "topicFinalizer \<in> set (ktFinalizers t) \<or> (\<exists>u. RTopicUpdate u \<in> set q \<and> topicFinalizer \<in> set (ktFinalizers u))"
  proof (cases "topicFinalizer \<in> set (ktFinalizers t)")
    case True
    then show ?thesis using l that [of t1 "[]"] by (simp add: f_def)
  next
    case False
    then obtain t2 where "rTopicUpdate E (tr @ p) (t1\<lparr>ktFinalizers := ktFinalizers t1 @ [topicFinalizer]\<rparr>) = Inr t2"
      using assms(1) l by (auto simp: record_topic_def Topic_updateAndFetchLatest_def split: sum.splits)
    with echo [OF this] show ?thesis using False l
        that [of t2 "[RTopicUpdate (t1\<lparr>ktFinalizers := ktFinalizers t1 @ [topicFinalizer]\<rparr>)]"]
      by (auto simp: f_def Topic_updateAndFetchLatest_def)
  qed
  have "(case f of
          (Inl e, tr2) \<Rightarrow> (requeueWithError ''failed to add Finalizer to KafkaTopic'' e, tr2)
        | (Inr t2, tr2) \<Rightarrow>
            if ktState t2 \<noteq> TopicStateCreated
            then let t3 = t2\<lparr>ktState := TopicStateCreated\<rparr> in
                 (case rTopicStatus E tr2 t3 of
                    Inl e \<Rightarrow> (requeueWithError ''failed to update kafkatopic status'' e, tr2 @ [RTopicStatus t3])
                  | Inr t4 \<Rightarrow> (reconciled, tr2 @ [RTopicStatus t3]))
            else (reconciled, tr2)) = (Ret Reconciled, tr')"
    using assms(1) l(1) by (simp add: record_topic_def f_def)
  then have "tr' = tr @ p @ q \<and> ktState t = TopicStateCreated \<or> tr' = tr @ p @ q @ [RTopicStatus (t2\<lparr>ktState := TopicStateCreated\<rparr>)]"
    using f(1,2) by (auto simp: Let_def split: if_splits sum.splits)
  then show ?thesis using f(3)
    by (elim disjE conjE; intro exI [of _ "p @ q"] exI [of _ "p @ q @ [RTopicStatus (t2\<lparr>ktState := TopicStateCreated\<rparr>)]"]) auto
qed

text \<open>The events that bring Kafka and the resource to the specification.\<close>

definition topic_ensured :: "renv \<Rightarrow> KafkaTopic \<Rightarrow> rtrace \<Rightarrow> bool" where
  "topic_ensured E t new \<longleftrightarrow>
    (RCreateTopic (ktSpecName t) (topic_options t) \<in> set new \<or>
     RAlterTopicConfig (ktSpecName t) (MapStringStringPointer (ktConfig t)) \<in> set new \<and>
     (RCreatePartitions (ktSpecName t) (Partitions t) \<in> set new \<or>
      (\<exists>tr n ns. rDescribeTopics E tr (ktSpecName t) = Inr (n # ns) \<and> Partitions t = of_nat n))) \<and>
    (topicFinalizer \<in> set (ktFinalizers t) \<or> (\<exists>u. RTopicUpdate u \<in> set new \<and> topicFinalizer \<in> set (ktFinalizers u))) \<and>
    (ktState t = TopicStateCreated \<or> (\<exists>u. RTopicStatus u \<in> set new \<and> ktState u = TopicStateCreated))"

lemma topic_ensured_append: "topic_ensured E t new \<Longrightarrow> topic_ensured E t (p @ new)"
  unfolding topic_ensured_def set_append by blast

lemma reconcile_live_done:
  assumes "reconcile_live E c t tr = (Ret Reconciled, tr')" "update_echoed E" "isTopicManagedByKoperator t"
  shows "\<exists>new. tr' = tr @ new \<and> topic_ensured E t new"
proof -
  from assms(1,3) obtain existing tr2 where e: "ensure_topic E t existing (tr @ [RListTopics]) = (None, tr2)"
    and r: "record_topic E c t tr2 = (Ret Reconciled, tr')"
    by (auto simp: reconcile_live_def Client_GetTopic_def split: sum.splits if_splits prod.splits option.splits)
  from ensure_topic_done [OF e] obtain p where p0: "tr2 = (tr @ [RListTopics]) @ p" and p: "case existing of
      None \<Rightarrow> RCreateTopic (ktSpecName t) (topic_options t) \<in> set p
    | Some d \<Rightarrow> RAlterTopicConfig (ktSpecName t) (MapStringStringPointer (ktConfig t)) \<in> set p \<and>
        (RCreatePartitions (ktSpecName t) (Partitions t) \<in> set p \<or>
         (\<exists>n ns. rDescribeTopics E (tr @ [RListTopics]) (ktSpecName t) = Inr (n # ns) \<and> Partitions t = of_nat n))" by blast
  from record_topic_done [OF r assms(2)] obtain q where q: "tr' = tr2 @ q"
    "topicFinalizer \<in> set (ktFinalizers t) \<or> (\<exists>u. RTopicUpdate u \<in> set q \<and> topicFinalizer \<in> set (ktFinalizers u))"
    "ktState t = TopicStateCreated \<or> (\<exists>u. RTopicStatus u \<in> set q \<and> ktState u = TopicStateCreated)" by blast
  have "topic_ensured E t (p @ q)"
    using p q(2,3) unfolding topic_ensured_def set_append by (cases existing) (simp_all, blast+)
  then show ?thesis using p0 q(1) topic_ensured_append [of E t "p @ q" "[RListTopics]"] by auto
qed


lemma topic_env_update: "update_echoed (topic_env P t)"
  by (simp add: update_echoed_def topic_env_def quiet_renv_def)


text \<open>A label for another cluster stays on a resource that is otherwise up to date: nothing is written.\<close>

lemma stale_label_not_written:
  assumes "ktLabels t = Some l" "topicFinalizer \<in> set (ktFinalizers t)" "ktState t = TopicStateCreated"
  shows "record_topic E c t tr = (Ret Reconciled, tr)"
  using assms by (simp add: record_topic_def Topic_ensureClusterLabel_def Let_def)

end
