(* ===== verification/UserCtl.thy ===== *)
theory UserCtl
  imports TopicCtl
begin

text \<open>
  The user controller (\<open>controllers/kafkauser_controller.go\<close>), the choice of the certificate backend (\<open>pkg/pki/pki_manager.go\<close>),
  the validation of the annotations of a user (\<open>api/v1alpha1\<close>) and the text of access control lists
  (\<open>pkg/util/kafka/common.go\<close>). The certificates themselves are the fields \<open>rReconcileCertificate\<close> and
  \<open>rFinalizeCertificate\<close> of the environment; the first answers with an error, with a certificate that has no
  distinguished name, or with the distinguished name.
\<close>

section \<open>The specification of a user\<close>

definition GetIfCertShouldBeCreated :: "KafkaUser \<Rightarrow> bool" where
  "GetIfCertShouldBeCreated u = (case CreateCert u of Some b \<Rightarrow> b | None \<Rightarrow> True)"

definition CertManagerSignerNamePrefix :: string where
  "CertManagerSignerNamePrefix = ''clusterissuers.cert-manager.io''"

definition getNotSupportedAnnotationError :: "string list \<Rightarrow> err" where
  "getNotSupportedAnnotationError keys = NewErr (''kafkauser annotations contain a not supported annotation for the signer, supported annotations: ['' @
     join '' '' keys @ '']'')"

fun validate_annotations :: "(string, string \<Rightarrow> err option) gomap \<Rightarrow> (string, string) gomap \<Rightarrow> err option" where
  "validate_annotations validators [] = None"
| "validate_annotations validators ((key, val) # as) = (case map_of validators key of
     None \<Rightarrow> Some (getNotSupportedAnnotationError (map fst validators))
   | Some validator \<Rightarrow> (case validator val of Some e \<Rightarrow> Some e | None \<Rightarrow> validate_annotations validators as))"

definition request_duration_validator :: "renv \<Rightarrow> string \<Rightarrow> err option" where
  "request_duration_validator E a = map_option (WrapErr ''could not parse certificate request duration'') (rParseDuration E a)"

definition newCertManagerSignerAnnotationsWithValidators :: "renv \<Rightarrow> (string, string \<Rightarrow> err option) gomap" where
  "newCertManagerSignerAnnotationsWithValidators E = [(''experimental.cert-manager.io/request-duration'', request_duration_validator E)]"

text \<open>The signer name is split at its slashes; the first part decides.\<close>

definition ValidateAnnotations :: "renv \<Rightarrow> KafkaUser \<Rightarrow> err option" where
  "ValidateAnnotations E u = (case PKIBackendSpec u of
     Some (backend, signerName) \<Rightarrow>
       if hd (split_on (CHR ''/'') signerName) = CertManagerSignerNamePrefix
       then validate_annotations (newCertManagerSignerAnnotationsWithValidators E) (CloneMap (kuSpecAnnotations u))
       else None
   | None \<Rightarrow> None)"

section \<open>Access control lists as text\<close>

definition acl_string :: "string \<Rightarrow> string \<Rightarrow> string \<Rightarrow> string \<Rightarrow> string \<Rightarrow> string" where
  "acl_string dn kind pattern resource operation =
     ''User:'' @ dn @ '','' @ kind @ '','' @ pattern @ '','' @ resource @ '','' @ operation @ '',Allow,*''"

definition append_missing :: "string list \<Rightarrow> string \<Rightarrow> string list" where
  "append_missing acls y = (if \<not> StringSliceContains acls y then acls @ [y] else acls)"

definition grant_strings :: "string \<Rightarrow> UserTopicGrant \<Rightarrow> string list" where
  "grant_strings dn g =
     (let patternType = ToUpper (default_pattern (PatternType g)) in
      acl_string dn ''Topic'' patternType (TopicName g) ''Describe'' #
      (if AccessType g = ''read'' then [acl_string dn ''Topic'' patternType (TopicName g) ''Read'', acl_string dn ''Group'' ''LITERAL'' ''*'' ''Read'']
       else if AccessType g = ''write'' then [acl_string dn ''Topic'' patternType (TopicName g) ''Create'', acl_string dn ''Topic'' patternType (TopicName g) ''Write'']
       else []))"

fun grants_acls :: "string \<Rightarrow> UserTopicGrant list \<Rightarrow> string list \<Rightarrow> string list" where
  "grants_acls dn [] acls = acls"
| "grants_acls dn (g # gs) acls = grants_acls dn gs (foldl append_missing acls (grant_strings dn g))"

definition GrantsToACLStrings :: "string \<Rightarrow> UserTopicGrant list \<Rightarrow> string list" where
  "GrantsToACLStrings dn grants = grants_acls dn grants []"

section \<open>The controller\<close>

definition userFinalizer :: string where
  "userFinalizer = ''finalizer.kafkausers.kafka.banzaicloud.io''"

definition PKIBackendProvided :: string where
  "PKIBackendProvided = ''pki-backend-provided''"

definition UserStateCreated :: string where
  "UserStateCreated = ''created''"

text \<open>The backend for a name; a name that is not known stands for cert-manager. A cluster without
  SSL secrets has no backend of its own, and asking for it is a nil dereference.\<close>

definition GetPKIManager :: "KafkaCluster \<Rightarrow> string \<Rightarrow> (err, string) go" where
  "GetPKIManager cluster pkiBackend =
     (let known = \<lambda>b. if b = ''cert-manager'' then ''cert-manager'' else if b = ''k8s-csr'' then ''k8s-csr''
                       else if b = ''mock'' then ''mock'' else ''cert-manager'' in
      if pkiBackend = PKIBackendProvided
      then (case SSLSecrets (specListenersConfig (kcSpec cluster)) of None \<Rightarrow> Panic | Some b \<Rightarrow> Ret (known b))
      else Ret (known pkiBackend))"

definition User_updateAndFetchLatest :: "renv \<Rightarrow> KafkaUser \<Rightarrow> rtrace \<Rightarrow> (err + KafkaUser) \<times> rtrace" where
  "User_updateAndFetchLatest E u tr = (rUserUpdate E tr u, tr @ [RUserUpdate u])"

definition User_ensureClusterLabel :: "renv \<Rightarrow> KafkaCluster \<Rightarrow> KafkaUser \<Rightarrow> rtrace \<Rightarrow> (err + KafkaUser) \<times> rtrace" where
  "User_ensureClusterLabel E cluster u tr =
     (let u1 = u\<lparr>kuLabels := Some (applyClusterRefLabel cluster (kuLabels u))\<rparr> in
      if kuLabels u = None then User_updateAndFetchLatest E u1 tr else (Inr u1, tr))"

definition User_removeFinalizer :: "renv \<Rightarrow> KafkaUser \<Rightarrow> rtrace \<Rightarrow> (err, unit) go \<times> rtrace" where
  "User_removeFinalizer E u tr = (case StringSliceRemove (kuFinalizers u) userFinalizer of
     Panic \<Rightarrow> (Panic, tr)
   | Err e \<Rightarrow> (Err e, tr)
   | Ret fs \<Rightarrow>
       (case User_updateAndFetchLatest E (u\<lparr>kuFinalizers := fs\<rparr>) tr of
          (Inl e, tr1) \<Rightarrow> (Err e, tr1)
        | (Inr u1, tr1) \<Rightarrow> (Ret (), tr1)))"

definition finalizeKafkaUserACLs :: "renv \<Rightarrow> KafkaCluster \<Rightarrow> string \<Rightarrow> string \<Rightarrow> rtrace \<Rightarrow> err option \<times> rtrace" where
  "finalizeKafkaUserACLs E cluster user patternType tr =
     (if kcDeletionTimestamp cluster \<noteq> None then (None, tr)
      else (case rConnect E tr of
              Some e \<Rightarrow> (Some e, tr @ [RConnect])
            | None \<Rightarrow> DeleteUserACLs E user patternType (tr @ [RConnect])))"

fun finalize_grants :: "renv \<Rightarrow> KafkaCluster \<Rightarrow> string \<Rightarrow> UserTopicGrant list \<Rightarrow> rtrace \<Rightarrow> err option \<times> rtrace" where
  "finalize_grants E cluster user [] tr = (None, tr)"
| "finalize_grants E cluster user (g # gs) tr = (case finalizeKafkaUserACLs E cluster user (PatternType g) tr of
     (Some e, tr1) \<Rightarrow> (Some e, tr1)
   | (None, tr1) \<Rightarrow> finalize_grants E cluster user gs tr1)"

definition User_checkFinalizers :: "renv \<Rightarrow> KafkaCluster \<Rightarrow> KafkaUser \<Rightarrow> string \<Rightarrow> rtrace \<Rightarrow> reconcile_result \<times> rtrace" where
  "User_checkFinalizers E cluster u user tr =
     (if StringSliceContains (kuFinalizers u) userFinalizer
      then (case finalize_grants E cluster user (TopicGrants u) tr of
              (Some e, tr1) \<Rightarrow> (requeueWithError ''failed to finalize kafkauser'' e, tr1)
            | (None, tr1) \<Rightarrow> after_removal (User_removeFinalizer E u tr1))
      else (reconciled, tr))"

text \<open>The certificate of a user: its distinguished name, or the end of the reconcile.\<close>

definition certificate_error :: "renv \<Rightarrow> KafkaUser \<Rightarrow> err \<Rightarrow> rtrace \<Rightarrow> reconcile_result \<times> rtrace" where
  "certificate_error E u e tr =
     (if errors_As e ResourceNotReady then (Ret (RequeueAfter 5), tr)
      else if errors_As e FatalReconcileError then (Ret (RequeueAfter 15), tr)
      else if kuDeletionTimestamp u \<noteq> None then after_removal (User_removeFinalizer E u tr)
      else (requeueWithError ''failed to reconcile user secret'' e, tr))"

definition certificate_from :: "renv \<Rightarrow> KafkaUser \<Rightarrow> string \<Rightarrow> rtrace \<Rightarrow> (reconcile_result + string) \<times> rtrace" where
  "certificate_from E u backend tr =
     (let tr1 = tr @ [RReconcileCertificate backend (kuName u)] in
      (case rReconcileCertificate E tr backend u of
         Inl e \<Rightarrow> (case certificate_error E u e tr1 of (r, tr2) \<Rightarrow> (Inl r, tr2))
       | Inr (Inl e) \<Rightarrow> (Inl (Err e), tr1)
       | Inr (Inr dn) \<Rightarrow>
           if kuDeletionTimestamp u \<noteq> None
           then (case rFinalizeCertificate E tr1 backend u of
                   Some e \<Rightarrow> (Inl (requeueWithError ''failed to finalize user certificate'' e), tr1 @ [RFinalizeCertificate backend (kuName u)])
                 | None \<Rightarrow> (Inr dn, tr1 @ [RFinalizeCertificate backend (kuName u)]))
           else (Inr dn, tr1)))"

definition user_certificate :: "renv \<Rightarrow> KafkaCluster \<Rightarrow> KafkaUser \<Rightarrow> rtrace \<Rightarrow> (reconcile_result + string) \<times> rtrace" where
  "user_certificate E cluster u tr = (case ValidateAnnotations E u of
     Some e \<Rightarrow> (Inl (requeueWithError ''failed to reconcile kafkauser while validating annotations'' e), tr)
   | None \<Rightarrow>
       if SSLSecrets (specListenersConfig (kcSpec cluster)) = None \<and> PKIBackendSpec u = None
       then (Inl (requeueWithError ''could not create kafka user since user specific PKI not configured'' (NewErr ''failed to create kafka user'')), tr)
       else
         (case GetPKIManager cluster (case PKIBackendSpec u of Some (b, s) \<Rightarrow> b | None \<Rightarrow> PKIBackendProvided) of
            Panic \<Rightarrow> (Inl Panic, tr)
          | Err e \<Rightarrow> (Inl (Err e), tr)
          | Ret backend \<Rightarrow> certificate_from E u backend tr))"

fun create_grants :: "renv \<Rightarrow> string \<Rightarrow> UserTopicGrant list \<Rightarrow> rtrace \<Rightarrow> err option \<times> rtrace" where
  "create_grants E user [] tr = (None, tr)"
| "create_grants E user (g # gs) tr = (case CreateUserACLs E (AccessType g) (PatternType g) user (TopicName g) tr of
     (Some e, tr1) \<Rightarrow> (Some e, tr1)
   | (None, tr1) \<Rightarrow> create_grants E user gs tr1)"

text \<open>Connecting to Kafka only when there are grants.\<close>

definition ensure_grants :: "renv \<Rightarrow> string \<Rightarrow> KafkaUser \<Rightarrow> rtrace \<Rightarrow> (reconcile_result + unit) \<times> rtrace" where
  "ensure_grants E user u tr =
     (if length (TopicGrants u) > 0
      then (case rConnect E tr of
              Some e \<Rightarrow> (Inl (checkBrokerConnectionError e), tr @ [RConnect])
            | None \<Rightarrow>
                (case create_grants E user (TopicGrants u) (tr @ [RConnect]) of
                   (Some e, tr1) \<Rightarrow> (Inl (requeueWithError ''failed to ensure ACLs for kafkauser'' e), tr1)
                 | (None, tr1) \<Rightarrow> (Inr (), tr1)))
      else (Inr (), tr))"

definition created_status :: "string \<Rightarrow> KafkaUser \<Rightarrow> KafkaUser" where
  "created_status user u = u\<lparr>kuState := UserStateCreated,
     kuACLs := (if length (TopicGrants u) > 0 then GrantsToACLStrings user (TopicGrants u) else [])\<rparr>"

definition record_user :: "renv \<Rightarrow> string \<Rightarrow> KafkaUser \<Rightarrow> rtrace \<Rightarrow> reconcile_result \<times> rtrace" where
  "record_user E user u tr =
     (case (if StringSliceContains (kuFinalizers u) userFinalizer then (Inr u, tr)
            else User_updateAndFetchLatest E (u\<lparr>kuFinalizers := kuFinalizers u @ [userFinalizer]\<rparr>) tr) of
        (Inl e, tr1) \<Rightarrow> (requeueWithError ''failed to update kafkauser with finalizer'' e, tr1)
      | (Inr u1, tr1) \<Rightarrow>
          let u2 = created_status user u1 in
          (case rUserStatus E tr1 u2 of
             Inl e \<Rightarrow> (requeueWithError ''failed to update kafkauser status'' e, tr1 @ [RUserStatus u2])
           | Inr u3 \<Rightarrow> (reconciled, tr1 @ [RUserStatus u2])))"

definition reconcile_user :: "renv \<Rightarrow> KafkaCluster \<Rightarrow> KafkaUser \<Rightarrow> string \<Rightarrow> rtrace \<Rightarrow> reconcile_result \<times> rtrace" where
  "reconcile_user E cluster u user tr =
     (if kuDeletionTimestamp u \<noteq> None then User_checkFinalizers E cluster u user tr
      else
        (case User_ensureClusterLabel E cluster u tr of
           (Inl e, tr1) \<Rightarrow> (requeueWithError ''failed to ensure kafkacluster label on user'' e, tr1)
         | (Inr u1, tr1) \<Rightarrow>
             (case ensure_grants E user u1 tr1 of
                (Inl r, tr2) \<Rightarrow> (r, tr2)
              | (Inr x, tr2) \<Rightarrow> record_user E user u1 tr2)))"

definition User_Reconcile :: "renv \<Rightarrow> string \<Rightarrow> string \<Rightarrow> rtrace \<Rightarrow> reconcile_result \<times> rtrace" where
  "User_Reconcile E name ns tr =
     (let tr1 = tr @ [RGetUser name ns] in
      (case rGetUser E tr name ns of
         Inl e \<Rightarrow> (if IsNotFound e then reconciled else requeueWithError ''error'' e, tr1)
       | Inr u \<Rightarrow>
           let cns = getClusterRefNamespace (kuNamespace u) (kuClusterRefNamespace u);
               tr2 = tr1 @ [RGetKafka (kuClusterRefName u) cns] in
           (case rGetKafka E tr1 (kuClusterRefName u) cns of
              Inl e \<Rightarrow>
                if kuDeletionTimestamp u \<noteq> None then after_removal (User_removeFinalizer E u tr2)
                else (requeueWithError ''failed to lookup referenced cluster'' e, tr2)
            | Inr cluster \<Rightarrow>
                (case (if GetIfCertShouldBeCreated u then user_certificate E cluster u tr2 else (Inr (''CN='' @ kuName u), tr2)) of
                   (Inl r, tr3) \<Rightarrow> (r, tr3)
                 | (Inr user, tr3) \<Rightarrow> reconcile_user E cluster u user tr3))))"

section \<open>Lemmas\<close>

text \<open>The entries that a grant stands for.\<close>

definition grant_acls :: "string \<Rightarrow> UserTopicGrant \<Rightarrow> (Resource \<times> Acl) list" where
  "grant_acls dn g = (let p = AclPatternTypeMapping (default_pattern (PatternType g)) in
     if AccessType g = ''read'' then read_acls (''User:'' @ dn) (TopicName g) p
     else if AccessType g = ''write'' then write_acls (''User:'' @ dn) (TopicName g) p else [])"

definition acl_event :: "Resource \<times> Acl \<Rightarrow> revent" where
  "acl_event ra = RCreateAcl (fst ra) (snd ra)"

lemma create_acls_events:
  assumes "create_acls E as tr = (r, tr')"
  shows "\<exists>new. tr' = tr @ new \<and> set new \<subseteq> acl_event ` set as \<and> (r = None \<longrightarrow> new = map acl_event as)"
  using assms
proof (induction as arbitrary: tr)
  case (Cons ra as)
  obtain res a where ra: "ra = (res, a)" by (cases ra)
  show ?case
  proof (cases "rCreateAcl E tr res a")
    case None
    then have "create_acls E as (tr @ [RCreateAcl res a]) = (r, tr')" using Cons.prems ra by simp
    from Cons.IH [OF this] obtain new where "tr' = tr @ RCreateAcl res a # new" "set new \<subseteq> acl_event ` set as"
      "r = None \<longrightarrow> new = map acl_event as" by auto
    then show ?thesis by (intro exI [of _ "RCreateAcl res a # new"]) (auto simp: ra acl_event_def)
  next
    case (Some e)
    then show ?thesis using Cons.prems ra by (auto simp: acl_event_def)
  qed
qed simp

definition valid_grant :: "UserTopicGrant \<Rightarrow> bool" where
  "valid_grant g \<longleftrightarrow> (AccessType g = ''read'' \<or> AccessType g = ''write'') \<and>
     AclPatternTypeMapping (default_pattern (PatternType g)) \<noteq> AclPatternUnknown"

definition grant_events :: "string \<Rightarrow> UserTopicGrant list \<Rightarrow> revent set" where
  "grant_events dn gs = (\<Union>g \<in> set gs. acl_event ` set (grant_acls dn g))"

lemma create_user_acls_events:
  assumes "CreateUserACLs E (AccessType g) (PatternType g) dn (TopicName g) tr = (r, tr')"
  shows "\<exists>new. tr' = tr @ new \<and> set new \<subseteq> grant_events dn [g] \<and> (r = None \<longrightarrow> grant_events dn [g] \<subseteq> set new \<and> valid_grant g)"
  using assms create_acls_events [of E "grant_acls dn g" tr r tr']
  by (auto simp: CreateUserACLs_def grant_acls_def grant_events_def valid_grant_def Let_def split: if_splits)

lemma create_grants_events:
  assumes "create_grants E dn gs tr = (r, tr')"
  shows "\<exists>new. tr' = tr @ new \<and> set new \<subseteq> grant_events dn gs \<and>
    (r = None \<longrightarrow> grant_events dn gs \<subseteq> set new \<and> (\<forall>g \<in> set gs. valid_grant g))"
  using assms
proof (induction gs arbitrary: tr)
  case (Cons g gs)
  obtain r1 tr1 where c: "CreateUserACLs E (AccessType g) (PatternType g) dn (TopicName g) tr = (r1, tr1)" by fastforce
  from create_user_acls_events [OF this] obtain p where p: "tr1 = tr @ p" "set p \<subseteq> grant_events dn [g]"
    "r1 = None \<longrightarrow> grant_events dn [g] \<subseteq> set p \<and> valid_grant g" by (elim exE conjE) (rule that)
  have ev: "grant_events dn (g # gs) = grant_events dn [g] \<union> grant_events dn gs" by (auto simp: grant_events_def)
  show ?case
  proof (cases r1)
    case None
    then have "create_grants E dn gs tr1 = (r, tr')" using Cons.prems c by simp
    from Cons.IH [OF this] obtain q where "tr' = tr1 @ q" "set q \<subseteq> grant_events dn gs"
      "r = None \<longrightarrow> grant_events dn gs \<subseteq> set q \<and> (\<forall>g \<in> set gs. valid_grant g)" by (elim exE conjE) (rule that)
    then show ?thesis using p None unfolding ev by (intro exI [of _ "p @ q"]) auto
  next
    case (Some e)
    then show ?thesis using p Cons.prems c unfolding ev by auto
  qed
qed (simp add: grant_events_def)

lemma foldl_append_missing: "set (foldl append_missing acls ys) = set acls \<union> set ys"
  by (induction ys arbitrary: acls) (auto simp: append_missing_def)

lemma foldl_append_missing_distinct: "distinct acls \<Longrightarrow> distinct (foldl append_missing acls ys)"
  by (induction ys arbitrary: acls) (auto simp: append_missing_def)

lemma grants_acls_set: "set (grants_acls dn gs acls) = set acls \<union> (\<Union>g \<in> set gs. set (grant_strings dn g))"
  by (induction gs arbitrary: acls) (auto simp: foldl_append_missing)

lemma grants_acls_distinct: "distinct acls \<Longrightarrow> distinct (grants_acls dn gs acls)"
  by (induction gs arbitrary: acls) (auto simp: foldl_append_missing_distinct)

text \<open>How an entry is written in the status of a user.\<close>

fun operation_name :: "AclOperation \<Rightarrow> string" where
  "operation_name AclOperationRead = ''Read''"
| "operation_name AclOperationWrite = ''Write''"
| "operation_name AclOperationCreate = ''Create''"
| "operation_name AclOperationDelete = ''Delete''"
| "operation_name AclOperationDescribe = ''Describe''"
| "operation_name AclOperationDescribeConfigs = ''DescribeConfigs''"
| "operation_name AclOperationAny = ''Any''"

fun pattern_name :: "AclResourcePatternType \<Rightarrow> string" where
  "pattern_name AclPatternUnknown = ''UNKNOWN''"
| "pattern_name AclPatternAny = ''ANY''"
| "pattern_name AclPatternMatch = ''MATCH''"
| "pattern_name AclPatternLiteral = ''LITERAL''"
| "pattern_name AclPatternPrefixed = ''PREFIXED''"

definition acl_text :: "Resource \<times> Acl \<Rightarrow> string" where
  "acl_text ra = Principal (snd ra) @ '','' @ (case ResourceType (fst ra) of AclResourceTopic \<Rightarrow> ''Topic'' | AclResourceGroup \<Rightarrow> ''Group'') @ '','' @
     pattern_name (ResourcePatternType (fst ra)) @ '','' @ ResourceName (fst ra) @ '','' @ operation_name (Operation (snd ra)) @ '',Allow,*''"

lemma pattern_name_upper:
  assumes "AclPatternTypeMapping p \<noteq> AclPatternUnknown"
  shows "ToUpper p = pattern_name (AclPatternTypeMapping p)"
proof -
  have "p = ''any'' \<or> p = ''match'' \<or> p = ''literal'' \<or> p = ''prefixed''"
    using assms by (auto simp: AclPatternTypeMapping_def split: if_splits)
  moreover have "ToUpper ''any'' = ''ANY''" "ToUpper ''match'' = ''MATCH''" "ToUpper ''literal'' = ''LITERAL''" "ToUpper ''prefixed'' = ''PREFIXED''"
    by code_simp+
  ultimately show ?thesis by (auto simp: AclPatternTypeMapping_def)
qed

lemma grant_strings_texts:
  assumes "valid_grant g"
  shows "set (grant_strings dn g) = set (map acl_text (filter (\<lambda>ra. Operation (snd ra) \<noteq> AclOperationDescribeConfigs) (grant_acls dn g)))"
  using assms pattern_name_upper [of "default_pattern (PatternType g)"]
  by (auto simp: valid_grant_def grant_strings_def grant_acls_def read_acls_def write_acls_def common_acls_def topic_resource_def acl_text_def acl_string_def Let_def
      simp del: set_filter set_map list.set_map)

definition acl_deletions :: "string \<Rightarrow> UserTopicGrant list \<Rightarrow> revent set" where
  "acl_deletions dn gs = (\<lambda>g. RDeleteAcl (delete_filter dn (PatternType g))) ` set gs"

lemma finalize_grants_events:
  assumes "finalize_grants E c dn gs tr = (r, tr')"
  shows "\<exists>new. tr' = tr @ new \<and> set new \<subseteq> insert RConnect (acl_deletions dn gs) \<and>
    (kcDeletionTimestamp c \<noteq> None \<longrightarrow> new = []) \<and> (r = None \<and> kcDeletionTimestamp c = None \<longrightarrow> acl_deletions dn gs \<subseteq> set new)"
  using assms
proof (induction gs arbitrary: tr)
  case (Cons g gs)
  obtain r1 tr1 where f: "finalizeKafkaUserACLs E c dn (PatternType g) tr = (r1, tr1)" by fastforce
  have "\<exists>p. tr1 = tr @ p \<and> set p \<subseteq> {RConnect, RDeleteAcl (delete_filter dn (PatternType g))} \<and>
    (kcDeletionTimestamp c \<noteq> None \<longrightarrow> p = []) \<and>
    (r1 = None \<and> kcDeletionTimestamp c = None \<longrightarrow> RDeleteAcl (delete_filter dn (PatternType g)) \<in> set p)"
    using f by (cases "rConnect E tr") (auto simp: finalizeKafkaUserACLs_def DeleteUserACLs_def Let_def split: if_splits sum.splits)
  then obtain p where p: "tr1 = tr @ p" "set p \<subseteq> {RConnect, RDeleteAcl (delete_filter dn (PatternType g))}"
    "kcDeletionTimestamp c \<noteq> None \<longrightarrow> p = []"
    "r1 = None \<and> kcDeletionTimestamp c = None \<longrightarrow> RDeleteAcl (delete_filter dn (PatternType g)) \<in> set p" by blast
  show ?case
  proof (cases r1)
    case None
    then have "finalize_grants E c dn gs tr1 = (r, tr')" using Cons.prems f by simp
    from Cons.IH [OF this] obtain q where q: "tr' = tr1 @ q" "set q \<subseteq> insert RConnect (acl_deletions dn gs)"
      "kcDeletionTimestamp c \<noteq> None \<longrightarrow> q = []" "r = None \<and> kcDeletionTimestamp c = None \<longrightarrow> acl_deletions dn gs \<subseteq> set q"
      by (elim exE conjE) (rule that)
    have "acl_deletions dn (g # gs) = insert (RDeleteAcl (delete_filter dn (PatternType g))) (acl_deletions dn gs)"
      by (simp add: acl_deletions_def)
    then show ?thesis using p q None by (intro exI [of _ "p @ q"]) (simp, blast)
  next
    case (Some e)
    then show ?thesis using p Cons.prems f by (auto simp: acl_deletions_def)
  qed
qed (simp add: acl_deletions_def)

lemma user_removal_events:
  "after_removal (User_removeFinalizer E u tr) = (r, tr') \<Longrightarrow> tr' = tr \<or> (\<exists>fs. tr' = tr @ [RUserUpdate (u\<lparr>kuFinalizers := fs\<rparr>)])"
  by (auto simp: after_removal_def User_removeFinalizer_def User_updateAndFetchLatest_def split: go.splits sum.splits prod.splits)

section \<open>What a reconcile may do\<close>

text \<open>Documented behaviour of an update: the API answers with the object that it was sent.\<close>

definition user_echoed :: "renv \<Rightarrow> bool" where
  "user_echoed E \<longleftrightarrow> (\<forall>tr u u'. rUserUpdate E tr u = Inr u' \<longrightarrow> u' = u)"

text \<open>The name under which a user is known to Kafka, and a certificate that cannot be had.\<close>

definition acts_as :: "renv \<Rightarrow> KafkaUser \<Rightarrow> string \<Rightarrow> bool" where
  "acts_as E u dn \<longleftrightarrow> (if GetIfCertShouldBeCreated u then \<exists>tr b. rReconcileCertificate E tr b u = Inr (Inr dn) else dn = ''CN='' @ kuName u)"

definition certificate_failed :: "renv \<Rightarrow> KafkaUser \<Rightarrow> bool" where
  "certificate_failed E u \<longleftrightarrow> GetIfCertShouldBeCreated u \<and>
     (\<exists>tr b e. rReconcileCertificate E tr b u = Inl e \<and> \<not> errors_As e ResourceNotReady \<and> \<not> errors_As e FatalReconcileError)"

fun user_permitted :: "renv \<Rightarrow> err + KafkaCluster \<Rightarrow> KafkaUser \<Rightarrow> rtrace \<Rightarrow> revent \<Rightarrow> bool" where
  "user_permitted E cl u new (RCreateAcl r a) \<longleftrightarrow> kuDeletionTimestamp u = None \<and>
     (\<exists>dn g. acts_as E u dn \<and> g \<in> set (TopicGrants u) \<and> (r, a) \<in> set (grant_acls dn g))"
| "user_permitted E cl u new (RDeleteAcl f) \<longleftrightarrow> kuDeletionTimestamp u \<noteq> None \<and> userFinalizer \<in> set (kuFinalizers u) \<and>
     (\<exists>dn g c. acts_as E u dn \<and> g \<in> set (TopicGrants u) \<and> f = delete_filter dn (PatternType g) \<and>
        cl = Inr c \<and> kcDeletionTimestamp c = None)"
| "user_permitted E cl u new (RUserUpdate v) \<longleftrightarrow> userFinalizer \<in> set (kuFinalizers u) \<and> userFinalizer \<notin> set (kuFinalizers v) \<longrightarrow>
     kuDeletionTimestamp u \<noteq> None \<and>
     (case cl of Inl e \<Rightarrow> True | Inr c \<Rightarrow> kcDeletionTimestamp c \<noteq> None \<or> certificate_failed E u \<or>
        (\<exists>dn. acts_as E u dn \<and> (\<forall>g \<in> set (TopicGrants u). RDeleteAcl (delete_filter dn (PatternType g)) \<in> set new)))"
| "user_permitted E cl u new (RGetKafka n ns) \<longleftrightarrow> True"
| "user_permitted E cl u new (RUserStatus v) \<longleftrightarrow> kuDeletionTimestamp u = None \<and>
     (\<exists>dn. acts_as E u dn \<and> kuState v = UserStateCreated \<and> kuACLs v = GrantsToACLStrings dn (TopicGrants u))"
| "user_permitted E cl u new RConnect \<longleftrightarrow> True"
| "user_permitted E cl u new (RReconcileCertificate b n) \<longleftrightarrow> GetIfCertShouldBeCreated u \<and> n = kuName u"
| "user_permitted E cl u new (RFinalizeCertificate b n) \<longleftrightarrow> GetIfCertShouldBeCreated u \<and> n = kuName u \<and> kuDeletionTimestamp u \<noteq> None"
| "user_permitted E cl u new _ \<longleftrightarrow> False"

lemma user_permitted_more: "user_permitted E cl u new ev \<Longrightarrow> set new \<subseteq> set new' \<Longrightarrow> user_permitted E cl u new' ev"
  by (cases ev) (auto split: sum.splits, blast+)

lemma check_user_finalizers_permitted:
  assumes "User_checkFinalizers E c u dn tr = (r, tr')" "kuDeletionTimestamp u \<noteq> None" "acts_as E u dn"
  shows "\<exists>new. tr' = tr @ new \<and> (\<forall>ev \<in> set new. user_permitted E (Inr c) u new ev)"
proof (cases "userFinalizer \<in> set (kuFinalizers u)")
  case True
  obtain r1 tr1 where f: "finalize_grants E c dn (TopicGrants u) tr = (r1, tr1)" by fastforce
  from finalize_grants_events [OF f] obtain p where p: "tr1 = tr @ p" "set p \<subseteq> insert RConnect (acl_deletions dn (TopicGrants u))"
    "kcDeletionTimestamp c \<noteq> None \<longrightarrow> p = []" "r1 = None \<and> kcDeletionTimestamp c = None \<longrightarrow> acl_deletions dn (TopicGrants u) \<subseteq> set p"
    by (elim exE conjE) (rule that)
  have ok: "user_permitted E (Inr c) u new ev" if "ev \<in> set p" for ev new
  proof -
    have "ev = RConnect \<or> kcDeletionTimestamp c = None \<and> (\<exists>g \<in> set (TopicGrants u). ev = RDeleteAcl (delete_filter dn (PatternType g)))"
      using p(2,3) that by (cases "kcDeletionTimestamp c") (auto simp: acl_deletions_def)
    then show ?thesis using assms(2,3) True by (elim disjE conjE bexE) (simp, force)
  qed
  show ?thesis
  proof (cases r1)
    case (Some e)
    then show ?thesis using assms(1) True f p(1) ok by (auto simp: User_checkFinalizers_def)
  next
    case None
    then have "after_removal (User_removeFinalizer E u tr1) = (r, tr')" using assms(1) True f by (auto simp: User_checkFinalizers_def)
    from user_removal_events [OF this] show ?thesis
    proof (elim disjE exE)
      fix fs assume "tr' = tr1 @ [RUserUpdate (u\<lparr>kuFinalizers := fs\<rparr>)]"
      moreover have "user_permitted E (Inr c) u (p @ [RUserUpdate (u\<lparr>kuFinalizers := fs\<rparr>)]) (RUserUpdate (u\<lparr>kuFinalizers := fs\<rparr>))"
        using p(4) None assms(2,3) unfolding acl_deletions_def image_subset_iff by (cases "kcDeletionTimestamp c") (simp_all, blast)
      ultimately show ?thesis using p(1) ok by (intro exI [of _ "p @ [RUserUpdate (u\<lparr>kuFinalizers := fs\<rparr>)]"]) auto
    qed (use p(1) ok in auto)
  qed
next
  case False
  then show ?thesis using assms(1) by (simp add: User_checkFinalizers_def)
qed

lemma ensure_grants_events:
  assumes "ensure_grants E dn u tr = (r, tr')"
  shows "\<exists>new. tr' = tr @ new \<and> set new \<subseteq> insert RConnect (grant_events dn (TopicGrants u)) \<and>
    (\<not> isl r \<longrightarrow> grant_events dn (TopicGrants u) \<subseteq> set new \<and> (\<forall>g \<in> set (TopicGrants u). valid_grant g))"
proof (cases "TopicGrants u = [] \<or> rConnect E tr \<noteq> None")
  case True
  then show ?thesis using assms by (auto simp: ensure_grants_def grant_events_def split: if_splits)
next
  case False
  obtain r1 tr1 where c: "create_grants E dn (TopicGrants u) (tr @ [RConnect]) = (r1, tr1)" by fastforce
  from create_grants_events [OF this] obtain p where p: "tr1 = (tr @ [RConnect]) @ p" "set p \<subseteq> grant_events dn (TopicGrants u)"
    "r1 = None \<longrightarrow> grant_events dn (TopicGrants u) \<subseteq> set p \<and> (\<forall>g \<in> set (TopicGrants u). valid_grant g)" by (elim exE conjE) (rule that)
  have "tr' = tr1 \<and> (\<not> isl r \<longrightarrow> r1 = None)" using assms False c by (auto simp: ensure_grants_def split: option.splits)
  then show ?thesis using p by (intro exI [of _ "RConnect # p"]) auto
qed

lemma created_status_fields:
  "kuState (created_status dn u) = UserStateCreated" "kuACLs (created_status dn u) = GrantsToACLStrings dn (TopicGrants u)"
  by (simp_all add: created_status_def GrantsToACLStrings_def)

lemma record_user_events:
  assumes "record_user E dn u tr = (r, tr')" "user_echoed E"
  shows "\<exists>new. tr' = tr @ new \<and>
    (\<forall>ev \<in> set new. (\<exists>v. ev = RUserUpdate v \<and> userFinalizer \<in> set (kuFinalizers v)) \<or>
      (\<exists>v. ev = RUserStatus v \<and> kuState v = UserStateCreated \<and> kuACLs v = GrantsToACLStrings dn (TopicGrants u))) \<and>
    (r = Ret Reconciled \<longrightarrow> (userFinalizer \<in> set (kuFinalizers u) \<or> (\<exists>v. RUserUpdate v \<in> set new)) \<and>
       (\<exists>v. RUserStatus v \<in> set new))"
proof -
  define f where "f = (if StringSliceContains (kuFinalizers u) userFinalizer then (Inr u, tr)
            else User_updateAndFetchLatest E (u\<lparr>kuFinalizers := kuFinalizers u @ [userFinalizer]\<rparr>) tr)"
  have r: "(case f of
        (Inl e, tr1) \<Rightarrow> (requeueWithError ''failed to update kafkauser with finalizer'' e, tr1)
      | (Inr u1, tr1) \<Rightarrow>
          let u2 = created_status dn u1 in
          (case rUserStatus E tr1 u2 of
             Inl e \<Rightarrow> (requeueWithError ''failed to update kafkauser status'' e, tr1 @ [RUserStatus u2])
           | Inr u3 \<Rightarrow> (reconciled, tr1 @ [RUserStatus u2]))) = (r, tr')"
    using assms(1) by (simp add: record_user_def f_def)
  obtain a q where f: "f = (a, tr @ q)" "\<forall>ev \<in> set q. \<exists>v. ev = RUserUpdate v \<and> userFinalizer \<in> set (kuFinalizers v)"
    "userFinalizer \<in> set (kuFinalizers u) \<or> (\<exists>v. RUserUpdate v \<in> set q)" "\<forall>u1. a = Inr u1 \<longrightarrow> TopicGrants u1 = TopicGrants u"
  proof (cases "userFinalizer \<in> set (kuFinalizers u)")
    case True
    then show ?thesis using that [of "Inr u" "[]"] by (simp add: f_def)
  next
    case False
    let ?v = "u\<lparr>kuFinalizers := kuFinalizers u @ [userFinalizer]\<rparr>"
    have "TopicGrants u1 = TopicGrants u" if "rUserUpdate E tr ?v = Inr u1" for u1
      using assms(2) that unfolding user_echoed_def by fastforce
    then show ?thesis using False that [of "rUserUpdate E tr ?v" "[RUserUpdate ?v]"] by (simp add: f_def User_updateAndFetchLatest_def)
  qed
  show ?thesis
  proof (cases a)
    case (Inl e)
    then show ?thesis using r f by auto
  next
    case (Inr u1)
    then have "tr' = tr @ q @ [RUserStatus (created_status dn u1)]" using r f(1) by (auto simp: Let_def split: sum.splits)
    moreover have "TopicGrants u1 = TopicGrants u" using f(4) Inr by simp
    ultimately show ?thesis using f(2,3)
      by (intro exI [of _ "q @ [RUserStatus (created_status dn u1)]"]) (auto simp: created_status_fields)
  qed
qed

lemma user_label_events:
  assumes "User_ensureClusterLabel E c u tr = (r, tr')" "user_echoed E"
  shows "\<exists>new. tr' = tr @ new \<and> (\<forall>ev \<in> set new. \<exists>v. ev = RUserUpdate v \<and> kuFinalizers v = kuFinalizers u) \<and>
    (\<forall>u1. r = Inr u1 \<longrightarrow> TopicGrants u1 = TopicGrants u \<and> kuFinalizers u1 = kuFinalizers u)"
proof -
  let ?u1 = "u\<lparr>kuLabels := Some (applyClusterRefLabel c (kuLabels u))\<rparr>"
  have "u2 = ?u1" if "rUserUpdate E tr ?u1 = Inr u2" for u2 using that assms(2) by (auto simp: user_echoed_def)
  then show ?thesis using assms(1)
    by (auto simp: User_ensureClusterLabel_def User_updateAndFetchLatest_def Let_def split: if_splits)
qed

lemma reconcile_user_live:
  assumes "reconcile_user E c u dn tr = (r, tr')" "user_echoed E" "kuDeletionTimestamp u = None" "acts_as E u dn"
  shows "\<exists>new. tr' = tr @ new \<and> (\<forall>ev \<in> set new. user_permitted E (Inr c) u new ev) \<and>
    (r = Ret Reconciled \<longrightarrow> grant_events dn (TopicGrants u) \<subseteq> set new \<and> (\<forall>g \<in> set (TopicGrants u). valid_grant g) \<and>
       (userFinalizer \<in> set (kuFinalizers u) \<or> (\<exists>v. RUserUpdate v \<in> set new \<and> userFinalizer \<in> set (kuFinalizers v))) \<and>
       (\<exists>v. RUserStatus v \<in> set new \<and> kuState v = UserStateCreated \<and> kuACLs v = GrantsToACLStrings dn (TopicGrants u)))"
proof -
  obtain a tr1 where l: "User_ensureClusterLabel E c u tr = (a, tr1)" by fastforce
  from user_label_events [OF this assms(2)] obtain p where p: "tr1 = tr @ p"
    "\<forall>ev \<in> set p. \<exists>v. ev = RUserUpdate v \<and> kuFinalizers v = kuFinalizers u"
    "\<forall>u1. a = Inr u1 \<longrightarrow> TopicGrants u1 = TopicGrants u \<and> kuFinalizers u1 = kuFinalizers u" by (elim exE conjE) (rule that)
  have pp: "user_permitted E (Inr c) u new ev" if "ev \<in> set p" for ev new using bspec [OF p(2) that] by auto
  show ?thesis
  proof (cases a)
    case (Inl e)
    then show ?thesis using assms(1,3) l p(1) pp by (auto simp: reconcile_user_def)
  next
    case (Inr u1)
    then have u1: "TopicGrants u1 = TopicGrants u" "kuFinalizers u1 = kuFinalizers u" using p(3) by simp_all
    obtain b tr2 where g: "ensure_grants E dn u1 tr1 = (b, tr2)" by fastforce
    from ensure_grants_events [OF this] obtain q where q: "tr2 = tr1 @ q" "set q \<subseteq> insert RConnect (grant_events dn (TopicGrants u))"
      "\<not> isl b \<longrightarrow> grant_events dn (TopicGrants u) \<subseteq> set q \<and> (\<forall>g \<in> set (TopicGrants u). valid_grant g)"
      unfolding u1 by (elim exE conjE) (rule that)
    have qp: "user_permitted E (Inr c) u new ev" if "ev \<in> set q" for ev new
    proof -
      have "ev = RConnect \<or> (\<exists>g ra. g \<in> set (TopicGrants u) \<and> ra \<in> set (grant_acls dn g) \<and> ev = RCreateAcl (fst ra) (snd ra))"
        using q(2) that by (auto simp: grant_events_def acl_event_def)
      then show ?thesis using assms(3,4) by (elim disjE exE conjE) (simp, force)
    qed
    show ?thesis
    proof (cases b)
      case (Inl r1)
      then have "r = r1 \<and> tr' = tr2" using assms(1,3) l Inr g by (simp add: reconcile_user_def)
      moreover have "r1 \<noteq> Ret Reconciled"
        using g Inl by (auto simp: ensure_grants_def checkBrokerConnectionError_def split: if_splits option.splits prod.splits)
      ultimately show ?thesis using p(1) q(1) pp qp by (intro exI [of _ "p @ q"]) auto
    next
      case x: (Inr x)
      then have "record_user E dn u1 tr2 = (r, tr')" using assms(1,3) l Inr g by (simp add: reconcile_user_def)
      from record_user_events [OF this assms(2)] obtain s where s: "tr' = tr2 @ s"
        "\<forall>ev \<in> set s. (\<exists>v. ev = RUserUpdate v \<and> userFinalizer \<in> set (kuFinalizers v)) \<or>
          (\<exists>v. ev = RUserStatus v \<and> kuState v = UserStateCreated \<and> kuACLs v = GrantsToACLStrings dn (TopicGrants u))"
        "r = Ret Reconciled \<longrightarrow> (userFinalizer \<in> set (kuFinalizers u) \<or> (\<exists>v. RUserUpdate v \<in> set s)) \<and> (\<exists>v. RUserStatus v \<in> set s)"
        unfolding u1 by (elim exE conjE) (rule that)
      have "user_permitted E (Inr c) u new ev" if "ev \<in> set s" for ev new using bspec [OF s(2) that] assms(3,4) by auto
      then have "\<forall>ev \<in> set (p @ q @ s). user_permitted E (Inr c) u (p @ q @ s) ev" using pp qp by auto
      moreover have "r = Ret Reconciled \<longrightarrow> grant_events dn (TopicGrants u) \<subseteq> set (p @ q @ s) \<and> (\<forall>g \<in> set (TopicGrants u). valid_grant g)"
        using q(3) x by auto
      moreover have "r = Ret Reconciled \<longrightarrow>
         (userFinalizer \<in> set (kuFinalizers u) \<or> (\<exists>v. RUserUpdate v \<in> set (p @ q @ s) \<and> userFinalizer \<in> set (kuFinalizers v))) \<and>
         (\<exists>v. RUserStatus v \<in> set (p @ q @ s) \<and> kuState v = UserStateCreated \<and> kuACLs v = GrantsToACLStrings dn (TopicGrants u))"
        using s(2,3) by fastforce
      moreover have "tr' = tr @ p @ q @ s" using s(1) q(1) p(1) by simp
      ultimately show ?thesis by blast
    qed
  qed
qed

lemma certificate_error_permitted:
  assumes "certificate_error E u e tr = (r, tr')" "rReconcileCertificate E tr0 b u = Inl e" "GetIfCertShouldBeCreated u"
  shows "\<exists>new. tr' = tr @ new \<and> (\<forall>ev \<in> set new. user_permitted E (Inr c) u new' ev) \<and> (kuDeletionTimestamp u = None \<longrightarrow> r \<noteq> Ret Reconciled)"
proof (cases "errors_As e ResourceNotReady \<or> errors_As e FatalReconcileError \<or> kuDeletionTimestamp u = None")
  case True
  then show ?thesis using assms(1) by (auto simp: certificate_error_def split: if_splits)
next
  case False
  then have "certificate_failed E u" using assms(2,3) by (auto simp: certificate_failed_def)
  moreover have "after_removal (User_removeFinalizer E u tr) = (r, tr')" using assms(1) False by (simp add: certificate_error_def)
  ultimately show ?thesis using user_removal_events [of E u tr r tr'] False by auto
qed

lemma certificate_from_permitted:
  assumes "certificate_from E u b tr = (x, tr')" "GetIfCertShouldBeCreated u"
  shows "\<exists>new. tr' = tr @ new \<and> (\<forall>ev \<in> set new. user_permitted E (Inr c) u new' ev) \<and> (\<forall>dn. x = Inr dn \<longrightarrow> acts_as E u dn) \<and>
    (kuDeletionTimestamp u = None \<longrightarrow> x \<noteq> Inl (Ret Reconciled))"
proof (cases "rReconcileCertificate E tr b u")
  case (Inl e)
  obtain r2 tr2 where "certificate_error E u e (tr @ [RReconcileCertificate b (kuName u)]) = (r2, tr2)" by fastforce
  from certificate_error_permitted [OF this Inl assms(2), of c new'] this show ?thesis
    using assms Inl by (auto simp: certificate_from_def Let_def)
next
  case (Inr y)
  have "acts_as E u dn" if "y = Inr dn" for dn using Inr that assms(2) by (auto simp: acts_as_def)
  then show ?thesis using Inr assms by (cases y) (auto simp: certificate_from_def Let_def split: if_splits option.splits)
qed

lemma user_certificate_permitted:
  assumes "user_certificate E c u tr = (x, tr')" "GetIfCertShouldBeCreated u"
  shows "\<exists>new. tr' = tr @ new \<and> (\<forall>ev \<in> set new. user_permitted E (Inr c) u new' ev) \<and> (\<forall>dn. x = Inr dn \<longrightarrow> acts_as E u dn) \<and>
    (kuDeletionTimestamp u = None \<longrightarrow> x \<noteq> Inl (Ret Reconciled))"
proof -
  have "(\<exists>y. user_certificate E c u tr = (Inl y, tr) \<and> y \<noteq> Ret Reconciled) \<or> (\<exists>b. user_certificate E c u tr = certificate_from E u b tr)"
    unfolding user_certificate_def by (split option.split, split if_split, split go.split) auto
  then show ?thesis
  proof (elim disjE exE conjE)
    fix b assume "user_certificate E c u tr = certificate_from E u b tr"
    then show ?thesis using certificate_from_permitted [of E u b tr x tr'] assms by simp
  qed (use assms(1) in auto)
qed

section \<open>Properties\<close>

text \<open>
  (C23) What a reconcile of a user may do. It creates access control entries only for a live user, under the user's own
  name (the distinguished name of its certificate, or its resource name), and only those that one of its grants stands
  for; it asks Kafka to delete entries only for a user that is marked for deletion and still has the finalizer, and not
  while the cluster itself is going away; and the finalizer is removed only from a user that is marked for deletion, when
  the cluster is gone or going, or its certificate failed for good, or a deletion was sent for each of its grants.
\<close>

theorem user_access_guarded:
  assumes "user_echoed E" and "rGetUser E tr name ns = Inr u" and "User_Reconcile E name ns tr = (r, tr')"
  shows "\<exists>new. tr' = tr @ RGetUser name ns # new \<and>
    (\<forall>ev \<in> set new. user_permitted E (rGetKafka E (tr @ [RGetUser name ns]) (kuClusterRefName u)
        (getClusterRefNamespace (kuNamespace u) (kuClusterRefNamespace u))) u new ev)"
proof -
  let ?cns = "getClusterRefNamespace (kuNamespace u) (kuClusterRefNamespace u)"
  let ?g = "RGetKafka (kuClusterRefName u) ?cns" and ?tr1 = "tr @ [RGetUser name ns]"
  show ?thesis
  proof (cases "rGetKafka E ?tr1 (kuClusterRefName u) ?cns")
    case (Inl e)
    show ?thesis
    proof (cases "kuDeletionTimestamp u")
      case None
      then show ?thesis using assms(2,3) Inl by (auto simp: User_Reconcile_def Let_def)
    next
      case (Some d)
      then have "after_removal (User_removeFinalizer E u (?tr1 @ [?g])) = (r, tr')"
        using assms(2,3) Inl by (auto simp: User_Reconcile_def Let_def)
      from user_removal_events [OF this] show ?thesis using Inl Some by auto
    qed
  next
    case (Inr c)
    define y where "y = (if GetIfCertShouldBeCreated u then user_certificate E c u (?tr1 @ [?g]) else (Inr (''CN='' @ kuName u), ?tr1 @ [?g]))"
    obtain x p where y: "y = (x, ?tr1 @ ?g # p)" "\<forall>ev \<in> set p. user_permitted E (Inr c) u [] ev" "\<forall>dn. x = Inr dn \<longrightarrow> acts_as E u dn"
    proof (cases "GetIfCertShouldBeCreated u")
      case True
      obtain x tr3 where x: "user_certificate E c u (?tr1 @ [?g]) = (x, tr3)" by fastforce
      from user_certificate_permitted [OF this True, of "[]"] show ?thesis
        using x True that [of x] by (auto simp: y_def)
    next
      case False
      then show ?thesis using that [of "Inr (''CN='' @ kuName u)" "[]"] by (simp add: y_def acts_as_def)
    qed
    have r: "(r, tr') = (case y of (Inl r, tr3) \<Rightarrow> (r, tr3) | (Inr user, tr3) \<Rightarrow> reconcile_user E c u user tr3)"
      using assms(2,3) Inr by (simp add: User_Reconcile_def Let_def y_def)
    have pp: "user_permitted E (Inr c) u new ev" if "ev \<in> set p" for ev new
      using user_permitted_more [OF bspec [OF y(2) that]] by simp
    show ?thesis
    proof (cases x)
      case (Inl r1)
      then show ?thesis using r y(1) pp Inr by (intro exI [of _ "?g # p"]) auto
    next
      case dn: (Inr dn)
      then have rec: "reconcile_user E c u dn (?tr1 @ ?g # p) = (r, tr')" and a: "acts_as E u dn" using r y by simp_all
      have "\<exists>q. tr' = (?tr1 @ ?g # p) @ q \<and> (\<forall>ev \<in> set q. user_permitted E (Inr c) u q ev)"
      proof (cases "kuDeletionTimestamp u")
        case None
        from reconcile_user_live [OF rec assms(1) None a] show ?thesis by blast
      next
        case (Some d)
        then show ?thesis using rec a check_user_finalizers_permitted [of E c u dn "?tr1 @ ?g # p" r tr'] by (simp add: reconcile_user_def)
      qed
      then obtain q where q: "tr' = ?tr1 @ (?g # p @ q)" "\<forall>ev \<in> set q. user_permitted E (Inr c) u q ev" by auto
      have "user_permitted E (Inr c) u (?g # p @ q) ev" if "ev \<in> set q" for ev
        by (rule user_permitted_more [OF bspec [OF q(2) that]]) auto
      then show ?thesis using q(1) pp Inr by (intro exI [of _ "?g # p @ q"]) auto
    qed
  qed
qed

definition user_env :: "KafkaUser \<Rightarrow> renv" where
  "user_env u = quiet_renv\<lparr>rGetUser := \<lambda>tr n ns. Inr u\<rparr>"

lemma user_env_echoed: "user_echoed (user_env u)"
  by (simp add: user_echoed_def user_env_def quiet_renv_def)

definition leaving_user :: KafkaUser where
  "leaving_user = sample_user\<lparr>kuFinalizers := [userFinalizer], kuDeletionTimestamp := Some 1\<rparr>"

theorem user_access_guarded_witness:
  "\<exists>new. User_Reconcile (user_env leaving_user) ''user'' ''ns'' [] = (Ret Reconciled, [] @ RGetUser ''user'' ''ns'' # new) \<and>
     RDeleteAcl (delete_filter ''CN=user'' []) \<in> set new \<and>
     (\<forall>ev \<in> set new. user_permitted (user_env leaving_user) (Inr (listening_cluster [])) leaving_user new ev)"
proof -
  let ?new = "[RGetKafka ''kafka'' ''ns'', RConnect, RDeleteAcl (delete_filter ''CN=user'' []), RUserUpdate (leaving_user\<lparr>kuFinalizers := []\<rparr>)]"
  have r: "User_Reconcile (user_env leaving_user) ''user'' ''ns'' [] = (Ret Reconciled, RGetUser ''user'' ''ns'' # ?new)" by code_simp
  have g: "rGetUser (user_env leaving_user) [] ''user'' ''ns'' = Inr leaving_user"
    "rGetKafka (user_env leaving_user) tr n ns = Inr (listening_cluster [])" for tr n ns
    by (simp_all add: user_env_def quiet_renv_def)
  from user_access_guarded [OF user_env_echoed g(1) r] show ?thesis using r unfolding g(2) by auto
qed

text \<open>
  What a successful reconcile of a live user has achieved: for some name the user acts under, every access control
  entry of every grant was created; the user has the finalizer, or was written with it; and it was recorded as created with
  a list of entries without repetitions, which are the texts of the entries created, but for the permission to describe
  configurations, which is created and never listed. A grant with an unknown access or pattern type is an error.
\<close>

theorem user_reconcile_ensures:
  assumes "user_echoed E" and "rGetUser E tr name ns = Inr u" and "kuDeletionTimestamp u = None"
    and "User_Reconcile E name ns tr = (Ret Reconciled, tr')"
  shows "\<exists>new dn v. tr' = tr @ RGetUser name ns # new \<and> acts_as E u dn \<and>
    (\<forall>g \<in> set (TopicGrants u). \<forall>(res, acl) \<in> set (grant_acls dn g). RCreateAcl res acl \<in> set new) \<and>
    (userFinalizer \<in> set (kuFinalizers u) \<or> (\<exists>v. RUserUpdate v \<in> set new \<and> userFinalizer \<in> set (kuFinalizers v))) \<and>
    RUserStatus v \<in> set new \<and> kuState v = UserStateCreated \<and> distinct (kuACLs v) \<and>
    set (kuACLs v) = acl_text ` {ra. (\<exists>g \<in> set (TopicGrants u). ra \<in> set (grant_acls dn g)) \<and> Operation (snd ra) \<noteq> AclOperationDescribeConfigs}"
proof -
  let ?cns = "getClusterRefNamespace (kuNamespace u) (kuClusterRefNamespace u)"
  let ?tr2 = "tr @ [RGetUser name ns, RGetKafka (kuClusterRefName u) ?cns]"
  from assms(2-4) obtain c where c: "rGetKafka E (tr @ [RGetUser name ns]) (kuClusterRefName u) ?cns = Inr c"
    by (auto simp: User_Reconcile_def Let_def split: sum.splits)
  obtain dn p where dn: "acts_as E u dn" "reconcile_user E c u dn (?tr2 @ p) = (Ret Reconciled, tr')"
  proof (cases "GetIfCertShouldBeCreated u")
    case True
    obtain x tr3 where x: "user_certificate E c u ?tr2 = (x, tr3)" by fastforce
    from user_certificate_permitted [OF this True, of "[]"] obtain p where p: "tr3 = ?tr2 @ p" "\<forall>dn. x = Inr dn \<longrightarrow> acts_as E u dn"
      "x \<noteq> Inl (Ret Reconciled)" using assms(3) by auto
    then show ?thesis using assms(2,4) c x True that [of _ p] by (auto simp: User_Reconcile_def Let_def split: sum.splits)
  next
    case False
    then show ?thesis using assms(2,4) c that [of "''CN='' @ kuName u" "[]"] by (simp add: User_Reconcile_def Let_def acts_as_def)
  qed
  from reconcile_user_live [OF dn(2) assms(1,3) dn(1)] obtain new v where n: "tr' = (?tr2 @ p) @ new"
    "grant_events dn (TopicGrants u) \<subseteq> set new" "\<forall>g \<in> set (TopicGrants u). valid_grant g"
    "userFinalizer \<in> set (kuFinalizers u) \<or> (\<exists>v. RUserUpdate v \<in> set new \<and> userFinalizer \<in> set (kuFinalizers v))"
    "RUserStatus v \<in> set new" "kuState v = UserStateCreated" "kuACLs v = GrantsToACLStrings dn (TopicGrants u)"
    by (elim exE conjE) blast
  have texts: "set (kuACLs v) = acl_text ` {ra. (\<exists>g \<in> set (TopicGrants u). ra \<in> set (grant_acls dn g)) \<and> Operation (snd ra) \<noteq> AclOperationDescribeConfigs}"
  proof -
    have "set (kuACLs v) = (\<Union>g \<in> set (TopicGrants u). set (grant_strings dn g))" by (simp add: n(7) GrantsToACLStrings_def grants_acls_set)
    also have "\<dots> = (\<Union>g \<in> set (TopicGrants u). acl_text ` {ra \<in> set (grant_acls dn g). Operation (snd ra) \<noteq> AclOperationDescribeConfigs})"
      using grant_strings_texts n(3) by (intro SUP_cong) (auto simp: grant_strings_texts)
    finally show ?thesis by blast
  qed
  have "distinct (kuACLs v)" by (simp add: n(7) GrantsToACLStrings_def grants_acls_distinct)
  moreover have "\<forall>g \<in> set (TopicGrants u). \<forall>(res, acl) \<in> set (grant_acls dn g). RCreateAcl res acl \<in> set new"
  proof (intro ballI, clarify)
    fix g res acl assume "g \<in> set (TopicGrants u)" "(res, acl) \<in> set (grant_acls dn g)"
    then have "acl_event (res, acl) \<in> grant_events dn (TopicGrants u)" unfolding grant_events_def by blast
    then show "RCreateAcl res acl \<in> set new" using n(2) by (auto simp: acl_event_def)
  qed
  moreover have "set new \<subseteq> set (RGetKafka (kuClusterRefName u) ?cns # p @ new)"
    "tr' = tr @ RGetUser name ns # RGetKafka (kuClusterRefName u) ?cns # p @ new" using n(1) by auto
  ultimately show ?thesis using n(4-6) texts dn(1)
    by (intro exI [of _ "RGetKafka (kuClusterRefName u) ?cns # p @ new"] exI [of _ dn] exI [of _ v] conjI) blast+
qed

theorem user_reconcile_ensures_witness:
  "\<exists>new dn v. acts_as (user_env sample_user) sample_user dn \<and>
     (\<forall>(res, acl) \<in> set (grant_acls dn \<lparr>TopicName = ''t'', AccessType = ''read'', PatternType = []\<rparr>). RCreateAcl res acl \<in> set new) \<and>
     RUserStatus v \<in> set new \<and> kuState v = UserStateCreated"
proof -
  have "fst (User_Reconcile (user_env sample_user) ''user'' ''ns'' []) = Ret Reconciled" by code_simp
  then obtain tr' where r: "User_Reconcile (user_env sample_user) ''user'' ''ns'' [] = (Ret Reconciled, tr')" by (metis prod.collapse)
  have g: "rGetUser (user_env sample_user) [] ''user'' ''ns'' = Inr sample_user" by (simp add: user_env_def)
  have n: "kuDeletionTimestamp sample_user = None" "TopicGrants sample_user = [\<lparr>TopicName = ''t'', AccessType = ''read'', PatternType = []\<rparr>]"
    by (simp_all add: sample_user_def)
  from user_reconcile_ensures [OF user_env_echoed g n(1) r] show ?thesis unfolding n(2) by auto
qed

section \<open>Deleting access control entries\<close>

text \<open>Which entries Kafka deletes for a filter: the principal and the resource type must be those of the filter, and so
  must the operation unless the filter leaves it open; the pattern type is not needed for what follows.\<close>

definition filter_matches :: "AclFilter \<Rightarrow> Resource \<times> Acl \<Rightarrow> bool" where
  "filter_matches f ra \<longleftrightarrow> Principal (snd ra) = filterPrincipal f \<and> ResourceType (fst ra) = filterResourceType f \<and>
     (filterOperation f = AclOperationAny \<or> Operation (snd ra) = filterOperation f)"

text \<open>The filter of \<open>DeleteUserACLs\<close> asks for entries that allow to delete, which are never created: no entry of a user is
  removed with it. Its principal lacks the prefix that entries are created with, too.\<close>

lemma user_acls_not_deleted: "ra \<in> set (grant_acls dn g) \<Longrightarrow> \<not> filter_matches (delete_filter dn' p) ra"
  by (auto simp: grant_acls_def read_acls_def write_acls_def common_acls_def filter_matches_def delete_filter_def Let_def split: if_splits)

lemma principal_differs: "ra \<in> set (grant_acls dn g) \<Longrightarrow> Principal (snd ra) = ''User:'' @ dn \<and> filterPrincipal (delete_filter dn p) = dn"
  by (auto simp: grant_acls_def read_acls_def write_acls_def common_acls_def delete_filter_def Let_def split: if_splits)

end
