(* ===== verification/KubeClient.thy ===== *)
theory KubeClient
  imports KafkaRolling
begin

text \<open>
  Applying generated objects to the Kubernetes API (\<open>pkg/k8sutil/resource.go\<close>, \<open>pkg/resources/templates/templates.go\<close>)
  and the decision whether a changed broker configuration needs a rolling upgrade
  (\<open>ShouldRefreshOnlyPerBrokerConfigs\<close> in \<open>pkg/util/kafka/common.go\<close>).

  The record \<open>renv\<close> extends what the reconciler sees of the outside (\<open>kenv\<close>) with the calls on generated
  objects, secrets, nodes and pods, the patch library, the parser of key stores, the public-key
  infrastructure, the metrics endpoint of a broker, floating-point arithmetic (a percentage of a number), the templates of
  volume claims and the order in which Go ranges over a map. Reads of an object
  return one of the kind asked for. Annotations that the patch library adds are not modelled.
\<close>

section \<open>The environment of the Kafka reconciler\<close>

record renv =
  rK :: kenv
  rM :: mergo
  rGetObject :: "ktrace \<Rightarrow> kkind \<Rightarrow> string \<Rightarrow> err + kobject"
  rCreateObject :: "ktrace \<Rightarrow> kobject \<Rightarrow> err option"
  rUpdateObject :: "ktrace \<Rightarrow> kobject \<Rightarrow> err option"
  rPatchObject :: "kobject \<Rightarrow> kobject \<Rightarrow> err + bool"
  rSetLastAppliedObject :: "kobject \<Rightarrow> err option"
  rListServices :: "ktrace \<Rightarrow> err + Service list"
  rGetSecret :: "ktrace \<Rightarrow> string \<Rightarrow> err + Secret"
  rCheckSSLCertSecret :: "Secret \<Rightarrow> err option"
  rLeafSubject :: "string \<Rightarrow> string \<Rightarrow> err + string"
  rGetNode :: "ktrace \<Rightarrow> string \<Rightarrow> err + Node"
  rListBrokerPods :: "ktrace \<Rightarrow> string \<Rightarrow> err option \<times> Pod list"
  rListAllPvcs :: "ktrace \<Rightarrow> err + Pvc list"
  rCreatePod :: "ktrace \<Rightarrow> Pod \<Rightarrow> err option"
  rDescribeCluster :: "ktrace \<Rightarrow> err + 32 word"
  rReconcilePKI :: "ktrace \<Rightarrow> KafkaCluster \<Rightarrow> listener_statuses \<Rightarrow> err option"
  rMetricsVersion :: "ktrace \<Rightarrow> string \<Rightarrow> err + err + string"
  rRandomClusterID :: "ktrace \<Rightarrow> string"
  rPercentage :: "string \<Rightarrow> 64 word \<Rightarrow> err + 64 word"
  rRangeStrings :: "(string, string) gomap \<Rightarrow> (string, string) gomap"
  rRangeStatuses :: "listener_statuses \<Rightarrow> listener_statuses"
  rRangeIngress :: "(string, IngressConfig) gomap \<Rightarrow> (string, IngressConfig) gomap"
  rPvcStorage :: "StorageConfig \<Rightarrow> 32 word \<Rightarrow> err + int"
  rRangeClaims :: "(string, Pvc list) gomap \<Rightarrow> (string, Pvc list) gomap"

section \<open>Metadata of generated objects (pkg/resources/templates/templates.go)\<close>

definition ObjectMetaLabels :: "KafkaCluster \<Rightarrow> (string, string) gomap \<Rightarrow> (string, string) gomap" where
  "ObjectMetaLabels cluster l = (if PropagateLabels (kcSpec cluster) then MergeLabels [kcLabels cluster, l] else l)"

definition template_ObjectMeta :: "string \<Rightarrow> (string, string) gomap \<Rightarrow> KafkaCluster \<Rightarrow> GenMeta" where
  "template_ObjectMeta name labels cluster = \<lparr>gmName = name, gmNamespace = kcNamespace cluster,
     gmLabels = ObjectMetaLabels cluster labels, gmAnnotations = [], gmDeletionTimestamp = None, gmResourceVersion = []\<rparr>"

definition ObjectMetaWithAnnotations :: "string \<Rightarrow> (string, string) gomap \<Rightarrow> (string, string) gomap \<Rightarrow> KafkaCluster \<Rightarrow> GenMeta" where
  "ObjectMetaWithAnnotations name labels annotations cluster =
     (template_ObjectMeta name labels cluster)\<lparr>gmAnnotations := annotations\<rparr>"

section \<open>Configurations that brokers take up without a restart (pkg/util/kafka/common.go)\<close>

definition ConfigPropertyName :: string where
  "ConfigPropertyName = ''broker-config''"

definition KafkaConfigListeners :: string where
  "KafkaConfigListeners = ''listeners''"

definition KafkaConfigAdvertisedListeners :: string where
  "KafkaConfigAdvertisedListeners = ''advertised.listeners''"

definition KafkaConfigListenerSecurityProtocolMap :: string where
  "KafkaConfigListenerSecurityProtocolMap = ''listener.security.protocol.map''"

definition KafkaConfigSSLClientAuth :: string where
  "KafkaConfigSSLClientAuth = ''ssl.client.auth''"

definition PerBrokerConfigs :: "string list" where
  "PerBrokerConfigs = [KafkaConfigSSLClientAuth, KafkaConfigListeners, KafkaConfigAdvertisedListeners,
     KafkaConfigListenerSecurityProtocolMap]"

definition newListenerSecurityProtocolMap :: "string \<Rightarrow> (string, string) gomap" where
  "newListenerSecurityProtocolMap s = fold (\<lambda>listenerConfig m.
     (case split_2 CHR '':'' listenerConfig of
        [name, proto] \<Rightarrow> AList.update (TrimSpace name) (TrimSpace proto) m
      | _ \<Rightarrow> m)) (split_on CHR '','' s) []"

definition listenersSecurityProtocolChanged :: "string \<Rightarrow> string \<Rightarrow> bool" where
  "listenersSecurityProtocolChanged current desired =
     (if current = [] \<or> desired = [] then False
      else
        let currentConfig = newListenerSecurityProtocolMap current; desiredConfig = newListenerSecurityProtocolMap desired in
        if length currentConfig \<noteq> length desiredConfig then True
        else list_ex (\<lambda>(dKey, dConf). case map_of currentConfig dKey of None \<Rightarrow> False | Some cConf \<Rightarrow> cConf \<noteq> dConf) desiredConfig)"

definition ShouldRefreshOnlyPerBrokerConfigs :: "Properties \<Rightarrow> Properties \<Rightarrow> bool" where
  "ShouldRefreshOnlyPerBrokerConfigs currentConfigs desiredConfigs =
     (let configDiff = Diff currentConfigs (Some desiredConfigs) in
      if length configDiff = 0 then True
      else if (case map_of configDiff KafkaConfigListenerSecurityProtocolMap of
                 Some (p, q) \<Rightarrow> listenersSecurityProtocolChanged (prop_value p) (prop_value q)
               | None \<Rightarrow> False) then False
      else length (fold AList.delete PerBrokerConfigs configDiff) = 0)"

section \<open>Applying an object (pkg/k8sutil/resource.go)\<close>

definition PerBrokerConfigInSync :: string where
  "PerBrokerConfigInSync = ''PerBrokerConfigInSync''"

definition PerBrokerConfigOutOfSync :: string where
  "PerBrokerConfigOutOfSync = ''PerBrokerConfigOutOfSync''"

definition PerBrokerConfigError :: string where
  "PerBrokerConfigError = ''PerBrokerConfigError''"

definition ConfigOutOfSync :: string where
  "ConfigOutOfSync = ''ConfigOutOfSync''"

definition lookup_str :: "(string, string) gomap \<Rightarrow> string \<Rightarrow> string" where
  "lookup_str m k = (case map_of m k of None \<Rightarrow> [] | Some v \<Rightarrow> v)"

text \<open>A patch that cannot be calculated counts as a change.\<close>

definition CheckIfObjectUpdated :: "renv \<Rightarrow> kobject \<Rightarrow> kobject \<Rightarrow> bool" where
  "CheckIfObjectUpdated R current desired = (case rPatchObject R current desired of Inl e \<Rightarrow> True | Inr isEmpty \<Rightarrow> \<not> isEmpty)"

text \<open>What an update takes over from the stored object.\<close>

fun carry_over :: "kobject \<Rightarrow> kobject \<Rightarrow> kobject" where
  "carry_over (ServiceObj cur) (ServiceObj d) =
     ServiceObj (d\<lparr>svcMeta := (svcMeta d)\<lparr>gmResourceVersion := gmResourceVersion (svcMeta cur)\<rparr>, svcClusterIP := svcClusterIP cur,
       svcHealthCheckNodePort := svcHealthCheckNodePort cur\<rparr>)"
| "carry_over cur (ConfigMapObj d) = ConfigMapObj (d\<lparr>cmMeta := (cmMeta d)\<lparr>gmResourceVersion := gmResourceVersion (obj_meta cur)\<rparr>\<rparr>)"
| "carry_over cur (PdbObj d) = PdbObj (d\<lparr>pdbMeta := (pdbMeta d)\<lparr>gmResourceVersion := gmResourceVersion (obj_meta cur)\<rparr>\<rparr>)"
| "carry_over cur d = d"

definition config_text :: "kobject \<Rightarrow> string" where
  "config_text ob = (case ob of ConfigMapObj m \<Rightarrow> lookup_str (cmData m) ConfigPropertyName | _ \<Rightarrow> [])"

text \<open>The broker whose configuration map this is.\<close>

definition config_broker :: "kobject \<Rightarrow> string option" where
  "config_broker ob = (case ob of ConfigMapObj m \<Rightarrow> map_of (gmLabels (cmMeta m)) BrokerIdLabelKey | _ \<Rightarrow> None)"

text \<open>After a configuration map of a broker was updated. An error of the status update is lost: the code wraps the error
  of the parser, which is nil there.\<close>

definition config_changed :: "renv \<Rightarrow> string \<Rightarrow> Properties \<Rightarrow> Properties \<Rightarrow> KafkaCluster \<Rightarrow> ktrace \<Rightarrow> (err, unit) go \<times> KafkaCluster \<times> ktrace" where
  "config_changed R i currentConfigs desiredConfigs c tr =
     (if Properties_Equal currentConfigs (Some desiredConfigs) then (Ret (), c, tr)
      else (case UpdateBrokerStatus (rK R) [i] c
              (if ShouldRefreshOnlyPerBrokerConfigs currentConfigs desiredConfigs then StPerBrokerConfigurationState PerBrokerConfigOutOfSync
               else StConfigurationState ConfigOutOfSync) tr of
          (_, c1, tr1) \<Rightarrow> (Ret (), c1, tr1)))"

definition track_config :: "renv \<Rightarrow> kobject \<Rightarrow> kobject \<Rightarrow> KafkaCluster \<Rightarrow> ktrace \<Rightarrow> (err, unit) go \<times> KafkaCluster \<times> ktrace" where
  "track_config R current desired c tr =
     (case config_broker desired of
        None \<Rightarrow> (Ret (), c, tr)
      | Some i \<Rightarrow>
          (case NewFromString (config_text current) of
             Panic \<Rightarrow> (Panic, c, tr)
           | Err e \<Rightarrow> (Err (NewErr ''could not parse the current configuration for broker''), c, tr)
           | Ret currentConfigs \<Rightarrow>
               (case NewFromString (config_text desired) of
                  Panic \<Rightarrow> (Panic, c, tr)
                | Err e \<Rightarrow> (Err (NewErr ''could not parse the current configuration for broker''), c, tr)
                | Ret desiredConfigs \<Rightarrow> config_changed R i currentConfigs desiredConfigs c tr)))"

definition create_object :: "renv \<Rightarrow> kobject \<Rightarrow> ktrace \<Rightarrow> (err, unit) go \<times> ktrace" where
  "create_object R desired tr = (case rSetLastAppliedObject R desired of
     Some e \<Rightarrow> (Err (WrapErr ''could not apply last state to annotation'' e), tr)
   | None \<Rightarrow> (case rCreateObject R tr desired of
       Some e \<Rightarrow> (Err (typed APIFailure e), tr @ [KCreateObject desired])
     | None \<Rightarrow> (Ret (), tr @ [KCreateObject desired])))"

definition update_object :: "renv \<Rightarrow> kobject \<Rightarrow> kobject \<Rightarrow> KafkaCluster \<Rightarrow> ktrace \<Rightarrow> (err, unit) go \<times> KafkaCluster \<times> ktrace" where
  "update_object R current desired c tr = (case rSetLastAppliedObject R desired of
     Some e \<Rightarrow> (Err (WrapErr ''could not apply last state to annotation'' e), c, tr)
   | None \<Rightarrow>
       let desired' = carry_over current desired in
       (case rUpdateObject R tr desired' of
          Some e \<Rightarrow> (Err (typed APIFailure e), c, tr @ [KUpdateObject desired'])
        | None \<Rightarrow> track_config R current desired' c (tr @ [KUpdateObject desired'])))"

definition k8s_Reconcile :: "renv \<Rightarrow> kobject \<Rightarrow> KafkaCluster \<Rightarrow> ktrace \<Rightarrow> (err, unit) go \<times> KafkaCluster \<times> ktrace" where
  "k8s_Reconcile R desired c tr =
     (let name = gmName (obj_meta desired); tr1 = tr @ [KGetObject (obj_kind desired) name] in
      (case rGetObject R tr (obj_kind desired) name of
         Inl e \<Rightarrow>
           if \<not> IsNotFound e then (Err (typed APIFailure e), c, tr1)
           else (case create_object R desired tr1 of (r, tr2) \<Rightarrow> (r, c, tr2))
       | Inr current \<Rightarrow>
           if CheckIfObjectUpdated R current desired then update_object R current desired c tr1
           else (Ret (), c, tr1)))"

section \<open>Lemmas\<close>

definition value_of :: "Properties \<Rightarrow> string \<Rightarrow> string" where
  "value_of p k = (case Get p k of None \<Rightarrow> [] | Some x \<Rightarrow> prop_value x)"

definition differs :: "Properties \<Rightarrow> Properties \<Rightarrow> string \<Rightarrow> bool" where
  "differs p q k \<longleftrightarrow> map_option prop_value (Get p k) \<noteq> map_option prop_value (Get q k)"

lemma differs_value: "\<not> differs p q k \<Longrightarrow> value_of p k = value_of q k"
  by (auto simp: differs_def value_of_def split: option.splits)

lemma protocol_map_ok: "gm_ok (newListenerSecurityProtocolMap s)"
proof -
  have "gm_ok (fold (\<lambda>lc m. case split_2 CHR '':'' lc of [name, proto] \<Rightarrow> AList.update (TrimSpace name) (TrimSpace proto) m | _ \<Rightarrow> m) ls m)"
    if "gm_ok m" for ls m
    using that by (induction ls arbitrary: m) (auto split: list.split)
  then show ?thesis by (simp add: newListenerSecurityProtocolMap_def)
qed

lemma protocol_unchanged: "\<not> listenersSecurityProtocolChanged s s"
  using protocol_map_ok [of s] by (auto simp: listenersSecurityProtocolChanged_def list_ex_iff Let_def split: option.splits)

lemma per_broker_keys:
  "set PerBrokerConfigs = {''ssl.client.auth'', ''listeners'', ''advertised.listeners'', ''listener.security.protocol.map''}"
  by (simp add: PerBrokerConfigs_def KafkaConfigSSLClientAuth_def KafkaConfigListeners_def KafkaConfigAdvertisedListeners_def
    KafkaConfigListenerSecurityProtocolMap_def)

lemma refresh_only_iff:
  assumes "props_inv cur" "props_inv des"
  shows "ShouldRefreshOnlyPerBrokerConfigs cur des \<longleftrightarrow>
    (\<forall>k. differs cur des k \<longrightarrow> k \<in> set PerBrokerConfigs) \<and>
    \<not> listenersSecurityProtocolChanged (value_of cur KafkaConfigListenerSecurityProtocolMap) (value_of des KafkaConfigListenerSecurityProtocolMap)"
proof -
  let ?d = "Diff cur (Some des)" and ?m = KafkaConfigListenerSecurityProtocolMap
  let ?chg = "listenersSecurityProtocolChanged (value_of cur ?m) (value_of des ?m)"
  have dom: "gm_dom ?d = Collect (differs cur des)" using Diff_dom [OF assms] by (auto simp: differs_def)
  have none: "map_of ?d k = None \<longleftrightarrow> \<not> differs cur des k" for k using dom gm_get_None [of ?d k] by auto
  have pair: "prop_value a = value_of cur k \<and> prop_value b = value_of des k" if "map_of ?d k = Some (a, b)" for k a b
    using that Diff_lookup [OF assms, of k]
    by (auto simp: diff_key_def Get_def value_of_def empty_Property_def split: option.splits if_splits)
  have chg: "(case map_of ?d ?m of Some (p, q) \<Rightarrow> listenersSecurityProtocolChanged (prop_value p) (prop_value q) | None \<Rightarrow> False) \<longleftrightarrow> ?chg"
  proof (cases "map_of ?d ?m")
    case None
    then have "\<not> ?chg" using none [of ?m] differs_value [of cur des ?m] protocol_unchanged by simp
    then show ?thesis using None by simp
  next
    case (Some pq)
    then show ?thesis using pair by (cases pq) simp
  qed
  have "fold AList.delete PerBrokerConfigs ?d = [] \<longleftrightarrow> (\<forall>k. map_of (fold AList.delete PerBrokerConfigs ?d) k = None)"
    using gm_get_None [of "fold AList.delete PerBrokerConfigs ?d"] by (auto simp: image_iff) (metis list.exhaust list.set_intros(1) surj_pair)
  then have rest: "length (fold AList.delete PerBrokerConfigs ?d) = 0 \<longleftrightarrow> (\<forall>k. differs cur des k \<longrightarrow> k \<in> set PerBrokerConfigs)"
    using none by (auto simp: gm.lookup_remove_all)
  have "length ?d = 0 \<Longrightarrow> (\<forall>k. \<not> differs cur des k) \<and> \<not> ?chg" using dom chg by auto
  then show ?thesis unfolding ShouldRefreshOnlyPerBrokerConfigs_def Let_def chg rest by auto
qed

lemma equal_iff_same:
  assumes "props_inv cur" "props_inv des"
  shows "Properties_Equal cur (Some des) \<longleftrightarrow> (\<forall>k. \<not> differs cur des k)"
  using Equal_iff [OF assms] by (simp add: differs_def)

definition accepting :: "renv \<Rightarrow> bool" where
  "accepting R \<longleftrightarrow> (\<forall>tr c. kStatusUpdate (rK R) tr c = Inr c)"

lemma accepting_status: "accepting R \<Longrightarrow> write_status (rK R) f c tr = (None, f c, tr @ [KStatusUpdate (f c)])"
  by (simp add: accepting_def write_status_def status_or_update_def kcall_def)

lemma carry_over_config [simp]:
  "config_broker (carry_over cur (ConfigMapObj m)) = config_broker (ConfigMapObj m)"
  "config_text (carry_over cur (ConfigMapObj m)) = config_text (ConfigMapObj m)"
  by (cases cur; simp add: config_broker_def config_text_def)+

section \<open>Properties\<close>

text \<open>What a changed configuration does to the state of its broker.\<close>

definition config_effect :: "Properties \<Rightarrow> Properties \<Rightarrow> string \<Rightarrow> KafkaCluster \<Rightarrow> KafkaCluster" where
  "config_effect cur des i = generateBrokerState [i]
     (if (\<forall>k. differs cur des k \<longrightarrow> k \<in> {''ssl.client.auth'', ''listeners'', ''advertised.listeners'', ''listener.security.protocol.map''}) \<and>
         \<not> listenersSecurityProtocolChanged (value_of cur ''listener.security.protocol.map'') (value_of des ''listener.security.protocol.map'')
      then StPerBrokerConfigurationState ''PerBrokerConfigOutOfSync'' else StConfigurationState ''ConfigOutOfSync'')"

text \<open>(C13) A changed configuration map of a broker is written once, and the state of its broker, and of no other,
  records what the change needs: nothing when every key keeps its value, an update of the running
  broker when only keys change that it takes up without a restart and no listener changes its
  protocol, and otherwise \<open>ConfigOutOfSync\<close>, which makes the rolling upgrade replace the pod.\<close>

theorem config_change_tracked:
  assumes api: "accepting R" "rSetLastAppliedObject R (ConfigMapObj m) = None"
    "\<forall>tr ob. rUpdateObject R tr ob = None"
    and stored: "rGetObject R tr KindConfigMap (gmName (cmMeta m)) = Inr old"
    and change: "CheckIfObjectUpdated R old (ConfigMapObj m)"
    and broker: "map_of (gmLabels (cmMeta m)) ''brokerId'' = Some i"
    and parse: "NewFromString (config_text old) = Ret cur" "NewFromString (config_text (ConfigMapObj m)) = Ret des"
    and size: "length (config_text old) < 2 ^ 64 - 1" "length (config_text (ConfigMapObj m)) < 2 ^ 64 - 1"
  shows "k8s_Reconcile R (ConfigMapObj m) c tr =
    (let tr' = tr @ [KGetObject KindConfigMap (gmName (cmMeta m)), KUpdateObject (carry_over old (ConfigMapObj m))] in
     if \<forall>k. \<not> differs cur des k then (Ret (), c, tr')
     else (Ret (), config_effect cur des i c, tr' @ [KStatusUpdate (config_effect cur des i c)]))"
proof -
  have inv: "props_inv cur" "props_inv des" using loader_safe parse size by blast+
  have b: "config_broker (ConfigMapObj m) = Some i" using broker by (simp add: config_broker_def BrokerIdLabelKey_def)
  have eff: "generateBrokerState [i] (if ShouldRefreshOnlyPerBrokerConfigs cur des then StPerBrokerConfigurationState PerBrokerConfigOutOfSync
      else StConfigurationState ConfigOutOfSync) = config_effect cur des i"
    unfolding refresh_only_iff [OF inv] config_effect_def per_broker_keys
    by (simp only: PerBrokerConfigOutOfSync_def ConfigOutOfSync_def KafkaConfigListenerSecurityProtocolMap_def)
  have "config_changed R i cur des c t =
    (if \<forall>k. \<not> differs cur des k then (Ret (), c, t)
     else (Ret (), config_effect cur des i c, t @ [KStatusUpdate (config_effect cur des i c)]))" for t
    by (simp add: config_changed_def equal_iff_same [OF inv] UpdateBrokerStatus_def accepting_status [OF api(1)] eff [symmetric])
  then show ?thesis
    using api stored change b parse
    by (simp add: k8s_Reconcile_def update_object_def track_config_def Let_def del: carry_over.simps)
qed

text \<open>A cluster whose objects are all stored, with the configuration map \<open>old\<close> of broker 0, and an API that accepts
  every write.\<close>

definition zero_GenMeta :: GenMeta where
  "zero_GenMeta = \<lparr>gmName = [], gmNamespace = [], gmLabels = [], gmAnnotations = [], gmDeletionTimestamp = None, gmResourceVersion = []\<rparr>"

definition sample_config_map :: "string \<Rightarrow> ConfigMap" where
  "sample_config_map s = \<lparr>cmMeta = zero_GenMeta\<lparr>gmName := ''kafka-config-0'', gmLabels := [(''brokerId'', ''0'')]\<rparr>, cmData = [(ConfigPropertyName, s)]\<rparr>"

definition sample_renv :: "string \<Rightarrow> renv" where
  "sample_renv old = \<lparr>rK = sample_kenv\<lparr>kStatusUpdate := (\<lambda>tr c. Inr c)\<rparr>, rM = sample_mergo,
     rGetObject = (\<lambda>tr k n. if k = KindConfigMap then Inr (ConfigMapObj (sample_config_map old)) else Inl ApiNotFound),
     rCreateObject = (\<lambda>tr ob. None), rUpdateObject = (\<lambda>tr ob. None), rPatchObject = (\<lambda>c d. Inr (config_text c = config_text d)),
     rSetLastAppliedObject = (\<lambda>ob. None), rListServices = (\<lambda>tr. Inr []), rGetSecret = (\<lambda>tr n. Inl ApiNotFound),
     rCheckSSLCertSecret = (\<lambda>s. None), rLeafSubject = (\<lambda>k p. Inr ''CN=kafka''), rGetNode = (\<lambda>tr n. Inl ApiNotFound),
     rListBrokerPods = (\<lambda>tr i. (None, [])), rListAllPvcs = (\<lambda>tr. Inr []), rCreatePod = (\<lambda>tr p. None), rDescribeCluster = (\<lambda>tr. Inr 0),
     rReconcilePKI = (\<lambda>tr c s. None), rMetricsVersion = (\<lambda>tr u. Inr (Inr ''3.9.0'')), rRandomClusterID = (\<lambda>tr. ''id''),
     rPercentage = (\<lambda>s n. Inr 0), rRangeStrings = id, rRangeStatuses = id, rRangeIngress = id, rPvcStorage = (\<lambda>s i. Inr (PvcStorage s)), rRangeClaims = id\<rparr>"

lemma sample_renv_accepting: "accepting (sample_renv old)"
  by (simp add: accepting_def sample_renv_def)

definition eight :: string where
  "eight = ''num.io.threads=8'' @ [CHR 0x0A]"

definition nine :: string where
  "nine = ''num.io.threads=9'' @ [CHR 0x0A]"

theorem config_change_tracked_witness:
  "config_state (fst (snd (k8s_Reconcile (sample_renv eight) (ConfigMapObj (sample_config_map nine)) kafka_cluster []))) ''0''
     = ''ConfigOutOfSync''"
proof -
  let ?m = "sample_config_map nine" and ?o = "ConfigMapObj (sample_config_map eight)"
  let ?p = "\<lambda>v. put \<lparr>prop_key = ''num.io.threads'', prop_value = v, prop_comment = []\<rparr> NewProperties"
  have "NewFromString (''num.io.threads'' @ ''='' @ v @ [CHR 0x0A]) = Ret (?p v)" if "v \<in> {''8'', ''9''}" for v
    by (rule NewFromString_line) (use that in \<open>auto simp: printable_simps\<close>)
  from this [of "''8''"] this [of "''9''"]
  have p: "NewFromString (config_text ?o) = Ret (?p ''8'')" "NewFromString (config_text (ConfigMapObj ?m)) = Ret (?p ''9'')"
    by (simp_all add: config_text_def sample_config_map_def lookup_str_def eight_def nine_def)
  have d: "differs (?p ''8'') (?p ''9'') ''num.io.threads''" by (simp add: differs_def Get_put)
  have n: "gmName (cmMeta ?m) = ''kafka-config-0''" by code_simp
  have g: "rGetObject (sample_renv eight) [] KindConfigMap (gmName (cmMeta ?m)) = Inr ?o" by (simp add: sample_renv_def)
  have u: "CheckIfObjectUpdated (sample_renv eight) ?o (ConfigMapObj ?m)" by code_simp
  have b: "map_of (gmLabels (cmMeta ?m)) ''brokerId'' = Some ''0''" by code_simp
  have l: "length (config_text ?o) < 2 ^ 64 - 1" "length (config_text (ConfigMapObj ?m)) < 2 ^ 64 - 1"
    by (simp_all add: config_text_def sample_config_map_def lookup_str_def eight_def nine_def)
  note t = config_change_tracked [OF sample_renv_accepting _ _ g u b p l, of kafka_cluster]
  have "config_effect (?p ''8'') (?p ''9'') ''0'' kafka_cluster = generateBrokerState [''0''] (StConfigurationState ''ConfigOutOfSync'') kafka_cluster"
    using d by (auto simp: config_effect_def)
  then show ?thesis using t d
    by (auto simp: sample_renv_def Let_def config_state_def generateBrokerState_def set_broker_state_lookup set_status_value_def)
qed

text \<open>When the status cannot be written, applying the object still reports success: the configuration map is up to date from
  then on, and no later reconcile notices that the broker runs on the old configuration.\<close>

lemma lost_config_change:
  assumes "\<forall>tr c. kStatusUpdate (rK R) tr c = Inl e" "\<not> IsNotFound e" "\<not> IsConflict e"
    and "\<not> Properties_Equal cur (Some des)"
  shows "\<exists>c'. config_changed R i cur des c tr = (Ret (), c', tr @ [KStatusUpdate c'])"
  using assms
  by (auto simp: config_changed_def UpdateBrokerStatus_def write_status_def status_or_update_def kcall_def)

end
