(* ===== verification/BrokerProps.thy ===== *)
theory BrokerProps
  imports KubeClient Listeners
begin

text \<open>
  The configuration that the operator generates for a broker (\<open>pkg/resources/kafka/configmap.go\<close>) and the quorum
  voters of a KRaft cluster (\<open>pkg/resources/kafka/util.go\<close>).

  Errors of \<open>Properties.Set\<close> are only logged; a set that fails changes nothing. Where the code ranges over a map,
  the order is that of \<open>rRangeStrings\<close> or \<open>rRangeStatuses\<close>. A properties pointer is an option: calling a method on
  nil panics. The errors of parsers that are only logged are dropped.
\<close>

section \<open>Getters and helpers\<close>

definition SecurityProtocol_Equal :: "string \<Rightarrow> string \<Rightarrow> bool" where
  "SecurityProtocol_Equal r s \<longleftrightarrow> ToUpper r = ToUpper s"

definition IsSSL :: "string \<Rightarrow> bool" where
  "IsSSL r \<longleftrightarrow> SecurityProtocol_Equal r ''sasl_ssl'' \<or> SecurityProtocol_Equal r ''ssl''"

fun IsSSLEnabledForInternalCommunication :: "InternalListenerConfig list \<Rightarrow> bool" where
  "IsSSLEnabledForInternalCommunication [] = False"
| "IsSSLEnabledForInternalCommunication (l # ls) =
     (if ilUsedForInnerBrokerCommunication l \<and> IsSSL (ilType l) then True else IsSSLEnabledForInternalCommunication ls)"

definition GetClientSSLCertSecretName :: "KafkaClusterSpec \<Rightarrow> string" where
  "GetClientSSLCertSecretName k = or_empty (ClientSSLCertSecret k)"

definition IsClientSSLSecretPresent :: "KafkaClusterSpec \<Rightarrow> bool" where
  "IsClientSSLSecretPresent k \<longleftrightarrow> SSLSecrets (specListenersConfig k) \<noteq> None \<or> GetClientSSLCertSecretName k \<noteq> []"

definition GetZkPath :: "KafkaClusterSpec \<Rightarrow> string" where
  "GetZkPath k = (if ZKPath k = [] then ''/'' else if \<not> HasPrefix (ZKPath k) ''/'' then ''/'' @ ZKPath k else ZKPath k)"

definition PrepareConnectionAddress :: "string list \<Rightarrow> string \<Rightarrow> string" where
  "PrepareConnectionAddress zkAddresses zkPath = join '','' zkAddresses @ zkPath"

definition serverKeystorePath :: string where
  "serverKeystorePath = ''/var/run/secrets/java.io/keystores/server''"

definition clientKeystorePath :: string where
  "clientKeystorePath = ''/var/run/secrets/java.io/keystores/client''"

definition set_logged :: "string \<Rightarrow> go_value \<Rightarrow> Properties \<Rightarrow> Properties" where
  "set_logged k v p = (case Properties_Set k v p of Ret p' \<Rightarrow> p' | _ \<Rightarrow> p)"

definition deref :: "Properties option \<Rightarrow> (err, Properties) go" where
  "deref p = (case p of None \<Rightarrow> Panic | Some q \<Rightarrow> Ret q)"

section \<open>Read-only configuration\<close>

definition parsed :: "string \<Rightarrow> Properties option" where
  "parsed s = (case NewFromString s of Ret p \<Rightarrow> Some p | _ \<Rightarrow> None)"

definition getBrokerReadOnlyConfig :: "Broker \<Rightarrow> KafkaCluster \<Rightarrow> (err, Properties option) go" where
  "getBrokerReadOnlyConfig broker kafkaCluster =
     (let finalBrokerConfig = parsed (specReadOnlyConfig (kcSpec kafkaCluster)) in
      (case parsed (ReadOnlyConfig broker) of
         None \<Rightarrow> Ret finalBrokerConfig
       | Some m \<Rightarrow> go_bind (deref finalBrokerConfig) (\<lambda>p. Ret (Some (Merge (Some m) p)))))"

section \<open>Listeners\<close>

definition listener_key :: "string \<Rightarrow> string \<Rightarrow> string" where
  "listener_key name key = ''listener.name.'' @ name @ ''.'' @ key"

definition generateListenerSSLConfig :: "string \<Rightarrow> string \<Rightarrow> string \<Rightarrow> (string, string) gomap" where
  "generateListenerSSLConfig name sslClientAuth password =
     (let namedKeystorePath = serverKeystorePath @ ''/'' @ name in
      AList.update (listener_key name ''ssl.client.auth'') (if sslClientAuth = [] then ''required'' else sslClientAuth)
        [(listener_key name ''ssl.keystore.location'', namedKeystorePath @ ''/keystore.jks''),
         (listener_key name ''ssl.truststore.location'', namedKeystorePath @ ''/truststore.jks''),
         (listener_key name ''ssl.keystore.type'', ''JKS''),
         (listener_key name ''ssl.truststore.type'', ''JKS''),
         (listener_key name ''ssl.truststore.password'', password),
         (listener_key name ''ssl.keystore.password'', password)])"

record listener_conf =
  interBrokerListenerName :: string
  securityProtocolMapConfig :: "string list"
  listenerConfig :: "string list"
  internalListenerSSLConfig :: "(string, string) gomap"
  externalListenerSSLConfig :: "(string, string) gomap"

definition maps_Copy :: "(string, string) gomap \<Rightarrow> (string, string) gomap \<Rightarrow> (string, string) gomap" where
  "maps_Copy dst src = fold (\<lambda>(k, v). AList.update k v) src dst"

definition add_eListener :: "(string, string) gomap \<Rightarrow> ExternalListenerConfig \<Rightarrow> listener_conf \<Rightarrow> listener_conf" where
  "add_eListener serverPasses l lc =
     (let lc1 = lc\<lparr>securityProtocolMapConfig := securityProtocolMapConfig lc @ [ToUpper (elName l) @ '':'' @ ToUpper (elType l)],
                   listenerConfig := listenerConfig lc @ [ToUpper (elName l) @ ''://:'' @ Itoa (sint (elContainerPort l))]\<rparr>
      in if elType l = ''ssl'' then lc1\<lparr>externalListenerSSLConfig := maps_Copy (externalListenerSSLConfig lc1)
             (generateListenerSSLConfig (elName l) (elSSLClientAuth l) (lookup_str serverPasses (elName l)))\<rparr> else lc1)"

definition add_iListener :: "(string, string) gomap \<Rightarrow> InternalListenerConfig \<Rightarrow> listener_conf \<Rightarrow> listener_conf" where
  "add_iListener serverPasses l lc =
     (let lc1 = (if ilUsedForInnerBrokerCommunication l \<and> interBrokerListenerName lc = []
                 then lc\<lparr>interBrokerListenerName := ToUpper (ilName l)\<rparr> else lc);
          lc2 = lc1\<lparr>securityProtocolMapConfig := securityProtocolMapConfig lc1 @ [ToUpper (ilName l) @ '':'' @ ToUpper (ilType l)],
                    listenerConfig := listenerConfig lc1 @ [ToUpper (ilName l) @ ''://:'' @ Itoa (sint (ilContainerPort l))]\<rparr>
      in if ilType l = ''ssl'' then lc2\<lparr>internalListenerSSLConfig := maps_Copy (internalListenerSSLConfig lc2)
             (generateListenerSSLConfig (ilName l) (ilSSLClientAuth l) (lookup_str serverPasses (ilName l)))\<rparr> else lc2)"

definition getListenerSpecificConfig :: "ListenersConfig \<Rightarrow> (string, string) gomap \<Rightarrow> listener_conf" where
  "getListenerSpecificConfig l serverPasses =
     fold (add_iListener serverPasses) (InternalListeners l)
       (fold (add_eListener serverPasses) (ExternalListeners l)
         \<lparr>interBrokerListenerName = [], securityProtocolMapConfig = [], listenerConfig = [],
          internalListenerSSLConfig = [], externalListenerSSLConfig = []\<rparr>)"

definition set_all :: "(string, string) gomap \<Rightarrow> Properties \<Rightarrow> Properties" where
  "set_all m p = fold (\<lambda>(k, v). set_logged k (StrVal v)) m p"

definition inter_broker_config :: "KafkaClusterSpec \<Rightarrow> string \<Rightarrow> Broker \<Rightarrow> Properties" where
  "inter_broker_config kcs name broker =
     (let trimmedConfig = TrimSpace (ReadOnlyConfig broker) @ TrimSpace (specReadOnlyConfig kcs) in
      if \<not> sublist ''security.inter.broker.protocol='' trimmedConfig
      then set_logged ''inter.broker.listener.name'' (StrVal name) NewProperties else NewProperties)"

definition generateListenerSpecificConfig ::
  "renv \<Rightarrow> KafkaClusterSpec \<Rightarrow> (string, string) gomap \<Rightarrow> Properties \<times> (32 word, Properties) gomap \<times> string list" where
  "generateListenerSpecificConfig R kcs serverPasses =
     (let lc = getListenerSpecificConfig (specListenersConfig kcs) serverPasses;
          config1 = set_all (rRangeStrings R (internalListenerSSLConfig lc)) NewProperties;
          config2 = set_all (rRangeStrings R (externalListenerSSLConfig lc)) config1;
          config3 = set_logged KafkaConfigListenerSecurityProtocolMap (StrSlice (securityProtocolMapConfig lc)) config2;
          brokerConfigs = fold (\<lambda>b. AList.update (BrokerId b) (inter_broker_config kcs (interBrokerListenerName lc) b)) (Brokers kcs) [];
          config4 = set_logged KafkaConfigListeners (StrSlice (listenerConfig lc)) config3
      in (config4, brokerConfigs, listenerConfig lc))"

definition generateControlPlaneListener :: "InternalListenerConfig list \<Rightarrow> string" where
  "generateControlPlaneListener ls =
     fold (\<lambda>l name. if UsedForControllerCommunication l then ToUpper (ilName l) else name) ls []"

definition broker_address :: "32 word \<Rightarrow> string \<times> ListenerStatus list \<Rightarrow> string option" where
  "broker_address i st = (case st of (listenerName, statuses) \<Rightarrow>
     (case find (\<lambda>s. lsName s = ''broker-'' @ Itoa (sint i)) statuses of
        None \<Rightarrow> None | Some s \<Rightarrow> Some (ToUpper listenerName @ ''://'' @ lsAddress s)))"

definition appendListenerConfigs :: "renv \<Rightarrow> string list \<Rightarrow> 32 word \<Rightarrow> listener_statuses \<Rightarrow> string list" where
  "appendListenerConfigs R advertised i statuses =
     sort (advertised @ List.map_filter (broker_address i) (rRangeStatuses R statuses))"

definition generateAdvertisedListenerConfig ::
  "renv \<Rightarrow> 32 word \<Rightarrow> listener_statuses \<Rightarrow> listener_statuses \<Rightarrow> listener_statuses \<Rightarrow> string list" where
  "generateAdvertisedListenerConfig R i extS intS ctlS =
     appendListenerConfigs R [] i extS @ appendListenerConfigs R (appendListenerConfigs R [] i intS) i ctlS"

section \<open>Storage and super users\<close>

definition generateStorageConfig :: "StorageConfig list \<Rightarrow> string list" where
  "generateStorageConfig sConfig = map (\<lambda>s. StorageConfigKafkaMountPath (MountPath s)) sConfig"

fun merge_mount_paths :: "string list \<Rightarrow> string list \<Rightarrow> string list \<times> bool \<Rightarrow> string list \<times> bool" where
  "merge_mount_paths new [] acc = acc"
| "merge_mount_paths new (old # olds) (mergedPaths, removed) =
     (if old \<in> set new then merge_mount_paths new olds (mergedPaths, removed)
      else merge_mount_paths new olds (mergedPaths @ [old], True))"

definition mergeMountPaths :: "string list \<Rightarrow> string list \<Rightarrow> string list \<times> bool" where
  "mergeMountPaths mountPathsOld mountPathsNew = merge_mount_paths mountPathsNew mountPathsOld (mountPathsNew, False)"

definition getMountPathsFromBrokerConfigMap :: "kobject \<Rightarrow> string list" where
  "getMountPathsFromBrokerConfigMap configMap =
     (case parsed (config_text configMap) of
        None \<Rightarrow> []
      | Some p \<Rightarrow> (case Get p ''log.dirs'' of
          None \<Rightarrow> []
        | Some v \<Rightarrow> if prop_value v = [] then [] else split_on CHR '','' (prop_value v)))"

definition generateSuperUsers :: "string list \<Rightarrow> string list" where
  "generateSuperUsers users = map (\<lambda>x. ''User:'' @ x) users"

fun insert_missing :: "string list \<Rightarrow> string list \<Rightarrow> bool \<Rightarrow> string list \<times> bool" where
  "insert_missing [] target inserted = (target, inserted)"
| "insert_missing (u # us) target inserted =
     (if u \<in> set target then insert_missing us target inserted else insert_missing us (target @ [u]) True)"

definition mergeSuperUsersPropertyValue :: "Properties \<Rightarrow> Properties \<Rightarrow> string" where
  "mergeSuperUsersPropertyValue source target =
     (case Get source ''super.users'' of
        None \<Rightarrow> []
      | Some sv \<Rightarrow> if Property_IsEmpty sv then [] else
          (case Get target ''super.users'' of
             None \<Rightarrow> []
           | Some tv \<Rightarrow> if Property_IsEmpty tv then [] else
               (case insert_missing (split_on CHR '';'' (prop_value sv)) (split_on CHR '';'' (prop_value tv)) False of
                  (users, inserted) \<Rightarrow> if inserted then join '';'' users else [])))"

section \<open>The generated configuration\<close>

definition reporter_ssl :: "string \<Rightarrow> (string, string) gomap" where
  "reporter_ssl clientPass =
     [(''security.protocol'', ''SSL''),
      (''ssl.truststore.location'', clientKeystorePath @ ''/truststore.jks''),
      (''ssl.keystore.location'', clientKeystorePath @ ''/keystore.jks''),
      (''ssl.keystore.password'', clientPass),
      (''ssl.truststore.password'', clientPass)]"

definition bootstrap_service :: "KafkaCluster \<Rightarrow> string" where
  "bootstrap_service c = (case getBootstrapServers c True of Inl e \<Rightarrow> [] | Inr s \<Rightarrow> s)"

definition configCCMetricsReporter ::
  "renv \<Rightarrow> KafkaCluster \<Rightarrow> Broker \<Rightarrow> BrokerConfig \<Rightarrow> string \<Rightarrow> Properties \<Rightarrow> (err, Properties) go" where
  "configCCMetricsReporter R c broker bConfig clientPass config =
     (if IsControllerOnlyNode bConfig then Ret config
      else
        let config1 = (if IsSSLEnabledForInternalCommunication (InternalListeners (specListenersConfig (kcSpec c)))
              then fold (\<lambda>(k, v). set_logged (''cruise.control.metrics.reporter.'' @ k) (StrVal v)) (rRangeStrings R (reporter_ssl clientPass)) config
              else config) in
        go_bind (getBrokerReadOnlyConfig broker c) (\<lambda>ro. go_bind (deref ro) (\<lambda>ro.
          let config2 = (if Get ro ''security.inter.broker.protocol'' = None
                then set_logged ''metric.reporters'' (StrVal ''com.linkedin.kafka.cruisecontrol.metricsreporter.CruiseControlMetricsReporter'') config1
                else config1);
              config3 = set_logged ''cruise.control.metrics.reporter.bootstrap.servers'' (StrVal (bootstrap_service c)) config2
          in Ret (set_logged ''cruise.control.metrics.reporter.kubernetes.mode'' (BoolVal True) config3))))"

definition MigrationBrokerKRaftMode :: string where
  "MigrationBrokerKRaftMode = ''migration.broker.kRaftMode''"

definition MigrationBrokerControllerQuorumConfigEnabled :: string where
  "MigrationBrokerControllerQuorumConfigEnabled = ''migration.broker.controllerQuorumConfigEnabled''"

definition shouldUseKRaftModeForBroker :: "Properties \<Rightarrow> bool" where
  "shouldUseKRaftModeForBroker ro = (case Get ro MigrationBrokerKRaftMode of None \<Rightarrow> True | Some v \<Rightarrow> prop_value v = ''true'')"

definition shouldConfigureControllerQuorumForBroker :: "Properties \<Rightarrow> bool" where
  "shouldConfigureControllerQuorumForBroker ro =
     (case Get ro MigrationBrokerControllerQuorumConfigEnabled of None \<Rightarrow> True | Some v \<Rightarrow> prop_value v = ''true'')"

text \<open>The loops over the listeners compare the first bytes of a listener with the name of the controller listener. Slicing
  a listener that is shorter than the name panics.\<close>

fun controller_listener :: "string \<Rightarrow> string list \<Rightarrow> (err, string option) go" where
  "controller_listener name [] = Ret None"
| "controller_listener name (l # ls) = go_bind (go_slice l 0 (length name)) (\<lambda>x.
     if x = ToUpper name then Ret (Some l) else controller_listener name ls)"

fun other_listeners :: "string \<Rightarrow> string list \<Rightarrow> (err, string list) go" where
  "other_listeners name [] = Ret []"
| "other_listeners name (l # ls) = go_bind (go_slice l 0 (length name)) (\<lambda>x.
     go_bind (other_listeners name ls) (\<lambda>ys. Ret (if x \<noteq> ToUpper name then l # ys else ys)))"

definition role_listeners :: "BrokerConfig \<Rightarrow> string \<Rightarrow> string list \<Rightarrow> Properties \<Rightarrow> (err, Properties) go" where
  "role_listeners bConfig name ls config =
     (if IsControllerOnlyNode bConfig then
        go_bind (controller_listener name ls) (\<lambda>l. Ret (case l of None \<Rightarrow> config | Some x \<Rightarrow> set_logged KafkaConfigListeners (StrVal x) config))
      else if IsBrokerOnlyNode bConfig then
        go_bind (other_listeners name ls) (\<lambda>xs. Ret (set_logged KafkaConfigListeners (StrSlice xs) config))
      else Ret config)"

definition zk_connect :: "KafkaCluster \<Rightarrow> string" where
  "zk_connect c = PrepareConnectionAddress (ZKAddresses (kcSpec c)) (GetZkPath (kcSpec c))"

definition identity_config :: "BrokerConfig \<Rightarrow> 32 word \<Rightarrow> KafkaCluster \<Rightarrow> bool \<Rightarrow> Properties \<Rightarrow> Properties" where
  "identity_config bConfig brokerID c kraft config =
     (if kraft then set_logged ''process.roles'' (StrSlice (Roles bConfig)) (set_logged ''node.id'' (IntVal (sint brokerID)) config)
      else set_logged ''zookeeper.connect'' (StrVal (zk_connect c)) (set_logged ''broker.id'' (IntVal (sint brokerID)) config))"

definition quorum_config :: "string list \<Rightarrow> string \<Rightarrow> Properties \<Rightarrow> Properties" where
  "quorum_config quorumVoters name config =
     (let config1 = set_logged ''controller.quorum.voters'' (StrSlice quorumVoters) config in
      if name \<noteq> [] then set_logged ''controller.listener.names'' (StrVal name) config1 else config1)"

definition configureBrokerKRaftMode ::
  "renv \<Rightarrow> BrokerConfig \<Rightarrow> 32 word \<Rightarrow> KafkaCluster \<Rightarrow> Properties \<Rightarrow> string list \<Rightarrow> (string, string) gomap \<Rightarrow>
     listener_statuses \<Rightarrow> listener_statuses \<Rightarrow> Properties option \<Rightarrow> (err, Properties) go" where
  "configureBrokerKRaftMode R bConfig brokerID c config quorumVoters serverPasses extS intS ro =
     (let name = generateControlPlaneListener (InternalListeners (specListenersConfig (kcSpec c))) in
      go_bind (deref ro) (\<lambda>ro.
        let config1 = identity_config bConfig brokerID c (shouldUseKRaftModeForBroker ro) config;
            config2 = (if shouldConfigureControllerQuorumForBroker ro then quorum_config quorumVoters name config1 else config1);
            storageConf = generateStorageConfig (StorageConfigs bConfig);
            config3 = (if length storageConf > 0 then set_logged ''log.dirs'' (StrSlice storageConf) config2 else config2)
        in (case generateListenerSpecificConfig R (kcSpec c) serverPasses of (_, _, ls) \<Rightarrow>
              role_listeners bConfig name ls
                (if IsBrokerNode bConfig
                 then set_logged KafkaConfigAdvertisedListeners (StrSlice (generateAdvertisedListenerConfig R brokerID extS intS [])) config3
                 else config3))))"

definition configureBrokerZKMode ::
  "renv \<Rightarrow> 32 word \<Rightarrow> KafkaCluster \<Rightarrow> Properties \<Rightarrow> listener_statuses \<Rightarrow> listener_statuses \<Rightarrow> listener_statuses \<Rightarrow> Properties" where
  "configureBrokerZKMode R brokerID c config extS intS ctlS =
     (let config1 = set_logged ''broker.id'' (IntVal (sint brokerID)) config;
          advertised = generateAdvertisedListenerConfig R brokerID extS intS ctlS;
          config2 = (if length advertised > 0 then set_logged KafkaConfigAdvertisedListeners (StrSlice advertised) config1 else config1);
          cclConf = generateControlPlaneListener (InternalListeners (specListenersConfig (kcSpec c)));
          config3 = (if cclConf \<noteq> [] then set_logged ''control.plane.listener.name'' (StrVal cclConf) config2 else config2)
      in set_logged ''zookeeper.connect'' (StrVal (zk_connect c)) config3)"

definition config_map_name :: "KafkaCluster \<Rightarrow> Broker \<Rightarrow> string" where
  "config_map_name c broker = kcName c @ ''-config-'' @ Itoa (sint (BrokerId broker))"

text \<open>The listeners, the credentials and the quorum that the configuration is generated from.\<close>

record conf_input =
  inQuorumVoters :: "string list"
  inExt :: listener_statuses
  inInt :: listener_statuses
  inCtl :: listener_statuses
  inServerPasses :: "(string, string) gomap"
  inClientPass :: string
  inSuperUsers :: "string list"

definition mode_config ::
  "renv \<Rightarrow> KafkaCluster \<Rightarrow> BrokerConfig \<Rightarrow> Broker \<Rightarrow> conf_input \<Rightarrow> Properties \<Rightarrow> (err, Properties) go" where
  "mode_config R c bConfig broker i config =
     go_bind (getBrokerReadOnlyConfig broker c) (\<lambda>ro.
       if KRaftMode (kcSpec c)
       then configureBrokerKRaftMode R bConfig (BrokerId broker) c config (inQuorumVoters i) (inServerPasses i) (inExt i) (inInt i) ro
       else Ret (configureBrokerZKMode R (BrokerId broker) c config (inExt i) (inInt i) (inCtl i)))"

definition storage_users_config :: "BrokerConfig \<Rightarrow> string list \<Rightarrow> string list \<Rightarrow> Properties \<Rightarrow> Properties" where
  "storage_users_config bConfig mountPathsOld superUsers config =
     (let mountPaths = fst (mergeMountPaths mountPathsOld (generateStorageConfig (StorageConfigs bConfig)));
          config1 = (if length mountPaths \<noteq> 0 then set_logged ''log.dirs'' (StrVal (join '','' mountPaths)) config else config);
          su = join '';'' (generateSuperUsers superUsers)
      in if su \<noteq> [] then set_logged ''super.users'' (StrVal su) config1 else config1)"

definition listener_config :: "renv \<Rightarrow> KafkaCluster \<Rightarrow> Broker \<Rightarrow> (string, string) gomap \<Rightarrow> Properties" where
  "listener_config R c broker serverPasses =
     (case generateListenerSpecificConfig R (kcSpec c) serverPasses of (generalConfig, brokerConfigs, _) \<Rightarrow>
        let brokerConfig = (case map_of brokerConfigs (BrokerId broker) of None \<Rightarrow> NewProperties | Some p \<Rightarrow> p) in
        Merge (Some generalConfig) (Merge (Some brokerConfig) NewProperties))"

definition old_mount_paths :: "renv \<Rightarrow> string \<Rightarrow> ktrace \<Rightarrow> string list" where
  "old_mount_paths R name tr = (case rGetObject R tr KindConfigMap name of
     Inl e \<Rightarrow> [] | Inr ob \<Rightarrow> getMountPathsFromBrokerConfigMap ob)"

definition getConfigProperties ::
  "renv \<Rightarrow> KafkaCluster \<Rightarrow> BrokerConfig \<Rightarrow> Broker \<Rightarrow> conf_input \<Rightarrow> ktrace \<Rightarrow> (err, Properties) go \<times> ktrace" where
  "getConfigProperties R c bConfig broker i tr =
     (case go_bind (configCCMetricsReporter R c broker bConfig (inClientPass i) (listener_config R c broker (inServerPasses i)))
             (mode_config R c bConfig broker i) of
        Ret config \<Rightarrow>
          (Ret (storage_users_config bConfig (old_mount_paths R (config_map_name c broker) tr) (inSuperUsers i) config),
           tr @ [KGetObject KindConfigMap (config_map_name c broker)])
      | Err e \<Rightarrow> (Err e, tr)
      | Panic \<Rightarrow> (Panic, tr))"

definition final_config :: "Properties \<Rightarrow> Properties \<Rightarrow> Properties" where
  "final_config ro opGenConf =
     (let suMerged = mergeSuperUsersPropertyValue ro opGenConf;
          opGenConf' = (if suMerged \<noteq> [] then set_logged ''super.users'' (StrVal suMerged) opGenConf else opGenConf)
      in Sort (Delete MigrationBrokerKRaftMode (Delete MigrationBrokerControllerQuorumConfigEnabled (Merge (Some opGenConf') ro))))"

definition generateBrokerConfig ::
  "renv \<Rightarrow> KafkaCluster \<Rightarrow> BrokerConfig \<Rightarrow> Broker \<Rightarrow> conf_input \<Rightarrow> ktrace \<Rightarrow> (err, string) go \<times> ktrace" where
  "generateBrokerConfig R c bConfig broker i tr =
     (case getBrokerReadOnlyConfig broker c of
        Panic \<Rightarrow> (Panic, tr)
      | Err e \<Rightarrow> (Err e, tr)
      | Ret ro \<Rightarrow>
          (case getConfigProperties R c bConfig broker i tr of
             (Ret opGenConf, tr1) \<Rightarrow>
               (go_bind (deref ro) (\<lambda>ro. case Properties_String (final_config ro opGenConf) of Ret s \<Rightarrow> Ret s | _ \<Rightarrow> Panic), tr1)
           | (Err e, tr1) \<Rightarrow> (Err e, tr1)
           | (Panic, tr1) \<Rightarrow> (Panic, tr1)))"

definition configMap ::
  "renv \<Rightarrow> KafkaCluster \<Rightarrow> Broker \<Rightarrow> BrokerConfig \<Rightarrow> conf_input \<Rightarrow> ktrace \<Rightarrow> (err, ConfigMap) go \<times> ktrace" where
  "configMap R c broker bConfig i tr =
     (case generateBrokerConfig R c bConfig broker i tr of (s, tr1) \<Rightarrow>
        (go_bind s (\<lambda>text. Ret
           \<lparr>cmMeta = template_ObjectMeta (config_map_name c broker)
              (MergeLabels [LabelsForKafka (kcName c), [(BrokerIdLabelKey, Itoa (sint (BrokerId broker)))]]) c,
            cmData = (if Log4jConfig bConfig \<noteq> [] then [(ConfigPropertyName, text), (''log4j.properties'', Log4jConfig bConfig)]
                      else [(ConfigPropertyName, text)])\<rparr>), tr1))"

section \<open>Quorum voters (pkg/resources/kafka/util.go)\<close>

text \<open>A controller is entered once for each controller listener that has an address for it.\<close>

definition voter_addresses :: "32 word \<Rightarrow> listener_statuses \<Rightarrow> string list" where
  "voter_addresses i statuses = List.map_filter (\<lambda>(_, sts).
     map_option lsAddress (find (\<lambda>s. lsName s = ''broker-'' @ Itoa (sint i)) sts)) statuses"

fun gather_voters ::
  "renv \<Rightarrow> KafkaClusterSpec \<Rightarrow> listener_statuses \<Rightarrow> Broker list \<Rightarrow> 32 word list \<Rightarrow> (32 word, string) gomap \<Rightarrow>
     (err, 32 word list \<times> (32 word, string) gomap) go" where
  "gather_voters R spec statuses [] ids m = Ret (ids, m)"
| "gather_voters R spec statuses (b # bs) ids m =
     (case GetBrokerConfig (rM R) b spec of
        Inl e \<Rightarrow> Err e
      | Inr None \<Rightarrow> Panic
      | Inr (Some bc) \<Rightarrow>
          if IsControllerNode bc then
            let as = voter_addresses (BrokerId b) (rRangeStatuses R statuses) in
            gather_voters R spec statuses bs (ids @ map (\<lambda>_. BrokerId b) as) (fold (\<lambda>a. AList.update (BrokerId b) a) as m)
          else gather_voters R spec statuses bs ids m)"

definition generateQuorumVoters :: "renv \<Rightarrow> KafkaCluster \<Rightarrow> listener_statuses \<Rightarrow> (err, string list) go" where
  "generateQuorumVoters R c statuses =
     go_bind (gather_voters R (kcSpec c) statuses (Brokers (kcSpec c)) [] []) (\<lambda>(ids, m).
       Ret (map (\<lambda>i. Itoa (sint i) @ ''@'' @ (case map_of m i of None \<Rightarrow> [] | Some a \<Rightarrow> a)) (sort_key sint ids)))"

end
