(* ===== verification/BrokerPropsFacts.thy ===== *)
theory BrokerPropsFacts
  imports BrokerProps
begin

text \<open>
  What the generated configuration of a broker promises: it does not depend on the order in which Go ranges over maps, it gives every
  key the right one of the three values there are for it, it keeps every log directory, and the quorum voters are those of the
  controllers, in order.
\<close>

section \<open>Contents of a configuration\<close>

text \<open>\<open>sim r p q\<close>: both containers are well formed, have room for \<open>r\<close> more keys and hold the same properties, possibly entered in a
  different order. Every step of the generation keeps this.\<close>

abbreviation entry :: "string \<Rightarrow> string \<Rightarrow> Property" where
  "entry k v \<equiv> \<lparr>prop_key = k, prop_value = v, prop_comment = []\<rparr>"

lemma set_logged_simps [simp]:
  "set_logged k (StrVal v) p = put (entry k v) p"
  "set_logged k (IntVal i) p = put (entry k (Itoa i)) p"
  "set_logged k (BoolVal b) p = put (entry k (if b then ''true'' else ''false'')) p"
  "set_logged k (StrSlice ss) p = put (entry k (join '','' ss)) p"
  by (simp_all add: set_logged_def Properties_Set_def SetWithComment_def Put_def)

definition sim :: "nat \<Rightarrow> Properties \<Rightarrow> Properties \<Rightarrow> bool" where
  "sim r p q \<longleftrightarrow> props_room p r \<and> props_room q r \<and> (\<forall>k. Get p k = Get q k)"

lemma sim_refl: "props_room p r \<Longrightarrow> sim r p p"
  by (simp add: sim_def)

lemma sim_New: "sim (2 ^ 64 - 1) NewProperties NewProperties"
  by (simp add: sim_def props_room_def) (simp add: NewProperties_def)

lemma sim_mono: "sim r p q \<Longrightarrow> r' \<le> r \<Longrightarrow> sim r' p q"
  using room_mono by (auto simp: sim_def)

lemma sim_SucD: "sim (Suc r) p q \<Longrightarrow> sim r p q"
  by (rule sim_mono [of "Suc r"]) simp_all

lemma sim_put: "sim (Suc r) p q \<Longrightarrow> sim r (put x p) (put x q)"
  by (simp add: sim_def room_put Get_put)

lemma sim_Merge:
  assumes "sim (j + r) p q" "Len m \<le> j" "Len m' \<le> j" "props_inv m" "props_inv m'" "\<forall>k. Get m k = Get m' k"
  shows "sim r (Merge (Some m) p) (Merge (Some m') q)"
proof -
  have "props_room p (Len m + r)" "props_room q (Len m' + r)"
    using assms(1-3) room_mono [of p "j + r" "Len m + r"] room_mono [of q "j + r" "Len m' + r"] by (auto simp: sim_def)
  then show ?thesis using assms by (simp add: sim_def Merge_def room_merge Get_merge)
qed

lemma length_update: "length (AList.update k v m) \<le> Suc (length m)"
  by (induction m) auto

lemma Len_put: "Len (put x p) \<le> Suc (Len p)"
  using length_update by (auto simp: Len_def put_def Let_def split: option.split)

lemma set_all_Cons: "set_all ((k, v) # m) p = set_all m (put (entry k v) p)"
  by (simp add: set_all_def)

lemma Get_set_all:
  "gm_ok m \<Longrightarrow> Get (set_all m p) k = (case map_of m k of None \<Rightarrow> Get p k | Some v \<Rightarrow> Some (entry k v))"
proof (induction m arbitrary: p)
  case (Cons a m)
  obtain k' v where a: "a = (k', v)" by force
  have "map_of m k' = None" using Cons.prems a by (simp add: map_of_eq_None_iff)
  then show ?case using Cons by (auto simp: a set_all_Cons Get_put split: option.split)
qed (simp add: set_all_def)

lemma room_set_all: "props_room p (length m + r) \<Longrightarrow> props_room (set_all m p) r"
proof (induction m arbitrary: p)
  case (Cons a m)
  then show ?case using room_put [of p "length m + r"] by (cases a) (simp add: set_all_Cons)
qed (simp add: set_all_def)

lemma Len_set_all: "Len (set_all m p) \<le> Len p + length m"
proof (induction m arbitrary: p)
  case (Cons a m)
  obtain k v where "a = (k, v)" by force
  then show ?case using Cons [of "put (entry k v) p"] Len_put [of "entry k v" p] by (simp add: set_all_Cons)
qed (simp add: set_all_def)

lemma perm_map_of:
  assumes "mset m = mset m'" "gm_ok m"
  shows "gm_ok m' \<and> map_of m = map_of m' \<and> length m = length m'"
proof -
  have "gm_ok m'" using assms by (metis mset_eq_imp_distinct_iff mset_map)
  moreover have "map_of m = map_of m'"
    using map_of_inject_set [OF assms(2) \<open>gm_ok m'\<close>] mset_eq_setD [OF assms(1)] by simp
  ultimately show ?thesis using mset_eq_length [OF assms(1)] by simp
qed

lemma sim_set_all:
  assumes "sim (j + r) p q" "mset m = mset m'" "gm_ok m" "length m \<le> j"
  shows "sim r (set_all m p) (set_all m' q)"
proof -
  note m = perm_map_of [OF assms(2,3)]
  have "props_room p (length m + r)" "props_room q (length m' + r)"
    using assms(1,4) m room_mono [of _ "j + r" "length m + r"] by (auto simp: sim_def)
  then show ?thesis using assms(1,3) m by (auto simp: sim_def room_set_all Get_set_all split: option.split)
qed

section \<open>Listeners and order\<close>

definition iterates :: "renv \<Rightarrow> bool" where
  "iterates R \<longleftrightarrow> (\<forall>m. mset (rRangeStrings R m) = mset m) \<and> (\<forall>s. mset (rRangeStatuses R s) = mset s)"

lemma sort_perm: "mset xs = mset ys \<Longrightarrow> sort xs = sort (ys :: string list)"
  by (rule properties_for_sort) simp_all

lemma append_order:
  "iterates R \<Longrightarrow> iterates R' \<Longrightarrow> appendListenerConfigs R as i st = appendListenerConfigs R' as i st"
  unfolding appendListenerConfigs_def by (rule sort_perm) (simp add: iterates_def map_filter_def)

lemma advertised_order:
  "iterates R \<Longrightarrow> iterates R' \<Longrightarrow> generateAdvertisedListenerConfig R i a b d = generateAdvertisedListenerConfig R' i a b d"
  using append_order [of R R'] by (simp add: generateAdvertisedListenerConfig_def)

lemma maps_Copy_ok: "gm_ok d \<Longrightarrow> gm_ok (maps_Copy d m) \<and> length (maps_Copy d m) \<le> length d + length m"
proof (induction m arbitrary: d)
  case (Cons a m)
  obtain k v where a: "a = (k, v)" by force
  have "gm_ok (AList.update k v d)" using Cons.prems by simp
  from Cons.IH [OF this] show ?case using length_update [of k v d] by (simp add: a maps_Copy_def)
qed (simp add: maps_Copy_def)

lemma length_listener_ssl: "length (generateListenerSSLConfig n a pw) \<le> 7"
  using length_update unfolding generateListenerSSLConfig_def Let_def by (rule le_trans) simp

definition ssl_ok :: "nat \<Rightarrow> listener_conf \<Rightarrow> bool" where
  "ssl_ok n lc \<longleftrightarrow> gm_ok (internalListenerSSLConfig lc) \<and> gm_ok (externalListenerSSLConfig lc) \<and>
     length (internalListenerSSLConfig lc) + length (externalListenerSSLConfig lc) \<le> n"

lemma ssl_ok_eListener: "ssl_ok n lc \<Longrightarrow> ssl_ok (n + 7) (add_eListener sp l lc)"
  using maps_Copy_ok [of "externalListenerSSLConfig lc" "generateListenerSSLConfig (elName l) (elSSLClientAuth l) (lookup_str sp (elName l))"]
    length_listener_ssl [of "elName l" "elSSLClientAuth l" "lookup_str sp (elName l)"]
  by (auto simp: ssl_ok_def add_eListener_def Let_def)

lemma ssl_ok_iListener: "ssl_ok n lc \<Longrightarrow> ssl_ok (n + 7) (add_iListener sp l lc)"
  using maps_Copy_ok [of "internalListenerSSLConfig lc" "generateListenerSSLConfig (ilName l) (ilSSLClientAuth l) (lookup_str sp (ilName l))"]
    length_listener_ssl [of "ilName l" "ilSSLClientAuth l" "lookup_str sp (ilName l)"]
  by (auto simp: ssl_ok_def add_iListener_def Let_def)

lemma fold_bound: "(\<And>x n s. P n s \<Longrightarrow> P (n + j) (f x s)) \<Longrightarrow> P n s \<Longrightarrow> P (n + j * length xs) (fold f xs s)"
proof (induction xs arbitrary: s n)
  case (Cons x xs)
  have "P (n + j + j * length xs) (fold f xs (f x s))" using Cons by blast
  then show ?case by (simp add: algebra_simps)
qed simp

definition few_listeners :: "KafkaClusterSpec \<Rightarrow> bool" where
  "few_listeners kcs \<longleftrightarrow> length (ExternalListeners (specListenersConfig kcs)) < 2 ^ 32 \<and>
     length (InternalListeners (specListenersConfig kcs)) < 2 ^ 32"

lemma listener_conf_ok:
  assumes "few_listeners kcs"
  shows "ssl_ok (2 ^ 36) (getListenerSpecificConfig (specListenersConfig kcs) sp)"
proof -
  let ?l = "specListenersConfig kcs"
  have "ssl_ok (0 + 7 * length (ExternalListeners ?l) + 7 * length (InternalListeners ?l)) (getListenerSpecificConfig ?l sp)"
    unfolding getListenerSpecificConfig_def
    by (intro fold_bound [where P = ssl_ok] ssl_ok_eListener ssl_ok_iListener) (simp_all add: ssl_ok_def)
  moreover have "0 + 7 * length (ExternalListeners ?l) + 7 * length (InternalListeners ?l) \<le> 2 ^ 36"
    using assms by (simp add: few_listeners_def)
  ultimately show ?thesis by (auto simp: ssl_ok_def)
qed

lemma general_config_sim:
  assumes "iterates R" "iterates R'" "few_listeners kcs"
  shows "sim (2 ^ 63) (fst (generateListenerSpecificConfig R kcs sp)) (fst (generateListenerSpecificConfig R' kcs sp)) \<and>
    Len (fst (generateListenerSpecificConfig R kcs sp)) \<le> 2 ^ 37"
proof -
  let ?lc = "getListenerSpecificConfig (specListenersConfig kcs) sp"
  let ?i = "internalListenerSSLConfig ?lc" and ?e = "externalListenerSSLConfig ?lc"
  let ?p = "\<lambda>R. set_all (rRangeStrings R ?i) NewProperties"
  let ?q = "\<lambda>R. set_all (rRangeStrings R ?e) (?p R)"
  have ok: "gm_ok ?i" "gm_ok ?e" "length ?i + length ?e \<le> 2 ^ 36" using listener_conf_ok [OF assms(3)] by (auto simp: ssl_ok_def)
  have perm: "mset (rRangeStrings R m) = mset m" "mset (rRangeStrings R' m) = mset m" for m using assms(1,2) by (auto simp: iterates_def)
  have ok': "gm_ok (rRangeStrings R ?i)" "gm_ok (rRangeStrings R ?e)" "length (rRangeStrings R ?i) = length ?i" "length (rRangeStrings R ?e) = length ?e"
    using perm_map_of [OF perm(1) [symmetric]] ok by auto
  have "sim (2 ^ 36 + (2 ^ 36 + (2 ^ 63 + 2))) NewProperties NewProperties" by (rule sim_mono [OF sim_New]) simp
  then have "sim (2 ^ 36 + (2 ^ 63 + 2)) (?p R) (?p R')" by (rule sim_set_all) (use ok ok' perm in auto)
  then have s: "sim (2 ^ 63 + 2) (?q R) (?q R')" by (rule sim_set_all) (use ok ok' perm in auto)
  have "Len (?q R) \<le> length ?i + length ?e"
    using Len_set_all [of "rRangeStrings R ?e" "?p R"] Len_set_all [of "rRangeStrings R ?i" NewProperties] ok'
    by (simp add: Len_def NewProperties_def)
  then have l: "Len (?q R) \<le> 2 ^ 36" using ok(3) by linarith
  have "sim (2 ^ 63) (put y (put x (?q R))) (put y (put x (?q R')))" for x y
    by (intro sim_put) (use s in \<open>simp add: numeral_2_eq_2\<close>)
  moreover have "Len (put y (put x (?q R))) \<le> 2 ^ 37" for x y
    using Len_put [of y "put x (?q R)"] Len_put [of x "?q R"] l by simp
  ultimately show ?thesis by (simp add: generateListenerSpecificConfig_def Let_def)
qed

lemma listeners_order: "snd (generateListenerSpecificConfig R kcs sp) = snd (generateListenerSpecificConfig R' kcs sp)"
  by (simp add: generateListenerSpecificConfig_def Let_def)

lemma fold_update_values:
  "map_of (fold (\<lambda>b. AList.update (g b) (f b)) bs m) i = Some p \<Longrightarrow> map_of m i = Some p \<or> p \<in> f ` set bs"
proof (induction bs arbitrary: m)
  case (Cons b bs)
  from Cons.IH [of "AList.update (g b) (f b) m"] Cons.prems show ?case by (auto simp: gm_get_update split: if_splits)
qed simp

lemma inter_broker_small: "Len (inter_broker_config kcs n b) \<le> 1 \<and> props_inv (inter_broker_config kcs n b)"
proof -
  have "props_room NewProperties (Suc 0)" by (simp add: props_room_def) (simp add: NewProperties_def)
  then have "props_inv (put x NewProperties)" for x using room_put [of NewProperties 0] by (simp add: props_room_def)
  moreover have "Len NewProperties = 0" by (simp add: Len_def NewProperties_def)
  ultimately show ?thesis using Len_put [of _ NewProperties] by (simp add: inter_broker_config_def Let_def)
qed

lemma listener_config_sim:
  assumes "iterates R" "iterates R'" "few_listeners (kcSpec c)"
  shows "sim (2 ^ 62) (listener_config R c b sp) (listener_config R' c b sp)"
proof -
  let ?g = "\<lambda>R. fst (generateListenerSpecificConfig R (kcSpec c) sp)" and ?s = "snd (generateListenerSpecificConfig R (kcSpec c) sp)"
  let ?b = "case map_of (fst ?s) (BrokerId b) of None \<Rightarrow> NewProperties | Some p \<Rightarrow> p"
  have lc: "listener_config T c b sp = Merge (Some (?g T)) (Merge (Some ?b) NewProperties)" for T
    using listeners_order [of T "kcSpec c" sp R] by (simp add: listener_config_def case_prod_beta Let_def)
  have small: "Len ?b \<le> 1 \<and> props_inv ?b"
  proof (cases "map_of (fst ?s) (BrokerId b)")
    case None
    then show ?thesis by (simp add: Len_def NewProperties_def [THEN arg_cong [where f = keys]])
  next
    case (Some p)
    let ?n = "interBrokerListenerName (getListenerSpecificConfig (specListenersConfig (kcSpec c)) sp)"
    have "map_of (fold (\<lambda>b. AList.update (BrokerId b) (inter_broker_config (kcSpec c) ?n b)) (Brokers (kcSpec c)) []) (BrokerId b) = Some p"
      using Some by (simp add: generateListenerSpecificConfig_def Let_def)
    from fold_update_values [OF this] have "p \<in> inter_broker_config (kcSpec c) ?n ` set (Brokers (kcSpec c))" by simp
    then show ?thesis using Some inter_broker_small by auto
  qed
  note g = general_config_sim [OF assms, of sp] general_config_sim [OF assms(2,1,3), of sp]
  have "sim (1 + (2 ^ 37 + 2 ^ 62)) NewProperties NewProperties" by (rule sim_mono [OF sim_New]) simp
  then have "sim (2 ^ 37 + 2 ^ 62) (Merge (Some ?b) NewProperties) (Merge (Some ?b) NewProperties)"
    by (rule sim_Merge) (use small in auto)
  then show ?thesis unfolding lc by (rule sim_Merge) (use g in \<open>auto simp: sim_def props_room_def\<close>)
qed

section \<open>The other steps\<close>

lemma rel_go_bind:
  "rel_go (=) A x y \<Longrightarrow> (\<And>a b. A a b \<Longrightarrow> rel_go (=) B (f a) (g b)) \<Longrightarrow> rel_go (=) B (go_bind x f) (go_bind y g)"
  by (cases x; cases y) auto

lemma rel_go_same: "(\<And>a. x = Ret a \<Longrightarrow> rel_go (=) B (f a) (g a)) \<Longrightarrow> rel_go (=) B (go_bind x f) (go_bind x g)"
  by (cases x) auto

lemma sim_opt: "sim (Suc r) p q \<Longrightarrow> sim r (if b then put x p else p) (if b then put x q else q)"
  by (auto intro: sim_put dest: sim_SucD)

lemma prefixed_set_all: "fold (\<lambda>(k, v). set_logged (pre @ k) (StrVal v)) m p = set_all (map (\<lambda>(k, v). (pre @ k, v)) m) p"
  by (induction m arbitrary: p) (auto simp: set_all_def)

lemma reporter_ssl_sim:
  assumes "iterates R" "iterates R'" "sim (5 + r) p q"
  shows "sim r (fold (\<lambda>(k, v). set_logged (''cruise.control.metrics.reporter.'' @ k) (StrVal v)) (rRangeStrings R (reporter_ssl pw)) p)
               (fold (\<lambda>(k, v). set_logged (''cruise.control.metrics.reporter.'' @ k) (StrVal v)) (rRangeStrings R' (reporter_ssl pw)) q)"
proof -
  let ?f = "\<lambda>(k, v). (''cruise.control.metrics.reporter.'' @ k, v)"
  have m: "mset (map ?f (rRangeStrings T (reporter_ssl pw))) = mset (map ?f (reporter_ssl pw))" if "iterates T" for T
    using that by (simp only: mset_map iterates_def)
  have "gm_ok (map ?f (reporter_ssl pw)) \<and> length (map ?f (reporter_ssl pw)) = 5" by (simp add: reporter_ssl_def)
  then have ok: "gm_ok (map ?f (rRangeStrings R (reporter_ssl pw)))" "length (map ?f (rRangeStrings R (reporter_ssl pw))) = 5"
    using perm_map_of [OF m [OF assms(1), symmetric]] by auto
  show ?thesis unfolding prefixed_set_all
    by (rule sim_set_all [OF assms(3)]) (use ok m [OF assms(1)] m [OF assms(2)] in simp_all)
qed

lemma reporter_sim:
  assumes "iterates R" "iterates R'" "sim (8 + r) p q"
  shows "rel_go (=) (sim r) (configCCMetricsReporter R c b bc pw p) (configCCMetricsReporter R' c b bc pw q)"
proof (cases "IsControllerOnlyNode bc")
  case True
  then show ?thesis using sim_mono [OF assms(3)] by (simp add: configCCMetricsReporter_def)
next
  case False
  let ?ssl = "\<lambda>T p. if IsSSLEnabledForInternalCommunication (InternalListeners (specListenersConfig (kcSpec c)))
    then fold (\<lambda>(k, v). set_logged (''cruise.control.metrics.reporter.'' @ k) (StrVal v)) (rRangeStrings T (reporter_ssl pw)) p else p"
  have s: "sim (Suc (Suc (Suc r))) (?ssl R p) (?ssl R' q)"
    using reporter_ssl_sim [OF assms(1,2), of "Suc (Suc (Suc r))" p q pw] assms(3) sim_mono [OF assms(3), of "Suc (Suc (Suc r))"] by simp
  show ?thesis
    unfolding configCCMetricsReporter_def Let_def set_logged_simps if_not_P [OF False]
    by (intro rel_go_same, simp only: go.rel_inject, intro sim_put sim_opt s [unfolded set_logged_simps])
qed

lemma role_listeners_sim:
  "sim (Suc r) p q \<Longrightarrow> rel_go (=) (sim r) (role_listeners bc n ls p) (role_listeners bc n ls q)"
  unfolding role_listeners_def
  by (auto intro!: rel_go_same sim_put split: option.split dest: sim_SucD)

lemma identity_sim: "sim (Suc (Suc r)) p q \<Longrightarrow> sim r (identity_config bc i c b p) (identity_config bc i c b q)"
  by (simp add: identity_config_def sim_put)

lemma quorum_sim: "sim (Suc (Suc r)) p q \<Longrightarrow> sim r (quorum_config vs n p) (quorum_config vs n q)"
  unfolding quorum_config_def Let_def set_logged_simps by (intro sim_opt sim_put)

lemma kraft_sim:
  assumes "iterates R" "iterates R'" "sim (7 + r) p q"
  shows "rel_go (=) (sim r) (configureBrokerKRaftMode R bc i c p vs sp es is ro) (configureBrokerKRaftMode R' bc i c q vs sp es is ro)"
proof -
  let ?n = "generateControlPlaneListener (InternalListeners (specListenersConfig (kcSpec c)))"
  let ?a = "\<lambda>x b p. if b then quorum_config vs ?n (identity_config bc i c x p) else identity_config bc i c x p"
  have i: "sim (Suc (Suc (Suc (Suc (Suc r))))) (identity_config bc i c x p) (identity_config bc i c x q)" for x
    by (rule identity_sim) (use assms(3) in \<open>simp add: numeral_eq_Suc\<close>)
  have a: "sim (Suc (Suc (Suc r))) (?a x b p) (?a x b q)" for x b
    using quorum_sim [OF i [of x], where vs = vs and n = ?n] sim_mono [OF i [of x], where r' = "Suc (Suc (Suc r))"] by simp
  show ?thesis
    unfolding configureBrokerKRaftMode_def Let_def set_logged_simps case_prod_beta advertised_order [OF assms(1,2)]
      listeners_order [of R "kcSpec c" sp R']
    by (intro rel_go_same role_listeners_sim sim_opt a)
qed

lemma zk_sim:
  assumes "iterates R" "iterates R'" "sim (4 + r) p q"
  shows "sim r (configureBrokerZKMode R i c p es is cs) (configureBrokerZKMode R' i c q es is cs)"
proof -
  have "sim (Suc (Suc (Suc (Suc r)))) p q" using assms(3) by (simp add: numeral_eq_Suc)
  then show ?thesis unfolding configureBrokerZKMode_def Let_def set_logged_simps advertised_order [OF assms(1,2)]
    by (intro sim_put sim_opt)
qed

lemma storage_users_sim:
  "sim (Suc (Suc r)) p q \<Longrightarrow> sim r (storage_users_config bc old us p) (storage_users_config bc old us q)"
  unfolding storage_users_config_def Let_def set_logged_simps by (intro sim_opt)

section \<open>The final text\<close>

lemma mode_sim:
  assumes "iterates R" "iterates R'" "sim (7 + r) p q"
  shows "rel_go (=) (sim r) (mode_config R c bc b i p) (mode_config R' c bc b i q)"
proof -
  have "sim (4 + r) p q" using sim_mono [OF assms(3)] by simp
  then show ?thesis unfolding mode_config_def
    by (intro rel_go_same) (simp add: kraft_sim [OF assms] zk_sim [OF assms(1,2)])
qed

lemma config_properties_sim:
  assumes "iterates R" "iterates R'" "rGetObject R' = rGetObject R" "few_listeners (kcSpec c)"
  shows "rel_go (=) (sim (2 ^ 61)) (fst (getConfigProperties R c bc b i tr)) (fst (getConfigProperties R' c bc b i tr)) \<and>
    snd (getConfigProperties R c bc b i tr) = snd (getConfigProperties R' c bc b i tr)"
proof -
  have "sim (8 + (7 + (Suc (Suc (2 ^ 61))))) (listener_config R c b (inServerPasses i)) (listener_config R' c b (inServerPasses i))"
    by (rule sim_mono [OF listener_config_sim [OF assms(1,2,4)]]) simp
  then have "rel_go (=) (sim (Suc (Suc (2 ^ 61))))
      (go_bind (configCCMetricsReporter R c b bc (inClientPass i) (listener_config R c b (inServerPasses i))) (mode_config R c bc b i))
      (go_bind (configCCMetricsReporter R' c b bc (inClientPass i) (listener_config R' c b (inServerPasses i))) (mode_config R' c bc b i))"
    by (intro rel_go_bind [OF reporter_sim [OF assms(1,2)]] mode_sim [OF assms(1,2)])
  then show ?thesis
    unfolding getConfigProperties_def old_mount_paths_def assms(3)
    by (auto split: go.splits simp: storage_users_sim)
qed

lemma Property_String_Ret: "\<exists>s. Property_String p = Ret s"
proof (cases "prop_key p = []")
  case False
  then show ?thesis using EscapeSeparators_eq [OF False] by (auto simp: Property_String_def)
qed (simp add: Property_String_def Property_IsValid_def EscapeSeparators_def)

lemma go_map_Ret: "(\<And>x. \<exists>y. f x = Ret y) \<Longrightarrow> \<exists>ys. go_map f xs = Ret ys"
proof (induction xs)
  case (Cons x xs)
  then obtain y ys where "f x = Ret y" "go_map f xs = Ret ys" by blast
  then show ?case by simp
qed simp

lemma Properties_String_Ret: "\<exists>s. Properties_String p = Ret s"
proof -
  let ?f = "\<lambda>k. case Get p k of Some prop \<Rightarrow> go_bind (Property_String prop) (\<lambda>s. Ret (s @ [CHR 0x0A])) | None \<Rightarrow> Ret []"
  have "\<exists>x. ?f k = Ret x" for k
  proof (cases "Get p k")
    case (Some x)
    then show ?thesis using Property_String_Ret [of x] by auto
  qed simp
  then have "\<exists>xs. go_map ?f (Keys p) = Ret xs" by (rule go_map_Ret)
  then show ?thesis by (auto simp: Properties_String_def)
qed

text \<open>The text of a sorted container depends on its contents only.\<close>

lemma sorted_text:
  assumes "props_inv p" "props_inv q" "\<forall>k. Get p k = Get q k" "props_room p 0" "props_room q 0"
  shows "Properties_String (Sort p) = Properties_String (Sort q)"
proof -
  have keys: "set (unsafeKeys x) = {k. Get x k \<noteq> None}" if "props_inv x" for x using that by (auto simp: set_unsafeKeys)
  have "set (unsafeKeys p) = set (unsafeKeys q)" using assms(1-3) keys by simp
  then have m: "mset (unsafeKeys p) = mset (unsafeKeys q)"
    using assms(1,2) distinct_unsafeKeys by (simp add: set_eq_iff_mset_eq_distinct)
  have "mset (entries p) = mset (entries q)"
    unfolding entries_def mset_map m using assms(3) by simp
  moreover have "distinct (map prop_key (entries p))" using entries_keys [OF assms(1)] distinct_unsafeKeys [OF assms(1)] by simp
  ultimately have "sort_key prop_key (entries p) = sort_key prop_key (entries q)" by (rule sort_key_order_irrelevant)
  moreover have "props_inv (Sort p)" "props_inv (Sort q)" using room_Sort [OF assms(4)] room_Sort [OF assms(5)] by (simp_all add: props_room_def)
  ultimately show ?thesis using go_map_entries entries_Sort assms(1,2) by simp
qed

definition gen_users :: "Properties \<Rightarrow> Properties \<Rightarrow> Properties" where
  "gen_users ro gen = (let su = mergeSuperUsersPropertyValue ro gen in if su \<noteq> [] then put (entry ''super.users'' su) gen else gen)"

definition unsorted_config :: "Properties \<Rightarrow> Properties \<Rightarrow> Properties" where
  "unsorted_config ro gen = Delete MigrationBrokerKRaftMode (Delete MigrationBrokerControllerQuorumConfigEnabled (Merge (Some (gen_users ro gen)) ro))"

lemma final_config_eq: "final_config ro gen = Sort (unsorted_config ro gen)"
  by (simp add: final_config_def unsorted_config_def gen_users_def Let_def)

lemma room_Delete: "props_room p n \<Longrightarrow> props_room (Delete k p) n"
  using props_inv_Delete [of p k] by (simp add: props_room_def) (simp add: Delete_def)

lemma room_Len: "props_room p n \<Longrightarrow> Len p + n < 2 ^ 64"
  using Len_le_next [of p] by (auto simp: props_room_def)

lemma unsorted_facts:
  assumes "props_room ro (2 ^ 64 - 2 ^ 35)" "props_room gen (2 ^ 61)"
  shows "props_room (unsorted_config ro gen) 0 \<and>
    Get (unsorted_config ro gen) k =
      (if k = MigrationBrokerKRaftMode \<or> k = MigrationBrokerControllerQuorumConfigEnabled then None
       else case Get (gen_users ro gen) k of Some x \<Rightarrow> Some x | None \<Rightarrow> Get ro k)"
proof -
  have g: "props_room (gen_users ro gen) (2 ^ 61 - 1)"
    using room_put [of gen "2 ^ 61 - 1"] assms(2) room_mono [OF assms(2)] by (simp add: gen_users_def Let_def)
  then have "Len (gen_users ro gen) + 0 \<le> 2 ^ 64 - 2 ^ 35" "props_inv (gen_users ro gen)"
    using room_Len [OF g] by (simp_all add: props_room_def)
  then show ?thesis using room_mono [OF assms(1)]
    by (auto simp: unsorted_config_def Merge_def room_Delete room_merge Get_Delete Get_merge split: option.split)
qed

definition short_config :: "Broker \<Rightarrow> KafkaCluster \<Rightarrow> bool" where
  "short_config b c \<longleftrightarrow> length (specReadOnlyConfig (kcSpec c)) < 2 ^ 32 \<and> length (ReadOnlyConfig b) < 2 ^ 32 \<and> few_listeners (kcSpec c)"

lemma read_only_room:
  assumes "getBrokerReadOnlyConfig b c = Ret (Some ro)" "short_config b c"
  shows "props_room ro (2 ^ 64 - 2 ^ 35)"
proof -
  obtain cw where cw: "NewFromString (specReadOnlyConfig (kcSpec c)) = Ret cw"
    using assms(1) by (auto simp: getBrokerReadOnlyConfig_def parsed_def deref_def Let_def split: go.splits option.splits)
  then have rc: "props_room cw (2 ^ 64 - 2 ^ 34)" using assms(2) loaded_room [OF cw] by (simp add: short_config_def)
  show ?thesis
  proof (cases "parsed (ReadOnlyConfig b)")
    case None
    then show ?thesis using assms(1) cw room_mono [OF rc] by (simp add: getBrokerReadOnlyConfig_def parsed_def)
  next
    case (Some bw)
    then have "props_room bw (2 ^ 64 - 2 ^ 34)"
      using assms(2) loaded_room [of "ReadOnlyConfig b" bw] by (auto simp: short_config_def parsed_def split: go.splits)
    from room_Len [OF this] have "Len bw + (2 ^ 64 - 2 ^ 35) \<le> 2 ^ 64 - 2 ^ 34" by simp
    from room_mono [OF rc this] show ?thesis
      using assms(1) cw Some by (auto simp: getBrokerReadOnlyConfig_def parsed_def deref_def Merge_def room_merge)
  qed
qed

section \<open>Super users and mount paths\<close>

lemma insert_missing_eq:
  "\<exists>extra. insert_missing us t ins = (t @ extra, ins \<or> extra \<noteq> []) \<and> set (t @ extra) = set t \<union> set us \<and> set extra \<subseteq> set us"
proof (induction us arbitrary: t ins)
  case (Cons u us)
  show ?case
  proof (cases "u \<in> set t")
    case True
    then show ?thesis using Cons [of t ins] by auto
  next
    case False
    then obtain extra where "insert_missing us (t @ [u]) True = (t @ [u] @ extra, True)" "set ((t @ [u]) @ extra) = set (t @ [u]) \<union> set us"
        "set extra \<subseteq> set us"
      using Cons [of "t @ [u]" True] by auto
    then show ?thesis using False by (intro exI [of _ "u # extra"]) auto
  qed
qed simp

definition users :: "string \<Rightarrow> string set" where
  "users v = set (split_on CHR '';'' v)"

lemma merged_users:
  assumes "Get ro ''super.users'' = Some sv" "Get gen ''super.users'' = Some tv" "\<not> Property_IsEmpty sv" "\<not> Property_IsEmpty tv"
  shows "\<exists>v. Get (gen_users ro gen) ''super.users'' = Some v \<and> users (prop_value v) = users (prop_value sv) \<union> users (prop_value tv)"
proof -
  let ?s = "split_on CHR '';'' (prop_value sv)" and ?t = "split_on CHR '';'' (prop_value tv)"
  obtain extra where e: "insert_missing ?s ?t False = (?t @ extra, extra \<noteq> [])" "set (?t @ extra) = set ?t \<union> set ?s" "set extra \<subseteq> set ?s"
    using insert_missing_eq [of ?s ?t False] by auto
  have no_sep: "CHR '';'' \<notin> set x" if "x \<in> set (?t @ extra)" for x
    using that e(3) split_on_pieces [of "CHR '';''" "prop_value sv"] split_on_pieces [of "CHR '';''" "prop_value tv"] by auto
  show ?thesis
  proof (cases "extra = []")
    case True
    then show ?thesis using assms e by (auto simp: gen_users_def mergeSuperUsersPropertyValue_def users_def)
  next
    case False
    have j: "split_on CHR '';'' (join '';'' (?t @ extra)) = ?t @ extra"
      by (rule split_on_join) (use no_sep in auto)
    have "2 \<le> length (?t @ extra)" using False split_on_not_Nil [of "CHR '';''" "prop_value tv"] by (cases ?t; cases extra) auto
    then have "?t @ extra \<noteq> [[]]" using arg_cong [of "?t @ extra" "[[]]" length] by fastforce
    then have "join '';'' (?t @ extra) \<noteq> []" using j by fastforce
    then show ?thesis using assms e False j
      by (auto simp: gen_users_def mergeSuperUsersPropertyValue_def users_def Get_put)
  qed
qed

lemma merge_mount_paths_eq: "merge_mount_paths new old (acc, b) = (acc @ filter (\<lambda>x. x \<notin> set new) old, b \<or> \<not> set old \<subseteq> set new)"
  by (induction old arbitrary: acc b) auto

lemma mergeMountPaths_eq: "mergeMountPaths old new = (new @ filter (\<lambda>x. x \<notin> set new) old, \<not> set old \<subseteq> set new)"
  by (simp add: mergeMountPaths_def merge_mount_paths_eq)

section \<open>Properties\<close>

text \<open>(C14) The generated configuration does not depend on the order in which Go ranges over the maps of listeners, passwords
  and statuses: any two orders give the same text, so that a reconcile without a change never causes a rolling upgrade.\<close>

theorem broker_config_order_independent:
  assumes "iterates R" "iterates R'" "rGetObject R' = rGetObject R" "short_config b c"
  shows "generateBrokerConfig R c bc b i tr = generateBrokerConfig R' c bc b i tr"
proof (cases "getBrokerReadOnlyConfig b c")
  case (Ret ro)
  have few: "few_listeners (kcSpec c)" using assms(4) by (simp add: short_config_def)
  let ?g = "getConfigProperties R c bc b i tr" and ?g' = "getConfigProperties R' c bc b i tr"
  note g = config_properties_sim [OF assms(1-3) few, of bc b i tr]
  have printed: "Properties_String (final_config r x) = Properties_String (final_config r y)" if "ro = Some r" "sim (2 ^ 61) x y" for r x y
  proof -
    have "props_room r (2 ^ 64 - 2 ^ 35)" using read_only_room [OF _ assms(4)] Ret that(1) by simp
    note f = unsorted_facts [OF this, of x] unsorted_facts [OF this, of y]
    have same: "Get x k = Get y k" for k using that(2) by (simp add: sim_def)
    have "mergeSuperUsersPropertyValue r x = mergeSuperUsersPropertyValue r y" by (simp only: mergeSuperUsersPropertyValue_def same)
    then have "Get (gen_users r x) k = Get (gen_users r y) k" for k
      by (simp add: gen_users_def Let_def Get_put same)
    then show ?thesis unfolding final_config_eq
      by (intro sorted_text) (use f that(2) in \<open>auto simp: sim_def props_room_def\<close>)
  qed
  show ?thesis
  proof (cases "fst ?g"; cases "fst ?g'")
    fix x y assume xy: "fst ?g = Ret x" "fst ?g' = Ret y"
    then have "sim (2 ^ 61) x y" using g by simp
    then show ?thesis using xy g Ret printed
      by (cases ?g; cases ?g'; cases ro) (auto simp: generateBrokerConfig_def deref_def)
  qed (use g Ret in \<open>auto simp: generateBrokerConfig_def case_prod_beta split: go.splits\<close>)
qed (simp_all add: generateBrokerConfig_def)

text \<open>(C6) Which value a key of the configuration gets: what the operator generates wins over the read-only
  configuration of the broker, which wins over that of the cluster; the super users of both are kept; the flags of the
  migration never reach the broker; the keys are in ascending order. If the read-only configurations parse and the
  operator's part is generated, so is the text.\<close>

theorem broker_config_precedence:
  assumes parse: "NewFromString (specReadOnlyConfig (kcSpec c)) = Ret cw" "NewFromString (ReadOnlyConfig b) = Ret bw"
    and gen: "getConfigProperties R c bc b i tr = (Ret gen, tr1)"
    and size: "short_config b c" "iterates R"
  shows "\<exists>s p. generateBrokerConfig R c bc b i tr = (Ret s, tr1) \<and> Properties_String p = Ret s \<and> sorted (Keys p) \<and>
    (\<forall>k. k \<notin> {''super.users'', ''migration.broker.kRaftMode'', ''migration.broker.controllerQuorumConfigEnabled''} \<longrightarrow>
      Get p k = (case Get gen k of Some x \<Rightarrow> Some x | None \<Rightarrow> (case Get bw k of Some x \<Rightarrow> Some x | None \<Rightarrow> Get cw k))) \<and>
    Get p ''migration.broker.kRaftMode'' = None \<and> Get p ''migration.broker.controllerQuorumConfigEnabled'' = None \<and>
    (\<forall>sv tv. Get gen ''super.users'' = Some tv \<longrightarrow> Get (Merge (Some bw) cw) ''super.users'' = Some sv \<longrightarrow>
       \<not> Property_IsEmpty tv \<longrightarrow> \<not> Property_IsEmpty sv \<longrightarrow>
       (\<exists>v. Get p ''super.users'' = Some v \<and> users (prop_value v) = users (prop_value sv) \<union> users (prop_value tv)))"
proof -
  let ?ro = "Merge (Some bw) cw"
  have ro: "getBrokerReadOnlyConfig b c = Ret (Some ?ro)" using parse by (simp add: getBrokerReadOnlyConfig_def parsed_def deref_def)
  have "few_listeners (kcSpec c)" using size(1) by (simp add: short_config_def)
  from config_properties_sim [OF size(2,2) refl this, of bc b i tr] have g: "props_room gen (2 ^ 61)" by (simp add: gen sim_def)
  note f = unsorted_facts [OF read_only_room [OF ro size(1)] g]
  let ?u = "unsorted_config ?ro gen"
  have room: "props_room ?u 0" using f by blast
  have bw: "props_inv bw" using loaded_room [OF parse(2), of 0] size(1) by (simp add: short_config_def props_room_def)
  obtain s where s: "Properties_String (Sort ?u) = Ret s" using Properties_String_Ret by blast
  have "sorted (Keys (Sort ?u))" using Sort_keys(1) [of ?u] Len_bound [of ?u] room by (simp add: Keys_def props_room_def)
  moreover have "Get (Sort ?u) k = (case Get gen k of Some x \<Rightarrow> Some x | None \<Rightarrow> (case Get bw k of Some x \<Rightarrow> Some x | None \<Rightarrow> Get cw k))"
    if "k \<notin> {''super.users'', ''migration.broker.kRaftMode'', ''migration.broker.controllerQuorumConfigEnabled''}" for k
  proof -
    have "Get (gen_users ?ro gen) k = Get gen k" using that by (auto simp: gen_users_def Let_def Get_put)
    then show ?thesis using that f [of k]
      by (auto simp: Get_Sort MigrationBrokerKRaftMode_def MigrationBrokerControllerQuorumConfigEnabled_def Merge_def Get_merge [OF bw] split: option.splits)
  qed
  moreover have "Get (Sort ?u) k = None" if "k \<in> {''migration.broker.kRaftMode'', ''migration.broker.controllerQuorumConfigEnabled''}" for k
    using that f [of k] by (auto simp: Get_Sort MigrationBrokerKRaftMode_def MigrationBrokerControllerQuorumConfigEnabled_def)
  moreover have "Get (Sort ?u) ''super.users'' = Get (gen_users ?ro gen) ''super.users''" if "Get (gen_users ?ro gen) ''super.users'' \<noteq> None"
    using that f [of "''super.users''"]
    by (auto simp: Get_Sort MigrationBrokerKRaftMode_def MigrationBrokerControllerQuorumConfigEnabled_def split: option.splits)
  moreover have "generateBrokerConfig R c bc b i tr = (Ret s, tr1)"
    using ro gen s by (simp add: generateBrokerConfig_def deref_def final_config_eq)
  ultimately show ?thesis using s merged_users [of ?ro _ gen]
    by (intro exI [of _ s] exI [of _ "Sort ?u"]) (auto, metis option.distinct(1))
qed

text \<open>(C11) A log directory is never lost: the generated \<open>log.dirs\<close> lists the storages of the spec and after them every directory
  that the stored configuration map names, so that removing a storage from the spec alone does not take data away from a
  broker.\<close>

theorem mount_paths_kept:
  assumes "getConfigProperties R c bc b i tr = (Ret gen, tr1)"
    and "rGetObject R tr KindConfigMap (kcName c @ ''-config-'' @ Itoa (sint (BrokerId b))) = Inr stored"
    and "NewFromString (config_text stored) = Ret old" "Get old ''log.dirs'' = Some dirs" "prop_value dirs \<noteq> []"
    and "\<forall>s \<in> set (StorageConfigs bc). CHR '','' \<notin> set (MountPath s)"
  shows "\<exists>v. Get gen ''log.dirs'' = Some v \<and>
    set (split_on CHR '','' (prop_value v)) = (\<lambda>s. MountPath s @ ''/kafka'') ` set (StorageConfigs bc) \<union> set (split_on CHR '','' (prop_value dirs))"
proof -
  let ?new = "generateStorageConfig (StorageConfigs bc)" and ?old = "split_on CHR '','' (prop_value dirs)"
  let ?m = "?new @ filter (\<lambda>x. x \<notin> set ?new) ?old"
  have old: "old_mount_paths R (config_map_name c b) tr = ?old"
    using assms(2-5) by (simp add: old_mount_paths_def config_map_name_def getMountPathsFromBrokerConfigMap_def parsed_def)
  have new: "set ?new = (\<lambda>s. MountPath s @ ''/kafka'') ` set (StorageConfigs bc)"
    by (auto simp: generateStorageConfig_def StorageConfigKafkaMountPath_def)
  have ne: "?m \<noteq> []" using split_on_not_Nil [of "CHR '',''" "prop_value dirs"] by (cases ?new) (auto simp: filter_empty_conv)
  have "split_on CHR '','' (join '','' ?m) = ?m"
    by (rule split_on_join [OF ne]) (use assms(6) split_on_pieces [of "CHR '',''" "prop_value dirs"] new in auto)
  moreover obtain config where "gen = storage_users_config bc ?old (inSuperUsers i) config"
    using assms(1) old by (auto simp: getConfigProperties_def split: go.splits)
  ultimately have "Get gen ''log.dirs'' = Some (entry ''log.dirs'' (join '','' ?m))" "split_on CHR '','' (join '','' ?m) = ?m"
    using ne by (auto simp: storage_users_config_def Let_def mergeMountPaths_eq Get_put)
  moreover have "set ?m = set ?new \<union> set ?old" by auto
  ultimately show ?thesis using new by simp
qed

section \<open>Quorum voters\<close>

definition controller_broker :: "renv \<Rightarrow> KafkaClusterSpec \<Rightarrow> Broker \<Rightarrow> bool" where
  "controller_broker R spec b \<longleftrightarrow> (case GetBrokerConfig (rM R) b spec of Inr (Some bc) \<Rightarrow> IsControllerNode bc | _ \<Rightarrow> False)"

definition status_of :: "ListenerStatus list \<Rightarrow> 32 word \<Rightarrow> ListenerStatus option" where
  "status_of sts i = find (\<lambda>s. lsName s = ''broker-'' @ Itoa (sint i)) sts"

definition voters :: "renv \<Rightarrow> KafkaClusterSpec \<Rightarrow> ListenerStatus list \<Rightarrow> Broker list \<Rightarrow> 32 word list" where
  "voters R spec sts bs = map BrokerId (filter (\<lambda>b. controller_broker R spec b \<and> status_of sts (BrokerId b) \<noteq> None) bs)"

lemma gather_voters_eq:
  assumes "rRangeStatuses R [(n, sts)] = [(n, sts)]" "gather_voters R spec [(n, sts)] bs ids m = Ret (ids', m')"
  shows "ids' = ids @ voters R spec sts bs \<and>
    (\<forall>i. map_of m' i = (if i \<in> set (voters R spec sts bs) then map_option lsAddress (status_of sts i) else map_of m i))"
  using assms(2)
proof (induction bs arbitrary: ids m)
  case (Cons b bs)
  have as: "voter_addresses (BrokerId b) (rRangeStatuses R [(n, sts)]) = (case status_of sts (BrokerId b) of None \<Rightarrow> [] | Some s \<Rightarrow> [lsAddress s])"
    unfolding assms(1) by (simp add: voter_addresses_def status_of_def List.map_filter_simps split: option.split)
  obtain bc where bc: "GetBrokerConfig (rM R) b spec = Inr (Some bc)" using Cons.prems by (auto split: sum.splits option.splits)
  show ?case
  proof (cases "IsControllerNode bc \<and> status_of sts (BrokerId b) \<noteq> None")
    case True
    then obtain s where "status_of sts (BrokerId b) = Some s" by blast
    then show ?thesis using Cons.prems bc as True
      by (auto simp: voters_def controller_broker_def gm_get_update Let_def dest!: Cons.IH)
  next
    case False
    then show ?thesis using Cons.prems bc as
      by (auto simp: voters_def controller_broker_def Let_def dest!: Cons.IH split: if_splits)
  qed
qed (simp add: voters_def)

lemma strict_sort:
  assumes "distinct xs" "inj_on f (set xs)"
  shows "sorted_wrt (\<lambda>i j. f i < f j) (sort_key f xs)"
proof -
  have "sorted (map f (sort_key f xs))" "distinct (map f (sort_key f xs))" using assms by (simp_all add: distinct_map)
  then have "sorted_wrt (<) (map f (sort_key f xs))" by (simp add: strict_sorted_iff)
  then show ?thesis by (simp add: sorted_wrt_map)
qed

text \<open>The quorum voters of a cluster with one controller listener: one entry for each controller node that the
  listener has an address for, with that address, in ascending order of the node ids, whatever the order of the brokers.\<close>

lemma quorum_voters_correct:
  assumes "generateQuorumVoters R c [(n, sts)] = Ret vs" "iterates R" "distinct (map BrokerId (Brokers (kcSpec c)))"
  shows "\<exists>ids. sorted_wrt (\<lambda>i j. sint i < sint j) ids \<and> set ids = set (voters R (kcSpec c) sts (Brokers (kcSpec c))) \<and>
    list_all2 (\<lambda>i v. \<exists>s \<in> set sts. lsName s = ''broker-'' @ Itoa (sint i) \<and> v = Itoa (sint i) @ ''@'' @ lsAddress s) ids vs"
proof -
  let ?v = "voters R (kcSpec c) sts (Brokers (kcSpec c))"
  have one: "rRangeStatuses R [(n, sts)] = [(n, sts)]"
    using assms(2) by (simp add: iterates_def) (metis mset_single_iff_right)
  obtain m where m: "gather_voters R (kcSpec c) [(n, sts)] (Brokers (kcSpec c)) [] [] = Ret (?v, m)"
    using assms(1) gather_voters_eq [OF one] by (fastforce simp: generateQuorumVoters_def)
  have addr: "map_of m i = map_option lsAddress (status_of sts i)" if "i \<in> set ?v" for i using gather_voters_eq [OF one m] that by simp
  have found: "\<exists>s. status_of sts i = Some s \<and> s \<in> set sts \<and> lsName s = ''broker-'' @ Itoa (sint i)" if "i \<in> set ?v" for i
    using that by (auto simp: voters_def status_of_def find_Some_iff)
  have "distinct ?v" using assms(3) by (simp add: voters_def distinct_map_filter)
  then have "sorted_wrt (\<lambda>i j. sint i < sint j) (sort_key sint ?v)" by (rule strict_sort) (simp add: inj_on_def signed_word_eqI)
  moreover have "vs = map (\<lambda>i. Itoa (sint i) @ ''@'' @ (case map_of m i of None \<Rightarrow> [] | Some a \<Rightarrow> a)) (sort_key sint ?v)"
    using assms(1) m by (simp add: generateQuorumVoters_def)
  moreover have "\<exists>s \<in> set sts. lsName s = ''broker-'' @ Itoa (sint i) \<and> Itoa (sint i) @ ''@'' @ (case map_of m i of None \<Rightarrow> [] | Some a \<Rightarrow> a) = Itoa (sint i) @ ''@'' @ lsAddress s"
    if "i \<in> set ?v" for i using addr [OF that] found [OF that] by auto
  ultimately show ?thesis
    by (intro exI [of _ "sort_key sint ?v"]) (simp add: list_all2_map2 list_all2_same)
qed

section \<open>A small cluster and the error paths\<close>

definition ssl_cluster :: KafkaCluster where
  "ssl_cluster = kafka_cluster\<lparr>kcSpec := (kcSpec kafka_cluster)\<lparr>specReadOnlyConfig := eight, specListenersConfig := no_listeners
     \<lparr>InternalListeners := [internal_listener\<lparr>ilType := ''ssl''\<rparr>], ExternalListeners := [external_listener\<lparr>elType := ''ssl''\<rparr>]\<rparr>\<rparr>\<rparr>"

definition ssl_broker :: Broker where
  "ssl_broker = (hd sample_brokers)\<lparr>ReadOnlyConfig := nine\<rparr>"

definition sample_input :: conf_input where
  "sample_input = \<lparr>inQuorumVoters = [], inExt = [(''external'', [\<lparr>lsName = ''broker-0'', lsAddress = ''host:19090''\<rparr>])],
     inInt = [(''plaintext'', [\<lparr>lsName = ''broker-0'', lsAddress = ''kafka-0:29092''\<rparr>])], inCtl = [], inServerPasses = [],
     inClientPass = ''secret'', inSuperUsers = [''CN=kafka'']\<rparr>"

lemma sample_short: "short_config ssl_broker ssl_cluster"
  by (simp add: short_config_def few_listeners_def ssl_broker_def ssl_cluster_def eight_def nine_def sample_brokers_def)

lemma sample_iterates: "iterates (sample_renv s)" "iterates ((sample_renv s)\<lparr>rRangeStrings := rev, rRangeStatuses := rev\<rparr>)"
  by (simp_all add: iterates_def sample_renv_def)

theorem broker_config_order_independent_witness:
  "generateBrokerConfig (sample_renv []) ssl_cluster zero_BrokerConfig ssl_broker sample_input [] =
   generateBrokerConfig ((sample_renv [])\<lparr>rRangeStrings := rev, rRangeStatuses := rev\<rparr>) ssl_cluster zero_BrokerConfig ssl_broker sample_input []"
  by (rule broker_config_order_independent [OF sample_iterates _ sample_short]) simp

lemma threads_parsed:
  "NewFromString eight = Ret (put (entry ''num.io.threads'' ''8'') NewProperties)"
  "NewFromString nine = Ret (put (entry ''num.io.threads'' ''9'') NewProperties)"
  using NewFromString_line [of "''num.io.threads''" "''8''"] NewFromString_line [of "''num.io.threads''" "''9''"]
  by (simp_all add: printable_simps eight_def nine_def)

lemma zk_config_generated:
  assumes "NewFromString (specReadOnlyConfig (kcSpec c)) = Ret cw" "NewFromString (ReadOnlyConfig b) = Ret bw" "\<not> KRaftMode (kcSpec c)"
  shows "\<exists>gen. getConfigProperties R c bc b i tr = (Ret gen, tr @ [KGetObject KindConfigMap (config_map_name c b)])"
  using assms
  by (simp add: getConfigProperties_def configCCMetricsReporter_def mode_config_def getBrokerReadOnlyConfig_def parsed_def deref_def Let_def)

lemma sample_parsed:
  "NewFromString (specReadOnlyConfig (kcSpec ssl_cluster)) = Ret (put (entry ''num.io.threads'' ''8'') NewProperties)"
  "NewFromString (ReadOnlyConfig ssl_broker) = Ret (put (entry ''num.io.threads'' ''9'') NewProperties)"
  "\<not> KRaftMode (kcSpec ssl_cluster)"
  using threads_parsed by (simp_all add: ssl_cluster_def ssl_broker_def kafka_cluster_def)

theorem broker_config_precedence_witness:
  "\<exists>s p tr1. generateBrokerConfig (sample_renv []) ssl_cluster zero_BrokerConfig ssl_broker sample_input [] = (Ret s, tr1) \<and>
     Properties_String p = Ret s \<and> sorted (Keys p) \<and> Get p ''migration.broker.kRaftMode'' = None"
proof -
  obtain gen where "getConfigProperties (sample_renv []) ssl_cluster zero_BrokerConfig ssl_broker sample_input [] =
      (Ret gen, [] @ [KGetObject KindConfigMap (config_map_name ssl_cluster ssl_broker)])"
    using zk_config_generated [OF sample_parsed] by blast
  from broker_config_precedence [OF sample_parsed(1,2) this sample_short sample_iterates(1)] show ?thesis
    by (elim exE conjE) (intro exI conjI)
qed

theorem mount_paths_kept_witness:
  "\<exists>gen tr1 v. getConfigProperties (sample_renv (''log.dirs=/old/kafka'' @ [CHR 0x0A])) ssl_cluster
       (zero_BrokerConfig\<lparr>StorageConfigs := [\<lparr>MountPath = ''/new'', PvcSpec = None, PvcStorage = 0, EmptyDir = None\<rparr>]\<rparr>) ssl_broker sample_input [] = (Ret gen, tr1) \<and>
     Get gen ''log.dirs'' = Some v \<and> set (split_on CHR '','' (prop_value v)) = {''/new/kafka'', ''/old/kafka''}"
proof -
  let ?t = "''log.dirs=/old/kafka'' @ [CHR 0x0A]" and ?bc = "zero_BrokerConfig\<lparr>StorageConfigs := [\<lparr>MountPath = ''/new'', PvcSpec = None, PvcStorage = 0, EmptyDir = None\<rparr>]\<rparr>"
  let ?R = "sample_renv ?t" and ?o = "ConfigMapObj (sample_config_map ?t)" and ?e = "entry ''log.dirs'' ''/old/kafka''"
  obtain gen tr1 where g: "getConfigProperties ?R ssl_cluster ?bc ssl_broker sample_input [] = (Ret gen, tr1)"
    using zk_config_generated [OF sample_parsed] by blast
  have o: "rGetObject ?R [] KindConfigMap (kcName ssl_cluster @ ''-config-'' @ Itoa (sint (BrokerId ssl_broker))) = Inr ?o"
    by (simp add: sample_renv_def)
  have p: "NewFromString (config_text ?o) = Ret (put ?e NewProperties)"
    using NewFromString_line [of "''log.dirs''" "''/old/kafka''"]
    by (simp add: printable_simps config_text_def sample_config_map_def lookup_str_def)
  have d: "Get (put ?e NewProperties) ''log.dirs'' = Some ?e" "prop_value ?e \<noteq> []" by (simp_all add: Get_put)
  from mount_paths_kept [OF g o p d]
  obtain v where "Get gen ''log.dirs'' = Some v" "set (split_on CHR '','' (prop_value v)) = {''/new/kafka''} \<union> {''/old/kafka''}" by auto
  then show ?thesis using g by (intro exI [of _ gen] exI [of _ tr1] exI [of _ v]) auto
qed

definition controller :: "32 word \<Rightarrow> Broker" where
  "controller i = \<lparr>BrokerId = i, BrokerConfigGroup = [], ReadOnlyConfig = [], brokerBrokerConfig = Some (zero_BrokerConfig\<lparr>Roles := [''controller'']\<rparr>)\<rparr>"

definition controller_cluster :: KafkaCluster where
  "controller_cluster = kafka_cluster\<lparr>kcSpec := (kcSpec kafka_cluster)\<lparr>KRaftMode := True, Brokers := [controller 4, controller 3]\<rparr>\<rparr>"

definition controller_statuses :: "string \<Rightarrow> ListenerStatus list" where
  "controller_statuses p = [\<lparr>lsName = ''broker-4'', lsAddress = ''c4'' @ p\<rparr>, \<lparr>lsName = ''broker-3'', lsAddress = ''c3'' @ p\<rparr>]"

lemma quorum_voters_correct_witness:
  "generateQuorumVoters (sample_renv []) controller_cluster [(''controller'', controller_statuses '':93'')] = Ret [''3@c3:93'', ''4@c4:93''] \<and>
   (\<exists>ids :: 32 word list. sorted_wrt (\<lambda>i j. sint i < sint j) ids \<and> length ids = 2)"
proof -
  have v: "generateQuorumVoters (sample_renv []) controller_cluster [(''controller'', controller_statuses '':93'')] = Ret [''3@c3:93'', ''4@c4:93'']"
    by code_simp
  have "distinct (map BrokerId (Brokers (kcSpec controller_cluster)))" by (simp add: controller_cluster_def controller_def)
  from quorum_voters_correct [OF v sample_iterates(1) this] obtain ids :: "32 word list"
    where "sorted_wrt (\<lambda>i j. sint i < sint j) ids" "length ids = length [''3@c3:93'', ''4@c4:93'']"
    by (elim exE conjE) (rule that, assumption, erule list_all2_lengthD)
  then show ?thesis using v by auto
qed

text \<open>With two controller listeners each controller is listed twice, and its address is that of the listener that Go's map
  happens to yield last.\<close>

lemma voters_two_listeners:
  "let sts = [(''a'', controller_statuses '':1''), (''b'', controller_statuses '':2'')] in
   generateQuorumVoters (sample_renv []) controller_cluster sts = Ret [''3@c3:2'', ''3@c3:2'', ''4@c4:2'', ''4@c4:2''] \<and>
   generateQuorumVoters ((sample_renv [])\<lparr>rRangeStatuses := rev\<rparr>) controller_cluster sts = Ret [''3@c3:1'', ''3@c3:1'', ''4@c4:1'', ''4@c4:1'']"
  by code_simp

text \<open>A cluster-wide read-only configuration that does not parse crashes the generation of every broker's configuration.\<close>

lemma unparsable_config_panics:
  assumes "NewFromString (specReadOnlyConfig (kcSpec c)) = Err e"
  shows "fst (generateBrokerConfig R c bc b i tr) = Panic"
proof (cases "getBrokerReadOnlyConfig b c")
  case (Ret ro)
  then have "ro = None" using assms by (auto simp: getBrokerReadOnlyConfig_def parsed_def deref_def split: option.splits)
  then show ?thesis using Ret
    by (cases "getConfigProperties R c bc b i tr" rule: prod.exhaust)
       (auto simp: generateBrokerConfig_def getConfigProperties_def configCCMetricsReporter_def mode_config_def configureBrokerKRaftMode_def deref_def Let_def
          split: go.splits if_splits)
qed (use assms in \<open>auto simp: generateBrokerConfig_def getBrokerReadOnlyConfig_def deref_def parsed_def Let_def split: option.splits\<close>)

text \<open>The comparison with the name of the controller listener: a listener that is shorter than the name makes it panic, and
  a listener whose name only starts with it is taken for the controller listener.\<close>

lemma controller_prefix:
  "controller_listener ''CONTROLLER'' [''A://:9092''] = Panic"
  "other_listeners ''CTL'' [''CTL://:9093'', ''CTLCLIENTS://:9092''] = Ret []"
  by (simp_all add: go_slice_def ToUpper_def upper_char_def)

end
