(* ===== verification/DynamicConfig.thy ===== *)
theory DynamicConfig
  imports BrokerPropsFacts
begin

text \<open>
  Updating the configuration of running brokers (\<open>pkg/resources/kafka/configs.go\<close>, \<open>pkg/kafkaclient/dynamicConfig.go\<close>, the
  conversions of \<open>pkg/util/util.go\<close>) and the rack of a broker (\<open>pkg/k8sutil/cr.go\<close>, \<open>pkg/k8sutil/zoneandregion.go\<close>).

  Several error paths of \<open>configs.go\<close> wrap an error variable that is nil at that point: a failed status update then ends the
  function without an error. The model returns \<open>Ret ()\<close> there.
\<close>

section \<open>Conversions (pkg/util/util.go)\<close>

definition ConvertPropertiesToMapStringPointer :: "Properties \<Rightarrow> (string, string option) gomap" where
  "ConvertPropertiesToMapStringPointer pp = fold (\<lambda>key result.
     (case Get pp key of None \<Rightarrow> result | Some p \<Rightarrow> AList.update key (Some (prop_value p)) result)) (Keys pp) []"

fun convert_entries :: "(string \<times> string) list \<Rightarrow> Properties \<Rightarrow> (err, Properties) go" where
  "convert_entries [] p = Ret p"
| "convert_entries ((name, v) # cs) p = (case Properties_Set name (StrVal v) p of
     Ret p' \<Rightarrow> convert_entries cs p' | Err e \<Rightarrow> Err (NewErr ''properties'') | Panic \<Rightarrow> Panic)"

definition ConvertConfigEntryListToProperties :: "(string \<times> string) list \<Rightarrow> (err, Properties) go" where
  "ConvertConfigEntryListToProperties config = convert_entries config NewProperties"

section \<open>Per-broker configuration (pkg/resources/kafka/configs.go)\<close>

definition shouldUpdatePerBrokerConfig :: "(string \<times> string) list \<Rightarrow> Properties option \<Rightarrow> bool" where
  "shouldUpdatePerBrokerConfig response brokerConfig = (case brokerConfig of None \<Rightarrow> False
   | Some p \<Rightarrow> list_ex (\<lambda>(name, v). case Get p name of None \<Rightarrow> False | Some x \<Rightarrow> prop_value x \<noteq> v) response)"

definition per_broker_state :: "KafkaCluster \<Rightarrow> string \<Rightarrow> string" where
  "per_broker_state c i = (case map_of (BrokersState c) i of None \<Rightarrow> [] | Some st \<Rightarrow> PerBrokerConfigurationState st)"

definition overwrite_from_map :: "Properties \<Rightarrow> Properties \<Rightarrow> Properties" where
  "overwrite_from_map configsFromConfigMap full = fold (\<lambda>key p.
     (case Get configsFromConfigMap key of None \<Rightarrow> p | Some x \<Rightarrow> Put x p)) PerBrokerConfigs full"

definition set_per_broker_state :: "renv \<Rightarrow> 32 word \<Rightarrow> KafkaCluster \<Rightarrow> string \<Rightarrow> ktrace \<Rightarrow> err option \<times> KafkaCluster \<times> ktrace" where
  "set_per_broker_state R brokerId c s tr =
     UpdateBrokerStatus (rK R) [Itoa (sint brokerId)] c (StPerBrokerConfigurationState s) tr"

text \<open>The two calls that change the broker, and the check that it took the change up.\<close>

definition alter_broker :: "renv \<Rightarrow> 32 word \<Rightarrow> Properties \<Rightarrow> KafkaCluster \<Rightarrow> ktrace \<Rightarrow> (err, unit) go \<times> KafkaCluster \<times> ktrace" where
  "alter_broker R brokerId full c tr =
     (let E = rK R; cfg = ConvertPropertiesToMapStringPointer full; ks = Keys full;
          tr1 = tr @ [KAlterBroker brokerId cfg True] in
      (case kAlterBroker E tr brokerId cfg True of
         Some e \<Rightarrow> (case set_per_broker_state R brokerId c PerBrokerConfigError tr1 of
             (_, c1, tr2) \<Rightarrow> (Err (WrapErr ''could not validate per-broker broker config'' e), c1, tr2))
       | None \<Rightarrow>
           let tr2 = tr1 @ [KAlterBroker brokerId cfg False] in
           (case kAlterBroker E tr1 brokerId cfg False of
              Some e \<Rightarrow> (Err (WrapErr ''could not alter broker config'' e), c, tr2)
            | None \<Rightarrow>
                let tr3 = tr2 @ [KDescribeBroker brokerId ks] in
                (case kDescribeBroker E tr2 brokerId ks of
                   Inl e \<Rightarrow> (Err (WrapErr ''could not describe broker config'' e), c, tr3)
                 | Inr response \<Rightarrow>
                     if shouldUpdatePerBrokerConfig response (Some full)
                     then (Err (typed PerBrokerConfigNotReady (NewErr ''configuration is out of sync'')), c, tr3)
                     else (case set_per_broker_state R brokerId c PerBrokerConfigInSync tr3 of (_, c1, tr4) \<Rightarrow> (Ret (), c1, tr4))))))"

definition sync_broker_config ::
  "renv \<Rightarrow> 32 word \<Rightarrow> string \<Rightarrow> Properties \<Rightarrow> KafkaCluster \<Rightarrow> ktrace \<Rightarrow> (err, unit) go \<times> KafkaCluster \<times> ktrace" where
  "sync_broker_config R brokerId state full c tr =
     (let tr1 = tr @ [KDescribeBroker brokerId (Keys full)] in
      (case kDescribeBroker (rK R) tr brokerId (Keys full) of
         Inl e \<Rightarrow> (Err (WrapErr ''could not describe broker config'' e), c, tr1)
       | Inr response \<Rightarrow>
           if shouldUpdatePerBrokerConfig response (Some full) then
             if state = PerBrokerConfigInSync then
               (case set_per_broker_state R brokerId c PerBrokerConfigOutOfSync tr1 of
                  (Some e, c1, tr2) \<Rightarrow> (Ret (), c1, tr2)
                | (None, c1, tr2) \<Rightarrow> alter_broker R brokerId full c1 tr2)
             else alter_broker R brokerId full c tr1
           else if state \<noteq> PerBrokerConfigInSync then
             (case set_per_broker_state R brokerId c PerBrokerConfigInSync tr1 of (_, c1, tr2) \<Rightarrow> (Ret (), c1, tr2))
           else (Ret (), c, tr1)))"

text \<open>The configuration map is nil when the cluster is rack aware and the rack of the broker is not known yet.\<close>

definition reconcilePerBrokerDynamicConfig ::
  "renv \<Rightarrow> 32 word \<Rightarrow> BrokerConfig \<Rightarrow> ConfigMap option \<Rightarrow> KafkaCluster \<Rightarrow> ktrace \<Rightarrow> (err, unit) go \<times> KafkaCluster \<times> ktrace" where
  "reconcilePerBrokerDynamicConfig R brokerId bConfig configMapPtr c tr =
     (case kKafkaClient (rK R) tr of
        Some e \<Rightarrow> (Err (typed BrokersUnreachable e), c, tr @ [KKafkaClient])
      | None \<Rightarrow>
          let tr1 = tr @ [KKafkaClient] in
          (case NewFromString (bcConfig bConfig) of
             Panic \<Rightarrow> (Panic, c, tr1)
           | Err e \<Rightarrow> (Err (NewErr ''could not parse broker configuration''), c, tr1)
           | Ret full \<Rightarrow>
               let state = per_broker_state c (Itoa (sint brokerId)) in
               if Len full = 0 \<and> state \<noteq> PerBrokerConfigOutOfSync then (Ret (), c, tr1)
               else (case configMapPtr of
                   None \<Rightarrow> (Panic, c, tr1)
                 | Some m \<Rightarrow>
                     (case NewFromString (lookup_str (cmData m) ConfigPropertyName) of
                        Panic \<Rightarrow> (Panic, c, tr1)
                      | Err e \<Rightarrow> (Err (NewErr ''could not parse broker configuration from configmap''), c, tr1)
                      | Ret fromMap \<Rightarrow> sync_broker_config R brokerId state (overwrite_from_map fromMap full) c tr1))))"

section \<open>Cluster-wide configuration\<close>

definition alter_cluster_wide :: "renv \<Rightarrow> Properties \<Rightarrow> ktrace \<Rightarrow> (err, unit) go \<times> ktrace" where
  "alter_cluster_wide R desired tr =
     (let E = rK R; cfg = ConvertPropertiesToMapStringPointer desired; tr1 = tr @ [KAlterClusterWide cfg True] in
      (case kAlterClusterWide E tr cfg True of
         Some e \<Rightarrow> (Err (WrapErr ''validation of cluster wide config update failed'' e), tr1)
       | None \<Rightarrow> (case kAlterClusterWide E tr1 cfg False of
           Some e \<Rightarrow> (Err (WrapErr ''could not alter cluster wide broker config'' e), tr1 @ [KAlterClusterWide cfg False])
         | None \<Rightarrow> (Ret (), tr1 @ [KAlterClusterWide cfg False]))))"

definition reconcileClusterWideDynamicConfig :: "renv \<Rightarrow> KafkaCluster \<Rightarrow> ktrace \<Rightarrow> (err, unit) go \<times> ktrace" where
  "reconcileClusterWideDynamicConfig R c tr =
     (case kKafkaClient (rK R) tr of
        Some e \<Rightarrow> (Err (typed BrokersUnreachable e), tr @ [KKafkaClient])
      | None \<Rightarrow>
          let tr1 = tr @ [KKafkaClient]; tr2 = tr1 @ [KDescribeClusterWide] in
          (case kDescribeClusterWide (rK R) tr1 of
             Inl e \<Rightarrow> (Err (WrapErr ''could not describe cluster wide broker config'' e), tr2)
           | Inr currentConfig \<Rightarrow>
               (case ConvertConfigEntryListToProperties currentConfig of
                  Panic \<Rightarrow> (Panic, tr2)
                | Err e \<Rightarrow> (Err (WrapErr ''could not convert current cluster-wide config to properties'' e), tr2)
                | Ret current \<Rightarrow>
                    (case NewFromString (ClusterWideConfig (kcSpec c)) of
                       Panic \<Rightarrow> (Panic, tr2)
                     | Err e \<Rightarrow> (Err (NewErr ''could not parse cluster-wide broker config''), tr2)
                     | Ret desired \<Rightarrow>
                         if \<not> Properties_Equal current (Some desired) then alter_cluster_wide R desired tr2 else (Ret (), tr2)))))"

section \<open>The client (pkg/kafkaclient/dynamicConfig.go)\<close>

text \<open>A connection to a broker through the client library: opening it, and the answers to the two requests. An answer carries, for
  each resource, an error message and the entries.\<close>

record broker_conn =
  bOpen :: "err option"
  bAlterConfigs :: "bool \<Rightarrow> (string, string option) gomap \<Rightarrow> err + string list"
  bDescribeConfigs :: "string list \<Rightarrow> err + (string \<times> (string \<times> string) list) list"

type_synonym kafka_conns = "(32 word \<times> broker_conn) list"

definition GetBroker :: "kafka_conns \<Rightarrow> 32 word \<Rightarrow> broker_conn option" where
  "GetBroker brokers brokerId = fold (\<lambda>(i, x) broker. if i = brokerId then Some x else broker) brokers None"

definition AlterPerBrokerConfig :: "kafka_conns \<Rightarrow> 32 word \<Rightarrow> (string, string option) gomap \<Rightarrow> bool \<Rightarrow> err option" where
  "AlterPerBrokerConfig k brokerId configChange validateOnly =
     (case GetBroker k brokerId of
        None \<Rightarrow> Some (typed BrokersNotReady (NewErr ''brokerNotReady''))
      | Some b \<Rightarrow> (case bOpen b of
          Some e \<Rightarrow> Some (WrapErr ''could not open connection to broker'' e)
        | None \<Rightarrow> (case bAlterConfigs b validateOnly configChange of Inl e \<Rightarrow> Some e | Inr answers \<Rightarrow> None)))"

definition DescribePerBrokerConfig :: "kafka_conns \<Rightarrow> 32 word \<Rightarrow> string list \<Rightarrow> (err, (string \<times> string) list) go" where
  "DescribePerBrokerConfig k brokerId config =
     (case GetBroker k brokerId of
        None \<Rightarrow> Err (typed BrokersNotReady (NewErr ''brokerNotReady''))
      | Some b \<Rightarrow> (case bOpen b of
          Some e \<Rightarrow> Err (WrapErr ''could not open connection to broker'' e)
        | None \<Rightarrow> (case bDescribeConfigs b config of
            Inl e \<Rightarrow> Err e
          | Inr resources \<Rightarrow> go_bind (go_nth resources 0) (\<lambda>r. Ret (snd r)))))"

section \<open>Racks (pkg/k8sutil/cr.go)\<close>

definition rack_labels :: "Node \<Rightarrow> string list \<Rightarrow> (string, string) gomap" where
  "rack_labels node filter_labels = fold (\<lambda>label m. case map_of (nodeLabels node) label of None \<Rightarrow> m | Some v \<Rightarrow> AList.update label v m) filter_labels []"

definition getSpecificNodeLabels :: "renv \<Rightarrow> string \<Rightarrow> string list \<Rightarrow> ktrace \<Rightarrow> (err + (string, string) gomap) \<times> ktrace" where
  "getSpecificNodeLabels R nodeName filter_labels tr = (case rGetNode R tr nodeName of
     Inl e \<Rightarrow> (Inl e, tr @ [KGetNode nodeName])
   | Inr node \<Rightarrow> (Inr (rack_labels node filter_labels), tr @ [KGetNode nodeName]))"

definition RackConfigured :: string where
  "RackConfigured = ''Configured''"

definition rack_state :: "KafkaCluster \<Rightarrow> string \<Rightarrow> string" where
  "rack_state c i = (case map_of (BrokersState c) i of None \<Rightarrow> [] | Some st \<Rightarrow> RackAwarenessState st)"

text \<open>The read-only configuration of the broker of the pod, and the new state. \<open>readOnlyConfig\<close> is a variable of the whole function:
  when no branch assigns it, the broker gets the value that it had before, which is empty at first.\<close>

definition rack_step :: "KafkaCluster \<Rightarrow> string \<Rightarrow> string list \<Rightarrow> Broker \<Rightarrow> string \<times> string \<Rightarrow> Broker \<times> string \<times> string" where
  "rack_step c brokerID values b st = (case st of (readOnlyConfig, state) \<Rightarrow>
     if Itoa (sint (BrokerId b)) = brokerID then
       let fresh = ''broker.rack='' @ join '','' values @ [CHR 0x0A];
           old = rack_state c brokerID;
           (ro, state') =
             (if old \<noteq> [] \<and> old \<noteq> RackConfigured then
                (if \<not> sublist ''broker.rack='' (ReadOnlyConfig b) then ReadOnlyConfig b @ old else ReadOnlyConfig b, old)
              else if ReadOnlyConfig b = [] then (fresh, fresh)
              else if \<not> sublist ''broker.rack='' (ReadOnlyConfig b) then (ReadOnlyConfig b @ fresh, fresh)
              else (readOnlyConfig, fresh))
       in (b\<lparr>ReadOnlyConfig := ro\<rparr>, ro, state')
     else (b, readOnlyConfig, state))"

fun rack_brokers :: "KafkaCluster \<Rightarrow> string \<Rightarrow> string list \<Rightarrow> Broker list \<Rightarrow> string \<times> string \<Rightarrow> string \<times> Broker list" where
  "rack_brokers c brokerID values [] st = (snd st, [])"
| "rack_brokers c brokerID values (b # bs) st =
     (case rack_step c brokerID values b st of (b', st') \<Rightarrow>
        (case rack_brokers c brokerID values bs st' of (state, bs') \<Rightarrow> (state, b' # bs')))"

definition rackAwarenessLabelsToReadonlyConfig :: "Pod \<Rightarrow> KafkaCluster \<Rightarrow> string list \<Rightarrow> string \<times> Broker list" where
  "rackAwarenessLabelsToReadonlyConfig pod c values =
     rack_brokers c (lookup_str (podLabels pod) BrokerIdLabelKey) values (Brokers (kcSpec c)) ([], [])"

definition UpdateCrWithRackAwarenessConfig ::
  "renv \<Rightarrow> Pod \<Rightarrow> string list \<Rightarrow> KafkaCluster \<Rightarrow> ktrace \<Rightarrow> (string \<times> err option) \<times> KafkaCluster \<times> ktrace" where
  "UpdateCrWithRackAwarenessConfig R pod labels c tr =
     (case getSpecificNodeLabels R (psNodeName (podSpec pod)) labels tr of
        (Inl e, tr1) \<Rightarrow> (([], Some (typed StatusUpdateError e)), c, tr1)
      | (Inr m, tr1) \<Rightarrow>
          let values = sort (map snd (rRangeStrings R m)) in
          (case rackAwarenessLabelsToReadonlyConfig pod c values of (state, bs) \<Rightarrow>
             (case kcall (kUpdate (rK R)) KUpdate (c\<lparr>kcSpec := (kcSpec c)\<lparr>Brokers := bs\<rparr>\<rparr>) tr1 of
                (e, c1, tr2) \<Rightarrow> ((state, e), c1, tr2))))"

section \<open>Lemmas\<close>

definition alters :: "kevent \<Rightarrow> bool" where
  "alters e \<longleftrightarrow> (\<exists>i cfg v. e = KAlterBroker i cfg v)"

lemma status_keeps_config:
  assumes "set_per_broker_state R i c s tr = (r, c', tr')"
  shows "\<exists>d. tr' = tr @ d \<and> (\<forall>e \<in> set d. \<not> alters e)"
proof -
  obtain d where d: "tr' = tr @ d" "\<forall>e \<in> set d. written e = None \<longrightarrow> (\<exists>n ns. e = KGetCluster n ns)"
    using write_status_events [OF assms [unfolded set_per_broker_state_def UpdateBrokerStatus_def]] by blast
  moreover have "\<not> alters e" if "e \<in> set d" for e
    using d(2) that by (cases e) (auto simp: alters_def)
  ultimately show ?thesis by blast
qed

lemma alter_broker_events:
  assumes "alter_broker R i full c tr = (r, c', tr')"
  defines "cfg \<equiv> ConvertPropertiesToMapStringPointer full"
  shows "\<exists>post. (\<forall>e \<in> set post. \<not> alters e) \<and>
    (tr' = tr @ KAlterBroker i cfg True # post \<or>
     kAlterBroker (rK R) tr i cfg True = None \<and> tr' = tr @ KAlterBroker i cfg True # KAlterBroker i cfg False # post)"
proof (cases "kAlterBroker (rK R) tr i cfg True")
  case (Some e)
  obtain r1 c1 tr1 where s: "set_per_broker_state R i c PerBrokerConfigError (tr @ [KAlterBroker i cfg True]) = (r1, c1, tr1)" by (rule prod_cases3)
  then have "tr' = tr1" using assms(1) Some by (simp add: alter_broker_def cfg_def Let_def)
  then show ?thesis using status_keeps_config [OF s] by auto
next
  case None
  let ?t = "tr @ [KAlterBroker i cfg True, KAlterBroker i cfg False]" and ?d = "KDescribeBroker i (Keys full)"
  obtain r1 c1 tr1 where s: "set_per_broker_state R i c PerBrokerConfigInSync (?t @ [?d]) = (r1, c1, tr1)" by (rule prod_cases3)
  then have "tr' = ?t \<or> tr' = ?t @ [?d] \<or> tr' = tr1"
    using assms(1) None by (auto simp: alter_broker_def cfg_def Let_def split: option.splits sum.splits if_splits)
  moreover have "\<not> alters ?d" by (simp add: alters_def)
  moreover obtain d where "tr1 = (?t @ [?d]) @ d" "\<forall>e \<in> set d. \<not> alters e" using status_keeps_config [OF s] by blast
  ultimately have "tr' = ?t @ [] \<or> tr' = ?t @ [?d] \<or> tr' = ?t @ (?d # d)" "\<forall>e \<in> set (?d # d). \<not> alters e" by auto
  then have "\<exists>post. (\<forall>e \<in> set post. \<not> alters e) \<and> tr' = ?t @ post"
    by (elim disjE) (auto intro!: exI [of _ "[]"] exI [of _ "[?d]"] exI [of _ "?d # d"])
  then show ?thesis using None by auto
qed

lemma sync_events:
  assumes "sync_broker_config R i st full c tr = (r, c', tr')"
  shows "\<exists>d. (\<forall>e \<in> set d. \<not> alters e) \<and> (tr' = tr @ d \<or> (\<exists>c1. alter_broker R i full c1 (tr @ d) = (r, c', tr')))"
proof -
  let ?d = "KDescribeBroker i (Keys full)"
  have nd: "\<not> alters ?d" by (simp add: alters_def)
  obtain r1 c1 tr1 where s1: "set_per_broker_state R i c PerBrokerConfigOutOfSync (tr @ [?d]) = (r1, c1, tr1)" by (rule prod_cases3)
  obtain r2 c2 tr2 where s2: "set_per_broker_state R i c PerBrokerConfigInSync (tr @ [?d]) = (r2, c2, tr2)" by (rule prod_cases3)
  have "tr' = tr @ [?d] \<or> tr' = tr1 \<or> tr' = tr2 \<or> alter_broker R i full c1 tr1 = (r, c', tr') \<or> alter_broker R i full c (tr @ [?d]) = (r, c', tr')"
    using assms s1 s2 by (auto simp: sync_broker_config_def Let_def split: sum.splits if_splits option.splits)
  then show ?thesis using nd status_keeps_config [OF s1] status_keeps_config [OF s2]
    by (elim disjE exE conjE) (fastforce intro: exI [of _ "[?d]"] exI [of _ "?d # _"])+
qed

lemma reconcile_events:
  assumes "reconcilePerBrokerDynamicConfig R i bc m c tr = (r, c', tr')"
  shows "tr' = tr @ [KKafkaClient] \<or> (\<exists>st full. sync_broker_config R i st full c (tr @ [KKafkaClient]) = (r, c', tr'))"
  using assms by (auto simp: reconcilePerBrokerDynamicConfig_def Let_def split: option.splits go.splits if_splits)

lemma overwrite_lookup:
  assumes "props_inv fm"
  shows "Get (overwrite_from_map fm full) k = (if k \<in> set PerBrokerConfigs \<and> Get fm k \<noteq> None then Get fm k else Get full k)"
proof -
  have "Get (fold (\<lambda>key p. case Get fm key of None \<Rightarrow> p | Some x \<Rightarrow> Put x p) ks p) k = (if k \<in> set ks \<and> Get fm k \<noteq> None then Get fm k else Get p k)" for ks p
  proof (induction ks arbitrary: p)
    case (Cons key ks)
    show ?case
    proof (cases "Get fm key")
      case (Some x)
      then have "prop_key x = key" using inv_prop_key [OF assms] by blast
      then show ?thesis using Cons Some by (simp add: Put_def Get_put)
    qed (use Cons in auto)
  qed simp
  then show ?thesis by (simp add: overwrite_from_map_def)
qed

lemma accepted_state:
  "accepting R \<Longrightarrow> set_per_broker_state R i c s tr =
     (None, generateBrokerState [Itoa (sint i)] (StPerBrokerConfigurationState s) c,
      tr @ [KStatusUpdate (generateBrokerState [Itoa (sint i)] (StPerBrokerConfigurationState s) c)])"
  by (simp add: set_per_broker_state_def UpdateBrokerStatus_def accepting_status)

lemma per_broker_state_set: "per_broker_state (generateBrokerState [i] (StPerBrokerConfigurationState s) c) i = s"
  by (simp add: per_broker_state_def generateBrokerState_def set_broker_state_lookup set_status_value_def)

definition agrees :: "(string \<times> string) list \<Rightarrow> Properties \<Rightarrow> bool" where
  "agrees response full \<longleftrightarrow> (\<forall>(name, v) \<in> set response. \<forall>x. Get full name = Some x \<longrightarrow> prop_value x = v)"

lemma agrees_iff: "\<not> shouldUpdatePerBrokerConfig response (Some full) \<longleftrightarrow> agrees response full"
  by (auto simp: shouldUpdatePerBrokerConfig_def agrees_def list_ex_iff split: option.splits)

definition in_sync :: "renv \<Rightarrow> 32 word \<Rightarrow> Properties \<Rightarrow> KafkaCluster \<Rightarrow> ktrace \<Rightarrow> bool" where
  "in_sync R i full c' tr' \<longleftrightarrow> per_broker_state c' (Itoa (sint i)) = PerBrokerConfigInSync \<and>
     (\<exists>t response. prefix t tr' \<and> kDescribeBroker (rK R) t i (Keys full) = Inr response \<and> agrees response full)"

lemma alter_broker_in_sync:
  assumes "accepting R" "alter_broker R i full c tr = (Ret (), c', tr')"
  shows "in_sync R i full c' tr'"
proof -
  let ?cfg = "ConvertPropertiesToMapStringPointer full"
  let ?t = "tr @ [KAlterBroker i ?cfg True, KAlterBroker i ?cfg False]"
  obtain response where "kDescribeBroker (rK R) ?t i (Keys full) = Inr response" "agrees response full"
    and "c' = generateBrokerState [Itoa (sint i)] (StPerBrokerConfigurationState PerBrokerConfigInSync) c" "prefix ?t tr'"
    using assms(2) agrees_iff
    by (auto simp: alter_broker_def Let_def accepted_state [OF assms(1)] prefix_def split: option.splits sum.splits if_splits)
  then show ?thesis unfolding in_sync_def by (auto simp: per_broker_state_set)
qed

lemma sync_in_sync:
  assumes "accepting R" "sync_broker_config R i st full c tr = (Ret (), c', tr')" "st = per_broker_state c (Itoa (sint i))"
  shows "in_sync R i full c' tr'"
proof (cases "kDescribeBroker (rK R) tr i (Keys full)")
  case (Inr response)
  show ?thesis
  proof (cases "agrees response full")
    case True
    then have "per_broker_state c' (Itoa (sint i)) = PerBrokerConfigInSync" "prefix tr tr'"
      using assms Inr agrees_iff [of response full]
      by (auto simp: sync_broker_config_def Let_def accepted_state [OF assms(1)] per_broker_state_set prefix_def split: if_splits)
    then show ?thesis using Inr True by (auto simp: in_sync_def)
  next
    case False
    then show ?thesis using assms Inr agrees_iff [of response full] alter_broker_in_sync [OF assms(1)]
      by (auto simp: sync_broker_config_def Let_def accepted_state [OF assms(1)] split: if_splits)
  qed
qed (use assms in \<open>simp add: sync_broker_config_def Let_def\<close>)

lemma split_once:
  assumes "xs @ x # ys = us @ v # ws" "P x" "\<forall>e \<in> set us. \<not> P e" "\<forall>e \<in> set ws. \<not> P e"
  shows "xs = us \<and> x = v \<and> ys = ws"
proof -
  have "x \<in> set (us @ v # ws)" using assms(1) by (metis in_set_conv_decomp)
  then have "x = v" using assms(2-4) by auto
  moreover have "x \<notin> set us" "x \<notin> set ws" using assms(2-4) by auto
  ultimately show ?thesis using assms(1) append_Cons_eq_iff [of v us ws xs ys] by metis
qed

section \<open>Properties\<close>

text \<open>(C12) A broker is changed only by a configuration that it has just validated: the change of a broker directly follows the
  successful validation of the same configuration by the same broker, and there is one at most.\<close>

theorem per_broker_config_validated:
  assumes "reconcilePerBrokerDynamicConfig R i bc m c tr = (r, c', tr @ pre @ KAlterBroker j cfg False # post)"
  shows "j = i \<and> (\<exists>before. pre = before @ [KAlterBroker i cfg True] \<and> kAlterBroker (rK R) (tr @ before) i cfg True = None \<and>
    (\<forall>e \<in> set (before @ post). \<not> alters e))"
proof -
  let ?A = "KAlterBroker j cfg False" and ?k = "tr @ [KKafkaClient]"
  have A: "alters ?A" unfolding alters_def by blast
  have nk: "\<not> alters KKafkaClient" by (simp add: alters_def)
  have "tr @ pre @ ?A # post \<noteq> tr @ [KKafkaClient]"
  proof
    assume "tr @ pre @ ?A # post = tr @ [KKafkaClient]"
    then have "?A \<in> set [KKafkaClient]" by (metis same_append_eq in_set_conv_decomp)
    then show False by simp
  qed
  then obtain st full where s: "sync_broker_config R i st full c ?k = (r, c', tr @ pre @ ?A # post)"
    using reconcile_events [OF assms] by blast
  obtain d where d: "\<forall>e \<in> set d. \<not> alters e"
    and split: "tr @ pre @ ?A # post = ?k @ d \<or> (\<exists>c1. alter_broker R i full c1 (?k @ d) = (r, c', tr @ pre @ ?A # post))"
    using sync_events [OF s] by blast
  have "tr @ pre @ ?A # post \<noteq> ?k @ d"
  proof
    assume "tr @ pre @ ?A # post = ?k @ d"
    then have "pre @ ?A # post = KKafkaClient # d" by simp
    then have "?A \<in> set (KKafkaClient # d)" by (metis in_set_conv_decomp)
    then show False using A nk d by auto
  qed
  then obtain c1 where a: "alter_broker R i full c1 (?k @ d) = (r, c', tr @ pre @ ?A # post)" using split by blast
  let ?cfg = "ConvertPropertiesToMapStringPointer full" and ?d = "KKafkaClient # d"
  obtain post' where p: "\<forall>e \<in> set post'. \<not> alters e"
    and eq: "pre @ ?A # post = ?d @ KAlterBroker i ?cfg True # post' \<or>
      kAlterBroker (rK R) (?k @ d) i ?cfg True = None \<and> pre @ ?A # post = (?d @ [KAlterBroker i ?cfg True]) @ KAlterBroker i ?cfg False # post'"
    using alter_broker_events [OF a] by auto
  have nd: "\<forall>e \<in> set ?d. \<not> alters e" using d nk by auto
  have "pre @ ?A # post \<noteq> ?d @ KAlterBroker i ?cfg True # post'"
    using split_once [of pre ?A post ?d "KAlterBroker i ?cfg True" post' alters] A nd p by auto
  then have val: "kAlterBroker (rK R) (?k @ d) i ?cfg True = None" and run: "pre @ ?A # post = (?d @ [KAlterBroker i ?cfg True]) @ KAlterBroker i ?cfg False # post'"
    using eq by auto
  have "pre = ?d @ [KAlterBroker i ?cfg True] \<and> ?A = KAlterBroker i ?cfg False \<and> post = post'"
    by (rule split_once [OF run, where P = "\<lambda>e. \<exists>i cfg. e = KAlterBroker i cfg False"]) (use nd p in \<open>auto simp: alters_def\<close>)
  then show ?thesis using val nd p by (intro conjI exI [of _ ?d]) auto
qed


section \<open>Examples and witnesses\<close>

text \<open>A broker that runs with nine threads until it is changed, and whose configuration asks for eight.\<close>

definition sample_dynamic :: renv where
  "sample_dynamic = (let R = sample_renv [] in R\<lparr>rK := (rK R)\<lparr>kDescribeBroker := (\<lambda>tr i ks.
     Inr [(''num.io.threads'', if list_ex (\<lambda>e. case e of KAlterBroker _ _ v \<Rightarrow> \<not> v | _ \<Rightarrow> False) tr then ''8'' else ''9'')])\<rparr>\<rparr>)"

definition sample_dynamic_config :: BrokerConfig where
  "sample_dynamic_config = zero_BrokerConfig\<lparr>bcConfig := eight\<rparr>"

definition sample_threads :: Properties where
  "sample_threads = put (entry ''num.io.threads'' ''8'') NewProperties"

definition sample_alter :: "bool \<Rightarrow> kevent" where
  "sample_alter v = KAlterBroker 0 (ConvertPropertiesToMapStringPointer sample_threads) v"

lemma Itoa_zero: "Itoa 0 = ''0''"
  by code_simp

lemma sample_dynamic_accepting: "accepting sample_dynamic"
  by (simp add: accepting_def sample_dynamic_def sample_renv_def Let_def)

lemma sample_dynamic_run:
  "reconcilePerBrokerDynamicConfig sample_dynamic 0 sample_dynamic_config (Some (sample_config_map nine)) kafka_cluster [] =
     sync_broker_config sample_dynamic 0 (per_broker_state kafka_cluster ''0'') sample_threads kafka_cluster [KKafkaClient]"
proof -
  have "overwrite_from_map (put (entry ''num.io.threads'' ''9'') NewProperties) sample_threads = sample_threads"
    "Len sample_threads \<noteq> 0" by code_simp+
  then show ?thesis
    by (simp add: reconcilePerBrokerDynamicConfig_def sample_dynamic_config_def sample_config_map_def lookup_str_def threads_parsed
        sample_threads_def [symmetric] sample_dynamic_def sample_renv_def sample_kenv_def Let_def Itoa_zero)
qed

lemma sample_dynamic_events:
  "\<exists>c'. reconcilePerBrokerDynamicConfig sample_dynamic 0 sample_dynamic_config (Some (sample_config_map nine)) kafka_cluster [] =
     (Ret (), c', [] @ [KKafkaClient, KDescribeBroker 0 (Keys sample_threads), sample_alter True] @
        sample_alter False # [KDescribeBroker 0 (Keys sample_threads), KStatusUpdate c'])"
proof -
  let ?s = "sync_broker_config sample_dynamic 0 (per_broker_state kafka_cluster ''0'') sample_threads kafka_cluster [KKafkaClient]"
  have "fst ?s = Ret ()" "snd (snd ?s) = [KKafkaClient, KDescribeBroker 0 (Keys sample_threads), sample_alter True, sample_alter False,
    KDescribeBroker 0 (Keys sample_threads), KStatusUpdate (fst (snd ?s))]" by code_simp+
  then show ?thesis unfolding sample_dynamic_run by (cases ?s) auto
qed

theorem per_broker_config_validated_witness:
  "\<exists>r c' pre post. reconcilePerBrokerDynamicConfig sample_dynamic 0 sample_dynamic_config (Some (sample_config_map nine)) kafka_cluster [] =
     (r, c', [] @ pre @ sample_alter False # post) \<and> last pre = sample_alter True"
proof -
  from sample_dynamic_events obtain c' where
    e: "reconcilePerBrokerDynamicConfig sample_dynamic 0 sample_dynamic_config (Some (sample_config_map nine)) kafka_cluster [] =
     (Ret (), c', [] @ [KKafkaClient, KDescribeBroker 0 (Keys sample_threads), sample_alter True] @
        sample_alter False # [KDescribeBroker 0 (Keys sample_threads), KStatusUpdate c'])" by (rule exE)
  note v = per_broker_config_validated [OF e [unfolded sample_alter_def [of False]]]
  then show ?thesis using e unfolding sample_alter_def by (elim conjE exE) (intro exI conjI, assumption, simp)
qed


section \<open>What else the code does\<close>

text \<open>A status update that fails is not reported: the function ends before the broker is changed, without an error.\<close>

definition refusing :: renv where
  "refusing = sample_dynamic\<lparr>rK := (rK sample_dynamic)\<lparr>kStatusUpdate := (\<lambda>tr c. Inl (NewErr ''forbidden''))\<rparr>\<rparr>"

lemma status_failure_unreported:
  "case sync_broker_config refusing 0 PerBrokerConfigInSync sample_threads kafka_cluster [] of (r, c, tr) \<Rightarrow>
     r = Ret () \<and> sample_alter False \<notin> set tr"
  by code_simp

text \<open>The error message of a resource in the answer to a change is not looked at.\<close>

lemma alter_answer_ignored:
  "AlterPerBrokerConfig [(1, \<lparr>bOpen = None, bAlterConfigs = \<lambda>v cfg. Inr [''invalid value''], bDescribeConfigs = \<lambda>ks. Inr []\<rparr>)] 1 [] True = None"
  by code_simp

text \<open>A broker with a configuration of its own whose configuration map has not been generated makes the operator panic.\<close>

lemma missing_map_panics:
  "fst (reconcilePerBrokerDynamicConfig sample_dynamic 0 sample_dynamic_config None kafka_cluster []) = Panic"
proof -
  have "Len (put (entry ''num.io.threads'' ''8'') NewProperties) \<noteq> 0" by code_simp
  then show ?thesis
    by (simp add: reconcilePerBrokerDynamicConfig_def sample_dynamic_config_def threads_parsed sample_dynamic_def sample_renv_def sample_kenv_def Let_def)
qed

text \<open>The rack is appended to the read-only configuration as it is: a last line without a newline is merged with it.\<close>

definition rack_cluster :: "string \<Rightarrow> KafkaCluster" where
  "rack_cluster ro = kafka_cluster\<lparr>BrokersState := [], kcSpec := (kcSpec kafka_cluster)\<lparr>Brokers := [(hd sample_brokers)\<lparr>BrokerId := 0, ReadOnlyConfig := ro\<rparr>]\<rparr>\<rparr>"

definition rack_result :: "string \<Rightarrow> string" where
  "rack_result ro = ReadOnlyConfig (fst (rack_step (rack_cluster ro) ''0'' [''zone-a''] ((hd sample_brokers)\<lparr>BrokerId := 0, ReadOnlyConfig := ro\<rparr>) ([], [])))"

lemma rack_glued: "rack_result ''auto.create.topics.enable=false'' = ''auto.create.topics.enable=falsebroker.rack=zone-a'' @ [CHR 0x0A]"
  by code_simp

text \<open>A read-only configuration that names a rack already is erased while no rack is recorded in the status.\<close>

lemma rack_erases_config: "rack_result (''broker.rack=zone-b'' @ [CHR 0x0A] @ ''num.io.threads=4'') = []"
  by code_simp

end
