(* ===== verification/ListenerStatus.thy ===== *)
theory ListenerStatus
  imports DynamicConfig
begin

text \<open>
  The addresses of the listeners that the operator publishes in the status of the cluster and writes into the broker
  configurations: \<open>CreateInternalListenerStatuses\<close> and \<open>UpdateListenerStatuses\<close> of \<open>pkg/k8sutil/status.go\<close>,
  \<open>createExternalListenerStatuses\<close> and what it calls in \<open>pkg/resources/kafka/kafka.go\<close>, and
  \<open>GetIngressConfigs\<close> of \<open>pkg/util/util.go\<close>.

  \<open>GetIngressConfigs\<close> merges the cluster-wide ingress configuration into the one of the listener through a pointer:
  it changes the specification that it was given, and the model returns the changed listener. The list of statuses is ordered
  by a sort that is stable for the short lists at hand.
\<close>

section \<open>Ingress configurations (pkg/util/util.go)\<close>

definition merge_controller_config :: "mergo \<Rightarrow> KafkaClusterSpec \<Rightarrow> IngressConfig \<Rightarrow> err + IngressConfig option" where
  "merge_controller_config M spec ic =
     (if GetIngressController spec = ''envoy'' then
        (case icEnvoyConfig ic of None \<Rightarrow> Inr None
         | Some e \<Rightarrow> (case Merge_EnvoyConfig M e (specEnvoyConfig spec) of
             Inl x \<Rightarrow> Inl (WrapErr ''could not merge global envoy config with local one'' x)
           | Inr e' \<Rightarrow> Inr (Some (ic\<lparr>icEnvoyConfig := Some e'\<rparr>))))
      else if GetIngressController spec = ''istioingress'' then
        (case icIstioIngressConfig ic of None \<Rightarrow> Inr None
         | Some e \<Rightarrow> (case Merge_IstioIngressConfig M e (IstioIngressConfig spec) of
             Inl x \<Rightarrow> Inl (WrapErr ''could not merge global istio config with local one'' x)
           | Inr e' \<Rightarrow> Inr (Some (ic\<lparr>icIstioIngressConfig := Some e'\<rparr>))))
      else
        (case icContourIngressConfig ic of None \<Rightarrow> Inr None
         | Some e \<Rightarrow> (case Merge_ContourIngressConfig M e (specContourIngressConfig spec) of
             Inl x \<Rightarrow> Inl (WrapErr ''could not merge global envoy config with local one'' x)
           | Inr e' \<Rightarrow> Inr (Some (ic\<lparr>icContourIngressConfig := Some e'\<rparr>)))))"

text \<open>The loop over the ingress configurations of a listener. \<open>res\<close> is the map that is returned, \<open>own\<close> the one in the specification.\<close>

fun merge_ingress ::
  "mergo \<Rightarrow> KafkaClusterSpec \<Rightarrow> IngressServiceSettings \<Rightarrow> (string, IngressConfig) gomap \<Rightarrow>
     (string, IngressConfig) gomap \<times> (string, IngressConfig) gomap \<Rightarrow>
     err option \<times> (string, IngressConfig) gomap \<times> (string, IngressConfig) gomap" where
  "merge_ingress M spec settings [] (res, own) = (None, res, own)"
| "merge_ingress M spec settings ((k, ic) # ics) (res, own) =
     (case merge_controller_config M spec ic of
        Inl e \<Rightarrow> (Some e, res, own)
      | Inr None \<Rightarrow> merge_ingress M spec settings ics (res, own)
      | Inr (Some ic') \<Rightarrow>
          let own' = AList.update k ic' own in
          (case Merge_IngressServiceSettings M (icSettings ic') settings of
             Inl e \<Rightarrow> (Some (WrapErr ''could not merge global loadbalancer config with local one'' e), res, own')
           | Inr s \<Rightarrow> merge_ingress M spec settings ics (AList.update k (ic'\<lparr>icSettings := s\<rparr>) res, own')))"

definition global_ingress :: "KafkaClusterSpec \<Rightarrow> ExternalListenerConfig \<Rightarrow> IngressConfig" where
  "global_ingress spec l =
     \<lparr>icSettings = elSettings l,
      icIstioIngressConfig = (if GetIngressController spec = ''istioingress'' then Some (IstioIngressConfig spec) else None),
      icEnvoyConfig = (if GetIngressController spec = ''envoy'' then Some (specEnvoyConfig spec) else None),
      icContourIngressConfig = (if GetIngressController spec = ''contour'' then Some (specContourIngressConfig spec) else None)\<rparr>"

definition GetIngressConfigs ::
  "renv \<Rightarrow> KafkaClusterSpec \<Rightarrow> ExternalListenerConfig \<Rightarrow> (err + (string, IngressConfig) gomap \<times> string) \<times> ExternalListenerConfig" where
  "GetIngressConfigs R spec l =
     (if GetIngressController spec \<in> {''envoy'', ''istioingress'', ''contour''} then
        (case elConfig l of
           None \<Rightarrow> (Inr ([(IngressConfigGlobalName, global_ingress spec l)], []), l)
         | Some cfg \<Rightarrow>
             (case merge_ingress (rM R) spec (elSettings l) (rRangeIngress R (IngressConfigs cfg)) ([], IngressConfigs cfg) of
                (e, res, own) \<Rightarrow>
                  (case e of Some x \<Rightarrow> Inl x | None \<Rightarrow> Inr (res, DefaultIngressConfig cfg), l\<lparr>elConfig := Some (cfg\<lparr>IngressConfigs := own\<rparr>)\<rparr>)))
      else (Inl (NewErr ''not supported ingress type''), l))"

section \<open>Reading services, pods and nodes (pkg/resources/kafka/kafka.go)\<close>

text \<open>Sequential composition of calls: an error and a panic end the sequence.\<close>

fun io_bind :: "(err, 'a) go \<times> ktrace \<Rightarrow> ('a \<Rightarrow> ktrace \<Rightarrow> (err, 'b) go \<times> ktrace) \<Rightarrow> (err, 'b) go \<times> ktrace" where
  "io_bind (Ret x, tr) f = f x tr"
| "io_bind (Err e, tr) f = (Err e, tr)"
| "io_bind (Panic, tr) f = (Panic, tr)"

definition get_service :: "renv \<Rightarrow> string \<Rightarrow> ktrace \<Rightarrow> (err, Service) go \<times> ktrace" where
  "get_service R name tr =
     ((case rGetObject R tr KindService name of Inr (ServiceObj s) \<Rightarrow> Ret s | Inl e \<Rightarrow> Err e | _ \<Rightarrow> Err (NewErr ''unexpected kind'')),
      tr @ [KGetObject KindService name])"

definition getLoadBalancerIP :: "Service \<Rightarrow> (err, string) go" where
  "getLoadBalancerIP foundLBService =
     (case svcIngress foundLBService of
        [] \<Rightarrow> Err (typed ResourceNotReady (NewErr ''loadbalancer ingress is not created waiting''))
      | (hostname, ip) # _ \<Rightarrow>
          if hostname = [] \<and> ip = [] then Err (typed LoadBalancerIPNotReady (NewErr ''loadbalancer hostname and IP has not been created yet - waiting''))
          else if hostname = [] then Ret ip else Ret hostname)"

definition ingress_service_prefix :: "KafkaCluster \<Rightarrow> bool \<Rightarrow> string option" where
  "ingress_service_prefix c global =
     (if GetIngressController (kcSpec c) = ''istioingress'' then Some ''meshgateway-''
      else if GetIngressController (kcSpec c) = ''envoy'' then Some ''envoy-loadbalancer-''
      else if GetIngressController (kcSpec c) = ''contour'' then Some (if global then ''contour-svc-'' else ''countour-svc-'')
      else None)"

definition iControllerServiceName :: "KafkaCluster \<Rightarrow> string \<Rightarrow> string \<Rightarrow> string" where
  "iControllerServiceName c eListenerName ingressConfigName =
     (let global = (ingressConfigName = IngressConfigGlobalName) in
      (case ingress_service_prefix c global of None \<Rightarrow> []
       | Some p \<Rightarrow> ReplaceAll (p @ eListenerName @ ''-'' @ (if global then [] else ingressConfigName @ ''-'') @ kcName c) (CHR ''_'') ''-''))"

definition wrap_go :: "string \<Rightarrow> (err, 'a) go \<Rightarrow> (err, 'a) go" where
  "wrap_go msg r = (case r of Err e \<Rightarrow> Err (WrapErr msg e) | _ \<Rightarrow> r)"

definition getServiceFromExternalListener :: "renv \<Rightarrow> KafkaCluster \<Rightarrow> string \<Rightarrow> string \<Rightarrow> ktrace \<Rightarrow> (err, Service) go \<times> ktrace" where
  "getServiceFromExternalListener R c eListenerName ingressConfigName tr =
     apfst (wrap_go ''could not get LoadBalancer service'') (get_service R (iControllerServiceName c eListenerName ingressConfigName) tr)"

definition NodePortServiceName :: "KafkaCluster \<Rightarrow> 32 word \<Rightarrow> string \<Rightarrow> string" where
  "NodePortServiceName c brokerId eListenerName = kcName c @ ''-'' @ Itoa (sint brokerId) @ ''-'' @ eListenerName"

definition broker_label :: "32 word \<Rightarrow> string" where
  "broker_label brokerId = ''broker-'' @ Itoa (sint brokerId)"

definition getK8sAssignedNodeport :: "renv \<Rightarrow> KafkaCluster \<Rightarrow> string \<Rightarrow> 32 word \<Rightarrow> ktrace \<Rightarrow> (err, 32 word) go \<times> ktrace" where
  "getK8sAssignedNodeport R c eListenerName brokerId tr =
     io_bind (apfst (wrap_go ''could not get nodeport service'') (get_service R (NodePortServiceName c brokerId eListenerName) tr)) (\<lambda>svc tr1.
       let nodePort = (case find (\<lambda>p. spName p = broker_label brokerId) (svcPorts svc) of None \<Rightarrow> 0 | Some p \<Rightarrow> spNodePort p) in
       (if nodePort = 0 then Err (typed ResourceNotReady (NewErr ''nodeport port number is not allocated'')) else Ret nodePort, tr1))"

definition getK8sNodeIP :: "renv \<Rightarrow> string \<Rightarrow> string \<Rightarrow> ktrace \<Rightarrow> (err, string) go \<times> ktrace" where
  "getK8sNodeIP R nodeName nodeAddressType tr =
     (let tr1 = tr @ [KGetNode nodeName] in
      (case rGetNode R tr nodeName of
         Inl e \<Rightarrow> (Err e, tr1)
       | Inr node \<Rightarrow>
           let addressMap = fold (\<lambda>(t, a). AList.update t a) (nodeAddresses node) [];
               val = lookup_str addressMap nodeAddressType
           in (if val \<noteq> [] then Ret val else Err (NewErr ''could not find the address of the node''), tr1)))"

definition getK8sAssignedNodeAddress :: "renv \<Rightarrow> 32 word \<Rightarrow> string \<Rightarrow> ktrace \<Rightarrow> (err, string) go \<times> ktrace" where
  "getK8sAssignedNodeAddress R brokerId nodeAddressType tr =
     (let i = Itoa (sint brokerId); tr1 = tr @ [KListBrokerPods i] in
      (case rListBrokerPods R tr i of
         (Some e, _) \<Rightarrow> (Err e, tr1)
       | (None, []) \<Rightarrow> (Err (NewErr ''could not find pod with matching brokerId''), tr1)
       | (None, [p]) \<Rightarrow> getK8sNodeIP R (psNodeName (podSpec p)) nodeAddressType tr1
       | (None, _) \<Rightarrow> (Err (NewErr ''multiple pods found with brokerId''), tr1)))"

section \<open>The address of a broker behind an external listener\<close>

fun replace_first :: "string \<Rightarrow> string \<Rightarrow> string \<Rightarrow> string" where
  "replace_first old new [] = (if old = [] then new else [])"
| "replace_first old new (x # xs) =
     (if take (length old) (x # xs) = old then new @ drop (length old) (x # xs) else x # replace_first old new xs)"

definition GetBrokerFqdn :: "ContourIngressConfig \<Rightarrow> 32 word \<Rightarrow> string" where
  "GetBrokerFqdn c brokerId = replace_first ''%id'' (Itoa (sint brokerId)) (BrokerFQDNTemplate c)"

definition GetBrokerHostname :: "EnvoyConfig \<Rightarrow> 32 word \<Rightarrow> string" where
  "GetBrokerHostname c brokerId = replace_first ''%id'' (Itoa (sint brokerId)) (BrokerHostnameTemplate c)"

definition host_port :: "string \<Rightarrow> 32 word \<Rightarrow> string" where
  "host_port host port = host @ '':'' @ Itoa (sint port)"

definition node_port_host ::
  "renv \<Rightarrow> KafkaCluster \<Rightarrow> string \<Rightarrow> Broker \<Rightarrow> ExternalListenerConfig \<Rightarrow> BrokerConfig option \<Rightarrow> 32 word \<Rightarrow> ktrace \<Rightarrow>
     (err, string) go \<times> ktrace" where
  "node_port_host R c defaultHost broker l bConfig portNumber tr =
     (case bConfig of None \<Rightarrow> (Panic, tr)
      | Some bc \<Rightarrow>
          let ip = lookup_str (NodePortExternalIP bc) (elName l); port = (if ip \<noteq> [] then elContainerPort l else portNumber) in
          if defaultHost = [] then
            if ip = [] then
              (case getK8sAssignedNodeAddress R (BrokerId broker) (NodePortNodeAddressType bc) tr of
                 (Ret host, tr1) \<Rightarrow> (Ret (host_port host port), tr1)
               | (Err e, tr1) \<Rightarrow> (Ret (host_port [] port), tr1)
               | (Panic, tr1) \<Rightarrow> (Panic, tr1))
            else (Ret (host_port ip port), tr)
          else (Ret (host_port (kcName c @ ''-'' @ Itoa (sint (BrokerId broker)) @ ''-'' @ elName l @ ''.'' @ kcNamespace c @ defaultHost) port), tr))"

definition template_host :: "string option \<Rightarrow> 32 word \<Rightarrow> (err, string) go" where
  "template_host host portNumber = (case host of None \<Rightarrow> Panic
     | Some h \<Rightarrow> if h = [] then Err (NewErr ''brokerHostnameTemplate is not set in the ingress service settings'')
         else Ret (host_port h portNumber))"

definition getBrokerHost ::
  "renv \<Rightarrow> KafkaCluster \<Rightarrow> string \<Rightarrow> Broker \<Rightarrow> ExternalListenerConfig \<Rightarrow> IngressConfig \<Rightarrow> ktrace \<Rightarrow> (err, string) go \<times> ktrace" where
  "getBrokerHost R c defaultHost broker l iConfig tr =
     (let portNumber = GetBrokerPort l (BrokerId broker); access = GetAccessMethod l in
      if access = ''NodePort'' then
        (case GetBrokerConfig (rM R) broker (kcSpec c) of
           Inl e \<Rightarrow> (Err e, tr)
         | Inr bConfig \<Rightarrow>
             io_bind (if ExternalStartingPort l = 0 then getK8sAssignedNodeport R c (elName l) (BrokerId broker) tr else (Ret portNumber, tr))
               (\<lambda>port tr1. node_port_host R c defaultHost broker l bConfig port tr1))
      else if access = ''ClusterIP'' then
        (template_host (map_option (\<lambda>e. GetBrokerFqdn e (BrokerId broker)) (icContourIngressConfig iConfig)) portNumber, tr)
      else if access = ''LoadBalancer'' \<and> TLSEnabled l then
        (template_host (map_option (\<lambda>e. GetBrokerHostname e (BrokerId broker)) (icEnvoyConfig iConfig)) portNumber, tr)
      else if access = ''ExternalName'' then (Err (NewErr ''unsupported external listener access method''), tr)
      else (Ret (host_port defaultHost portNumber), tr))"

section \<open>Statuses of the external listeners\<close>

definition find_lb_service :: "renv \<Rightarrow> KafkaCluster \<Rightarrow> string \<Rightarrow> string \<Rightarrow> ktrace \<Rightarrow> (err, Service) go \<times> ktrace" where
  "find_lb_service R c eListenerName iConfigName tr =
     apfst (wrap_go ''could not get service corresponding to the external listener'') (getServiceFromExternalListener R c eListenerName iConfigName tr)"

text \<open>The host and the service that were found are variables of the loop over the ingress configurations: a configuration that
  does not set them sees those of the one before.\<close>

definition ingress_host ::
  "renv \<Rightarrow> KafkaCluster \<Rightarrow> ExternalListenerConfig \<Rightarrow> string \<Rightarrow> IngressConfig \<Rightarrow> string \<times> Service option \<Rightarrow> ktrace \<Rightarrow>
     (err, string \<times> Service option) go \<times> ktrace" where
  "ingress_host R c l iConfigName iConfig st tr =
     (if HostnameOverride (icSettings iConfig) \<noteq> [] then (Ret (HostnameOverride (icSettings iConfig), snd st), tr)
      else if GetAccessMethod l = ''LoadBalancer'' then
        io_bind (find_lb_service R c (elName l) iConfigName tr) (\<lambda>svc tr1.
          (go_bind (wrap_go ''could not extract IP from LoadBalancer service'' (getLoadBalancerIP svc)) (\<lambda>ip. Ret (ip, Some svc)), tr1))
      else (Ret st, tr))"

definition any_broker_status ::
  "renv \<Rightarrow> KafkaCluster \<Rightarrow> ExternalListenerConfig \<Rightarrow> string \<Rightarrow> string \<times> Service option \<Rightarrow> ktrace \<Rightarrow>
     (err, Service option \<times> ListenerStatus list) go \<times> ktrace" where
  "any_broker_status R c l iConfigName st tr =
     (if GetAccessMethod l = ''NodePort'' then (Ret (snd st, []), tr)
      else io_bind (case snd st of Some svc \<Rightarrow> (Ret svc, tr) | None \<Rightarrow> find_lb_service R c (elName l) iConfigName tr) (\<lambda>svc tr1.
        let allBrokerPort = (case find (\<lambda>p. spName p = ''tcp-all-broker'') (svcPorts svc) of None \<Rightarrow> 0 | Some p \<Rightarrow> spPort p) in
        (if allBrokerPort = 0 then Err (NewErr ''could not find port with name tcp-all-broker'')
         else Ret (Some svc, [\<lparr>lsName = (if iConfigName = IngressConfigGlobalName then ''any-broker'' else ''any-broker-'' @ iConfigName),
                    lsAddress = host_port (fst st) allBrokerPort\<rparr>]), tr1)))"

fun broker_statuses ::
  "renv \<Rightarrow> KafkaCluster \<Rightarrow> ExternalListenerConfig \<Rightarrow> string \<Rightarrow> string \<Rightarrow> IngressConfig \<Rightarrow> string \<Rightarrow> Broker list \<Rightarrow> ktrace \<Rightarrow>
     (err, ListenerStatus list) go \<times> ktrace" where
  "broker_statuses R c l defaultName iConfigName iConfig host [] tr = (Ret [], tr)"
| "broker_statuses R c l defaultName iConfigName iConfig host (b # bs) tr =
     io_bind (apfst (wrap_go ''could not get brokerHost for external listener status'') (getBrokerHost R c host b l iConfig tr)) (\<lambda>brokerHostPort tr1.
       (case GetBrokerConfig (rM R) b (kcSpec c) of
          Inl e \<Rightarrow> (Err e, tr1)
        | Inr bc \<Rightarrow>
            io_bind (broker_statuses R c l defaultName iConfigName iConfig host bs tr1) (\<lambda>sts tr2.
              (Ret ((if ShouldIncludeBroker bc (BrokersState c) (sint (BrokerId b)) defaultName iConfigName
                     then [\<lparr>lsName = broker_label (BrokerId b), lsAddress = brokerHostPort\<rparr>] else []) @ sts), tr2))))"

fun ingress_statuses ::
  "renv \<Rightarrow> KafkaCluster \<Rightarrow> ExternalListenerConfig \<Rightarrow> string \<Rightarrow> (string, IngressConfig) gomap \<Rightarrow> string \<times> Service option \<Rightarrow>
     ListenerStatus list \<Rightarrow> ktrace \<Rightarrow> (err, ListenerStatus list) go \<times> ktrace" where
  "ingress_statuses R c l defaultName [] st acc tr = (Ret acc, tr)"
| "ingress_statuses R c l defaultName ((name, ic) # ics) st acc tr =
     io_bind (IsIngressConfigInUse (rM R) name defaultName c, tr) (\<lambda>used tr0.
       if \<not> used then ingress_statuses R c l defaultName ics st acc tr0
       else io_bind (ingress_host R c l name ic st tr0) (\<lambda>st1 tr1.
         io_bind (any_broker_status R c l name st1 tr1) (\<lambda>(svc, anys) tr2.
           io_bind (broker_statuses R c l defaultName name ic (fst st1) (Brokers (kcSpec c)) tr2) (\<lambda>sts tr3.
             ingress_statuses R c l defaultName ics (fst st1, svc) (acc @ anys @ sts) tr3))))"

definition listener_skipped :: "KafkaCluster \<Rightarrow> ExternalListenerConfig \<Rightarrow> bool" where
  "listener_skipped c l \<longleftrightarrow> GetAccessMethod l = ''LoadBalancer'' \<and> GetIngressController (kcSpec c) = ''istioingress'' \<and> IstioControlPlane (kcSpec c) = None"

fun external_statuses ::
  "renv \<Rightarrow> KafkaCluster \<Rightarrow> ExternalListenerConfig list \<Rightarrow> listener_statuses \<Rightarrow> ktrace \<Rightarrow>
     (err, listener_statuses) go \<times> ExternalListenerConfig list \<times> ktrace" where
  "external_statuses R c [] ext tr = (Ret ext, [], tr)"
| "external_statuses R c (l # ls) ext tr =
     (if listener_skipped c l then (case external_statuses R c ls ext tr of (r, ls', tr') \<Rightarrow> (r, l # ls', tr'))
      else (case GetIngressConfigs R (kcSpec c) l of
          (Inl e, l') \<Rightarrow> (Err e, l' # ls, tr)
        | (Inr (ics, defaultName), l') \<Rightarrow>
            (case ingress_statuses R c l defaultName (rRangeIngress R ics) ([], None) [] tr of
               (Ret sts, tr1) \<Rightarrow>
                 (case external_statuses R c ls (AList.update (elName l) (sort_key lsName sts) ext) tr1 of (r, ls', tr2) \<Rightarrow> (r, l' # ls', tr2))
             | (Err e, tr1) \<Rightarrow> (Err e, l' # ls, tr1)
             | (Panic, tr1) \<Rightarrow> (Panic, l' # ls, tr1))))"

definition set_external_listeners :: "ExternalListenerConfig list \<Rightarrow> KafkaCluster \<Rightarrow> KafkaCluster" where
  "set_external_listeners ls c = c\<lparr>kcSpec := (kcSpec c)\<lparr>specListenersConfig := (specListenersConfig (kcSpec c))\<lparr>ExternalListeners := ls\<rparr>\<rparr>\<rparr>"

definition createExternalListenerStatuses :: "renv \<Rightarrow> KafkaCluster \<Rightarrow> ktrace \<Rightarrow> (err, listener_statuses) go \<times> KafkaCluster \<times> ktrace" where
  "createExternalListenerStatuses R c tr =
     (case external_statuses R c (ExternalListeners (specListenersConfig (kcSpec c))) [] tr of
        (r, ls, tr') \<Rightarrow> (r, set_external_listeners ls c, tr'))"

section \<open>Statuses of the internal listeners (pkg/k8sutil/status.go, pkg/util/client/common.go)\<close>

definition service_address :: "KafkaCluster \<Rightarrow> string \<Rightarrow> string" where
  "service_address c end_part = kcName c @ end_part @ ''.'' @ kcNamespace c @ ''.svc.'' @ GetKubernetesClusterDomain (kcSpec c)"

definition GenerateKafkaAddressWithoutPort :: "KafkaCluster \<Rightarrow> string" where
  "GenerateKafkaAddressWithoutPort c = service_address c (if HeadlessServiceEnabled (kcSpec c) then ''-headless'' else ''-all-broker'')"

definition GenerateKafkaControllerAddressWithoutPort :: "KafkaCluster \<Rightarrow> string" where
  "GenerateKafkaControllerAddressWithoutPort c = service_address c
     (if HeadlessServiceEnabled (kcSpec c) then (if KRaftMode (kcSpec c) then ''-controller-headless'' else ''-headless'') else ''-all-broker'')"

definition getHostnameForBrokerId :: "ListenerStatus list \<Rightarrow> 32 word \<Rightarrow> string" where
  "getHostnameForBrokerId sts brokerId =
     (case find (\<lambda>s. lsName s = broker_label brokerId) sts of None \<Rightarrow> [] | Some s \<Rightarrow> hd (split_on (CHR '':'') (lsAddress s)))"

definition hostname_address :: "InternalListenerConfig \<Rightarrow> listener_statuses \<Rightarrow> 32 word \<Rightarrow> string" where
  "hostname_address l ext brokerId =
     (if ExternalListenerForHostname l \<noteq> [] \<and> 0 < sint (InternalStartingPort l) then
        (case map_of ext (ExternalListenerForHostname l) of None \<Rightarrow> []
         | Some sts \<Rightarrow> host_port (getHostnameForBrokerId sts brokerId) (InternalStartingPort l + brokerId))
      else [])"

definition internal_broker_address :: "KafkaCluster \<Rightarrow> InternalListenerConfig \<Rightarrow> listener_statuses \<Rightarrow> Broker \<Rightarrow> string" where
  "internal_broker_address c l ext b =
     (let a = hostname_address l ext (BrokerId b);
          node = kcName c @ ''-'' @ Itoa (sint (BrokerId b)) @ ''.'';
          domain = kcNamespace c @ ''.svc.'' @ GetKubernetesClusterDomain (kcSpec c) in
      if a \<noteq> [] then a
      else if HeadlessServiceEnabled (kcSpec c) then
        host_port (node @ kcName c @ (if KRaftMode (kcSpec c) \<and> UsedForControllerCommunication l then ''-controller-headless'' else ''-headless'') @
          ''.'' @ domain) (ilContainerPort l)
      else host_port (node @ domain) (ilContainerPort l))"

text \<open>In KRaft mode a node is left out of a listener that its role does not serve.\<close>

definition node_listens :: "renv \<Rightarrow> KafkaClusterSpec \<Rightarrow> InternalListenerConfig \<Rightarrow> Broker \<Rightarrow> (err, bool) go" where
  "node_listens R spec l b =
     (if KRaftMode spec \<and> (ilUsedForInnerBrokerCommunication l \<or> UsedForControllerCommunication l) then
        (case GetBrokerConfig (rM R) b spec of
           Inl e \<Rightarrow> Err e
         | Inr None \<Rightarrow> Panic
         | Inr (Some bc) \<Rightarrow> Ret ((ilUsedForInnerBrokerCommunication l \<longrightarrow> IsBrokerNode bc) \<and> (UsedForControllerCommunication l \<longrightarrow> IsControllerNode bc)))
      else Ret True)"

fun internal_statuses :: "renv \<Rightarrow> KafkaCluster \<Rightarrow> InternalListenerConfig \<Rightarrow> listener_statuses \<Rightarrow> Broker list \<Rightarrow> (err, ListenerStatus list) go" where
  "internal_statuses R c l ext [] = Ret []"
| "internal_statuses R c l ext (b # bs) =
     go_bind (node_listens R (kcSpec c) l b) (\<lambda>yes. go_bind (internal_statuses R c l ext bs) (\<lambda>sts.
       Ret (if yes then \<lparr>lsName = broker_label (BrokerId b), lsAddress = internal_broker_address c l ext b\<rparr> # sts else sts)))"

definition any_internal_status :: "KafkaCluster \<Rightarrow> InternalListenerConfig \<Rightarrow> ListenerStatus" where
  "any_internal_status c l =
     \<lparr>lsName = (if HeadlessServiceEnabled (kcSpec c) then ''headless'' else ''any-broker''),
      lsAddress = host_port (if UsedForControllerCommunication l then GenerateKafkaControllerAddressWithoutPort c else GenerateKafkaAddressWithoutPort c)
        (ilContainerPort l)\<rparr>"

fun internal_listeners ::
  "renv \<Rightarrow> KafkaCluster \<Rightarrow> listener_statuses \<Rightarrow> InternalListenerConfig list \<Rightarrow> listener_statuses \<times> listener_statuses \<Rightarrow>
     (err, listener_statuses \<times> listener_statuses) go" where
  "internal_listeners R c ext [] st = Ret st"
| "internal_listeners R c ext (l # ls) st =
     go_bind (internal_statuses R c l ext (Brokers (kcSpec c))) (\<lambda>sts.
       let all = any_internal_status c l # sts in
       internal_listeners R c ext ls
         (if UsedForControllerCommunication l then (fst st, AList.update (ilName l) all (snd st)) else (AList.update (ilName l) all (fst st), snd st)))"

definition CreateInternalListenerStatuses :: "renv \<Rightarrow> KafkaCluster \<Rightarrow> listener_statuses \<Rightarrow> (err, listener_statuses \<times> listener_statuses) go" where
  "CreateInternalListenerStatuses R c ext = internal_listeners R c ext (InternalListeners (specListenersConfig (kcSpec c))) ([], [])"

definition UpdateListenerStatuses ::
  "renv \<Rightarrow> KafkaCluster \<Rightarrow> listener_statuses \<Rightarrow> listener_statuses \<Rightarrow> ktrace \<Rightarrow> err option \<times> KafkaCluster \<times> ktrace" where
  "UpdateListenerStatuses R c ints exts tr =
     write_status (rK R) (\<lambda>c. c\<lparr>statusInternalListeners := ints, statusExternalListeners := exts\<rparr>) c tr"

section \<open>Lemmas\<close>

lemma broker_label_eq [simp]: "broker_label i = broker_label j \<longleftrightarrow> i = j"
  by (auto simp: broker_label_def signed_word_eqI dest: Itoa_inj)

definition node_status :: "KafkaCluster \<Rightarrow> InternalListenerConfig \<Rightarrow> listener_statuses \<Rightarrow> Broker \<Rightarrow> ListenerStatus" where
  "node_status c l ext b = \<lparr>lsName = broker_label (BrokerId b), lsAddress = internal_broker_address c l ext b\<rparr>"

definition served :: "renv \<Rightarrow> KafkaClusterSpec \<Rightarrow> InternalListenerConfig \<Rightarrow> Broker list" where
  "served R spec l = filter (\<lambda>b. node_listens R spec l b = Ret True) (Brokers spec)"

lemma internal_statuses_eq:
  assumes "internal_statuses R c l ext bs = Ret sts"
  shows "sts = map (node_status c l ext) (filter (\<lambda>b. node_listens R (kcSpec c) l b = Ret True) bs) \<and>
    (\<forall>b \<in> set bs. \<exists>y. node_listens R (kcSpec c) l b = Ret y)"
  using assms
proof (induction bs arbitrary: sts)
  case (Cons b bs)
  obtain yes rest where "node_listens R (kcSpec c) l b = Ret yes" "internal_statuses R c l ext bs = Ret rest"
    using Cons.prems by auto
  then show ?case using Cons by (auto simp: node_status_def)
qed simp

definition listener_entry :: "renv \<Rightarrow> KafkaCluster \<Rightarrow> listener_statuses \<Rightarrow> InternalListenerConfig \<Rightarrow> ListenerStatus list" where
  "listener_entry R c ext l = any_internal_status c l # map (node_status c l ext) (served R (kcSpec c) l)"

definition add_entry :: "renv \<Rightarrow> KafkaCluster \<Rightarrow> listener_statuses \<Rightarrow> InternalListenerConfig \<Rightarrow> listener_statuses \<Rightarrow> listener_statuses" where
  "add_entry R c ext l = AList.update (ilName l) (listener_entry R c ext l)"

lemma internal_listeners_eq:
  assumes "internal_listeners R c ext ls st = Ret (ints, ctls)"
  shows "ints = fold (add_entry R c ext) (filter (Not \<circ> UsedForControllerCommunication) ls) (fst st) \<and>
    ctls = fold (add_entry R c ext) (filter UsedForControllerCommunication ls) (snd st) \<and>
    (\<forall>l \<in> set ls. \<forall>b \<in> set (Brokers (kcSpec c)). \<exists>y. node_listens R (kcSpec c) l b = Ret y)"
  using assms
proof (induction ls arbitrary: st)
  case (Cons l ls)
  obtain sts where sts: "internal_statuses R c l ext (Brokers (kcSpec c)) = Ret sts" using Cons.prems by auto
  then have "any_internal_status c l # sts = listener_entry R c ext l"
    using internal_statuses_eq [OF sts] by (simp add: listener_entry_def served_def)
  then have rest: "internal_listeners R c ext ls (if UsedForControllerCommunication l then (fst st, add_entry R c ext l (snd st))
      else (add_entry R c ext l (fst st), snd st)) = Ret (ints, ctls)"
    using Cons.prems sts by (auto simp: add_entry_def Let_def split: if_splits)
  have "\<forall>b \<in> set (Brokers (kcSpec c)). \<exists>y. node_listens R (kcSpec c) l b = Ret y" using internal_statuses_eq [OF sts] by blast
  then show ?case using Cons.IH [OF rest] by (cases "UsedForControllerCommunication l") simp_all
qed auto

lemma fold_entries:
  assumes "distinct (map ilName ls)" "l \<in> set ls"
  shows "map_of (fold (add_entry R c ext) ls m) (ilName l) = Some (listener_entry R c ext l)"
proof -
  have "map_of (fold (add_entry R c ext) ls m) k = map_of m k" if "k \<notin> set (map ilName ls)" for ls m k
    using that by (induction ls arbitrary: m) (auto simp: add_entry_def gm_get_update)
  then show ?thesis using assms
    by (induction ls arbitrary: m) (auto simp: add_entry_def gm_get_update)
qed

lemma status_of_entry:
  assumes "distinct (map BrokerId (Brokers (kcSpec c)))" "b \<in> set (served R (kcSpec c) l)"
  shows "status_of (listener_entry R c ext l) (BrokerId b) = Some (node_status c l ext b)"
proof -
  have "find (\<lambda>s. lsName s = broker_label (BrokerId b)) (map (node_status c l ext) bs) = Some (node_status c l ext b)"
    if "distinct (map BrokerId bs)" "b \<in> set bs" for bs
    using that by (induction bs) (auto simp: node_status_def)
  moreover have "distinct (map BrokerId (served R (kcSpec c) l))" using assms(1) by (simp add: served_def distinct_map_filter)
  ultimately show ?thesis using assms(2)
    by (simp add: status_of_def listener_entry_def any_internal_status_def broker_label_def)
qed

lemma gather_voters_returns:
  assumes "\<forall>b \<in> set bs. \<exists>bc. GetBrokerConfig (rM R) b spec = Inr (Some bc)"
  shows "\<exists>ids' m'. gather_voters R spec sts bs ids m = Ret (ids', m')"
  using assms by (induction bs arbitrary: ids m) (auto simp: Let_def)

lemma sort_key_map: "sort_key f (map g xs) = map g (sort_key (\<lambda>x. f (g x)) xs)"
proof -
  have "insort_key f (g a) (map g ys) = map g (insort_key (\<lambda>x. f (g x)) a ys)" for a ys by (induction ys) auto
  then show ?thesis by (induction xs) (simp_all add: sort_key_def)
qed

section \<open>Properties\<close>


text \<open>(C38) The controllers that vote: in KRaft mode with one controller listener, the addresses published for it give a quorum whose
  voters are exactly the controller nodes of the specification, in ascending order of their ids, each with the address of its listener.\<close>

theorem controllers_vote:
  assumes "CreateInternalListenerStatuses R c ext = Ret (ints, ctls)" "iterates R" "KRaftMode (kcSpec c)"
    and ids: "distinct (map BrokerId (Brokers (kcSpec c)))"
    and one: "filter UsedForControllerCommunication (InternalListeners (specListenersConfig (kcSpec c))) = [l]"
    and "\<not> ilUsedForInnerBrokerCommunication l"
  shows "generateQuorumVoters R c ctls = Ret (map (\<lambda>b. Itoa (sint (BrokerId b)) @ ''@'' @ internal_broker_address c l ext b)
    (sort_key (\<lambda>b. sint (BrokerId b)) (filter (controller_broker R (kcSpec c)) (Brokers (kcSpec c)))))"
proof -
  let ?bs = "Brokers (kcSpec c)" and ?e = "listener_entry R c ext l"
  note eqs = internal_listeners_eq [OF assms(1) [unfolded CreateInternalListenerStatuses_def]]
  have l: "l \<in> set (InternalListeners (specListenersConfig (kcSpec c)))" "UsedForControllerCommunication l"
    using arg_cong [OF one, of set] by (auto simp: set_eq_iff)
  have ctls: "ctls = [(ilName l, ?e)]" using eqs one by (simp add: add_entry_def)
  have "\<exists>bc. GetBrokerConfig (rM R) b (kcSpec c) = Inr (Some bc)" if "b \<in> set ?bs" for b
    using eqs l that assms(3) by (fastforce simp: node_listens_def split: sum.splits option.splits)
  then obtain v m where g: "gather_voters R (kcSpec c) ctls ?bs [] [] = Ret (v, m)" using gather_voters_returns [of ?bs R] by meson
  have listens: "node_listens R (kcSpec c) l b = Ret (controller_broker R (kcSpec c) b)" if "b \<in> set ?bs" for b
    using eqs l that assms(3,6) by (fastforce simp: node_listens_def controller_broker_def split: sum.splits option.splits)
  have srv: "served R (kcSpec c) l = filter (controller_broker R (kcSpec c)) ?bs" unfolding served_def using listens by (auto intro: filter_cong)
  have st: "status_of ?e (BrokerId b) = Some (node_status c l ext b)" if "b \<in> set (filter (controller_broker R (kcSpec c)) ?bs)" for b
    using status_of_entry [OF ids] that srv by metis
  have range: "rRangeStatuses R [(ilName l, ?e)] = [(ilName l, ?e)]"
    using assms(2) by (simp add: iterates_def) (metis mset_single_iff_right)
  have "voters R (kcSpec c) ?e ?bs = map BrokerId (filter (controller_broker R (kcSpec c)) ?bs)"
    unfolding voters_def using st by (auto intro!: arg_cong [of _ _ "map BrokerId"] filter_cong)
  then have v: "v = map BrokerId (filter (controller_broker R (kcSpec c)) ?bs)"
    and m: "\<forall>i. map_of m i = (if i \<in> set v then map_option lsAddress (status_of ?e i) else None)"
    using gather_voters_eq [OF range g [unfolded ctls]] by simp_all
  have "map_of m (BrokerId b) = Some (internal_broker_address c l ext b)" if "b \<in> set (filter (controller_broker R (kcSpec c)) ?bs)" for b
    using m that st [OF that] by (auto simp: v node_status_def)
  then show ?thesis using g v by (auto simp: generateQuorumVoters_def sort_key_map)
qed

section \<open>Examples and witnesses\<close>

definition kraft_listener :: InternalListenerConfig where
  "kraft_listener = internal_listener\<lparr>ilName := ''controller'', ilContainerPort := 93, ilUsedForInnerBrokerCommunication := False,
     UsedForControllerCommunication := True\<rparr>"

definition broker_node :: "32 word \<Rightarrow> Broker" where
  "broker_node i = (controller i)\<lparr>brokerBrokerConfig := Some (zero_BrokerConfig\<lparr>Roles := [''broker'']\<rparr>)\<rparr>"

definition kraft_cluster :: KafkaCluster where
  "kraft_cluster = kafka_cluster\<lparr>kcSpec := (kcSpec kafka_cluster)\<lparr>KRaftMode := True, Brokers := [controller 4, broker_node 0, controller 3],
     specListenersConfig := no_listeners\<lparr>InternalListeners := [internal_listener\<lparr>ilContainerPort := 92\<rparr>, kraft_listener]\<rparr>\<rparr>\<rparr>"

definition kraft_address :: "string \<Rightarrow> string" where
  "kraft_address i = ''kafka-'' @ i @ ''.kafka-controller-headless.ns.svc.cluster.local:93''"

definition kraft_ctls :: listener_statuses where
  "kraft_ctls = [(''controller'', [\<lparr>lsName = ''headless'', lsAddress = ''kafka-controller-headless.ns.svc.cluster.local:93''\<rparr>,
     \<lparr>lsName = ''broker-4'', lsAddress = kraft_address ''4''\<rparr>, \<lparr>lsName = ''broker-3'', lsAddress = kraft_address ''3''\<rparr>])]"

definition kraft_ints :: listener_statuses where
  "kraft_ints = [(''plaintext'', [\<lparr>lsName = ''headless'', lsAddress = ''kafka-headless.ns.svc.cluster.local:92''\<rparr>,
     \<lparr>lsName = ''broker-0'', lsAddress = ''kafka-0.kafka-headless.ns.svc.cluster.local:92''\<rparr>])]"

lemma kraft_created: "CreateInternalListenerStatuses (sample_renv []) kraft_cluster [] = Ret (kraft_ints, kraft_ctls)"
  by code_simp

lemma kraft_facts:
  "distinct (map ilName (InternalListeners (specListenersConfig (kcSpec kraft_cluster))))"
  "kraft_listener \<in> set (InternalListeners (specListenersConfig (kcSpec kraft_cluster)))"
  "KRaftMode (kcSpec kraft_cluster)" "distinct (map BrokerId (Brokers (kcSpec kraft_cluster)))"
  "filter UsedForControllerCommunication (InternalListeners (specListenersConfig (kcSpec kraft_cluster))) = [kraft_listener]"
  "\<not> ilUsedForInnerBrokerCommunication kraft_listener" "UsedForControllerCommunication kraft_listener" "ilName kraft_listener = ''controller''"
  by (simp_all add: kraft_cluster_def internal_listener_def kraft_listener_def controller_def broker_node_def)


theorem controllers_vote_witness:
  "generateQuorumVoters (sample_renv []) kraft_cluster kraft_ctls = Ret [''3@'' @ kraft_address ''3'', ''4@'' @ kraft_address ''4'']"
proof -
  have "map (\<lambda>b. Itoa (sint (BrokerId b)) @ ''@'' @ internal_broker_address kraft_cluster kraft_listener [] b)
    (sort_key (\<lambda>b. sint (BrokerId b)) (filter (controller_broker (sample_renv []) (kcSpec kraft_cluster)) (Brokers (kcSpec kraft_cluster)))) =
    [''3@'' @ kraft_address ''3'', ''4@'' @ kraft_address ''4'']" by code_simp
  then show ?thesis using controllers_vote [OF kraft_created sample_iterates(1) kraft_facts(3-6)] by simp
qed

section \<open>What else the code does\<close>

text \<open>A listener with the access method \<open>ClusterIP\<close> under another ingress controller than Contour dereferences a nil pointer.\<close>

lemma cluster_ip_panics:
  "GetAccessMethod l = ''ClusterIP'' \<Longrightarrow> GetIngressController spec \<noteq> ''contour'' \<Longrightarrow>
     fst (getBrokerHost R c host b l (global_ingress spec l) tr) = Panic"
  by (simp add: getBrokerHost_def template_host_def global_ingress_def Let_def)

text \<open>Two ingress configurations of a node-port listener, one of which overrides the host name. The other one sees the host of the
  first if Go's map yields it later: the published address of broker 1 depends on the order of the iteration.\<close>

definition ingress_config :: "string \<Rightarrow> IngressConfig" where
  "ingress_config host = \<lparr>icSettings = zero_IngressServiceSettings\<lparr>HostnameOverride := host\<rparr>, icIstioIngressConfig = None,
     icEnvoyConfig = Some \<lparr>AdminPort = None, HealthCheckPort = None, BrokerHostnameTemplate = []\<rparr>, icContourIngressConfig = None\<rparr>"

definition mapped_node :: "32 word \<Rightarrow> string \<Rightarrow> Broker" where
  "mapped_node i ingress = (controller i)\<lparr>brokerBrokerConfig := Some (zero_BrokerConfig
     \<lparr>BrokerIngressMapping := [ingress], NodePortExternalIP := [(''external'', ''10.0.0.1'')]\<rparr>)\<rparr>"

definition two_ingresses :: "string \<Rightarrow> KafkaCluster" where
  "two_ingresses access = kafka_cluster\<lparr>kcSpec := (kcSpec kafka_cluster)\<lparr>Brokers := [mapped_node 0 ''a'', mapped_node 1 ''b''],
     specListenersConfig := no_listeners\<lparr>ExternalListeners := [external_listener\<lparr>elContainerPort := 94, ExternalStartingPort := 90, AccessMethod := access, elConfig := Some
       \<lparr>DefaultIngressConfig = ''a'', IngressConfigs = [(''a'', ingress_config ''.example.com''), (''b'', ingress_config [])]\<rparr>\<rparr>]\<rparr>\<rparr>\<rparr>"

definition b_first :: "(string, IngressConfig) gomap \<Rightarrow> (string, IngressConfig) gomap" where
  "b_first m = filter (\<lambda>(k, _). k = ''b'') m @ filter (\<lambda>(k, _). k \<noteq> ''b'') m"

definition published :: "renv \<Rightarrow> KafkaCluster \<Rightarrow> (err, (string \<times> string) list) go" where
  "published R c = go_bind (fst (createExternalListenerStatuses R c [])) (\<lambda>ext.
     Ret (concat (map (\<lambda>(_, sts). map (\<lambda>s. (lsName s, lsAddress s)) sts) ext)))"

lemma host_of_other_ingress:
  "published (sample_renv []) (two_ingresses ''NodePort'') =
     Ret [(''broker-0'', ''kafka-0-external.ns.example.com:94''), (''broker-1'', ''kafka-1-external.ns.example.com:94'')]"
  "published ((sample_renv [])\<lparr>rRangeIngress := b_first\<rparr>) (two_ingresses ''NodePort'') =
     Ret [(''broker-0'', ''kafka-0-external.ns.example.com:94''), (''broker-1'', ''10.0.0.1:94'')]"
  by code_simp+

text \<open>The same for the service of a load balancer: an ingress configuration with a host name of its own takes the port of the service
  that was found for another one.\<close>

definition lb_service :: "string \<Rightarrow> Service" where
  "lb_service name = \<lparr>svcMeta = zero_GenMeta\<lparr>gmName := name\<rparr>, svcType = ''LoadBalancer'', svcSelector = [],
     svcPorts = [\<lparr>spName = ''tcp-all-broker'', spPort = (if name = ''envoy-loadbalancer-external-a-kafka'' then 11 else 22), spTargetPort = 0, spNodePort = 0, spProtocol = []\<rparr>],
     svcClusterIP = [], svcPublishNotReadyAddresses = False, svcHealthCheckNodePort = 0, svcIngress = [([], ''1.2.3.4'')]\<rparr>"

definition lb_renv :: "((string, IngressConfig) gomap \<Rightarrow> (string, IngressConfig) gomap) \<Rightarrow> renv" where
  "lb_renv order = (sample_renv [])\<lparr>rGetObject := (\<lambda>tr k n. Inr (ServiceObj (lb_service n))), rRangeIngress := order\<rparr>"

lemma port_of_other_ingress:
  "published (lb_renv id) (two_ingresses ''LoadBalancer'') =
     Ret [(''any-broker-a'', ''.example.com:11''), (''any-broker-b'', ''1.2.3.4:22''), (''broker-0'', ''.example.com:90''), (''broker-1'', ''1.2.3.4:91'')]"
  "published (lb_renv b_first) (two_ingresses ''LoadBalancer'') =
     Ret [(''any-broker-a'', ''.example.com:22''), (''any-broker-b'', ''1.2.3.4:22''), (''broker-0'', ''.example.com:90''), (''broker-1'', ''1.2.3.4:91'')]"
  by code_simp+

end
