(* ===== verification/BrokerPod.thy ===== *)
theory BrokerPod
  imports ListenerStatus KafkaStorage
begin

text \<open>
  The pod of a broker (\<open>pkg/resources/kafka/pod.go\<close>) with the defaults of \<open>api/v1beta1/kafkacluster_types.go\<close>, and the claims that
  it is built from (\<open>getCreatedPvcForBroker\<close> of \<open>kafka.go\<close>).

  A script that is embedded in the binary is written as its file name in angle brackets, the inline script of the pre-stop hook is left out,
  and the default resource requirements are written as text. Lists are sorted by name with a stable sort.
\<close>

section \<open>Defaults (api/v1beta1/kafkacluster\_types.go)\<close>

definition GetClusterImage :: "KafkaClusterSpec \<Rightarrow> string" where
  "GetClusterImage spec = (if ClusterImage spec \<noteq> [] then ClusterImage spec else ''ghcr.io/adobe/koperator/kafka:2.13-3.9.1'')"

definition GetCCImage :: "KafkaClusterSpec \<Rightarrow> string" where
  "GetCCImage spec = (if CruiseControlImage spec \<noteq> [] then CruiseControlImage spec else ''adobe/cruise-control:3.0.3-adbe-20250804'')"

definition GetClusterMetricsReporterImage :: "KafkaClusterSpec \<Rightarrow> string" where
  "GetClusterMetricsReporterImage spec = (if ClusterMetricsReporterImage spec \<noteq> [] then ClusterMetricsReporterImage spec else GetCCImage spec)"

definition GetBrokerMetricsReporterImage :: "BrokerConfig \<Rightarrow> KafkaClusterSpec \<Rightarrow> string" where
  "GetBrokerMetricsReporterImage bc spec = (if bcMetricsReporterImage bc \<noteq> [] then bcMetricsReporterImage bc else GetClusterMetricsReporterImage spec)"

definition Monitoring_GetImage :: "MonitoringConfig \<Rightarrow> string" where
  "Monitoring_GetImage m = (if JmxImage m \<noteq> [] then JmxImage m else ''ghcr.io/amuraru/koperator/jmx-javaagent:1.4.0'')"

definition GetPathToJar :: "MonitoringConfig \<Rightarrow> string" where
  "GetPathToJar m = (if PathToJar m \<noteq> [] then PathToJar m else ''/jmx_prometheus_javaagent.jar'')"

definition GetServiceAccount :: "BrokerConfig \<Rightarrow> string" where
  "GetServiceAccount bc = (if ServiceAccountName bc \<noteq> [] then ServiceAccountName bc else ''default'')"

definition Broker_GetResources :: "BrokerConfig \<Rightarrow> string" where
  "Broker_GetResources bc = (case Resources bc of Some r \<Rightarrow> r | None \<Rightarrow> ''requests: cpu 1000m, memory 2Gi; limits: cpu 1500m, memory 3Gi'')"

definition GetKafkaHeapOpts :: "BrokerConfig \<Rightarrow> string" where
  "GetKafkaHeapOpts bc = (if KafkaHeapOpts bc \<noteq> [] then KafkaHeapOpts bc else ''-Xmx2G -Xms2G'')"

definition GetKafkaPerfJvmOpts :: "BrokerConfig \<Rightarrow> string" where
  "GetKafkaPerfJvmOpts bc = (if KafkaJVMPerfOpts bc \<noteq> [] then KafkaJVMPerfOpts bc
     else ''-server -XX:+UseG1GC -XX:MaxGCPauseMillis=20 -XX:InitiatingHeapOccupancyPercent=35 -XX:+ExplicitGCInvokesConcurrent -Djava.awt.headless=true -Dsun.net.inetaddr.ttl=60'')"

definition GetBrokerAnnotations :: "BrokerConfig \<Rightarrow> (string, string) gomap" where
  "GetBrokerAnnotations bc = CloneMap (BrokerAnnotations bc)"

definition GetListenerServiceName :: "string \<Rightarrow> string" where
  "GetListenerServiceName name = (if \<not> HasPrefix name ''tcp-'' then ''tcp-'' @ name else name)"

definition GetServerSSLCertSecretName :: "string option \<Rightarrow> string" where
  "GetServerSSLCertSecretName s = (case s of None \<Rightarrow> [] | Some n \<Rightarrow> n)"

definition GetDefaultInitContainerResourceRequirements :: string where
  "GetDefaultInitContainerResourceRequirements = ''limits: cpu 100m, memory 100Mi; requests: cpu 100m, memory 100Mi''"

definition dashed :: "string \<Rightarrow> string" where
  "dashed name = ReplaceAll (GetListenerServiceName name) (CHR ''_'') ''-''"

section \<open>Environment variables\<close>

definition with_name :: "string \<Rightarrow> EnvVar \<Rightarrow> EnvVar" where
  "with_name n e = e\<lparr>envName := n\<rparr>"

text \<open>A name that starts with a plus sign prepends to the value there is, one that ends with it appends.\<close>

definition merge_env :: "EnvVar \<Rightarrow> (string, EnvVar) gomap \<Rightarrow> (string, EnvVar) gomap" where
  "merge_env e envs =
     (let n = TrimSpace (envName e) in
      if envValueFrom e \<noteq> None then AList.update n (with_name n e) envs
      else if HasPrefix n ''+'' then
        (let k = drop 1 n in (case map_of envs k of
           Some old \<Rightarrow> AList.update k (old\<lparr>envValue := envValue e @ envValue old\<rparr>) envs
         | None \<Rightarrow> AList.update k (with_name k e) envs))
      else if HasSuffix n ''+'' then
        (let k = butlast n in (case map_of envs k of
           Some old \<Rightarrow> AList.update k (old\<lparr>envValue := envValue old @ envValue e\<rparr>) envs
         | None \<Rightarrow> AList.update k (with_name k e) envs))
      else AList.update n (with_name n e) envs)"

definition env_var :: "string \<Rightarrow> string \<Rightarrow> EnvVar" where
  "env_var n v = \<lparr>envName = n, envValue = v, envValueFrom = None\<rparr>"

definition set_default_env :: "string \<Rightarrow> string \<Rightarrow> string \<Rightarrow> (string, EnvVar) gomap \<Rightarrow> (string, EnvVar) gomap" where
  "set_default_env n given v envs = (if map_of envs n = None \<or> given \<noteq> [] then AList.update n (env_var n v) envs else envs)"

definition env_map :: "BrokerConfig \<Rightarrow> EnvVar list \<Rightarrow> (string, EnvVar) gomap" where
  "env_map bc defaults =
     (let envs = fold merge_env (Envs bc) (fold (\<lambda>v. AList.update (envName v) v) defaults []);
          envs1 = (if Log4jConfig bc \<noteq> [] then AList.update ''KAFKA_LOG4J_OPTS'' (env_var ''KAFKA_LOG4J_OPTS'' ''-Dlog4j.configuration=file:/config/log4j.properties'') envs
                   else envs);
          envs2 = set_default_env ''KAFKA_HEAP_OPTS'' (KafkaHeapOpts bc) (GetKafkaHeapOpts bc) envs1
      in set_default_env ''KAFKA_JVM_PERFORMANCE_OPTS'' (KafkaJVMPerfOpts bc) (GetKafkaPerfJvmOpts bc) envs2)"

definition generateEnvConfig :: "BrokerConfig \<Rightarrow> EnvVar list \<Rightarrow> EnvVar list" where
  "generateEnvConfig bc defaults = (let envs = env_map bc defaults in
     List.map_filter (map_of envs) (sort (map fst envs)))"

section \<open>Volumes and mounts\<close>

definition data_volume :: "nat \<Rightarrow> string" where
  "data_volume i = kafkaDataVolumeMount @ ''-'' @ Itoa (int i)"

definition empty_dirs :: "StorageConfig list \<Rightarrow> StorageConfig list" where
  "empty_dirs storageConfigs = sort_key MountPath (filter (\<lambda>s. PvcSpec s = None \<and> EmptyDir s \<noteq> None) storageConfigs)"

definition data_sources :: "Pvc list \<Rightarrow> StorageConfig list \<Rightarrow> (VolumeSource \<times> string) list" where
  "data_sources pvcs storageConfigs = map (\<lambda>p. (PvcSource (pvcName p), pvcMountPath p)) pvcs @
     map (\<lambda>s. (EmptyDirSource (case EmptyDir s of None \<Rightarrow> [] | Some d \<Rightarrow> d), MountPath s)) (empty_dirs storageConfigs)"

definition generateDataVolumeAndVolumeMount :: "Pvc list \<Rightarrow> StorageConfig list \<Rightarrow> Volume list \<times> VolumeMount list" where
  "generateDataVolumeAndVolumeMount pvcs storageConfigs =
     (let srcs = enumerate 0 (data_sources pvcs storageConfigs) in
      (map (\<lambda>(i, s, m). \<lparr>volName = data_volume i, volSource = s\<rparr>) srcs,
       map (\<lambda>(i, s, m). \<lparr>vmName = data_volume i, vmMountPath = m\<rparr>) srcs))"

definition listener_volume :: "string \<Rightarrow> string" where
  "listener_volume name = ''listener-'' @ name @ ''-certs''"

text \<open>The name and the custom secret of every listener that uses TLS.\<close>

definition ssl_listeners :: "ListenersConfig \<Rightarrow> (string \<times> string option) list" where
  "ssl_listeners lc =
     map (\<lambda>l. (ilName l, ilServerSSLCertSecret l)) (filter (\<lambda>l. ilType l = ''ssl'') (InternalListeners lc)) @
     map (\<lambda>l. (elName l, elServerSSLCertSecret l)) (filter (\<lambda>l. elType l = ''ssl'') (ExternalListeners lc))"

definition generateVolumesForListenerCerts :: "ListenersConfig \<Rightarrow> string \<Rightarrow> Volume list" where
  "generateVolumesForListenerCerts lc clusterName = map (\<lambda>(name, secret).
     \<lparr>volName = listener_volume name,
      volSource = SecretSource (if GetServerSSLCertSecretName secret \<noteq> [] then GetServerSSLCertSecretName secret else clusterName @ ''-server-certificate'')\<rparr>)
     (ssl_listeners lc)"

definition generateVolumeMountForListenerCerts :: "ListenersConfig \<Rightarrow> VolumeMount list" where
  "generateVolumeMountForListenerCerts lc = map (\<lambda>(name, _).
     \<lparr>vmName = listener_volume name, vmMountPath = serverKeystorePath @ ''/'' @ name\<rparr>) (ssl_listeners lc)"

definition clientKeystoreVolume :: string where
  "clientKeystoreVolume = ''client-ks-files''"

definition generateVolumeForClientSSLCert :: "KafkaClusterSpec \<Rightarrow> string \<Rightarrow> Volume" where
  "generateVolumeForClientSSLCert spec clusterName = \<lparr>volName = clientKeystoreVolume,
     volSource = SecretSource (if GetClientSSLCertSecretName spec \<noteq> [] then GetClientSSLCertSecretName spec else clusterName @ ''-controller'')\<rparr>"

definition generateVolumeMountForClientSSLCerts :: VolumeMount where
  "generateVolumeMountForClientSSLCerts = \<lparr>vmName = clientKeystoreVolume, vmMountPath = clientKeystorePath\<rparr>"

definition BrokerJmxName :: "string \<Rightarrow> string" where
  "BrokerJmxName clusterName = clusterName @ ''-kafka-jmx-exporter''"

definition getVolumeMounts :: "VolumeMount list \<Rightarrow> VolumeMount list \<Rightarrow> KafkaClusterSpec \<Rightarrow> string \<Rightarrow> VolumeMount list" where
  "getVolumeMounts own dataMounts spec clusterName = sort_key vmName
     (own @ dataMounts @ (if IsClientSSLSecretPresent spec then [generateVolumeMountForClientSSLCerts] else []) @
      generateVolumeMountForListenerCerts (specListenersConfig spec) @
      [\<lparr>vmName = ''broker-config'', vmMountPath = ''/config''\<rparr>, \<lparr>vmName = ''extensions'', vmMountPath = ''/opt/kafka/libs/extensions''\<rparr>,
       \<lparr>vmName = ''jmx-jar-data'', vmMountPath = ''/opt/jmx-exporter/''\<rparr>, \<lparr>vmName = BrokerJmxName clusterName, vmMountPath = ''/etc/jmx-exporter/''\<rparr>,
       \<lparr>vmName = ''exitfile'', vmMountPath = ''/var/run/wait''\<rparr>])"

definition getVolumes :: "Volume list \<Rightarrow> Volume list \<Rightarrow> KafkaClusterSpec \<Rightarrow> string \<Rightarrow> 32 word \<Rightarrow> Volume list" where
  "getVolumes own dataVolumes spec clusterName brokerId = sort_key volName
     (own @ dataVolumes @ (if IsClientSSLSecretPresent spec then [generateVolumeForClientSSLCert spec clusterName] else []) @
      generateVolumesForListenerCerts (specListenersConfig spec) clusterName @
      [\<lparr>volName = ''exitfile'', volSource = EmptyDirSource []\<rparr>,
       \<lparr>volName = ''broker-config'', volSource = ConfigMapSource (clusterName @ ''-config-'' @ Itoa (sint brokerId))\<rparr>,
       \<lparr>volName = ''extensions'', volSource = EmptyDirSource []\<rparr>,
       \<lparr>volName = BrokerJmxName clusterName, volSource = ConfigMapSource (BrokerJmxName clusterName)\<rparr>,
       \<lparr>volName = ''jmx-jar-data'', volSource = EmptyDirSource []\<rparr>])"

section \<open>Containers, ports and affinity\<close>

definition zero_Container :: ContainerSpec where
  "zero_Container = \<lparr>ctName = [], ctImage = [], ctCommand = [], ctEnv = [], ctPorts = [], ctVolumeMounts = [], ctResources = [],
     ctSecurityContext = [], ctReadinessProbe = None, ctLivenessProbe = None\<rparr>"

definition tcp_port :: "string \<Rightarrow> 32 word \<Rightarrow> ContainerPort" where
  "tcp_port name p = \<lparr>cpName = name, cpContainerPort = p, cpProtocol = ''TCP''\<rparr>"

text \<open>What \<open>strconv.ParseInt\<close> returns beside an error: zero, or the bound that the number exceeds.\<close>

definition parsed_or_bound :: "string \<Rightarrow> 32 word" where
  "parsed_or_bound s = (case ParseInt 32 s of Some i \<Rightarrow> word_of_int i
     | None \<Rightarrow> (case parse_unsigned (if s \<noteq> [] \<and> hd s \<in> {CHR ''+'', CHR ''-''} then tl s else s) of
         None \<Rightarrow> 0
       | Some n \<Rightarrow> if s \<noteq> [] \<and> hd s = CHR ''-'' then 0x80000000 else 0x7FFFFFFF))"

definition jmx_ports :: "EnvVar list \<Rightarrow> ContainerPort list" where
  "jmx_ports envs = (case find (\<lambda>e. envName e = ''JMX_PORT'') envs of None \<Rightarrow> [] | Some e \<Rightarrow> [tcp_port ''jmx'' (parsed_or_bound (envValue e))])"

definition generateKafkaContainerPorts :: "KafkaCluster \<Rightarrow> ContainerPort list" where
  "generateKafkaContainerPorts c =
     (let spec = kcSpec c; lc = specListenersConfig spec in
      map (\<lambda>l. tcp_port (dashed (elName l)) (elContainerPort l))
        (filter (\<lambda>l. map_of (statusExternalListeners c) (elName l) \<noteq> None) (ExternalListeners lc)) @
      map (\<lambda>l. tcp_port (dashed (ilName l)) (ilContainerPort l)) (InternalListeners lc) @
      AdditionalPorts spec @ jmx_ports (specEnvs spec) @ [tcp_port ''metrics'' 9020])"

definition getInitContainers :: "BrokerConfig \<Rightarrow> KafkaClusterSpec \<Rightarrow> ContainerSpec list" where
  "getInitContainers bc spec = sort_key ctName (InitContainers bc @
     [zero_Container\<lparr>ctName := ''cruise-control-reporter'', ctImage := GetBrokerMetricsReporterImage bc spec,
        ctCommand := [''/bin/sh'', ''-cex'', ''cp -v /opt/cruise-control/cruise-control/build/dependant-libs/cruise-control-metrics-reporter.jar /opt/kafka/libs/extensions/cruise-control-metrics-reporter.jar''],
        ctVolumeMounts := [\<lparr>vmName = ''extensions'', vmMountPath = ''/opt/kafka/libs/extensions''\<rparr>], ctResources := GetDefaultInitContainerResourceRequirements\<rparr>,
      zero_Container\<lparr>ctName := ''jmx-exporter'', ctImage := Monitoring_GetImage (specMonitoringConfig spec),
        ctCommand := [''cp'', GetPathToJar (specMonitoringConfig spec), ''/opt/jmx-exporter/jmx_prometheus.jar''],
        ctVolumeMounts := [\<lparr>vmName = ''jmx-jar-data'', vmMountPath = ''/opt/jmx-exporter/''\<rparr>], ctResources := GetDefaultInitContainerResourceRequirements\<rparr>])"

definition generatePodAntiAffinity :: "string \<Rightarrow> bool \<Rightarrow> Affinity" where
  "generatePodAntiAffinity clusterName hardRuleEnabled =
     (if hardRuleEnabled then PodAntiAffinityRequired (LabelsForKafka clusterName) ''kubernetes.io/hostname''
      else PodAntiAffinityPreferred 100 (LabelsForKafka clusterName) ''kubernetes.io/hostname'')"

definition getAffinity :: "BrokerConfig \<Rightarrow> KafkaCluster \<Rightarrow> Affinity" where
  "getAffinity bc c = (case Affinity bc of None \<Rightarrow> generatePodAntiAffinity (kcName c) (OneBrokerPerNode (kcSpec c)) | Some a \<Rightarrow> GivenAffinity a)"

definition findControllerListenerPort :: "KafkaCluster \<Rightarrow> err + 32 word" where
  "findControllerListenerPort c = (case find UsedForControllerCommunication (InternalListeners (specListenersConfig (kcSpec c))) of
     None \<Rightarrow> Inl (NewErr ''no controller listener found'') | Some l \<Rightarrow> Inr (ilContainerPort l))"

section \<open>The pod\<close>

definition default_envs :: "EnvVar list" where
  "default_envs = [env_var ''CLASSPATH'' ''/opt/kafka/libs/extensions/*'',
     env_var ''KAFKA_OPTS'' ''-javaagent:/opt/jmx-exporter/jmx_prometheus.jar=9020:/etc/jmx-exporter/config.yaml'',
     \<lparr>envName = ''ENVOY_SIDECAR_STATUS'', envValue = [], envValueFrom = Some ''metadata.annotations['sidecar.istio.io/status']''\<rparr>]"

definition controller_pod :: "KafkaCluster \<Rightarrow> BrokerConfig \<Rightarrow> bool" where
  "controller_pod c bc \<longleftrightarrow> KRaftMode (kcSpec c) \<and> IsControllerNode bc"

definition cluster_id_env :: "KafkaCluster \<Rightarrow> EnvVar list" where
  "cluster_id_env c = (if list_ex (\<lambda>e. envName e = ''CLUSTER_ID'') (specEnvs (kcSpec c)) then [] else [env_var ''CLUSTER_ID'' (ClusterID c)])"

definition kraft_envs :: "KafkaCluster \<Rightarrow> BrokerConfig \<Rightarrow> EnvVar list" where
  "kraft_envs c bc = (if KRaftMode (kcSpec c)
     then cluster_id_env c @ (if GetStorageMountPaths bc \<noteq> [] then [env_var ''LOG_DIRS'' (GetStorageMountPaths bc)] else []) else [])"

definition kafka_container :: "KafkaCluster \<Rightarrow> BrokerConfig \<Rightarrow> VolumeMount list \<Rightarrow> ContainerSpec" where
  "kafka_container c bc dataMounts =
     \<lparr>ctName = ''kafka'', ctImage = GetBrokerImage bc (GetClusterImage (kcSpec c)),
      ctCommand = [''bash'', ''-c'', ''<wait-for-envoy-sidecar.sh>''],
      ctEnv = generateEnvConfig bc default_envs @ kraft_envs c bc,
      ctPorts = generateKafkaContainerPorts c,
      ctVolumeMounts = getVolumeMounts (VolumeMounts bc) dataMounts (kcSpec c) (kcName c),
      ctResources = Broker_GetResources bc, ctSecurityContext = SecurityContext bc,
      ctReadinessProbe = (if controller_pod c bc then (case findControllerListenerPort c of Inl e \<Rightarrow> None | Inr p \<Rightarrow> Some (TCPProbe p)) else None),
      ctLivenessProbe = (if controller_pod c bc then Some (ExecProbe [''/bin/bash'', ''-c'', ''<kraft-controller-healthcheck.sh>'']) else None)\<rparr>"

definition pod :: "KafkaCluster \<Rightarrow> 32 word \<Rightarrow> BrokerConfig \<Rightarrow> Pvc list \<Rightarrow> Pod" where
  "pod c brokerId bc pvcs =
     (let (dataVolumes, dataMounts) = generateDataVolumeAndVolumeMount pvcs (StorageConfigs bc);
          spec = kcSpec c; i = Itoa (sint brokerId) in
      \<lparr>podName = [], podLabels = ObjectMetaLabels c (GetBrokerLabels bc (kcName c) brokerId (KRaftMode spec)),
       podDeletionTimestamp = None, podTolerations = Tolerations bc, podInitTerminated = [], podContainers = [], podPhase = [], podReason = [],
       podGenerateName = (if controller_pod c bc then kcName c @ ''-controller-'' @ i @ ''-'' else kcName c @ ''-'' @ i @ ''-''),
       podAnnotations = GetBrokerAnnotations bc,
       podSpec = \<lparr>psInitContainers = getInitContainers bc spec,
         psContainers = kafka_container c bc dataMounts # Containers bc,
         psVolumes = getVolumes (Volumes bc) dataVolumes spec (kcName c) brokerId,
         psAffinity = Some (getAffinity bc c), psSecurityContext = PodSecurityContext bc, psRestartPolicy = ''Never'',
         psTerminationGracePeriodSeconds = GetTerminationGracePeriod bc, psImagePullSecrets = ImagePullSecrets bc,
         psServiceAccountName = GetServiceAccount bc, psNodeSelector = NodeSelector bc, psPriorityClassName = PriorityClassName bc,
         psHostname = (if HeadlessServiceEnabled spec then kcName c @ ''-'' @ i else []),
         psSubdomain = (if HeadlessServiceEnabled spec
           then kcName c @ (if IsControllerNode bc then ''-controller-headless'' else ''-headless'') else []),
         psNodeName = []\<rparr>\<rparr>)"

section \<open>The claims of a broker (pkg/resources/kafka/kafka.go)\<close>

definition missing_claims :: "StorageConfig list \<Rightarrow> Pvc list \<Rightarrow> string list" where
  "missing_claims storageConfigs pvcs =
     map MountPath (filter (\<lambda>s. PvcSpec s \<noteq> None \<and> \<not> list_ex (\<lambda>p. MountPath s = pvcMountPath p) pvcs) storageConfigs)"

definition getCreatedPvcForBroker :: "renv \<Rightarrow> 32 word \<Rightarrow> StorageConfig list \<Rightarrow> ktrace \<Rightarrow> (err, Pvc list) go \<times> ktrace" where
  "getCreatedPvcForBroker R brokerID storageConfigs tr =
     (let i = Itoa (sint brokerID); tr1 = tr @ [KListPvcs i] in
      (case kListPvcs (rK R) tr i of
         Inl e \<Rightarrow> (Err e, tr1)
       | Inr items \<Rightarrow>
           (if length (missing_claims storageConfigs items) > 0 then Err (NewErr ''broker mount paths missing persistent volume claim'')
            else Ret (sort_key pvcName items), tr1)))"

section \<open>Lemmas\<close>

lemma data_volume_eq [simp]: "data_volume i = data_volume j \<longleftrightarrow> i = j"
  by (auto simp: data_volume_def dest: Itoa_inj)

lemma data_names:
  "map vmName (snd (generateDataVolumeAndVolumeMount pvcs ss)) = map volName (fst (generateDataVolumeAndVolumeMount pvcs ss))"
  by (auto simp: generateDataVolumeAndVolumeMount_def Let_def)

lemma cert_names: "map vmName (generateVolumeMountForListenerCerts lc) = map volName (generateVolumesForListenerCerts lc n)"
  by (auto simp: generateVolumeMountForListenerCerts_def generateVolumesForListenerCerts_def)

lemma mounts_of_pod:
  "ctVolumeMounts (hd (psContainers (podSpec (pod c i bc pvcs)))) =
     getVolumeMounts (VolumeMounts bc) (snd (generateDataVolumeAndVolumeMount pvcs (StorageConfigs bc))) (kcSpec c) (kcName c)"
  "psVolumes (podSpec (pod c i bc pvcs)) =
     getVolumes (Volumes bc) (fst (generateDataVolumeAndVolumeMount pvcs (StorageConfigs bc))) (kcSpec c) (kcName c) i"
  by (auto simp: pod_def kafka_container_def Let_def split: prod.splits)

lemma set_of_names: "map f xs = map g ys \<Longrightarrow> f ` set xs = g ` set ys"
  by (metis set_map)

lemma data_entry:
  assumes "(src, path) \<in> set (data_sources pvcs ss)"
  shows "\<exists>n. \<lparr>volName = n, volSource = src\<rparr> \<in> set (fst (generateDataVolumeAndVolumeMount pvcs ss)) \<and>
    \<lparr>vmName = n, vmMountPath = path\<rparr> \<in> set (snd (generateDataVolumeAndVolumeMount pvcs ss))"
proof -
  obtain j where "j < length (data_sources pvcs ss)" "data_sources pvcs ss ! j = (src, path)" using assms by (auto simp: in_set_conv_nth)
  then have "(j, src, path) \<in> set (enumerate 0 (data_sources pvcs ss))" by (force simp: in_set_enumerate_eq)
  then show ?thesis by (intro exI [of _ "data_volume j"]) (force simp: generateDataVolumeAndVolumeMount_def Let_def)
qed

definition named :: "(string, EnvVar) gomap \<Rightarrow> bool" where
  "named envs \<longleftrightarrow> gm_ok envs \<and> (\<forall>k e. map_of envs k = Some e \<longrightarrow> envName e = k)"

lemma named_update: "named envs \<Longrightarrow> envName e = k \<Longrightarrow> named (AList.update k e envs)"
  by (auto simp: named_def gm_get_update)

lemma named_merge: "named envs \<Longrightarrow> named (merge_env e envs)"
  unfolding merge_env_def Let_def by (auto intro!: named_update simp: with_name_def named_def [THEN iffD1] split: option.splits)

lemma named_env_map: "named (env_map bc ds)"
proof -
  have "named (fold (\<lambda>v. AList.update (envName v) v) ds m)" if "named m" for m
    using that by (induction ds arbitrary: m) (auto intro: named_update)
  moreover have "named (fold merge_env es m)" if "named m" for es m
    using that by (induction es arbitrary: m) (auto intro: named_merge)
  moreover have "named []" by (simp add: named_def)
  ultimately show ?thesis by (auto simp: env_map_def set_default_env_def env_var_def Let_def intro!: named_update)
qed

section \<open>Properties\<close>

text \<open>The pod is closed: every volume that the Kafka container mounts is a volume of the pod, unless the user mounts it.\<close>

theorem mounts_have_volumes:
  "vmName ` set (ctVolumeMounts (hd (psContainers (podSpec (pod c i bc pvcs))))) \<subseteq>
   volName ` set (psVolumes (podSpec (pod c i bc pvcs))) \<union> vmName ` set (VolumeMounts bc)"
proof -
  have d: "vmName ` set (snd (generateDataVolumeAndVolumeMount pvcs (StorageConfigs bc))) = volName ` set (fst (generateDataVolumeAndVolumeMount pvcs (StorageConfigs bc)))"
    by (rule set_of_names [OF data_names])
  have l: "vmName ` set (generateVolumeMountForListenerCerts (specListenersConfig (kcSpec c))) =
    volName ` set (generateVolumesForListenerCerts (specListenersConfig (kcSpec c)) (kcName c))"
    by (rule set_of_names [OF cert_names])
  have k: "vmName generateVolumeMountForClientSSLCerts = volName (generateVolumeForClientSSLCert (kcSpec c) (kcName c))"
    by (simp add: generateVolumeMountForClientSSLCerts_def generateVolumeForClientSSLCert_def)
  show ?thesis unfolding mounts_of_pod getVolumeMounts_def getVolumes_def set_sort set_append image_Un d l
    by (auto simp: k)
qed


text \<open>The environment of the Kafka container has one variable of a name, in the order of the names.\<close>

lemma env_sorted: "sorted_wrt (<) (map envName (generateEnvConfig bc ds))"
proof -
  let ?m = "env_map bc ds" and ?ks = "sort (map fst (env_map bc ds))"
  have ok: "named ?m" by (rule named_env_map)
  have "\<exists>e. map_of ?m k = Some e \<and> envName e = k" if "k \<in> set ?ks" for k
    using that ok map_of_eq_None_iff [of ?m k] by (cases "map_of ?m k") (auto simp: named_def)
  moreover have "map envName (List.map_filter f ks) = ks" if "\<And>k. k \<in> set ks \<Longrightarrow> \<exists>e. f k = Some e \<and> envName e = k" for f ks
    using that by (induction ks) (fastforce simp: List.map_filter_simps)+
  ultimately have "map envName (List.map_filter (map_of ?m) ?ks) = ?ks" by blast
  moreover have "distinct ?ks" using ok by (simp add: named_def)
  ultimately show ?thesis unfolding generateEnvConfig_def Let_def by (simp add: strict_sorted_iff)
qed

section \<open>Examples and witnesses\<close>

definition sample_claim :: Pvc where
  "sample_claim = \<lparr>pvcName = ''kafka-0-storage-0'', pvcMountPath = ''/data'', pvcLabels = [], pvcPhase = ''Bound'', pvcStorage = 10\<rparr>"

definition sample_storage :: StorageConfig where
  "sample_storage = \<lparr>MountPath = ''/data'', PvcSpec = Some ''10Gi'', PvcStorage = 10, EmptyDir = None\<rparr>"

definition stored_config :: BrokerConfig where
  "stored_config = zero_BrokerConfig\<lparr>StorageConfigs := [sample_storage]\<rparr>"

definition claim_renv :: renv where
  "claim_renv = (sample_renv [])\<lparr>rK := sample_kenv\<lparr>kListPvcs := (\<lambda>tr i. Inr [sample_claim])\<rparr>\<rparr>"


section \<open>What else the code does\<close>

text \<open>A node that is broker and controller at once is put into the domain of the controller service, whereas its address for the brokers
  is published in the domain of the broker service.\<close>

definition combined_config :: BrokerConfig where
  "combined_config = zero_BrokerConfig\<lparr>Roles := [''broker'', ''controller'']\<rparr>"

lemma combined_node_domain:
  "psHostname (podSpec (pod kraft_cluster 0 combined_config [])) @ ''.'' @ psSubdomain (podSpec (pod kraft_cluster 0 combined_config [])) =
     ''kafka-0.kafka-controller-headless''"
  "internal_broker_address kraft_cluster (internal_listener\<lparr>ilContainerPort := 92\<rparr>) [] ((broker_node 0)\<lparr>brokerBrokerConfig := Some combined_config\<rparr>) =
     ''kafka-0.kafka-headless.ns.svc.cluster.local:92''"
  by code_simp+

text \<open>The volumes of a pod with a storage of kind \<open>emptyDir\<close> make the removal of its broker panic, after the pod
  has been deleted.\<close>

lemma empty_dir_panics:
  fixes pvcs :: "Pvc list" and cfgs :: "StorageConfig list"
  assumes "\<And>tr n. kDeletePvc E tr n = None"
  defines "vs \<equiv> map (\<lambda>v. (volName v, claim_name (volSource v))) (fst (generateDataVolumeAndVolumeMount pvcs cfgs))"
  shows "fst (delete_claims E vs tr) = (if \<exists>s \<in> set cfgs. PvcSpec s = None \<and> EmptyDir s \<noteq> None then Panic else Ret ())"
proof -
  have "\<forall>(v, cl) \<in> set vs. HasPrefix v kafkaDataVolumeMount"
    by (auto simp: vs_def generateDataVolumeAndVolumeMount_def Let_def data_volume_def)
  moreover have "map snd vs = map (claim_name \<circ> fst) (data_sources pvcs cfgs)"
    by (rule nth_equalityI) (simp_all add: vs_def generateDataVolumeAndVolumeMount_def Let_def nth_enumerate_eq case_prod_beta)
  ultimately show ?thesis using delete_claims_result [OF assms(1), of vs]
    by (auto simp: data_sources_def empty_dirs_def claim_name_def image_iff)
qed

text \<open>A port for JMX that does not parse is logged and becomes port 0.\<close>

lemma bad_jmx_port: "jmx_ports [env_var ''JMX_PORT'' ''none''] = [tcp_port ''jmx'' 0]"
  by code_simp

end
