(* ===== verification/KafkaObjects.thy ===== *)
theory KafkaObjects
  imports BrokerPod
begin

text \<open>
  The services and disruption budgets that the Kafka reconciler generates and deletes (\<open>headlessService.go\<close>, \<open>allBrokerService.go\<close>,
  \<open>service.go\<close>, \<open>poddisruptionbudget.go\<close> of \<open>pkg/resources/kafka\<close>), and the passwords and super users that it reads from the secrets of
  the listeners (\<open>kafka.go\<close>).

  The list of services is asked for with the labels of the cluster and the label of a broker; the parameter answers for that selector. The number of
  brokers that a percentage stands for is a parameter, as it is computed in floating point.
\<close>

section \<open>Ports of services (pkg/resources/kafka/kafka.go)\<close>

definition MetricsPort :: "32 word" where
  "MetricsPort = 9020"

definition service_port :: "string \<Rightarrow> 32 word \<Rightarrow> string \<Rightarrow> ServicePort" where
  "service_port name p proto = \<lparr>spName = name, spPort = p, spTargetPort = p, spNodePort = 0, spProtocol = proto\<rparr>"

definition generateServicePortForIListeners :: "InternalListenerConfig list \<Rightarrow> ServicePort list" where
  "generateServicePortForIListeners listeners = map (\<lambda>l. service_port (dashed (ilName l)) (ilContainerPort l) ''TCP'') listeners"

definition generateServicePortForEListeners :: "ExternalListenerConfig list \<Rightarrow> ServicePort list" where
  "generateServicePortForEListeners listeners = map (\<lambda>l. service_port (dashed (elName l)) (elContainerPort l) ''TCP'') listeners"

definition generateServicePortForAdditionalPorts :: "ContainerPort list \<Rightarrow> ServicePort list" where
  "generateServicePortForAdditionalPorts ports = map (\<lambda>p. service_port (cpName p) (cpContainerPort p) (cpProtocol p)) ports"

definition used_ports :: "KafkaClusterSpec \<Rightarrow> ServicePort list" where
  "used_ports spec = generateServicePortForIListeners (InternalListeners (specListenersConfig spec)) @
     generateServicePortForEListeners (ExternalListeners (specListenersConfig spec)) @ generateServicePortForAdditionalPorts (AdditionalPorts spec)"

definition metrics_port :: ServicePort where
  "metrics_port = service_port ''metrics'' MetricsPort ''TCP''"

section \<open>Services\<close>

definition headlessServiceTemplate :: "KafkaCluster \<Rightarrow> string \<Rightarrow> (string, string) gomap \<Rightarrow> Service" where
  "headlessServiceTemplate c name selectorLabels =
     \<lparr>svcMeta = ObjectMetaWithAnnotations name (MergeLabels [selectorLabels, kcLabels c]) (ServiceAnnotations (specListenersConfig (kcSpec c))) c,
      svcType = ''ClusterIP'', svcSelector = selectorLabels, svcPorts = used_ports (kcSpec c) @ [metrics_port],
      svcClusterIP = ''None'', svcPublishNotReadyAddresses = True, svcHealthCheckNodePort = 0, svcIngress = []\<rparr>"

definition headlessService :: "KafkaCluster \<Rightarrow> Service" where
  "headlessService c = headlessServiceTemplate c (kcName c @ ''-headless'')
     (if KRaftMode (kcSpec c) then LabelsForBroker (kcName c) else LabelsForKafka (kcName c))"

definition headlessControllerService :: "KafkaCluster \<Rightarrow> Service" where
  "headlessControllerService c = headlessServiceTemplate c (kcName c @ ''-controller-headless'') (LabelsForController (kcName c))"

definition service :: "KafkaCluster \<Rightarrow> 32 word \<Rightarrow> Service" where
  "service c brokerId =
     (let labels = MergeLabels [LabelsForKafka (kcName c), [(BrokerIdLabelKey, Itoa (sint brokerId))]] in
      \<lparr>svcMeta = ObjectMetaWithAnnotations (kcName c @ ''-'' @ Itoa (sint brokerId)) labels (ServiceAnnotations (specListenersConfig (kcSpec c))) c,
       svcType = ''ClusterIP'', svcSelector = labels, svcPorts = used_ports (kcSpec c) @ [metrics_port],
       svcClusterIP = [], svcPublishNotReadyAddresses = False, svcHealthCheckNodePort = 0, svcIngress = []\<rparr>)"

definition allBrokerService :: "KafkaCluster \<Rightarrow> Service" where
  "allBrokerService c =
     \<lparr>svcMeta = ObjectMetaWithAnnotations (kcName c @ ''-all-broker'') (LabelsForKafka (kcName c)) (ServiceAnnotations (specListenersConfig (kcSpec c))) c,
      svcType = ''ClusterIP'', svcSelector = LabelsForKafka (kcName c), svcPorts = used_ports (kcSpec c),
      svcClusterIP = [], svcPublishNotReadyAddresses = False, svcHealthCheckNodePort = 0, svcIngress = []\<rparr>"

text \<open>Deleting a service that is gone already is not an error.\<close>

definition delete_if_exists :: "renv \<Rightarrow> string \<Rightarrow> ktrace \<Rightarrow> (err, unit) go \<times> ktrace" where
  "delete_if_exists R name tr = ((case kDeleteService (rK R) tr name of
     Some e \<Rightarrow> if IsNotFound e then Ret () else Err e | None \<Rightarrow> Ret ()), tr @ [KDeleteService name])"

definition deleteHeadlessService :: "renv \<Rightarrow> KafkaCluster \<Rightarrow> ktrace \<Rightarrow> (err, unit) go \<times> ktrace" where
  "deleteHeadlessService R c tr = delete_if_exists R (kcName c @ ''-headless'') tr"

fun delete_services :: "renv \<Rightarrow> Service list \<Rightarrow> ktrace \<Rightarrow> (err, unit) go \<times> ktrace" where
  "delete_services R [] tr = (Ret (), tr)"
| "delete_services R (s # ss) tr =
     (if gmDeletionTimestamp (svcMeta s) \<noteq> None then delete_services R ss tr
      else io_bind (delete_if_exists R (gmName (svcMeta s)) tr) (\<lambda>_ tr1. delete_services R ss tr1))"

definition isNodePortAccessMethodInUseAmongExternalListeners :: "ExternalListenerConfig list \<Rightarrow> bool" where
  "isNodePortAccessMethodInUseAmongExternalListeners ls = list_ex (\<lambda>l. GetAccessMethod l = ''NodePort'') ls"

definition nonNodePortServices :: "Service list \<Rightarrow> Service list" where
  "nonNodePortServices ss = filter (\<lambda>s. svcType s \<noteq> ''NodePort'') ss"

definition deleteNonHeadlessServices :: "renv \<Rightarrow> KafkaCluster \<Rightarrow> ktrace \<Rightarrow> (err, unit) go \<times> ktrace" where
  "deleteNonHeadlessServices R c tr =
     io_bind (delete_if_exists R (kcName c @ ''-all-broker'') tr) (\<lambda>_ tr1.
       let tr2 = tr1 @ [KListServices] in
       (case rListServices R tr1 of
          Inl e \<Rightarrow> (Err (WrapErr ''failed to list services'' e), tr2)
        | Inr services \<Rightarrow>
            delete_services R (if isNodePortAccessMethodInUseAmongExternalListeners (ExternalListeners (specListenersConfig (kcSpec c)))
              then nonNodePortServices services else services) tr2))"

section \<open>Disruption budgets (poddisruptionbudget.go)\<close>

fun controller_count :: "renv \<Rightarrow> KafkaClusterSpec \<Rightarrow> bool \<Rightarrow> Broker list \<Rightarrow> 64 word \<Rightarrow> (err, 64 word) go" where
  "controller_count R spec controllerRoleOnly [] n = Ret n"
| "controller_count R spec controllerRoleOnly (b # bs) n =
     (case GetBrokerConfig (rM R) b spec of
        Inl e \<Rightarrow> Err e
      | Inr None \<Rightarrow> Panic
      | Inr (Some bc) \<Rightarrow> controller_count R spec controllerRoleOnly bs
          (if (if controllerRoleOnly then IsControllerOnlyNode bc else IsControllerNode bc) then n + 1 else n))"

definition getControllerCount :: "renv \<Rightarrow> KafkaCluster \<Rightarrow> bool \<Rightarrow> (err, 64 word) go" where
  "getControllerCount R c controllerRoleOnly = controller_count R (kcSpec c) controllerRoleOnly (Brokers (kcSpec c)) 0"

definition computeControllerMinAvailable :: "renv \<Rightarrow> KafkaCluster \<Rightarrow> (err, 64 word) go" where
  "computeControllerMinAvailable R c = go_bind (getControllerCount R c False) (\<lambda>n. Ret (Max_int (n - 1) 1))"

definition disruption_budget :: "renv \<Rightarrow> string \<Rightarrow> 64 word \<Rightarrow> (err, 64 word) go" where
  "disruption_budget R budget brokers =
     (if HasSuffix budget ''%'' then (case rPercentage R (butlast budget) brokers of Inl e \<Rightarrow> Err e | Inr n \<Rightarrow> Ret n)
      else (case ParseInt 64 budget of None \<Rightarrow> Err (NewErr ''strconv.ParseInt'') | Some i \<Rightarrow> Ret (word_of_int i)))"

definition computeMinAvailable :: "renv \<Rightarrow> KafkaCluster \<Rightarrow> (err, 64 word) go" where
  "computeMinAvailable R c =
     go_bind (getControllerCount R c True) (\<lambda>controllerCount.
       let brokers = of_nat (length (BrokersState c)) - controllerCount in
       go_bind (disruption_budget R (Budget (specDisruptionBudget (kcSpec c))) brokers) (\<lambda>budget.
         Ret (Max_int 1 (brokers - budget))))"

definition podDisruptionBudget :: "KafkaCluster \<Rightarrow> string \<Rightarrow> (string, string) gomap \<Rightarrow> 64 word \<Rightarrow> PodDisruptionBudget" where
  "podDisruptionBudget c name podSelectorLabels minAvailable =
     \<lparr>pdbMeta = ObjectMetaWithAnnotations name (MergeLabels [podSelectorLabels, kcLabels c]) (ServiceAnnotations (specListenersConfig (kcSpec c))) c,
      pdbMinAvailable = minAvailable, pdbSelector = podSelectorLabels\<rparr>"

definition podDisruptionBudgetBrokers :: "renv \<Rightarrow> KafkaCluster \<Rightarrow> (err, PodDisruptionBudget) go" where
  "podDisruptionBudgetBrokers R c = go_bind (computeMinAvailable R c) (\<lambda>n. Ret (podDisruptionBudget c (kcName c @ ''-pdb'')
     (if KRaftMode (kcSpec c) then LabelsForBroker (kcName c) else LabelsForKafka (kcName c)) n))"

definition podDisruptionBudgetControllers :: "renv \<Rightarrow> KafkaCluster \<Rightarrow> (err, PodDisruptionBudget) go" where
  "podDisruptionBudgetControllers R c =
     (if \<not> KRaftMode (kcSpec c) then Err (NewErr ''PDB for controllers is only applicable when in KRaft mode'')
      else go_bind (computeControllerMinAvailable R c) (\<lambda>n.
        Ret (podDisruptionBudget c (kcName c @ ''-controller-pdb'') (LabelsForController (kcName c)) n)))"

section \<open>Passwords and super users (kafka.go)\<close>

definition PasswordKey :: string where
  "PasswordKey = ''password''"

definition TLSJKSKeyStore :: string where
  "TLSJKSKeyStore = ''keystore.jks''"

definition password_of :: "Secret \<Rightarrow> string" where
  "password_of s = lookup_str (secData s) PasswordKey"

definition subject_of :: "renv \<Rightarrow> Secret \<Rightarrow> err + string" where
  "subject_of R s = rLeafSubject R (lookup_str (secData s) TLSJKSKeyStore) (password_of s)"

text \<open>A secret that the operator generates and that is missing or incomplete is not ready; one that the user names is an error.\<close>

definition get_cert_secret :: "renv \<Rightarrow> string \<Rightarrow> string \<Rightarrow> string \<Rightarrow> ktrace \<Rightarrow> (err, Secret) go \<times> ktrace" where
  "get_cert_secret R custom generated msg tr =
     (let name = (if custom \<noteq> [] then custom else generated); tr1 = tr @ [KGetSecret name] in
      (case rGetSecret R tr name of
         Inl e \<Rightarrow> (Err (if IsNotFound e \<and> custom = [] then typed ResourceNotReady e else WrapErr msg e), tr1)
       | Inr s \<Rightarrow>
           (case rCheckSSLCertSecret R s of
              Some e \<Rightarrow> (Err (if custom \<noteq> [] then e else typed ResourceNotReady (NewErr ''SSL JKS certificate has not generated properly yet'')), tr1)
            | None \<Rightarrow> (Ret s, tr1))))"

definition getClientPasswordKeyAndUser :: "renv \<Rightarrow> KafkaCluster \<Rightarrow> ktrace \<Rightarrow> (err, string \<times> string) go \<times> ktrace" where
  "getClientPasswordKeyAndUser R c tr =
     (if IsClientSSLSecretPresent (kcSpec c) then
        io_bind (get_cert_secret R (GetClientSSLCertSecretName (kcSpec c)) (kcName c @ ''-controller'') ''failed to get client secret'' tr) (\<lambda>s tr1.
          ((case subject_of R s of Inl e \<Rightarrow> Err (WrapErr ''failed to decode certificate'' e) | Inr cn \<Rightarrow> Ret (password_of s, cn)), tr1))
      else (Ret ([], []), tr))"

definition getListenerSSLCertSecret :: "renv \<Rightarrow> KafkaCluster \<Rightarrow> string option \<Rightarrow> ktrace \<Rightarrow> (err, Secret) go \<times> ktrace" where
  "getListenerSSLCertSecret R c secret tr =
     get_cert_secret R (GetServerSSLCertSecretName secret) (kcName c @ ''-server-certificate'') ''failed to get server secret'' tr"

text \<open>The variables of the two loops: the passwords, the subjects, the password of the generated secret once it is known, and the secret that
  was read last.\<close>

record pass_state =
  psPair :: "(string, string) gomap"
  psCNList :: "string list"
  psGlobKeyPass :: string
  psSecret :: Secret

definition listener_password :: "renv \<Rightarrow> KafkaCluster \<Rightarrow> string \<Rightarrow> string option \<Rightarrow> pass_state \<Rightarrow> ktrace \<Rightarrow> (err, pass_state) go \<times> ktrace" where
  "listener_password R c name secret st tr =
     (let custom = GetServerSSLCertSecretName secret in
      io_bind (if psGlobKeyPass st = [] \<or> custom \<noteq> [] then
          io_bind (getListenerSSLCertSecret R c secret tr) (\<lambda>s tr1. (Ret (st\<lparr>psSecret := s, psPair := AList.update name (password_of s) (psPair st)\<rparr>), tr1))
        else (Ret st, tr)) (\<lambda>st1 tr1.
          (Ret (if SSLSecrets (specListenersConfig (kcSpec c)) \<noteq> None \<and> custom = [] then
             let glob = (if psGlobKeyPass st1 = [] then password_of (psSecret st1) else psGlobKeyPass st1) in
             st1\<lparr>psGlobKeyPass := glob, psPair := AList.update name glob (psPair st1)\<rparr>
           else st1), tr1)))"

definition add_subject :: "renv \<Rightarrow> pass_state \<Rightarrow> (err, pass_state) go" where
  "add_subject R st = (case subject_of R (psSecret st) of
     Inl e \<Rightarrow> Err (WrapErr ''failed to decode certificate'' e) | Inr cn \<Rightarrow> Ret (st\<lparr>psCNList := psCNList st @ [cn]\<rparr>))"

fun internal_passwords :: "renv \<Rightarrow> KafkaCluster \<Rightarrow> InternalListenerConfig list \<Rightarrow> pass_state \<Rightarrow> ktrace \<Rightarrow> (err, pass_state) go \<times> ktrace" where
  "internal_passwords R c [] st tr = (Ret st, tr)"
| "internal_passwords R c (l # ls) st tr =
     (if ilType l = ''ssl'' then
        io_bind (listener_password R c (ilName l) (ilServerSSLCertSecret l) st tr) (\<lambda>st1 tr1.
          io_bind (if UsedForControllerCommunication l \<or> ilUsedForInnerBrokerCommunication l then (add_subject R st1, tr1) else (Ret st1, tr1))
            (internal_passwords R c ls))
      else internal_passwords R c ls st tr)"

fun external_passwords :: "renv \<Rightarrow> KafkaCluster \<Rightarrow> ExternalListenerConfig list \<Rightarrow> pass_state \<Rightarrow> ktrace \<Rightarrow> (err, pass_state) go \<times> ktrace" where
  "external_passwords R c [] st tr = (Ret st, tr)"
| "external_passwords R c (l # ls) st tr =
     (if elType l = ''ssl'' then io_bind (listener_password R c (elName l) (elServerSSLCertSecret l) st tr) (external_passwords R c ls)
      else external_passwords R c ls st tr)"

definition getServerPasswordKeysAndUsers :: "renv \<Rightarrow> KafkaCluster \<Rightarrow> ktrace \<Rightarrow> (err, (string, string) gomap \<times> string list) go \<times> ktrace" where
  "getServerPasswordKeysAndUsers R c tr =
     io_bind (internal_passwords R c (InternalListeners (specListenersConfig (kcSpec c)))
         \<lparr>psPair = [], psCNList = [], psGlobKeyPass = [], psSecret = \<lparr>secName = [], secData = []\<rparr>\<rparr> tr) (\<lambda>st tr1.
       io_bind (external_passwords R c (ExternalListeners (specListenersConfig (kcSpec c))) st tr1) (\<lambda>st2 tr2.
         (Ret (psPair st2, psCNList st2), tr2)))"

definition getPasswordKeysAndSuperUsers ::
  "renv \<Rightarrow> KafkaCluster \<Rightarrow> ktrace \<Rightarrow> (err, string \<times> (string, string) gomap \<times> string list) go \<times> ktrace" where
  "getPasswordKeysAndSuperUsers R c tr =
     io_bind (getServerPasswordKeysAndUsers R c tr) (\<lambda>(serverPasses, superUsers) tr1.
       io_bind (getClientPasswordKeyAndUser R c tr1) (\<lambda>(clientPass, superUser) tr2.
         (Ret (clientPass, serverPasses, if superUser \<noteq> [] then superUsers @ [superUser] else superUsers), tr2)))"

section \<open>Lemmas\<close>

definition controller_only :: "renv \<Rightarrow> KafkaClusterSpec \<Rightarrow> Broker \<Rightarrow> bool" where
  "controller_only R spec b \<longleftrightarrow> (case GetBrokerConfig (rM R) b spec of Inr (Some bc) \<Rightarrow> IsControllerOnlyNode bc | _ \<Rightarrow> False)"

lemma controller_count_eq:
  "controller_count R spec True bs n = Ret k \<Longrightarrow> k = n + of_nat (length (filter (controller_only R spec) bs))"
proof (induction bs arbitrary: n)
  case (Cons b bs)
  obtain bc where bc: "GetBrokerConfig (rM R) b spec = Inr (Some bc)" using Cons.prems by (auto split: sum.splits option.splits)
  then have "controller_only R spec b = IsControllerOnlyNode bc" by (simp add: controller_only_def)
  then show ?case using Cons.prems bc Cons.IH [of "n + 1"] Cons.IH [of n] by (cases "IsControllerOnlyNode bc") (auto simp: algebra_simps)
qed simp

lemma sint_small: "- (2 ^ 63) \<le> i \<Longrightarrow> i < 2 ^ 63 \<Longrightarrow> sint (word_of_int i :: 64 word) = i"
  by (simp add: signed_take_bit_int_eq_self sint_sbintrunc')

lemma Max_int_value: "sint (Max_int x y) = max (sint x) (sint y)"
  by (simp add: Max_int_def word_sless_alt max_def)

section \<open>Properties\<close>


section \<open>Examples and witnesses\<close>

definition budget_cluster :: KafkaCluster where
  "budget_cluster = kraft_cluster\<lparr>BrokersState := map (\<lambda>i. (i, zero_BrokerState)) [''0'', ''3'', ''4'', ''5'', ''6''],
     kcSpec := (kcSpec kraft_cluster)\<lparr>specDisruptionBudget := \<lparr>DisruptionBudget.Create = True, Budget = ''1''\<rparr>\<rparr>\<rparr>"


section \<open>What else the code does\<close>

text \<open>The generated secret is read once, but its certificate is not kept: a listener that uses it after one with a secret of its own adds the
  subject of the other certificate to the super users.\<close>

definition secret_renv :: renv where
  "secret_renv = (sample_renv [])\<lparr>rGetSecret := (\<lambda>tr n. Inr \<lparr>secName = n, secData = [(''password'', n)]\<rparr>), rLeafSubject := (\<lambda>k p. Inr (''CN='' @ p))\<rparr>"

definition ssl_listener :: "string \<Rightarrow> string option \<Rightarrow> bool \<Rightarrow> InternalListenerConfig" where
  "ssl_listener name secret inner = internal_listener\<lparr>ilName := name, ilType := ''ssl'', ilServerSSLCertSecret := secret, ilUsedForInnerBrokerCommunication := inner\<rparr>"

definition secret_cluster :: KafkaCluster where
  "secret_cluster = kafka_cluster\<lparr>kcSpec := (kcSpec kafka_cluster)\<lparr>specListenersConfig := no_listeners\<lparr>SSLSecrets := Some ''tls'',
     InternalListeners := [ssl_listener ''a'' None False, ssl_listener ''b'' (Some ''custom'') False, ssl_listener ''c'' None True]\<rparr>\<rparr>\<rparr>"

lemma wrong_super_user:
  "fst (getServerPasswordKeysAndUsers secret_renv secret_cluster []) =
     Ret ([(''a'', ''kafka-server-certificate''), (''b'', ''custom''), (''c'', ''kafka-server-certificate'')], [''CN=custom''])"
  by code_simp

text \<open>Only the headless service of the brokers is deleted when the cluster stops using headless services: the one of the controllers stays.\<close>

lemma controller_service_stays:
  "snd (deleteHeadlessService R c tr) = tr @ [KDeleteService (kcName c @ ''-headless'')]"
  "gmName (svcMeta (headlessControllerService c)) \<noteq> kcName c @ ''-headless''"
  by (simp_all add: deleteHeadlessService_def delete_if_exists_def headlessControllerService_def headlessServiceTemplate_def
      ObjectMetaWithAnnotations_def template_ObjectMeta_def)

end
