(* ===== verification/KafkaReconcile.thy ===== *)
theory KafkaReconcile
  imports KafkaObjects
begin

text \<open>
  One reconcile of the Kafka brokers: \<open>Reconcile\<close>, \<open>reconcileKafkaPod\<close>, \<open>updateStatusWithDockerImageAndVersion\<close> and
  \<open>determineControllerId\<close> of \<open>pkg/resources/kafka/kafka.go\<close>, \<open>pvc.go\<close> and the request to the metrics endpoint of
  \<open>pkg/jmxextractor/extractor.go\<close>.

  The cluster is threaded through the calls: it is the one that the reconciler holds in memory, which every write to the API server replaces by
  the answer. Log output and contexts are left out. The answer of the metrics endpoint is a parameter: a
  request that fails, a response that cannot be read, or the version that the response reports, which is empty when it reports none.
\<close>

section \<open>Sequencing\<close>

type_synonym 'a step = "(err, 'a) go \<times> KafkaCluster \<times> ktrace"

fun st_bind :: "'a step \<Rightarrow> ('a \<Rightarrow> KafkaCluster \<Rightarrow> ktrace \<Rightarrow> 'b step) \<Rightarrow> 'b step" where
  "st_bind (Ret x, c, tr) f = f x c tr"
| "st_bind (Err e, c, tr) f = (Err e, c, tr)"
| "st_bind (Panic, c, tr) f = (Panic, c, tr)"

definition lift_io :: "KafkaCluster \<Rightarrow> (err, 'a) go \<times> ktrace \<Rightarrow> 'a step" where
  "lift_io c r = (fst r, c, snd r)"

definition st_wrap :: "string \<Rightarrow> 'a step \<Rightarrow> 'a step" where
  "st_wrap msg r = (wrap_go msg (fst r), snd r)"

definition status_step :: "(err \<Rightarrow> err) \<Rightarrow> err option \<times> KafkaCluster \<times> ktrace \<Rightarrow> unit step" where
  "status_step f r = (case fst r of None \<Rightarrow> Ret () | Some e \<Rightarrow> Err (f e), snd r)"

definition reconcile_object :: "renv \<Rightarrow> kobject \<Rightarrow> KafkaCluster \<Rightarrow> ktrace \<Rightarrow> unit step" where
  "reconcile_object R ob c tr = st_wrap ''failed to reconcile resource'' (k8s_Reconcile R ob c tr)"

section \<open>The pod of a broker\<close>

definition external_config_names :: "BrokerConfig \<Rightarrow> KafkaCluster \<Rightarrow> string list" where
  "external_config_names bc c =
     (if length (BrokerIngressMapping bc) > 0 then BrokerIngressMapping bc
      else List.map_filter (\<lambda>l. map_option DefaultIngressConfig (elConfig l)) (ExternalListeners (specListenersConfig (kcSpec c))))"

definition CruiseControlTopicReady :: string where
  "CruiseControlTopicReady = ''CruiseControlTopicReady''"

definition update_broker :: "renv \<Rightarrow> string \<Rightarrow> status_value \<Rightarrow> KafkaCluster \<Rightarrow> ktrace \<Rightarrow> unit step" where
  "update_broker R i v c tr = status_step (typed StatusUpdateError) (UpdateBrokerStatus (rK R) [i] c v tr)"

definition graceful_state :: "CruiseControlState \<Rightarrow> GracefulActionState" where
  "graceful_state s = \<lparr>gasCruiseControlState = s, gasCruiseControlOperationReference = None, VolumeStates = []\<rparr>"

definition new_pod_state :: "KafkaCluster \<Rightarrow> Pod \<Rightarrow> GracefulActionState" where
  "new_pod_state c desiredPod =
     (let controllerOnlyNode = KRaftMode (kcSpec c) \<and> controller_only_pod desiredPod in
      graceful_state (if \<not> controllerOnlyNode \<and> CruiseControlTopicStatus c = CruiseControlTopicReady
        then GracefulUpscaleRequired else GracefulUpscaleSucceeded))"

definition graceful_action :: "renv \<Rightarrow> Pod \<Rightarrow> KafkaCluster \<Rightarrow> ktrace \<Rightarrow> unit step" where
  "graceful_action R desiredPod c tr =
     (let i = pod_label desiredPod BrokerIdLabelKey in
      (case map_of (BrokersState c) i of
         None \<Rightarrow> (Ret (), c, tr)
       | Some st \<Rightarrow>
           let ccState = gasCruiseControlState (bsGracefulActionState st) in
           if ccState \<noteq> GracefulUpscaleSucceeded \<and> \<not> IsDownscale ccState
           then update_broker R i (StGracefulActionState (new_pod_state c desiredPod)) c tr
           else (Ret (), c, tr)))"

definition create_pod :: "renv \<Rightarrow> Pod \<Rightarrow> BrokerConfig \<Rightarrow> KafkaCluster \<Rightarrow> ktrace \<Rightarrow> unit step" where
  "create_pod R desiredPod bc c tr =
     (let i = pod_label desiredPod BrokerIdLabelKey in
      (case kSetLastApplied (rK R) desiredPod of
         Some e \<Rightarrow> (Err (WrapErr ''could not apply last state to annotation'' e), c, tr)
       | None \<Rightarrow>
           (case rCreatePod R tr desiredPod of
              Some e \<Rightarrow> (Err (typed APIFailure e), c, tr @ [KCreatePod desiredPod])
            | None \<Rightarrow>
                st_bind (update_broker R i (StExternalListenerConfigNames (external_config_names bc c)) c (tr @ [KCreatePod desiredPod])) (\<lambda>_ c1 tr1.
                st_bind (update_broker R i (StConfigurationState ConfigInSync) c1 tr1) (\<lambda>_ c2 tr2.
                st_bind (update_broker R i (StPerBrokerConfigurationState PerBrokerConfigInSync) c2 tr2) (\<lambda>_ c3 tr3.
                graceful_action R desiredPod c3 tr3))))))"

definition record_rack :: "renv \<Rightarrow> Pod \<Rightarrow> KafkaCluster \<Rightarrow> ktrace \<Rightarrow> unit step" where
  "record_rack R currentPod c tr =
     (let i = pod_label currentPod BrokerIdLabelKey in
      (case RackAwareness (kcSpec c) of
         Some labels \<Rightarrow>
           if psNodeName (podSpec currentPod) = [] then (Ret (), c, tr)
           else (case UpdateCrWithRackAwarenessConfig R currentPod labels c tr of
               ((_, Some e), c1, tr1) \<Rightarrow> (Err e, c1, tr1)
             | ((state, None), c1, tr1) \<Rightarrow> update_broker R i (StRackAwarenessState state) c1 tr1)
       | None \<Rightarrow> (Ret (), c, tr)))"

definition existing_pod :: "renv \<Rightarrow> Pod \<Rightarrow> Pod \<Rightarrow> KafkaCluster \<Rightarrow> ktrace \<Rightarrow> unit step" where
  "existing_pod R desiredPod currentPod c tr =
     (if map_of (BrokersState c) (pod_label currentPod BrokerIdLabelKey) = None then (Err (typed InternalError (NewErr ''reconcile failed'')), c, tr)
      else st_bind (record_rack R currentPod c tr) (\<lambda>_ c1 tr1.
        st_wrap ''could not handle rolling upgrade'' (handleRollingUpgrade (rK R) c1 desiredPod currentPod tr1)))"

definition reconcileKafkaPod :: "renv \<Rightarrow> Pod \<Rightarrow> BrokerConfig \<Rightarrow> KafkaCluster \<Rightarrow> ktrace \<Rightarrow> unit step" where
  "reconcileKafkaPod R desiredPod bc c tr =
     (let i = pod_label desiredPod BrokerIdLabelKey; tr1 = tr @ [KListBrokerPods i] in
      (case rListBrokerPods R tr i of
         (Some e, []) \<Rightarrow> (Err (typed APIFailure e), c, tr1)
       | (None, []) \<Rightarrow> create_pod R desiredPod bc c tr1
       | (_, [currentPod]) \<Rightarrow> existing_pod R desiredPod currentPod c tr1
       | (_, _) \<Rightarrow> (Err (typed TooManyResources (NewErr ''reconcile failed'')), c, tr1)))"

section \<open>The version of a broker (pkg/jmxextractor/extractor.go)\<close>

definition metrics_url :: "KafkaCluster \<Rightarrow> 32 word \<Rightarrow> BrokerConfig \<Rightarrow> string" where
  "metrics_url c brokerId bc =
     ''http://'' @ kcName c @ ''-'' @ Itoa (sint brokerId) @ ''.'' @
     (if HeadlessServiceEnabled (kcSpec c) then kcName c @ (if IsControllerNode bc then ''-controller-headless'' else ''-headless'') @ ''.'' else []) @
     kcNamespace c @ ''.svc.'' @ GetKubernetesClusterDomain (kcSpec c) @ '':9020''"

definition ExtractDockerImageAndVersion :: "renv \<Rightarrow> KafkaCluster \<Rightarrow> 32 word \<Rightarrow> BrokerConfig \<Rightarrow> ktrace \<Rightarrow> (err, string \<times> string) go \<times> ktrace" where
  "ExtractDockerImageAndVersion R c brokerId bc tr =
     ((case rMetricsVersion R tr (metrics_url c brokerId bc) of
         Inl e \<Rightarrow> Err (typed BrokersNotReady e) | Inr (Inl e) \<Rightarrow> Err e | Inr (Inr version) \<Rightarrow> Ret (version, GetBrokerImage bc (GetClusterImage (kcSpec c)))), tr @ [KExtractVersion brokerId])"

definition updateStatusWithDockerImageAndVersion :: "renv \<Rightarrow> 32 word \<Rightarrow> BrokerConfig \<Rightarrow> KafkaCluster \<Rightarrow> ktrace \<Rightarrow> unit step" where
  "updateStatusWithDockerImageAndVersion R brokerId bc c tr =
     st_bind (lift_io c (ExtractDockerImageAndVersion R c brokerId bc tr)) (\<lambda>(version, image) c1 tr1.
       status_step id (UpdateBrokerStatus (rK R) [Itoa (sint brokerId)] c1 (StKafkaVersion version image) tr1))"

section \<open>Volume claims (pvc.go and Reconcile)\<close>

text \<open>The claim has no name yet: the API server makes one up from the prefix. The template of the claim is expanded by a library.\<close>

definition pvc :: "renv \<Rightarrow> KafkaCluster \<Rightarrow> 32 word \<Rightarrow> StorageConfig \<Rightarrow> (err, Pvc) go" where
  "pvc R c brokerId storage = (case rPvcStorage R storage brokerId of
     Inl e \<Rightarrow> Err (WrapErr ''failed to generate resource'' e)
   | Inr n \<Rightarrow> Ret \<lparr>pvcName = [], pvcMountPath = MountPath storage,
       pvcLabels = ObjectMetaLabels c (MergeLabels [LabelsForKafka (kcName c), [(BrokerIdLabelKey, Itoa (sint brokerId))]]),
       pvcPhase = [], pvcStorage = n\<rparr>)"

text \<open>\<open>None\<close> stands for the early return on an invalid storage, which wraps an error that is nil: the reconcile ends without one.\<close>

fun storage_claims :: "renv \<Rightarrow> KafkaCluster \<Rightarrow> 32 word \<Rightarrow> StorageConfig list \<Rightarrow> (err, Pvc list option) go" where
  "storage_claims R c i [] = Ret (Some [])"
| "storage_claims R c i (s # ss) =
     (if PvcSpec s = None \<and> EmptyDir s = None then Ret None
      else if PvcSpec s = None then storage_claims R c i ss
      else go_bind (pvc R c i s) (\<lambda>p. go_bind (storage_claims R c i ss) (\<lambda>r. Ret (map_option ((#) p) r))))"

fun desired_claims :: "renv \<Rightarrow> KafkaCluster \<Rightarrow> Broker list \<Rightarrow> (string, Pvc list) gomap \<Rightarrow> (err, (string, Pvc list) gomap option) go" where
  "desired_claims R c [] m = Ret (Some m)"
| "desired_claims R c (b # bs) m =
     (case GetBrokerConfig (rM R) b (kcSpec c) of
        Inl e \<Rightarrow> Err (WrapErr ''failed to reconcile resource'' e)
      | Inr None \<Rightarrow> Panic
      | Inr (Some bc) \<Rightarrow> go_bind (storage_claims R c (BrokerId b) (StorageConfigs bc)) (\<lambda>r.
          (case r of None \<Rightarrow> Ret None
           | Some ps \<Rightarrow> desired_claims R c bs (if length ps > 0 then AList.update (Itoa (sint (BrokerId b))) ps m else m))))"

section \<open>One broker\<close>

definition broker_config_map ::
  "renv \<Rightarrow> Broker \<Rightarrow> BrokerConfig \<Rightarrow> conf_input \<Rightarrow> KafkaCluster \<Rightarrow> ktrace \<Rightarrow> ConfigMap option step" where
  "broker_config_map R b bc inp c tr =
     (if RackAwareness (kcSpec c) = None \<or> rack_state c (Itoa (sint (BrokerId b))) \<noteq> [] then
        st_bind (lift_io c (configMap R c b bc inp tr)) (\<lambda>m c1 tr1.
          st_bind (reconcile_object R (ConfigMapObj m) c1 tr1) (\<lambda>_ c2 tr2. (Ret (Some m), c2, tr2)))
      else (Ret None, c, tr))"

definition broker_service :: "renv \<Rightarrow> Broker \<Rightarrow> KafkaCluster \<Rightarrow> ktrace \<Rightarrow> unit step" where
  "broker_service R b c tr = (if HeadlessServiceEnabled (kcSpec c) then (Ret (), c, tr)
     else reconcile_object R (ServiceObj (service c (BrokerId b))) c tr)"

text \<open>The result says whether the running broker took its configuration; a failure there does not end the loop over the brokers.\<close>

definition dynamic_config :: "renv \<Rightarrow> Broker \<Rightarrow> BrokerConfig \<Rightarrow> ConfigMap option \<Rightarrow> KafkaCluster \<Rightarrow> ktrace \<Rightarrow> bool step" where
  "dynamic_config R b bc m c tr = (case reconcilePerBrokerDynamicConfig R (BrokerId b) bc m c tr of
     (Ret _, c1, tr1) \<Rightarrow> (Ret True, c1, tr1) | (Err e, c1, tr1) \<Rightarrow> (Ret False, c1, tr1) | (Panic, c1, tr1) \<Rightarrow> (Panic, c1, tr1))"

definition broker_step :: "renv \<Rightarrow> conf_input \<Rightarrow> Broker \<Rightarrow> KafkaCluster \<Rightarrow> ktrace \<Rightarrow> bool step" where
  "broker_step R inp b c tr =
     (case GetBrokerConfig (rM R) b (kcSpec c) of
        Inl e \<Rightarrow> (Err (WrapErr ''failed to reconcile resource'' e), c, tr)
      | Inr None \<Rightarrow> (Panic, c, tr)
      | Inr (Some bc) \<Rightarrow>
          st_bind (broker_config_map R b bc inp c tr) (\<lambda>m c1 tr1.
          st_bind (st_wrap ''failed to list PVC's'' (lift_io c1 (getCreatedPvcForBroker R (BrokerId b) (StorageConfigs bc) tr1))) (\<lambda>pvcs c2 tr2.
          st_bind (broker_service R b c2 tr2) (\<lambda>_ c3 tr3.
          st_bind (reconcileKafkaPod R (pod c3 (BrokerId b) bc pvcs) bc c3 tr3) (\<lambda>_ c4 tr4.
          st_bind (updateStatusWithDockerImageAndVersion R (BrokerId b) bc c4 tr4) (\<lambda>_ c5 tr5.
          dynamic_config R b bc m c5 tr5))))))"

fun reconcile_brokers :: "renv \<Rightarrow> conf_input \<Rightarrow> Broker list \<Rightarrow> KafkaCluster \<Rightarrow> ktrace \<Rightarrow> bool step" where
  "reconcile_brokers R inp [] c tr = (Ret True, c, tr)"
| "reconcile_brokers R inp (b # bs) c tr =
     st_bind (broker_step R inp b c tr) (\<lambda>succeeded c1 tr1.
       st_bind (reconcile_brokers R inp bs c1 tr1) (\<lambda>rest c2 tr2. (Ret (succeeded \<and> rest), c2, tr2)))"

section \<open>The phases of Reconcile\<close>

definition service_phase :: "renv \<Rightarrow> KafkaCluster \<Rightarrow> ktrace \<Rightarrow> unit step" where
  "service_phase R c tr =
     (if HeadlessServiceEnabled (kcSpec c) then
        st_bind (reconcile_object R (ServiceObj (headlessService c)) c tr) (\<lambda>_ c1 tr1.
          if KRaftMode (kcSpec c1) then reconcile_object R (ServiceObj (headlessControllerService c1)) c1 tr1 else (Ret (), c1, tr1))
      else reconcile_object R (ServiceObj (allBrokerService c)) c tr)"

definition budget_phase :: "renv \<Rightarrow> KafkaCluster \<Rightarrow> ktrace \<Rightarrow> unit step" where
  "budget_phase R c tr =
     (if DisruptionBudget.Create (specDisruptionBudget (kcSpec c)) then
        st_bind (st_wrap ''failed to compute podDisruptionBudget for brokers'' (podDisruptionBudgetBrokers R c, c, tr)) (\<lambda>p c1 tr1.
        st_bind (reconcile_object R (PdbObj p) c1 tr1) (\<lambda>_ c2 tr2.
          if KRaftMode (kcSpec c2) then
            st_bind (st_wrap ''failed to compute podDisruptionBudget for controllers'' (podDisruptionBudgetControllers R c2, c2, tr2)) (\<lambda>q c3 tr3.
              reconcile_object R (PdbObj q) c3 tr3)
          else (Ret (), c2, tr2)))
      else (Ret (), c, tr))"

definition listener_phase :: "renv \<Rightarrow> KafkaCluster \<Rightarrow> ktrace \<Rightarrow> (listener_statuses \<times> listener_statuses \<times> listener_statuses) step" where
  "listener_phase R c tr =
     st_bind (st_wrap ''could not update status for external listeners'' (createExternalListenerStatuses R c tr)) (\<lambda>ext c1 tr1.
     st_bind (st_wrap ''failed to get listener statuses'' (CreateInternalListenerStatuses R c1 ext, c1, tr1)) (\<lambda>(ints, ctls) c2 tr2.
     st_bind (status_step (WrapErr ''failed to update listener statuses'') (UpdateListenerStatuses R c2 ints ext tr2)) (\<lambda>_ c3 tr3.
       if SSLSecrets (specListenersConfig (kcSpec c3)) \<noteq> None then
         (case rReconcilePKI R tr3 c3 ext of
            Some e \<Rightarrow> (Err e, c3, tr3 @ [KReconcilePKI]) | None \<Rightarrow> (Ret (ext, ints, ctls), c3, tr3 @ [KReconcilePKI]))
       else (Ret (ext, ints, ctls), c3, tr3))))"

definition claim_phase :: "renv \<Rightarrow> KafkaCluster \<Rightarrow> ktrace \<Rightarrow> bool step" where
  "claim_phase R c tr =
     st_bind (desired_claims R c (Brokers (kcSpec c)) [], c, tr) (\<lambda>r c1 tr1.
       (case r of
          None \<Rightarrow> (Ret False, c1, tr1)
        | Some m \<Rightarrow>
            if length m > 0
            then st_bind (st_wrap ''failed to reconcile resource'' (reconcileKafkaPvc (rK R) (rM R) (rRangeClaims R m) c1 tr1)) (\<lambda>_ c2 tr2. (Ret True, c2, tr2))
            else (Ret True, c1, tr1)))"

definition running_brokers :: "Pod list \<Rightarrow> string list" where
  "running_brokers pods = map (\<lambda>p. pod_label p BrokerIdLabelKey) pods"

definition bound_brokers :: "Pvc list \<Rightarrow> string list" where
  "bound_brokers pvcs = map (\<lambda>p. lookup_str (pvcLabels p) BrokerIdLabelKey) (filter (\<lambda>p. pvcPhase p = ''Bound'') pvcs)"

definition list_phase :: "renv \<Rightarrow> ktrace \<Rightarrow> (err, string list \<times> string list) go \<times> ktrace" where
  "list_phase R tr =
     (case kListPods (rK R) tr of
        Inl e \<Rightarrow> (Err (WrapErr ''failed to list broker pods that belong to Kafka cluster'' e), tr @ [KListPods])
      | Inr pods \<Rightarrow>
          (case rListAllPvcs R (tr @ [KListPods]) of
             Inl e \<Rightarrow> (Err (WrapErr ''failed to list broker pvcs that belong to Kafka cluster'' e), tr @ [KListPods, KListAllPvcs])
           | Inr pvcs \<Rightarrow> (Ret (running_brokers pods, bound_brokers pvcs), tr @ [KListPods, KListAllPvcs])))"

definition determineControllerId :: "renv \<Rightarrow> ktrace \<Rightarrow> (err + 32 word) \<times> ktrace" where
  "determineControllerId R tr =
     (case kKafkaClient (rK R) tr of
        Some e \<Rightarrow> (Inl (WrapErr ''could not create Kafka client, thus could not determine controller'' e), tr @ [KKafkaClient])
      | None \<Rightarrow>
          (case rDescribeCluster R (tr @ [KKafkaClient]) of
             Inl e \<Rightarrow> (Inl (WrapErr ''could not find controller broker'' e), tr @ [KKafkaClient, KDescribeCluster])
           | Inr i \<Rightarrow> (Inr i, tr @ [KKafkaClient, KDescribeCluster])))"

definition choose_cluster_id :: "renv \<Rightarrow> KafkaCluster \<Rightarrow> ktrace \<Rightarrow> KafkaCluster" where
  "choose_cluster_id R c tr =
     (let env = (case find (\<lambda>e. envName e = ''CLUSTER_ID'') (specEnvs (kcSpec c)) of None \<Rightarrow> [] | Some e \<Rightarrow> envValue e)
      in c\<lparr>ClusterID := (if env = [] then rRandomClusterID R tr else env)\<rparr>)"

definition kraft_phase :: "renv \<Rightarrow> listener_statuses \<Rightarrow> KafkaCluster \<Rightarrow> ktrace \<Rightarrow> string list step" where
  "kraft_phase R ctls c tr =
     st_bind (if ClusterID c = [] then
         status_step (\<lambda>_. NewErr ''could not update ClusterID status'') (status_or_update (rK R) (choose_cluster_id R c tr) tr)
       else (Ret (), c, tr)) (\<lambda>_ c1 tr1.
       st_wrap ''failed to generate quorum voters configuration'' (generateQuorumVoters R c1 ctls, c1, tr1))"

text \<open>In KRaft mode the controller is not taken into account for the order of the brokers.\<close>

definition order_phase :: "renv \<Rightarrow> listener_statuses \<Rightarrow> KafkaCluster \<Rightarrow> ktrace \<Rightarrow> (string list \<times> Broker list) step" where
  "order_phase R ctls c tr =
     st_bind (lift_io c (list_phase R tr)) (\<lambda>(running, bound) c1 tr1.
       (case determineControllerId R tr1 of (r, tr2) \<Rightarrow>
          let controllerID = (case r of Inl e \<Rightarrow> -1 | Inr i \<Rightarrow> i);
              order = (\<lambda>i c. reorderBrokers (rK R) running bound (Brokers (kcSpec c)) (BrokersState c) i) in
          if KRaftMode (kcSpec c1) then st_bind (kraft_phase R ctls c1 tr2) (\<lambda>voters c2 tr3. (Ret (voters, order (-1) c2), c2, tr3))
          else (Ret ([], order controllerID c1), c1, tr2)))"

definition service_removal :: "renv \<Rightarrow> KafkaCluster \<Rightarrow> ktrace \<Rightarrow> unit step" where
  "service_removal R c tr =
     (if HeadlessServiceEnabled (kcSpec c)
      then st_wrap ''failed to delete non-headless services for all of the brokers'' (lift_io c (deleteNonHeadlessServices R c tr))
      else st_wrap ''failed to delete headless service'' (lift_io c (deleteHeadlessService R c tr)))"

definition broker_phase :: "renv \<Rightarrow> conf_input \<Rightarrow> Broker list \<Rightarrow> KafkaCluster \<Rightarrow> ktrace \<Rightarrow> unit step" where
  "broker_phase R inp brokers c tr =
     st_bind (reconcile_brokers R inp brokers c tr) (\<lambda>succeeded c1 tr1.
       if \<not> succeeded then (Err (NewErr ''setting dynamic configs for some brokers has failed''), c1, tr1)
       else st_bind (lift_io c1 (reconcileClusterWideDynamicConfig R c1 tr1)) (\<lambda>_ c2 tr2. service_removal R c2 tr2))"

definition reconcile_rest :: "renv \<Rightarrow> KafkaCluster \<Rightarrow> ktrace \<Rightarrow> unit step" where
  "reconcile_rest R c tr =
     st_bind (listener_phase R c tr) (\<lambda>(ext, ints, ctls) c1 tr1.
     st_bind (lift_io c1 (getPasswordKeysAndSuperUsers R c1 tr1)) (\<lambda>(clientPass, serverPasses, superUsers) c2 tr2.
     st_bind (claim_phase R c2 tr2) (\<lambda>valid c3 tr3.
       if \<not> valid then (Ret (), c3, tr3)
       else st_bind (order_phase R ctls c3 tr3) (\<lambda>(voters, brokers) c4 tr4.
         broker_phase R \<lparr>inQuorumVoters = voters, inExt = ext, inInt = ints, inCtl = ctls, inServerPasses = serverPasses,
           inClientPass = clientPass, inSuperUsers = superUsers\<rparr> brokers c4 tr4))))"

definition Kafka_Reconcile :: "renv \<Rightarrow> KafkaCluster \<Rightarrow> ktrace \<Rightarrow> unit step" where
  "Kafka_Reconcile R c tr =
     (case UpdateBrokerConfigurationBackup (rK R) c tr of
        (Panic, c0, tr0) \<Rightarrow> (Panic, c0, tr0)
      | (_, c0, tr0) \<Rightarrow>
          st_bind (service_phase R c0 tr0) (\<lambda>_ c1 tr1.
          st_bind (budget_phase R c1 tr1) (\<lambda>_ c2 tr2.
          st_bind (st_wrap ''failed to reconcile resource'' (reconcileKafkaPodDelete (rK R) c2 tr2)) (\<lambda>_ c3 tr3.
            reconcile_rest R c3 tr3))))"

end
