(* ===== verification/KafkaReconcileFacts.thy ===== *)
theory KafkaReconcileFacts
  imports KafkaReconcile
begin

text \<open>
  What one reconcile of the brokers does to pods and services: a pod is created only for a broker that has none and deleted, outside the removal of
  brokers, only by the rolling upgrade; the services of the other addressing scheme are deleted last, after every broker has been reconciled.

  The locale \<open>event_class\<close> states what a class of events has to contain so that the calls that leave pods and services alone stay
  within it; \<open>pod_class\<close> extends it by the pods.
\<close>

section \<open>Classes of events\<close>

definition emits :: "(kevent \<Rightarrow> bool) \<Rightarrow> ktrace \<Rightarrow> ktrace \<Rightarrow> bool" where
  "emits P tr tr' \<longleftrightarrow> (\<exists>d. tr' = tr @ d \<and> (\<forall>e \<in> set d. P e))"

lemma emits_refl [simp]: "emits P tr tr"
  by (simp add: emits_def)

lemma emits_append: "\<forall>e \<in> set d. P e \<Longrightarrow> emits P tr (tr @ d)"
  by (auto simp: emits_def)

lemma emits_trans: "emits P a b \<Longrightarrow> emits P b c \<Longrightarrow> emits P a c"
  by (fastforce simp: emits_def)

lemma emits_mono: "emits P a b \<Longrightarrow> (\<And>e. P e \<Longrightarrow> Q e) \<Longrightarrow> emits Q a b"
  by (auto simp: emits_def)

lemma emits_in: "emits P tr (tr @ d) \<Longrightarrow> e \<in> set d \<Longrightarrow> P e"
  by (auto simp: emits_def)

fun calm :: "kevent \<Rightarrow> bool" where
  "calm (KCreatePod p) = False"
| "calm (KDeletePod p) = False"
| "calm (KDeleteService n) = False"
| "calm _ = True"

definition io_emits :: "(kevent \<Rightarrow> bool) \<Rightarrow> ktrace \<Rightarrow> 'a \<times> ktrace \<Rightarrow> bool" where
  "io_emits P tr m \<longleftrightarrow> emits P tr (snd m)"

definition st_emits :: "(kevent \<Rightarrow> bool) \<Rightarrow> ktrace \<Rightarrow> 'a \<times> KafkaCluster \<times> ktrace \<Rightarrow> bool" where
  "st_emits P tr m \<longleftrightarrow> emits P tr (snd (snd m))"

lemma io_emits_pair [simp]: "io_emits P tr (r, tr') \<longleftrightarrow> emits P tr tr'"
  by (simp add: io_emits_def)

lemma st_emits_pair [simp]: "st_emits P tr (r, c, tr') \<longleftrightarrow> emits P tr tr'"
  by (simp add: st_emits_def)

lemma io_emits_apfst [simp]: "io_emits P tr (apfst f m) \<longleftrightarrow> io_emits P tr m"
  by (cases m) simp

lemma st_emits_simps [simp]:
  "st_emits P tr (lift_io c m) \<longleftrightarrow> io_emits P tr m"
  "st_emits P tr (st_wrap msg n) \<longleftrightarrow> st_emits P tr n"
  "st_emits P tr (status_step f s) \<longleftrightarrow> st_emits P tr s"
  by (simp_all add: lift_io_def st_wrap_def status_step_def st_emits_def io_emits_def)

lemma io_bind_emits:
  assumes "io_emits P tr m" "\<And>x tr1. m = (Ret x, tr1) \<Longrightarrow> io_emits P tr1 (f x tr1)"
  shows "io_emits P tr (io_bind m f)"
proof -
  obtain r tr1 where m: "m = (r, tr1)" by (cases m)
  then show ?thesis using assms by (cases r) (auto simp: io_emits_def intro: emits_trans)
qed

lemma st_bind_emits:
  assumes "st_emits P tr m" "\<And>x c1 tr1. m = (Ret x, c1, tr1) \<Longrightarrow> st_emits P tr1 (f x c1 tr1)"
  shows "st_emits P tr (st_bind m f)"
proof -
  obtain r c1 tr1 where m: "m = (r, c1, tr1)" by (cases m)
  then show ?thesis using assms by (cases r) (auto simp: st_emits_def intro: emits_trans)
qed

lemma st_emits_after: "emits P tr tr1 \<Longrightarrow> st_emits P tr1 m \<Longrightarrow> st_emits P tr m"
  unfolding st_emits_def by (rule emits_trans)

lemma io_emitsD: "m = (r, tr') \<Longrightarrow> io_emits P tr m \<Longrightarrow> emits P tr tr'" by simp
lemma st_emitsD: "m = (r, c, tr') \<Longrightarrow> st_emits P tr m \<Longrightarrow> emits P tr tr'" by simp

locale event_class =
  fixes P :: "kevent \<Rightarrow> bool"
  assumes calm: "calm e \<Longrightarrow> P e"
begin

lemma snoc [simp, intro]: "calm e \<Longrightarrow> emits P tr (tr @ [e])"
  by (rule emits_append) (simp add: calm)

lemma snoc2: "emits P tr tr1 \<Longrightarrow> calm e \<Longrightarrow> emits P tr (tr1 @ [e])"
  using emits_trans snoc by blast

lemma after: "emits P (tr @ [e]) tr' \<Longrightarrow> calm e \<Longrightarrow> emits P tr tr'"
  using emits_trans snoc by blast

lemma after_all: "emits P (tr @ d) tr' \<Longrightarrow> \<forall>e \<in> set d. calm e \<Longrightarrow> emits P tr tr'"
  using emits_trans [OF emits_append] calm by blast

lemma snoc3: "emits P tr tr1 \<Longrightarrow> calm e \<Longrightarrow> calm e' \<Longrightarrow> emits P tr (tr1 @ [e, e'])"
  using emits_trans emits_append [of "[e, e']"] calm by simp

lemma two [simp]: "calm e \<Longrightarrow> calm e' \<Longrightarrow> emits P tr (tr @ [e, e'])"
  by (rule emits_append) (simp add: calm)

lemma write_status_emits: "st_emits P tr (write_status E f c tr)"
proof -
  obtain r c' tr' where w: "write_status E f c tr = (r, c', tr')" by (rule prod_cases3)
  then obtain d where d: "tr' = tr @ d" "\<forall>e \<in> set d. written e = None \<longrightarrow> (\<exists>n ns. e = KGetCluster n ns)"
    using write_status_events [OF w] by blast
  have "P e" if "e \<in> set d" for e using d(2) that by (cases e) (auto intro: calm)
  then show ?thesis using w d(1) by (auto simp: emits_def)
qed

lemma update_broker_emits: "st_emits P tr (update_broker R i v c tr)" "st_emits P tr (UpdateBrokerStatus E is c v tr)"
  by (simp_all add: update_broker_def UpdateBrokerStatus_def write_status_emits)

lemma status_or_update_emits: "st_emits P tr (status_or_update E c tr)"
proof -
  obtain r c' tr' where "status_or_update E c tr = (r, c', tr')" by (rule prod_cases3)
  then show ?thesis using status_or_update_events by fastforce
qed

lemma backup_emits: "backoff_ok (kBackoff E) \<Longrightarrow> st_emits P tr (UpdateBrokerConfigurationBackup E c tr)"
  unfolding UpdateBrokerConfigurationBackup_def st_emits_def
  by (rule RetryOnConflict_invariant [where I = "\<lambda>s. emits P tr (snd s)"])
     (auto simp: backup_attempt_def kcall_def Let_def intro!: snoc2 snoc3 split: prod.splits go.splits bool.splits sum.splits option.splits if_splits)

lemma config_changed_emits: "st_emits P tr (config_changed R i a b c tr)"
  unfolding config_changed_def by (auto intro: st_emitsD [OF _ update_broker_emits(2)] split: prod.splits)

lemma track_config_emits: "st_emits P tr (track_config R cur d c tr)"
  unfolding track_config_def by (auto simp: config_changed_emits split: option.split go.split)

lemma create_object_emits: "io_emits P tr (create_object R d tr)"
  unfolding create_object_def by (auto split: option.split)

lemma update_object_emits: "st_emits P tr (update_object R cur d c tr)"
  unfolding update_object_def Let_def
  by (auto split: option.split simp: st_emits_def intro: emits_trans [OF snoc track_config_emits [unfolded st_emits_def]])

lemma k8s_Reconcile_emits: "st_emits P tr (k8s_Reconcile R d c tr)" and reconcile_object_emits: "st_emits P tr (reconcile_object R d c tr)"
proof -
  have "st_emits P tr (k8s_Reconcile R d c tr)" for c
    unfolding k8s_Reconcile_def Let_def
    using create_object_emits [of "tr @ [KGetObject (obj_kind d) (gmName (obj_meta d))]" R d]
    by (auto simp: st_emits_def io_emits_def intro: after after [OF update_object_emits [unfolded st_emits_def]] split: sum.split prod.split)
  then show "st_emits P tr (k8s_Reconcile R d c tr)" "st_emits P tr (reconcile_object R d c tr)" by (simp_all add: reconcile_object_def)
qed

lemma get_service_emits: "io_emits P tr (get_service R n tr)"
  by (simp add: get_service_def)

lemma nodeport_emits: "io_emits P tr (getK8sAssignedNodeport R c n i tr)"
  unfolding getK8sAssignedNodeport_def by (rule io_bind_emits) (simp_all add: get_service_emits Let_def)

lemma node_address_emits: "io_emits P tr (getK8sAssignedNodeAddress R i t tr)"
proof -
  have "emits P tr (tr @ [KListBrokerPods (Itoa (sint i)), e])" if "calm e" for e using that by simp
  then show ?thesis unfolding getK8sAssignedNodeAddress_def getK8sNodeIP_def Let_def
    by (auto split: prod.split option.split list.split sum.split)
qed

lemma broker_host_emits: "io_emits P tr (getBrokerHost R c h b l ic tr)"
  unfolding getBrokerHost_def Let_def node_port_host_def
  by (auto intro!: io_bind_emits simp: nodeport_emits split: sum.split option.split prod.split go.split intro: io_emitsD [OF _ node_address_emits])

lemma lb_service_emits: "io_emits P tr (find_lb_service R c n i tr)"
  by (simp add: find_lb_service_def getServiceFromExternalListener_def get_service_emits)

lemma broker_statuses_emits: "io_emits P tr (broker_statuses R c l d n ic h bs tr)"
proof (induction bs arbitrary: tr)
  case (Cons b bs)
  show ?case by (auto intro!: io_bind_emits simp: broker_host_emits Cons split: sum.split)
qed simp

lemma ingress_statuses_emits: "io_emits P tr (ingress_statuses R c l d ics st acc tr)"
proof (induction ics arbitrary: st acc tr)
  case (Cons x ics)
  have h: "io_emits P tr (ingress_host R c l n ic st tr)" for n ic st tr
    unfolding ingress_host_def by (auto intro!: io_bind_emits simp: lb_service_emits)
  have a: "io_emits P tr (any_broker_status R c l n st tr)" for n st tr
    unfolding any_broker_status_def by (auto intro!: io_bind_emits simp: lb_service_emits Let_def split: option.split)
  obtain n ic where x: "x = (n, ic)" by (cases x)
  show ?case unfolding x ingress_statuses.simps
    by (rule io_bind_emits, simp) (auto intro!: io_bind_emits simp: h a broker_statuses_emits Cons)
qed simp

lemma external_statuses_emits: "external_statuses R c ls ext tr = (r, ls', tr') \<Longrightarrow> emits P tr tr'"
proof (induction ls arbitrary: ext tr r ls' tr')
  case (Cons l ls)
  have i: "emits P tr tr'" if "ingress_statuses R c l d ics st acc tr = (r, tr')" for d ics st acc tr r tr'
    using io_emitsD [OF that ingress_statuses_emits] .
  show ?case using Cons.prems by (auto intro: emits_trans dest!: i Cons.IH split: prod.splits sum.splits go.splits if_splits)
qed simp

lemma listener_phase_emits: "st_emits P tr (listener_phase R c tr)"
proof -
  have "st_emits P tr (createExternalListenerStatuses R c tr)" for c tr
    by (auto simp: createExternalListenerStatuses_def intro: external_statuses_emits split: prod.split)
  then show ?thesis unfolding listener_phase_def
    by (auto intro!: st_bind_emits simp: UpdateListenerStatuses_def write_status_emits split: option.split)
qed

lemma cert_secret_emits: "io_emits P tr (get_cert_secret R a b m tr)"
  unfolding get_cert_secret_def Let_def by (auto split: sum.split option.split)

lemma listener_password_emits: "io_emits P tr (listener_password R c n s st tr)"
  unfolding listener_password_def Let_def
  by (auto intro!: io_bind_emits simp: getListenerSSLCertSecret_def cert_secret_emits)

lemma internal_passwords_emits: "io_emits P tr (internal_passwords R c ls st tr)"
proof (induction ls arbitrary: st tr)
  case (Cons l ls)
  show ?case by (auto intro!: io_bind_emits simp: listener_password_emits Cons)
qed simp

lemma external_passwords_emits: "io_emits P tr (external_passwords R c ls st tr)"
proof (induction ls arbitrary: st tr)
  case (Cons l ls)
  show ?case by (auto intro!: io_bind_emits simp: listener_password_emits Cons)
qed simp

lemma passwords_emit: "io_emits P tr (getPasswordKeysAndSuperUsers R c tr)"
  unfolding getPasswordKeysAndSuperUsers_def getServerPasswordKeysAndUsers_def getClientPasswordKeyAndUser_def
  by (auto intro!: io_bind_emits simp: internal_passwords_emits external_passwords_emits cert_secret_emits)

lemma pvc_steps_emit: "io_emits P tr (create_pvc E d tr)" "io_emits P tr (update_pvc E cur d tr)"
  by (auto simp: create_pvc_def update_pvc_def Let_def split: option.split)

lemma reconcile_pvcs_emits: "io_emits P tr (reconcile_pvcs E c i ds vs tr)"
proof (induction ds arbitrary: vs tr)
  case (Cons d ds)
  have cr: "emits P tr tr'" if "create_pvc E d (tr @ [KListPvcs i]) = (r, tr')" for r tr'
    using after io_emitsD [OF that pvc_steps_emit(1)] by simp
  have up: "emits P tr tr'" if "update_pvc E cur d (tr @ [KListPvcs i]) = (r, tr')" for cur r tr'
    using after io_emitsD [OF that pvc_steps_emit(2)] by simp
  show ?case using Cons.IH
    by (auto simp: io_emits_def Let_def intro: emits_trans dest!: cr up split: sum.split option.split prod.split go.split)
qed simp

lemma disk_removal_emits: "st_emits P tr (disk_removal E i desired pvcs wait vs c tr)"
proof (induction pvcs arbitrary: wait vs c tr)
  case (Cons p ps)
  have "emits P tr tr'" if "DeleteVolumeStatus E i (pvcMountPath p) c (tr @ [KDeletePvc (pvcName p)]) = (r, c', tr')" for r c' tr'
    using after st_emitsD [OF that [unfolded DeleteVolumeStatus_def] write_status_emits] by simp
  then show ?case using Cons.IH
    by (auto simp: st_emits_def Let_def intro: emits_trans split: option.split prod.split)
qed simp

lemma pvc_brokers_emits: "st_emits P tr (pvc_brokers E M bs wait vss c tr)"
proof (induction bs arbitrary: wait vss c tr)
  case (Cons b bs)
  obtain i desired where b: "b = (i, desired)" by (cases b)
  have rm: "emits P tr tr'" if "remove_disks E i items desired wait c (tr @ [KListPvcs i]) = (r, c', tr')" for items wait c r c' tr'
    using that by (auto simp: remove_disks_def handleDiskRemoval_def intro: after [OF st_emitsD [OF _ disk_removal_emits]] split: if_splits)
  have rp: "emits P tr tr'" if "reconcile_pvcs E c i desired vs tr = (r, tr')" for c vs tr r tr'
    using io_emitsD [OF that reconcile_pvcs_emits] .
  show ?case unfolding b using Cons.IH
    by (auto simp: st_emits_def Let_def intro: emits_trans dest!: rm rp split: sum.split go.split prod.split)
qed simp

lemma reconcileKafkaPvc_emits: "st_emits P tr (reconcileKafkaPvc E M ps c tr)"
proof -
  have p: "emits P tr tr'" if "pvc_brokers E M ps False [] c tr = (r, c', tr')" for r c' tr'
    using st_emitsD [OF that pvc_brokers_emits] .
  have u: "emits P tr tr'" if "UpdateBrokerStatus E is c v tr = (r, c', tr')" for "is" c v tr r c' tr'
    using st_emitsD [OF that update_broker_emits(2)] .
  show ?thesis unfolding reconcileKafkaPvc_def
    by (auto intro: emits_trans dest!: p u split: prod.split go.split option.split if_splits)
qed

lemma claim_phase_emits: "st_emits P tr (claim_phase R c tr)"
  unfolding claim_phase_def by (auto intro!: st_bind_emits simp: reconcileKafkaPvc_emits split: option.split)

lemma order_phase_emits: "st_emits P tr (order_phase R ctls c tr)"
proof -
  have l: "io_emits P tr (list_phase R tr)" for tr unfolding list_phase_def by (auto split: sum.split)
  have k: "st_emits P tr (kraft_phase R ctls c tr)" for c tr
    unfolding kraft_phase_def by (auto intro!: st_bind_emits simp: status_or_update_emits)
  have d: "emits P tr tr'" if "determineControllerId R tr = (r, tr')" for tr r tr'
    using that by (auto simp: determineControllerId_def split: option.splits sum.splits)
  have t: "st_emits P tr (st_bind (kraft_phase R ctls c1 tr2) (\<lambda>v c2 tr3. (f v c2, c2, tr3)))"
    if "determineControllerId R tr = (r, tr2)" for c1 tr r tr2 and f :: "string list \<Rightarrow> KafkaCluster \<Rightarrow> (err, string list \<times> Broker list) go"
    by (rule st_emits_after [OF d [OF that] st_bind_emits [OF k]]) simp
  show ?thesis unfolding order_phase_def Let_def by (rule st_bind_emits) (auto simp: l intro: t d split: prod.split)
qed

lemma services_emit: "st_emits P tr (service_phase R c tr)" "st_emits P tr (budget_phase R c tr)" "st_emits P tr (broker_service R b c tr)"
  unfolding service_phase_def budget_phase_def broker_service_def by (auto intro!: st_bind_emits simp: reconcile_object_emits)

lemma configMap_emits: "io_emits P tr (configMap R c b bc i tr)"
proof -
  have "io_emits P tr (getConfigProperties R c bc b i tr)" unfolding getConfigProperties_def by (auto split: go.split)
  then show ?thesis unfolding configMap_def generateBrokerConfig_def io_emits_def by (auto split: go.split prod.split)
qed

lemma broker_config_map_emits: "st_emits P tr (broker_config_map R b bc i c tr)"
  unfolding broker_config_map_def by (auto intro!: st_bind_emits simp: configMap_emits reconcile_object_emits)

lemma alter_emits: "st_emits P tr (alter_broker R i full c tr)"
proof -
  have s: "emits P tr tr'" if "set_per_broker_state R i c s tr = (r, c', tr')" for c s tr r c' tr'
    using st_emitsD [OF that [unfolded set_per_broker_state_def] update_broker_emits(2)] .
  have "emits P tr (tr @ d)" if "\<forall>e \<in> set d. calm e" for d using that by (auto intro: emits_append calm)
  then show ?thesis unfolding alter_broker_def Let_def
    by (auto intro: after_all dest!: s split: option.split sum.split prod.split) (erule after_all, simp)
qed

lemma dynamic_emits: "st_emits P tr (reconcilePerBrokerDynamicConfig R i bc m c tr)"
proof -
  have s: "emits P tr tr'" if "set_per_broker_state R i c s tr = (r, c', tr')" for c s tr r c' tr'
    using st_emitsD [OF that [unfolded set_per_broker_state_def] update_broker_emits(2)] .
  have sync: "st_emits P tr (sync_broker_config R i st full c tr)" for st full c tr
    unfolding sync_broker_config_def Let_def
    by (auto simp: st_emits_def intro: after emits_trans [OF after alter_emits [unfolded st_emits_def]] after [OF alter_emits [unfolded st_emits_def]]
        dest!: s split: option.split sum.split prod.split)
  show ?thesis unfolding reconcilePerBrokerDynamicConfig_def Let_def
    by (auto simp: st_emits_def intro: after [OF sync [unfolded st_emits_def]] split: option.split go.split)
qed

end

interpretation cl: event_class calm
  by unfold_locales simp

section \<open>Pods\<close>

lemma create_pod_events:
  assumes "create_pod R p bc c tr = (r, c', tr')"
  shows "tr' = tr \<or> emits calm (tr @ [KCreatePod p]) tr'"
proof -
  have u: "st_emits calm tr (graceful_action R p c tr)" for c tr
    unfolding graceful_action_def Let_def by (auto simp: cl.update_broker_emits split: option.split)
  have "st_emits calm (tr @ [KCreatePod p])
      (st_bind (update_broker R i v1 c (tr @ [KCreatePod p])) (\<lambda>_ c1 tr1. st_bind (update_broker R i v2 c1 tr1) (\<lambda>_ c2 tr2.
         st_bind (update_broker R i v3 c2 tr2) (\<lambda>_ c3 tr3. graceful_action R p c3 tr3))))" for i v1 v2 v3
    by (intro st_bind_emits cl.update_broker_emits u)
  then show ?thesis using assms
    by (auto simp: create_pod_def Let_def st_emits_def split: option.splits) (metis snd_conv)
qed

lemma upgrade_events:
  assumes "handleRollingUpgrade E c d q tr = (r, c', tr')"
  shows "\<exists>mid. emits calm tr mid \<and> (tr' = mid \<or> tr' = mid @ [KDeletePod q])"
proof -
  have st: "emits calm tr tr'" if "upgrade_state E c q tr = (r, c', tr')" for c tr r c' tr'
    using that st_emitsD [OF _ cl.write_status_emits]
    by (auto simp: upgrade_state_def UpdateCRStatus_def split: if_splits option.splits prod.splits)
  have all: "emits calm tr (tr @ d)" if "\<forall>e \<in> set d. calm e" for tr d using that by (rule emits_append)
  have goal: "emits calm tr tr'" if "upgrade_goal E n pods tr = (r, tr')" for n pods tr r tr'
    using that by (auto simp: upgrade_goal_def checkCCRackAwareDistributionGoal_def Let_def intro!: all split: if_splits option.splits sum.splits)
  have health: "emits calm tr tr'" if "upgrade_health E c az azs tr = (r, tr')" for c az azs tr r tr'
    using that by (auto simp: upgrade_health_def Let_def intro!: all split: if_splits option.splits sum.splits)
  have checks: "emits calm tr tr'" if "upgrade_checks E c q tr = (r, tr')" for c tr r tr'
    using that by (auto simp: upgrade_checks_def Let_def intro: cl.after emits_trans dest!: goal health split: if_splits sum.splits prod.splits go.splits)
  have del: "tr' = tr @ [KDeletePod q]" if "delete_pod E q tr = (r, tr')" for tr r tr'
    using that by (auto simp: delete_pod_def split: option.splits)
  show ?thesis using assms
    by (auto simp: handleRollingUpgrade_def Let_def dest!: st checks del intro: emits_trans split: if_splits option.splits prod.splits go.splits)
      (rule exI [of _ tr], simp)+
qed

lemma record_rack_emits: "st_emits calm tr (record_rack R q c tr)"
proof -
  have "emits calm tr tr'" if "UpdateCrWithRackAwarenessConfig R q labels c tr = (x, c', tr')" for labels x c' tr'
    using that by (auto simp: UpdateCrWithRackAwarenessConfig_def getSpecificNodeLabels_def kcall_def Let_def split: sum.splits prod.splits)
  then show ?thesis unfolding record_rack_def Let_def
    by (auto simp: st_emits_def intro: emits_trans [OF _ cl.update_broker_emits(1) [unfolded st_emits_def]] split: option.split prod.split)
qed

lemma existing_pod_events:
  assumes "existing_pod R d q c tr = (r, c', tr')"
  shows "\<exists>mid. emits calm tr mid \<and> (tr' = mid \<or> tr' = mid @ [KDeletePod q])"
proof (cases "map_of (BrokersState c) (pod_label q BrokerIdLabelKey)")
  case (Some st)
  obtain r1 c1 tr1 where k: "record_rack R q c tr = (r1, c1, tr1)" by (rule prod_cases3)
  have e: "emits calm tr tr1" using st_emitsD [OF k record_rack_emits] .
  obtain r2 c2 tr2 where h: "handleRollingUpgrade (rK R) c1 d q tr1 = (r2, c2, tr2)" by (rule prod_cases3)
  have "tr' = tr1 \<or> tr' = tr2" using assms Some k h by (cases r1) (auto simp: existing_pod_def st_wrap_def)
  then show ?thesis using e upgrade_events [OF h] emits_trans [OF e] by blast
qed (use assms emits_refl in \<open>fastforce simp: existing_pod_def\<close>)

text \<open>A class that contains the events of pods as well.\<close>

locale pod_class = event_class +
  assumes pods: "P (KCreatePod p)" "P (KDeletePod p)"
begin

lemma lift: "emits calm a b \<Longrightarrow> emits P a b"
  using emits_mono [of calm a b P] calm by blast

lemma reconcileKafkaPod_emits: "st_emits P tr (reconcileKafkaPod R d bc c tr)"
proof -
  let ?t = "tr @ [KListBrokerPods (pod_label d BrokerIdLabelKey)]"
  have t: "emits P tr ?t" by simp
  obtain r c' tr' where k: "create_pod R d bc c ?t = (r, c', tr')" by (rule prod_cases3)
  have cr: "st_emits P ?t (create_pod R d bc c ?t)"
    using create_pod_events [OF k] k lift emits_trans [OF emits_append [of "[KCreatePod d]"]] pods(1) by auto
  have ex: "st_emits P ?t (existing_pod R d q c ?t)" for q
  proof -
    obtain r c' tr' where e: "existing_pod R d q c ?t = (r, c', tr')" by (rule prod_cases3)
    then obtain mid where "emits P ?t mid" "tr' = mid \<or> tr' = mid @ [KDeletePod q]" using existing_pod_events [OF e] lift by blast
    then show ?thesis using e emits_trans [OF _ emits_append [of "[KDeletePod q]"]] pods(2) by auto
  qed
  show ?thesis unfolding reconcileKafkaPod_def Let_def
    by (auto intro: st_emits_after [OF t cr] st_emits_after [OF t ex] split: prod.split option.split list.split)
qed

lemma broker_step_emits: "st_emits P tr (broker_step R inp b c tr)"
proof -
  have c: "io_emits P tr (getCreatedPvcForBroker R i ss tr)" for i ss tr
    unfolding getCreatedPvcForBroker_def Let_def by (auto split: sum.split)
  have v: "st_emits P tr (updateStatusWithDockerImageAndVersion R i bc c tr)" for i bc c tr
    unfolding updateStatusWithDockerImageAndVersion_def
    by (rule st_bind_emits) (auto simp: ExtractDockerImageAndVersion_def update_broker_emits split: prod.split)
  have d: "st_emits P tr (dynamic_config R b bc m c tr)" for bc m c tr
    using dynamic_emits [of tr R "BrokerId b" bc m c] unfolding dynamic_config_def by (auto split: prod.split go.split)
  show ?thesis unfolding broker_step_def
    by (auto split: sum.split option.split intro!: st_bind_emits simp: broker_config_map_emits c services_emit reconcileKafkaPod_emits v d)
qed

lemma brokers_emit: "st_emits P tr (reconcile_brokers R inp bs c tr)"
proof (induction bs arbitrary: c tr)
  case (Cons b bs)
  show ?case by (auto intro!: st_bind_emits simp: broker_step_emits Cons)
qed simp

lemma cluster_wide_emits: "io_emits P tr (reconcileClusterWideDynamicConfig R c tr)"
proof -
  have "emits P tr (tr @ d)" if "\<forall>e \<in> set d. calm e" for d using that by (auto intro: emits_append calm)
  then show ?thesis unfolding reconcileClusterWideDynamicConfig_def alter_cluster_wide_def Let_def
    by (auto split: option.split sum.split go.split)
qed

end

definition no_service :: "kevent \<Rightarrow> bool" where
  "no_service e \<longleftrightarrow> (\<forall>n. e \<noteq> KDeleteService n)"

interpretation ns: pod_class no_service
proof unfold_locales
  show "no_service e" if "calm e" for e using that by (cases e) (auto simp: no_service_def)
qed (simp_all add: no_service_def)

section \<open>The order within a reconcile\<close>

text \<open>The pod phase of one broker, split at an event on pods or services.\<close>

lemma emits_split:
  assumes "emits P a (p @ e # q)" "prefix a p"
  shows "P e"
  using assms by (auto simp: emits_def prefix_def)

lemma emits_none:
  assumes "emits P a b" "prefix b (p @ e # q)" "prefix a p" "\<not> P e"
  shows "prefix b p"
proof -
  obtain d where d: "b = a @ d" "\<forall>x \<in> set d. P x" using assms(1) by (auto simp: emits_def)
  obtain x where x: "p = a @ x" using assms(3) by (auto simp: prefix_def)
  obtain s where "d @ s = x @ e # q" using assms(2) d(1) x by (auto simp: prefix_def)
  then consider us where "d = x @ us" "us @ s = e # q" | us where "x = d @ us"
    by (auto simp: append_eq_append_conv2)
  then show ?thesis
  proof cases
    case 1
    then have "us = []" using d(2) assms(4) by (cases us) auto
    then show ?thesis using 1 d(1) x by simp
  qed (simp add: d(1) x)
qed

lemma emits_end:
  assumes "emits P a b" "tr' = b \<or> tr' = b @ [x]" "tr' = p @ e # q" "prefix a p" "\<not> P e"
  shows "e = x \<and> b = p \<and> q = []"
proof -
  have "prefix b p" using emits_none [OF assms(1) _ assms(4,5)] assms(2,3) by (metis prefixI prefix_order.refl)
  then show ?thesis using assms(2,3) by (auto simp: prefix_def append_eq_append_conv2 append_eq_Cons_conv)
qed

text \<open>(C10) Creation and deletion of a pod: while the pod of a broker is reconciled, the first call lists the pods of the broker; a pod is created
  only when there is none, it is the desired one, and it is created right after the listing, once; a pod is deleted only when it is the only one
  that was listed, and that is the last call. No service is deleted.\<close>

theorem broker_pod_guarded:
  assumes "reconcileKafkaPod R p bc c tr = (r, c', tr @ pre @ e # post)" "\<not> calm e"
  shows "(e = KCreatePod p \<and> rListBrokerPods R tr (pod_label p BrokerIdLabelKey) = (None, []) \<and>
      pre = [KListBrokerPods (pod_label p BrokerIdLabelKey)] \<and> (\<forall>x \<in> set post. calm x)) \<or>
    (\<exists>q er. e = KDeletePod q \<and> rListBrokerPods R tr (pod_label p BrokerIdLabelKey) = (er, [q]) \<and> (\<forall>x \<in> set pre. calm x) \<and> post = [])"
proof -
  let ?i = "pod_label p BrokerIdLabelKey"
  let ?t = "tr @ [KListBrokerPods ?i]"
  have hd: "prefix ?t (tr @ pre)" if "prefix ?t (tr @ pre @ e # post)"
    using emits_none [of calm tr ?t "tr @ pre" e post] that assms(2) by simp
  obtain er ps where l: "rListBrokerPods R tr ?i = (er, ps)" by (cases "rListBrokerPods R tr ?i")
  consider "ps = []" "er = None" | q where "ps = [q]" | "tr @ pre @ e # post = ?t"
    using assms(1) l by (auto simp: reconcileKafkaPod_def Let_def split: option.splits list.splits)
  then show ?thesis
  proof cases
    case 1
    then have k: "create_pod R p bc c ?t = (r, c', tr @ pre @ e # post)" using assms(1) l by (simp add: reconcileKafkaPod_def Let_def)
    then consider "tr @ pre @ e # post = ?t" | d where "tr @ pre @ e # post = ?t @ KCreatePod p # d" "\<forall>x \<in> set d. calm x"
      using create_pod_events [OF k] by (auto simp: emits_def)
    then show ?thesis
    proof cases
      case 2
      then have "pre @ e # post = KListBrokerPods ?i # KCreatePod p # d" by simp
      then show ?thesis using 2(2) l \<open>ps = []\<close> \<open>er = None\<close> assms(2) by (auto simp: append_eq_Cons_conv)
    qed (use assms(2) in \<open>auto simp: append_eq_Cons_conv\<close>)
  next
    case (2 q)
    then have k: "existing_pod R p q c ?t = (r, c', tr @ pre @ e # post)"
      using assms(1) l by (cases er) (simp_all add: reconcileKafkaPod_def Let_def)
    then obtain mid where mid: "emits calm ?t mid" "tr @ pre @ e # post = mid \<or> tr @ pre @ e # post = mid @ [KDeletePod q]"
      using existing_pod_events [OF k] by blast
    then have t: "prefix ?t (tr @ pre)" using hd by (auto simp: emits_def)
    have "e = KDeletePod q \<and> mid = tr @ pre \<and> post = []" by (rule emits_end [OF mid _ t assms(2)]) simp
    then show ?thesis using mid(1) l 2 by (auto simp: emits_def)
  qed (use assms(2) in \<open>auto simp: append_eq_Cons_conv\<close>)
qed

definition new_pod :: Pod where
  "new_pod = sample_pod ''0''"

theorem broker_pod_guarded_witness:
  "\<exists>r c' post. reconcileKafkaPod (sample_renv []) new_pod zero_BrokerConfig kafka_cluster [] =
     (r, c', [] @ [KListBrokerPods ''0''] @ KCreatePod new_pod # post) \<and> (\<forall>x \<in> set post. calm x)"
proof -
  let ?h = "reconcileKafkaPod (sample_renv []) new_pod zero_BrokerConfig kafka_cluster []"
  obtain r c' tr' where h: "?h = (r, c', tr')" by (rule prod_cases3)
  have "take 2 (snd (snd ?h)) = [KListBrokerPods ''0'', KCreatePod new_pod]" by code_simp
  then have t: "?h = (r, c', [] @ [KListBrokerPods ''0''] @ KCreatePod new_pod # drop 2 tr')"
    using h append_take_drop_id [of 2 tr'] by simp
  have "\<forall>x \<in> set (drop 2 tr'). calm x" using broker_pod_guarded [OF t] by simp
  then show ?thesis using t by blast
qed

lemma st_bind_Ret:
  assumes "st_bind m f = (Ret y, c', tr')"
  obtains x c1 tr1 where "m = (Ret x, c1, tr1)" "f x c1 tr1 = (Ret y, c', tr')"
  using assms by (cases "(m, f)" rule: st_bind.cases) auto

text \<open>A deletion of a service within a reconcile, in terms of the part of the trace before it.\<close>

definition deletes_under :: "(unit step \<Rightarrow> ktrace \<Rightarrow> bool) \<Rightarrow> ktrace \<Rightarrow> unit step \<Rightarrow> bool" where
  "deletes_under K tr m \<longleftrightarrow> prefix tr (snd (snd m)) \<and>
     (\<forall>p n q. snd (snd m) = p @ KDeleteService n # q \<longrightarrow> prefix tr p \<longrightarrow> K m p)"

lemma deletes_underD: "deletes_under K tr m \<Longrightarrow> snd (snd m) = p @ KDeleteService n # q \<Longrightarrow> prefix tr p \<Longrightarrow> K m p"
  by (auto simp: deletes_under_def)

lemma emits_prefix: "emits P a b \<Longrightarrow> prefix a b"
  by (auto simp: emits_def)

lemma deletes_none:
  assumes "st_emits no_service tr m"
  shows "deletes_under K tr m"
proof -
  have e: "emits no_service tr (snd (snd m))" using assms by (simp add: st_emits_def)
  have False if "snd (snd m) = p @ KDeleteService n # q" "prefix tr p" for p n q
    using emits_split [of no_service tr p "KDeleteService n" q] e that by (simp add: no_service_def)
  then show ?thesis unfolding deletes_under_def using emits_prefix [OF e] by blast
qed

lemma deletes_bind:
  assumes m: "st_emits no_service tr m" and f: "\<And>x c1 tr1. m = (Ret x, c1, tr1) \<Longrightarrow> deletes_under K tr1 (f x c1 tr1)"
  shows "deletes_under K tr (st_bind m f)"
proof -
  obtain r c1 tr1 where e: "m = (r, c1, tr1)" by (rule prod_cases3)
  have em: "emits no_service tr tr1" using m e by simp
  show ?thesis
  proof (cases r)
    case (Ret x)
    have d: "deletes_under K tr1 (f x c1 tr1)" using f e Ret by simp
    show ?thesis unfolding e Ret st_bind.simps deletes_under_def
    proof (intro conjI allI impI)
      show "prefix tr (snd (snd (f x c1 tr1)))" using d emits_prefix [OF em] prefix_order.trans by (auto simp: deletes_under_def)
      fix p n q assume a: "snd (snd (f x c1 tr1)) = p @ KDeleteService n # q" "prefix tr p"
      have "prefix tr1 (p @ KDeleteService n # q)" using d a(1) by (simp add: deletes_under_def)
      then have "prefix tr1 p" by (rule emits_none [OF em _ a(2)]) (simp add: no_service_def)
      then show "K (f x c1 tr1) p" by (rule deletes_underD [OF d a(1)])
    qed
  qed (use em e deletes_none [of tr] in simp_all)
qed

definition after_brokers :: "renv \<Rightarrow> unit step \<Rightarrow> ktrace \<Rightarrow> bool" where
  "after_brokers R m p \<longleftrightarrow> (\<exists>inp bs c4 tr4 c5 tr5 tr6. set (Brokers (kcSpec c4)) \<subseteq> set bs \<and> reconcile_brokers R inp bs c4 tr4 = (Ret True, c5, tr5) \<and>
     reconcileClusterWideDynamicConfig R c5 tr5 = (Ret (), tr6) \<and> prefix tr6 p \<and> m = service_removal R c5 tr6)"

lemma after_brokersI:
  "set (Brokers (kcSpec c4)) \<subseteq> set bs \<Longrightarrow> reconcile_brokers R inp bs c4 tr4 = (Ret True, c5, tr5) \<Longrightarrow>
   reconcileClusterWideDynamicConfig R c5 tr5 = (Ret (), tr6) \<Longrightarrow> prefix tr6 p \<Longrightarrow> after_brokers R (service_removal R c5 tr6) p"
  unfolding after_brokers_def by blast

lemma delete_if_exists_emits: "io_emits (\<lambda>_. True) tr (delete_if_exists R n tr)"
  by (simp add: delete_if_exists_def emits_append)

lemma delete_services_emits: "io_emits (\<lambda>_. True) tr (delete_services R ss tr)"
proof (induction ss arbitrary: tr)
  case (Cons s ss)
  show ?case by (auto intro!: io_bind_emits simp: delete_if_exists_emits Cons)
qed simp

lemma service_removal_prefix: "prefix tr (snd (snd (service_removal R c tr)))"
proof -
  have l: "io_emits (\<lambda>_. True) tr (delete_services R ss (tr @ d))" for ss d tr
    using delete_services_emits [of "tr @ d" R ss] emits_append [of d "\<lambda>_. True" tr] emits_trans unfolding io_emits_def by blast
  have "io_emits (\<lambda>_. True) tr (deleteNonHeadlessServices R c tr)"
    unfolding deleteNonHeadlessServices_def
    by (rule io_bind_emits [OF delete_if_exists_emits]) (simp add: l emits_append Let_def split: sum.split)
  then have "st_emits (\<lambda>_. True) tr (service_removal R c tr)"
    by (simp add: service_removal_def deleteHeadlessService_def delete_if_exists_emits)
  then show ?thesis by (simp add: st_emits_def emits_prefix)
qed

lemma reorder_set: "set (Brokers (kcSpec c)) \<subseteq> set (reorderBrokers E running bound (Brokers (kcSpec c)) states i)"
  by (auto simp: reorderBrokers_def Let_def)

lemma rest_deletes: "deletes_under (after_brokers R) tr (reconcile_rest R c tr)"
proof -
  have b: "deletes_under (after_brokers R) tr (broker_phase R inp bs c tr)" if bs: "set (Brokers (kcSpec c)) \<subseteq> set bs" for inp bs c tr
    unfolding broker_phase_def
  proof (rule deletes_bind [OF ns.brokers_emit])
    fix ok c1 tr1 assume r: "reconcile_brokers R inp bs c tr = (Ret ok, c1, tr1)"
    have "deletes_under (after_brokers R) tr1 (st_bind (lift_io c1 (reconcileClusterWideDynamicConfig R c1 tr1)) (\<lambda>_ c2 tr2. service_removal R c2 tr2))" if ok
    proof (rule deletes_bind)
      fix x c2 tr2 assume "lift_io c1 (reconcileClusterWideDynamicConfig R c1 tr1) = (Ret x, c2, tr2)"
      then have w: "reconcileClusterWideDynamicConfig R c1 tr1 = (Ret (), tr2)" "c2 = c1" by (cases "reconcileClusterWideDynamicConfig R c1 tr1"; simp add: lift_io_def)+
      show "deletes_under (after_brokers R) tr2 (service_removal R c2 tr2)"
        using after_brokersI [OF bs, of R inp tr c1 tr1 tr2] r \<open>ok\<close> w service_removal_prefix by (simp add: deletes_under_def)
    qed (simp add: ns.cluster_wide_emits)
    then show "deletes_under (after_brokers R) tr1 (if \<not> ok then (Err (NewErr ''setting dynamic configs for some brokers has failed''), c1, tr1)
       else st_bind (lift_io c1 (reconcileClusterWideDynamicConfig R c1 tr1)) (\<lambda>_ c2 tr2. service_removal R c2 tr2))"
      by (simp add: deletes_none)
  qed
  have o: "set (Brokers (kcSpec c')) \<subseteq> set bs" if "order_phase R ctls c tr = (Ret (v, bs), c', tr')" for ctls c tr v bs c' tr'
    using that
    by (cases "list_phase R tr"; cases "fst (list_phase R tr)")
       (auto simp: order_phase_def lift_io_def Let_def split: prod.splits if_splits elim!: st_bind_Ret intro: subsetD [OF reorder_set])
  show ?thesis unfolding reconcile_rest_def
    by (auto intro!: deletes_bind ns.listener_phase_emits ns.claim_phase_emits ns.order_phase_emits b o simp: ns.passwords_emit deletes_none)
qed

lemma pod_delete_prefix:
  assumes "reconcileKafkaPodDelete E c tr = (r, c', tr')"
  shows "prefix tr tr'"
proof -
  let ?tr1 = "tr @ [KListPods]"
  have after: "prefix tr t" if "prefix ?tr1 t" for t using that by (auto simp: prefix_def)
  consider "tr' = ?tr1" | pods r1 c1 tr1 where "mark_downscale E c pods ?tr1 = (r1, c1, tr1)" "tr' = tr1 \<or> delete_brokers E pods c1 tr1 = (r, c', tr')"
    using assms by (auto simp: reconcileKafkaPodDelete_def Let_def split: sum.splits prod.splits go.splits if_splits)
  then show ?thesis
  proof cases
    case 2
    have "prefix tr tr1" by (rule after [OF runs_prefix [OF mark_downscale_runs [OF 2(1)]]])
    moreover have "prefix tr1 tr'" using 2(2) runs_prefix [OF delete_brokers_runs [OF _ subset_refl le_refl]] by blast
    ultimately show ?thesis by (rule prefix_order.trans)
  qed simp
qed

lemma removal_deletes:
  "deletes_under (\<lambda>m p. (\<exists>c2 tr2 r3 c3 tr3. reconcileKafkaPodDelete (rK R) c2 tr2 = (r3, c3, tr3) \<and> prefix tr2 p \<and> strict_prefix p tr3) \<or> after_brokers R m p)
     tr (st_bind (st_wrap msg (reconcileKafkaPodDelete (rK R) c tr)) (\<lambda>_ c3 tr3. reconcile_rest R c3 tr3))"
    (is "deletes_under ?K tr ?m")
proof -
  obtain r3 c3 tr3 where d: "reconcileKafkaPodDelete (rK R) c tr = (r3, c3, tr3)" by (rule prod_cases3)
  have pre: "prefix tr tr3" by (rule pod_delete_prefix [OF d])
  have tail: "prefix tr3 (snd (snd ?m)) \<and> (\<forall>p n q. snd (snd ?m) = p @ KDeleteService n # q \<longrightarrow> prefix tr3 p \<longrightarrow> after_brokers R ?m p)"
    using rest_deletes [of R tr3 c3] by (cases r3) (auto simp: d st_wrap_def wrap_go_def deletes_under_def)
  have "?K ?m p" if "snd (snd ?m) = p @ KDeleteService n # q" "prefix tr p" for p n q
  proof (cases "prefix tr3 p")
    case False
    have "prefix p (snd (snd ?m))" using that(1) by simp
    then have "strict_prefix p tr3" using tail False prefix_same_cases [of p _ tr3] by (auto simp: strict_prefix_def)
    then show ?thesis using d that(2) by blast
  qed (use tail that in blast)
  then show ?thesis using tail pre prefix_order.trans unfolding deletes_under_def by blast
qed


text \<open>A cluster with one broker whose rack is not known yet, and its reconcile.\<close>

definition one_broker :: KafkaCluster where
  "one_broker = kafka_cluster\<lparr>kcSpec := (kcSpec kafka_cluster)\<lparr>HeadlessServiceEnabled := False, RackAwareness := Some [''zone''],
     Brokers := [broker_node 0]\<rparr>\<rparr>"


lemma NewFromString_code [code]: "NewFromString s = (if s = [] then Ret NewProperties else Load [] s)"
  using NewFromString_empty by (simp add: NewFromString_def)


text \<open>That reconcile succeeds and creates the pod of the broker.\<close>

lemma one_broker_pod: "fst (Kafka_Reconcile (sample_renv []) one_broker []) = Ret () \<and>
  list_ex (\<lambda>e. case e of KCreatePod p \<Rightarrow> pod_label p BrokerIdLabelKey = ''0'' | _ \<Rightarrow> False) (snd (snd (Kafka_Reconcile (sample_renv []) one_broker [])))"
  by code_simp

text \<open>A storage with neither a claim nor an empty directory is meant to be an error. The error that is wrapped is nil, so the reconcile succeeds
  without having looked at any broker.\<close>

lemma invalid_storage_succeeds:
  "let c = one_broker\<lparr>kcSpec := (kcSpec one_broker)\<lparr>Brokers := [(broker_node 0)\<lparr>brokerBrokerConfig :=
         Some (zero_BrokerConfig\<lparr>StorageConfigs := [\<lparr>MountPath = ''/kafka'', PvcSpec = None, PvcStorage = 0, EmptyDir = None\<rparr>]\<rparr>)\<rparr>]\<rparr>\<rparr>
   in fst (Kafka_Reconcile (sample_renv []) c []) = Ret () \<and>
      \<not> list_ex (\<lambda>e. case e of KCreatePod p \<Rightarrow> True | _ \<Rightarrow> False) (snd (snd (Kafka_Reconcile (sample_renv []) c [])))"
  by code_simp

end
