(* ===== verification/Spec2Isabelle.thy ===== *)
theory Spec2Isabelle
  imports PropertiesLoader CCFinalizer CCTaskRequests CCTtlCtl KafkaStorage AlertManager ClusterCtl UserCtl KafkaReconcileFacts
begin

text \<open>
  A verification development for Koperator, the Kubernetes operator for Apache Kafka.

  \<^bold>\<open>The program.\<close> The operator watches \<open>KafkaCluster\<close> resources and keeps the pods, volume claims and services of
  the brokers in step with them (\<open>pkg/resources/kafka\<close>). Work that moves data between brokers is left to
  Cruise Control: the Kafka reconciler only writes into the status of the cluster that a broker or a disk
  needs an action; the task controller (\<open>controllers/cruisecontroltask_controller.go\<close>) turns such states into
  \<open>CruiseControlOperation\<close> resources; the operation controller (\<open>cruisecontroloperation_controller.go\<close>) has them
  executed by Cruise Control, one at a time, through the scaler (\<open>pkg/scale\<close>), and records the results, which
  the task controller copies back into the cluster status; the time-to-live controller deletes finished
  operations. The configuration of brokers is read and compared with the properties library (\<open>properties/pkg\<close>).
  The cluster controller runs the reconcilers of all components in order and takes a cluster down in order; topics and
  users are resources of their own with a controller each, which talk to Kafka through \<open>pkg/kafkaclient\<close>; webhooks check
  clusters and topics before they are stored; alerts of Prometheus are turned into changes of the cluster by the alert
  manager (\<open>internal/alertmanager\<close>).

  \<^bold>\<open>The theories.\<close> Each theory begins with a text that says what it holds.

  \<^item> \<open>Prelude\<close>: the result type \<open>go\<close> of a Go function (a value, an error or a panic), Go maps as association
    lists with distinct keys, and the lemmas on lists and maps that the other theories share.
  \<^item> \<open>GoStd\<close>: the parts of the Go library the program uses: \<open>strings\<close>, \<open>strconv\<close>, UTF-8.
  \<^item> \<open>PropertyText\<close>, \<open>PropertiesStore\<close>, \<open>PropertiesLoader\<close>: \<open>properties/pkg\<close> and the struct tags of
    \<open>properties/internal/utils\<close>. The escaping loops work on indices like the source; the container has the
    two maps and the 64-bit insertion counter of the source.
  \<^item> \<open>CCTypes\<close>: the states, resources and helpers of \<open>api/v1alpha1\<close>, \<open>api/v1beta1\<close> and \<open>api/util\<close>, and the errors.
  \<^item> \<open>CCTask\<close>: \<open>controllers/cruisecontroltask_types.go\<close> and the collection and write-back of the tasks.
  \<^item> \<open>Scaler\<close>: \<open>pkg/scale\<close>, over a Cruise Control client that is a record of functions.
  \<^item> \<open>World\<close>: the Kubernetes API and the clock as a record \<open>env\<close> of functions of the events so far; the retry
    helpers of \<open>pkg/util\<close>; the locale of event properties.
  \<^item> \<open>CCOperationCtl\<close>, \<open>CCSelection\<close>, \<open>CCFinalizer\<close>: the operation controller: definitions and the single execution,
    the choice of the operation, the finalizer and the progress of the queue.
  \<^item> \<open>KafkaConfig\<close>: roles, merged configurations and labels of brokers (\<open>api/v1beta1/kafkacluster_types.go\<close>), the
    helpers of \<open>pkg/util/util.go\<close>.
  \<^item> \<open>CCTaskCtl\<close>, \<open>CCTaskFlow\<close>, \<open>CCTaskRequests\<close>: the task controller: definitions, what a reconcile creates and
    schedules, what the created operations ask from Cruise Control and how the status is written.
  \<^item> \<open>CCTtlCtl\<close>: the time-to-live controller, with 64-bit durations.
  \<^item> \<open>KubeTypes\<close>: the Kubernetes objects that the operator fills and reads.
  \<^item> \<open>KafkaStatus\<close>: \<open>pkg/k8sutil/status.go\<close>, over a second environment \<open>kenv\<close> for the Kafka reconciler.
  \<^item> \<open>KafkaRolling\<close>: the rolling upgrade and the order of the brokers (\<open>pkg/resources/kafka/kafka.go\<close>), the pod
    predicates of \<open>pkg/k8sutil/resource.go\<close>.
  \<^item> \<open>KafkaStorage\<close>: the removal of brokers and of disks, the reconciliation of volume claims.
  \<^item> \<open>KubeClient\<close>: \<open>pkg/k8sutil/resource.go\<close>: creating and updating objects and tracking changes of broker configurations, over an
    environment \<open>renv\<close> that extends \<open>kenv\<close> by the calls of the Kafka reconciler to the API and to libraries.
  \<^item> \<open>BrokerProps\<close>, \<open>BrokerPropsFacts\<close>: the generated configuration of a broker (\<open>pkg/resources/kafka/configmap.go\<close>) and the
    quorum voters: definitions, and what the configuration contains.
  \<^item> \<open>DynamicConfig\<close>: the configuration of running brokers (\<open>configs.go\<close>, \<open>pkg/kafkaclient/dynamicConfig.go\<close>) and racks (\<open>pkg/k8sutil/cr.go\<close>).
  \<^item> \<open>ListenerStatus\<close>: the addresses of internal and external listeners that the status publishes.
  \<^item> \<open>BrokerPod\<close>, \<open>KafkaObjects\<close>: the pod of a broker (\<open>pod.go\<close>); services, disruption budgets, passwords and super users.
  \<^item> \<open>KafkaReconcile\<close>, \<open>KafkaReconcileFacts\<close>: \<open>Reconcile\<close> of \<open>pkg/resources/kafka/kafka.go\<close> as a whole, one definition per phase, and
    which pods and services it creates and deletes when.
  \<^item> \<open>ClusterCtl\<close>: \<open>controllers/kafkacluster_controller.go\<close>: the order of the components, the requeue per error, the
    finalizers and the deletion of a cluster.
  \<^item> \<open>AlertManager\<close>: the store of alerts, the dispatcher and the four commands (\<open>internal/alertmanager\<close>), with the changes
    of the cluster of \<open>pkg/k8sutil/cr.go\<close>.
  \<^item> \<open>Listeners\<close>: ports and addresses of listeners, brokers and services; the webhook for clusters.
  \<^item> \<open>KafkaClient\<close>: topics, access control lists and health checks of \<open>pkg/kafkaclient\<close>, over an environment of its own, also
    called \<open>renv\<close>, for the Kubernetes API and Kafka as the topic and user controllers see them.
  \<^item> \<open>TopicWebhook\<close>, \<open>TopicCtl\<close>, \<open>UserCtl\<close>: the webhook for topics, the topic controller, the user controller.

  \<^bold>\<open>How state and effects are modelled.\<close> A handler takes the environment, its objects and the list of events so
  far, and returns its result, the changed objects and the longer list. A call to the outside appends an event and
  its answer is a function of the events before it, so that answers may change from call to call and any other
  process may act in between. Objects that the source changes through a pointer are returned. Loops are
  structural recursion over the list they range over; the order in which Go traverses a map is the order of the
  association list, or in the Kafka reconciler a function of the environment, and a theorem holds for every order. Integers are words where the code depends on
  their width (broker ids, durations, the counter of the container) and unbounded otherwise.

  \<^bold>\<open>Parameters.\<close> Code outside the repository is an argument: the Kubernetes API and controller-runtime (\<open>env\<close>,
  \<open>kenv\<close>), the HTTP client of Cruise Control (\<open>cc_client\<close>), JSON, unstructured conversion and gzip (\<open>libs\<close>, \<open>kenv\<close>),
  the merge library (\<open>mergo\<close>), the exponential backoff, the patch calculation, the comparison of configurations, the
  Kafka client library (\<open>renv\<close>), decoding key stores, expanding the template of a claim, the metrics endpoint of a broker and the
  backends that issue certificates. What a theorem needs of them is a named
  hypothesis with a concrete instance in its witness: \<open>finalizers_ok\<close>, \<open>backoff_ok\<close>, \<open>appends\<close>, \<open>range_ok\<close>, \<open>stores\<close>,
  \<open>cluster_echoed\<close>, \<open>update_echoed\<close>, \<open>status_echoed\<close>, \<open>user_echoed\<close>, \<open>status_served\<close>, \<open>diff_exact\<close>,
  \<open>accepting\<close>, \<open>iterates\<close>. The reconcilers of the
  components are an argument of the cluster controller (\<open>components_append\<close>).

  \<^bold>\<open>What is shown.\<close>

  \<^item> Properties: the container refines an ordered list and keeps its invariant; printing and loading are
    inverse on printable contents; the loader does not panic; merge, equality and difference are what they
    say; escaping is inverted exactly when no separator is already escaped.
  \<^item> Cruise Control: a reconcile starts at most one piece of work and only when Cruise Control is idle; the
    chosen operation is the most urgent one; the finalizer stays while a task runs; an idle Cruise Control gets
    work when an operation waits; results are recorded and the history keeps at most 50 failures.
  \<^item> Tasks: at most one operation is created per reconcile; its parameters give back the brokers and disks of
    the tasks; a task is scheduled only with an accepted operation of its kind; the status update writes at
    most six times.
  \<^item> Kafka: a pod is restarted only after all checks in the same call; a pod or a claim is removed for good only
    when its broker or its disk has been drained according to the status known at that moment; claims do not
    shrink; brokers are reconciled in the order of their priority; a status write changes only what it names
    and makes at most five calls.
  \<^item> Broker configuration: every key has the value of the first of generated, broker and cluster configuration that sets it; the
    text does not depend on the order of maps; no log directory is lost; a change of it is recorded in the state of its broker as an
    update of the running broker or as a restart; a running broker is changed only by a configuration it has validated, and a
    reconcile that succeeds has seen the broker with it.
  \<^item> Objects and the whole reconcile: every listener is published with the nodes that serve it, and the voters are the controllers; every
    storage is mounted at its path; the disruption budget keeps the pods it says; a pod is created only when the broker has none;
    services of the other addressing scheme are deleted last.
  \<^item> Clusters: the components run in order until the first error, and the state \<open>ClusterRunning\<close> is written only
    when all have succeeded; a cluster is taken down in the order topics, users, certificates, finalizer; the
    webhook admits a cluster exactly when its listeners fit together.
  \<^item> Topics and users: a topic is changed in Kafka only for its own resource and while the operator manages it; a
    reconcile ends when the topic disappears; access is granted only as the resource says; a successful reconcile
    has done all of it; the webhook admits a topic exactly when Kafka can hold it.
  \<^item> Alerts: the spec of a cluster changes only as the command of an alert says, while the cluster runs and within the
    scaling limits; a new broker gets a fresh id; a processed alert is not handled again.

  Lemmas with a remark describe behaviours that look unintended: for example \<open>backup_conflict_reports_success\<close>,
  \<open>goal_check_panics\<close>, \<open>pending_removal_lost\<close>, \<open>empty_dir_panics\<close>, \<open>ttl_wraps_around\<close>, \<open>user_acls_not_deleted\<close>,
  \<open>stale_label_not_written\<close>, \<open>skipped_upscale_processed\<close>, \<open>tls_listener_rejected\<close>, \<open>lost_config_change\<close>, \<open>rack_glued\<close>,
  \<open>alter_answer_ignored\<close>, \<open>host_of_other_ingress\<close> and \<open>invalid_storage_succeeds\<close>.

  \<^bold>\<open>Bounds.\<close> The only loop with a step limit is the retry on conflict: six steps (\<open>BackoffSteps\<close>), the number in the
  source. The wait for a deleted topic may not end; it is a partial function whose value is None then, and
  \<open>topic_deletion_terminates\<close> says when that happens. All other functions are total without fuel.

  \<^bold>\<open>Not modelled.\<close> The objects of the ingress controllers (Envoy, Istio, Contour), the Cruise Control deployment and the
  monitoring objects, which are filled from the spec; the HTTP receiver of alerts; the issuing of certificates, which is mostly
  calls to libraries; reflection (encoding of structs), floating-point numbers, logging, mutexes (operations are atomic) and the
  registration with the manager. In the pod of a broker, embedded scripts are represented by their file names and the timing
  of probes is left out.
\<close>

end
